(* ===== verification/RG_Prelude.thy ===== *)
theory RG_Prelude
  imports Main "HOL-Library.Word"
begin

text \<open>
  Prelude of the Rate Governor development.  It holds what every component
  shares: the names of the machine integer types, the facts that read 64-bit
  words as natural numbers, the collections that carry the automation of the
  component theories, and the ordered association tables that stand for
  \<^verbatim>\<open>std::map\<close>, behind a locale that states what a client may rely on.
\<close>

unbundle bit_operations_syntax

section \<open>Machine integers\<close>

type_synonym u8 = "8 word"
type_synonym u16 = "16 word"
type_synonym u32 = "32 word"
type_synonym u64 = "64 word"
type_synonym TimestampNs = u64

definition kU64Max :: u64 where
  "kU64Max = - 1"

definition kNanosecondsPerSecond :: u64 where
  "kNanosecondsPerSecond = 1000000000"

named_theorems word_nat \<open>rewrite comparisons and operations on words to natural numbers\<close>
named_theorems table_simps \<open>lookup, update and erase on ordered tables\<close>
named_theorems engine_frame \<open>fields that an engine helper leaves alone\<close>

lemma unat_u64_lt [simp]: "unat (w :: u64) < 18446744073709551616"
  using unsigned_less [of w] by simp

lemma unat_u64_le [simp]: "unat (w :: u64) \<le> 18446744073709551615"
  using unat_u64_lt [of w] by linarith

lemma unat_kU64Max [simp, word_nat]: "unat kU64Max = 18446744073709551615"
  by (simp add: kU64Max_def unsigned_minus_1_eq_mask mask_eq_exp_minus_1)

lemma unat_kNanosecondsPerSecond [simp, word_nat]: "unat kNanosecondsPerSecond = 1000000000"
  by (simp add: kNanosecondsPerSecond_def)

lemma le_kU64Max [simp]: "(w :: u64) \<le> kU64Max"
  by (simp add: word_le_nat_alt)

declare word_less_nat_alt [word_nat] word_le_nat_alt [word_nat]

lemma unat_eq_zero [word_nat]: "((w :: u64) = 0) = (unat w = 0)"
  by (simp add: unat_eq_0)

lemma unat_u64_eq [word_nat]: "((v :: u64) = w) = (unat v = unat w)"
  by (simp add: word_unat_eq_iff)

lemma unat_add_u64: "unat ((v :: u64) + w) = (unat v + unat w) mod 18446744073709551616"
  by (simp add: unat_word_ariths)

lemma unat_mult_u64: "unat ((v :: u64) * w) = (unat v * unat w) mod 18446744073709551616"
  by (simp add: unat_word_ariths)

lemma unat_add_exact:
  "unat v + unat w < 18446744073709551616 \<Longrightarrow> unat ((v :: u64) + w) = unat v + unat w"
  by (simp add: unat_add_u64)

lemma unat_mult_exact:
  "unat v * unat w < 18446744073709551616 \<Longrightarrow> unat ((v :: u64) * w) = unat v * unat w"
  by (simp add: unat_mult_u64)

lemma unat_sub_exact: "w \<le> v \<Longrightarrow> unat ((v :: u64) - w) = unat v - unat w"
  by (simp add: unat_sub_if_size word_le_nat_alt)

lemma unat_sub_u64:
  "unat ((v :: u64) - w) =
     (if unat w \<le> unat v then unat v - unat w
      else unat v + 18446744073709551616 - unat w)"
  by (simp add: unat_sub_if_size word_size)

lemma unat_div_u64: "unat ((v :: u64) div w) = unat v div unat w"
  by (simp add: unat_div_distrib)

lemma unat_mod_u64: "unat ((v :: u64) mod w) = unat v mod unat w"
  by (simp add: unat_mod_distrib)

lemma unat_drop_bit_u64: "unat (drop_bit n (w :: u64)) = unat w div 2 ^ n"
  by (metis drop_bit_eq_div unat_drop_bit_eq)

lemma unat_take_bit_u64: "n \<le> 64 \<Longrightarrow> unat (take_bit n (w :: u64)) = unat w mod 2 ^ n"
  by (metis take_bit_eq_mod unsigned_take_bit_eq)

lemma unat_push_bit_u64:
  "unat (push_bit n (w :: u64)) = (unat w * 2 ^ n) mod 18446744073709551616"
proof -
  have "unat (push_bit n w) = take_bit 64 (push_bit n (unat w))"
    by (simp add: unsigned_push_bit_eq)
  then show ?thesis by (simp add: push_bit_eq_mult take_bit_eq_mod)
qed

text \<open>Two words with no bit in common: bitwise or is addition.\<close>

lemma or_disjoint_add:
  fixes v w :: u64
  assumes "v AND w = 0"
  shows "v OR w = v + w"
  using assms by (simp add: disjunctive_add_eq_or)

lemma push_take_disjoint: "push_bit n (v :: u64) AND take_bit n w = 0"
  by (rule bit_word_eqI) (auto simp: bit_simps)

lemma or_push_take: "push_bit n (v :: u64) OR take_bit n w = push_bit n v + take_bit n w"
  by (rule or_disjoint_add) (rule push_take_disjoint)

lemma unat_of_nat_u64: "n < 18446744073709551616 \<Longrightarrow> unat (of_nat n :: u64) = n"
  by (simp add: unsigned_of_nat take_bit_nat_eq_self)

lemma of_nat_eqI_u64: "unat (w :: u64) = n \<Longrightarrow> w = of_nat n"
  by auto

section \<open>Ordered tables\<close>

text \<open>
  A \<^verbatim>\<open>std::map<u64, V>\<close> is an association list with strictly ascending keys:
  iteration visits the entries in the order of the list, which is the order in
  which the C++ loops over \<open>envelopes_\<close>, \<open>attempts_\<close> and the authority tables run.
\<close>

type_synonym 'v table = "(u64 \<times> 'v) list"

primrec table_find :: "'v table \<Rightarrow> u64 \<Rightarrow> 'v option" where
  "table_find [] k = None"
| "table_find (e # m) k = (if fst e = k then Some (snd e) else table_find m k)"

primrec table_put :: "u64 \<Rightarrow> 'v \<Rightarrow> 'v table \<Rightarrow> 'v table" where
  "table_put k v [] = [(k, v)]"
| "table_put k v (e # m) =
     (if k < fst e then (k, v) # e # m
      else if k = fst e then (k, v) # m
      else e # table_put k v m)"

primrec table_erase :: "u64 \<Rightarrow> 'v table \<Rightarrow> 'v table" where
  "table_erase k [] = []"
| "table_erase k (e # m) = (if fst e = k then m else e # table_erase k m)"

definition table_ok :: "'v table \<Rightarrow> bool" where
  "table_ok m = sorted_wrt (<) (map fst m)"

definition table_all :: "('v \<Rightarrow> bool) \<Rightarrow> 'v table \<Rightarrow> bool" where
  "table_all P m = list_all (\<lambda>e. P (snd e)) m"

subsection \<open>What a client of a table relies on\<close>

text \<open>
  The interface between the engine and its tables: lookup after insertion and
  erasure, what the operations keep of the order, and how lookup relates to the
  entries that a loop visits.
\<close>

locale ordered_table =
  fixes find :: "'m \<Rightarrow> 'k \<Rightarrow> 'v option"
    and put :: "'k \<Rightarrow> 'v \<Rightarrow> 'm \<Rightarrow> 'm"
    and erase :: "'k \<Rightarrow> 'm \<Rightarrow> 'm"
    and entries :: "'m \<Rightarrow> ('k \<times> 'v) set"
    and ok :: "'m \<Rightarrow> bool"
  assumes find_put_eq: "find (put k v m) j = (if j = k then Some v else find m j)"
    and find_erase_eq: "ok m \<Longrightarrow> find (erase k m) j = (if j = k then None else find m j)"
    and ok_put: "ok m \<Longrightarrow> ok (put k v m)"
    and ok_erase: "ok m \<Longrightarrow> ok (erase k m)"
    and entries_put: "entries (put k v m) \<subseteq> insert (k, v) (entries m)"
    and entries_erase: "entries (erase k m) \<subseteq> entries m"
    and find_entry: "find m k = Some v \<Longrightarrow> (k, v) \<in> entries m"
    and entry_find: "ok m \<Longrightarrow> (k, v) \<in> entries m \<Longrightarrow> find m k = Some v"
begin

text \<open>A property of all entries survives insertion of a value that has it, and erasure.\<close>

lemma all_put:
  assumes "\<forall>(j, u) \<in> entries m. P u" and "P v"
  shows "\<forall>(j, u) \<in> entries (put k v m). P u"
  using assms entries_put [of k v m] by blast

lemma all_erase:
  assumes "\<forall>(j, u) \<in> entries m. P u"
  shows "\<forall>(j, u) \<in> entries (erase k m). P u"
  using assms entries_erase [of k m] by blast

lemma all_find:
  assumes "\<forall>(j, u) \<in> entries m. P u" and "find m k = Some v"
  shows "P v"
  using assms find_entry by blast

lemma put_other: "j \<noteq> k \<Longrightarrow> find (put k v m) j = find m j"
  by (simp add: find_put_eq)

lemma erase_put_fresh:
  assumes "ok m" and "find m k = None"
  shows "find (erase k (put k v m)) = find m"
  using assms by (auto simp: fun_eq_iff find_erase_eq ok_put find_put_eq)

end

lemma table_find_put [simp, table_simps]:
  "table_find (table_put k v m) j = (if j = k then Some v else table_find m j)"
  by (induction m) auto

lemma table_keys_put: "fst ` set (table_put k v m) = insert k (fst ` set m)"
  by (induction m) auto

lemma table_entries_put: "set (table_put k v m) \<subseteq> insert (k, v) (set m)"
  by (induction m) auto

lemma table_entries_erase: "set (table_erase k m) \<subseteq> set m"
  by (induction m) auto

lemma table_find_entry: "table_find m k = Some v \<Longrightarrow> (k, v) \<in> set m"
  by (induction m) (auto split: if_splits)

lemma table_ok_Nil [simp]: "table_ok []"
  by (simp add: table_ok_def)

lemma table_ok_Cons [simp]: "table_ok (e # m) \<longleftrightarrow> (\<forall>e' \<in> set m. fst e < fst e') \<and> table_ok m"
  by (auto simp: table_ok_def)

lemma table_ok_put: "table_ok m \<Longrightarrow> table_ok (table_put k v m)"
proof (induction m)
  case (Cons e m)
  then show ?case
    using table_entries_put [of k v m] by fastforce
qed simp

lemma table_ok_erase: "table_ok m \<Longrightarrow> table_ok (table_erase k m)"
  by (induction m) (use table_entries_erase in fastforce)+

lemma table_find_absent: "(\<And>e. e \<in> set m \<Longrightarrow> fst e \<noteq> k) \<Longrightarrow> table_find m k = None"
  by (induction m) auto

lemma table_find_erase [table_simps]:
  "table_ok m \<Longrightarrow> table_find (table_erase k m) j = (if j = k then None else table_find m j)"
proof (induction m)
  case (Cons e m)
  have "table_find m (fst e) = None"
    using Cons.prems by (intro table_find_absent) auto
  with Cons show ?case by auto
qed simp

lemma table_entry_find: "table_ok m \<Longrightarrow> (k, v) \<in> set m \<Longrightarrow> table_find m k = Some v"
proof (induction m)
  case (Cons e m)
  show ?case
  proof (cases "e = (k, v)")
    case False
    with Cons.prems have "(k, v) \<in> set m" "fst e \<noteq> k" by auto
    with Cons show ?thesis by simp
  qed simp
qed simp

interpretation tbl: ordered_table table_find table_put table_erase set table_ok
  by unfold_locales
     (rule table_find_put table_find_erase table_ok_put table_ok_erase table_entries_put
        table_entries_erase table_find_entry table_entry_find; assumption)+

lemma table_all_iff: "table_all P m \<longleftrightarrow> (\<forall>(k, v) \<in> set m. P v)"
  by (auto simp: table_all_def list_all_iff)

lemma table_all_put [intro]: "table_all P m \<Longrightarrow> P v \<Longrightarrow> table_all P (table_put k v m)"
  unfolding table_all_iff by (rule tbl.all_put)

lemma table_all_erase [intro]: "table_all P m \<Longrightarrow> table_all P (table_erase k m)"
  unfolding table_all_iff by (rule tbl.all_erase)

lemma table_all_find: "table_all P m \<Longrightarrow> table_find m k = Some v \<Longrightarrow> P v"
  unfolding table_all_iff by (rule tbl.all_find)

lemma table_all_Nil [simp]: "table_all P []"
  by (simp add: table_all_def)

lemma table_all_mono: "table_all P m \<Longrightarrow> (\<And>v. P v \<Longrightarrow> Q v) \<Longrightarrow> table_all Q m"
  by (auto simp: table_all_iff)

text \<open>Committing a list of computed updates, as \<open>for (u : updates) m[u.id] = u\<close> does.\<close>

definition table_put_all :: "('v \<Rightarrow> u64) \<Rightarrow> 'v list \<Rightarrow> 'v table \<Rightarrow> 'v table" where
  "table_put_all key us m = fold (\<lambda>u. table_put (key u) u) us m"

lemma table_put_all_simps [simp]:
  "table_put_all key [] m = m"
  "table_put_all key (u # us) m = table_put_all key us (table_put (key u) u m)"
  by (simp_all add: table_put_all_def)

lemma table_all_put_all:
  "table_all P m \<Longrightarrow> (\<And>u. u \<in> set us \<Longrightarrow> P u) \<Longrightarrow> table_all P (table_put_all key us m)"
  by (induction us arbitrary: m) auto

lemma table_ok_put_all: "table_ok m \<Longrightarrow> table_ok (table_put_all key us m)"
  by (induction us arbitrary: m) (auto simp: table_ok_put)

end
