(* ===== verification/Checked_Math.thy ===== *)
theory Checked_Math
  imports RG_Prelude
begin

text \<open>
  Exact integer arithmetic (\<^verbatim>\<open>include/rate_governor/checked_math.hpp\<close>).  Every
  function works on 64-bit words that wrap, as the C++ does; an out-parameter
  with a boolean result is an option.  The lemmas show that the helpers never
  wrap silently: a result that is reported is the exact one, and failure is
  reported exactly when the exact result does not fit.
\<close>

section \<open>Definitions\<close>

record U128 =
  hi :: u64
  lo :: u64

definition mul_wide :: "u64 \<Rightarrow> u64 \<Rightarrow> U128" where
  "mul_wide a b =
     (let a_lo = a AND 0xFFFFFFFF;
          a_hi = drop_bit 32 a;
          b_lo = b AND 0xFFFFFFFF;
          b_hi = drop_bit 32 b;
          p0 = a_lo * b_lo;
          p1 = a_lo * b_hi;
          p2 = a_hi * b_lo;
          p3 = a_hi * b_hi;
          mid = drop_bit 32 p0 + (p1 AND 0xFFFFFFFF) + (p2 AND 0xFFFFFFFF)
      in \<lparr>hi = p3 + drop_bit 32 p1 + drop_bit 32 p2 + drop_bit 32 mid,
          lo = push_bit 32 mid OR (p0 AND 0xFFFFFFFF)\<rparr>)"

definition compare_wide :: "U128 \<Rightarrow> U128 \<Rightarrow> int" where
  "compare_wide a b =
     (if hi a \<noteq> hi b then (if hi a < hi b then -1 else 1)
      else if lo a \<noteq> lo b then (if lo a < lo b then -1 else 1)
      else 0)"

record DivModWide =
  dm_ok :: bool
  dm_quotient :: u64
  dm_remainder :: u64

text \<open>One bit of the low half comes in at the bottom of the remainder.\<close>

definition shift_in :: "u64 \<Rightarrow> u64 \<Rightarrow> nat \<Rightarrow> u64" where
  "shift_in remainder v k = push_bit 1 remainder OR (drop_bit k v AND 1)"

text \<open>
  The loop \<open>for (bit = 63; bit >= 0; --bit)\<close>: the counter is the number of bits
  that are left, so bit \<open>k\<close> is handled when \<open>Suc k\<close> bits are left.
\<close>

fun divmod_loop :: "u64 \<Rightarrow> u64 \<Rightarrow> nat \<Rightarrow> u64 \<Rightarrow> u64 \<Rightarrow> u64 \<times> u64" where
  "divmod_loop vlo d 0 remainder q = (remainder, q)"
| "divmod_loop vlo d (Suc k) remainder q =
     (let carry = drop_bit 63 remainder;
          r1 = shift_in remainder vlo k
      in if carry \<noteq> 0 \<or> d \<le> r1
         then divmod_loop vlo d k (r1 - d) (q OR push_bit k 1)
         else divmod_loop vlo d k r1 q)"

definition divmod_wide :: "U128 \<Rightarrow> u64 \<Rightarrow> DivModWide" where
  "divmod_wide v divisor =
     (if divisor = 0 then \<lparr>dm_ok = False, dm_quotient = 0, dm_remainder = 0\<rparr>
      else if divisor \<le> hi v then \<lparr>dm_ok = False, dm_quotient = 0, dm_remainder = 0\<rparr>
      else case divmod_loop (lo v) divisor 64 (hi v) 0 of
             (r, q) \<Rightarrow> \<lparr>dm_ok = True, dm_quotient = q, dm_remainder = r\<rparr>)"

fun mul_mod_loop :: "u64 \<Rightarrow> u64 \<Rightarrow> nat \<Rightarrow> u64 \<Rightarrow> u64" where
  "mul_mod_loop plo m 0 remainder = remainder"
| "mul_mod_loop plo m (Suc k) remainder =
     (let carry = drop_bit 63 remainder;
          r1 = shift_in remainder plo k
      in if carry \<noteq> 0 \<or> m \<le> r1 then mul_mod_loop plo m k (r1 - m)
         else mul_mod_loop plo m k r1)"

definition mul_mod :: "u64 \<Rightarrow> u64 \<Rightarrow> u64 \<Rightarrow> u64 option" where
  "mul_mod a b m =
     (if m = 0 then None
      else let product = mul_wide a b
           in Some (mul_mod_loop (lo product) m 64 (hi product mod m)))"

record MulDivMod =
  mdm_ok :: bool
  mdm_quotient :: u64
  mdm_remainder :: u64

definition mul_div_mod :: "u64 \<Rightarrow> u64 \<Rightarrow> u64 \<Rightarrow> MulDivMod" where
  "mul_div_mod a b d =
     (if d = 0 then \<lparr>mdm_ok = False, mdm_quotient = 0, mdm_remainder = 0\<rparr>
      else let dm = divmod_wide (mul_wide a b) d
           in if \<not> dm_ok dm then \<lparr>mdm_ok = False, mdm_quotient = 0, mdm_remainder = 0\<rparr>
              else \<lparr>mdm_ok = True, mdm_quotient = dm_quotient dm, mdm_remainder = dm_remainder dm\<rparr>)"

definition mul_div :: "u64 \<Rightarrow> u64 \<Rightarrow> u64 \<Rightarrow> u64 option" where
  "mul_div a b d =
     (let r = mul_div_mod a b d in if \<not> mdm_ok r then None else Some (mdm_quotient r))"

definition checked_add :: "u64 \<Rightarrow> u64 \<Rightarrow> u64 option" where
  "checked_add a b = (if kU64Max - b < a then None else Some (a + b))"

definition checked_sub :: "u64 \<Rightarrow> u64 \<Rightarrow> u64 option" where
  "checked_sub a b = (if a < b then None else Some (a - b))"

definition checked_mul :: "u64 \<Rightarrow> u64 \<Rightarrow> u64 option" where
  "checked_mul a b = (if a \<noteq> 0 \<and> kU64Max div a < b then None else Some (a * b))"

definition saturating_add :: "u64 \<Rightarrow> u64 \<Rightarrow> u64" where
  "saturating_add a b = (if kU64Max - b < a then kU64Max else a + b)"

definition saturating_mul :: "u64 \<Rightarrow> u64 \<Rightarrow> u64" where
  "saturating_mul a b = (case checked_mul a b of Some v \<Rightarrow> v | None \<Rightarrow> kU64Max)"

definition saturating_sub :: "u64 \<Rightarrow> u64 \<Rightarrow> u64" where
  "saturating_sub a b = (if a < b then 0 else a - b)"

definition saturating_mul_div :: "u64 \<Rightarrow> u64 \<Rightarrow> u64 \<Rightarrow> u64" where
  "saturating_mul_div a b d =
     (let dm = divmod_wide (mul_wide a b) d in if dm_ok dm then dm_quotient dm else kU64Max)"

function gcd_u64 :: "u64 \<Rightarrow> u64 \<Rightarrow> u64" where
  "gcd_u64 a b = (if b \<noteq> 0 then gcd_u64 b (a mod b) else a)"
  by pat_completeness auto
termination
  by (relation "measure (\<lambda>(a, b). unat b)")
     (auto simp: unat_mod_u64 unat_gt_0)

declare gcd_u64.simps [simp del]

definition clamp_u64 :: "u64 \<Rightarrow> u64 \<Rightarrow> u64 \<Rightarrow> u64" where
  "clamp_u64 v low high = (if v < low then low else if high < v then high else v)"

section \<open>The widening product\<close>

definition wide_value :: "U128 \<Rightarrow> nat" where
  "wide_value w = unat (hi w) * 18446744073709551616 + unat (lo w)"

lemma and_mask32: "unat (w AND 0xFFFFFFFF :: u64) = unat w mod 4294967296"
proof -
  have "w AND 0xFFFFFFFF = take_bit 32 w"
    by (simp add: take_bit_eq_mask mask_eq_exp_minus_1)
  then show ?thesis by (simp add: unat_take_bit_u64)
qed

lemma mult_below_square: "(a :: nat) < B \<Longrightarrow> b < B \<Longrightarrow> a * b < B * B"
  by (simp add: mult_strict_mono')

text \<open>The four partial products of the schoolbook multiplication in any base.\<close>

lemma schoolbook:
  fixes al ah bl bh B :: nat
  assumes lt: "al < B" "ah < B" "bl < B" "bh < B"
  defines "mid \<equiv> al * bl div B + al * bh mod B + ah * bl mod B"
  shows "(ah * B + al) * (bh * B + bl) =
         (ah * bh + al * bh div B + ah * bl div B + mid div B) * (B * B)
         + ((mid mod B) * B + al * bl mod B)"
    and "mid < 3 * B"
    and "ah * bh + al * bh div B + ah * bl div B + mid div B < B * B"
proof -
  have B: "0 < B" using lt(1) by simp
  have "al * bl div B < B"
    using mult_below_square [OF lt(1,3)] by (simp add: less_mult_imp_div_less)
  moreover have "al * bh mod B < B" "ah * bl mod B < B"
    using B by simp_all
  ultimately show "mid < 3 * B"
    unfolding mid_def by linarith
  have split: "n * k = n div B * B * k + n mod B * k" for n k
    by (metis add_mult_distrib div_mult_mod_eq)
  have "(ah * B + al) * (bh * B + bl) = ah * bh * (B * B) + (al * bh) * B + (ah * bl) * B + al * bl * 1"
    by (simp add: algebra_simps)
  also have "\<dots> = ah * bh * (B * B) + (al * bh div B * B * B + al * bh mod B * B)
      + (ah * bl div B * B * B + ah * bl mod B * B) + (al * bl div B * B + al * bl mod B)"
    using split [of "al * bh" B] split [of "ah * bl" B] split [of "al * bl" 1] by simp
  also have "\<dots> = (ah * bh + al * bh div B + ah * bl div B) * (B * B) + mid * B + al * bl mod B"
    unfolding mid_def by (simp add: algebra_simps)
  also have "mid * B = mid div B * B * B + mid mod B * B"
    by (rule split)
  finally show eq: "(ah * B + al) * (bh * B + bl) =
      (ah * bh + al * bh div B + ah * bl div B + mid div B) * (B * B)
      + ((mid mod B) * B + al * bl mod B)"
    by (simp add: algebra_simps)
  have "ah * B + al < B * B" "bh * B + bl < B * B"
    using lt mult_le_mono1 [of "Suc ah" B B] mult_le_mono1 [of "Suc bh" B B] by simp_all
  then have "(ah * B + al) * (bh * B + bl) < (B * B) * (B * B)"
    by (rule mult_below_square)
  then have "(ah * bh + al * bh div B + ah * bl div B + mid div B) * (B * B) < (B * B) * (B * B)"
    unfolding eq by linarith
  then show "ah * bh + al * bh div B + ah * bl div B + mid div B < B * B"
    by simp
qed

lemma or_push_low:
  fixes m p :: u64
  assumes "p = p AND 0xFFFFFFFF"
  shows "unat (push_bit 32 m OR p) = unat m mod 4294967296 * 4294967296 + unat p"
proof -
  have p: "p = take_bit 32 p"
    using assms by (simp add: take_bit_eq_mask mask_eq_exp_minus_1)
  have "push_bit 32 m OR p = push_bit 32 m + p"
    using p or_push_take [of 32 m p] by simp
  moreover have "unat (push_bit 32 m) = unat m mod 4294967296 * 4294967296"
    using mod_mult_mult2 [of "unat m" 4294967296 4294967296] by (simp add: unat_push_bit_u64)
  moreover have "unat p < 4294967296"
    using and_mask32 [of p] assms by (metis mod_less_divisor zero_less_numeral)
  moreover have "unat m mod 4294967296 < 4294967296"
    by simp
  ultimately show ?thesis
    by (simp add: unat_add_exact)
qed

lemma unat_add4:
  "unat ((u :: u64) + v + w + z) = (unat u + unat v + unat w + unat z) mod 18446744073709551616"
  by (simp add: unat_add_u64 mod_simps add.assoc)

lemma mul_wide_value: "wide_value (mul_wide a b) = unat a * unat b"
proof -
  let ?B = "4294967296 :: nat"
  define al ah bl bh where "al = unat a mod ?B" and "ah = unat a div ?B"
    and "bl = unat b mod ?B" and "bh = unat b div ?B"
  note ds = al_def ah_def bl_def bh_def
  define mid where "mid = al * bl div ?B + al * bh mod ?B + ah * bl mod ?B"
  have lt: "al < ?B" "ah < ?B" "bl < ?B" "bh < ?B"
    unfolding ds by (simp_all add: less_mult_imp_div_less)
  note sb = schoolbook [OF lt, folded mid_def]
  have sq: "x * y < 18446744073709551616" if "x < ?B" "y < ?B" for x y :: nat
    using mult_below_square [OF that] by simp
  have p0: "unat ((a AND 0xFFFFFFFF) * (b AND 0xFFFFFFFF)) = al * bl"
    using sq [OF lt(1,3)] by (simp add: unat_mult_exact and_mask32 ds)
  have p1: "unat ((a AND 0xFFFFFFFF) * drop_bit 32 b) = al * bh"
    using sq [OF lt(1,4)] by (simp add: unat_mult_exact and_mask32 unat_drop_bit_u64 ds)
  have p2: "unat (drop_bit 32 a * (b AND 0xFFFFFFFF)) = ah * bl"
    using sq [OF lt(2,3)] by (simp add: unat_mult_exact and_mask32 unat_drop_bit_u64 ds)
  have p3: "unat (drop_bit 32 a * drop_bit 32 b) = ah * bh"
    using sq [OF lt(2,4)] by (simp add: unat_mult_exact unat_drop_bit_u64 ds)
  let ?p0 = "(a AND 0xFFFFFFFF) * (b AND 0xFFFFFFFF)" and ?p1 = "(a AND 0xFFFFFFFF) * drop_bit 32 b"
    and ?p2 = "drop_bit 32 a * (b AND 0xFFFFFFFF)" and ?p3 = "drop_bit 32 a * drop_bit 32 b"
  let ?mid = "drop_bit 32 ?p0 + (?p1 AND 0xFFFFFFFF) + (?p2 AND 0xFFFFFFFF)"
  have mid: "unat ?mid = mid"
    using sb(2) unfolding mid_def
    by (simp add: unat_add_u64 unat_drop_bit_u64 and_mask32 p0 p1 p2)
  have lo': "unat (lo (mul_wide a b)) = mid mod ?B * ?B + al * bl mod ?B"
  proof -
    have "?p0 AND 0xFFFFFFFF = (?p0 AND 0xFFFFFFFF) AND 0xFFFFFFFF"
      by (simp add: and.assoc)
    from or_push_low [OF this, of ?mid] show ?thesis
      by (simp add: mul_wide_def Let_def mid and_mask32 p0)
  qed
  have hi': "unat (hi (mul_wide a b)) = ah * bh + al * bh div ?B + ah * bl div ?B + mid div ?B"
  proof -
    have "unat (hi (mul_wide a b)) =
        (unat ?p3 + unat (drop_bit 32 ?p1) + unat (drop_bit 32 ?p2) + unat (drop_bit 32 ?mid))
          mod 18446744073709551616"
      unfolding mul_wide_def Let_def U128.simps unat_add4 ..
    also have "\<dots> = ah * bh + al * bh div ?B + ah * bl div ?B + mid div ?B"
      using sb(3) unfolding unat_drop_bit_u64 mid p1 p2 p3 by simp
    finally show ?thesis .
  qed
  have "unat a = ah * ?B + al" "unat b = bh * ?B + bl"
    unfolding ds by simp_all
  then show ?thesis
    using sb(1) by (simp add: wide_value_def lo' hi')
qed

lemma wide_value_less:
  "wide_value a < wide_value b \<longleftrightarrow> hi a < hi b \<or> hi a = hi b \<and> lo a < lo b"
proof -
  have "unat (lo a) < 18446744073709551616" "unat (lo b) < 18446744073709551616"
    by simp_all
  then show ?thesis
    unfolding wide_value_def word_nat by (auto simp del: unat_u64_lt)
qed

lemma compare_wide_correct:
  "compare_wide a b = sgn (int (wide_value a) - int (wide_value b))"
proof -
  have "sgn (int m - int n) = (if m < n then -1 else if n < m then 1 else 0)" for m n
    by (auto simp: sgn_if)
  then show ?thesis
    by (auto simp: compare_wide_def wide_value_less not_less_iff_gr_or_eq)
qed

section \<open>Shift-and-subtract division\<close>

text \<open>One step: the remainder is doubled, the next bit comes in, the divisor goes out.\<close>

lemma unat_shift_in:
  "unat (shift_in r v k) = (2 * unat r + unat v div 2 ^ k mod 2) mod 18446744073709551616"
proof -
  have b: "drop_bit k v AND 1 = take_bit 1 (drop_bit k v)"
    using take_bit_eq_mask [of 1 "drop_bit k v"] by (simp add: mask_eq_exp_minus_1)
  have ub: "unat (take_bit 1 (drop_bit k v)) = unat v div 2 ^ k mod 2"
    using unat_take_bit_u64 [of 1 "drop_bit k v"] unat_drop_bit_u64 [of k v] by simp
  have "shift_in r v k = push_bit 1 r + take_bit 1 (drop_bit k v)"
    unfolding shift_in_def b by (rule or_push_take)
  then show ?thesis
    using ub unat_push_bit_u64 [of 1 r]
    by (simp add: unat_add_u64 mod_add_left_eq mult.commute)
qed

definition sub_step :: "u64 \<Rightarrow> u64 \<Rightarrow> nat \<Rightarrow> u64 \<Rightarrow> bool" where
  "sub_step v d k r \<longleftrightarrow> drop_bit 63 r \<noteq> 0 \<or> d \<le> shift_in r v k"

lemma sub_step_iff:
  assumes "unat r < unat d"
  shows "sub_step v d k r \<longleftrightarrow> unat d \<le> 2 * unat r + unat v div 2 ^ k mod 2"
proof -
  have carry: "drop_bit 63 r \<noteq> 0 \<longleftrightarrow> 9223372036854775808 \<le> unat r"
    using unat_drop_bit_u64 [of 63 r] by (simp add: word_nat div_eq_0_iff not_less)
  show ?thesis
  proof (cases "9223372036854775808 \<le> unat r")
    case True
    then have "unat d \<le> 2 * unat r" using unat_u64_lt [of d] by linarith
    with True carry show ?thesis by (simp add: sub_step_def)
  next
    case False
    then have "unat (shift_in r v k) = 2 * unat r + unat v div 2 ^ k mod 2"
      by (simp add: unat_shift_in)
    with False carry show ?thesis by (simp add: sub_step_def word_le_nat_alt)
  qed
qed

lemma sub_step_remainder:
  fixes r v d :: u64 and k :: nat
  assumes "unat r < unat d"
  defines "x \<equiv> 2 * unat r + unat v div 2 ^ k mod 2"
  shows "unat (if sub_step v d k r then shift_in r v k - d else shift_in r v k) = x mod unat d"
    and "x div unat d = (if sub_step v d k r then 1 else 0)"
proof -
  have d: "unat d < 18446744073709551616" by simp
  have "unat v div 2 ^ k mod 2 \<le> 1" by simp
  then have x2: "x < 2 * unat d" using assms by linarith
  note iff = sub_step_iff [OF assms(1), of v k, folded x_def]
  note val = unat_shift_in [of r v k, folded x_def]
  show "x div unat d = (if sub_step v d k r then 1 else 0)"
    using x2 iff by (auto intro: div_nat_eqI)
  show "unat (if sub_step v d k r then shift_in r v k - d else shift_in r v k) = x mod unat d"
  proof (cases "sub_step v d k r")
    case True
    with iff have dx: "unat d \<le> x" by simp
    then have m: "x mod unat d = x - unat d"
      using x2 by (simp add: le_mod_geq)
    have "x - 18446744073709551616 < 18446744073709551616"
      using x2 d by linarith
    then have "x mod 18446744073709551616 =
        (if x < 18446744073709551616 then x else x - 18446744073709551616)"
      by (simp add: le_mod_geq)
    then show ?thesis
      using True x2 d dx unat_sub_u64 [of "shift_in r v k" d] by (simp add: val m split: if_splits)
  next
    case False
    with iff have "x < unat d" by simp
    moreover from this d have "x < 18446744073709551616" by linarith
    ultimately show ?thesis using False by (simp add: val)
  qed
qed

text \<open>What the two halves contribute when \<open>k\<close> low bits are still to be read.\<close>

lemma wide_prefix_step:
  assumes "k < 64"
  shows "wide_value v div 2 ^ k
         = 2 * (wide_value v div 2 ^ Suc k) + unat (lo v) div 2 ^ k mod 2"
proof -
  have "(18446744073709551616 :: nat) = 2 ^ k * (2 * 2 ^ (63 - k))"
  proof -
    have "(2 :: nat) ^ k * (2 * 2 ^ (63 - k)) = 2 ^ (k + Suc (63 - k))"
      by (simp only: power_add power_Suc)
    also have "k + Suc (63 - k) = 64" using assms by simp
    finally show ?thesis by simp
  qed
  then have "wide_value v = unat (lo v) + 2 ^ k * (2 * (unat (hi v) * 2 ^ (63 - k)))"
    unfolding wide_value_def by (metis add.commute mult.left_commute)
  then have "wide_value v div 2 ^ k = 2 * (unat (hi v) * 2 ^ (63 - k)) + unat (lo v) div 2 ^ k"
    by simp
  then have "wide_value v div 2 ^ k mod 2 = unat (lo v) div 2 ^ k mod 2"
    by simp
  moreover have "wide_value v div 2 ^ Suc k = wide_value v div 2 ^ k div 2"
    by (metis div_mult2_eq power_Suc2)
  ultimately show ?thesis
    by (metis mult_div_mod_eq)
qed

lemma quot_rem_step:
  fixes p d b :: nat
  shows "(2 * p + b) mod d = (2 * (p mod d) + b) mod d"
    and "0 < d \<Longrightarrow> (2 * p + b) div d = 2 * (p div d) + (2 * (p mod d) + b) div d"
proof -
  show "(2 * p + b) mod d = (2 * (p mod d) + b) mod d"
    by (metis mod_add_left_eq mod_mult_right_eq)
  assume "0 < d"
  have "2 * p + b = 2 * (p mod d) + b + d * (2 * (p div d))"
    by (metis add.commute add.left_commute distrib_left mult.left_commute mult_div_mod_eq)
  with \<open>0 < d\<close> show "(2 * p + b) div d = 2 * (p div d) + (2 * (p mod d) + b) div d"
    by (metis div_mult_self2 less_numeral_extra(3) add.commute)
qed

lemma mul_mod_loop_Suc:
  "mul_mod_loop v d (Suc k) r =
     mul_mod_loop v d k (if sub_step v d k r then shift_in r v k - d else shift_in r v k)"
  by (simp add: Let_def sub_step_def)

lemma divmod_loop_Suc:
  "divmod_loop v d (Suc k) r q =
     divmod_loop v d k (if sub_step v d k r then shift_in r v k - d else shift_in r v k)
       (if sub_step v d k r then q OR push_bit k 1 else q)"
  by (simp add: Let_def sub_step_def)

lemma mul_mod_loop_invariant:
  assumes "0 < unat d" and "k \<le> 64" and "unat r = wide_value v div 2 ^ k mod unat d"
  shows "unat (mul_mod_loop (lo v) d k r) = wide_value v mod unat d"
  using assms(2,3)
proof (induction k arbitrary: r)
  case 0
  then show ?case by simp
next
  case (Suc k)
  let ?b = "unat (lo v) div 2 ^ k mod 2"
  let ?r' = "if sub_step (lo v) d k r then shift_in r (lo v) k - d else shift_in r (lo v) k"
  have rd: "unat r < unat d" using assms(1) Suc.prems(2) by simp
  have "unat ?r' = (2 * unat r + ?b) mod unat d"
    by (rule sub_step_remainder(1) [OF rd])
  also have "\<dots> = wide_value v div 2 ^ k mod unat d"
    using Suc.prems wide_prefix_step [of k v]
      quot_rem_step(1) [where p = "wide_value v div 2 ^ Suc k" and b = ?b and d = "unat d"] by simp
  finally have "unat (mul_mod_loop (lo v) d k ?r') = wide_value v mod unat d"
    using Suc.prems(1) by (intro Suc.IH) simp_all
  then show ?case by (simp only: mul_mod_loop_Suc)
qed

lemma or_bit_add:
  fixes q :: u64
  assumes "unat q mod 2 ^ Suc k = 0" and "k < 64"
  shows "unat (q OR push_bit k 1) = unat q + 2 ^ k"
proof -
  have k: "unat (push_bit k (1 :: u64)) = 2 ^ k"
  proof -
    have "(2 :: nat) ^ k < 2 ^ 64" using assms(2) by (rule power_strict_increasing) simp
    then show ?thesis using unat_push_bit_u64 [of k 1] by simp
  qed
  have nb: "\<not> bit q j" if "j \<le> k" for j
  proof -
    have "take_bit (Suc k) (unat q) = 0" using assms(1) by (simp add: take_bit_eq_mod)
    then have "\<not> bit (unat q) j"
      using that by (metis bit_0_eq bit_take_bit_iff bot_apply bot_bool_def less_Suc_eq_le)
    then show ?thesis by (simp add: bit_unsigned_iff)
  qed
  have "q AND push_bit k 1 = 0"
    using nb [of k] by (intro bit_word_eqI) (auto simp: bit_simps)
  then have "q OR push_bit k 1 = q + push_bit k 1" by (rule or_disjoint_add)
  moreover have "unat q + 2 ^ k < 18446744073709551616"
  proof -
    obtain c where c: "unat q = c * 2 ^ Suc k" using assms(1) by auto
    define P where "P = (2 :: nat) ^ (63 - k)"
    have e: "(18446744073709551616 :: nat) = P * 2 ^ Suc k"
    proof -
      have "P * 2 ^ Suc k = (2 :: nat) ^ (63 - k + Suc k)" unfolding P_def by (simp only: power_add)
      also have "63 - k + Suc k = 64" using assms(2) by simp
      finally show ?thesis by simp
    qed
    have "c * 2 ^ Suc k < P * 2 ^ Suc k" using unat_u64_lt [of q] c e by metis
    then have "Suc c \<le> P" by simp
    then have "Suc c * 2 ^ Suc k \<le> P * 2 ^ Suc k" by (rule mult_le_mono1)
    moreover have "0 < (2 :: nat) ^ k" by simp
    ultimately show ?thesis unfolding c e mult_Suc power_Suc by linarith
  qed
  ultimately show ?thesis using k by (simp add: unat_add_exact)
qed

lemma divmod_loop_invariant:
  assumes "0 < unat d" and "k \<le> 64"
    and "unat r = wide_value v div 2 ^ k mod unat d"
    and "unat q = wide_value v div 2 ^ k div unat d * 2 ^ k"
  shows "case divmod_loop (lo v) d k r q of
           (r', q') \<Rightarrow> unat r' = wide_value v mod unat d \<and> unat q' = wide_value v div unat d"
  using assms(2-4)
proof (induction k arbitrary: r q)
  case 0
  then show ?case by simp
next
  case (Suc k)
  let ?b = "unat (lo v) div 2 ^ k mod 2"
  let ?S = "sub_step (lo v) d k r"
  let ?r' = "if ?S then shift_in r (lo v) k - d else shift_in r (lo v) k"
  let ?q' = "if ?S then q OR push_bit k 1 else q"
  have rd: "unat r < unat d" using assms(1) Suc.prems(2) by simp
  note step = wide_prefix_step [of k v]
  note qr = quot_rem_step [where p = "wide_value v div 2 ^ Suc k" and b = ?b and d = "unat d"]
  have r': "unat ?r' = wide_value v div 2 ^ k mod unat d"
    using sub_step_remainder(1) [OF rd, of "lo v" k] Suc.prems step qr(1) by simp
  have "wide_value v div 2 ^ k div unat d
      = 2 * (wide_value v div 2 ^ Suc k div unat d) + (if ?S then 1 else 0)"
    using Suc.prems step qr(2) [OF assms(1)] sub_step_remainder(2) [OF rd, of "lo v" k] by simp
  moreover have "unat ?q' = unat q + (if ?S then 2 ^ k else 0)"
    using or_bit_add [of q k] Suc.prems by simp
  ultimately have q': "unat ?q' = wide_value v div 2 ^ k div unat d * 2 ^ k"
    using Suc.prems(3) by (simp add: algebra_simps)
  have "case divmod_loop (lo v) d k ?r' ?q' of
      (r', q') \<Rightarrow> unat r' = wide_value v mod unat d \<and> unat q' = wide_value v div unat d"
    using Suc.prems(1) by (intro Suc.IH r' q') simp
  then show ?case by (simp only: divmod_loop_Suc)
qed

lemma divmod_wide_ok: "dm_ok (divmod_wide v d) \<longleftrightarrow> hi v < d"
  by (auto simp: divmod_wide_def not_le split: prod.splits)

lemma wide_value_bound:
  assumes "hi v < d"
  shows "wide_value v < unat d * 18446744073709551616"
proof -
  from assms have "Suc (unat (hi v)) * 18446744073709551616 \<le> unat d * 18446744073709551616"
    by (intro mult_le_mono1) (simp add: word_less_nat_alt)
  then show ?thesis using unat_u64_lt [of "lo v"] unfolding wide_value_def mult_Suc by linarith
qed

lemma hi_less_iff: "hi v < d \<longleftrightarrow> unat d \<noteq> 0 \<and> wide_value v div unat d < 18446744073709551616"
proof
  assume "hi v < d"
  then show "unat d \<noteq> 0 \<and> wide_value v div unat d < 18446744073709551616"
    using wide_value_bound [of v d]
    by (auto simp: word_less_nat_alt less_mult_imp_div_less mult.commute)
next
  assume a: "unat d \<noteq> 0 \<and> wide_value v div unat d < 18446744073709551616"
  then have "wide_value v < 18446744073709551616 * unat d"
    by (auto simp: div_less_iff_less_mult)
  then have "unat (hi v) * 18446744073709551616 < unat d * 18446744073709551616"
    unfolding wide_value_def by linarith
  then show "hi v < d" by (simp add: word_less_nat_alt)
qed

lemma divmod_wide_exact:
  assumes "dm_ok (divmod_wide v d)"
  shows "unat (dm_quotient (divmod_wide v d)) = wide_value v div unat d"
    and "unat (dm_remainder (divmod_wide v d)) = wide_value v mod unat d"
proof -
  from assms have lt: "hi v < d" by (simp add: divmod_wide_ok)
  then have d: "0 < unat d" by (simp add: word_less_nat_alt)
  have h: "wide_value v div 2 ^ 64 = unat (hi v)"
    using unat_u64_lt [of "lo v"] by (simp add: wide_value_def)
  from lt have "unat (hi v) < unat d" by (simp add: word_less_nat_alt)
  then have "case divmod_loop (lo v) d 64 (hi v) 0 of
      (r', q') \<Rightarrow> unat r' = wide_value v mod unat d \<and> unat q' = wide_value v div unat d"
    using d h by (intro divmod_loop_invariant) simp_all
  then show "unat (dm_quotient (divmod_wide v d)) = wide_value v div unat d"
    and "unat (dm_remainder (divmod_wide v d)) = wide_value v mod unat d"
    using lt d by (auto simp: divmod_wide_def split: prod.splits)
qed

section \<open>Checked and saturating operations\<close>

lemma max_minus_less: "kU64Max - b < a \<longleftrightarrow> 18446744073709551616 \<le> unat a + unat b"
proof -
  have "unat (kU64Max - b) = 18446744073709551615 - unat b"
    by (simp add: unat_sub_exact)
  then show ?thesis
    using unat_u64_lt [of b] unfolding word_less_nat_alt by linarith
qed

lemma max_div_less:
  assumes "a \<noteq> 0"
  shows "kU64Max div a < b \<longleftrightarrow> 18446744073709551616 \<le> unat a * unat b"
proof -
  have a: "0 < unat a" using assms by (simp add: unat_gt_0)
  have "kU64Max div a < b \<longleftrightarrow> 18446744073709551615 div unat a < unat b"
    by (simp add: word_less_nat_alt unat_div_u64)
  also have "\<dots> \<longleftrightarrow> 18446744073709551615 < unat b * unat a"
    using a by (rule div_less_iff_less_mult)
  finally show ?thesis unfolding mult.commute [of "unat b"] by linarith
qed

lemma unat_saturating_add: "unat (saturating_add a b) = min 18446744073709551615 (unat a + unat b)"
  by (simp add: saturating_add_def max_minus_less unat_add_exact)

lemma checked_add_eq:
  "checked_add a b =
     (if unat a + unat b < 18446744073709551616 then Some (of_nat (unat a + unat b)) else None)"
  by (auto simp: checked_add_def max_minus_less)

lemma checked_sub_eq:
  "checked_sub a b = (if unat b \<le> unat a then Some (of_nat (unat a - unat b)) else None)"
  by (auto simp: checked_sub_def word_less_nat_alt word_le_nat_alt unat_sub_exact
      intro!: of_nat_eqI_u64)

lemma checked_mul_eq:
  "checked_mul a b =
     (if unat a * unat b < 18446744073709551616 then Some (of_nat (unat a * unat b)) else None)"
  by (cases "a = 0") (auto simp: checked_mul_def max_div_less)

lemma clamp_u64_bounds:
  "low \<le> high \<Longrightarrow> low \<le> clamp_u64 v low high \<and> clamp_u64 v low high \<le> high"
  by (auto simp: clamp_u64_def)

lemma clamp_u64_id: "low \<le> v \<Longrightarrow> v \<le> high \<Longrightarrow> clamp_u64 v low high = v"
  by (auto simp: clamp_u64_def)

lemma clamp_u64_eq_min: "low \<le> v \<Longrightarrow> low \<le> high \<Longrightarrow> clamp_u64 v low high = min v high"
  by (auto simp: clamp_u64_def min_def)

section \<open>Properties\<close>

text \<open>
  The 64 by 64 bit multiplication assembled from four 32-bit partial products
  is exact: the two halves together are the mathematical product.
\<close>

theorem mul_wide_exact:
  "unat (hi (mul_wide a b)) * 2 ^ 64 + unat (lo (mul_wide a b)) = unat a * unat b"
  using mul_wide_value [of a b] by (simp add: wide_value_def)

text \<open>
  C20: \<open>mul_div_mod\<close> returns exactly the floor of the product over the divisor and
  the exact remainder whenever the divisor is not zero and the quotient fits in 64
  bits, and reports failure in every other case: it never wraps.
\<close>

theorem mul_div_mod_exact:
  "mul_div_mod a b d =
     (if unat d \<noteq> 0 \<and> unat a * unat b div unat d < 2 ^ 64
      then \<lparr>mdm_ok = True, mdm_quotient = of_nat (unat a * unat b div unat d),
            mdm_remainder = of_nat (unat a * unat b mod unat d)\<rparr>
      else \<lparr>mdm_ok = False, mdm_quotient = 0, mdm_remainder = 0\<rparr>)"
proof (cases "unat d \<noteq> 0 \<and> unat a * unat b div unat d < 2 ^ 64")
  case True
  then have ok: "dm_ok (divmod_wide (mul_wide a b) d)"
    by (simp add: divmod_wide_ok hi_less_iff mul_wide_value)
  from divmod_wide_exact [OF ok]
  have "dm_quotient (divmod_wide (mul_wide a b) d) = of_nat (unat a * unat b div unat d)"
    and "dm_remainder (divmod_wide (mul_wide a b) d) = of_nat (unat a * unat b mod unat d)"
    by (simp_all add: mul_wide_value of_nat_eqI_u64)
  with ok True show ?thesis by (auto simp: mul_div_mod_def Let_def)
next
  case False
  then have "d = 0 \<or> \<not> dm_ok (divmod_wide (mul_wide a b) d)"
    by (auto simp: divmod_wide_ok hi_less_iff mul_wide_value)
  with False show ?thesis by (auto simp: mul_div_mod_def Let_def)
qed

text \<open>
  \<open>mul_mod\<close> is the exact residue of the 128-bit product for every modulus but
  zero, with no restriction on the size of the quotient.
\<close>

theorem mul_mod_exact:
  "mul_mod a b m = (if m = 0 then None else Some (of_nat (unat a * unat b mod unat m)))"
proof (cases "m = 0")
  case False
  then have m: "0 < unat m" by (simp add: unat_gt_0)
  let ?v = "mul_wide a b"
  have "wide_value ?v div 2 ^ 64 = unat (hi ?v)"
    using unat_u64_lt [of "lo ?v"] by (simp add: wide_value_def)
  then have "unat (mul_mod_loop (lo ?v) m 64 (hi ?v mod m)) = wide_value ?v mod unat m"
    using m by (intro mul_mod_loop_invariant) (simp_all add: unat_mod_u64)
  then have "mul_mod_loop (lo ?v) m 64 (hi ?v mod m) = of_nat (unat a * unat b mod unat m)"
    by (simp add: mul_wide_value of_nat_eqI_u64)
  with False show ?thesis by (simp add: mul_mod_def Let_def)
qed (simp add: mul_mod_def)

text \<open>
  the checked operations succeed exactly when the mathematical result fits in
  64 bits, and the saturating ones return the mathematical result clipped to the
  representable range.
\<close>

theorem checked_and_saturating_exact:
  "checked_add a b = (if unat a + unat b < 2 ^ 64 then Some (of_nat (unat a + unat b)) else None)
   \<and> checked_sub a b = (if unat b \<le> unat a then Some (of_nat (unat a - unat b)) else None)
   \<and> checked_mul a b = (if unat a * unat b < 2 ^ 64 then Some (of_nat (unat a * unat b)) else None)
   \<and> unat (saturating_add a b) = min (2 ^ 64 - 1) (unat a + unat b)
   \<and> unat (saturating_sub a b) = unat a - unat b
   \<and> unat (saturating_mul a b) = min (2 ^ 64 - 1) (unat a * unat b)"
proof -
  have "unat (saturating_sub a b) = unat a - unat b"
    by (simp add: saturating_sub_def word_nat unat_sub_u64)
  moreover have "unat (saturating_mul a b) = min 18446744073709551615 (unat a * unat b)"
    by (auto simp: saturating_mul_def checked_mul_eq unat_of_nat_u64 simp del: of_nat_mult)
  ultimately show ?thesis
    by (simp add: checked_add_eq checked_sub_eq checked_mul_eq unat_saturating_add)
qed

text \<open>
  The Euclidean loop terminates on every input and returns the greatest common
  divisor.
\<close>

theorem gcd_u64_correct: "unat (gcd_u64 a b) = gcd (unat a) (unat b)"
proof (induction a b rule: gcd_u64.induct)
  case (1 a b)
  show ?case
  proof (cases "b = 0")
    case False
    with 1 have "unat (gcd_u64 b (a mod b)) = gcd (unat b) (unat a mod unat b)"
      by (simp add: unat_mod_u64)
    with False show ?thesis by (simp add: gcd_u64.simps [of a b] gcd.commute gcd_red_nat [of "unat a"])
  qed (simp add: gcd_u64.simps)
qed

end
