(* ===== verification/Bucket.thy ===== *)
theory Bucket
  imports Checked_Math
begin

text \<open>
  Token bucket accounting (\<^verbatim>\<open>include/rate_governor/bucket.hpp\<close>,
  \<^verbatim>\<open>src/bucket.cpp\<close>).  The state is the C++ struct; every operation that
  mutates it returns the new state.  The lemmas show that a balance never leaves
  the range from zero to the capacity, that a refill credits exactly the tokens
  that the elapsed time earns, and that splitting an interval changes nothing.
\<close>

section \<open>State and operations\<close>

record TokenBucket =
  bk_tokens :: u64
  bk_capacity :: u64
  bk_rate_ups :: u64
  bk_last_refill_ns :: TimestampNs
  bk_fractional_numerator :: u64
  bk_initialized :: bool

definition empty_bucket :: TokenBucket where
  "empty_bucket =
     \<lparr>bk_tokens = 0, bk_capacity = 0, bk_rate_ups = 0, bk_last_refill_ns = 0,
      bk_fractional_numerator = 0, bk_initialized = False\<rparr>"

record RefillOutcome =
  ro_clock_regressed :: bool
  ro_saturated :: bool
  ro_tokens_granted :: u64
  ro_tokens_available :: u64
  ro_elapsed_ns :: TimestampNs

definition no_refill :: RefillOutcome where
  "no_refill =
     \<lparr>ro_clock_regressed = False, ro_saturated = False, ro_tokens_granted = 0,
      ro_tokens_available = 0, ro_elapsed_ns = 0\<rparr>"

definition configure_bucket :: "TokenBucket \<Rightarrow> u64 \<Rightarrow> u64 \<Rightarrow> TimestampNs \<Rightarrow> TokenBucket" where
  "configure_bucket b cap rate now =
     b\<lparr>bk_capacity := cap, bk_rate_ups := rate, bk_tokens := cap, bk_last_refill_ns := now,
       bk_fractional_numerator := 0, bk_initialized := True\<rparr>"

definition refill_bucket :: "TokenBucket \<Rightarrow> TimestampNs \<Rightarrow> RefillOutcome \<times> TokenBucket" where
  "refill_bucket b now =
     (if \<not> bk_initialized b then
        let t = (if bk_capacity b < bk_tokens b then bk_capacity b else bk_tokens b)
        in (no_refill\<lparr>ro_tokens_available := t\<rparr>,
            b\<lparr>bk_initialized := True, bk_last_refill_ns := now, bk_tokens := t\<rparr>)
      else if now < bk_last_refill_ns b then
        (no_refill\<lparr>ro_clock_regressed := True, ro_tokens_available := bk_tokens b\<rparr>, b)
      else
        let elapsed = now - bk_last_refill_ns b;
            b1 = b\<lparr>bk_last_refill_ns := now\<rparr>;
            o1 = no_refill\<lparr>ro_elapsed_ns := elapsed\<rparr>
        in if elapsed = 0 \<or> bk_rate_ups b = 0 \<or> bk_capacity b = 0 then
             (if bk_capacity b < bk_tokens b
              then (o1\<lparr>ro_saturated := True, ro_tokens_available := bk_capacity b\<rparr>,
                    b1\<lparr>bk_tokens := bk_capacity b\<rparr>)
              else (o1\<lparr>ro_tokens_available := bk_tokens b\<rparr>, b1))
           else
             let before = bk_tokens b;
                 scaled = mul_div_mod elapsed (bk_rate_ups b) kNanosecondsPerSecond
             in if \<not> mdm_ok scaled then
                  (o1\<lparr>ro_saturated := True, ro_tokens_granted := bk_capacity b - before,
                      ro_tokens_available := bk_capacity b\<rparr>,
                   b1\<lparr>bk_tokens := bk_capacity b, bk_fractional_numerator := 0\<rparr>)
                else
                  let carry = bk_fractional_numerator b + mdm_remainder scaled;
                      granted = saturating_add (mdm_quotient scaled) (carry div kNanosecondsPerSecond);
                      raw = saturating_add before granted;
                      clipped = bk_capacity b < raw;
                      t = (if clipped then bk_capacity b else raw)
                  in (o1\<lparr>ro_saturated := clipped, ro_tokens_granted := t - before,
                         ro_tokens_available := t\<rparr>,
                      b1\<lparr>bk_tokens := t,
                         bk_fractional_numerator := carry mod kNanosecondsPerSecond\<rparr>))"

definition try_consume :: "TokenBucket \<Rightarrow> u64 \<Rightarrow> bool \<times> TokenBucket" where
  "try_consume b amount =
     (if bk_tokens b < amount then (False, b)
      else (True, b\<lparr>bk_tokens := bk_tokens b - amount\<rparr>))"

definition set_bucket_capacity :: "TokenBucket \<Rightarrow> u64 \<Rightarrow> TokenBucket" where
  "set_bucket_capacity b cap =
     (let b1 = b\<lparr>bk_capacity := cap\<rparr>
      in if cap < bk_tokens b1 then b1\<lparr>bk_tokens := cap\<rparr> else b1)"

definition set_bucket_rate :: "TokenBucket \<Rightarrow> u64 \<Rightarrow> TimestampNs \<Rightarrow> TokenBucket" where
  "set_bucket_rate b rate now =
     (let b1 = (if bk_initialized b \<and> bk_last_refill_ns b \<le> now
                then snd (refill_bucket b now) else b)
      in b1\<lparr>bk_rate_ups := rate\<rparr>)"

section \<open>The invariant\<close>

definition bucket_ok :: "TokenBucket \<Rightarrow> bool" where
  "bucket_ok b \<longleftrightarrow>
     bk_tokens b \<le> bk_capacity b \<and> bk_fractional_numerator b < kNanosecondsPerSecond"

lemma mod_second_less [simp]: "w mod kNanosecondsPerSecond < kNanosecondsPerSecond"
  by (simp add: word_less_nat_alt unat_mod_u64)

lemma second_pos [simp]: "0 < kNanosecondsPerSecond"
  by (simp add: word_less_nat_alt)

lemma bucket_ok_empty [simp]: "bucket_ok empty_bucket"
  by (simp add: bucket_ok_def empty_bucket_def)

lemma bucket_ok_configure [simp]: "bucket_ok (configure_bucket b cap rate now)"
  by (simp add: bucket_ok_def configure_bucket_def)

lemma bucket_ok_refill: "bucket_ok b \<Longrightarrow> bucket_ok (snd (refill_bucket b now))"
  by (auto simp: refill_bucket_def bucket_ok_def Let_def not_less)

lemma bucket_ok_consume: "bucket_ok b \<Longrightarrow> bucket_ok (snd (try_consume b n))"
  by (auto simp: try_consume_def bucket_ok_def word_le_nat_alt unat_sub_exact not_less)

lemma bucket_ok_set_capacity: "bucket_ok b \<Longrightarrow> bucket_ok (set_bucket_capacity b cap)"
  by (auto simp: set_bucket_capacity_def bucket_ok_def Let_def not_less)

lemma bucket_ok_set_rate: "bucket_ok b \<Longrightarrow> bucket_ok (set_bucket_rate b rate now)"
  using bucket_ok_refill [of b now]
  by (auto simp: set_bucket_rate_def bucket_ok_def Let_def)

lemma bucket_ok_drain: "bucket_ok b \<Longrightarrow> bucket_ok (b\<lparr>bk_tokens := 0\<rparr>)"
  by (simp add: bucket_ok_def)

lemma refill_keeps_config:
  "bk_capacity (snd (refill_bucket b now)) = bk_capacity b"
  "bk_rate_ups (snd (refill_bucket b now)) = bk_rate_ups b"
  "bk_initialized (snd (refill_bucket b now))"
  by (auto simp: refill_bucket_def Let_def)

section \<open>What a refill credits\<close>

text \<open>Numerator, over one second, of what the bucket has earned since its anchor.\<close>

definition earned :: "TokenBucket \<Rightarrow> TimestampNs \<Rightarrow> nat" where
  "earned b now =
     (unat now - unat (bk_last_refill_ns b)) * unat (bk_rate_ups b)
     + unat (bk_fractional_numerator b)"

lemma carry_split: "(x + f) div n = x div n + (f + x mod n) div (n :: nat)"
proof (cases "n = 0")
  case False
  have "x + f = (f + x mod n) + n * (x div n)" by simp
  then have "(x + f) div n = ((f + x mod n) + n * (x div n)) div n" by simp
  also have "\<dots> = x div n + (f + x mod n) div n"
    using False by (rule div_mult_self2)
  finally show ?thesis .
qed simp

lemma mul_div_mod_values:
  "mdm_ok (mul_div_mod a b d) \<longleftrightarrow> d \<noteq> 0 \<and> unat a * unat b div unat d < 18446744073709551616"
  "mdm_ok (mul_div_mod a b d) \<Longrightarrow> unat (mdm_quotient (mul_div_mod a b d)) = unat a * unat b div unat d"
  "mdm_ok (mul_div_mod a b d) \<Longrightarrow> unat (mdm_remainder (mul_div_mod a b d)) = unat a * unat b mod unat d"
  using divmod_wide_ok [of "mul_wide a b" d] hi_less_iff [of "mul_wide a b" d]
    divmod_wide_exact [of "mul_wide a b" d]
  by (auto simp: mul_div_mod_def Let_def mul_wide_value unat_eq_0)

text \<open>The branch of a refill in which time passed at a nonzero rate.\<close>

definition refill_active :: "TokenBucket \<Rightarrow> TimestampNs \<Rightarrow> bool" where
  "refill_active b now \<longleftrightarrow>
     bk_initialized b \<and> bk_last_refill_ns b < now \<and> bk_rate_ups b \<noteq> 0 \<and> bk_capacity b \<noteq> 0"

lemma refill_active_cases:
  assumes "refill_active b now"
  defines "sc \<equiv> mul_div_mod (now - bk_last_refill_ns b) (bk_rate_ups b) kNanosecondsPerSecond"
  shows "\<not> mdm_ok sc \<Longrightarrow> snd (refill_bucket b now) =
           b\<lparr>bk_last_refill_ns := now, bk_tokens := bk_capacity b, bk_fractional_numerator := 0\<rparr>"
    and "mdm_ok sc \<Longrightarrow> snd (refill_bucket b now) =
           (let carry = bk_fractional_numerator b + mdm_remainder sc;
                raw = saturating_add (bk_tokens b)
                        (saturating_add (mdm_quotient sc) (carry div kNanosecondsPerSecond))
            in b\<lparr>bk_last_refill_ns := now,
                 bk_tokens := (if bk_capacity b < raw then bk_capacity b else raw),
                 bk_fractional_numerator := carry mod kNanosecondsPerSecond\<rparr>)"
  using assms by (auto simp: refill_active_def refill_bucket_def Let_def)

lemma refill_idle:
  assumes "bucket_ok b" "bk_initialized b" "bk_last_refill_ns b \<le> now" "\<not> refill_active b now"
  shows "snd (refill_bucket b now) = b\<lparr>bk_last_refill_ns := now\<rparr>"
  using assms by (auto simp: refill_active_def refill_bucket_def bucket_ok_def Let_def)

lemma carry_exact:
  assumes "bucket_ok b" "mdm_ok sc" "sc = mul_div_mod e r kNanosecondsPerSecond"
  defines "x \<equiv> unat e * unat r" and "f \<equiv> unat (bk_fractional_numerator b)"
  shows "unat (bk_fractional_numerator b + mdm_remainder sc) = f + x mod 1000000000"
    and "unat (saturating_add (mdm_quotient sc)
           ((bk_fractional_numerator b + mdm_remainder sc) div kNanosecondsPerSecond))
         = min 18446744073709551615 ((x + f) div 1000000000)"
proof -
  have rem: "unat (mdm_remainder sc) = x mod 1000000000"
    and quo: "unat (mdm_quotient sc) = x div 1000000000"
    using mul_div_mod_values(2,3) [of e r kNanosecondsPerSecond] assms(2,3) by (auto simp: x_def)
  have "f < 1000000000" using assms(1) by (simp add: bucket_ok_def word_less_nat_alt f_def)
  moreover have "x mod 1000000000 < 1000000000" by simp
  ultimately show carry:
    "unat (bk_fractional_numerator b + mdm_remainder sc) = f + x mod 1000000000"
    using rem by (subst unat_add_exact) (auto simp: f_def)
  show "unat (saturating_add (mdm_quotient sc)
           ((bk_fractional_numerator b + mdm_remainder sc) div kNanosecondsPerSecond))
         = min 18446744073709551615 ((x + f) div 1000000000)"
    by (simp only: unat_saturating_add quo unat_div_u64 carry unat_kNanosecondsPerSecond
        carry_split [symmetric])
qed

lemma min_saturated:
  fixes c m t e :: nat
  assumes "c \<le> m"
  shows "(if c < min m (t + min m e) then c else min m (t + min m e)) = min c (t + e)"
  using assms by (auto simp: min_def)

lemma bucket_fields:
  "bk_tokens (b\<lparr>bk_last_refill_ns := t, bk_tokens := x, bk_fractional_numerator := f\<rparr>) = x"
  by simp

lemma refill_active_exact:
  assumes ok: "bucket_ok b" and act: "refill_active b now"
  shows "unat (bk_tokens (snd (refill_bucket b now)))
           = min (unat (bk_capacity b)) (unat (bk_tokens b) + earned b now div 1000000000)"
    and "mdm_ok (mul_div_mod (now - bk_last_refill_ns b) (bk_rate_ups b) kNanosecondsPerSecond)
         \<Longrightarrow> unat (bk_fractional_numerator (snd (refill_bucket b now))) = earned b now mod 1000000000"
proof -
  let ?e = "now - bk_last_refill_ns b"
  define sc where "sc = mul_div_mod ?e (bk_rate_ups b) kNanosecondsPerSecond"
  have e: "unat ?e = unat now - unat (bk_last_refill_ns b)"
    using act by (simp add: refill_active_def unat_sub_exact order.strict_implies_order)
  have ern: "earned b now = unat ?e * unat (bk_rate_ups b) + unat (bk_fractional_numerator b)"
    by (simp add: earned_def e)
  note cs = refill_active_cases [OF act, folded sc_def]
  have cap: "unat (bk_capacity b) \<le> 18446744073709551615" by simp
  show "unat (bk_tokens (snd (refill_bucket b now)))
          = min (unat (bk_capacity b)) (unat (bk_tokens b) + earned b now div 1000000000)"
  proof (cases "mdm_ok sc")
    case True
    note ce = carry_exact [OF ok True sc_def]
    let ?raw = "saturating_add (bk_tokens b) (saturating_add (mdm_quotient sc)
        ((bk_fractional_numerator b + mdm_remainder sc) div kNanosecondsPerSecond))"
    have "unat ?raw = min 18446744073709551615
        (unat (bk_tokens b) + min 18446744073709551615 (earned b now div 1000000000))"
      by (simp only: unat_saturating_add [of "bk_tokens b"] ce(2) ern)
    then have "unat (if bk_capacity b < ?raw then bk_capacity b else ?raw)
        = min (unat (bk_capacity b)) (unat (bk_tokens b) + earned b now div 1000000000)"
      by (simp only: if_distrib [of unat] word_less_nat_alt min_saturated [OF cap])
    then show ?thesis
      using cs(2) [OF True] by (simp only: Let_def bucket_fields)
  next
    case False
    then have "18446744073709551616 \<le> unat ?e * unat (bk_rate_ups b) div 1000000000"
      using mul_div_mod_values(1) [of ?e "bk_rate_ups b" kNanosecondsPerSecond]
      by (auto simp: sc_def word_nat)
    also have "\<dots> \<le> earned b now div 1000000000"
      by (simp add: ern div_le_mono)
    finally have "unat (bk_capacity b) \<le> unat (bk_tokens b) + earned b now div 1000000000"
      using cap by linarith
    then show ?thesis using cs(1) [OF False] by (simp add: min_def)
  qed
  assume "mdm_ok (mul_div_mod (now - bk_last_refill_ns b) (bk_rate_ups b) kNanosecondsPerSecond)"
  then have ok2: "mdm_ok sc" by (simp add: sc_def)
  show "unat (bk_fractional_numerator (snd (refill_bucket b now))) = earned b now mod 1000000000"
    using cs(2) [OF ok2] carry_exact(1) [OF ok ok2 sc_def]
    by (simp add: Let_def unat_mod_u64 ern mod_simps add.commute)
qed

lemma bucket_frac_lt: "bucket_ok b \<Longrightarrow> unat (bk_fractional_numerator b) div 1000000000 = 0"
  by (simp add: bucket_ok_def word_less_nat_alt)

lemma refill_tokens:
  assumes "bucket_ok b" "bk_initialized b" "bk_last_refill_ns b \<le> now"
  shows "unat (bk_tokens (snd (refill_bucket b now)))
           = min (unat (bk_capacity b)) (unat (bk_tokens b) + earned b now div 1000000000)"
proof (cases "refill_active b now")
  case True
  with assms show ?thesis by (simp add: refill_active_exact)
next
  case False
  have le: "unat (bk_tokens b) \<le> unat (bk_capacity b)"
    using assms(1) by (simp add: bucket_ok_def word_le_nat_alt)
  from False assms consider "bk_last_refill_ns b = now" | "bk_rate_ups b = 0" | "bk_capacity b = 0"
    by (auto simp: refill_active_def)
  then show ?thesis
    using refill_idle [OF assms False] le bucket_frac_lt [OF assms(1)]
    by cases (auto simp: earned_def)
qed

lemma refill_frac:
  assumes "bucket_ok b" "bk_initialized b" "bk_last_refill_ns b \<le> now" "bk_capacity b \<noteq> 0"
    and "earned b now div 1000000000 < 18446744073709551616"
  shows "unat (bk_fractional_numerator (snd (refill_bucket b now))) = earned b now mod 1000000000"
proof (cases "refill_active b now")
  case True
  have "unat (now - bk_last_refill_ns b) * unat (bk_rate_ups b) \<le> earned b now"
    using assms(3) by (simp add: earned_def unat_sub_exact)
  then have "unat (now - bk_last_refill_ns b) * unat (bk_rate_ups b) div 1000000000
      < 18446744073709551616"
    using assms(5) div_le_mono le_less_trans by blast
  then have "mdm_ok (mul_div_mod (now - bk_last_refill_ns b) (bk_rate_ups b) kNanosecondsPerSecond)"
    using mul_div_mod_values(1) by (auto simp: word_nat)
  then show ?thesis by (rule refill_active_exact(2) [OF assms(1) True])
next
  case False
  with assms consider "bk_last_refill_ns b = now" | "bk_rate_ups b = 0"
    by (auto simp: refill_active_def)
  then show ?thesis
    using refill_idle [OF assms(1-3) False] assms(1)
    by cases (auto simp: earned_def bucket_ok_def word_less_nat_alt)
qed

section \<open>Splitting an interval\<close>

lemma refill_anchor:
  assumes "bk_initialized b" "bk_last_refill_ns b \<le> now"
  shows "bk_last_refill_ns (snd (refill_bucket b now)) = now"
  using assms by (auto simp: refill_bucket_def Let_def)

lemma min_carry:
  fixes c t e x n :: nat
  shows "min c (min c (t + e div n) + (x + e mod n) div n) = min c (t + (e + x) div n)"
  using carry_split [of e x n] by (auto simp: min_def)

lemma refill_split:
  assumes "bucket_ok b" "bk_initialized b" "bk_last_refill_ns b \<le> t1" "t1 \<le> t2"
  shows "bk_tokens (snd (refill_bucket (snd (refill_bucket b t1)) t2))
         = bk_tokens (snd (refill_bucket b t2))"
proof -
  let ?b1 = "snd (refill_bucket b t1)" and ?n = "1000000000 :: nat"
  let ?x = "(unat t2 - unat t1) * unat (bk_rate_ups b)" and ?c = "unat (bk_capacity b)"
  have last2: "bk_last_refill_ns b \<le> t2" using assms(3,4) by (rule order.trans)
  have ok1: "bucket_ok ?b1" using assms(1) by (rule bucket_ok_refill)
  have t1: "unat (bk_tokens ?b1) = min ?c (unat (bk_tokens b) + earned b t1 div ?n)"
    by (rule refill_tokens [OF assms(1-3)])
  have "unat t2 - unat (bk_last_refill_ns b)
      = (unat t1 - unat (bk_last_refill_ns b)) + (unat t2 - unat t1)"
    using assms(3,4) by (simp add: word_le_nat_alt)
  then have total: "earned b t2 = earned b t1 + ?x"
    by (simp only: earned_def add_mult_distrib)
  have e2: "earned ?b1 t2 = ?x + unat (bk_fractional_numerator ?b1)"
    by (simp add: earned_def refill_anchor assms refill_keeps_config)
  have two: "unat (bk_tokens (snd (refill_bucket ?b1 t2)))
      = min ?c (unat (bk_tokens ?b1) + earned ?b1 t2 div ?n)"
    using refill_tokens [OF ok1 refill_keeps_config(3), of t2] assms
    by (simp add: refill_anchor refill_keeps_config)
  have one: "unat (bk_tokens (snd (refill_bucket b t2)))
      = min ?c (unat (bk_tokens b) + (earned b t1 + ?x) div ?n)"
    using refill_tokens [OF assms(1,2) last2] total by simp
  have "unat (bk_tokens (snd (refill_bucket ?b1 t2))) = unat (bk_tokens (snd (refill_bucket b t2)))"
  proof (cases "bk_capacity b \<noteq> 0 \<and> earned b t1 div ?n < 18446744073709551616")
    case True
    with assms have "unat (bk_fractional_numerator ?b1) = earned b t1 mod ?n"
      by (intro refill_frac) auto
    then show ?thesis unfolding two t1 e2 one by (simp only: min_carry)
  next
    case False
    then have "?c \<le> earned b t1 div ?n"
      by (auto simp: not_less intro: order.trans [OF order.strict_implies_order [OF unat_u64_lt]])
    moreover have "earned b t1 div ?n \<le> (earned b t1 + ?x) div ?n" by (simp add: div_le_mono)
    ultimately show ?thesis unfolding two t1 one by (simp add: min_def)
  qed
  then show ?thesis by (simp add: word_unat_eq_iff)
qed

text \<open>A schedule of refills: every instant of a list, in order.\<close>

primrec refill_schedule :: "TokenBucket \<Rightarrow> TimestampNs list \<Rightarrow> TokenBucket" where
  "refill_schedule b [] = b"
| "refill_schedule b (t # ts) = refill_schedule (snd (refill_bucket b t)) ts"

section \<open>Properties\<close>

text \<open>
  C17: A refill of a well-formed bucket at a clock reading not before its anchor
  credits exactly the whole tokens that the elapsed nanoseconds, the rate and the
  carried fraction earn, clipped at the capacity; the whole computation is in
  unbounded arithmetic, so no 64-bit overflow, truncation or rounding of the code
  is visible, and the reported grant is what the balance received.
\<close>

theorem refill_bucket_exact:
  assumes "bucket_ok b" "bk_initialized b" "bk_last_refill_ns b \<le> now"
  shows "unat (bk_tokens (snd (refill_bucket b now)))
           = min (unat (bk_capacity b))
               (unat (bk_tokens b)
                + ((unat now - unat (bk_last_refill_ns b)) * unat (bk_rate_ups b)
                   + unat (bk_fractional_numerator b)) div 10 ^ 9)
         \<and> bk_tokens (snd (refill_bucket b now))
           = bk_tokens b + ro_tokens_granted (fst (refill_bucket b now))
         \<and> ro_tokens_available (fst (refill_bucket b now)) = bk_tokens (snd (refill_bucket b now))
         \<and> bk_last_refill_ns (snd (refill_bucket b now)) = now"
proof (intro conjI)
  show "bk_tokens (snd (refill_bucket b now))
      = bk_tokens b + ro_tokens_granted (fst (refill_bucket b now))"
    using assms by (auto simp: refill_bucket_def no_refill_def bucket_ok_def Let_def)
  show "ro_tokens_available (fst (refill_bucket b now)) = bk_tokens (snd (refill_bucket b now))"
    by (auto simp: refill_bucket_def no_refill_def Let_def)
qed (use refill_tokens [OF assms] refill_anchor [OF assms(2,3)] in \<open>simp_all add: earned_def\<close>)

theorem refill_bucket_exact_witness:
  "unat (bk_tokens (snd (refill_bucket
     \<lparr>bk_tokens = 1, bk_capacity = 10, bk_rate_ups = 3, bk_last_refill_ns = 500000000,
      bk_fractional_numerator = 500000000, bk_initialized = True\<rparr> 2000000000))) = 6"
  by (subst refill_bucket_exact [THEN conjunct1])
     (simp_all add: bucket_ok_def kNanosecondsPerSecond_def)

text \<open>
  C18: Refilling at every instant of an ascending schedule leaves the same balance
  as one refill at its last instant: calling the refill more often neither mints
  nor loses a token, also when an intermediate refill saturates.
\<close>

theorem refill_schedule_split:
  assumes "bucket_ok b" "bk_initialized b" "sorted (bk_last_refill_ns b # ts @ [t])"
  shows "bk_tokens (refill_schedule b (ts @ [t])) = bk_tokens (snd (refill_bucket b t))"
  using assms
proof (induction ts arbitrary: b)
  case (Cons s ts)
  let ?b = "snd (refill_bucket b s)"
  have le: "bk_last_refill_ns b \<le> s" "s \<le> t" using Cons.prems(3) by auto
  have "bk_tokens (refill_schedule ?b (ts @ [t])) = bk_tokens (snd (refill_bucket ?b t))"
    using Cons.prems le
    by (intro Cons.IH) (auto simp: bucket_ok_refill refill_keeps_config refill_anchor)
  also have "\<dots> = bk_tokens (snd (refill_bucket b t))"
    using Cons.prems(1,2) le by (rule refill_split)
  finally show ?case by simp
qed simp

theorem refill_schedule_split_witness:
  "bk_tokens (refill_schedule (configure_bucket empty_bucket 5 7 100) [150, 1000000100])
   = bk_tokens (snd (refill_bucket (configure_bucket empty_bucket 5 7 100) 1000000100))"
  using refill_schedule_split [of "configure_bucket empty_bucket 5 7 100" "[150]" 1000000100]
  by (simp add: configure_bucket_def bucket_ok_def)

text \<open>
  Every bucket operation keeps the balance within the capacity and the carried
  fraction below one second, for every argument and every clock reading; a clock
  that runs backwards changes nothing, grants nothing and is reported; consumption
  is all or nothing; and a change of rate prices the time already elapsed at the
  old rate.
\<close>

theorem bucket_operations_safe:
  "bucket_ok (configure_bucket b c r t)
   \<and> (bucket_ok b \<longrightarrow> bucket_ok (snd (refill_bucket b t)) \<and> bucket_ok (snd (try_consume b n))
        \<and> bucket_ok (set_bucket_capacity b c) \<and> bucket_ok (set_bucket_rate b r t))
   \<and> (bk_initialized b \<and> t < bk_last_refill_ns b \<longrightarrow>
        snd (refill_bucket b t) = b \<and> ro_tokens_granted (fst (refill_bucket b t)) = 0
        \<and> ro_clock_regressed (fst (refill_bucket b t)))
   \<and> (fst (try_consume b n) \<longleftrightarrow> unat n \<le> unat (bk_tokens b))
   \<and> unat (bk_tokens b)
     = unat (bk_tokens (snd (try_consume b n))) + (if fst (try_consume b n) then unat n else 0)
   \<and> (bk_initialized b \<longrightarrow>
        bk_tokens (set_bucket_rate b r t)
        = (if bk_last_refill_ns b \<le> t then bk_tokens (snd (refill_bucket b t)) else bk_tokens b))"
proof (intro conjI impI)
  show "fst (try_consume b n) \<longleftrightarrow> unat n \<le> unat (bk_tokens b)"
    by (simp add: try_consume_def word_less_nat_alt not_less)
  show "unat (bk_tokens b)
     = unat (bk_tokens (snd (try_consume b n))) + (if fst (try_consume b n) then unat n else 0)"
    by (simp add: try_consume_def unat_sub_exact not_less word_le_nat_alt)
  assume "bk_initialized b"
  then show "bk_tokens (set_bucket_rate b r t)
        = (if bk_last_refill_ns b \<le> t then bk_tokens (snd (refill_bucket b t)) else bk_tokens b)"
    by (simp add: set_bucket_rate_def Let_def)
next
  assume "bk_initialized b \<and> t < bk_last_refill_ns b"
  then have "refill_bucket b t
      = (no_refill\<lparr>ro_clock_regressed := True, ro_tokens_available := bk_tokens b\<rparr>, b)"
    by (simp add: refill_bucket_def)
  then show "snd (refill_bucket b t) = b" "ro_tokens_granted (fst (refill_bucket b t)) = 0"
    "ro_clock_regressed (fst (refill_bucket b t))"
    by (simp_all add: no_refill_def)
qed (simp_all add: bucket_ok_refill bucket_ok_consume bucket_ok_set_capacity bucket_ok_set_rate)

theorem bucket_operations_safe_witness:
  "bucket_ok (snd (try_consume (configure_bucket empty_bucket 5 7 100) 3))
   \<and> snd (refill_bucket (configure_bucket empty_bucket 5 7 100) 99)
     = configure_bucket empty_bucket 5 7 100"
  using bucket_operations_safe [of "configure_bucket empty_bucket 5 7 100" 5 7 99 3]
  by (simp add: configure_bucket_def bucket_ok_def)

end
