(* ===== verification/Ids.thy ===== *)
theory Ids
  imports Checked_Math
begin

text \<open>
  Identities (\<^verbatim>\<open>include/rate_governor/ids.hpp\<close>, \<^verbatim>\<open>src/ids.cpp\<close>).  A
  \<^verbatim>\<open>StrongId<Tag>\<close> is a datatype with a phantom tag, so that a generation cannot
  be used where a flow identity is meant, here as in the C++.  The lemmas show
  that the text form of an identity reads back, that the strict decimal parser
  accepts exactly the decimal numerals that fit, and that generations only grow.
\<close>

section \<open>Strongly typed identities\<close>

datatype 'tag StrongId = StrongId (id_value: u64)

datatype RateEnvelopeIdTag = RateEnvelopeIdTag
datatype FlowIdTag = FlowIdTag
datatype ResourceIdTag = ResourceIdTag
datatype GrantIdTag = GrantIdTag
datatype ReservationIdTag = ReservationIdTag
datatype PolicyIdTag = PolicyIdTag
datatype BackendIdTag = BackendIdTag
datatype EnforcementAttemptIdTag = EnforcementAttemptIdTag
datatype GenerationTag = GenerationTag
datatype FabricEpochTag = FabricEpochTag
datatype WorkerBootIdTag = WorkerBootIdTag
datatype AuditSequenceTag = AuditSequenceTag

type_synonym RateEnvelopeId = "RateEnvelopeIdTag StrongId"
type_synonym FlowId = "FlowIdTag StrongId"
type_synonym ResourceId = "ResourceIdTag StrongId"
type_synonym GrantId = "GrantIdTag StrongId"
type_synonym ReservationId = "ReservationIdTag StrongId"
type_synonym PolicyId = "PolicyIdTag StrongId"
type_synonym BackendId = "BackendIdTag StrongId"
type_synonym EnforcementAttemptId = "EnforcementAttemptIdTag StrongId"
type_synonym Generation = "GenerationTag StrongId"
type_synonym FabricEpoch = "FabricEpochTag StrongId"
type_synonym WorkerBootId = "WorkerBootIdTag StrongId"
type_synonym AuditSequence = "AuditSequenceTag StrongId"

definition id_valid :: "'tag StrongId \<Rightarrow> bool" where
  "id_valid i \<longleftrightarrow> id_value i \<noteq> 0"

instantiation StrongId :: (type) linorder
begin

definition less_eq_StrongId :: "'a StrongId \<Rightarrow> 'a StrongId \<Rightarrow> bool" where
  "less_eq_StrongId i j \<longleftrightarrow> id_value i \<le> id_value j"

definition less_StrongId :: "'a StrongId \<Rightarrow> 'a StrongId \<Rightarrow> bool" where
  "less_StrongId i j \<longleftrightarrow> id_value i < id_value j"

instance
  by standard (auto simp: less_eq_StrongId_def less_StrongId_def StrongId.expand)

end

lemmas StrongId_order = less_eq_StrongId_def less_StrongId_def

lemma id_valid_StrongId [simp]: "id_valid (StrongId v) \<longleftrightarrow> v \<noteq> 0"
  by (simp add: id_valid_def)

lemma id_value_eq_iff: "id_value i = id_value j \<longleftrightarrow> i = j"
  by (auto simp: StrongId.expand)

section \<open>Text form\<close>

text \<open>\<^verbatim>\<open>std::to_string\<close> of an unsigned integer: its decimal digits without a sign.\<close>

fun decimal :: "nat \<Rightarrow> string" where
  "decimal n = (if n < 10 then [char_of (48 + n)] else decimal (n div 10) @ [char_of (48 + n mod 10)])"

declare decimal.simps [simp del]

definition to_string_u64 :: "u64 \<Rightarrow> string" where
  "to_string_u64 v = decimal (unat v)"

fun parse_digits :: "u64 \<Rightarrow> string \<Rightarrow> u64 option" where
  "parse_digits acc [] = Some acc"
| "parse_digits acc (ch # str) =
     (if (of_char ch :: nat) < 48 \<or> 57 < (of_char ch :: nat) then None
      else case checked_mul acc 10 of
             None \<Rightarrow> None
           | Some scaled \<Rightarrow>
               (case checked_add scaled (of_nat (of_char ch - 48)) of
                  None \<Rightarrow> None
                | Some acc' \<Rightarrow> parse_digits acc' str))"

definition parse_u64_strict :: "string \<Rightarrow> u64 option" where
  "parse_u64_strict str = (if str = [] \<or> 20 < length str then None else parse_digits 0 str)"

definition join_identity :: "string \<Rightarrow> u64 \<Rightarrow> string" where
  "join_identity prefix v = prefix @ '':'' @ to_string_u64 v"

definition id_to_string :: "string \<Rightarrow> 'tag StrongId \<Rightarrow> string" where
  "id_to_string prefix i = join_identity prefix (id_value i)"

definition id_parse :: "string \<Rightarrow> string \<Rightarrow> 'tag StrongId option" where
  "id_parse prefix str =
     (if length str \<le> length prefix + 1 then None
      else if take (length prefix) str \<noteq> prefix \<or> str ! length prefix \<noteq> CHR '':'' then None
      else map_option StrongId (parse_u64_strict (drop (length prefix + 1) str)))"

section \<open>Generation counter and mixing\<close>

record GenerationCounter =
  gc_current :: Generation

definition gc_next :: "GenerationCounter \<Rightarrow> Generation \<times> GenerationCounter" where
  "gc_next c =
     (let v = id_value (gc_current c);
          g = StrongId (if v = kU64Max then kU64Max else v + 1)
      in (g, c\<lparr>gc_current := g\<rparr>))"

definition gc_observe :: "Generation \<Rightarrow> GenerationCounter \<Rightarrow> GenerationCounter" where
  "gc_observe seen c =
     (if id_value (gc_current c) < id_value seen then c\<lparr>gc_current := seen\<rparr> else c)"

definition splitmix64 :: "u64 \<Rightarrow> u64 \<times> u64" where
  "splitmix64 state =
     (let state' = state + 0x9E3779B97F4A7C15;
          z0 = state';
          z1 = (z0 XOR drop_bit 30 z0) * 0xBF58476D1CE4E5B9;
          z2 = (z1 XOR drop_bit 27 z1) * 0x94D049BB133111EB
      in (z2 XOR drop_bit 31 z2, state'))"

definition mix64 :: "u64 \<Rightarrow> u64" where
  "mix64 v = fst (splitmix64 v)"

section \<open>The parser reads decimal numerals\<close>

text \<open>The number a string of digits denotes, most significant digit first.\<close>

definition digits_value :: "nat \<Rightarrow> string \<Rightarrow> nat" where
  "digits_value acc str = foldl (\<lambda>a ch. a * 10 + (of_char ch - 48)) acc str"

definition is_digit :: "char \<Rightarrow> bool" where
  "is_digit ch \<longleftrightarrow> 48 \<le> (of_char ch :: nat) \<and> (of_char ch :: nat) \<le> 57"

lemma digits_value_ge: "acc \<le> digits_value acc str"
proof (induction str arbitrary: acc)
  case (Cons ch str)
  have "acc \<le> acc * 10 + (of_char ch - 48)" by simp
  also have "\<dots> \<le> digits_value (acc * 10 + (of_char ch - 48)) str" by (rule Cons)
  finally show ?case by (simp add: digits_value_def)
qed (simp add: digits_value_def)

lemma parse_digits_eq:
  "parse_digits acc str =
     (if list_all is_digit str \<and> digits_value (unat acc) str < 18446744073709551616
      then Some (of_nat (digits_value (unat acc) str)) else None)"
proof (induction str arbitrary: acc)
  case Nil
  then show ?case by (simp add: digits_value_def)
next
  case (Cons ch str)
  define d where "d = (of_char ch :: nat) - 48"
  let ?n = "unat acc * 10 + d"
  have dv: "digits_value (unat acc) (ch # str) = digits_value ?n str"
    by (simp add: digits_value_def d_def)
  show ?case
  proof (cases "is_digit ch \<and> ?n < 18446744073709551616")
    case True
    then have ten: "unat (of_nat (unat acc * 10) :: u64) = unat acc * 10"
      by (intro unat_of_nat_u64) simp
    have "d \<le> 9" using True by (auto simp: is_digit_def d_def)
    then have dd: "unat (of_nat d :: u64) = d" by (intro unat_of_nat_u64) simp
    have "checked_mul acc 10 = Some (of_nat (unat acc * 10))"
      using True by (simp add: checked_mul_eq)
    moreover have "checked_add (of_nat (unat acc * 10)) (of_nat d) = Some (of_nat ?n)"
      using True ten dd by (simp add: checked_add_eq)
    ultimately have "parse_digits acc (ch # str) = parse_digits (of_nat ?n) str"
      using True by (simp add: is_digit_def d_def not_less algebra_simps)
    moreover have "unat (of_nat ?n :: u64) = ?n"
      using True by (intro unat_of_nat_u64) simp
    ultimately show ?thesis
      using True Cons.IH [of "of_nat ?n"] by (simp only: dv) simp
  next
    case False
    have "parse_digits acc (ch # str) = None"
    proof (cases "is_digit ch")
      case True
      then have "d \<le> 9" by (auto simp: is_digit_def d_def)
      then have dd: "unat (of_nat d :: u64) = d" by (intro unat_of_nat_u64) simp
      from True False have n: "18446744073709551616 \<le> ?n" by simp
      show ?thesis
      proof (cases "unat acc * 10 < 18446744073709551616")
        case mul: True
        then have "unat (of_nat (unat acc * 10) :: u64) = unat acc * 10"
          by (rule unat_of_nat_u64)
        then have "checked_add (of_nat (unat acc * 10)) (of_nat d) = None"
          using n dd by (simp add: checked_add_eq)
        with mul show ?thesis by (simp add: checked_mul_eq d_def del: of_nat_diff)
      qed (simp add: checked_mul_eq)
    qed (auto simp: is_digit_def)
    moreover have "\<not> (list_all is_digit (ch # str) \<and> digits_value ?n str < 18446744073709551616)"
      using False digits_value_ge [of ?n str] by auto
    ultimately show ?thesis by (simp add: dv)
  qed
qed

lemma decimal_digits: "list_all is_digit (decimal n)"
proof (induction n rule: decimal.induct)
  case (1 n)
  have "is_digit (char_of (48 + d))" if "d < 10" for d :: nat
    using that by (simp add: is_digit_def)
  with 1 show ?case by (subst decimal.simps) simp
qed

lemma decimal_value: "digits_value 0 (decimal n) = n"
proof (induction n rule: decimal.induct)
  case (1 n)
  show ?case
  proof (cases "n < 10")
    case True
    then show ?thesis by (subst decimal.simps) (simp add: digits_value_def)
  next
    case False
    with 1 have "digits_value 0 (decimal (n div 10)) = n div 10" by simp
    with False show ?thesis by (subst decimal.simps) (simp add: digits_value_def)
  qed
qed

lemma decimal_length: "n < 10 ^ k \<Longrightarrow> 0 < k \<Longrightarrow> length (decimal n) \<le> k"
proof (induction n arbitrary: k rule: decimal.induct)
  case (1 n)
  show ?case
  proof (cases "n < 10")
    case True
    with 1(3) show ?thesis by (subst decimal.simps) simp
  next
    case False
    from 1(3) obtain j where j: "k = Suc j" by (cases k) auto
    have "n div 10 < 10 ^ j" using 1(2) j by (simp add: less_mult_imp_div_less mult.commute)
    moreover have "0 < j" using False 1(2) j by (cases j) auto
    ultimately have "length (decimal (n div 10)) \<le> j" using 1(1) False by blast
    with False j show ?thesis by (subst decimal.simps) simp
  qed
qed

lemma decimal_nonempty: "decimal n \<noteq> []"
  by (subst decimal.simps) simp

lemma parse_to_string [simp]: "parse_u64_strict (to_string_u64 v) = Some v"
proof -
  have "unat v < 10 ^ 20" using unat_u64_lt [of v] by (rule less_trans) simp
  then have "length (decimal (unat v)) \<le> 20" by (rule decimal_length) simp
  then show ?thesis
    by (simp add: parse_u64_strict_def to_string_u64_def decimal_nonempty parse_digits_eq
        decimal_digits decimal_value)
qed

section \<open>Properties\<close>

text \<open>
  every identity survives its text form: parsing \<open>prefix:decimal\<close> with the
  same prefix gives the identity back.
\<close>

theorem id_text_roundtrip: "id_parse prefix (id_to_string prefix i) = Some i"
proof -
  have "0 < length (to_string_u64 (id_value i))"
    by (simp add: to_string_u64_def decimal_nonempty)
  then show ?thesis
    by (simp add: id_parse_def id_to_string_def join_identity_def nth_append)
qed

text \<open>
  the strict parser accepts a text exactly when it has one to twenty
  characters, all of them decimal digits, and the number they denote fits in 64
  bits; what it returns is that number.
\<close>

theorem parse_u64_strict_correct:
  "parse_u64_strict str =
     (if 1 \<le> length str \<and> length str \<le> 20 \<and> list_all is_digit str
         \<and> digits_value 0 str < 2 ^ 64
      then Some (of_nat (digits_value 0 str)) else None)"
  by (cases str) (auto simp: parse_u64_strict_def parse_digits_eq)

text \<open>
  a generation counter never goes back, and the generation it hands out is
  strictly newer than the current one unless the counter is saturated.
\<close>

theorem generation_counter_monotone:
  "gc_current c \<le> gc_current (snd (gc_next c))
   \<and> gc_current c \<le> gc_current (gc_observe g c)
   \<and> g \<le> gc_current (gc_observe g c)
   \<and> (gc_current c < fst (gc_next c) \<or> id_value (gc_current c) = kU64Max)"
proof (cases "id_value (gc_current c) = kU64Max")
  case False
  then have "unat (id_value (gc_current c)) \<noteq> 18446744073709551615"
    by (simp add: word_nat)
  then have "unat (id_value (gc_current c)) + 1 < 18446744073709551616"
    using unat_u64_lt [of "id_value (gc_current c)"] by linarith
  then have "id_value (gc_current c) < id_value (gc_current c) + 1"
    by (simp add: word_less_nat_alt unat_add_u64)
  with False show ?thesis
    by (auto simp: gc_next_def gc_observe_def StrongId_order Let_def)
qed (auto simp: gc_next_def gc_observe_def StrongId_order Let_def)

end
