(* ===== verification/Reasons.thy ===== *)
theory Reasons
  imports Ids
begin

text \<open>
  The closed reason vocabulary (\<^verbatim>\<open>include/rate_governor/reason.hpp\<close>,
  \<^verbatim>\<open>src/reason.cpp\<close>) and the error values (\<^verbatim>\<open>include/rate_governor/error.hpp\<close>).
  \<^verbatim>\<open>ReasonCode\<close> is an enumeration over 16 bits whose numbers are fixed in the
  source, so a code is its number; the declared codes have the names of the
  source.  An \<^verbatim>\<open>Error\<close> keeps its code and its reason; the message text, an
  annotation on top of the reason code, is left out.
\<close>

section \<open>Reason codes\<close>

datatype ReasonCode = ReasonCode (reason_raw: u16)

abbreviation R_None :: ReasonCode where "R_None \<equiv> ReasonCode 0"
abbreviation R_PlanAuthorized :: ReasonCode where "R_PlanAuthorized \<equiv> ReasonCode 1"
abbreviation R_PlanTargetClampedByCeiling :: ReasonCode where "R_PlanTargetClampedByCeiling \<equiv> ReasonCode 2"
abbreviation R_PlanBurstClampedByAuthority :: ReasonCode where "R_PlanBurstClampedByAuthority \<equiv> ReasonCode 3"
abbreviation R_PlanRejectedFloorExceedsFundedCeiling :: ReasonCode where "R_PlanRejectedFloorExceedsFundedCeiling \<equiv> ReasonCode 4"
abbreviation R_PlanRejectedTargetBelowFloor :: ReasonCode where "R_PlanRejectedTargetBelowFloor \<equiv> ReasonCode 5"
abbreviation R_PlanRejectedUnknownFlow :: ReasonCode where "R_PlanRejectedUnknownFlow \<equiv> ReasonCode 6"
abbreviation R_PlanRejectedUnknownResource :: ReasonCode where "R_PlanRejectedUnknownResource \<equiv> ReasonCode 7"
abbreviation R_PlanRejectedMissingGrant :: ReasonCode where "R_PlanRejectedMissingGrant \<equiv> ReasonCode 8"
abbreviation R_PlanRejectedMissingPolicy :: ReasonCode where "R_PlanRejectedMissingPolicy \<equiv> ReasonCode 9"
abbreviation R_PlanRejectedMissingReservation :: ReasonCode where "R_PlanRejectedMissingReservation \<equiv> ReasonCode 10"
abbreviation R_PlanRejectedMissingBackend :: ReasonCode where "R_PlanRejectedMissingBackend \<equiv> ReasonCode 11"
abbreviation R_PlanRejectedFlowGenerationMismatch :: ReasonCode where "R_PlanRejectedFlowGenerationMismatch \<equiv> ReasonCode 12"
abbreviation R_PlanRejectedGrantGenerationMismatch :: ReasonCode where "R_PlanRejectedGrantGenerationMismatch \<equiv> ReasonCode 13"
abbreviation R_PlanRejectedReservationGenerationMismatch :: ReasonCode where "R_PlanRejectedReservationGenerationMismatch \<equiv> ReasonCode 14"
abbreviation R_PlanRejectedPolicyGenerationMismatch :: ReasonCode where "R_PlanRejectedPolicyGenerationMismatch \<equiv> ReasonCode 15"
abbreviation R_PlanRejectedResourceGenerationMismatch :: ReasonCode where "R_PlanRejectedResourceGenerationMismatch \<equiv> ReasonCode 16"
abbreviation R_PlanRejectedBackendGenerationMismatch :: ReasonCode where "R_PlanRejectedBackendGenerationMismatch \<equiv> ReasonCode 17"
abbreviation R_PlanRejectedGrantNotActive :: ReasonCode where "R_PlanRejectedGrantNotActive \<equiv> ReasonCode 18"
abbreviation R_PlanRejectedPolicyNotActive :: ReasonCode where "R_PlanRejectedPolicyNotActive \<equiv> ReasonCode 19"
abbreviation R_PlanRejectedResourceNotActive :: ReasonCode where "R_PlanRejectedResourceNotActive \<equiv> ReasonCode 20"
abbreviation R_PlanRejectedReservationNotActive :: ReasonCode where "R_PlanRejectedReservationNotActive \<equiv> ReasonCode 21"
abbreviation R_PlanRejectedGrantNotYetValid :: ReasonCode where "R_PlanRejectedGrantNotYetValid \<equiv> ReasonCode 22"
abbreviation R_PlanRejectedGrantExpired :: ReasonCode where "R_PlanRejectedGrantExpired \<equiv> ReasonCode 23"
abbreviation R_PlanRejectedReservationNotYetValid :: ReasonCode where "R_PlanRejectedReservationNotYetValid \<equiv> ReasonCode 24"
abbreviation R_PlanRejectedReservationExpired :: ReasonCode where "R_PlanRejectedReservationExpired \<equiv> ReasonCode 25"
abbreviation R_PlanRejectedPolicyExpired :: ReasonCode where "R_PlanRejectedPolicyExpired \<equiv> ReasonCode 26"
abbreviation R_PlanRejectedPolicyNotYetValid :: ReasonCode where "R_PlanRejectedPolicyNotYetValid \<equiv> ReasonCode 27"
abbreviation R_PlanRejectedBackendUnsupported :: ReasonCode where "R_PlanRejectedBackendUnsupported \<equiv> ReasonCode 28"
abbreviation R_PlanRejectedEnvelopeGenerationMismatch :: ReasonCode where "R_PlanRejectedEnvelopeGenerationMismatch \<equiv> ReasonCode 29"
abbreviation R_PlanRejectedResourceCapacityZero :: ReasonCode where "R_PlanRejectedResourceCapacityZero \<equiv> ReasonCode 30"
abbreviation R_PlanRejectedCeilingZero :: ReasonCode where "R_PlanRejectedCeilingZero \<equiv> ReasonCode 31"
abbreviation R_PlanRejectedFlowNotActive :: ReasonCode where "R_PlanRejectedFlowNotActive \<equiv> ReasonCode 32"
abbreviation R_ApplyDispatched :: ReasonCode where "R_ApplyDispatched \<equiv> ReasonCode 40"
abbreviation R_ApplyAcknowledged :: ReasonCode where "R_ApplyAcknowledged \<equiv> ReasonCode 41"
abbreviation R_ApplyVerified :: ReasonCode where "R_ApplyVerified \<equiv> ReasonCode 42"
abbreviation R_ApplyUnderDelivered :: ReasonCode where "R_ApplyUnderDelivered \<equiv> ReasonCode 43"
abbreviation R_ApplyOverDeliveredRevoking :: ReasonCode where "R_ApplyOverDeliveredRevoking \<equiv> ReasonCode 44"
abbreviation R_ApplyBackendFailed :: ReasonCode where "R_ApplyBackendFailed \<equiv> ReasonCode 45"
abbreviation R_ApplyVerificationUnsupported :: ReasonCode where "R_ApplyVerificationUnsupported \<equiv> ReasonCode 46"
abbreviation R_ApplyVerificationMismatch :: ReasonCode where "R_ApplyVerificationMismatch \<equiv> ReasonCode 47"
abbreviation R_ApplyVerificationUnknown :: ReasonCode where "R_ApplyVerificationUnknown \<equiv> ReasonCode 48"
abbreviation R_RevokeDispatched :: ReasonCode where "R_RevokeDispatched \<equiv> ReasonCode 49"
abbreviation R_RevokeVerified :: ReasonCode where "R_RevokeVerified \<equiv> ReasonCode 50"
abbreviation R_RevokeBackendFailed :: ReasonCode where "R_RevokeBackendFailed \<equiv> ReasonCode 51"
abbreviation R_AttemptCancelled :: ReasonCode where "R_AttemptCancelled \<equiv> ReasonCode 52"
abbreviation R_AttemptLateCompletionRejected :: ReasonCode where "R_AttemptLateCompletionRejected \<equiv> ReasonCode 53"
abbreviation R_AttemptDuplicateIgnored :: ReasonCode where "R_AttemptDuplicateIgnored \<equiv> ReasonCode 54"
abbreviation R_AttemptAbandonedWorkerDeath :: ReasonCode where "R_AttemptAbandonedWorkerDeath \<equiv> ReasonCode 55"
abbreviation R_AttemptDeadlineExceeded :: ReasonCode where "R_AttemptDeadlineExceeded \<equiv> ReasonCode 56"
abbreviation R_AttemptFencedByEpoch :: ReasonCode where "R_AttemptFencedByEpoch \<equiv> ReasonCode 57"
abbreviation R_AttemptFencedByBoot :: ReasonCode where "R_AttemptFencedByBoot \<equiv> ReasonCode 58"
abbreviation R_AttemptFencedByGeneration :: ReasonCode where "R_AttemptFencedByGeneration \<equiv> ReasonCode 59"
abbreviation R_AttemptSupersededByNewerAttempt :: ReasonCode where "R_AttemptSupersededByNewerAttempt \<equiv> ReasonCode 60"
abbreviation R_AttemptIdempotentReplay :: ReasonCode where "R_AttemptIdempotentReplay \<equiv> ReasonCode 61"
abbreviation R_CompensatingRevokeIssued :: ReasonCode where "R_CompensatingRevokeIssued \<equiv> ReasonCode 62"
abbreviation R_EnvelopeOpened :: ReasonCode where "R_EnvelopeOpened \<equiv> ReasonCode 70"
abbreviation R_EnvelopeAuthorized :: ReasonCode where "R_EnvelopeAuthorized \<equiv> ReasonCode 71"
abbreviation R_EnvelopeRevokePending :: ReasonCode where "R_EnvelopeRevokePending \<equiv> ReasonCode 72"
abbreviation R_EnvelopeRevoked :: ReasonCode where "R_EnvelopeRevoked \<equiv> ReasonCode 73"
abbreviation R_EnvelopeDegraded :: ReasonCode where "R_EnvelopeDegraded \<equiv> ReasonCode 74"
abbreviation R_EnvelopeFailed :: ReasonCode where "R_EnvelopeFailed \<equiv> ReasonCode 75"
abbreviation R_EnvelopeStaleGrantRecalled :: ReasonCode where "R_EnvelopeStaleGrantRecalled \<equiv> ReasonCode 76"
abbreviation R_EnvelopeStaleGrantExpired :: ReasonCode where "R_EnvelopeStaleGrantExpired \<equiv> ReasonCode 77"
abbreviation R_EnvelopeStaleReservationExpired :: ReasonCode where "R_EnvelopeStaleReservationExpired \<equiv> ReasonCode 78"
abbreviation R_EnvelopeStalePolicyExpired :: ReasonCode where "R_EnvelopeStalePolicyExpired \<equiv> ReasonCode 79"
abbreviation R_EnvelopeStalePolicyGenerationChanged :: ReasonCode where "R_EnvelopeStalePolicyGenerationChanged \<equiv> ReasonCode 80"
abbreviation R_EnvelopeStaleResourceGenerationChanged :: ReasonCode where "R_EnvelopeStaleResourceGenerationChanged \<equiv> ReasonCode 81"
abbreviation R_EnvelopeStaleResourceCapacityReduced :: ReasonCode where "R_EnvelopeStaleResourceCapacityReduced \<equiv> ReasonCode 82"
abbreviation R_EnvelopeStaleFlowGenerationChanged :: ReasonCode where "R_EnvelopeStaleFlowGenerationChanged \<equiv> ReasonCode 83"
abbreviation R_EnvelopeStaleFabricEpochAdvanced :: ReasonCode where "R_EnvelopeStaleFabricEpochAdvanced \<equiv> ReasonCode 84"
abbreviation R_EnvelopeStaleNoLiveAuthority :: ReasonCode where "R_EnvelopeStaleNoLiveAuthority \<equiv> ReasonCode 85"
abbreviation R_EnvelopeCooldownActive :: ReasonCode where "R_EnvelopeCooldownActive \<equiv> ReasonCode 86"
abbreviation R_EnvelopeRecoveredRequiresRevalidation :: ReasonCode where "R_EnvelopeRecoveredRequiresRevalidation \<equiv> ReasonCode 87"
abbreviation R_EnvelopeRevalidatedApplied :: ReasonCode where "R_EnvelopeRevalidatedApplied \<equiv> ReasonCode 88"
abbreviation R_EnvelopeRevalidationUnknown :: ReasonCode where "R_EnvelopeRevalidationUnknown \<equiv> ReasonCode 89"
abbreviation R_EnvelopeRevalidationDenied :: ReasonCode where "R_EnvelopeRevalidationDenied \<equiv> ReasonCode 90"
abbreviation R_EnvelopeReducedByPolicy :: ReasonCode where "R_EnvelopeReducedByPolicy \<equiv> ReasonCode 91"
abbreviation R_EnvelopeRevokedByOperator :: ReasonCode where "R_EnvelopeRevokedByOperator \<equiv> ReasonCode 92"
abbreviation R_EnvelopeRevokedByGrantRecall :: ReasonCode where "R_EnvelopeRevokedByGrantRecall \<equiv> ReasonCode 93"
abbreviation R_ClockRegressionDetected :: ReasonCode where "R_ClockRegressionDetected \<equiv> ReasonCode 100"
abbreviation R_ClockTickOverflowSaturated :: ReasonCode where "R_ClockTickOverflowSaturated \<equiv> ReasonCode 101"
abbreviation R_TokenBucketSaturated :: ReasonCode where "R_TokenBucketSaturated \<equiv> ReasonCode 102"
abbreviation R_TokenBucketEmpty :: ReasonCode where "R_TokenBucketEmpty \<equiv> ReasonCode 103"
abbreviation R_TokenBucketRefilled :: ReasonCode where "R_TokenBucketRefilled \<equiv> ReasonCode 104"
abbreviation R_JournalAppendFailed :: ReasonCode where "R_JournalAppendFailed \<equiv> ReasonCode 110"
abbreviation R_JournalTruncatedTail :: ReasonCode where "R_JournalTruncatedTail \<equiv> ReasonCode 111"
abbreviation R_JournalCorruptRecord :: ReasonCode where "R_JournalCorruptRecord \<equiv> ReasonCode 112"
abbreviation R_JournalCommitted :: ReasonCode where "R_JournalCommitted \<equiv> ReasonCode 113"
abbreviation R_JournalCompacted :: ReasonCode where "R_JournalCompacted \<equiv> ReasonCode 114"
abbreviation R_JournalVersionUnsupported :: ReasonCode where "R_JournalVersionUnsupported \<equiv> ReasonCode 115"
abbreviation R_BackendSessionEstablished :: ReasonCode where "R_BackendSessionEstablished \<equiv> ReasonCode 120"
abbreviation R_BackendSessionLost :: ReasonCode where "R_BackendSessionLost \<equiv> ReasonCode 121"
abbreviation R_BackendFencedStaleEpoch :: ReasonCode where "R_BackendFencedStaleEpoch \<equiv> ReasonCode 122"
abbreviation R_BackendFencedStaleBoot :: ReasonCode where "R_BackendFencedStaleBoot \<equiv> ReasonCode 123"
abbreviation R_BackendRejectedMalformedRequest :: ReasonCode where "R_BackendRejectedMalformedRequest \<equiv> ReasonCode 124"
abbreviation R_BackendQueueFull :: ReasonCode where "R_BackendQueueFull \<equiv> ReasonCode 125"
abbreviation R_CapacityLimitExceeded :: ReasonCode where "R_CapacityLimitExceeded \<equiv> ReasonCode 130"
abbreviation R_MalformedInput :: ReasonCode where "R_MalformedInput \<equiv> ReasonCode 131"
abbreviation R_EngineShutdown :: ReasonCode where "R_EngineShutdown \<equiv> ReasonCode 132"
abbreviation R_WorkRejectedDuringShutdown :: ReasonCode where "R_WorkRejectedDuringShutdown \<equiv> ReasonCode 133"
abbreviation R_UnsupportedOperation :: ReasonCode where "R_UnsupportedOperation \<equiv> ReasonCode 134"
abbreviation R_UnknownAuthority :: ReasonCode where "R_UnknownAuthority \<equiv> ReasonCode 135"

datatype ReasonClass =
    ReasonClass_None
  | ReasonClass_Progress
  | ReasonClass_Degradation
  | ReasonClass_Staleness
  | ReasonClass_Fencing
  | ReasonClass_Rejection
  | ReasonClass_Idempotency
  | ReasonClass_Fault
  | ReasonClass_UnknownAuthority

text \<open>The case labels of the switch in \<^verbatim>\<open>classify\<close>, one group per class.\<close>

definition reasons_None :: "ReasonCode list" where
  "reasons_None =
    [R_None]"

definition reasons_Progress :: "ReasonCode list" where
  "reasons_Progress =
    [R_PlanAuthorized, R_PlanTargetClampedByCeiling, R_PlanBurstClampedByAuthority,
      R_EnvelopeOpened, R_EnvelopeAuthorized, R_ApplyDispatched, R_ApplyAcknowledged,
      R_ApplyVerified, R_RevokeDispatched, R_RevokeVerified, R_EnvelopeRevoked,
      R_EnvelopeRevalidatedApplied, R_TokenBucketRefilled, R_JournalCommitted,
      R_JournalCompacted, R_BackendSessionEstablished, R_EnvelopeReducedByPolicy]"

definition reasons_Degradation :: "ReasonCode list" where
  "reasons_Degradation =
    [R_ApplyUnderDelivered, R_ApplyOverDeliveredRevoking, R_EnvelopeDegraded,
      R_EnvelopeRevokePending, R_EnvelopeCooldownActive, R_EnvelopeRevalidationUnknown,
      R_EnvelopeStaleResourceCapacityReduced, R_TokenBucketSaturated, R_TokenBucketEmpty,
      R_ClockTickOverflowSaturated]"

definition reasons_Staleness :: "ReasonCode list" where
  "reasons_Staleness =
    [R_EnvelopeStaleGrantRecalled, R_EnvelopeStaleGrantExpired,
      R_EnvelopeStaleReservationExpired, R_EnvelopeStalePolicyExpired,
      R_EnvelopeStalePolicyGenerationChanged, R_EnvelopeStaleResourceGenerationChanged,
      R_EnvelopeStaleFlowGenerationChanged, R_EnvelopeStaleFabricEpochAdvanced,
      R_EnvelopeStaleNoLiveAuthority]"

definition reasons_Fencing :: "ReasonCode list" where
  "reasons_Fencing =
    [R_AttemptFencedByEpoch, R_AttemptFencedByBoot, R_AttemptFencedByGeneration,
      R_AttemptSupersededByNewerAttempt, R_BackendFencedStaleEpoch, R_BackendFencedStaleBoot]"

definition reasons_Idempotency :: "ReasonCode list" where
  "reasons_Idempotency =
    [R_AttemptCancelled, R_AttemptLateCompletionRejected, R_AttemptDuplicateIgnored,
      R_AttemptIdempotentReplay]"

definition reasons_Rejection :: "ReasonCode list" where
  "reasons_Rejection =
    [R_PlanRejectedFloorExceedsFundedCeiling, R_PlanRejectedTargetBelowFloor,
      R_PlanRejectedUnknownFlow, R_PlanRejectedUnknownResource, R_PlanRejectedMissingGrant,
      R_PlanRejectedMissingPolicy, R_PlanRejectedMissingReservation,
      R_PlanRejectedMissingBackend, R_PlanRejectedFlowGenerationMismatch,
      R_PlanRejectedGrantGenerationMismatch, R_PlanRejectedReservationGenerationMismatch,
      R_PlanRejectedPolicyGenerationMismatch, R_PlanRejectedResourceGenerationMismatch,
      R_PlanRejectedBackendGenerationMismatch, R_PlanRejectedGrantNotActive,
      R_PlanRejectedPolicyNotActive, R_PlanRejectedResourceNotActive,
      R_PlanRejectedReservationNotActive, R_PlanRejectedGrantNotYetValid,
      R_PlanRejectedGrantExpired, R_PlanRejectedReservationNotYetValid,
      R_PlanRejectedReservationExpired, R_PlanRejectedPolicyExpired,
      R_PlanRejectedPolicyNotYetValid, R_PlanRejectedBackendUnsupported,
      R_PlanRejectedEnvelopeGenerationMismatch, R_PlanRejectedResourceCapacityZero,
      R_PlanRejectedCeilingZero, R_PlanRejectedFlowNotActive, R_EnvelopeFailed,
      R_EnvelopeRevalidationDenied, R_CapacityLimitExceeded, R_MalformedInput,
      R_WorkRejectedDuringShutdown, R_UnsupportedOperation, R_BackendRejectedMalformedRequest,
      R_BackendQueueFull, R_EnvelopeRevokedByOperator, R_EnvelopeRevokedByGrantRecall]"

definition reasons_Fault :: "ReasonCode list" where
  "reasons_Fault =
    [R_ApplyBackendFailed, R_ApplyVerificationUnsupported, R_ApplyVerificationMismatch,
      R_ApplyVerificationUnknown, R_RevokeBackendFailed, R_AttemptAbandonedWorkerDeath,
      R_AttemptDeadlineExceeded, R_ClockRegressionDetected, R_JournalAppendFailed,
      R_JournalTruncatedTail, R_JournalCorruptRecord, R_JournalVersionUnsupported,
      R_BackendSessionLost, R_EngineShutdown, R_CompensatingRevokeIssued,
      R_EnvelopeRecoveredRequiresRevalidation]"

definition classify :: "ReasonCode \<Rightarrow> ReasonClass" where
  "classify c =
     (if c \<in> set reasons_None then ReasonClass_None
      else if c \<in> set reasons_Progress then ReasonClass_Progress
      else if c \<in> set reasons_Degradation then ReasonClass_Degradation
      else if c \<in> set reasons_Staleness then ReasonClass_Staleness
      else if c \<in> set reasons_Fencing then ReasonClass_Fencing
      else if c \<in> set reasons_Idempotency then ReasonClass_Idempotency
      else if c \<in> set reasons_Rejection then ReasonClass_Rejection
      else if c \<in> set reasons_Fault then ReasonClass_Fault
      else ReasonClass_UnknownAuthority)"

definition is_denial :: "ReasonCode \<Rightarrow> bool" where
  "is_denial c \<longleftrightarrow> classify c = ReasonClass_Rejection"

definition is_staleness :: "ReasonCode \<Rightarrow> bool" where
  "is_staleness c \<longleftrightarrow> classify c = ReasonClass_Staleness"

definition is_fencing :: "ReasonCode \<Rightarrow> bool" where
  "is_fencing c \<longleftrightarrow> classify c = ReasonClass_Fencing"

section \<open>Errors\<close>

datatype ErrorCode =
    ErrorCode_Ok | ErrorCode_InvalidArgument | ErrorCode_NotFound | ErrorCode_Conflict
  | ErrorCode_StaleAuthority | ErrorCode_Fenced | ErrorCode_LimitExceeded
  | ErrorCode_JournalFailure | ErrorCode_BackendFailure | ErrorCode_Unsupported
  | ErrorCode_ShuttingDown | ErrorCode_Denied | ErrorCode_Unknown

datatype Error = Error (err_code: ErrorCode) (err_reason: ReasonCode)

type_synonym 'a Result = "Error + 'a"
type_synonym Status = "unit Result"

definition result_code :: "'a Result \<Rightarrow> ErrorCode" where
  "result_code r = (case r of Inl e \<Rightarrow> err_code e | Inr _ \<Rightarrow> ErrorCode_Ok)"

definition result_reason :: "'a Result \<Rightarrow> ReasonCode" where
  "result_reason r = (case r of Inl e \<Rightarrow> err_reason e | Inr _ \<Rightarrow> R_None)"

lemma is_staleness_iff: "is_staleness c \<longleftrightarrow> c \<in> set reasons_Staleness"
  by (auto simp: is_staleness_def classify_def reasons_None_def reasons_Progress_def
      reasons_Degradation_def reasons_Staleness_def)

lemma is_denial_iff: "is_denial c \<longleftrightarrow> c \<in> set reasons_Rejection"
  by (auto simp: is_denial_def classify_def reasons_None_def reasons_Progress_def
      reasons_Degradation_def reasons_Staleness_def reasons_Fencing_def reasons_Idempotency_def
      reasons_Rejection_def)

end
