(* ===== verification/Entities.thy ===== *)
theory Entities
  imports Reasons
begin

text \<open>
  Clock windows, provenance and the authority entities
  (\<^verbatim>\<open>include/rate_governor/clock.hpp\<close>, \<^verbatim>\<open>provenance.hpp\<close>, \<^verbatim>\<open>entities.hpp\<close>,
  \<^verbatim>\<open>src/entities.cpp\<close>).  Each enumeration has the constructors of the source
  and, because a decoder casts any byte to it, one more for the values that the
  source does not name.  The lemmas characterise the validity windows and show
  that structural validation accepts nothing without identity, generation and
  positive provenance.
\<close>

section \<open>Validity windows\<close>

definition kNeverExpiresNs :: TimestampNs where
  "kNeverExpiresNs = kU64Max"

definition is_never :: "TimestampNs \<Rightarrow> bool" where
  "is_never t \<longleftrightarrow> t = kNeverExpiresNs"

record ValidityWindow =
  not_before_ns :: TimestampNs
  invalid_after_ns :: TimestampNs

definition window_contains :: "ValidityWindow \<Rightarrow> TimestampNs \<Rightarrow> bool" where
  "window_contains w now =
     (if now < not_before_ns w then False
      else if is_never (invalid_after_ns w) then True
      else now < invalid_after_ns w)"

definition empty_window :: "ValidityWindow \<Rightarrow> bool" where
  "empty_window w \<longleftrightarrow> \<not> is_never (invalid_after_ns w) \<and> invalid_after_ns w \<le> not_before_ns w"

section \<open>Provenance\<close>

datatype AuthoritySource =
    AuthoritySource_Unknown
  | AuthoritySource_Operator
  | AuthoritySource_Configuration
  | AuthoritySource_Recovery
  | AuthoritySource_BackendReport
  | AuthoritySource_Derived
  | AuthoritySource_other u8

primrec AuthoritySource_to_u8 :: "AuthoritySource \<Rightarrow> u8" where
  "AuthoritySource_to_u8 AuthoritySource_Unknown = 0"
| "AuthoritySource_to_u8 AuthoritySource_Operator = 1"
| "AuthoritySource_to_u8 AuthoritySource_Configuration = 2"
| "AuthoritySource_to_u8 AuthoritySource_Recovery = 3"
| "AuthoritySource_to_u8 AuthoritySource_BackendReport = 4"
| "AuthoritySource_to_u8 AuthoritySource_Derived = 5"
| "AuthoritySource_to_u8 (AuthoritySource_other b) = b"

definition AuthoritySource_of_u8 :: "u8 \<Rightarrow> AuthoritySource" where
  "AuthoritySource_of_u8 b =
     (if b = 0 then AuthoritySource_Unknown
      else if b = 1 then AuthoritySource_Operator
      else if b = 2 then AuthoritySource_Configuration
      else if b = 3 then AuthoritySource_Recovery
      else if b = 4 then AuthoritySource_BackendReport
      else if b = 5 then AuthoritySource_Derived
      else AuthoritySource_other b)"

lemma AuthoritySource_to_of [simp]: "AuthoritySource_to_u8 (AuthoritySource_of_u8 b) = b"
  by (simp add: AuthoritySource_of_u8_def)

definition kMaxProvenanceDetail :: nat where
  "kMaxProvenanceDetail = 96"

definition is_ascii_printable :: "string \<Rightarrow> bool" where
  "is_ascii_printable str \<longleftrightarrow>
     list_all (\<lambda>ch. \<not> ((of_char ch :: nat) < 32 \<or> 126 < (of_char ch :: nat))) str"

definition is_bounded_text :: "string \<Rightarrow> nat \<Rightarrow> bool" where
  "is_bounded_text str max_length =
     (if max_length < length str then False else is_ascii_printable str)"

record Provenance =
  prov_source :: AuthoritySource
  prov_epoch :: FabricEpoch
  prov_boot :: WorkerBootId
  prov_sequence :: u64
  prov_detail :: string

definition authoritative :: "Provenance \<Rightarrow> bool" where
  "authoritative p \<longleftrightarrow> prov_source p \<noteq> AuthoritySource_Unknown"

definition well_formed :: "Provenance \<Rightarrow> bool" where
  "well_formed p \<longleftrightarrow> is_bounded_text (prov_detail p) kMaxProvenanceDetail"

record ActorContext =
  actor_epoch :: FabricEpoch
  actor_boot :: WorkerBootId
  actor_provenance :: Provenance

definition has_incarnation :: "ActorContext \<Rightarrow> bool" where
  "has_incarnation a \<longleftrightarrow> id_valid (actor_epoch a) \<and> id_valid (actor_boot a)"

definition operator_context :: "FabricEpoch \<Rightarrow> WorkerBootId \<Rightarrow> string \<Rightarrow> ActorContext" where
  "operator_context epoch boot detail =
     \<lparr>actor_epoch = epoch, actor_boot = boot,
      actor_provenance =
        \<lparr>prov_source = AuthoritySource_Operator, prov_epoch = epoch, prov_boot = boot,
         prov_sequence = 0, prov_detail = take kMaxProvenanceDetail detail\<rparr>\<rparr>"

section \<open>Entities\<close>

datatype FlowState =
    FlowState_Unknown
  | FlowState_Active
  | FlowState_Withdrawn
  | FlowState_Superseded
  | FlowState_other u8

primrec FlowState_to_u8 :: "FlowState \<Rightarrow> u8" where
  "FlowState_to_u8 FlowState_Unknown = 0"
| "FlowState_to_u8 FlowState_Active = 1"
| "FlowState_to_u8 FlowState_Withdrawn = 2"
| "FlowState_to_u8 FlowState_Superseded = 3"
| "FlowState_to_u8 (FlowState_other b) = b"

definition FlowState_of_u8 :: "u8 \<Rightarrow> FlowState" where
  "FlowState_of_u8 b =
     (if b = 0 then FlowState_Unknown
      else if b = 1 then FlowState_Active
      else if b = 2 then FlowState_Withdrawn
      else if b = 3 then FlowState_Superseded
      else FlowState_other b)"

lemma FlowState_to_of [simp]: "FlowState_to_u8 (FlowState_of_u8 b) = b"
  by (simp add: FlowState_of_u8_def)

datatype GrantState =
    GrantState_Unknown
  | GrantState_Active
  | GrantState_Recalled
  | GrantState_Expired
  | GrantState_Superseded
  | GrantState_other u8

primrec GrantState_to_u8 :: "GrantState \<Rightarrow> u8" where
  "GrantState_to_u8 GrantState_Unknown = 0"
| "GrantState_to_u8 GrantState_Active = 1"
| "GrantState_to_u8 GrantState_Recalled = 2"
| "GrantState_to_u8 GrantState_Expired = 3"
| "GrantState_to_u8 GrantState_Superseded = 4"
| "GrantState_to_u8 (GrantState_other b) = b"

definition GrantState_of_u8 :: "u8 \<Rightarrow> GrantState" where
  "GrantState_of_u8 b =
     (if b = 0 then GrantState_Unknown
      else if b = 1 then GrantState_Active
      else if b = 2 then GrantState_Recalled
      else if b = 3 then GrantState_Expired
      else if b = 4 then GrantState_Superseded
      else GrantState_other b)"

lemma GrantState_to_of [simp]: "GrantState_to_u8 (GrantState_of_u8 b) = b"
  by (simp add: GrantState_of_u8_def)

datatype ReservationState =
    ReservationState_Unknown
  | ReservationState_Active
  | ReservationState_Released
  | ReservationState_Expired
  | ReservationState_Superseded
  | ReservationState_other u8

primrec ReservationState_to_u8 :: "ReservationState \<Rightarrow> u8" where
  "ReservationState_to_u8 ReservationState_Unknown = 0"
| "ReservationState_to_u8 ReservationState_Active = 1"
| "ReservationState_to_u8 ReservationState_Released = 2"
| "ReservationState_to_u8 ReservationState_Expired = 3"
| "ReservationState_to_u8 ReservationState_Superseded = 4"
| "ReservationState_to_u8 (ReservationState_other b) = b"

definition ReservationState_of_u8 :: "u8 \<Rightarrow> ReservationState" where
  "ReservationState_of_u8 b =
     (if b = 0 then ReservationState_Unknown
      else if b = 1 then ReservationState_Active
      else if b = 2 then ReservationState_Released
      else if b = 3 then ReservationState_Expired
      else if b = 4 then ReservationState_Superseded
      else ReservationState_other b)"

lemma ReservationState_to_of [simp]: "ReservationState_to_u8 (ReservationState_of_u8 b) = b"
  by (simp add: ReservationState_of_u8_def)

datatype PolicyState =
    PolicyState_Unknown
  | PolicyState_Active
  | PolicyState_Suspended
  | PolicyState_Expired
  | PolicyState_Superseded
  | PolicyState_other u8

primrec PolicyState_to_u8 :: "PolicyState \<Rightarrow> u8" where
  "PolicyState_to_u8 PolicyState_Unknown = 0"
| "PolicyState_to_u8 PolicyState_Active = 1"
| "PolicyState_to_u8 PolicyState_Suspended = 2"
| "PolicyState_to_u8 PolicyState_Expired = 3"
| "PolicyState_to_u8 PolicyState_Superseded = 4"
| "PolicyState_to_u8 (PolicyState_other b) = b"

definition PolicyState_of_u8 :: "u8 \<Rightarrow> PolicyState" where
  "PolicyState_of_u8 b =
     (if b = 0 then PolicyState_Unknown
      else if b = 1 then PolicyState_Active
      else if b = 2 then PolicyState_Suspended
      else if b = 3 then PolicyState_Expired
      else if b = 4 then PolicyState_Superseded
      else PolicyState_other b)"

lemma PolicyState_to_of [simp]: "PolicyState_to_u8 (PolicyState_of_u8 b) = b"
  by (simp add: PolicyState_of_u8_def)

datatype ResourceState =
    ResourceState_Unknown
  | ResourceState_Active
  | ResourceState_Constrained
  | ResourceState_Withdrawn
  | ResourceState_Superseded
  | ResourceState_other u8

primrec ResourceState_to_u8 :: "ResourceState \<Rightarrow> u8" where
  "ResourceState_to_u8 ResourceState_Unknown = 0"
| "ResourceState_to_u8 ResourceState_Active = 1"
| "ResourceState_to_u8 ResourceState_Constrained = 2"
| "ResourceState_to_u8 ResourceState_Withdrawn = 3"
| "ResourceState_to_u8 ResourceState_Superseded = 4"
| "ResourceState_to_u8 (ResourceState_other b) = b"

definition ResourceState_of_u8 :: "u8 \<Rightarrow> ResourceState" where
  "ResourceState_of_u8 b =
     (if b = 0 then ResourceState_Unknown
      else if b = 1 then ResourceState_Active
      else if b = 2 then ResourceState_Constrained
      else if b = 3 then ResourceState_Withdrawn
      else if b = 4 then ResourceState_Superseded
      else ResourceState_other b)"

lemma ResourceState_to_of [simp]: "ResourceState_to_u8 (ResourceState_of_u8 b) = b"
  by (simp add: ResourceState_of_u8_def)

datatype RefillSemantics =
    RefillSemantics_Unknown
  | RefillSemantics_ContinuousTokenBucket
  | RefillSemantics_DiscreteTickBucket
  | RefillSemantics_other u8

primrec RefillSemantics_to_u8 :: "RefillSemantics \<Rightarrow> u8" where
  "RefillSemantics_to_u8 RefillSemantics_Unknown = 0"
| "RefillSemantics_to_u8 RefillSemantics_ContinuousTokenBucket = 1"
| "RefillSemantics_to_u8 RefillSemantics_DiscreteTickBucket = 2"
| "RefillSemantics_to_u8 (RefillSemantics_other b) = b"

definition RefillSemantics_of_u8 :: "u8 \<Rightarrow> RefillSemantics" where
  "RefillSemantics_of_u8 b =
     (if b = 0 then RefillSemantics_Unknown
      else if b = 1 then RefillSemantics_ContinuousTokenBucket
      else if b = 2 then RefillSemantics_DiscreteTickBucket
      else RefillSemantics_other b)"

lemma RefillSemantics_to_of [simp]: "RefillSemantics_to_u8 (RefillSemantics_of_u8 b) = b"
  by (simp add: RefillSemantics_of_u8_def)

datatype BackendKind =
    BackendKind_Unknown
  | BackendKind_Unsupported
  | BackendKind_Synthetic
  | BackendKind_Physical
  | BackendKind_other u8

primrec BackendKind_to_u8 :: "BackendKind \<Rightarrow> u8" where
  "BackendKind_to_u8 BackendKind_Unknown = 0"
| "BackendKind_to_u8 BackendKind_Unsupported = 1"
| "BackendKind_to_u8 BackendKind_Synthetic = 2"
| "BackendKind_to_u8 BackendKind_Physical = 3"
| "BackendKind_to_u8 (BackendKind_other b) = b"

definition BackendKind_of_u8 :: "u8 \<Rightarrow> BackendKind" where
  "BackendKind_of_u8 b =
     (if b = 0 then BackendKind_Unknown
      else if b = 1 then BackendKind_Unsupported
      else if b = 2 then BackendKind_Synthetic
      else if b = 3 then BackendKind_Physical
      else BackendKind_other b)"

lemma BackendKind_to_of [simp]: "BackendKind_to_u8 (BackendKind_of_u8 b) = b"
  by (simp add: BackendKind_of_u8_def)

datatype VerificationMode =
    VerificationMode_Unknown
  | VerificationMode_None
  | VerificationMode_PostApplyReadback
  | VerificationMode_other u8

primrec VerificationMode_to_u8 :: "VerificationMode \<Rightarrow> u8" where
  "VerificationMode_to_u8 VerificationMode_Unknown = 0"
| "VerificationMode_to_u8 VerificationMode_None = 1"
| "VerificationMode_to_u8 VerificationMode_PostApplyReadback = 2"
| "VerificationMode_to_u8 (VerificationMode_other b) = b"

definition VerificationMode_of_u8 :: "u8 \<Rightarrow> VerificationMode" where
  "VerificationMode_of_u8 b =
     (if b = 0 then VerificationMode_Unknown
      else if b = 1 then VerificationMode_None
      else if b = 2 then VerificationMode_PostApplyReadback
      else VerificationMode_other b)"

lemma VerificationMode_to_of [simp]: "VerificationMode_to_u8 (VerificationMode_of_u8 b) = b"
  by (simp add: VerificationMode_of_u8_def)

record Flow =
  flow_id :: FlowId
  flow_generation :: Generation
  flow_state :: FlowState
  flow_provenance :: Provenance

definition flow_active :: "Flow \<Rightarrow> bool" where
  "flow_active f \<longleftrightarrow> flow_state f = FlowState_Active"

record Grant =
  grant_id :: GrantId
  grant_flow :: FlowId
  grant_resource :: ResourceId
  grant_generation :: Generation
  grant_ceiling_ups :: u64
  grant_burst_tokens :: u64
  grant_window :: ValidityWindow
  grant_state :: GrantState
  grant_provenance :: Provenance

definition grant_active :: "Grant \<Rightarrow> bool" where
  "grant_active g \<longleftrightarrow> grant_state g = GrantState_Active"

record Reservation =
  reservation_id :: ReservationId
  reservation_flow :: FlowId
  reservation_resource :: ResourceId
  reservation_generation :: Generation
  reservation_ceiling_ups :: u64
  reservation_burst_tokens :: u64
  reservation_window :: ValidityWindow
  reservation_state :: ReservationState
  reservation_provenance :: Provenance

definition reservation_active :: "Reservation \<Rightarrow> bool" where
  "reservation_active r \<longleftrightarrow> reservation_state r = ReservationState_Active"

record HysteresisPolicy =
  reduce_below_ups :: u64
  recover_at_ups :: u64
  cooldown_ns :: u64

record Policy =
  policy_id :: PolicyId
  policy_generation :: Generation
  policy_floor_ups :: u64
  policy_target_ups :: u64
  policy_ceiling_ups :: u64
  policy_burst_tokens :: u64
  policy_refill :: RefillSemantics
  policy_grace_ns :: u64
  policy_hysteresis :: HysteresisPolicy
  policy_window :: ValidityWindow
  policy_state :: PolicyState
  policy_provenance :: Provenance

definition policy_active :: "Policy \<Rightarrow> bool" where
  "policy_active p \<longleftrightarrow> policy_state p = PolicyState_Active"

definition ordering_holds :: "Policy \<Rightarrow> bool" where
  "ordering_holds p \<longleftrightarrow>
     policy_floor_ups p \<le> policy_target_ups p \<and> policy_target_ups p \<le> policy_ceiling_ups p"

record Resource =
  resource_id :: ResourceId
  resource_generation :: Generation
  resource_capacity_ups :: u64
  resource_capacity_burst_tokens :: u64
  resource_state :: ResourceState
  resource_provenance :: Provenance

definition resource_active :: "Resource \<Rightarrow> bool" where
  "resource_active r \<longleftrightarrow>
     resource_state r = ResourceState_Active \<or> resource_state r = ResourceState_Constrained"

definition kBackendCapApply :: u32 where "kBackendCapApply = push_bit 0 1"
definition kBackendCapRevoke :: u32 where "kBackendCapRevoke = push_bit 1 1"
definition kBackendCapVerify :: u32 where "kBackendCapVerify = push_bit 2 1"
definition kBackendCapBurst :: u32 where "kBackendCapBurst = push_bit 3 1"

record BackendDescriptor =
  backend_id :: BackendId
  backend_generation :: Generation
  backend_kind :: BackendKind
  backend_capabilities :: u32
  backend_verification :: VerificationMode
  backend_max_rate_ups :: u64
  backend_max_burst_tokens :: u64
  backend_label :: string
  backend_provenance :: Provenance

definition can_apply :: "BackendDescriptor \<Rightarrow> bool" where
  "can_apply b \<longleftrightarrow> backend_capabilities b AND kBackendCapApply \<noteq> 0"

definition can_revoke :: "BackendDescriptor \<Rightarrow> bool" where
  "can_revoke b \<longleftrightarrow> backend_capabilities b AND kBackendCapRevoke \<noteq> 0"

definition can_verify :: "BackendDescriptor \<Rightarrow> bool" where
  "can_verify b \<longleftrightarrow>
     backend_capabilities b AND kBackendCapVerify \<noteq> 0
     \<and> backend_verification b = VerificationMode_PostApplyReadback"

definition supports_verified_effect :: "BackendDescriptor \<Rightarrow> bool" where
  "supports_verified_effect b \<longleftrightarrow>
     backend_kind b = BackendKind_Synthetic \<or> backend_kind b = BackendKind_Physical"

section \<open>Structural validation\<close>

definition provenance_ok :: "Provenance \<Rightarrow> bool" where
  "provenance_ok p \<longleftrightarrow> authoritative p \<and> well_formed p"

definition validate_flow :: "Flow \<Rightarrow> ReasonCode" where
  "validate_flow f =
     (if \<not> id_valid (flow_id f) \<or> \<not> id_valid (flow_generation f) then R_MalformedInput
      else if flow_state f = FlowState_Unknown then R_UnknownAuthority
      else if \<not> provenance_ok (flow_provenance f) then R_UnknownAuthority
      else R_None)"

definition validate_grant :: "Grant \<Rightarrow> ReasonCode" where
  "validate_grant g =
     (if \<not> id_valid (grant_id g) \<or> \<not> id_valid (grant_flow g) \<or> \<not> id_valid (grant_resource g)
         \<or> \<not> id_valid (grant_generation g) then R_MalformedInput
      else if grant_state g = GrantState_Unknown then R_UnknownAuthority
      else if empty_window (grant_window g) then R_MalformedInput
      else if \<not> provenance_ok (grant_provenance g) then R_UnknownAuthority
      else R_None)"

definition validate_reservation :: "Reservation \<Rightarrow> ReasonCode" where
  "validate_reservation r =
     (if \<not> id_valid (reservation_id r) \<or> \<not> id_valid (reservation_flow r)
         \<or> \<not> id_valid (reservation_resource r) \<or> \<not> id_valid (reservation_generation r)
      then R_MalformedInput
      else if reservation_state r = ReservationState_Unknown then R_UnknownAuthority
      else if empty_window (reservation_window r) then R_MalformedInput
      else if \<not> provenance_ok (reservation_provenance r) then R_UnknownAuthority
      else R_None)"

definition validate_policy :: "Policy \<Rightarrow> ReasonCode" where
  "validate_policy p =
     (if \<not> id_valid (policy_id p) \<or> \<not> id_valid (policy_generation p) then R_MalformedInput
      else if policy_state p = PolicyState_Unknown then R_UnknownAuthority
      else if policy_refill p = RefillSemantics_Unknown then R_MalformedInput
      else if \<not> ordering_holds p then R_MalformedInput
      else if empty_window (policy_window p) then R_MalformedInput
      else if \<not> provenance_ok (policy_provenance p) then R_UnknownAuthority
      else R_None)"

definition validate_resource :: "Resource \<Rightarrow> ReasonCode" where
  "validate_resource r =
     (if \<not> id_valid (resource_id r) \<or> \<not> id_valid (resource_generation r) then R_MalformedInput
      else if resource_state r = ResourceState_Unknown then R_UnknownAuthority
      else if \<not> provenance_ok (resource_provenance r) then R_UnknownAuthority
      else R_None)"

definition validate_backend :: "BackendDescriptor \<Rightarrow> ReasonCode" where
  "validate_backend b =
     (if \<not> id_valid (backend_id b) \<or> \<not> id_valid (backend_generation b) then R_MalformedInput
      else if backend_kind b = BackendKind_Unknown
              \<or> backend_verification b = VerificationMode_Unknown then R_UnknownAuthority
      else if \<not> is_bounded_text (backend_label b) kMaxProvenanceDetail then R_MalformedInput
      else if \<not> provenance_ok (backend_provenance b) then R_UnknownAuthority
      else R_None)"

section \<open>Windows\<close>

lemma window_contains_iff:
  "window_contains w now \<longleftrightarrow>
     not_before_ns w \<le> now \<and> (now < invalid_after_ns w \<or> invalid_after_ns w = kU64Max)"
  by (auto simp: window_contains_def is_never_def kNeverExpiresNs_def)

lemma empty_window_iff: "empty_window w \<longleftrightarrow> (\<forall>now. \<not> window_contains w now)"
proof
  assume "empty_window w"
  then show "\<forall>now. \<not> window_contains w now"
    by (auto simp: empty_window_def window_contains_iff is_never_def kNeverExpiresNs_def)
next
  assume "\<forall>now. \<not> window_contains w now"
  then have "\<not> window_contains w (not_before_ns w)" by blast
  then show "empty_window w"
    by (auto simp: empty_window_def window_contains_iff is_never_def kNeverExpiresNs_def)
qed

lemma operator_context_authoritative [simp]:
  "authoritative (actor_provenance (operator_context e b d))"
  by (simp add: authoritative_def operator_context_def)

end
