(* ===== verification/Envelope.thy ===== *)
theory Envelope
  imports Bucket Entities
begin

text \<open>
  The governed object (\<^verbatim>\<open>include/rate_governor/envelope.hpp\<close>, last part of
  \<^verbatim>\<open>src/entities.cpp\<close>): envelope and attempt states, the fingerprint that binds a
  decision to its evidence, effective plans, requests, attempts and envelopes, with
  the predicates the engine decides by.  An enumeration has one more constructor
  than the source declares, for the bytes that a decoder casts into it unchecked.
\<close>

section \<open>Enumerations\<close>

datatype EnvelopeState =
    EnvelopeState_Unknown
  | EnvelopeState_Desired
  | EnvelopeState_Authorized
  | EnvelopeState_Dispatching
  | EnvelopeState_Applied
  | EnvelopeState_Degraded
  | EnvelopeState_RevokePending
  | EnvelopeState_Revoked
  | EnvelopeState_Stale
  | EnvelopeState_Failed
  | EnvelopeState_other u8

primrec EnvelopeState_to_u8 :: "EnvelopeState \<Rightarrow> u8" where
  "EnvelopeState_to_u8 EnvelopeState_Unknown = 0"
| "EnvelopeState_to_u8 EnvelopeState_Desired = 1"
| "EnvelopeState_to_u8 EnvelopeState_Authorized = 2"
| "EnvelopeState_to_u8 EnvelopeState_Dispatching = 3"
| "EnvelopeState_to_u8 EnvelopeState_Applied = 4"
| "EnvelopeState_to_u8 EnvelopeState_Degraded = 5"
| "EnvelopeState_to_u8 EnvelopeState_RevokePending = 6"
| "EnvelopeState_to_u8 EnvelopeState_Revoked = 7"
| "EnvelopeState_to_u8 EnvelopeState_Stale = 8"
| "EnvelopeState_to_u8 EnvelopeState_Failed = 9"
| "EnvelopeState_to_u8 (EnvelopeState_other b) = b"

definition EnvelopeState_of_u8 :: "u8 \<Rightarrow> EnvelopeState" where
  "EnvelopeState_of_u8 b =
     (if b = 0 then EnvelopeState_Unknown
      else if b = 1 then EnvelopeState_Desired
      else if b = 2 then EnvelopeState_Authorized
      else if b = 3 then EnvelopeState_Dispatching
      else if b = 4 then EnvelopeState_Applied
      else if b = 5 then EnvelopeState_Degraded
      else if b = 6 then EnvelopeState_RevokePending
      else if b = 7 then EnvelopeState_Revoked
      else if b = 8 then EnvelopeState_Stale
      else if b = 9 then EnvelopeState_Failed
      else EnvelopeState_other b)"

lemma EnvelopeState_to_of [simp]: "EnvelopeState_to_u8 (EnvelopeState_of_u8 b) = b"
  by (simp add: EnvelopeState_of_u8_def)

datatype EnvelopeAction =
    EnvelopeAction_None
  | EnvelopeAction_AwaitAuthorization
  | EnvelopeAction_AwaitVerification
  | EnvelopeAction_RetryApply
  | EnvelopeAction_Reduce
  | EnvelopeAction_Revoke
  | EnvelopeAction_Revalidate
  | EnvelopeAction_Fence
  | EnvelopeAction_RejectStale
  | EnvelopeAction_Halt

definition state_holds_enforceable_effect :: "EnvelopeState \<Rightarrow> bool" where
  "state_holds_enforceable_effect s \<longleftrightarrow> s = EnvelopeState_Applied \<or> s = EnvelopeState_Degraded"

datatype LimitingAuthority =
    LimitingAuthority_None
  | LimitingAuthority_Grant
  | LimitingAuthority_Reservation
  | LimitingAuthority_Policy
  | LimitingAuthority_Resource
  | LimitingAuthority_Backend
  | LimitingAuthority_Unknown
  | LimitingAuthority_other u8

primrec LimitingAuthority_to_u8 :: "LimitingAuthority \<Rightarrow> u8" where
  "LimitingAuthority_to_u8 LimitingAuthority_None = 0"
| "LimitingAuthority_to_u8 LimitingAuthority_Grant = 1"
| "LimitingAuthority_to_u8 LimitingAuthority_Reservation = 2"
| "LimitingAuthority_to_u8 LimitingAuthority_Policy = 3"
| "LimitingAuthority_to_u8 LimitingAuthority_Resource = 4"
| "LimitingAuthority_to_u8 LimitingAuthority_Backend = 5"
| "LimitingAuthority_to_u8 LimitingAuthority_Unknown = 6"
| "LimitingAuthority_to_u8 (LimitingAuthority_other b) = b"

definition LimitingAuthority_of_u8 :: "u8 \<Rightarrow> LimitingAuthority" where
  "LimitingAuthority_of_u8 b =
     (if b = 0 then LimitingAuthority_None
      else if b = 1 then LimitingAuthority_Grant
      else if b = 2 then LimitingAuthority_Reservation
      else if b = 3 then LimitingAuthority_Policy
      else if b = 4 then LimitingAuthority_Resource
      else if b = 5 then LimitingAuthority_Backend
      else if b = 6 then LimitingAuthority_Unknown
      else LimitingAuthority_other b)"

lemma LimitingAuthority_to_of [simp]: "LimitingAuthority_to_u8 (LimitingAuthority_of_u8 b) = b"
  by (simp add: LimitingAuthority_of_u8_def)

datatype AttemptKind =
    AttemptKind_Unknown
  | AttemptKind_Apply
  | AttemptKind_Revoke
  | AttemptKind_other u8

primrec AttemptKind_to_u8 :: "AttemptKind \<Rightarrow> u8" where
  "AttemptKind_to_u8 AttemptKind_Unknown = 0"
| "AttemptKind_to_u8 AttemptKind_Apply = 1"
| "AttemptKind_to_u8 AttemptKind_Revoke = 2"
| "AttemptKind_to_u8 (AttemptKind_other b) = b"

definition AttemptKind_of_u8 :: "u8 \<Rightarrow> AttemptKind" where
  "AttemptKind_of_u8 b =
     (if b = 0 then AttemptKind_Unknown
      else if b = 1 then AttemptKind_Apply
      else if b = 2 then AttemptKind_Revoke
      else AttemptKind_other b)"

lemma AttemptKind_to_of [simp]: "AttemptKind_to_u8 (AttemptKind_of_u8 b) = b"
  by (simp add: AttemptKind_of_u8_def)

datatype AttemptState =
    AttemptState_Unknown
  | AttemptState_Created
  | AttemptState_Dispatched
  | AttemptState_Acknowledged
  | AttemptState_Verified
  | AttemptState_Failed
  | AttemptState_Cancelled
  | AttemptState_Abandoned
  | AttemptState_LateRejected
  | AttemptState_DuplicateIgnored
  | AttemptState_Ambiguous
  | AttemptState_other u8

primrec AttemptState_to_u8 :: "AttemptState \<Rightarrow> u8" where
  "AttemptState_to_u8 AttemptState_Unknown = 0"
| "AttemptState_to_u8 AttemptState_Created = 1"
| "AttemptState_to_u8 AttemptState_Dispatched = 2"
| "AttemptState_to_u8 AttemptState_Acknowledged = 3"
| "AttemptState_to_u8 AttemptState_Verified = 4"
| "AttemptState_to_u8 AttemptState_Failed = 5"
| "AttemptState_to_u8 AttemptState_Cancelled = 6"
| "AttemptState_to_u8 AttemptState_Abandoned = 7"
| "AttemptState_to_u8 AttemptState_LateRejected = 8"
| "AttemptState_to_u8 AttemptState_DuplicateIgnored = 9"
| "AttemptState_to_u8 AttemptState_Ambiguous = 10"
| "AttemptState_to_u8 (AttemptState_other b) = b"

definition AttemptState_of_u8 :: "u8 \<Rightarrow> AttemptState" where
  "AttemptState_of_u8 b =
     (if b = 0 then AttemptState_Unknown
      else if b = 1 then AttemptState_Created
      else if b = 2 then AttemptState_Dispatched
      else if b = 3 then AttemptState_Acknowledged
      else if b = 4 then AttemptState_Verified
      else if b = 5 then AttemptState_Failed
      else if b = 6 then AttemptState_Cancelled
      else if b = 7 then AttemptState_Abandoned
      else if b = 8 then AttemptState_LateRejected
      else if b = 9 then AttemptState_DuplicateIgnored
      else if b = 10 then AttemptState_Ambiguous
      else AttemptState_other b)"

lemma AttemptState_to_of [simp]: "AttemptState_to_u8 (AttemptState_of_u8 b) = b"
  by (simp add: AttemptState_of_u8_def)

section \<open>Fingerprints and plans\<close>

record PlanFingerprint =
  fp_envelope :: RateEnvelopeId
  fp_envelope_generation :: Generation
  fp_flow :: FlowId
  fp_flow_generation :: Generation
  fp_resource :: ResourceId
  fp_resource_generation :: Generation
  fp_grant :: GrantId
  fp_grant_generation :: Generation
  fp_has_reservation :: bool
  fp_reservation :: ReservationId
  fp_reservation_generation :: Generation
  fp_policy :: PolicyId
  fp_policy_generation :: Generation
  fp_backend :: BackendId
  fp_backend_generation :: Generation
  fp_epoch :: FabricEpoch
  fp_boot :: WorkerBootId
  fp_granted_ceiling_ups :: u64
  fp_granted_burst_tokens :: u64
  fp_reserved_ceiling_ups :: u64
  fp_reserved_burst_tokens :: u64
  fp_policy_floor_ups :: u64
  fp_policy_target_ups :: u64
  fp_policy_ceiling_ups :: u64
  fp_policy_burst_tokens :: u64
  fp_resource_capacity_ups :: u64
  fp_resource_capacity_burst_tokens :: u64
  fp_backend_max_rate_ups :: u64
  fp_backend_max_burst_tokens :: u64
  fp_effective_ceiling_ups :: u64
  fp_effective_floor_ups :: u64
  fp_effective_target_ups :: u64
  fp_effective_burst_tokens :: u64
  fp_valid_from_ns :: TimestampNs
  fp_valid_until_ns :: TimestampNs

text \<open>A default-constructed value of each structure.\<close>

definition empty_fingerprint :: PlanFingerprint where
  "empty_fingerprint =
     \<lparr>fp_envelope = StrongId 0, fp_envelope_generation = StrongId 0, fp_flow = StrongId 0,
      fp_flow_generation = StrongId 0, fp_resource = StrongId 0,
      fp_resource_generation = StrongId 0, fp_grant = StrongId 0,
      fp_grant_generation = StrongId 0, fp_has_reservation = False,
      fp_reservation = StrongId 0, fp_reservation_generation = StrongId 0,
      fp_policy = StrongId 0, fp_policy_generation = StrongId 0, fp_backend = StrongId 0,
      fp_backend_generation = StrongId 0, fp_epoch = StrongId 0, fp_boot = StrongId 0,
      fp_granted_ceiling_ups = 0, fp_granted_burst_tokens = 0, fp_reserved_ceiling_ups = 0,
      fp_reserved_burst_tokens = 0, fp_policy_floor_ups = 0, fp_policy_target_ups = 0,
      fp_policy_ceiling_ups = 0, fp_policy_burst_tokens = 0, fp_resource_capacity_ups = 0,
      fp_resource_capacity_burst_tokens = 0, fp_backend_max_rate_ups = 0,
      fp_backend_max_burst_tokens = 0, fp_effective_ceiling_ups = 0,
      fp_effective_floor_ups = 0, fp_effective_target_ups = 0, fp_effective_burst_tokens = 0,
      fp_valid_from_ns = 0, fp_valid_until_ns = kNeverExpiresNs\<rparr>"

definition same_binding :: "PlanFingerprint \<Rightarrow> PlanFingerprint \<Rightarrow> bool" where
  "same_binding a b \<longleftrightarrow>
     fp_envelope a = fp_envelope b
     \<and> fp_envelope_generation a = fp_envelope_generation b
     \<and> fp_flow a = fp_flow b
     \<and> fp_flow_generation a = fp_flow_generation b
     \<and> fp_resource a = fp_resource b
     \<and> fp_resource_generation a = fp_resource_generation b
     \<and> fp_grant a = fp_grant b
     \<and> fp_grant_generation a = fp_grant_generation b
     \<and> fp_has_reservation a = fp_has_reservation b
     \<and> fp_reservation a = fp_reservation b
     \<and> fp_reservation_generation a = fp_reservation_generation b
     \<and> fp_policy a = fp_policy b
     \<and> fp_policy_generation a = fp_policy_generation b
     \<and> fp_backend a = fp_backend b
     \<and> fp_backend_generation a = fp_backend_generation b
     \<and> fp_epoch a = fp_epoch b
     \<and> fp_boot a = fp_boot b"

record EffectivePlan =
  plan_fingerprint :: PlanFingerprint
  plan_limiting_authority :: LimitingAuthority
  plan_ceiling_clamped :: bool
  plan_target_clamped :: bool
  plan_burst_clamped :: bool
  plan_refill :: RefillSemantics
  plan_grace_ns :: u64
  plan_hysteresis :: HysteresisPolicy
  plan_explanation :: string

definition empty_plan :: EffectivePlan where
  "empty_plan =
     \<lparr>plan_fingerprint = empty_fingerprint, plan_limiting_authority = LimitingAuthority_None,
      plan_ceiling_clamped = False, plan_target_clamped = False, plan_burst_clamped = False,
      plan_refill = RefillSemantics_Unknown, plan_grace_ns = 0,
      plan_hysteresis = \<lparr>reduce_below_ups = 0, recover_at_ups = 0, cooldown_ns = 0\<rparr>,
      plan_explanation = []\<rparr>"

definition plan_ceiling_ups :: "EffectivePlan \<Rightarrow> u64" where
  "plan_ceiling_ups p = fp_effective_ceiling_ups (plan_fingerprint p)"

definition plan_floor_ups :: "EffectivePlan \<Rightarrow> u64" where
  "plan_floor_ups p = fp_effective_floor_ups (plan_fingerprint p)"

definition plan_target_ups :: "EffectivePlan \<Rightarrow> u64" where
  "plan_target_ups p = fp_effective_target_ups (plan_fingerprint p)"

definition plan_burst_tokens :: "EffectivePlan \<Rightarrow> u64" where
  "plan_burst_tokens p = fp_effective_burst_tokens (plan_fingerprint p)"

definition invariants_hold :: "EffectivePlan \<Rightarrow> bool" where
  "invariants_hold p =
     (let fp = plan_fingerprint p in
      if fp_effective_ceiling_ups fp = 0 then False
      else if fp_effective_target_ups fp < fp_effective_floor_ups fp then False
      else if fp_effective_ceiling_ups fp < fp_effective_target_ups fp then False
      else if \<not> id_valid (fp_envelope fp) \<or> \<not> id_valid (fp_envelope_generation fp) then False
      else if \<not> id_valid (fp_grant fp) \<or> \<not> id_valid (fp_grant_generation fp) then False
      else if \<not> id_valid (fp_policy fp) \<or> \<not> id_valid (fp_policy_generation fp) then False
      else if \<not> id_valid (fp_resource fp) \<or> \<not> id_valid (fp_resource_generation fp) then False
      else if \<not> id_valid (fp_backend fp) \<or> \<not> id_valid (fp_backend_generation fp) then False
      else if \<not> id_valid (fp_epoch fp) \<or> \<not> id_valid (fp_boot fp) then False
      else True)"

section \<open>Requests, attempts and envelopes\<close>

record EnvelopeRequest =
  req_flow :: FlowId
  req_flow_generation :: Generation
  req_resource :: ResourceId
  req_resource_generation :: Generation
  req_grant :: GrantId
  req_grant_generation :: Generation
  req_has_reservation :: bool
  req_reservation :: ReservationId
  req_reservation_generation :: Generation
  req_policy :: PolicyId
  req_policy_generation :: Generation
  req_backend :: BackendId
  req_backend_generation :: Generation
  req_annotation :: string

record EnforcementAttempt =
  att_id :: EnforcementAttemptId
  att_envelope :: RateEnvelopeId
  att_envelope_generation :: Generation
  att_kind :: AttemptKind
  att_state :: AttemptState
  att_reason :: ReasonCode
  att_fingerprint :: PlanFingerprint
  att_backend :: BackendId
  att_backend_generation :: Generation
  att_epoch :: FabricEpoch
  att_boot :: WorkerBootId
  att_sequence :: u64
  att_idempotency_key :: u64
  att_created_ns :: TimestampNs
  att_dispatched_ns :: TimestampNs
  att_deadline_ns :: TimestampNs
  att_completed_ns :: TimestampNs
  att_requested_rate_ups :: u64
  att_requested_burst_tokens :: u64
  att_acknowledged_rate_ups :: u64
  att_acknowledged_burst_tokens :: u64
  att_acknowledged :: bool
  att_verified_rate_ups :: u64
  att_verified_burst_tokens :: u64
  att_verified :: bool
  att_effect_confirmed :: bool
  att_compensating :: bool
  att_detail :: string

definition empty_attempt :: EnforcementAttempt where
  "empty_attempt =
     \<lparr>att_id = StrongId 0, att_envelope = StrongId 0, att_envelope_generation = StrongId 0,
      att_kind = AttemptKind_Unknown, att_state = AttemptState_Unknown, att_reason = R_None,
      att_fingerprint = empty_fingerprint, att_backend = StrongId 0,
      att_backend_generation = StrongId 0, att_epoch = StrongId 0, att_boot = StrongId 0,
      att_sequence = 0, att_idempotency_key = 0, att_created_ns = 0, att_dispatched_ns = 0,
      att_deadline_ns = 0, att_completed_ns = 0, att_requested_rate_ups = 0,
      att_requested_burst_tokens = 0, att_acknowledged_rate_ups = 0,
      att_acknowledged_burst_tokens = 0, att_acknowledged = False, att_verified_rate_ups = 0,
      att_verified_burst_tokens = 0, att_verified = False, att_effect_confirmed = False,
      att_compensating = False, att_detail = []\<rparr>"

definition attempt_state_is_terminal :: "AttemptState \<Rightarrow> bool" where
  "attempt_state_is_terminal s =
     (case s of
        AttemptState_Verified \<Rightarrow> True
      | AttemptState_Failed \<Rightarrow> True
      | AttemptState_Cancelled \<Rightarrow> True
      | AttemptState_Abandoned \<Rightarrow> True
      | AttemptState_LateRejected \<Rightarrow> True
      | AttemptState_DuplicateIgnored \<Rightarrow> True
      | AttemptState_Ambiguous \<Rightarrow> True
      | _ \<Rightarrow> False)"

definition attempt_state_may_publish_success :: "AttemptState \<Rightarrow> bool" where
  "attempt_state_may_publish_success s \<longleftrightarrow> s = AttemptState_Verified"

definition inflight :: "EnforcementAttempt \<Rightarrow> bool" where
  "inflight a \<longleftrightarrow>
     att_state a = AttemptState_Created \<or> att_state a = AttemptState_Dispatched
     \<or> att_state a = AttemptState_Acknowledged"

definition compute_idempotency_key :: "RateEnvelopeId \<Rightarrow> Generation \<Rightarrow> AttemptKind \<Rightarrow> u64" where
  "compute_idempotency_key e g k =
     (let s1 = mix64 (id_value e);
          s2 = s1 XOR mix64 (id_value g * 0x9E3779B97F4A7C15);
          s3 = s2 XOR mix64 (ucast (AttemptKind_to_u8 k) + 0x165667B19E3779F9)
      in mix64 s3)"

record RateEnvelope =
  env_id :: RateEnvelopeId
  env_generation :: Generation
  env_flow :: FlowId
  env_flow_generation :: Generation
  env_resource :: ResourceId
  env_resource_generation :: Generation
  env_grant :: GrantId
  env_grant_generation :: Generation
  env_has_reservation :: bool
  env_reservation :: ReservationId
  env_reservation_generation :: Generation
  env_policy :: PolicyId
  env_policy_generation :: Generation
  env_backend :: BackendId
  env_backend_generation :: Generation
  env_state :: EnvelopeState
  env_reason :: ReasonCode
  env_has_plan :: bool
  env_plan :: EffectivePlan
  env_bucket :: TokenBucket
  env_applied_rate_ups :: u64
  env_applied_burst_tokens :: u64
  env_effect_verified :: bool
  env_applied_epoch :: FabricEpoch
  env_applied_boot :: WorkerBootId
  env_cooldown_until_ns :: TimestampNs
  env_revalidate_by_ns :: TimestampNs
  env_requires_revalidation :: bool
  env_annotation :: string
  env_created_ns :: TimestampNs
  env_updated_ns :: TimestampNs
  env_plan_revision :: u64
  env_attempts_issued :: u64
  env_completions_applied :: u64
  env_completions_rejected :: u64

definition empty_envelope :: RateEnvelope where
  "empty_envelope =
     \<lparr>env_id = StrongId 0, env_generation = StrongId 1, env_flow = StrongId 0,
      env_flow_generation = StrongId 0, env_resource = StrongId 0,
      env_resource_generation = StrongId 0, env_grant = StrongId 0,
      env_grant_generation = StrongId 0, env_has_reservation = False,
      env_reservation = StrongId 0, env_reservation_generation = StrongId 0,
      env_policy = StrongId 0, env_policy_generation = StrongId 0, env_backend = StrongId 0,
      env_backend_generation = StrongId 0, env_state = EnvelopeState_Unknown,
      env_reason = R_None, env_has_plan = False, env_plan = empty_plan,
      env_bucket = empty_bucket, env_applied_rate_ups = 0, env_applied_burst_tokens = 0,
      env_effect_verified = False, env_applied_epoch = StrongId 0,
      env_applied_boot = StrongId 0, env_cooldown_until_ns = 0, env_revalidate_by_ns = 0,
      env_requires_revalidation = False, env_annotation = [], env_created_ns = 0,
      env_updated_ns = 0, env_plan_revision = 0, env_attempts_issued = 0,
      env_completions_applied = 0, env_completions_rejected = 0\<rparr>"

section \<open>Facts the engine uses\<close>

lemma inflight_not_terminal: "inflight a \<Longrightarrow> \<not> attempt_state_is_terminal (att_state a)"
  by (auto simp: inflight_def attempt_state_is_terminal_def)

lemma invariants_hold_iff:
  "invariants_hold p \<longleftrightarrow>
     plan_ceiling_ups p \<noteq> 0 \<and> plan_floor_ups p \<le> plan_target_ups p
     \<and> plan_target_ups p \<le> plan_ceiling_ups p
     \<and> list_all id_valid [fp_envelope_generation (plan_fingerprint p),
          fp_grant_generation (plan_fingerprint p), fp_policy_generation (plan_fingerprint p),
          fp_resource_generation (plan_fingerprint p), fp_backend_generation (plan_fingerprint p)]
     \<and> id_valid (fp_envelope (plan_fingerprint p)) \<and> id_valid (fp_grant (plan_fingerprint p))
     \<and> id_valid (fp_policy (plan_fingerprint p)) \<and> id_valid (fp_resource (plan_fingerprint p))
     \<and> id_valid (fp_backend (plan_fingerprint p)) \<and> id_valid (fp_epoch (plan_fingerprint p))
     \<and> id_valid (fp_boot (plan_fingerprint p))"
  by (auto simp: invariants_hold_def Let_def plan_ceiling_ups_def plan_floor_ups_def
      plan_target_ups_def not_less)

lemma same_binding_refl [simp]: "same_binding fp fp"
  by (simp add: same_binding_def)

end
