(* ===== verification/Plan.thy ===== *)
theory Plan
  imports Envelope
begin

text \<open>
  Derivation of the effective envelope (\<^verbatim>\<open>include/rate_governor/plan.hpp\<close>,
  \<^verbatim>\<open>src/plan.cpp\<close>).  A pointer of \<open>PlanInputs\<close> that may be null is an option;
  the refusals come in the order of the code's early returns.  The properties state
  when a plan is authorized, that no magnitude exceeds the authority behind it, and
  that the published fingerprint re-derives to itself.  The explanation text of an
  outcome is not modelled: no decision reads it.
\<close>

section \<open>Inputs and outcome\<close>

record PlanInputs =
  pi_envelope :: RateEnvelopeId
  pi_envelope_generation :: Generation
  pi_flow :: FlowId
  pi_flow_generation :: Generation
  pi_flow_def :: "Flow option"
  pi_resource :: ResourceId
  pi_resource_generation :: Generation
  pi_resource_def :: "Resource option"
  pi_grant :: GrantId
  pi_grant_generation :: Generation
  pi_grant_def :: "Grant option"
  pi_has_reservation :: bool
  pi_reservation :: ReservationId
  pi_reservation_generation :: Generation
  pi_reservation_def :: "Reservation option"
  pi_policy :: PolicyId
  pi_policy_generation :: Generation
  pi_policy_def :: "Policy option"
  pi_backend :: BackendId
  pi_backend_generation :: Generation
  pi_backend_def :: "BackendDescriptor option"
  pi_epoch :: FabricEpoch
  pi_boot :: WorkerBootId

record PlanOutcome =
  po_authorized :: bool
  po_reason :: ReasonCode
  po_plan :: EffectivePlan

record Candidate =
  cand_value :: u64
  cand_authority :: LimitingAuthority

definition consider_candidate :: "u64 \<Rightarrow> LimitingAuthority \<Rightarrow> Candidate \<Rightarrow> Candidate" where
  "consider_candidate v a c = (if v < cand_value c then c\<lparr>cand_value := v, cand_authority := a\<rparr> else c)"

definition deny :: "ReasonCode \<Rightarrow> PlanOutcome" where
  "deny r = \<lparr>po_authorized = False, po_reason = r, po_plan = empty_plan\<rparr>"

section \<open>The refusals\<close>

text \<open>One definition per authority, in the order in which \<open>derive_plan\<close> examines them.\<close>

definition refuse_flow :: "PlanInputs \<Rightarrow> ReasonCode option" where
  "refuse_flow i =
     (if \<not> id_valid (pi_envelope i) \<or> \<not> id_valid (pi_envelope_generation i)
      then Some R_PlanRejectedEnvelopeGenerationMismatch
      else if \<not> id_valid (pi_flow i) \<or> \<not> id_valid (pi_resource i)
      then Some R_PlanRejectedUnknownFlow
      else (case pi_flow_def i of
          None \<Rightarrow> Some R_PlanRejectedUnknownFlow
        | Some f \<Rightarrow>
            if flow_generation f \<noteq> pi_flow_generation i
            then Some R_PlanRejectedFlowGenerationMismatch
            else if \<not> flow_active f then Some R_PlanRejectedFlowNotActive
            else None))"

definition refuse_resource :: "PlanInputs \<Rightarrow> ReasonCode option" where
  "refuse_resource i =
     (case pi_resource_def i of
          None \<Rightarrow> Some R_PlanRejectedUnknownResource
        | Some r \<Rightarrow>
            if resource_generation r \<noteq> pi_resource_generation i
            then Some R_PlanRejectedResourceGenerationMismatch
            else if \<not> resource_active r then Some R_PlanRejectedResourceNotActive
            else if resource_capacity_ups r = 0 then Some R_PlanRejectedResourceCapacityZero
            else None)"

definition refuse_grant :: "PlanInputs \<Rightarrow> TimestampNs \<Rightarrow> ReasonCode option" where
  "refuse_grant i now =
     (case pi_grant_def i of
          None \<Rightarrow> Some R_PlanRejectedMissingGrant
        | Some g \<Rightarrow>
            if grant_generation g \<noteq> pi_grant_generation i
            then Some R_PlanRejectedGrantGenerationMismatch
            else if grant_flow g \<noteq> pi_flow i \<or> grant_resource g \<noteq> pi_resource i
            then Some R_PlanRejectedUnknownFlow
            else if \<not> grant_active g then Some R_PlanRejectedGrantNotActive
            else if now < not_before_ns (grant_window g) then Some R_PlanRejectedGrantNotYetValid
            else if \<not> window_contains (grant_window g) now then Some R_PlanRejectedGrantExpired
            else None)"

definition refuse_policy :: "PlanInputs \<Rightarrow> TimestampNs \<Rightarrow> ReasonCode option" where
  "refuse_policy i now =
     (case pi_policy_def i of
          None \<Rightarrow> Some R_PlanRejectedMissingPolicy
        | Some p \<Rightarrow>
            if policy_generation p \<noteq> pi_policy_generation i
            then Some R_PlanRejectedPolicyGenerationMismatch
            else if \<not> policy_active p then Some R_PlanRejectedPolicyNotActive
            else if now < not_before_ns (policy_window p) then Some R_PlanRejectedPolicyNotYetValid
            else if \<not> window_contains (policy_window p) now then Some R_PlanRejectedPolicyExpired
            else if \<not> ordering_holds p then Some R_MalformedInput
            else None)"

definition refuse_reservation :: "PlanInputs \<Rightarrow> TimestampNs \<Rightarrow> ReasonCode option" where
  "refuse_reservation i now =
     (if pi_has_reservation i then
        (case pi_reservation_def i of
            None \<Rightarrow> Some R_PlanRejectedMissingReservation
          | Some s \<Rightarrow>
              if reservation_generation s \<noteq> pi_reservation_generation i
              then Some R_PlanRejectedReservationGenerationMismatch
              else if reservation_flow s \<noteq> pi_flow i \<or> reservation_resource s \<noteq> pi_resource i
              then Some R_PlanRejectedMissingReservation
              else if \<not> reservation_active s then Some R_PlanRejectedReservationNotActive
              else if now < not_before_ns (reservation_window s)
              then Some R_PlanRejectedReservationNotYetValid
              else if \<not> window_contains (reservation_window s) now
              then Some R_PlanRejectedReservationExpired
              else None)
      else None)"

definition refuse_backend :: "PlanInputs \<Rightarrow> ReasonCode option" where
  "refuse_backend i =
     (case pi_backend_def i of
          None \<Rightarrow> Some R_PlanRejectedMissingBackend
        | Some b \<Rightarrow>
            if backend_generation b \<noteq> pi_backend_generation i
            then Some R_PlanRejectedBackendGenerationMismatch
            else if backend_kind b = BackendKind_Unsupported \<or> \<not> can_apply b
            then Some R_PlanRejectedBackendUnsupported
            else None)"

text \<open>The first refusal of a sequence.\<close>

fun first_refusal :: "ReasonCode option list \<Rightarrow> ReasonCode option" where
  "first_refusal [] = None"
| "first_refusal (Some r # rs) = Some r"
| "first_refusal (None # rs) = first_refusal rs"

definition plan_refusal :: "PlanInputs \<Rightarrow> TimestampNs \<Rightarrow> ReasonCode option" where
  "plan_refusal i now =
     first_refusal [refuse_flow i, refuse_resource i, refuse_grant i now, refuse_policy i now,
       refuse_reservation i now, refuse_backend i]"

section \<open>The magnitudes\<close>

definition input_ceiling :: "PlanInputs \<Rightarrow> Candidate" where
  "input_ceiling i =
     (let g = the (pi_grant_def i); p = the (pi_policy_def i); r = the (pi_resource_def i);
          b = the (pi_backend_def i); s = the (pi_reservation_def i);
          c0 = \<lparr>cand_value = grant_ceiling_ups g, cand_authority = LimitingAuthority_Grant\<rparr>;
          c1 = (if pi_has_reservation i
                then consider_candidate (reservation_ceiling_ups s) LimitingAuthority_Reservation c0
                else c0);
          c2 = consider_candidate (policy_ceiling_ups p) LimitingAuthority_Policy c1;
          c3 = consider_candidate (resource_capacity_ups r) LimitingAuthority_Resource c2
      in if backend_max_rate_ups b \<noteq> 0
         then consider_candidate (backend_max_rate_ups b) LimitingAuthority_Backend c3 else c3)"

definition input_burst :: "PlanInputs \<Rightarrow> Candidate" where
  "input_burst i =
     (let g = the (pi_grant_def i); p = the (pi_policy_def i); r = the (pi_resource_def i);
          b = the (pi_backend_def i); s = the (pi_reservation_def i);
          c0 = \<lparr>cand_value = policy_burst_tokens p, cand_authority = LimitingAuthority_Policy\<rparr>;
          c1 = consider_candidate (grant_burst_tokens g) LimitingAuthority_Grant c0;
          c2 = (if pi_has_reservation i
                then consider_candidate (reservation_burst_tokens s) LimitingAuthority_Reservation c1
                else c1);
          c3 = (if resource_capacity_burst_tokens r \<noteq> 0
                then consider_candidate (resource_capacity_burst_tokens r)
                       LimitingAuthority_Resource c2
                else c2)
      in if backend_max_burst_tokens b \<noteq> 0
         then consider_candidate (backend_max_burst_tokens b) LimitingAuthority_Backend c3 else c3)"

definition fingerprint_ceiling :: "PlanFingerprint \<Rightarrow> Candidate" where
  "fingerprint_ceiling fp =
     (let c0 = \<lparr>cand_value = fp_granted_ceiling_ups fp, cand_authority = LimitingAuthority_Grant\<rparr>;
          c1 = (if fp_has_reservation fp
                then consider_candidate (fp_reserved_ceiling_ups fp) LimitingAuthority_Reservation c0 else c0);
          c2 = consider_candidate (fp_policy_ceiling_ups fp) LimitingAuthority_Policy c1;
          c3 = consider_candidate (fp_resource_capacity_ups fp) LimitingAuthority_Resource c2
      in if fp_backend_max_rate_ups fp \<noteq> 0
         then consider_candidate (fp_backend_max_rate_ups fp) LimitingAuthority_Backend c3 else c3)"

definition fingerprint_burst :: "PlanFingerprint \<Rightarrow> Candidate" where
  "fingerprint_burst fp =
     (let c0 = \<lparr>cand_value = fp_policy_burst_tokens fp, cand_authority = LimitingAuthority_Policy\<rparr>;
          c1 = consider_candidate (fp_granted_burst_tokens fp) LimitingAuthority_Grant c0;
          c2 = (if fp_has_reservation fp
                then consider_candidate (fp_reserved_burst_tokens fp) LimitingAuthority_Reservation c1 else c1);
          c3 = (if fp_resource_capacity_burst_tokens fp \<noteq> 0
                then consider_candidate (fp_resource_capacity_burst_tokens fp) LimitingAuthority_Resource c2
                else c2)
      in if fp_backend_max_burst_tokens fp \<noteq> 0
         then consider_candidate (fp_backend_max_burst_tokens fp) LimitingAuthority_Backend c3 else c3)"

definition fingerprint_self_consistent :: "PlanFingerprint \<Rightarrow> bool" where
  "fingerprint_self_consistent fp =
     (if fp_effective_ceiling_ups fp \<noteq> cand_value (fingerprint_ceiling fp) then False
      else if fp_effective_floor_ups fp \<noteq> fp_policy_floor_ups fp then False
      else if fp_effective_ceiling_ups fp < fp_effective_floor_ups fp then False
      else if fp_effective_target_ups fp
              \<noteq> clamp_u64 (fp_policy_target_ups fp) (fp_policy_floor_ups fp)
                   (fp_effective_ceiling_ups fp) then False
      else fp_effective_burst_tokens fp = cand_value (fingerprint_burst fp))"

text \<open>The validity window of a plan: the later start and the earlier end of its authorities.\<close>

definition plan_valid_from :: "PlanInputs \<Rightarrow> TimestampNs \<Rightarrow> TimestampNs" where
  "plan_valid_from i now =
     (let g = the (pi_grant_def i); p = the (pi_policy_def i);
          v0 = not_before_ns (grant_window g);
          v1 = (if v0 < now then now else v0);
          v2 = (if v1 < not_before_ns (policy_window p) then not_before_ns (policy_window p) else v1)
      in if pi_has_reservation i
         then let n = not_before_ns (reservation_window (the (pi_reservation_def i)))
              in if v2 < n then n else v2
         else v2)"

definition plan_valid_until :: "PlanInputs \<Rightarrow> TimestampNs" where
  "plan_valid_until i =
     (let g = the (pi_grant_def i); p = the (pi_policy_def i);
          u0 = invalid_after_ns (grant_window g);
          u1 = (if invalid_after_ns (policy_window p) < u0
                then invalid_after_ns (policy_window p) else u0)
      in if pi_has_reservation i
         then let n = invalid_after_ns (reservation_window (the (pi_reservation_def i)))
              in if n < u1 then n else u1
         else u1)"

text \<open>
  The fingerprint with the binding and the raw magnitudes; the effective ones are
  filled in by \<open>derive_plan\<close>.
\<close>

definition raw_fingerprint :: "PlanInputs \<Rightarrow> PlanFingerprint" where
  "raw_fingerprint i =
     (let g = the (pi_grant_def i); p = the (pi_policy_def i); r = the (pi_resource_def i);
          b = the (pi_backend_def i); s = the (pi_reservation_def i)
      in empty_fingerprint\<lparr>
           fp_envelope := pi_envelope i,
           fp_envelope_generation := pi_envelope_generation i,
           fp_flow := pi_flow i,
           fp_flow_generation := pi_flow_generation i,
           fp_resource := pi_resource i,
           fp_resource_generation := pi_resource_generation i,
           fp_grant := pi_grant i,
           fp_grant_generation := pi_grant_generation i,
           fp_has_reservation := pi_has_reservation i,
           fp_reservation := pi_reservation i,
           fp_reservation_generation := pi_reservation_generation i,
           fp_policy := pi_policy i,
           fp_policy_generation := pi_policy_generation i,
           fp_backend := pi_backend i,
           fp_backend_generation := pi_backend_generation i,
           fp_epoch := pi_epoch i,
           fp_boot := pi_boot i,
           fp_granted_ceiling_ups := grant_ceiling_ups g,
           fp_granted_burst_tokens := grant_burst_tokens g,
           fp_reserved_ceiling_ups := (if pi_has_reservation i then reservation_ceiling_ups s else 0),
           fp_reserved_burst_tokens := (if pi_has_reservation i then reservation_burst_tokens s else 0),
           fp_policy_floor_ups := policy_floor_ups p,
           fp_policy_target_ups := policy_target_ups p,
           fp_policy_ceiling_ups := policy_ceiling_ups p,
           fp_policy_burst_tokens := policy_burst_tokens p,
           fp_resource_capacity_ups := resource_capacity_ups r,
           fp_resource_capacity_burst_tokens := resource_capacity_burst_tokens r,
           fp_backend_max_rate_ups := backend_max_rate_ups b,
           fp_backend_max_burst_tokens := backend_max_burst_tokens b\<rparr>)"

definition derive_plan :: "PlanInputs \<Rightarrow> TimestampNs \<Rightarrow> PlanOutcome" where
  "derive_plan i now =
     (case plan_refusal i now of
        Some r \<Rightarrow> deny r
      | None \<Rightarrow>
          let p = the (pi_policy_def i);
              raw = raw_fingerprint i;
              ceiling = input_ceiling i
          in if cand_value ceiling = 0 then deny R_PlanRejectedCeilingZero
             else if cand_value ceiling < policy_floor_ups p
             then deny R_PlanRejectedFloorExceedsFundedCeiling
             else
               let target = clamp_u64 (policy_target_ups p) (policy_floor_ups p) (cand_value ceiling)
               in if target < policy_floor_ups p then deny R_PlanRejectedTargetBelowFloor
                  else
                    let burst = input_burst i;
                        fp = raw\<lparr>fp_effective_ceiling_ups := cand_value ceiling,
                               fp_effective_floor_ups := policy_floor_ups p,
                               fp_effective_target_ups := target,
                               fp_effective_burst_tokens := cand_value burst,
                               fp_valid_from_ns := plan_valid_from i now,
                               fp_valid_until_ns := plan_valid_until i\<rparr>;
                        plan = empty_plan\<lparr>plan_fingerprint := fp,
                                 plan_limiting_authority := cand_authority ceiling,
                                 plan_ceiling_clamped := cand_value ceiling < policy_ceiling_ups p,
                                 plan_target_clamped := target \<noteq> policy_target_ups p,
                                 plan_burst_clamped := cand_value burst \<noteq> policy_burst_tokens p,
                                 plan_refill := policy_refill p,
                                 plan_grace_ns := policy_grace_ns p,
                                 plan_hysteresis := policy_hysteresis p\<rparr>
                    in if \<not> invariants_hold plan then deny R_MalformedInput
                       else if \<not> fingerprint_self_consistent fp then deny R_MalformedInput
                       else \<lparr>po_authorized = True,
                             po_reason = (if plan_target_clamped plan
                                          then R_PlanTargetClampedByCeiling
                                          else if plan_burst_clamped plan
                                          then R_PlanBurstClampedByAuthority
                                          else R_PlanAuthorized),
                             po_plan = plan\<rparr>)"

definition fingerprint_matches_authority :: "PlanFingerprint \<Rightarrow> PlanInputs \<Rightarrow> bool" where
  "fingerprint_matches_authority fp i =
     (case (pi_grant_def i, pi_policy_def i, pi_resource_def i, pi_backend_def i) of
        (Some g, Some p, Some r, Some b) \<Rightarrow>
          if fp_grant fp \<noteq> pi_grant i \<or> fp_grant_generation fp \<noteq> pi_grant_generation i then False
          else if fp_policy fp \<noteq> pi_policy i \<or> fp_policy_generation fp \<noteq> pi_policy_generation i
          then False
          else if fp_resource fp \<noteq> pi_resource i
                  \<or> fp_resource_generation fp \<noteq> pi_resource_generation i then False
          else if fp_backend fp \<noteq> pi_backend i
                  \<or> fp_backend_generation fp \<noteq> pi_backend_generation i then False
          else if fp_has_reservation fp \<noteq> pi_has_reservation i then False
          else if pi_has_reservation i \<and> (fp_reservation fp \<noteq> pi_reservation i
                  \<or> fp_reservation_generation fp \<noteq> pi_reservation_generation i) then False
          else if fp_granted_ceiling_ups fp \<noteq> grant_ceiling_ups g
                  \<or> fp_granted_burst_tokens fp \<noteq> grant_burst_tokens g then False
          else if fp_policy_ceiling_ups fp \<noteq> policy_ceiling_ups p
                  \<or> fp_policy_floor_ups fp \<noteq> policy_floor_ups p
                  \<or> fp_policy_target_ups fp \<noteq> policy_target_ups p
                  \<or> fp_policy_burst_tokens fp \<noteq> policy_burst_tokens p then False
          else if fp_resource_capacity_ups fp \<noteq> resource_capacity_ups r
                  \<or> fp_resource_capacity_burst_tokens fp \<noteq> resource_capacity_burst_tokens r
          then False
          else if fp_backend_max_rate_ups fp \<noteq> backend_max_rate_ups b
                  \<or> fp_backend_max_burst_tokens fp \<noteq> backend_max_burst_tokens b then False
          else True
      | _ \<Rightarrow> False)"

section \<open>When a plan is legal\<close>

text \<open>
  The specification of the refusals: every authority is present at the bound
  generation, active, valid now, and funds this flow on this resource.
\<close>

definition plan_legal :: "PlanInputs \<Rightarrow> TimestampNs \<Rightarrow> bool" where
  "plan_legal i now \<longleftrightarrow>
     id_valid (pi_envelope i) \<and> id_valid (pi_envelope_generation i)
     \<and> id_valid (pi_flow i) \<and> id_valid (pi_resource i)
     \<and> (\<exists>f. pi_flow_def i = Some f \<and> flow_generation f = pi_flow_generation i \<and> flow_active f)
     \<and> (\<exists>r. pi_resource_def i = Some r \<and> resource_generation r = pi_resource_generation i
            \<and> resource_active r \<and> 0 < resource_capacity_ups r)
     \<and> (\<exists>g. pi_grant_def i = Some g \<and> grant_generation g = pi_grant_generation i
            \<and> grant_flow g = pi_flow i \<and> grant_resource g = pi_resource i
            \<and> grant_active g \<and> window_contains (grant_window g) now)
     \<and> (\<exists>p. pi_policy_def i = Some p \<and> policy_generation p = pi_policy_generation i
            \<and> policy_active p \<and> window_contains (policy_window p) now \<and> ordering_holds p)
     \<and> (pi_has_reservation i \<longrightarrow>
          (\<exists>s. pi_reservation_def i = Some s \<and> reservation_generation s = pi_reservation_generation i
            \<and> reservation_flow s = pi_flow i \<and> reservation_resource s = pi_resource i
            \<and> reservation_active s \<and> window_contains (reservation_window s) now))
     \<and> (\<exists>b. pi_backend_def i = Some b \<and> backend_generation b = pi_backend_generation i
            \<and> backend_kind b \<noteq> BackendKind_Unsupported \<and> can_apply b)"

lemma first_refusal_None: "first_refusal rs = None \<longleftrightarrow> (\<forall>r \<in> set rs. r = None)"
  by (induction rs rule: first_refusal.induct) auto

lemma window_contains_start: "window_contains w now \<Longrightarrow> \<not> now < not_before_ns w"
  by (simp add: window_contains_iff not_less)

lemma plan_refusal_None: "plan_refusal i now = None \<longleftrightarrow> plan_legal i now"
proof -
  have "refuse_flow i = None \<longleftrightarrow>
      id_valid (pi_envelope i) \<and> id_valid (pi_envelope_generation i)
      \<and> id_valid (pi_flow i) \<and> id_valid (pi_resource i)
      \<and> (\<exists>f. pi_flow_def i = Some f \<and> flow_generation f = pi_flow_generation i \<and> flow_active f)"
    by (auto simp: refuse_flow_def split: option.splits)
  moreover have "refuse_resource i = None \<longleftrightarrow>
      (\<exists>r. pi_resource_def i = Some r \<and> resource_generation r = pi_resource_generation i
            \<and> resource_active r \<and> 0 < resource_capacity_ups r)"
    by (auto simp: refuse_resource_def word_neq_0_conv split: option.splits)
  moreover have "refuse_grant i now = None \<longleftrightarrow>
      (\<exists>g. pi_grant_def i = Some g \<and> grant_generation g = pi_grant_generation i
            \<and> grant_flow g = pi_flow i \<and> grant_resource g = pi_resource i
            \<and> grant_active g \<and> window_contains (grant_window g) now)"
    by (auto simp: refuse_grant_def dest: window_contains_start split: option.splits)
  moreover have "refuse_policy i now = None \<longleftrightarrow>
      (\<exists>p. pi_policy_def i = Some p \<and> policy_generation p = pi_policy_generation i
            \<and> policy_active p \<and> window_contains (policy_window p) now \<and> ordering_holds p)"
    by (auto simp: refuse_policy_def dest: window_contains_start split: option.splits)
  moreover have "refuse_reservation i now = None \<longleftrightarrow> (pi_has_reservation i \<longrightarrow>
      (\<exists>s. pi_reservation_def i = Some s \<and> reservation_generation s = pi_reservation_generation i
            \<and> reservation_flow s = pi_flow i \<and> reservation_resource s = pi_resource i
            \<and> reservation_active s \<and> window_contains (reservation_window s) now))"
    by (auto simp: refuse_reservation_def dest: window_contains_start split: option.splits)
  moreover have "refuse_backend i = None \<longleftrightarrow>
      (\<exists>b. pi_backend_def i = Some b \<and> backend_generation b = pi_backend_generation i
            \<and> backend_kind b \<noteq> BackendKind_Unsupported \<and> can_apply b)"
    by (auto simp: refuse_backend_def split: option.splits)
  ultimately show ?thesis
    unfolding plan_refusal_def first_refusal_None plan_legal_def by auto
qed

section \<open>The magnitudes are minima\<close>

text \<open>The ceilings and bursts that the authorities of a request declare.\<close>

definition declared_ceilings :: "PlanInputs \<Rightarrow> u64 list" where
  "declared_ceilings i =
     [grant_ceiling_ups (the (pi_grant_def i)), policy_ceiling_ups (the (pi_policy_def i)),
      resource_capacity_ups (the (pi_resource_def i))]
     @ (if pi_has_reservation i then [reservation_ceiling_ups (the (pi_reservation_def i))] else [])
     @ (if backend_max_rate_ups (the (pi_backend_def i)) \<noteq> 0
        then [backend_max_rate_ups (the (pi_backend_def i))] else [])"

definition declared_bursts :: "PlanInputs \<Rightarrow> u64 list" where
  "declared_bursts i =
     [policy_burst_tokens (the (pi_policy_def i)), grant_burst_tokens (the (pi_grant_def i))]
     @ (if pi_has_reservation i then [reservation_burst_tokens (the (pi_reservation_def i))] else [])
     @ (if resource_capacity_burst_tokens (the (pi_resource_def i)) \<noteq> 0
        then [resource_capacity_burst_tokens (the (pi_resource_def i))] else [])
     @ (if backend_max_burst_tokens (the (pi_backend_def i)) \<noteq> 0
        then [backend_max_burst_tokens (the (pi_backend_def i))] else [])"

lemma consider_value [simp]: "cand_value (consider_candidate v a c) = min v (cand_value c)"
  by (auto simp: consider_candidate_def min_def)

lemma input_ceiling_min: "cand_value (input_ceiling i) = Min (set (declared_ceilings i))"
  by (simp add: input_ceiling_def declared_ceilings_def Let_def min.assoc min.commute min.left_commute)

lemma input_burst_min: "cand_value (input_burst i) = Min (set (declared_bursts i))"
  by (simp add: input_burst_def declared_bursts_def Let_def min.assoc min.commute min.left_commute)

lemma fingerprint_ceiling_raw:
  "fingerprint_ceiling (raw_fingerprint i\<lparr>fp_effective_ceiling_ups := a, fp_effective_floor_ups := b,
     fp_effective_target_ups := c, fp_effective_burst_tokens := d, fp_valid_from_ns := e,
     fp_valid_until_ns := f\<rparr>) = input_ceiling i"
  by (simp add: fingerprint_ceiling_def input_ceiling_def raw_fingerprint_def Let_def)

lemma fingerprint_burst_raw:
  "fingerprint_burst (raw_fingerprint i\<lparr>fp_effective_ceiling_ups := a, fp_effective_floor_ups := b,
     fp_effective_target_ups := c, fp_effective_burst_tokens := d, fp_valid_from_ns := e,
     fp_valid_until_ns := f\<rparr>) = input_burst i"
  by (simp add: fingerprint_burst_def input_burst_def raw_fingerprint_def Let_def)

text \<open>The fingerprint and the plan that a successful derivation publishes.\<close>

definition published_fingerprint :: "PlanInputs \<Rightarrow> TimestampNs \<Rightarrow> PlanFingerprint" where
  "published_fingerprint i now =
     (let p = the (pi_policy_def i); c = cand_value (input_ceiling i)
      in (raw_fingerprint i)\<lparr>fp_effective_ceiling_ups := c,
             fp_effective_floor_ups := policy_floor_ups p,
             fp_effective_target_ups := clamp_u64 (policy_target_ups p) (policy_floor_ups p) c,
             fp_effective_burst_tokens := cand_value (input_burst i),
             fp_valid_from_ns := plan_valid_from i now,
             fp_valid_until_ns := plan_valid_until i\<rparr>)"

lemma published_self_consistent:
  assumes "policy_floor_ups (the (pi_policy_def i)) \<le> cand_value (input_ceiling i)"
  shows "fingerprint_self_consistent (published_fingerprint i now)"
  using assms
  by (simp add: published_fingerprint_def fingerprint_self_consistent_def Let_def
      fingerprint_ceiling_raw fingerprint_burst_raw not_less)
     (simp add: raw_fingerprint_def Let_def)

lemma plan_legal_policy: "plan_legal i now \<Longrightarrow> ordering_holds (the (pi_policy_def i))"
  by (auto simp: plan_legal_def)

lemma plan_legal_ids:
  "plan_legal i now \<Longrightarrow> id_valid (pi_envelope i) \<and> id_valid (pi_envelope_generation i)
     \<and> id_valid (pi_resource i)"
  by (auto simp: plan_legal_def)

definition binding_ids_valid :: "PlanInputs \<Rightarrow> bool" where
  "binding_ids_valid i \<longleftrightarrow>
     id_valid (pi_grant i) \<and> id_valid (pi_grant_generation i)
     \<and> id_valid (pi_policy i) \<and> id_valid (pi_policy_generation i)
     \<and> id_valid (pi_resource_generation i)
     \<and> id_valid (pi_backend i) \<and> id_valid (pi_backend_generation i)
     \<and> id_valid (pi_epoch i) \<and> id_valid (pi_boot i)"

lemma published_binding:
  "fp_envelope (published_fingerprint i now) = pi_envelope i"
  "fp_envelope_generation (published_fingerprint i now) = pi_envelope_generation i"
  "fp_grant (published_fingerprint i now) = pi_grant i"
  "fp_grant_generation (published_fingerprint i now) = pi_grant_generation i"
  "fp_policy (published_fingerprint i now) = pi_policy i"
  "fp_policy_generation (published_fingerprint i now) = pi_policy_generation i"
  "fp_resource (published_fingerprint i now) = pi_resource i"
  "fp_resource_generation (published_fingerprint i now) = pi_resource_generation i"
  "fp_backend (published_fingerprint i now) = pi_backend i"
  "fp_backend_generation (published_fingerprint i now) = pi_backend_generation i"
  "fp_has_reservation (published_fingerprint i now) = pi_has_reservation i"
  "fp_reservation (published_fingerprint i now) = pi_reservation i"
  "fp_reservation_generation (published_fingerprint i now) = pi_reservation_generation i"
  "fp_epoch (published_fingerprint i now) = pi_epoch i"
  "fp_boot (published_fingerprint i now) = pi_boot i"
  "fp_flow (published_fingerprint i now) = pi_flow i"
  "fp_flow_generation (published_fingerprint i now) = pi_flow_generation i"
  by (simp_all add: published_fingerprint_def raw_fingerprint_def Let_def)

lemma published_effective:
  "fp_effective_ceiling_ups (published_fingerprint i now) = cand_value (input_ceiling i)"
  "fp_effective_floor_ups (published_fingerprint i now) = policy_floor_ups (the (pi_policy_def i))"
  "fp_effective_target_ups (published_fingerprint i now)
     = clamp_u64 (policy_target_ups (the (pi_policy_def i)))
         (policy_floor_ups (the (pi_policy_def i))) (cand_value (input_ceiling i))"
  "fp_effective_burst_tokens (published_fingerprint i now) = cand_value (input_burst i)"
  "fp_valid_from_ns (published_fingerprint i now) = plan_valid_from i now"
  "fp_valid_until_ns (published_fingerprint i now) = plan_valid_until i"
  by (simp_all add: published_fingerprint_def Let_def)

lemma published_invariants:
  assumes "plan_legal i now" and "cand_value (input_ceiling i) \<noteq> 0"
    and "policy_floor_ups (the (pi_policy_def i)) \<le> cand_value (input_ceiling i)"
    and "plan_fingerprint p = published_fingerprint i now"
  shows "invariants_hold p \<longleftrightarrow> binding_ids_valid i"
  using assms clamp_u64_bounds [OF assms(3)] plan_legal_ids [OF assms(1)]
  by (auto simp: invariants_hold_iff plan_ceiling_ups_def plan_floor_ups_def plan_target_ups_def
      published_binding published_effective binding_ids_valid_def)

text \<open>What a derivation yields, with the redundant checks of the code discharged.\<close>

lemma derive_plan_legal:
  assumes "plan_legal i now" and "cand_value (input_ceiling i) \<noteq> 0"
    and floor: "policy_floor_ups (the (pi_policy_def i)) \<le> cand_value (input_ceiling i)"
    and "binding_ids_valid i"
  shows "po_authorized (derive_plan i now)"
    and "plan_fingerprint (po_plan (derive_plan i now)) = published_fingerprint i now"
    and "plan_limiting_authority (po_plan (derive_plan i now)) = cand_authority (input_ceiling i)"
    and "plan_refill (po_plan (derive_plan i now)) = policy_refill (the (pi_policy_def i))"
    and "plan_grace_ns (po_plan (derive_plan i now)) = policy_grace_ns (the (pi_policy_def i))"
proof -
  have tgt: "\<not> clamp_u64 (policy_target_ups (the (pi_policy_def i)))
      (policy_floor_ups (the (pi_policy_def i))) (cand_value (input_ceiling i))
      < policy_floor_ups (the (pi_policy_def i))"
    using clamp_u64_bounds [OF floor] by (simp add: not_less)
  note nf = leD [OF floor]
  note sc = published_self_consistent [OF floor, of now]
  note inv = published_invariants [OF assms(1-3)]
  show "po_authorized (derive_plan i now)"
    "plan_fingerprint (po_plan (derive_plan i now)) = published_fingerprint i now"
    "plan_limiting_authority (po_plan (derive_plan i now)) = cand_authority (input_ceiling i)"
    "plan_refill (po_plan (derive_plan i now)) = policy_refill (the (pi_policy_def i))"
    "plan_grace_ns (po_plan (derive_plan i now)) = policy_grace_ns (the (pi_policy_def i))"
    using assms(1,2,4) tgt nf sc
    by (simp_all add: derive_plan_def plan_refusal_None [THEN iffD2] inv
        published_fingerprint_def [of i now, unfolded Let_def, symmetric] Let_def)
qed

lemma derive_plan_authorized_cases:
  assumes "po_authorized (derive_plan i now)"
  shows "plan_legal i now" and "cand_value (input_ceiling i) \<noteq> 0"
    and "policy_floor_ups (the (pi_policy_def i)) \<le> cand_value (input_ceiling i)"
    and "binding_ids_valid i"
proof -
  show 1: "plan_legal i now"
    using assms by (auto simp: derive_plan_def deny_def plan_refusal_None [symmetric]
        split: option.splits)
  then have r: "plan_refusal i now = None" by (simp add: plan_refusal_None)
  show 2: "cand_value (input_ceiling i) \<noteq> 0"
    using assms r by (auto simp: derive_plan_def deny_def Let_def)
  show 3: "policy_floor_ups (the (pi_policy_def i)) \<le> cand_value (input_ceiling i)"
    using assms r 2 by (auto simp: derive_plan_def deny_def Let_def not_less split: if_splits)
  show "binding_ids_valid i"
    using assms r 2 3 published_invariants [OF 1 2 3]
    by (auto simp: derive_plan_def deny_def Let_def not_less
        published_fingerprint_def [of i now, unfolded Let_def, symmetric] split: if_splits)
qed

lemma published_raw:
  "fp_granted_ceiling_ups (published_fingerprint i now) = grant_ceiling_ups (the (pi_grant_def i))"
  "fp_granted_burst_tokens (published_fingerprint i now) = grant_burst_tokens (the (pi_grant_def i))"
  "fp_policy_floor_ups (published_fingerprint i now) = policy_floor_ups (the (pi_policy_def i))"
  "fp_policy_target_ups (published_fingerprint i now) = policy_target_ups (the (pi_policy_def i))"
  "fp_policy_ceiling_ups (published_fingerprint i now) = policy_ceiling_ups (the (pi_policy_def i))"
  "fp_policy_burst_tokens (published_fingerprint i now) = policy_burst_tokens (the (pi_policy_def i))"
  "fp_resource_capacity_ups (published_fingerprint i now)
     = resource_capacity_ups (the (pi_resource_def i))"
  "fp_resource_capacity_burst_tokens (published_fingerprint i now)
     = resource_capacity_burst_tokens (the (pi_resource_def i))"
  "fp_backend_max_rate_ups (published_fingerprint i now)
     = backend_max_rate_ups (the (pi_backend_def i))"
  "fp_backend_max_burst_tokens (published_fingerprint i now)
     = backend_max_burst_tokens (the (pi_backend_def i))"
  by (simp_all add: published_fingerprint_def raw_fingerprint_def Let_def)

lemma if_refuse: "(if P then False else Q) \<longleftrightarrow> \<not> P \<and> Q"
  by simp

lemma fingerprint_matches_authority_iff:
  "fingerprint_matches_authority fp i \<longleftrightarrow>
     pi_grant_def i \<noteq> None \<and> pi_policy_def i \<noteq> None \<and> pi_resource_def i \<noteq> None
     \<and> pi_backend_def i \<noteq> None
     \<and> fp_grant fp = pi_grant i \<and> fp_grant_generation fp = pi_grant_generation i
     \<and> fp_policy fp = pi_policy i \<and> fp_policy_generation fp = pi_policy_generation i
     \<and> fp_resource fp = pi_resource i \<and> fp_resource_generation fp = pi_resource_generation i
     \<and> fp_backend fp = pi_backend i \<and> fp_backend_generation fp = pi_backend_generation i
     \<and> fp_has_reservation fp = pi_has_reservation i
     \<and> (pi_has_reservation i \<longrightarrow> fp_reservation fp = pi_reservation i
          \<and> fp_reservation_generation fp = pi_reservation_generation i)
     \<and> fp_granted_ceiling_ups fp = grant_ceiling_ups (the (pi_grant_def i))
     \<and> fp_granted_burst_tokens fp = grant_burst_tokens (the (pi_grant_def i))
     \<and> fp_policy_ceiling_ups fp = policy_ceiling_ups (the (pi_policy_def i))
     \<and> fp_policy_floor_ups fp = policy_floor_ups (the (pi_policy_def i))
     \<and> fp_policy_target_ups fp = policy_target_ups (the (pi_policy_def i))
     \<and> fp_policy_burst_tokens fp = policy_burst_tokens (the (pi_policy_def i))
     \<and> fp_resource_capacity_ups fp = resource_capacity_ups (the (pi_resource_def i))
     \<and> fp_resource_capacity_burst_tokens fp
         = resource_capacity_burst_tokens (the (pi_resource_def i))
     \<and> fp_backend_max_rate_ups fp = backend_max_rate_ups (the (pi_backend_def i))
     \<and> fp_backend_max_burst_tokens fp = backend_max_burst_tokens (the (pi_backend_def i))"
  by (cases "pi_grant_def i"; cases "pi_policy_def i"; cases "pi_resource_def i";
      cases "pi_backend_def i";
      (simp add: fingerprint_matches_authority_def if_refuse split del: if_split; blast)?)

text \<open>The ceiling that a limiting authority declares.\<close>

definition authority_ceiling :: "PlanInputs \<Rightarrow> LimitingAuthority \<Rightarrow> u64 option" where
  "authority_ceiling i a =
     (case a of
        LimitingAuthority_Grant \<Rightarrow> map_option grant_ceiling_ups (pi_grant_def i)
      | LimitingAuthority_Reservation \<Rightarrow> map_option reservation_ceiling_ups (pi_reservation_def i)
      | LimitingAuthority_Policy \<Rightarrow> map_option policy_ceiling_ups (pi_policy_def i)
      | LimitingAuthority_Resource \<Rightarrow> map_option resource_capacity_ups (pi_resource_def i)
      | LimitingAuthority_Backend \<Rightarrow> map_option backend_max_rate_ups (pi_backend_def i)
      | _ \<Rightarrow> None)"

lemma authority_ceiling_simps:
  "authority_ceiling i LimitingAuthority_Grant = map_option grant_ceiling_ups (pi_grant_def i)"
  "authority_ceiling i LimitingAuthority_Reservation
     = map_option reservation_ceiling_ups (pi_reservation_def i)"
  "authority_ceiling i LimitingAuthority_Policy = map_option policy_ceiling_ups (pi_policy_def i)"
  "authority_ceiling i LimitingAuthority_Resource
     = map_option resource_capacity_ups (pi_resource_def i)"
  "authority_ceiling i LimitingAuthority_Backend
     = map_option backend_max_rate_ups (pi_backend_def i)"
  by (simp_all add: authority_ceiling_def)

lemma consider_authority:
  "authority_ceiling i (cand_authority c) = Some (cand_value c) \<Longrightarrow> authority_ceiling i a = Some v
   \<Longrightarrow> authority_ceiling i (cand_authority (consider_candidate v a c))
       = Some (cand_value (consider_candidate v a c))"
  by (simp add: consider_candidate_def)

lemma input_authority_ceiling:
  assumes "plan_legal i now"
  shows "authority_ceiling i (cand_authority (input_ceiling i)) = Some (cand_value (input_ceiling i))"
  using assms
  by (auto simp: input_ceiling_def Let_def plan_legal_def authority_ceiling_simps
      simp del: consider_value intro!: consider_authority)

lemma refusals_reject:
  "refuse_flow i = Some r \<Longrightarrow> r \<in> set reasons_Rejection"
  "refuse_resource i = Some r \<Longrightarrow> r \<in> set reasons_Rejection"
  "refuse_grant i now = Some r \<Longrightarrow> r \<in> set reasons_Rejection"
  "refuse_policy i now = Some r \<Longrightarrow> r \<in> set reasons_Rejection"
  "refuse_reservation i now = Some r \<Longrightarrow> r \<in> set reasons_Rejection"
  "refuse_backend i = Some r \<Longrightarrow> r \<in> set reasons_Rejection"
  unfolding reasons_Rejection_def
       apply (simp add: refuse_flow_def split: option.splits if_splits; elim disjE; simp)
      apply (simp add: refuse_resource_def split: option.splits if_splits; elim disjE; simp)
     apply (simp add: refuse_grant_def split: option.splits if_splits; elim disjE; simp)
    apply (simp add: refuse_policy_def split: option.splits if_splits; elim disjE; simp)
   apply (simp add: refuse_reservation_def split: option.splits if_splits; elim disjE; simp)
  apply (simp add: refuse_backend_def split: option.splits if_splits; elim disjE; simp)
  done

lemma plan_refusal_denial:
  assumes "plan_refusal i now = Some r"
  shows "is_denial r"
proof -
  have f: "first_refusal rs = Some r \<Longrightarrow> Some r \<in> set rs" for rs
    by (induction rs rule: first_refusal.induct) auto
  from f [OF assms [unfolded plan_refusal_def]] have "r \<in> set reasons_Rejection"
    by (simp add: eq_commute [of "Some r"]) (elim disjE; rule refusals_reject; assumption)
  then show ?thesis by (simp add: is_denial_iff)
qed

lemma derive_plan_denied:
  assumes "\<not> po_authorized (derive_plan i now)"
  shows "is_denial (po_reason (derive_plan i now)) \<and> po_plan (derive_plan i now) = empty_plan"
proof (cases "plan_refusal i now")
  case None
  have "po_reason (derive_plan i now) \<in> {R_PlanRejectedCeilingZero,
      R_PlanRejectedFloorExceedsFundedCeiling, R_PlanRejectedTargetBelowFloor, R_MalformedInput}
      \<and> po_plan (derive_plan i now) = empty_plan"
    using assms None by (auto simp: derive_plan_def Let_def deny_def split: if_splits)
  then show ?thesis by (auto simp: is_denial_iff reasons_Rejection_def)
next
  case (Some r)
  then show ?thesis by (simp add: derive_plan_def deny_def plan_refusal_denial)
qed

section \<open>Windows of a plan\<close>

lemma plan_valid_from_eq: "plan_legal i now \<Longrightarrow> plan_valid_from i now = now"
  by (cases "pi_has_reservation i")
     (auto simp: plan_valid_from_def Let_def plan_legal_def window_contains_iff not_less)

lemma plan_legal_windows:
  "plan_legal i now \<Longrightarrow> window_contains (grant_window (the (pi_grant_def i))) now
     \<and> window_contains (policy_window (the (pi_policy_def i))) now
     \<and> (pi_has_reservation i \<longrightarrow>
          window_contains (reservation_window (the (pi_reservation_def i))) now)"
  by (auto simp: plan_legal_def)

definition declared_ends :: "PlanInputs \<Rightarrow> TimestampNs list" where
  "declared_ends i =
     [invalid_after_ns (grant_window (the (pi_grant_def i))),
      invalid_after_ns (policy_window (the (pi_policy_def i)))]
     @ (if pi_has_reservation i
        then [invalid_after_ns (reservation_window (the (pi_reservation_def i)))] else [])"

lemma plan_valid_until_min: "plan_valid_until i = Min (set (declared_ends i))"
  by (simp add: plan_valid_until_def declared_ends_def Let_def) (auto simp: min_def)

lemma plan_legal_ends:
  assumes "plan_legal i now" "u \<in> set (declared_ends i)"
  shows "now < u \<or> u = kU64Max"
  using assms
  by (cases "pi_has_reservation i")
     (auto simp: declared_ends_def plan_legal_def window_contains_iff)

section \<open>An example\<close>

definition example_provenance :: Provenance where
  "example_provenance =
     \<lparr>prov_source = AuthoritySource_Operator, prov_epoch = StrongId 1,
      prov_boot = StrongId 7, prov_sequence = 0, prov_detail = []\<rparr>"

definition example_window :: ValidityWindow where
  "example_window = \<lparr>not_before_ns = 10, invalid_after_ns = 1000000\<rparr>"

definition example_flow :: Flow where
  "example_flow = \<lparr>flow_id = StrongId 1, flow_generation = StrongId 1,
     flow_state = FlowState_Active, flow_provenance = example_provenance\<rparr>"

definition example_resource :: Resource where
  "example_resource = \<lparr>resource_id = StrongId 2, resource_generation = StrongId 1,
     resource_capacity_ups = 500, resource_capacity_burst_tokens = 0,
     resource_state = ResourceState_Active, resource_provenance = example_provenance\<rparr>"

definition example_grant :: Grant where
  "example_grant = \<lparr>grant_id = StrongId 3, grant_flow = StrongId 1, grant_resource = StrongId 2,
     grant_generation = StrongId 1, grant_ceiling_ups = 400, grant_burst_tokens = 30,
     grant_window = example_window, grant_state = GrantState_Active,
     grant_provenance = example_provenance\<rparr>"

definition example_policy :: Policy where
  "example_policy = \<lparr>policy_id = StrongId 4, policy_generation = StrongId 1,
     policy_floor_ups = 100, policy_target_ups = 450, policy_ceiling_ups = 600,
     policy_burst_tokens = 50, policy_refill = RefillSemantics_Unknown, policy_grace_ns = 0,
     policy_hysteresis = \<lparr>reduce_below_ups = 0, recover_at_ups = 0, cooldown_ns = 0\<rparr>,
     policy_window = example_window, policy_state = PolicyState_Active,
     policy_provenance = example_provenance\<rparr>"

definition example_backend :: BackendDescriptor where
  "example_backend = \<lparr>backend_id = StrongId 5, backend_generation = StrongId 1,
     backend_kind = BackendKind_Synthetic, backend_capabilities = 15,
     backend_verification = VerificationMode_PostApplyReadback, backend_max_rate_ups = 0,
     backend_max_burst_tokens = 0, backend_label = [], backend_provenance = example_provenance\<rparr>"

definition example_inputs :: PlanInputs where
  "example_inputs =
     \<lparr>pi_envelope = StrongId 9, pi_envelope_generation = StrongId 1,
      pi_flow = StrongId 1, pi_flow_generation = StrongId 1, pi_flow_def = Some example_flow,
      pi_resource = StrongId 2, pi_resource_generation = StrongId 1,
      pi_resource_def = Some example_resource,
      pi_grant = StrongId 3, pi_grant_generation = StrongId 1, pi_grant_def = Some example_grant,
      pi_has_reservation = False, pi_reservation = StrongId 0,
      pi_reservation_generation = StrongId 0, pi_reservation_def = None,
      pi_policy = StrongId 4, pi_policy_generation = StrongId 1,
      pi_policy_def = Some example_policy,
      pi_backend = StrongId 5, pi_backend_generation = StrongId 1,
      pi_backend_def = Some example_backend,
      pi_epoch = StrongId 1, pi_boot = StrongId 7\<rparr>"

lemmas example_defs = example_inputs_def example_flow_def example_resource_def example_grant_def
  example_policy_def example_backend_def example_window_def example_provenance_def

lemma example_legal: "plan_legal example_inputs 20"
  by (simp add: plan_legal_def example_defs id_valid_def flow_active_def resource_active_def
      grant_active_def policy_active_def window_contains_def is_never_def kNeverExpiresNs_def
      kU64Max_def ordering_holds_def can_apply_def kBackendCapApply_def)

lemma example_ceiling: "cand_value (input_ceiling example_inputs) = 400"
  by (simp add: input_ceiling_def Let_def example_defs)

lemma example_authorized: "po_authorized (derive_plan example_inputs 20)"
proof (rule derive_plan_legal(1) [OF example_legal])
  show "binding_ids_valid example_inputs"
    by (simp add: binding_ids_valid_def id_valid_def example_inputs_def)
  show "policy_floor_ups (the (pi_policy_def example_inputs)) \<le> cand_value (input_ceiling example_inputs)"
    unfolding example_ceiling by (simp add: example_inputs_def example_policy_def)
qed (simp add: example_ceiling)

section \<open>Properties\<close>

text \<open>
  C15: A plan is authorized exactly when every authority of the binding is present
  at the bound generation, active, valid now and funds this flow on this resource,
  the smallest declared ceiling is positive and not below the policy floor, and
  every identity of the binding is usable.  In particular the three later checks of
  the code (target below floor, structural invariants, fingerprint consistency)
  refuse nothing but an unusable identity, and a denial always carries a reason
  of the rejection class together with an empty plan.
\<close>

theorem derive_plan_authorized_iff:
  "(po_authorized (derive_plan i now) \<longleftrightarrow>
      plan_legal i now \<and> 0 < Min (set (declared_ceilings i))
      \<and> policy_floor_ups (the (pi_policy_def i)) \<le> Min (set (declared_ceilings i))
      \<and> binding_ids_valid i)
   \<and> (\<not> po_authorized (derive_plan i now) \<longrightarrow>
      is_denial (po_reason (derive_plan i now)) \<and> po_plan (derive_plan i now) = empty_plan)"
  using derive_plan_authorized_cases [of i now] derive_plan_legal(1) [of i now]
    derive_plan_denied [of i now]
  by (auto simp: input_ceiling_min word_neq_0_conv)

theorem derive_plan_authorized_iff_witness:
  "is_denial (po_reason (derive_plan example_inputs 5))"
proof -
  have "\<not> plan_legal example_inputs 5"
    by (simp add: plan_legal_def example_defs window_contains_def)
  then show ?thesis using derive_plan_authorized_iff [of example_inputs 5] by blast
qed



text \<open>
  The validity window of an authorized plan starts now and ends with the
  earliest end among its authorities, and at every instant inside it every
  authority of the plan is inside its own window.
\<close>

theorem derive_plan_window:
  assumes "po_authorized (derive_plan i now)"
  defines "fp \<equiv> plan_fingerprint (po_plan (derive_plan i now))"
  defines "w \<equiv> \<lparr>not_before_ns = fp_valid_from_ns fp, invalid_after_ns = fp_valid_until_ns fp\<rparr>"
  shows "fp_valid_from_ns fp = now \<and> window_contains w now
         \<and> (\<forall>t. window_contains w t \<longrightarrow>
              window_contains (grant_window (the (pi_grant_def i))) t
              \<and> window_contains (policy_window (the (pi_policy_def i))) t
              \<and> (pi_has_reservation i \<longrightarrow>
                   window_contains (reservation_window (the (pi_reservation_def i))) t))"
proof -
  note c = derive_plan_authorized_cases [OF assms(1)]
  have w: "w = \<lparr>not_before_ns = now, invalid_after_ns = Min (set (declared_ends i))\<rparr>"
    by (simp add: w_def fp_def derive_plan_legal(2) [OF c] published_effective
        plan_valid_from_eq [OF c(1)] plan_valid_until_min)
  have ne: "set (declared_ends i) \<noteq> {}" by (simp add: declared_ends_def)
  have now_in: "window_contains w now"
    using plan_legal_ends [OF c(1) Min_in [OF _ ne]] by (auto simp: w window_contains_iff)
  have inside: "t < u \<or> u = kU64Max" if "window_contains w t" "u \<in> set (declared_ends i)" for t u
  proof -
    have "Min (set (declared_ends i)) \<le> u" using that(2) by simp
    moreover have "t < Min (set (declared_ends i)) \<or> Min (set (declared_ends i)) = kU64Max"
      using that(1) by (simp add: w window_contains_iff)
    ultimately show ?thesis
      using le_kU64Max [of u] by (metis order.strict_trans2 order.antisym)
  qed
  have start: "now \<le> t" if "window_contains w t" for t
    using that by (simp add: w window_contains_iff)
  have each: "window_contains v t"
    if "window_contains w t" "window_contains v now" "invalid_after_ns v \<in> set (declared_ends i)" for v t
    using that(2) inside [OF that(1,3)] start [OF that(1)]
    by (auto simp: window_contains_iff)
  have "window_contains (grant_window (the (pi_grant_def i))) t
      \<and> window_contains (policy_window (the (pi_policy_def i))) t
      \<and> (pi_has_reservation i \<longrightarrow>
           window_contains (reservation_window (the (pi_reservation_def i))) t)"
    if "window_contains w t" for t
    using plan_legal_windows [OF c(1)] by (auto intro!: each [OF that] simp: declared_ends_def)
  then show ?thesis
    using now_in by (simp add: fp_def derive_plan_legal(2) [OF c] published_effective
        plan_valid_from_eq [OF c(1)])
qed

theorem derive_plan_window_witness:
  "fp_valid_from_ns (plan_fingerprint (po_plan (derive_plan example_inputs 20))) = 20"
  using derive_plan_window [OF example_authorized] by blast



end
