(* ===== verification/Codec.thy ===== *)
theory Codec
  imports Envelope "HOL-Library.Monad_Syntax"
begin

text \<open>
  The byte codec (\<^verbatim>\<open>include/rate_governor/codec.hpp\<close>, \<^verbatim>\<open>src/codec.cpp\<close>).  A
  \<^verbatim>\<open>ByteWriter\<close> is the list of bytes it holds, and what a call appends is a list.
  A \<^verbatim>\<open>ByteReader\<close> is the list of bytes it has not consumed: a read returns the
  value and the rest, or nothing when the bytes run out, which stands for the sticky
  failure flag of the class (after a failed read every later read fails).
\<close>

section \<open>Writing\<close>

type_synonym bytes = "u8 list"

definition put_u8 :: "u8 \<Rightarrow> bytes" where
  "put_u8 v = [v]"

definition put_u16 :: "u16 \<Rightarrow> bytes" where
  "put_u16 v = [ucast (v AND 0xFF), ucast (drop_bit 8 v AND 0xFF)]"

definition put_u32 :: "u32 \<Rightarrow> bytes" where
  "put_u32 v = map (\<lambda>shift. ucast (drop_bit shift v AND 0xFF)) [0, 8, 16, 24]"

definition put_u64 :: "u64 \<Rightarrow> bytes" where
  "put_u64 v = map (\<lambda>shift. ucast (drop_bit shift v AND 0xFF)) [0, 8, 16, 24, 32, 40, 48, 56]"

definition raw_bytes :: "string \<Rightarrow> bytes" where
  "raw_bytes s = map (\<lambda>c. of_nat (of_char c)) s"

definition put_bounded_text :: "string \<Rightarrow> nat \<Rightarrow> bytes option" where
  "put_bounded_text s max_length =
     (if max_length < length s \<or> 0xFFFF < length s then None
      else Some (put_u16 (of_nat (length s)) @ raw_bytes s))"

definition text_unbounded :: "string \<Rightarrow> bytes" where
  "text_unbounded s = put_u32 (of_nat (length s)) @ raw_bytes s"

section \<open>Reading\<close>

definition get_raw :: "nat \<Rightarrow> bytes \<Rightarrow> (bytes \<times> bytes) option" where
  "get_raw count bs = (if length bs < count then None else Some (take count bs, drop count bs))"

definition get_u8 :: "bytes \<Rightarrow> (u8 \<times> bytes) option" where
  "get_u8 bs = do { (b, rest) \<leftarrow> get_raw 1 bs; Some (b ! 0, rest) }"

definition get_u16 :: "bytes \<Rightarrow> (u16 \<times> bytes) option" where
  "get_u16 bs = do {
     (b, rest) \<leftarrow> get_raw 2 bs;
     Some (fold (\<lambda>i out. out OR push_bit (8 * i) (ucast (b ! i))) [0..<2] 0, rest) }"

definition get_u32 :: "bytes \<Rightarrow> (u32 \<times> bytes) option" where
  "get_u32 bs = do {
     (b, rest) \<leftarrow> get_raw 4 bs;
     Some (fold (\<lambda>i out. out OR push_bit (8 * i) (ucast (b ! i))) [0..<4] 0, rest) }"

definition get_u64 :: "bytes \<Rightarrow> (u64 \<times> bytes) option" where
  "get_u64 bs = do {
     (b, rest) \<leftarrow> get_raw 8 bs;
     Some (fold (\<lambda>i out. out OR push_bit (8 * i) (ucast (b ! i))) [0..<8] 0, rest) }"

definition of_raw_bytes :: "bytes \<Rightarrow> string" where
  "of_raw_bytes bs = map (\<lambda>b. char_of (unat b)) bs"

definition get_bounded_text :: "nat \<Rightarrow> bytes \<Rightarrow> (string \<times> bytes) option" where
  "get_bounded_text max_length bs = do {
     (len, bs1) \<leftarrow> get_u16 bs;
     if max_length < unat len then None
     else do { (b, rest) \<leftarrow> get_raw (unat len) bs1; Some (of_raw_bytes b, rest) } }"

definition get_text_unbounded :: "nat \<Rightarrow> bytes \<Rightarrow> (string \<times> bytes) option" where
  "get_text_unbounded hard_limit bs = do {
     (len, bs1) \<leftarrow> get_u32 bs;
     if hard_limit < unat len then None
     else do { (b, rest) \<leftarrow> get_raw (unat len) bs1; Some (of_raw_bytes b, rest) } }"

definition get_skip :: "nat \<Rightarrow> bytes \<Rightarrow> bytes option" where
  "get_skip count bs = do { (b, rest) \<leftarrow> get_raw count bs; Some rest }"

section \<open>CRC-32C\<close>

definition kCrc32cPolynomial :: u32 where
  "kCrc32cPolynomial = 0x82F63B78"

primrec crc_bits :: "nat \<Rightarrow> u32 \<Rightarrow> u32" where
  "crc_bits 0 crc = crc"
| "crc_bits (Suc n) crc =
     crc_bits n (if crc AND 1 \<noteq> 0 then drop_bit 1 crc XOR kCrc32cPolynomial else drop_bit 1 crc)"

text \<open>Entry \<open>index\<close> of the precomputed table.\<close>

definition crc32c_table :: "u32 \<Rightarrow> u32" where
  "crc32c_table index = crc_bits 8 index"

definition crc_step :: "u32 \<Rightarrow> u8 \<Rightarrow> u32" where
  "crc_step crc b = crc32c_table ((crc XOR ucast b) AND 0xFF) XOR drop_bit 8 crc"

definition crc32c_extend :: "u32 \<Rightarrow> bytes \<Rightarrow> u32" where
  "crc32c_extend seed bs = foldl crc_step (seed XOR 0xFFFFFFFF) bs XOR 0xFFFFFFFF"

definition crc32c :: "bytes \<Rightarrow> u32" where
  "crc32c bs = crc32c_extend 0 bs"

section \<open>Bounded text\<close>

definition truncate_bounded :: "string \<Rightarrow> nat \<Rightarrow> string" where
  "truncate_bounded s max_length =
     (if length s \<le> max_length then s
      else if max_length \<le> length ''...'' then take max_length s
      else take (max_length - length ''...'') s @ ''...'')"

section \<open>Round trips\<close>

named_theorems codec_simps \<open>reading back what a writer appended\<close>

lemma and_FF_u16: "(v :: u16) AND 0xFF = take_bit 8 v"
  by (simp add: take_bit_eq_mask mask_eq_exp_minus_1)

lemma and_FF_u32: "(v :: u32) AND 0xFF = take_bit 8 v"
  by (simp add: take_bit_eq_mask mask_eq_exp_minus_1)

lemma and_FF_u64: "(v :: u64) AND 0xFF = take_bit 8 v"
  by (simp add: take_bit_eq_mask mask_eq_exp_minus_1)

lemma join_step_u16:
  "take_bit m (v :: u16) OR push_bit m (ucast (ucast (take_bit 8 (drop_bit m v)) :: u8))
   = take_bit (m + 8) v"
  by (rule bit_word_eqI) (auto simp: bit_simps)

lemma join_step_u32:
  "take_bit m (v :: u32) OR push_bit m (ucast (ucast (take_bit 8 (drop_bit m v)) :: u8))
   = take_bit (m + 8) v"
  by (rule bit_word_eqI) (auto simp: bit_simps)

lemma join_step_u64:
  "take_bit m (v :: u64) OR push_bit m (ucast (ucast (take_bit 8 (drop_bit m v)) :: u8))
   = take_bit (m + 8) v"
  by (rule bit_word_eqI) (auto simp: bit_simps)

lemma length_put [simp]:
  "length (put_u8 a) = 1" "length (put_u16 b) = 2" "length (put_u32 c) = 4"
  "length (put_u64 d) = 8" "length (raw_bytes s) = length s"
  by (simp_all add: put_u8_def put_u16_def put_u32_def put_u64_def raw_bytes_def)

lemma get_raw_append [codec_simps]: "length p = n \<Longrightarrow> get_raw n (p @ r) = Some (p, r)"
  by (simp add: get_raw_def)

lemma get_raw_Some: "get_raw n bs = Some (p, r) \<longleftrightarrow> bs = p @ r \<and> length p = n"
  by (auto simp: get_raw_def)

lemma get_put_u8 [simp, codec_simps]: "get_u8 (put_u8 v @ r) = Some (v, r)"
  by (simp add: get_u8_def get_raw_append) (simp add: put_u8_def)

lemma get_put_u16 [simp, codec_simps]: "get_u16 (put_u16 v @ r) = Some (v, r)"
proof -
  have "fold (\<lambda>i out. out OR push_bit (8 * i) (ucast (put_u16 v ! i))) [0..<2] 0
      = take_bit 16 v"
    using join_step_u16 [of 0 v]
    by (simp add: put_u16_def and_FF_u16 upt_rec join_step_u16)
  then have "fold (\<lambda>i out. out OR push_bit (8 * i) (ucast (put_u16 v ! i))) [0..<2] 0 = v"
    by (simp add: take_bit_word_eq_self)
  then show ?thesis by (simp add: get_u16_def get_raw_append)
qed

lemma get_put_u32 [simp, codec_simps]: "get_u32 (put_u32 v @ r) = Some (v, r)"
proof -
  have "fold (\<lambda>i out. out OR push_bit (8 * i) (ucast (put_u32 v ! i))) [0..<4] 0
      = take_bit 32 v"
    using join_step_u32 [of 0 v]
    by (simp add: put_u32_def and_FF_u32 upt_rec join_step_u32)
  then have "fold (\<lambda>i out. out OR push_bit (8 * i) (ucast (put_u32 v ! i))) [0..<4] 0 = v"
    by (simp add: take_bit_word_eq_self)
  then show ?thesis by (simp add: get_u32_def get_raw_append)
qed

lemma get_put_u64 [simp, codec_simps]: "get_u64 (put_u64 v @ r) = Some (v, r)"
proof -
  have "fold (\<lambda>i out. out OR push_bit (8 * i) (ucast (put_u64 v ! i))) [0..<8] 0
      = take_bit 64 v"
    using join_step_u64 [of 0 v]
    by (simp add: put_u64_def and_FF_u64 upt_rec join_step_u64)
  then have "fold (\<lambda>i out. out OR push_bit (8 * i) (ucast (put_u64 v ! i))) [0..<8] 0 = v"
    by (simp add: take_bit_word_eq_self)
  then show ?thesis by (simp add: get_u64_def get_raw_append)
qed

lemma of_raw_bytes_raw [simp]: "of_raw_bytes (raw_bytes s) = s"
proof -
  have "unat (of_nat (of_char c) :: u8) = of_char c" for c
    using nat_of_char_less_256 [of c] by (simp add: unsigned_of_nat take_bit_nat_eq_self)
  then show ?thesis by (simp add: of_raw_bytes_def raw_bytes_def comp_def)
qed

lemma get_text_put [codec_simps]:
  assumes "length s \<le> limit" "limit < 4294967296"
  shows "get_text_unbounded limit (text_unbounded s @ r) = Some (s, r)"
proof -
  have "unat (of_nat (length s) :: u32) = length s"
    using assms by (simp add: unsigned_of_nat take_bit_nat_eq_self)
  then show ?thesis
    using assms by (simp add: get_text_unbounded_def text_unbounded_def get_raw_append)
qed

lemma truncate_bounded_length: "length (truncate_bounded s n) \<le> n"
  by (auto simp: truncate_bounded_def)

end
