(* ===== verification/Record_Codec.thy ===== *)
theory Record_Codec
  imports Codec
begin

text \<open>
  The record codec (\<^verbatim>\<open>src/record_codec.cpp\<close>): one encoder and one decoder per record
  of the journal and the wire.  A decoder reads the fields in the order of the code,
  a padding variable that the code reads twice is bound twice, and the checks stand
  where the code has them.  The round trip of every record holds for the values the
  engine can hold (declared enumerators, text within the hard limit), and is
  carried by one locale of codecs.
\<close>

section \<open>Texts\<close>

definition kRecordTextHardLimit :: nat where
  "kRecordTextHardLimit = 4096"

definition put_text :: "string \<Rightarrow> bytes" where
  "put_text s =
     text_unbounded (if kRecordTextHardLimit < length s then take kRecordTextHardLimit s else s)"

definition get_text :: "bytes \<Rightarrow> (string \<times> bytes) option" where
  "get_text bs = get_text_unbounded kRecordTextHardLimit bs"

definition put_bool :: "bool \<Rightarrow> bytes" where
  "put_bool b = put_u8 (if b then 1 else 0)"

section \<open>Codecs\<close>

definition encode_provenance :: "Provenance \<Rightarrow> bytes" where
  "encode_provenance x =
     put_u8 (AuthoritySource_to_u8 (prov_source x))
     @ put_u8 0
     @ put_u16 0
     @ put_u32 0
     @ put_u64 (id_value (prov_epoch x))
     @ put_u64 (id_value (prov_boot x))
     @ put_u64 (prov_sequence x)
     @ put_text (prov_detail x)"

definition decode_provenance :: "bytes \<Rightarrow> (Provenance \<times> bytes) option" where
  "decode_provenance bs = do {
     (source, bs) \<leftarrow> get_u8 bs;
     (pad8, bs) \<leftarrow> get_u8 bs;
     (pad16, bs) \<leftarrow> get_u16 bs;
     (pad32, bs) \<leftarrow> get_u32 bs;
     (epoch, bs) \<leftarrow> get_u64 bs;
     (boot, bs) \<leftarrow> get_u64 bs;
     (sequence, bs) \<leftarrow> get_u64 bs;
     if pad8 \<noteq> 0 \<or> pad16 \<noteq> 0 \<or> pad32 \<noteq> 0 then None else do {
     (detail, bs) \<leftarrow> get_text bs;
     Some (\<lparr>prov_source = AuthoritySource_of_u8 source, prov_epoch = StrongId epoch,
        prov_boot = StrongId boot, prov_sequence = sequence, prov_detail = detail\<rparr>, bs) } }"

definition encode_window :: "ValidityWindow \<Rightarrow> bytes" where
  "encode_window x =
     put_u64 (not_before_ns x)
     @ put_u64 (invalid_after_ns x)"

definition decode_window :: "bytes \<Rightarrow> (ValidityWindow \<times> bytes) option" where
  "decode_window bs = do {
     (not_before, bs) \<leftarrow> get_u64 bs;
     (invalid_after, bs) \<leftarrow> get_u64 bs;
     Some (\<lparr>not_before_ns = not_before, invalid_after_ns = invalid_after\<rparr>, bs) }"

definition encode_flow :: "Flow \<Rightarrow> bytes" where
  "encode_flow x =
     put_u64 (id_value (flow_id x))
     @ put_u64 (id_value (flow_generation x))
     @ put_u8 (FlowState_to_u8 (flow_state x))
     @ put_u8 0
     @ put_u16 0
     @ put_u32 0
     @ encode_provenance (flow_provenance x)"

definition decode_flow :: "bytes \<Rightarrow> (Flow \<times> bytes) option" where
  "decode_flow bs = do {
     (id, bs) \<leftarrow> get_u64 bs;
     (generation, bs) \<leftarrow> get_u64 bs;
     (state, bs) \<leftarrow> get_u8 bs;
     (pad8, bs) \<leftarrow> get_u8 bs;
     (pad16, bs) \<leftarrow> get_u16 bs;
     (pad32, bs) \<leftarrow> get_u32 bs;
     if pad8 \<noteq> 0 \<or> pad16 \<noteq> 0 \<or> pad32 \<noteq> 0 then None else do {
     (provenance, bs) \<leftarrow> decode_provenance bs;
     Some (\<lparr>flow_id = StrongId id, flow_generation = StrongId generation,
        flow_state = FlowState_of_u8 state, flow_provenance = provenance\<rparr>, bs) } }"

definition encode_grant :: "Grant \<Rightarrow> bytes" where
  "encode_grant x =
     put_u64 (id_value (grant_id x))
     @ put_u64 (id_value (grant_flow x))
     @ put_u64 (id_value (grant_resource x))
     @ put_u64 (id_value (grant_generation x))
     @ put_u64 (grant_ceiling_ups x)
     @ put_u64 (grant_burst_tokens x)
     @ encode_window (grant_window x)
     @ put_u8 (GrantState_to_u8 (grant_state x))
     @ put_u8 0
     @ put_u16 0
     @ put_u32 0
     @ encode_provenance (grant_provenance x)"

definition decode_grant :: "bytes \<Rightarrow> (Grant \<times> bytes) option" where
  "decode_grant bs = do {
     (id, bs) \<leftarrow> get_u64 bs;
     (flow, bs) \<leftarrow> get_u64 bs;
     (resource, bs) \<leftarrow> get_u64 bs;
     (generation, bs) \<leftarrow> get_u64 bs;
     (ceiling_ups, bs) \<leftarrow> get_u64 bs;
     (burst_tokens, bs) \<leftarrow> get_u64 bs;
     (window, bs) \<leftarrow> decode_window bs;
     (state, bs) \<leftarrow> get_u8 bs;
     (pad8, bs) \<leftarrow> get_u8 bs;
     (pad16, bs) \<leftarrow> get_u16 bs;
     (pad32, bs) \<leftarrow> get_u32 bs;
     if pad8 \<noteq> 0 \<or> pad16 \<noteq> 0 \<or> pad32 \<noteq> 0 then None else do {
     (provenance, bs) \<leftarrow> decode_provenance bs;
     Some (\<lparr>grant_id = StrongId id, grant_flow = StrongId flow,
        grant_resource = StrongId resource, grant_generation = StrongId generation,
        grant_ceiling_ups = ceiling_ups, grant_burst_tokens = burst_tokens,
        grant_window = window, grant_state = GrantState_of_u8 state,
        grant_provenance = provenance\<rparr>, bs) } }"

definition encode_reservation :: "Reservation \<Rightarrow> bytes" where
  "encode_reservation x =
     put_u64 (id_value (reservation_id x))
     @ put_u64 (id_value (reservation_flow x))
     @ put_u64 (id_value (reservation_resource x))
     @ put_u64 (id_value (reservation_generation x))
     @ put_u64 (reservation_ceiling_ups x)
     @ put_u64 (reservation_burst_tokens x)
     @ encode_window (reservation_window x)
     @ put_u8 (ReservationState_to_u8 (reservation_state x))
     @ put_u8 0
     @ put_u16 0
     @ put_u32 0
     @ encode_provenance (reservation_provenance x)"

definition decode_reservation :: "bytes \<Rightarrow> (Reservation \<times> bytes) option" where
  "decode_reservation bs = do {
     (id, bs) \<leftarrow> get_u64 bs;
     (flow, bs) \<leftarrow> get_u64 bs;
     (resource, bs) \<leftarrow> get_u64 bs;
     (generation, bs) \<leftarrow> get_u64 bs;
     (ceiling_ups, bs) \<leftarrow> get_u64 bs;
     (burst_tokens, bs) \<leftarrow> get_u64 bs;
     (window, bs) \<leftarrow> decode_window bs;
     (state, bs) \<leftarrow> get_u8 bs;
     (pad8, bs) \<leftarrow> get_u8 bs;
     (pad16, bs) \<leftarrow> get_u16 bs;
     (pad32, bs) \<leftarrow> get_u32 bs;
     if pad8 \<noteq> 0 \<or> pad16 \<noteq> 0 \<or> pad32 \<noteq> 0 then None else do {
     (provenance, bs) \<leftarrow> decode_provenance bs;
     Some (\<lparr>reservation_id = StrongId id, reservation_flow = StrongId flow,
        reservation_resource = StrongId resource,
        reservation_generation = StrongId generation,
        reservation_ceiling_ups = ceiling_ups,
        reservation_burst_tokens = burst_tokens, reservation_window = window,
        reservation_state = ReservationState_of_u8 state,
        reservation_provenance = provenance\<rparr>, bs) } }"

definition encode_policy :: "Policy \<Rightarrow> bytes" where
  "encode_policy x =
     put_u64 (id_value (policy_id x))
     @ put_u64 (id_value (policy_generation x))
     @ put_u64 (policy_floor_ups x)
     @ put_u64 (policy_target_ups x)
     @ put_u64 (policy_ceiling_ups x)
     @ put_u64 (policy_burst_tokens x)
     @ put_u8 (RefillSemantics_to_u8 (policy_refill x))
     @ put_u8 0
     @ put_u16 0
     @ put_u32 0
     @ put_u64 (policy_grace_ns x)
     @ put_u64 (reduce_below_ups (policy_hysteresis x))
     @ put_u64 (recover_at_ups (policy_hysteresis x))
     @ put_u64 (cooldown_ns (policy_hysteresis x))
     @ encode_window (policy_window x)
     @ put_u8 (PolicyState_to_u8 (policy_state x))
     @ put_u8 0
     @ put_u16 0
     @ put_u32 0
     @ encode_provenance (policy_provenance x)"

definition decode_policy :: "bytes \<Rightarrow> (Policy \<times> bytes) option" where
  "decode_policy bs = do {
     (id, bs) \<leftarrow> get_u64 bs;
     (generation, bs) \<leftarrow> get_u64 bs;
     (floor_ups, bs) \<leftarrow> get_u64 bs;
     (target_ups, bs) \<leftarrow> get_u64 bs;
     (ceiling_ups, bs) \<leftarrow> get_u64 bs;
     (burst_tokens, bs) \<leftarrow> get_u64 bs;
     (refill, bs) \<leftarrow> get_u8 bs;
     (pad8, bs) \<leftarrow> get_u8 bs;
     (pad16, bs) \<leftarrow> get_u16 bs;
     (pad32, bs) \<leftarrow> get_u32 bs;
     (grace_ns, bs) \<leftarrow> get_u64 bs;
     (reduce_below, bs) \<leftarrow> get_u64 bs;
     (recover_at, bs) \<leftarrow> get_u64 bs;
     (cooldown, bs) \<leftarrow> get_u64 bs;
     (window, bs) \<leftarrow> decode_window bs;
     (state, bs) \<leftarrow> get_u8 bs;
     (pad8, bs) \<leftarrow> get_u8 bs;
     (pad16, bs) \<leftarrow> get_u16 bs;
     (pad32, bs) \<leftarrow> get_u32 bs;
     if pad8 \<noteq> 0 \<or> pad16 \<noteq> 0 \<or> pad32 \<noteq> 0 then None else do {
     (provenance, bs) \<leftarrow> decode_provenance bs;
     Some (\<lparr>policy_id = StrongId id, policy_generation = StrongId generation,
        policy_floor_ups = floor_ups, policy_target_ups = target_ups,
        policy_ceiling_ups = ceiling_ups, policy_burst_tokens = burst_tokens,
        policy_refill = RefillSemantics_of_u8 refill, policy_grace_ns = grace_ns,
        policy_hysteresis = \<lparr>reduce_below_ups = reduce_below, recover_at_ups = recover_at, cooldown_ns = cooldown\<rparr>,
        policy_window = window, policy_state = PolicyState_of_u8 state,
        policy_provenance = provenance\<rparr>, bs) } }"

definition encode_resource :: "Resource \<Rightarrow> bytes" where
  "encode_resource x =
     put_u64 (id_value (resource_id x))
     @ put_u64 (id_value (resource_generation x))
     @ put_u64 (resource_capacity_ups x)
     @ put_u64 (resource_capacity_burst_tokens x)
     @ put_u8 (ResourceState_to_u8 (resource_state x))
     @ put_u8 0
     @ put_u16 0
     @ put_u32 0
     @ encode_provenance (resource_provenance x)"

definition decode_resource :: "bytes \<Rightarrow> (Resource \<times> bytes) option" where
  "decode_resource bs = do {
     (id, bs) \<leftarrow> get_u64 bs;
     (generation, bs) \<leftarrow> get_u64 bs;
     (capacity_ups, bs) \<leftarrow> get_u64 bs;
     (capacity_burst_tokens, bs) \<leftarrow> get_u64 bs;
     (state, bs) \<leftarrow> get_u8 bs;
     (pad8, bs) \<leftarrow> get_u8 bs;
     (pad16, bs) \<leftarrow> get_u16 bs;
     (pad32, bs) \<leftarrow> get_u32 bs;
     if pad8 \<noteq> 0 \<or> pad16 \<noteq> 0 \<or> pad32 \<noteq> 0 then None else do {
     (provenance, bs) \<leftarrow> decode_provenance bs;
     Some (\<lparr>resource_id = StrongId id, resource_generation = StrongId generation,
        resource_capacity_ups = capacity_ups,
        resource_capacity_burst_tokens = capacity_burst_tokens,
        resource_state = ResourceState_of_u8 state, resource_provenance = provenance\<rparr>, bs) } }"

definition encode_backend :: "BackendDescriptor \<Rightarrow> bytes" where
  "encode_backend x =
     put_u64 (id_value (backend_id x))
     @ put_u64 (id_value (backend_generation x))
     @ put_u8 (BackendKind_to_u8 (backend_kind x))
     @ put_u8 (VerificationMode_to_u8 (backend_verification x))
     @ put_u16 0
     @ put_u32 (backend_capabilities x)
     @ put_u64 (backend_max_rate_ups x)
     @ put_u64 (backend_max_burst_tokens x)
     @ put_text (backend_label x)
     @ encode_provenance (backend_provenance x)"

definition decode_backend :: "bytes \<Rightarrow> (BackendDescriptor \<times> bytes) option" where
  "decode_backend bs = do {
     (id, bs) \<leftarrow> get_u64 bs;
     (generation, bs) \<leftarrow> get_u64 bs;
     (kind, bs) \<leftarrow> get_u8 bs;
     (verification, bs) \<leftarrow> get_u8 bs;
     (pad16, bs) \<leftarrow> get_u16 bs;
     (capabilities, bs) \<leftarrow> get_u32 bs;
     (max_rate_ups, bs) \<leftarrow> get_u64 bs;
     (max_burst_tokens, bs) \<leftarrow> get_u64 bs;
     if pad16 \<noteq> 0 then None else do {
     (label, bs) \<leftarrow> get_text bs;
     (provenance, bs) \<leftarrow> decode_provenance bs;
     Some (\<lparr>backend_id = StrongId id, backend_generation = StrongId generation,
        backend_kind = BackendKind_of_u8 kind, backend_capabilities = capabilities,
        backend_verification = VerificationMode_of_u8 verification,
        backend_max_rate_ups = max_rate_ups,
        backend_max_burst_tokens = max_burst_tokens, backend_label = label,
        backend_provenance = provenance\<rparr>, bs) } }"

definition encode_fingerprint :: "PlanFingerprint \<Rightarrow> bytes" where
  "encode_fingerprint x =
     put_u64 (id_value (fp_envelope x))
     @ put_u64 (id_value (fp_envelope_generation x))
     @ put_u64 (id_value (fp_flow x))
     @ put_u64 (id_value (fp_flow_generation x))
     @ put_u64 (id_value (fp_resource x))
     @ put_u64 (id_value (fp_resource_generation x))
     @ put_u64 (id_value (fp_grant x))
     @ put_u64 (id_value (fp_grant_generation x))
     @ put_bool (fp_has_reservation x)
     @ put_u8 0
     @ put_u16 0
     @ put_u32 0
     @ put_u64 (id_value (fp_reservation x))
     @ put_u64 (id_value (fp_reservation_generation x))
     @ put_u64 (id_value (fp_policy x))
     @ put_u64 (id_value (fp_policy_generation x))
     @ put_u64 (id_value (fp_backend x))
     @ put_u64 (id_value (fp_backend_generation x))
     @ put_u64 (id_value (fp_epoch x))
     @ put_u64 (id_value (fp_boot x))
     @ put_u64 (fp_granted_ceiling_ups x)
     @ put_u64 (fp_granted_burst_tokens x)
     @ put_u64 (fp_reserved_ceiling_ups x)
     @ put_u64 (fp_reserved_burst_tokens x)
     @ put_u64 (fp_policy_floor_ups x)
     @ put_u64 (fp_policy_target_ups x)
     @ put_u64 (fp_policy_ceiling_ups x)
     @ put_u64 (fp_policy_burst_tokens x)
     @ put_u64 (fp_resource_capacity_ups x)
     @ put_u64 (fp_resource_capacity_burst_tokens x)
     @ put_u64 (fp_backend_max_rate_ups x)
     @ put_u64 (fp_backend_max_burst_tokens x)
     @ put_u64 (fp_effective_ceiling_ups x)
     @ put_u64 (fp_effective_floor_ups x)
     @ put_u64 (fp_effective_target_ups x)
     @ put_u64 (fp_effective_burst_tokens x)
     @ put_u64 (fp_valid_from_ns x)
     @ put_u64 (fp_valid_until_ns x)"

definition decode_fingerprint :: "bytes \<Rightarrow> (PlanFingerprint \<times> bytes) option" where
  "decode_fingerprint bs = do {
     (envelope, bs) \<leftarrow> get_u64 bs;
     (envelope_generation, bs) \<leftarrow> get_u64 bs;
     (flow, bs) \<leftarrow> get_u64 bs;
     (flow_generation, bs) \<leftarrow> get_u64 bs;
     (resource, bs) \<leftarrow> get_u64 bs;
     (resource_generation, bs) \<leftarrow> get_u64 bs;
     (grant, bs) \<leftarrow> get_u64 bs;
     (grant_generation, bs) \<leftarrow> get_u64 bs;
     (has_reservation, bs) \<leftarrow> get_u8 bs;
     (pad8, bs) \<leftarrow> get_u8 bs;
     (pad16, bs) \<leftarrow> get_u16 bs;
     (pad32, bs) \<leftarrow> get_u32 bs;
     (reservation, bs) \<leftarrow> get_u64 bs;
     (reservation_generation, bs) \<leftarrow> get_u64 bs;
     (policy, bs) \<leftarrow> get_u64 bs;
     (policy_generation, bs) \<leftarrow> get_u64 bs;
     (backend, bs) \<leftarrow> get_u64 bs;
     (backend_generation, bs) \<leftarrow> get_u64 bs;
     (epoch, bs) \<leftarrow> get_u64 bs;
     (boot, bs) \<leftarrow> get_u64 bs;
     if pad8 \<noteq> 0 \<or> pad16 \<noteq> 0 \<or> pad32 \<noteq> 0 \<or> 1 < has_reservation then None else do {
     (granted_ceiling_ups, bs) \<leftarrow> get_u64 bs;
     (granted_burst_tokens, bs) \<leftarrow> get_u64 bs;
     (reserved_ceiling_ups, bs) \<leftarrow> get_u64 bs;
     (reserved_burst_tokens, bs) \<leftarrow> get_u64 bs;
     (policy_floor_ups, bs) \<leftarrow> get_u64 bs;
     (policy_target_ups, bs) \<leftarrow> get_u64 bs;
     (policy_ceiling_ups, bs) \<leftarrow> get_u64 bs;
     (policy_burst_tokens, bs) \<leftarrow> get_u64 bs;
     (resource_capacity_ups, bs) \<leftarrow> get_u64 bs;
     (resource_capacity_burst_tokens, bs) \<leftarrow> get_u64 bs;
     (backend_max_rate_ups, bs) \<leftarrow> get_u64 bs;
     (backend_max_burst_tokens, bs) \<leftarrow> get_u64 bs;
     (effective_ceiling_ups, bs) \<leftarrow> get_u64 bs;
     (effective_floor_ups, bs) \<leftarrow> get_u64 bs;
     (effective_target_ups, bs) \<leftarrow> get_u64 bs;
     (effective_burst_tokens, bs) \<leftarrow> get_u64 bs;
     (valid_from_ns, bs) \<leftarrow> get_u64 bs;
     (valid_until_ns, bs) \<leftarrow> get_u64 bs;
     Some (\<lparr>fp_envelope = StrongId envelope,
        fp_envelope_generation = StrongId envelope_generation,
        fp_flow = StrongId flow, fp_flow_generation = StrongId flow_generation,
        fp_resource = StrongId resource,
        fp_resource_generation = StrongId resource_generation,
        fp_grant = StrongId grant, fp_grant_generation = StrongId grant_generation,
        fp_has_reservation = has_reservation = 1,
        fp_reservation = StrongId reservation,
        fp_reservation_generation = StrongId reservation_generation,
        fp_policy = StrongId policy,
        fp_policy_generation = StrongId policy_generation,
        fp_backend = StrongId backend,
        fp_backend_generation = StrongId backend_generation,
        fp_epoch = StrongId epoch, fp_boot = StrongId boot,
        fp_granted_ceiling_ups = granted_ceiling_ups,
        fp_granted_burst_tokens = granted_burst_tokens,
        fp_reserved_ceiling_ups = reserved_ceiling_ups,
        fp_reserved_burst_tokens = reserved_burst_tokens,
        fp_policy_floor_ups = policy_floor_ups,
        fp_policy_target_ups = policy_target_ups,
        fp_policy_ceiling_ups = policy_ceiling_ups,
        fp_policy_burst_tokens = policy_burst_tokens,
        fp_resource_capacity_ups = resource_capacity_ups,
        fp_resource_capacity_burst_tokens = resource_capacity_burst_tokens,
        fp_backend_max_rate_ups = backend_max_rate_ups,
        fp_backend_max_burst_tokens = backend_max_burst_tokens,
        fp_effective_ceiling_ups = effective_ceiling_ups,
        fp_effective_floor_ups = effective_floor_ups,
        fp_effective_target_ups = effective_target_ups,
        fp_effective_burst_tokens = effective_burst_tokens,
        fp_valid_from_ns = valid_from_ns, fp_valid_until_ns = valid_until_ns\<rparr>, bs) } }"

definition encode_plan :: "EffectivePlan \<Rightarrow> bytes" where
  "encode_plan x =
     encode_fingerprint (plan_fingerprint x)
     @ put_u8 (LimitingAuthority_to_u8 (plan_limiting_authority x))
     @ put_bool (plan_ceiling_clamped x)
     @ put_bool (plan_target_clamped x)
     @ put_bool (plan_burst_clamped x)
     @ put_u8 (RefillSemantics_to_u8 (plan_refill x))
     @ put_u8 0
     @ put_u16 0
     @ put_u32 0
     @ put_u64 (plan_grace_ns x)
     @ put_u64 (reduce_below_ups (plan_hysteresis x))
     @ put_u64 (recover_at_ups (plan_hysteresis x))
     @ put_u64 (cooldown_ns (plan_hysteresis x))
     @ put_text (plan_explanation x)"

definition decode_plan :: "bytes \<Rightarrow> (EffectivePlan \<times> bytes) option" where
  "decode_plan bs = do {
     (fingerprint, bs) \<leftarrow> decode_fingerprint bs;
     (limiting, bs) \<leftarrow> get_u8 bs;
     (ceiling_clamped, bs) \<leftarrow> get_u8 bs;
     (target_clamped, bs) \<leftarrow> get_u8 bs;
     (burst_clamped, bs) \<leftarrow> get_u8 bs;
     (refill, bs) \<leftarrow> get_u8 bs;
     (pad8, bs) \<leftarrow> get_u8 bs;
     (pad16, bs) \<leftarrow> get_u16 bs;
     (pad32, bs) \<leftarrow> get_u32 bs;
     (grace_ns, bs) \<leftarrow> get_u64 bs;
     (reduce_below, bs) \<leftarrow> get_u64 bs;
     (recover_at, bs) \<leftarrow> get_u64 bs;
     (cooldown, bs) \<leftarrow> get_u64 bs;
     if pad8 \<noteq> 0 \<or> pad16 \<noteq> 0 \<or> pad32 \<noteq> 0 \<or> 1 < ceiling_clamped \<or> 1 < target_clamped
         \<or> 1 < burst_clamped then None else do {
     (explanation, bs) \<leftarrow> get_text bs;
     Some (\<lparr>plan_fingerprint = fingerprint,
        plan_limiting_authority = LimitingAuthority_of_u8 limiting,
        plan_ceiling_clamped = ceiling_clamped = 1,
        plan_target_clamped = target_clamped = 1,
        plan_burst_clamped = burst_clamped = 1,
        plan_refill = RefillSemantics_of_u8 refill, plan_grace_ns = grace_ns,
        plan_hysteresis = \<lparr>reduce_below_ups = reduce_below, recover_at_ups = recover_at, cooldown_ns = cooldown\<rparr>,
        plan_explanation = explanation\<rparr>, bs) } }"

definition encode_bucket :: "TokenBucket \<Rightarrow> bytes" where
  "encode_bucket x =
     put_u64 (bk_tokens x)
     @ put_u64 (bk_capacity x)
     @ put_u64 (bk_rate_ups x)
     @ put_u64 (bk_last_refill_ns x)
     @ put_u64 (bk_fractional_numerator x)
     @ put_bool (bk_initialized x)
     @ put_u8 0
     @ put_u16 0
     @ put_u32 0"

definition decode_bucket :: "bytes \<Rightarrow> (TokenBucket \<times> bytes) option" where
  "decode_bucket bs = do {
     (tokens, bs) \<leftarrow> get_u64 bs;
     (capacity, bs) \<leftarrow> get_u64 bs;
     (rate_ups, bs) \<leftarrow> get_u64 bs;
     (last_refill_ns, bs) \<leftarrow> get_u64 bs;
     (fractional_numerator, bs) \<leftarrow> get_u64 bs;
     (initialized, bs) \<leftarrow> get_u8 bs;
     (pad8, bs) \<leftarrow> get_u8 bs;
     (pad16, bs) \<leftarrow> get_u16 bs;
     (pad32, bs) \<leftarrow> get_u32 bs;
     if pad8 \<noteq> 0 \<or> pad16 \<noteq> 0 \<or> pad32 \<noteq> 0 \<or> 1 < initialized then None else do {
     Some (\<lparr>bk_tokens = tokens, bk_capacity = capacity, bk_rate_ups = rate_ups,
        bk_last_refill_ns = last_refill_ns,
        bk_fractional_numerator = fractional_numerator,
        bk_initialized = initialized = 1\<rparr>, bs) } }"

definition encode_envelope :: "RateEnvelope \<Rightarrow> bytes" where
  "encode_envelope x =
     put_u64 (id_value (env_id x))
     @ put_u64 (id_value (env_generation x))
     @ put_u64 (id_value (env_flow x))
     @ put_u64 (id_value (env_flow_generation x))
     @ put_u64 (id_value (env_resource x))
     @ put_u64 (id_value (env_resource_generation x))
     @ put_u64 (id_value (env_grant x))
     @ put_u64 (id_value (env_grant_generation x))
     @ put_bool (env_has_reservation x)
     @ put_u8 0
     @ put_u16 0
     @ put_u32 0
     @ put_u64 (id_value (env_reservation x))
     @ put_u64 (id_value (env_reservation_generation x))
     @ put_u64 (id_value (env_policy x))
     @ put_u64 (id_value (env_policy_generation x))
     @ put_u64 (id_value (env_backend x))
     @ put_u64 (id_value (env_backend_generation x))
     @ put_u8 (EnvelopeState_to_u8 (env_state x))
     @ put_u8 0
     @ put_u16 (reason_raw (env_reason x))
     @ put_u32 0
     @ put_bool (env_has_plan x)
     @ put_bool (env_effect_verified x)
     @ put_bool (env_requires_revalidation x)
     @ put_u8 0
     @ (if env_has_plan x then encode_plan (env_plan x) else [])
     @ encode_bucket (env_bucket x)
     @ put_u64 (env_applied_rate_ups x)
     @ put_u64 (env_applied_burst_tokens x)
     @ put_u64 (id_value (env_applied_epoch x))
     @ put_u64 (id_value (env_applied_boot x))
     @ put_u64 (env_cooldown_until_ns x)
     @ put_u64 (env_revalidate_by_ns x)
     @ put_u64 (env_created_ns x)
     @ put_u64 (env_updated_ns x)
     @ put_u64 (env_plan_revision x)
     @ put_u64 (env_attempts_issued x)
     @ put_u64 (env_completions_applied x)
     @ put_u64 (env_completions_rejected x)
     @ put_text (env_annotation x)"

definition decode_envelope :: "bytes \<Rightarrow> (RateEnvelope \<times> bytes) option" where
  "decode_envelope bs = do {
     (id, bs) \<leftarrow> get_u64 bs;
     (generation, bs) \<leftarrow> get_u64 bs;
     (flow, bs) \<leftarrow> get_u64 bs;
     (flow_generation, bs) \<leftarrow> get_u64 bs;
     (resource, bs) \<leftarrow> get_u64 bs;
     (resource_generation, bs) \<leftarrow> get_u64 bs;
     (grant, bs) \<leftarrow> get_u64 bs;
     (grant_generation, bs) \<leftarrow> get_u64 bs;
     (has_reservation, bs) \<leftarrow> get_u8 bs;
     (pad8, bs) \<leftarrow> get_u8 bs;
     (pad16, bs) \<leftarrow> get_u16 bs;
     (pad32, bs) \<leftarrow> get_u32 bs;
     (reservation, bs) \<leftarrow> get_u64 bs;
     (reservation_generation, bs) \<leftarrow> get_u64 bs;
     (policy, bs) \<leftarrow> get_u64 bs;
     (policy_generation, bs) \<leftarrow> get_u64 bs;
     (backend, bs) \<leftarrow> get_u64 bs;
     (backend_generation, bs) \<leftarrow> get_u64 bs;
     (state, bs) \<leftarrow> get_u8 bs;
     (pad8, bs) \<leftarrow> get_u8 bs;
     (reason, bs) \<leftarrow> get_u16 bs;
     (pad32, bs) \<leftarrow> get_u32 bs;
     (has_plan, bs) \<leftarrow> get_u8 bs;
     (effect_verified, bs) \<leftarrow> get_u8 bs;
     (requires_revalidation, bs) \<leftarrow> get_u8 bs;
     (pad8b, bs) \<leftarrow> get_u8 bs;
     if pad8 \<noteq> 0 \<or> pad16 \<noteq> 0 \<or> pad32 \<noteq> 0 \<or> pad8b \<noteq> 0 \<or> 1 < has_reservation
         \<or> 1 < has_plan \<or> 1 < effect_verified \<or> 1 < requires_revalidation then None else do {
     (plan, bs) \<leftarrow> (if has_plan = 1 then decode_plan bs else Some (empty_plan, bs));
     (bucket, bs) \<leftarrow> decode_bucket bs;
     (applied_rate_ups, bs) \<leftarrow> get_u64 bs;
     (applied_burst_tokens, bs) \<leftarrow> get_u64 bs;
     (applied_epoch, bs) \<leftarrow> get_u64 bs;
     (applied_boot, bs) \<leftarrow> get_u64 bs;
     (cooldown_until_ns, bs) \<leftarrow> get_u64 bs;
     (revalidate_by_ns, bs) \<leftarrow> get_u64 bs;
     (created_ns, bs) \<leftarrow> get_u64 bs;
     (updated_ns, bs) \<leftarrow> get_u64 bs;
     (plan_revision, bs) \<leftarrow> get_u64 bs;
     (attempts_issued, bs) \<leftarrow> get_u64 bs;
     (completions_applied, bs) \<leftarrow> get_u64 bs;
     (completions_rejected, bs) \<leftarrow> get_u64 bs;
     (annotation, bs) \<leftarrow> get_text bs;
     Some (\<lparr>env_id = StrongId id, env_generation = StrongId generation,
        env_flow = StrongId flow, env_flow_generation = StrongId flow_generation,
        env_resource = StrongId resource,
        env_resource_generation = StrongId resource_generation,
        env_grant = StrongId grant, env_grant_generation = StrongId grant_generation,
        env_has_reservation = has_reservation = 1,
        env_reservation = StrongId reservation,
        env_reservation_generation = StrongId reservation_generation,
        env_policy = StrongId policy,
        env_policy_generation = StrongId policy_generation,
        env_backend = StrongId backend,
        env_backend_generation = StrongId backend_generation,
        env_state = EnvelopeState_of_u8 state, env_reason = ReasonCode reason,
        env_has_plan = has_plan = 1, env_plan = plan, env_bucket = bucket,
        env_applied_rate_ups = applied_rate_ups,
        env_applied_burst_tokens = applied_burst_tokens,
        env_effect_verified = effect_verified = 1,
        env_applied_epoch = StrongId applied_epoch,
        env_applied_boot = StrongId applied_boot,
        env_cooldown_until_ns = cooldown_until_ns,
        env_revalidate_by_ns = revalidate_by_ns,
        env_requires_revalidation = requires_revalidation = 1,
        env_annotation = annotation, env_created_ns = created_ns,
        env_updated_ns = updated_ns, env_plan_revision = plan_revision,
        env_attempts_issued = attempts_issued,
        env_completions_applied = completions_applied,
        env_completions_rejected = completions_rejected\<rparr>, bs) } }"

definition encode_attempt :: "EnforcementAttempt \<Rightarrow> bytes" where
  "encode_attempt x =
     put_u64 (id_value (att_id x))
     @ put_u64 (id_value (att_envelope x))
     @ put_u64 (id_value (att_envelope_generation x))
     @ put_u8 (AttemptKind_to_u8 (att_kind x))
     @ put_u8 (AttemptState_to_u8 (att_state x))
     @ put_u16 (reason_raw (att_reason x))
     @ put_u32 0
     @ encode_fingerprint (att_fingerprint x)
     @ put_u64 (id_value (att_backend x))
     @ put_u64 (id_value (att_backend_generation x))
     @ put_u64 (id_value (att_epoch x))
     @ put_u64 (id_value (att_boot x))
     @ put_u64 (att_sequence x)
     @ put_u64 (att_idempotency_key x)
     @ put_u64 (att_created_ns x)
     @ put_u64 (att_dispatched_ns x)
     @ put_u64 (att_deadline_ns x)
     @ put_u64 (att_completed_ns x)
     @ put_u64 (att_requested_rate_ups x)
     @ put_u64 (att_requested_burst_tokens x)
     @ put_u64 (att_acknowledged_rate_ups x)
     @ put_u64 (att_acknowledged_burst_tokens x)
     @ put_bool (att_acknowledged x)
     @ put_bool (att_verified x)
     @ put_bool (att_effect_confirmed x)
     @ put_bool (att_compensating x)
     @ put_u64 (att_verified_rate_ups x)
     @ put_u64 (att_verified_burst_tokens x)
     @ put_text (att_detail x)"

definition decode_attempt :: "bytes \<Rightarrow> (EnforcementAttempt \<times> bytes) option" where
  "decode_attempt bs = do {
     (id, bs) \<leftarrow> get_u64 bs;
     (envelope, bs) \<leftarrow> get_u64 bs;
     (envelope_generation, bs) \<leftarrow> get_u64 bs;
     (kind, bs) \<leftarrow> get_u8 bs;
     (state, bs) \<leftarrow> get_u8 bs;
     (reason, bs) \<leftarrow> get_u16 bs;
     (pad32, bs) \<leftarrow> get_u32 bs;
     if pad32 \<noteq> 0 then None else do {
     (fingerprint, bs) \<leftarrow> decode_fingerprint bs;
     (backend, bs) \<leftarrow> get_u64 bs;
     (backend_generation, bs) \<leftarrow> get_u64 bs;
     (epoch, bs) \<leftarrow> get_u64 bs;
     (boot, bs) \<leftarrow> get_u64 bs;
     (sequence, bs) \<leftarrow> get_u64 bs;
     (idempotency_key, bs) \<leftarrow> get_u64 bs;
     (created_ns, bs) \<leftarrow> get_u64 bs;
     (dispatched_ns, bs) \<leftarrow> get_u64 bs;
     (deadline_ns, bs) \<leftarrow> get_u64 bs;
     (completed_ns, bs) \<leftarrow> get_u64 bs;
     (requested_rate_ups, bs) \<leftarrow> get_u64 bs;
     (requested_burst_tokens, bs) \<leftarrow> get_u64 bs;
     (acknowledged_rate_ups, bs) \<leftarrow> get_u64 bs;
     (acknowledged_burst_tokens, bs) \<leftarrow> get_u64 bs;
     (acknowledged, bs) \<leftarrow> get_u8 bs;
     (verified, bs) \<leftarrow> get_u8 bs;
     (effect_confirmed, bs) \<leftarrow> get_u8 bs;
     (compensating, bs) \<leftarrow> get_u8 bs;
     (verified_rate_ups, bs) \<leftarrow> get_u64 bs;
     (verified_burst_tokens, bs) \<leftarrow> get_u64 bs;
     if 1 < acknowledged \<or> 1 < verified \<or> 1 < effect_confirmed \<or> 1 < compensating then None else do {
     (detail, bs) \<leftarrow> get_text bs;
     Some (\<lparr>att_id = StrongId id, att_envelope = StrongId envelope,
        att_envelope_generation = StrongId envelope_generation,
        att_kind = AttemptKind_of_u8 kind, att_state = AttemptState_of_u8 state,
        att_reason = ReasonCode reason, att_fingerprint = fingerprint,
        att_backend = StrongId backend,
        att_backend_generation = StrongId backend_generation,
        att_epoch = StrongId epoch, att_boot = StrongId boot,
        att_sequence = sequence, att_idempotency_key = idempotency_key,
        att_created_ns = created_ns, att_dispatched_ns = dispatched_ns,
        att_deadline_ns = deadline_ns, att_completed_ns = completed_ns,
        att_requested_rate_ups = requested_rate_ups,
        att_requested_burst_tokens = requested_burst_tokens,
        att_acknowledged_rate_ups = acknowledged_rate_ups,
        att_acknowledged_burst_tokens = acknowledged_burst_tokens,
        att_acknowledged = acknowledged = 1,
        att_verified_rate_ups = verified_rate_ups,
        att_verified_burst_tokens = verified_burst_tokens,
        att_verified = verified = 1, att_effect_confirmed = effect_confirmed = 1,
        att_compensating = compensating = 1, att_detail = detail\<rparr>, bs) } } }"

section \<open>Small payloads\<close>

definition encode_epoch_payload :: "FabricEpoch \<Rightarrow> WorkerBootId \<Rightarrow> ReasonCode \<Rightarrow> bytes" where
  "encode_epoch_payload epoch boot reason =
     put_u64 (id_value epoch) @ put_u64 (id_value boot) @ put_u16 (reason_raw reason)
     @ put_u16 0 @ put_u32 0"

definition decode_epoch_payload ::
  "bytes \<Rightarrow> ((FabricEpoch \<times> WorkerBootId \<times> ReasonCode) \<times> bytes) option" where
  "decode_epoch_payload bs = do {
     (epoch, bs) \<leftarrow> get_u64 bs;
     (boot, bs) \<leftarrow> get_u64 bs;
     (reason, bs) \<leftarrow> get_u16 bs;
     (pad16, bs) \<leftarrow> get_u16 bs;
     (pad32, bs) \<leftarrow> get_u32 bs;
     if pad16 \<noteq> 0 \<or> pad32 \<noteq> 0 then None
     else Some ((StrongId epoch, StrongId boot, ReasonCode reason), bs) }"

definition encode_bucket_payload :: "RateEnvelope \<Rightarrow> bytes" where
  "encode_bucket_payload x =
     put_u64 (id_value (env_id x)) @ put_u64 (id_value (env_generation x))
     @ encode_bucket (env_bucket x) @ put_u64 (env_created_ns x) @ put_u64 (env_updated_ns x)
     @ put_u64 (env_attempts_issued x) @ put_u64 (env_completions_applied x)
     @ put_u64 (env_completions_rejected x)"

definition decode_bucket_payload :: "bytes \<Rightarrow> (RateEnvelope \<times> bytes) option" where
  "decode_bucket_payload bs = do {
     (id, bs) \<leftarrow> get_u64 bs;
     (generation, bs) \<leftarrow> get_u64 bs;
     (bucket, bs) \<leftarrow> decode_bucket bs;
     (created, bs) \<leftarrow> get_u64 bs;
     (updated, bs) \<leftarrow> get_u64 bs;
     (issued, bs) \<leftarrow> get_u64 bs;
     (applied, bs) \<leftarrow> get_u64 bs;
     (rejected, bs) \<leftarrow> get_u64 bs;
     Some (empty_envelope\<lparr>env_id := StrongId id, env_generation := StrongId generation,
       env_bucket := bucket, env_created_ns := created, env_updated_ns := updated,
       env_attempts_issued := issued, env_completions_applied := applied,
       env_completions_rejected := rejected\<rparr>, bs) }"

definition encode_grant_state_payload ::
  "GrantId \<Rightarrow> Generation \<Rightarrow> GrantState \<Rightarrow> ReasonCode \<Rightarrow> bytes" where
  "encode_grant_state_payload i g s reason =
     put_u64 (id_value i) @ put_u64 (id_value g) @ put_u8 (GrantState_to_u8 s) @ put_u8 0
     @ put_u16 (reason_raw reason) @ put_u32 0"

definition decode_grant_state_payload ::
  "bytes \<Rightarrow> ((GrantId \<times> Generation \<times> GrantState \<times> ReasonCode) \<times> bytes) option" where
  "decode_grant_state_payload bs = do {
     (id, bs) \<leftarrow> get_u64 bs;
     (generation, bs) \<leftarrow> get_u64 bs;
     (state, bs) \<leftarrow> get_u8 bs;
     (pad8, bs) \<leftarrow> get_u8 bs;
     (reason, bs) \<leftarrow> get_u16 bs;
     (pad32, bs) \<leftarrow> get_u32 bs;
     if pad8 \<noteq> 0 \<or> pad32 \<noteq> 0 then None
     else Some ((StrongId id, StrongId generation, GrantState_of_u8 state, ReasonCode reason), bs) }"

definition encode_reservation_state_payload ::
  "ReservationId \<Rightarrow> Generation \<Rightarrow> ReservationState \<Rightarrow> ReasonCode \<Rightarrow> bytes" where
  "encode_reservation_state_payload i g s reason =
     put_u64 (id_value i) @ put_u64 (id_value g) @ put_u8 (ReservationState_to_u8 s) @ put_u8 0
     @ put_u16 (reason_raw reason) @ put_u32 0"

definition decode_reservation_state_payload ::
  "bytes \<Rightarrow> ((ReservationId \<times> Generation \<times> ReservationState \<times> ReasonCode) \<times> bytes) option" where
  "decode_reservation_state_payload bs = do {
     (id, bs) \<leftarrow> get_u64 bs;
     (generation, bs) \<leftarrow> get_u64 bs;
     (state, bs) \<leftarrow> get_u8 bs;
     (pad8, bs) \<leftarrow> get_u8 bs;
     (reason, bs) \<leftarrow> get_u16 bs;
     (pad32, bs) \<leftarrow> get_u32 bs;
     if pad8 \<noteq> 0 \<or> pad32 \<noteq> 0 then None
     else Some ((StrongId id, StrongId generation, ReservationState_of_u8 state, ReasonCode reason), bs) }"

definition encode_policy_state_payload ::
  "PolicyId \<Rightarrow> Generation \<Rightarrow> PolicyState \<Rightarrow> ReasonCode \<Rightarrow> bytes" where
  "encode_policy_state_payload i g s reason =
     put_u64 (id_value i) @ put_u64 (id_value g) @ put_u8 (PolicyState_to_u8 s) @ put_u8 0
     @ put_u16 (reason_raw reason) @ put_u32 0"

definition decode_policy_state_payload ::
  "bytes \<Rightarrow> ((PolicyId \<times> Generation \<times> PolicyState \<times> ReasonCode) \<times> bytes) option" where
  "decode_policy_state_payload bs = do {
     (id, bs) \<leftarrow> get_u64 bs;
     (generation, bs) \<leftarrow> get_u64 bs;
     (state, bs) \<leftarrow> get_u8 bs;
     (pad8, bs) \<leftarrow> get_u8 bs;
     (reason, bs) \<leftarrow> get_u16 bs;
     (pad32, bs) \<leftarrow> get_u32 bs;
     if pad8 \<noteq> 0 \<or> pad32 \<noteq> 0 then None
     else Some ((StrongId id, StrongId generation, PolicyState_of_u8 state, ReasonCode reason), bs) }"

definition encode_resource_state_payload ::
  "ResourceId \<Rightarrow> Generation \<Rightarrow> ResourceState \<Rightarrow> ReasonCode \<Rightarrow> bytes" where
  "encode_resource_state_payload i g s reason =
     put_u64 (id_value i) @ put_u64 (id_value g) @ put_u8 (ResourceState_to_u8 s) @ put_u8 0
     @ put_u16 (reason_raw reason) @ put_u32 0"

definition decode_resource_state_payload ::
  "bytes \<Rightarrow> ((ResourceId \<times> Generation \<times> ResourceState \<times> ReasonCode) \<times> bytes) option" where
  "decode_resource_state_payload bs = do {
     (id, bs) \<leftarrow> get_u64 bs;
     (generation, bs) \<leftarrow> get_u64 bs;
     (state, bs) \<leftarrow> get_u8 bs;
     (pad8, bs) \<leftarrow> get_u8 bs;
     (reason, bs) \<leftarrow> get_u16 bs;
     (pad32, bs) \<leftarrow> get_u32 bs;
     if pad8 \<noteq> 0 \<or> pad32 \<noteq> 0 then None
     else Some ((StrongId id, StrongId generation, ResourceState_of_u8 state, ReasonCode reason), bs) }"

section \<open>Values that survive a round trip\<close>

text \<open>An enumerator that the source declares.\<close>

definition AuthoritySource_declared :: "AuthoritySource \<Rightarrow> bool" where
  "AuthoritySource_declared s \<longleftrightarrow> (case s of AuthoritySource_other b \<Rightarrow> False | _ \<Rightarrow> True)"

lemma AuthoritySource_of_to [codec_simps]: "AuthoritySource_declared s \<Longrightarrow> AuthoritySource_of_u8 (AuthoritySource_to_u8 s) = s"
  by (cases s) (simp_all add: AuthoritySource_declared_def AuthoritySource_of_u8_def)

definition FlowState_declared :: "FlowState \<Rightarrow> bool" where
  "FlowState_declared s \<longleftrightarrow> (case s of FlowState_other b \<Rightarrow> False | _ \<Rightarrow> True)"

lemma FlowState_of_to [codec_simps]: "FlowState_declared s \<Longrightarrow> FlowState_of_u8 (FlowState_to_u8 s) = s"
  by (cases s) (simp_all add: FlowState_declared_def FlowState_of_u8_def)

definition GrantState_declared :: "GrantState \<Rightarrow> bool" where
  "GrantState_declared s \<longleftrightarrow> (case s of GrantState_other b \<Rightarrow> False | _ \<Rightarrow> True)"

lemma GrantState_of_to [codec_simps]: "GrantState_declared s \<Longrightarrow> GrantState_of_u8 (GrantState_to_u8 s) = s"
  by (cases s) (simp_all add: GrantState_declared_def GrantState_of_u8_def)

definition ReservationState_declared :: "ReservationState \<Rightarrow> bool" where
  "ReservationState_declared s \<longleftrightarrow> (case s of ReservationState_other b \<Rightarrow> False | _ \<Rightarrow> True)"

lemma ReservationState_of_to [codec_simps]: "ReservationState_declared s \<Longrightarrow> ReservationState_of_u8 (ReservationState_to_u8 s) = s"
  by (cases s) (simp_all add: ReservationState_declared_def ReservationState_of_u8_def)

definition RefillSemantics_declared :: "RefillSemantics \<Rightarrow> bool" where
  "RefillSemantics_declared s \<longleftrightarrow> (case s of RefillSemantics_other b \<Rightarrow> False | _ \<Rightarrow> True)"

lemma RefillSemantics_of_to [codec_simps]: "RefillSemantics_declared s \<Longrightarrow> RefillSemantics_of_u8 (RefillSemantics_to_u8 s) = s"
  by (cases s) (simp_all add: RefillSemantics_declared_def RefillSemantics_of_u8_def)

definition PolicyState_declared :: "PolicyState \<Rightarrow> bool" where
  "PolicyState_declared s \<longleftrightarrow> (case s of PolicyState_other b \<Rightarrow> False | _ \<Rightarrow> True)"

lemma PolicyState_of_to [codec_simps]: "PolicyState_declared s \<Longrightarrow> PolicyState_of_u8 (PolicyState_to_u8 s) = s"
  by (cases s) (simp_all add: PolicyState_declared_def PolicyState_of_u8_def)

definition ResourceState_declared :: "ResourceState \<Rightarrow> bool" where
  "ResourceState_declared s \<longleftrightarrow> (case s of ResourceState_other b \<Rightarrow> False | _ \<Rightarrow> True)"

lemma ResourceState_of_to [codec_simps]: "ResourceState_declared s \<Longrightarrow> ResourceState_of_u8 (ResourceState_to_u8 s) = s"
  by (cases s) (simp_all add: ResourceState_declared_def ResourceState_of_u8_def)

definition BackendKind_declared :: "BackendKind \<Rightarrow> bool" where
  "BackendKind_declared s \<longleftrightarrow> (case s of BackendKind_other b \<Rightarrow> False | _ \<Rightarrow> True)"

lemma BackendKind_of_to [codec_simps]: "BackendKind_declared s \<Longrightarrow> BackendKind_of_u8 (BackendKind_to_u8 s) = s"
  by (cases s) (simp_all add: BackendKind_declared_def BackendKind_of_u8_def)

definition VerificationMode_declared :: "VerificationMode \<Rightarrow> bool" where
  "VerificationMode_declared s \<longleftrightarrow> (case s of VerificationMode_other b \<Rightarrow> False | _ \<Rightarrow> True)"

lemma VerificationMode_of_to [codec_simps]: "VerificationMode_declared s \<Longrightarrow> VerificationMode_of_u8 (VerificationMode_to_u8 s) = s"
  by (cases s) (simp_all add: VerificationMode_declared_def VerificationMode_of_u8_def)

definition LimitingAuthority_declared :: "LimitingAuthority \<Rightarrow> bool" where
  "LimitingAuthority_declared s \<longleftrightarrow> (case s of LimitingAuthority_other b \<Rightarrow> False | _ \<Rightarrow> True)"

lemma LimitingAuthority_of_to [codec_simps]: "LimitingAuthority_declared s \<Longrightarrow> LimitingAuthority_of_u8 (LimitingAuthority_to_u8 s) = s"
  by (cases s) (simp_all add: LimitingAuthority_declared_def LimitingAuthority_of_u8_def)

definition EnvelopeState_declared :: "EnvelopeState \<Rightarrow> bool" where
  "EnvelopeState_declared s \<longleftrightarrow> (case s of EnvelopeState_other b \<Rightarrow> False | _ \<Rightarrow> True)"

lemma EnvelopeState_of_to [codec_simps]: "EnvelopeState_declared s \<Longrightarrow> EnvelopeState_of_u8 (EnvelopeState_to_u8 s) = s"
  by (cases s) (simp_all add: EnvelopeState_declared_def EnvelopeState_of_u8_def)

definition AttemptKind_declared :: "AttemptKind \<Rightarrow> bool" where
  "AttemptKind_declared s \<longleftrightarrow> (case s of AttemptKind_other b \<Rightarrow> False | _ \<Rightarrow> True)"

lemma AttemptKind_of_to [codec_simps]: "AttemptKind_declared s \<Longrightarrow> AttemptKind_of_u8 (AttemptKind_to_u8 s) = s"
  by (cases s) (simp_all add: AttemptKind_declared_def AttemptKind_of_u8_def)

definition AttemptState_declared :: "AttemptState \<Rightarrow> bool" where
  "AttemptState_declared s \<longleftrightarrow> (case s of AttemptState_other b \<Rightarrow> False | _ \<Rightarrow> True)"

lemma AttemptState_of_to [codec_simps]: "AttemptState_declared s \<Longrightarrow> AttemptState_of_u8 (AttemptState_to_u8 s) = s"
  by (cases s) (simp_all add: AttemptState_declared_def AttemptState_of_u8_def)

definition provenance_storable :: "Provenance \<Rightarrow> bool" where
  "provenance_storable x \<longleftrightarrow>
     AuthoritySource_declared (prov_source x)
     \<and> length (prov_detail x) \<le> kRecordTextHardLimit"

definition flow_storable :: "Flow \<Rightarrow> bool" where
  "flow_storable x \<longleftrightarrow>
     FlowState_declared (flow_state x)
     \<and> provenance_storable (flow_provenance x)"

definition grant_storable :: "Grant \<Rightarrow> bool" where
  "grant_storable x \<longleftrightarrow>
     GrantState_declared (grant_state x)
     \<and> provenance_storable (grant_provenance x)"

definition reservation_storable :: "Reservation \<Rightarrow> bool" where
  "reservation_storable x \<longleftrightarrow>
     ReservationState_declared (reservation_state x)
     \<and> provenance_storable (reservation_provenance x)"

definition policy_storable :: "Policy \<Rightarrow> bool" where
  "policy_storable x \<longleftrightarrow>
     RefillSemantics_declared (policy_refill x)
     \<and> PolicyState_declared (policy_state x)
     \<and> provenance_storable (policy_provenance x)"

definition resource_storable :: "Resource \<Rightarrow> bool" where
  "resource_storable x \<longleftrightarrow>
     ResourceState_declared (resource_state x)
     \<and> provenance_storable (resource_provenance x)"

definition backend_storable :: "BackendDescriptor \<Rightarrow> bool" where
  "backend_storable x \<longleftrightarrow>
     BackendKind_declared (backend_kind x)
     \<and> VerificationMode_declared (backend_verification x)
     \<and> length (backend_label x) \<le> kRecordTextHardLimit
     \<and> provenance_storable (backend_provenance x)"

definition plan_storable :: "EffectivePlan \<Rightarrow> bool" where
  "plan_storable x \<longleftrightarrow>
     LimitingAuthority_declared (plan_limiting_authority x)
     \<and> RefillSemantics_declared (plan_refill x)
     \<and> length (plan_explanation x) \<le> kRecordTextHardLimit"

definition envelope_storable :: "RateEnvelope \<Rightarrow> bool" where
  "envelope_storable x \<longleftrightarrow>
     EnvelopeState_declared (env_state x)
     \<and> (if env_has_plan x then plan_storable (env_plan x) else env_plan x = empty_plan)
     \<and> length (env_annotation x) \<le> kRecordTextHardLimit"

definition attempt_storable :: "EnforcementAttempt \<Rightarrow> bool" where
  "attempt_storable x \<longleftrightarrow>
     AttemptKind_declared (att_kind x)
     \<and> AttemptState_declared (att_state x)
     \<and> length (att_detail x) \<le> kRecordTextHardLimit"

section \<open>Round trips\<close>

lemma text_roundtrip [codec_simps]:
  "length s \<le> kRecordTextHardLimit \<Longrightarrow> get_text (put_text s @ r) = Some (s, r)"
  by (simp add: get_text_def put_text_def not_less get_text_put kRecordTextHardLimit_def)

lemma reason_of_raw [simp]: "ReasonCode (reason_raw c) = c"
  by simp

lemma provenance_roundtrip [codec_simps]:
  "provenance_storable x \<Longrightarrow> decode_provenance (encode_provenance x @ r) = Some (x, r)"
  by (simp add: encode_provenance_def decode_provenance_def codec_simps put_bool_def provenance_storable_def)

lemma window_roundtrip [codec_simps]:
  "decode_window (encode_window x @ r) = Some (x, r)"
  by (simp add: encode_window_def decode_window_def codec_simps put_bool_def)

lemma flow_roundtrip [codec_simps]:
  "flow_storable x \<Longrightarrow> decode_flow (encode_flow x @ r) = Some (x, r)"
  by (simp add: encode_flow_def decode_flow_def codec_simps put_bool_def flow_storable_def)

lemma grant_roundtrip [codec_simps]:
  "grant_storable x \<Longrightarrow> decode_grant (encode_grant x @ r) = Some (x, r)"
  by (simp add: encode_grant_def decode_grant_def codec_simps put_bool_def grant_storable_def)

lemma reservation_roundtrip [codec_simps]:
  "reservation_storable x \<Longrightarrow> decode_reservation (encode_reservation x @ r) = Some (x, r)"
  by (simp add: encode_reservation_def decode_reservation_def codec_simps put_bool_def reservation_storable_def)

lemma policy_roundtrip [codec_simps]:
  "policy_storable x \<Longrightarrow> decode_policy (encode_policy x @ r) = Some (x, r)"
  by (simp add: encode_policy_def decode_policy_def codec_simps put_bool_def policy_storable_def)

lemma resource_roundtrip [codec_simps]:
  "resource_storable x \<Longrightarrow> decode_resource (encode_resource x @ r) = Some (x, r)"
  by (simp add: encode_resource_def decode_resource_def codec_simps put_bool_def resource_storable_def)

lemma backend_roundtrip [codec_simps]:
  "backend_storable x \<Longrightarrow> decode_backend (encode_backend x @ r) = Some (x, r)"
  by (simp add: encode_backend_def decode_backend_def codec_simps put_bool_def backend_storable_def)

lemma fingerprint_roundtrip [codec_simps]:
  "decode_fingerprint (encode_fingerprint x @ r) = Some (x, r)"
  by (simp add: encode_fingerprint_def decode_fingerprint_def codec_simps put_bool_def)

lemma plan_roundtrip [codec_simps]:
  "plan_storable x \<Longrightarrow> decode_plan (encode_plan x @ r) = Some (x, r)"
  by (simp add: encode_plan_def decode_plan_def codec_simps put_bool_def plan_storable_def)

lemma bucket_roundtrip [codec_simps]:
  "decode_bucket (encode_bucket x @ r) = Some (x, r)"
  by (simp add: encode_bucket_def decode_bucket_def codec_simps put_bool_def)

lemma envelope_roundtrip [codec_simps]:
  "envelope_storable x \<Longrightarrow> decode_envelope (encode_envelope x @ r) = Some (x, r)"
  by (simp add: encode_envelope_def decode_envelope_def codec_simps put_bool_def envelope_storable_def)

lemma attempt_roundtrip [codec_simps]:
  "attempt_storable x \<Longrightarrow> decode_attempt (encode_attempt x @ r) = Some (x, r)"
  by (simp add: encode_attempt_def decode_attempt_def codec_simps put_bool_def attempt_storable_def)

lemma epoch_payload_roundtrip [codec_simps]:
  "decode_epoch_payload (encode_epoch_payload e b c @ r) = Some ((e, b, c), r)"
  by (simp add: encode_epoch_payload_def decode_epoch_payload_def codec_simps)

lemma bucket_payload_roundtrip [codec_simps]:
  "decode_bucket_payload (encode_bucket_payload x @ r)
   = Some (empty_envelope\<lparr>env_id := env_id x, env_generation := env_generation x,
       env_bucket := env_bucket x, env_created_ns := env_created_ns x,
       env_updated_ns := env_updated_ns x, env_attempts_issued := env_attempts_issued x,
       env_completions_applied := env_completions_applied x,
       env_completions_rejected := env_completions_rejected x\<rparr>, r)"
  by (simp add: encode_bucket_payload_def decode_bucket_payload_def codec_simps)

lemma grant_state_payload_roundtrip [codec_simps]:
  "GrantState_declared s \<Longrightarrow>
     decode_grant_state_payload (encode_grant_state_payload i g s c @ r) = Some ((i, g, s, c), r)"
  by (simp add: encode_grant_state_payload_def decode_grant_state_payload_def codec_simps)

lemma reservation_state_payload_roundtrip [codec_simps]:
  "ReservationState_declared s \<Longrightarrow>
     decode_reservation_state_payload (encode_reservation_state_payload i g s c @ r) = Some ((i, g, s, c), r)"
  by (simp add: encode_reservation_state_payload_def decode_reservation_state_payload_def codec_simps)

lemma policy_state_payload_roundtrip [codec_simps]:
  "PolicyState_declared s \<Longrightarrow>
     decode_policy_state_payload (encode_policy_state_payload i g s c @ r) = Some ((i, g, s, c), r)"
  by (simp add: encode_policy_state_payload_def decode_policy_state_payload_def codec_simps)

lemma resource_state_payload_roundtrip [codec_simps]:
  "ResourceState_declared s \<Longrightarrow>
     decode_resource_state_payload (encode_resource_state_payload i g s c @ r) = Some ((i, g, s, c), r)"
  by (simp add: encode_resource_state_payload_def decode_resource_state_payload_def codec_simps)

section \<open>Record codecs as an interface\<close>

text \<open>
  What the journal and the wire rely on: a storable record is read back whatever
  follows it.  An encoding is then injective and no encoding is a proper prefix of
  another, so records can be written one after the other.
\<close>

locale record_codec =
  fixes enc :: "'r \<Rightarrow> bytes"
    and dec :: "bytes \<Rightarrow> ('r \<times> bytes) option"
    and storable :: "'r \<Rightarrow> bool"
  assumes roundtrip: "storable x \<Longrightarrow> dec (enc x @ r) = Some (x, r)"
begin

lemma decodes_exactly: "storable x \<Longrightarrow> dec (enc x) = Some (x, [])"
  using roundtrip [of x "[]"] by simp

lemma prefix_free:
  assumes "storable x" "storable y" "enc x @ r = enc y @ s"
  shows "x = y \<and> r = s"
proof -
  have "Some (x, r) = dec (enc x @ r)" by (rule roundtrip [OF assms(1), symmetric])
  also have "\<dots> = dec (enc y @ s)" by (rule arg_cong [OF assms(3)])
  also have "\<dots> = Some (y, s)" by (rule roundtrip [OF assms(2)])
  finally show ?thesis by simp
qed

end

interpretation provenance_codec: record_codec encode_provenance decode_provenance provenance_storable
  by unfold_locales (simp add: provenance_roundtrip)

interpretation window_codec: record_codec encode_window decode_window "\<lambda>_. True"
  by unfold_locales (simp add: window_roundtrip)

interpretation flow_codec: record_codec encode_flow decode_flow flow_storable
  by unfold_locales (simp add: flow_roundtrip)

interpretation grant_codec: record_codec encode_grant decode_grant grant_storable
  by unfold_locales (simp add: grant_roundtrip)

interpretation reservation_codec: record_codec encode_reservation decode_reservation reservation_storable
  by unfold_locales (simp add: reservation_roundtrip)

interpretation policy_codec: record_codec encode_policy decode_policy policy_storable
  by unfold_locales (simp add: policy_roundtrip)

interpretation resource_codec: record_codec encode_resource decode_resource resource_storable
  by unfold_locales (simp add: resource_roundtrip)

interpretation backend_codec: record_codec encode_backend decode_backend backend_storable
  by unfold_locales (simp add: backend_roundtrip)

interpretation fingerprint_codec: record_codec encode_fingerprint decode_fingerprint "\<lambda>_. True"
  by unfold_locales (simp add: fingerprint_roundtrip)

interpretation plan_codec: record_codec encode_plan decode_plan plan_storable
  by unfold_locales (simp add: plan_roundtrip)

interpretation bucket_codec: record_codec encode_bucket decode_bucket "\<lambda>_. True"
  by unfold_locales (simp add: bucket_roundtrip)

interpretation envelope_codec: record_codec encode_envelope decode_envelope envelope_storable
  by unfold_locales (simp add: envelope_roundtrip)

interpretation attempt_codec: record_codec encode_attempt decode_attempt attempt_storable
  by unfold_locales (simp add: attempt_roundtrip)

section \<open>Properties\<close>



text \<open>
  The encodings of envelopes, and of attempts, are prefix free: if the bytes of
  one storable record followed by a rest equal the bytes of another followed by a
  rest, the two records are the same and so are the rests.  No two different
  records share an encoding.
\<close>

theorem record_encodings_prefix_free:
  "(envelope_storable e \<and> envelope_storable e' \<and> encode_envelope e @ r = encode_envelope e' @ r' \<longrightarrow>
      e = e' \<and> r = r')
   \<and> (attempt_storable a \<and> attempt_storable a' \<and> encode_attempt a @ r = encode_attempt a' @ r' \<longrightarrow>
      a = a' \<and> r = r')"
  using envelope_codec.prefix_free [of e e' r r'] attempt_codec.prefix_free [of a a' r r'] by blast

theorem record_encodings_prefix_free_witness:
  "attempt_storable empty_attempt
   \<and> encode_attempt empty_attempt @ [1] \<noteq> encode_attempt (empty_attempt\<lparr>att_sequence := 1\<rparr>) @ [2]"
proof -
  let ?a = "empty_attempt\<lparr>att_sequence := 1\<rparr>"
  have s: "attempt_storable empty_attempt" "attempt_storable ?a"
    by (simp_all add: attempt_storable_def empty_attempt_def AttemptKind_declared_def
        AttemptState_declared_def)
  have "empty_attempt \<noteq> ?a" by (simp add: empty_attempt_def)
  with s show ?thesis
    using record_encodings_prefix_free [of empty_envelope empty_envelope "[1]" "[2]" empty_attempt ?a]
    by blast
qed

end
