(* ===== verification/Journal.thy ===== *)
theory Journal
  imports Record_Codec
begin

text \<open>
  The durable log (\<^verbatim>\<open>include/rate_governor/journal.hpp\<close>, \<^verbatim>\<open>src/journal.cpp\<close>):
  record framing, the append-only writer with transactions and compaction, and the
  scanner that recovery uses.  The log file is a list of bytes.  What the file
  operations of the C library answer is not decided by the program: a journal
  carries the list of the answers still to come (an exhausted list answers success),
  and a failed write may leave any number of the bytes it was given in the file.
\<close>

section \<open>Records and framing\<close>

datatype JournalRecordType = JournalRecordType (type_raw: u16)

abbreviation JT_Unknown :: JournalRecordType where "JT_Unknown \<equiv> JournalRecordType 0"
abbreviation JT_FileHeader :: JournalRecordType where "JT_FileHeader \<equiv> JournalRecordType 1"
abbreviation JT_FlowPut :: JournalRecordType where "JT_FlowPut \<equiv> JournalRecordType 9"
abbreviation JT_GrantPut :: JournalRecordType where "JT_GrantPut \<equiv> JournalRecordType 10"
abbreviation JT_GrantStateChange :: JournalRecordType where "JT_GrantStateChange \<equiv> JournalRecordType 11"
abbreviation JT_ReservationPut :: JournalRecordType where "JT_ReservationPut \<equiv> JournalRecordType 12"
abbreviation JT_ReservationStateChange :: JournalRecordType where "JT_ReservationStateChange \<equiv> JournalRecordType 13"
abbreviation JT_PolicyPut :: JournalRecordType where "JT_PolicyPut \<equiv> JournalRecordType 14"
abbreviation JT_PolicyStateChange :: JournalRecordType where "JT_PolicyStateChange \<equiv> JournalRecordType 15"
abbreviation JT_ResourcePut :: JournalRecordType where "JT_ResourcePut \<equiv> JournalRecordType 16"
abbreviation JT_ResourceStateChange :: JournalRecordType where "JT_ResourceStateChange \<equiv> JournalRecordType 17"
abbreviation JT_BackendPut :: JournalRecordType where "JT_BackendPut \<equiv> JournalRecordType 18"
abbreviation JT_EpochAdvance :: JournalRecordType where "JT_EpochAdvance \<equiv> JournalRecordType 20"
abbreviation JT_EnvelopeOpened :: JournalRecordType where "JT_EnvelopeOpened \<equiv> JournalRecordType 30"
abbreviation JT_EnvelopeBindingChange :: JournalRecordType where "JT_EnvelopeBindingChange \<equiv> JournalRecordType 31"
abbreviation JT_EnvelopeAuthorized :: JournalRecordType where "JT_EnvelopeAuthorized \<equiv> JournalRecordType 32"
abbreviation JT_EnvelopeStateChange :: JournalRecordType where "JT_EnvelopeStateChange \<equiv> JournalRecordType 33"
abbreviation JT_EnvelopeEffectRecorded :: JournalRecordType where "JT_EnvelopeEffectRecorded \<equiv> JournalRecordType 34"
abbreviation JT_EnvelopeCounters :: JournalRecordType where "JT_EnvelopeCounters \<equiv> JournalRecordType 35"
abbreviation JT_AttemptCreated :: JournalRecordType where "JT_AttemptCreated \<equiv> JournalRecordType 40"
abbreviation JT_AttemptDispatched :: JournalRecordType where "JT_AttemptDispatched \<equiv> JournalRecordType 41"
abbreviation JT_AttemptAcknowledged :: JournalRecordType where "JT_AttemptAcknowledged \<equiv> JournalRecordType 42"
abbreviation JT_AttemptTerminated :: JournalRecordType where "JT_AttemptTerminated \<equiv> JournalRecordType 43"
abbreviation JT_AttemptVerified :: JournalRecordType where "JT_AttemptVerified \<equiv> JournalRecordType 44"
abbreviation JT_AttemptCompensating :: JournalRecordType where "JT_AttemptCompensating \<equiv> JournalRecordType 45"
abbreviation JT_TxnBegin :: JournalRecordType where "JT_TxnBegin \<equiv> JournalRecordType 60"
abbreviation JT_TxnCommit :: JournalRecordType where "JT_TxnCommit \<equiv> JournalRecordType 61"
abbreviation JT_CompactionMarker :: JournalRecordType where "JT_CompactionMarker \<equiv> JournalRecordType 62"

record JournalRecord =
  jr_type :: JournalRecordType
  jr_sequence :: u64
  jr_txn_id :: u64
  jr_payload :: bytes

datatype JournalStatus =
    JournalStatus_Ok | JournalStatus_NotOpen | JournalStatus_IoError | JournalStatus_Corrupt
  | JournalStatus_Truncated | JournalStatus_VersionUnsupported | JournalStatus_BoundsExceeded
  | JournalStatus_NoTransaction | JournalStatus_TransactionOpen | JournalStatus_PayloadTooLarge

definition kJournalRecordMagic :: u32 where
  "kJournalRecordMagic = 0x314A4752"

definition kJournalFormatVersion :: u16 where
  "kJournalFormatVersion = 1"

definition kJournalLayoutRevision :: u16 where
  "kJournalLayoutRevision = 1"

definition kJournalRecordHeaderSize :: nat where
  "kJournalRecordHeaderSize = 36"

definition kHeaderWithoutCrc :: nat where
  "kHeaderWithoutCrc = 32"

definition kJournalMaxScanBytes :: nat where
  "kJournalMaxScanBytes = 512 * 1024 * 1024"

definition commit_payload :: "u64 \<Rightarrow> u64 \<Rightarrow> u64 \<Rightarrow> bytes" where
  "commit_payload txn_id record_count byte_count =
     put_u64 txn_id @ put_u64 record_count @ put_u64 byte_count"

definition record_header :: "JournalRecord \<Rightarrow> bytes" where
  "record_header r =
     put_u32 kJournalRecordMagic @ put_u16 kJournalFormatVersion @ put_u16 (type_raw (jr_type r))
     @ put_u32 0 @ put_u64 (jr_sequence r) @ put_u64 (jr_txn_id r)
     @ put_u32 (of_nat (length (jr_payload r)))"

definition encode_journal_record :: "JournalRecord \<Rightarrow> nat \<Rightarrow> bytes" where
  "encode_journal_record r payload_bound =
     (if payload_bound < length (jr_payload r) \<or> 0xFFFFFFFF < length (jr_payload r) then []
      else
        let header_body = record_header r;
            crc0 = crc32c (take kHeaderWithoutCrc header_body);
            crc = crc32c_extend crc0 (jr_payload r)
        in header_body @ put_u32 crc @ jr_payload r)"

text \<open>
  Decoding at an offset is decoding of the bytes from that offset on; the result is
  the status of a failure, or the record with the number of bytes consumed.
\<close>

definition decode_journal_record :: "bytes \<Rightarrow> nat \<Rightarrow> JournalStatus + (JournalRecord \<times> nat)" where
  "decode_journal_record bs payload_bound =
     (if length bs < kJournalRecordHeaderSize then Inl JournalStatus_Truncated
      else
        (case (do {
            (magic, h) \<leftarrow> get_u32 (take kJournalRecordHeaderSize bs);
            (version, h) \<leftarrow> get_u16 h;
            (raw_type, h) \<leftarrow> get_u16 h;
            (flags, h) \<leftarrow> get_u32 h;
            (sequence, h) \<leftarrow> get_u64 h;
            (txn_id, h) \<leftarrow> get_u64 h;
            (payload_len, h) \<leftarrow> get_u32 h;
            (stored_crc, h) \<leftarrow> get_u32 h;
            Some (magic, version, raw_type, flags, sequence, txn_id, payload_len, stored_crc) }) of
           None \<Rightarrow> Inl JournalStatus_Truncated
         | Some (magic, version, raw_type, flags, sequence, txn_id, payload_len, stored_crc) \<Rightarrow>
             if magic \<noteq> kJournalRecordMagic then Inl JournalStatus_Corrupt
             else if version \<noteq> kJournalFormatVersion then Inl JournalStatus_VersionUnsupported
             else if flags \<noteq> 0 then Inl JournalStatus_Corrupt
             else if payload_bound < unat payload_len then Inl JournalStatus_BoundsExceeded
             else
               let total = kJournalRecordHeaderSize + unat payload_len
               in if length bs < total then Inl JournalStatus_Truncated
                  else
                    let payload = take (unat payload_len) (drop kJournalRecordHeaderSize bs);
                        crc0 = crc32c (take kHeaderWithoutCrc bs);
                        crc = crc32c_extend crc0 payload
                    in if crc \<noteq> stored_crc then Inl JournalStatus_Corrupt
                       else Inr (\<lparr>jr_type = JournalRecordType raw_type, jr_sequence = sequence,
                                  jr_txn_id = txn_id, jr_payload = payload\<rparr>, total)))"

section \<open>The file and the writer\<close>

text \<open>
  The answer of one file operation.  \<open>IoFail n\<close>: it fails; a write has put the
  first \<open>n\<close> of its bytes into the file before it fails.
\<close>

datatype IoOutcome = IoOk | IoFail nat

record JournalConfig =
  jc_path :: string
  jc_max_bytes :: u64
  jc_max_payload_bytes :: u64
  jc_fsync_on_commit :: bool

record JournalResult =
  jres_ok :: bool
  jres_status :: JournalStatus
  jres_sequence :: u64

definition journal_fail :: "JournalStatus \<Rightarrow> JournalResult" where
  "journal_fail st = \<lparr>jres_ok = False, jres_status = st, jres_sequence = 0\<rparr>"

definition journal_success :: "u64 \<Rightarrow> JournalResult" where
  "journal_success sq = \<lparr>jres_ok = True, jres_status = JournalStatus_Ok, jres_sequence = sq\<rparr>"

record Journal =
  jn_config :: JournalConfig
  jn_open :: bool
  jn_size_bytes :: u64
  jn_last_sequence :: u64
  jn_record_count :: u64
  jn_txn_id :: u64
  jn_txn_open :: bool
  jn_txn_record_count :: u64
  jn_txn_bytes :: u64
  jn_file :: bytes
  jn_io :: "IoOutcome list"

definition next_io :: "Journal \<Rightarrow> IoOutcome \<times> Journal" where
  "next_io j =
     (case jn_io j of [] \<Rightarrow> (IoOk, j) | r # rs \<Rightarrow> (r, j\<lparr>jn_io := rs\<rparr>))"

definition write_all :: "bytes \<Rightarrow> Journal \<Rightarrow> bool \<times> Journal" where
  "write_all data j =
     (if data = [] then (True, j)
      else (case next_io j of
          (IoOk, j1) \<Rightarrow> (True, j1\<lparr>jn_file := jn_file j1 @ data\<rparr>)
        | (IoFail n, j1) \<Rightarrow> (False, j1\<lparr>jn_file := jn_file j1 @ take n data\<rparr>)))"

definition durable_barrier :: "Journal \<Rightarrow> bool \<times> Journal" where
  "durable_barrier j = (case next_io j of (r, j1) \<Rightarrow> (r = IoOk, j1))"

definition write_record :: "JournalRecordType \<Rightarrow> u64 \<Rightarrow> bytes \<Rightarrow> Journal \<Rightarrow> JournalResult \<times> Journal" where
  "write_record t txn payload j =
     (if \<not> jn_open j then (journal_fail JournalStatus_NotOpen, j)
      else if unat (jc_max_payload_bytes (jn_config j)) < length payload
      then (journal_fail JournalStatus_PayloadTooLarge, j)
      else
        let r = \<lparr>jr_type = t, jr_sequence = jn_last_sequence j + 1, jr_txn_id = txn,
                 jr_payload = payload\<rparr>;
            encoded = encode_journal_record r (unat (jc_max_payload_bytes (jn_config j)))
        in if encoded = [] then (journal_fail JournalStatus_PayloadTooLarge, j)
           else (case write_all encoded j of
               (False, j1) \<Rightarrow> (journal_fail JournalStatus_IoError, j1)
             | (True, j1) \<Rightarrow>
                 (journal_success (jr_sequence r),
                  j1\<lparr>jn_size_bytes := jn_size_bytes j1 + of_nat (length encoded),
                     jn_last_sequence := jr_sequence r,
                     jn_record_count := jn_record_count j1 + 1\<rparr>)))"

definition journal_banner :: bytes where
  "journal_banner = put_u16 kJournalFormatVersion @ put_u16 kJournalLayoutRevision"

text \<open>
  Opening: \<open>existing\<close> is the content of the file when there is one.  A file that is
  created or truncated starts with the banner record.
\<close>

definition journal_handle :: "JournalConfig \<Rightarrow> bytes \<Rightarrow> IoOutcome list \<Rightarrow> Journal" where
  "journal_handle c content io =
     \<lparr>jn_config = c, jn_open = True, jn_size_bytes = 0, jn_last_sequence = 0, jn_record_count = 0,
      jn_txn_id = 0, jn_txn_open = False, jn_txn_record_count = 0, jn_txn_bytes = 0,
      jn_file = content, jn_io = io\<rparr>"

definition journal_open ::
  "JournalConfig \<Rightarrow> bool \<Rightarrow> bytes \<Rightarrow> IoOutcome list \<Rightarrow> JournalResult \<times> Journal option" where
  "journal_open c create_new existing io =
     (if jc_path c = [] then (journal_fail JournalStatus_IoError, None)
      else (case next_io (journal_handle c (if create_new then [] else existing) io) of
          (IoFail _, _) \<Rightarrow> (journal_fail JournalStatus_IoError, None)
        | (IoOk, j) \<Rightarrow>
            if create_new then
              (case write_record JT_FileHeader 0 journal_banner j of (res, j1) \<Rightarrow>
                 if \<not> jres_ok res then (res, None)
                 else (case durable_barrier j1 of
                     (False, _) \<Rightarrow> (journal_fail JournalStatus_IoError, None)
                   | (True, j2) \<Rightarrow> (journal_success (jn_last_sequence j2), Some j2)))
            else
              (case next_io j of (measured, j1) \<Rightarrow>
                 let j2 = j1\<lparr>jn_size_bytes :=
                            (if measured = IoOk then of_nat (length (jn_file j1)) else 0)\<rparr>
                 in (case next_io j2 of
                     (IoFail _, _) \<Rightarrow> (journal_fail JournalStatus_IoError, None)
                   | (IoOk, j3) \<Rightarrow> (journal_success (jn_last_sequence j3), Some j3)))))"

definition journal_begin :: "u64 \<Rightarrow> Journal \<Rightarrow> JournalResult \<times> Journal" where
  "journal_begin txn j =
     (if \<not> jn_open j then (journal_fail JournalStatus_NotOpen, j)
      else if jn_txn_open j then (journal_fail JournalStatus_TransactionOpen, j)
      else if txn = 0 then (journal_fail JournalStatus_NoTransaction, j)
      else (case write_record JT_TxnBegin txn (put_u64 txn) j of (res, j1) \<Rightarrow>
          if \<not> jres_ok res then (res, j1)
          else (res, j1\<lparr>jn_txn_id := txn, jn_txn_open := True, jn_txn_record_count := 0,
                        jn_txn_bytes := 0\<rparr>)))"

definition journal_append :: "JournalRecordType \<Rightarrow> bytes \<Rightarrow> Journal \<Rightarrow> JournalResult \<times> Journal" where
  "journal_append t payload j =
     (if \<not> jn_open j then (journal_fail JournalStatus_NotOpen, j)
      else if \<not> jn_txn_open j then (journal_fail JournalStatus_NoTransaction, j)
      else (case write_record t (jn_txn_id j) payload j of (res, j1) \<Rightarrow>
          if jres_ok res
          then (res, j1\<lparr>jn_txn_record_count := jn_txn_record_count j1 + 1,
                        jn_txn_bytes := jn_txn_bytes j1 + of_nat (length payload)\<rparr>)
          else (res, j1)))"

definition journal_commit :: "Journal \<Rightarrow> JournalResult \<times> Journal" where
  "journal_commit j =
     (if \<not> jn_open j then (journal_fail JournalStatus_NotOpen, j)
      else if \<not> jn_txn_open j then (journal_fail JournalStatus_NoTransaction, j)
      else (case write_record JT_TxnCommit (jn_txn_id j)
                   (commit_payload (jn_txn_id j) (jn_txn_record_count j) (jn_txn_bytes j)) j of
          (res, j1) \<Rightarrow>
            if \<not> jres_ok res then (res, j1)
            else
              (case (if jc_fsync_on_commit (jn_config j1) then durable_barrier j1 else (True, j1)) of
                 (False, j2) \<Rightarrow> (journal_fail JournalStatus_IoError, j2)
               | (True, j2) \<Rightarrow>
                   (res, j2\<lparr>jn_txn_open := False, jn_txn_id := 0, jn_txn_record_count := 0,
                            jn_txn_bytes := 0\<rparr>))))"

definition journal_rollback :: "Journal \<Rightarrow> JournalResult \<times> Journal" where
  "journal_rollback j =
     (if \<not> jn_open j then (journal_fail JournalStatus_NotOpen, j)
      else if \<not> jn_txn_open j then (journal_fail JournalStatus_NoTransaction, j)
      else (journal_success (jn_last_sequence j),
            j\<lparr>jn_txn_open := False, jn_txn_id := 0, jn_txn_record_count := 0, jn_txn_bytes := 0\<rparr>))"

definition journal_flush :: "Journal \<Rightarrow> bool \<times> Journal" where
  "journal_flush j = (if \<not> jn_open j then (False, j) else durable_barrier j)"

definition journal_close :: "Journal \<Rightarrow> Journal" where
  "journal_close j = j\<lparr>jn_open := False\<rparr>"

section \<open>Compaction\<close>

text \<open>
  The temporary file under construction: whether every write so far succeeded, the
  bytes written, and the answers still to come.
\<close>

record CompactionFile =
  cf_ok :: bool
  cf_bytes :: bytes
  cf_io :: "IoOutcome list"

definition write_one ::
  "nat \<Rightarrow> JournalRecordType \<Rightarrow> u64 \<Rightarrow> u64 \<Rightarrow> bytes \<Rightarrow> CompactionFile \<Rightarrow> CompactionFile" where
  "write_one bound t txn sq payload f =
     (if \<not> cf_ok f then f
      else
        let encoded = encode_journal_record
              \<lparr>jr_type = t, jr_sequence = sq, jr_txn_id = txn, jr_payload = payload\<rparr> bound
        in if encoded = [] then f\<lparr>cf_ok := False\<rparr>
           else (case cf_io f of
               [] \<Rightarrow> f\<lparr>cf_bytes := cf_bytes f @ encoded\<rparr>
             | IoOk # io \<Rightarrow> f\<lparr>cf_bytes := cf_bytes f @ encoded, cf_io := io\<rparr>
             | IoFail n # io \<Rightarrow> f\<lparr>cf_ok := False, cf_bytes := cf_bytes f @ take n encoded, cf_io := io\<rparr>))"

primrec write_snapshot :: "nat \<Rightarrow> u64 \<Rightarrow> JournalRecord list \<Rightarrow> CompactionFile \<Rightarrow> CompactionFile" where
  "write_snapshot bound sq [] f = f"
| "write_snapshot bound sq (r # rs) f =
     write_snapshot bound (sq + 1) rs (write_one bound (jr_type r) 1 (sq + 1) (jr_payload r) f)"

definition payload_total :: "JournalRecord list \<Rightarrow> u64" where
  "payload_total rs = of_nat (sum_list (map (\<lambda>r. length (jr_payload r)) rs))"

definition compaction_file ::
  "nat \<Rightarrow> JournalRecord list \<Rightarrow> IoOutcome list \<Rightarrow> CompactionFile" where
  "compaction_file bound rs io =
     (let f0 = \<lparr>cf_ok = True, cf_bytes = [], cf_io = io\<rparr>;
          f1 = write_one bound JT_FileHeader 0 0 journal_banner f0;
          f2 = write_one bound JT_TxnBegin 1 1 (put_u64 1) f1;
          f3 = write_snapshot bound 1 rs f2
      in write_one bound JT_TxnCommit 1 (of_nat (length rs) + 2)
           (commit_payload 1 (of_nat (length rs)) (payload_total rs)) f3)"

definition compact_with :: "JournalRecord list \<Rightarrow> Journal \<Rightarrow> JournalResult \<times> Journal" where
  "compact_with rs j =
     (if \<not> jn_open j then (journal_fail JournalStatus_NotOpen, j)
      else if jn_txn_open j then (journal_fail JournalStatus_TransactionOpen, j)
      else (case next_io j of
          (IoFail _, j1) \<Rightarrow> (journal_fail JournalStatus_IoError, j1)
        | (IoOk, j1) \<Rightarrow>
            let f = compaction_file (unat (jc_max_payload_bytes (jn_config j1))) rs (jn_io j1);
                j2 = j1\<lparr>jn_io := cf_io f\<rparr>
            in (case (if cf_ok f then durable_barrier j2 else (False, j2)) of
                (False, j3) \<Rightarrow> (journal_fail JournalStatus_IoError, j3)
              | (True, j3) \<Rightarrow>
                  (case next_io j3 of
                     (IoFail _, j4) \<Rightarrow>
                       (case next_io j4 of (reopened, j5) \<Rightarrow>
                          (journal_fail JournalStatus_IoError, j5\<lparr>jn_open := (reopened = IoOk)\<rparr>))
                   | (IoOk, j4) \<Rightarrow>
                       (case next_io (j4\<lparr>jn_file := cf_bytes f\<rparr>) of
                          (IoFail _, j5) \<Rightarrow>
                            (journal_fail JournalStatus_IoError, j5\<lparr>jn_open := False\<rparr>)
                        | (IoOk, j5) \<Rightarrow>
                            (journal_success (of_nat (length rs) + 2),
                             j5\<lparr>jn_size_bytes := of_nat (length (cf_bytes f)),
                                jn_last_sequence := of_nat (length rs) + 2,
                                jn_record_count := of_nat (length rs) + 3\<rparr>))))))"

section \<open>The scanner\<close>

record JournalScanResult =
  sc_ok :: bool
  sc_status :: JournalStatus
  sc_committed :: "JournalRecord list"
  sc_committed_transactions :: u64
  sc_discarded_uncommitted_records :: u64
  sc_discarded_truncated_bytes :: u64
  sc_last_sequence :: u64
  sc_truncated_tail :: bool
  sc_has_file_header :: bool

definition empty_scan :: JournalScanResult where
  "empty_scan =
     \<lparr>sc_ok = False, sc_status = JournalStatus_Ok, sc_committed = [],
      sc_committed_transactions = 0, sc_discarded_uncommitted_records = 0,
      sc_discarded_truncated_bytes = 0, sc_last_sequence = 0, sc_truncated_tail = False,
      sc_has_file_header = False\<rparr>"

text \<open>The loop state: the result so far, the open transaction's records and its id.\<close>

record ScanState =
  ss_result :: JournalScanResult
  ss_pending :: "JournalRecord list"
  ss_pending_txn :: u64
  ss_stop :: bool

definition scan_record :: "JournalRecord \<Rightarrow> ScanState \<Rightarrow> ScanState" where
  "scan_record r s =
     (let res = (if sc_last_sequence (ss_result s) < jr_sequence r
                 then (ss_result s)\<lparr>sc_last_sequence := jr_sequence r\<rparr> else ss_result s)
      in if jr_txn_id r = 0 then
           s\<lparr>ss_result := res\<lparr>sc_has_file_header :=
                 (sc_has_file_header res \<or> jr_type r = JT_FileHeader),
               sc_committed := sc_committed res @ [r]\<rparr>\<rparr>
         else if jr_type r = JT_TxnBegin then
           s\<lparr>ss_result := res, ss_pending := [], ss_pending_txn := jr_txn_id r\<rparr>
         else if jr_type r = JT_TxnCommit then
           (if jr_txn_id r \<noteq> ss_pending_txn s
            then s\<lparr>ss_result := res\<lparr>sc_status := JournalStatus_Corrupt\<rparr>, ss_stop := True\<rparr>
            else s\<lparr>ss_result := res\<lparr>sc_committed := sc_committed res @ ss_pending s,
                     sc_committed_transactions := sc_committed_transactions res + 1\<rparr>,
                   ss_pending := [], ss_pending_txn := 0\<rparr>)
         else if ss_pending_txn s = 0 then
           s\<lparr>ss_result := res\<lparr>sc_discarded_uncommitted_records :=
                 sc_discarded_uncommitted_records res + 1\<rparr>\<rparr>
         else s\<lparr>ss_result := res, ss_pending := ss_pending s @ [r]\<rparr>)"

definition kScanPayloadBound :: nat where
  "kScanPayloadBound = 4 * 1024 * 1024"

lemma decode_consumes:
  "decode_journal_record bs n = Inr (r, k) \<Longrightarrow> 36 \<le> k \<and> k \<le> length bs"
  by (auto simp: decode_journal_record_def Let_def kJournalRecordHeaderSize_def
      split: if_splits option.splits)

function scan_loop :: "bytes \<Rightarrow> ScanState \<Rightarrow> ScanState" where
  "scan_loop bs s =
     (if bs = [] \<or> ss_stop s then s
      else (case decode_journal_record bs kScanPayloadBound of
          Inl st \<Rightarrow>
            if st = JournalStatus_Truncated
            then s\<lparr>ss_result := (ss_result s)\<lparr>sc_truncated_tail := True,
                     sc_discarded_truncated_bytes :=
                       sc_discarded_truncated_bytes (ss_result s) + of_nat (length bs)\<rparr>\<rparr>
            else s\<lparr>ss_result := (ss_result s)\<lparr>sc_status := st\<rparr>\<rparr>
        | Inr (r, consumed) \<Rightarrow> scan_loop (drop consumed bs) (scan_record r s)))"
  by pat_completeness auto
termination
  by (relation "measure (\<lambda>(bs, s). length bs)") (auto dest!: decode_consumes)

declare scan_loop.simps [simp del]

definition scan_finish :: "ScanState \<Rightarrow> JournalScanResult" where
  "scan_finish s =
     (let res = ss_result s;
          res1 = (if ss_pending s \<noteq> [] then
                    res\<lparr>sc_discarded_uncommitted_records :=
                          sc_discarded_uncommitted_records res + of_nat (length (ss_pending s)),
                        sc_truncated_tail := True\<rparr>
                  else res)
      in if sc_status res1 = JournalStatus_Ok \<or> sc_status res1 = JournalStatus_Truncated
         then res1\<lparr>sc_ok := True\<rparr> else res1)"

definition scan_bytes :: "bytes \<Rightarrow> JournalScanResult" where
  "scan_bytes bs =
     scan_finish (scan_loop bs
       \<lparr>ss_result = empty_scan, ss_pending = [], ss_pending_txn = 0, ss_stop = False\<rparr>)"

text \<open>
  \<open>file\<close> is the content of a readable file; \<open>measured\<close> answers the seek to its end,
  \<open>rewound\<close> the seek to its start and \<open>got\<close> the read.
\<close>

definition scan_journal_file ::
  "bytes option \<Rightarrow> IoOutcome \<Rightarrow> IoOutcome \<Rightarrow> IoOutcome \<Rightarrow> JournalScanResult" where
  "scan_journal_file file measured rewound got =
     (case file of
        None \<Rightarrow> empty_scan\<lparr>sc_status := JournalStatus_IoError\<rparr>
      | Some bs \<Rightarrow>
          let size = (if measured = IoOk then length bs else 0)
          in if kJournalMaxScanBytes < size then empty_scan\<lparr>sc_status := JournalStatus_BoundsExceeded\<rparr>
             else if rewound \<noteq> IoOk then empty_scan\<lparr>sc_status := JournalStatus_IoError\<rparr>
             else if 0 < size \<and> got \<noteq> IoOk then empty_scan\<lparr>sc_status := JournalStatus_IoError\<rparr>
             else scan_bytes (take size bs))"

section \<open>Framing\<close>

lemma length_record_header [simp]: "length (record_header r) = 32"
  by (simp add: record_header_def)

definition frame_ok :: "nat \<Rightarrow> JournalRecord \<Rightarrow> bool" where
  "frame_ok bound r \<longleftrightarrow> length (jr_payload r) \<le> bound \<and> length (jr_payload r) \<le> kScanPayloadBound"

lemma frame_ok_small: "frame_ok bound r \<Longrightarrow> length (jr_payload r) \<le> 4194304"
  by (simp add: frame_ok_def kScanPayloadBound_def)

lemma encode_frame:
  "frame_ok bound r \<Longrightarrow> encode_journal_record r bound =
     record_header r @ put_u32 (crc32c_extend (crc32c (record_header r)) (jr_payload r)) @ jr_payload r"
  using frame_ok_small [of bound r]
  by (simp add: encode_journal_record_def frame_ok_def Let_def kHeaderWithoutCrc_def)

lemma length_frame [simp]:
  "frame_ok bound r \<Longrightarrow> length (encode_journal_record r bound) = 36 + length (jr_payload r)"
  by (simp add: encode_frame)

lemma frame_nonempty: "frame_ok bound r \<Longrightarrow> encode_journal_record r bound \<noteq> []"
  using length_frame [of bound r] by fastforce

lemma unat_payload_length:
  "frame_ok bound r \<Longrightarrow> unat (of_nat (length (jr_payload r)) :: u32) = length (jr_payload r)"
  using frame_ok_small [of bound r] by (simp add: unsigned_of_nat take_bit_nat_eq_self)

text \<open>The header fields of a frame, whatever follows the 36 header bytes.\<close>

lemma decode_header:
  assumes "frame_ok bound r"
  shows "decode_journal_record (record_header r @ put_u32 c @ rest) kScanPayloadBound =
    (if length rest < length (jr_payload r) then Inl JournalStatus_Truncated
     else if crc32c_extend (crc32c (record_header r)) (take (length (jr_payload r)) rest) \<noteq> c
     then Inl JournalStatus_Corrupt
     else Inr (r\<lparr>jr_payload := take (length (jr_payload r)) rest\<rparr>, 36 + length (jr_payload r)))"
proof -
  have t: "take 36 (record_header r @ put_u32 c @ rest) = record_header r @ put_u32 c"
    by simp
  have d: "drop 36 (record_header r @ put_u32 c @ rest) = rest"
    by simp
  have c32: "take 32 (record_header r @ put_u32 c @ rest) = record_header r"
    by simp
  have b: "\<not> kScanPayloadBound < length (jr_payload r)"
    using assms by (simp add: frame_ok_def)
  show ?thesis
    unfolding decode_journal_record_def kJournalRecordHeaderSize_def kHeaderWithoutCrc_def t d c32
    using b unat_payload_length [OF assms] get_put_u32 [of c "[]"]
    by (simp add: record_header_def Let_def)
qed

lemma decode_frame:
  assumes "frame_ok bound r"
  shows "decode_journal_record (encode_journal_record r bound @ rest) kScanPayloadBound
         = Inr (r, length (encode_journal_record r bound))"
  using assms decode_header [OF assms, of _ "jr_payload r @ rest"] by (simp add: encode_frame)

lemma decode_torn_frame:
  assumes "frame_ok bound r" "length p < length (encode_journal_record r bound)"
    "p = take (length p) (encode_journal_record r bound)"
  shows "decode_journal_record p kScanPayloadBound = Inl JournalStatus_Truncated"
proof (cases "length p < 36")
  case True
  then show ?thesis by (simp add: decode_journal_record_def kJournalRecordHeaderSize_def)
next
  case False
  define c where "c = crc32c_extend (crc32c (record_header r)) (jr_payload r)"
  define q where "q = take (length p - 36) (jr_payload r)"
  have p: "p = record_header r @ put_u32 c @ q"
    using assms(3) False by (simp add: encode_frame [OF assms(1)] c_def q_def)
  have "length q < length (jr_payload r)"
    using assms(1,2) False by (simp add: q_def)
  then show ?thesis
    unfolding p by (simp add: decode_header [OF assms(1)])
qed

section \<open>Scanning whole and torn logs\<close>

definition log_bytes :: "nat \<Rightarrow> JournalRecord list \<Rightarrow> bytes" where
  "log_bytes bound rs = concat (map (\<lambda>r. encode_journal_record r bound) rs)"

lemma log_bytes_simps [simp]:
  "log_bytes bound [] = []"
  "log_bytes bound (r # rs) = encode_journal_record r bound @ log_bytes bound rs"
  "log_bytes bound (rs @ ss) = log_bytes bound rs @ log_bytes bound ss"
  by (simp_all add: log_bytes_def)

primrec scan_records :: "JournalRecord list \<Rightarrow> ScanState \<Rightarrow> ScanState" where
  "scan_records [] s = s"
| "scan_records (r # rs) s = (if ss_stop s then s else scan_records rs (scan_record r s))"

lemma scan_records_stop [simp]: "ss_stop s \<Longrightarrow> scan_records rs s = s"
  by (cases rs) auto

lemma scan_records_append: "scan_records (rs @ ss) s = scan_records ss (scan_records rs s)"
  by (induction rs arbitrary: s) auto

lemma scan_loop_stop: "ss_stop s \<Longrightarrow> scan_loop bs s = s"
  by (simp add: scan_loop.simps)

lemma scan_loop_Nil [simp]: "scan_loop [] s = s"
  by (simp add: scan_loop.simps)

lemma scan_loop_frames:
  assumes "list_all (frame_ok bound) rs"
  shows "scan_loop (log_bytes bound rs @ tail) s = scan_loop tail (scan_records rs s)"
  using assms
proof (induction rs arbitrary: s)
  case (Cons r rs)
  show ?case
  proof (cases "ss_stop s")
    case True
    then show ?thesis by (simp add: scan_loop_stop)
  next
    case False
    have ne: "encode_journal_record r bound \<noteq> []"
      using Cons.prems frame_nonempty [of bound r] by simp
    have "decode_journal_record (log_bytes bound (r # rs) @ tail) kScanPayloadBound
        = Inr (r, length (encode_journal_record r bound))"
      using Cons.prems decode_frame [of bound r "log_bytes bound rs @ tail"] by simp
    then have "scan_loop (log_bytes bound (r # rs) @ tail) s
        = scan_loop (log_bytes bound rs @ tail) (scan_record r s)"
      using ne False by (subst scan_loop.simps) simp
    then show ?thesis using Cons False by simp
  qed
qed simp

lemma scan_loop_torn:
  assumes "frame_ok bound r" "length p < length (encode_journal_record r bound)"
    "p = take (length p) (encode_journal_record r bound)" "p \<noteq> []"
  shows "scan_loop p s =
    (if ss_stop s then s
     else s\<lparr>ss_result := (ss_result s)\<lparr>sc_truncated_tail := True,
              sc_discarded_truncated_bytes :=
                sc_discarded_truncated_bytes (ss_result s) + of_nat (length p)\<rparr>\<rparr>)"
  using decode_torn_frame [OF assms(1-3)] assms(4) by (subst scan_loop.simps) simp

section \<open>Transactions on disk\<close>

text \<open>
  The log as a sequence of items: records that commit themselves, transactions with
  their commit record, and transactions that were begun and never committed.
\<close>

datatype LogItem =
    LogSelf JournalRecord
  | LogTxn JournalRecord "JournalRecord list" JournalRecord
  | LogOpen JournalRecord "JournalRecord list"

fun item_records :: "LogItem \<Rightarrow> JournalRecord list" where
  "item_records (LogSelf r) = [r]"
| "item_records (LogTxn b body c) = b # body @ [c]"
| "item_records (LogOpen b body) = b # body"

fun item_committed :: "LogItem \<Rightarrow> JournalRecord list" where
  "item_committed (LogSelf r) = [r]"
| "item_committed (LogTxn b body c) = body"
| "item_committed (LogOpen b body) = []"

definition body_record :: "u64 \<Rightarrow> JournalRecord \<Rightarrow> bool" where
  "body_record t r \<longleftrightarrow> jr_txn_id r = t \<and> jr_type r \<noteq> JT_TxnBegin \<and> jr_type r \<noteq> JT_TxnCommit"

definition begin_record :: "JournalRecord \<Rightarrow> bool" where
  "begin_record r \<longleftrightarrow> jr_txn_id r \<noteq> 0 \<and> jr_type r = JT_TxnBegin"

fun item_ok :: "LogItem \<Rightarrow> bool" where
  "item_ok (LogSelf r) \<longleftrightarrow> jr_txn_id r = 0"
| "item_ok (LogTxn b body c) \<longleftrightarrow>
     begin_record b \<and> list_all (body_record (jr_txn_id b)) body
     \<and> jr_type c = JT_TxnCommit \<and> jr_txn_id c = jr_txn_id b"
| "item_ok (LogOpen b body) \<longleftrightarrow> begin_record b \<and> list_all (body_record (jr_txn_id b)) body"

definition items_bytes :: "nat \<Rightarrow> LogItem list \<Rightarrow> bytes" where
  "items_bytes bound its = log_bytes bound (concat (map item_records its))"

definition items_ok :: "nat \<Rightarrow> LogItem list \<Rightarrow> bool" where
  "items_ok bound its \<longleftrightarrow>
     list_all item_ok its \<and> list_all (\<lambda>i. list_all (frame_ok bound) (item_records i)) its"

definition committed_of :: "LogItem list \<Rightarrow> JournalRecord list" where
  "committed_of its = concat (map item_committed its)"

definition scan_good :: "ScanState \<Rightarrow> bool" where
  "scan_good s \<longleftrightarrow> \<not> ss_stop s \<and> sc_status (ss_result s) = JournalStatus_Ok"

definition scan_commits :: "ScanState \<Rightarrow> JournalRecord list" where
  "scan_commits s = sc_committed (ss_result s)"

lemmas scan_state_defs = scan_good_def scan_commits_def scan_record_def Let_def

lemma scan_begin:
  assumes "scan_good s" "begin_record b"
  shows "scan_good (scan_record b s)" "scan_commits (scan_record b s) = scan_commits s"
    "ss_pending (scan_record b s) = []" "ss_pending_txn (scan_record b s) = jr_txn_id b"
  using assms by (auto simp: scan_state_defs begin_record_def)

lemma scan_body:
  assumes "scan_good s" "list_all (body_record t) rs" "ss_pending_txn s = t" "t \<noteq> 0"
  shows "scan_good (scan_records rs s) \<and> scan_commits (scan_records rs s) = scan_commits s
    \<and> ss_pending (scan_records rs s) = ss_pending s @ rs \<and> ss_pending_txn (scan_records rs s) = t"
  using assms
proof (induction rs arbitrary: s)
  case (Cons r rs)
  have "scan_good (scan_record r s)" "scan_commits (scan_record r s) = scan_commits s"
    "ss_pending (scan_record r s) = ss_pending s @ [r]" "ss_pending_txn (scan_record r s) = t"
    using Cons.prems by (auto simp: scan_state_defs body_record_def)
  then show ?case using Cons.IH [of "scan_record r s"] Cons.prems by (simp add: scan_good_def)
qed simp

lemma scan_commit:
  assumes "scan_good s" "jr_type c = JT_TxnCommit" "jr_txn_id c = ss_pending_txn s"
    "jr_txn_id c \<noteq> 0"
  shows "scan_good (scan_record c s)" "scan_commits (scan_record c s) = scan_commits s @ ss_pending s"
  using assms by (auto simp: scan_state_defs)

lemma scan_item:
  assumes "scan_good s" "item_ok it"
  shows "scan_good (scan_records (item_records it) s)
    \<and> scan_commits (scan_records (item_records it) s) = scan_commits s @ item_committed it"
proof (cases it)
  case (LogSelf r)
  then show ?thesis using assms by (auto simp: scan_state_defs)
next
  case (LogTxn b body c)
  let ?s1 = "scan_record b s"
  have b: "begin_record b" "list_all (body_record (jr_txn_id b)) body" "jr_type c = JT_TxnCommit"
    "jr_txn_id c = jr_txn_id b" "jr_txn_id b \<noteq> 0"
    using assms(2) LogTxn by (auto simp: begin_record_def)
  note s1 = scan_begin [OF assms(1) b(1)]
  note s2 = scan_body [OF s1(1) b(2) s1(4) b(5)]
  have "scan_good (scan_record c (scan_records body ?s1))
      \<and> scan_commits (scan_record c (scan_records body ?s1)) = scan_commits s @ body"
    using scan_commit [of "scan_records body ?s1" c] s1 s2 b by simp
  then show ?thesis
    using LogTxn assms(1) s2 by (simp add: scan_good_def scan_records_append)
next
  case (LogOpen b body)
  have b: "begin_record b" "list_all (body_record (jr_txn_id b)) body" "jr_txn_id b \<noteq> 0"
    using assms(2) LogOpen by (auto simp: begin_record_def)
  note s1 = scan_begin [OF assms(1) b(1)]
  show ?thesis
    using LogOpen assms(1) scan_body [OF s1(1) b(2) s1(4) b(3)] s1 by (simp add: scan_good_def)
qed

text \<open>Inside an item nothing new is committed.\<close>

lemma scan_item_partial:
  assumes "scan_good s" "item_ok it" "k < length (item_records it)"
  shows "scan_good (scan_records (take k (item_records it)) s)
    \<and> scan_commits (scan_records (take k (item_records it)) s) = scan_commits s"
proof -
  have part: "scan_good (scan_records (take m (b # body)) s)
      \<and> scan_commits (scan_records (take m (b # body)) s) = scan_commits s"
    if "begin_record b" "list_all (body_record (jr_txn_id b)) body" for b body m
  proof (cases m)
    case (Suc m')
    note s1 = scan_begin [OF assms(1) that(1)]
    have "list_all (body_record (jr_txn_id b)) (take m' body)"
      using that(2) by (auto simp: list_all_iff dest: in_set_takeD)
    from scan_body [OF s1(1) this s1(4)] that(1) s1 show ?thesis
      using Suc assms(1) by (simp add: begin_record_def scan_good_def)
  qed (simp add: assms(1))
  show ?thesis
  proof (cases it)
    case (LogTxn b body c)
    then have "take k (item_records it) = take k (b # body)"
      using assms(3) by (cases k) auto
    then show ?thesis using part [of b body k] assms(2) LogTxn by (simp del: take_Suc_Cons)
  next
    case (LogOpen b body)
    then show ?thesis using part [of b body k] assms(2) by simp
  qed (use assms in simp)
qed

lemma torn_log:
  assumes "list_all (frame_ok bound) rs" "n < length (log_bytes bound rs)"
  shows "\<exists>k < length rs. \<exists>q. take n (log_bytes bound rs) = log_bytes bound (take k rs) @ q
    \<and> length q < length (encode_journal_record (rs ! k) bound)
    \<and> q = take (length q) (encode_journal_record (rs ! k) bound)"
  using assms
proof (induction rs arbitrary: n)
  case (Cons r rs)
  let ?e = "encode_journal_record r bound"
  show ?case
  proof (cases "n < length ?e")
    case True
    then show ?thesis by (intro exI [of _ 0]) auto
  next
    case False
    then have "n - length ?e < length (log_bytes bound rs)" using Cons.prems by auto
    with Cons.IH [of "n - length ?e"] Cons.prems(1)
    obtain k q where "k < length rs"
      "take (n - length ?e) (log_bytes bound rs) = log_bytes bound (take k rs) @ q"
      "length q < length (encode_journal_record (rs ! k) bound)"
      "q = take (length q) (encode_journal_record (rs ! k) bound)"
      by auto
    then show ?thesis using False by (intro exI [of _ "Suc k"]) auto
  qed
qed simp

lemma scan_torn_item:
  assumes "scan_good s" "item_ok it" "list_all (frame_ok bound) (item_records it)"
    "n < length (log_bytes bound (item_records it))"
  defines "s' \<equiv> scan_loop (take n (log_bytes bound (item_records it))) s"
  shows "scan_good s' \<and> scan_commits s' = scan_commits s"
proof -
  obtain k q where k: "k < length (item_records it)"
    "take n (log_bytes bound (item_records it)) = log_bytes bound (take k (item_records it)) @ q"
    "length q < length (encode_journal_record (item_records it ! k) bound)"
    "q = take (length q) (encode_journal_record (item_records it ! k) bound)"
    using torn_log [OF assms(3,4)] by blast
  let ?s = "scan_records (take k (item_records it)) s"
  have fk: "frame_ok bound (item_records it ! k)"
    "list_all (frame_ok bound) (take k (item_records it))"
    using assms(3) k(1) by (auto simp: list_all_iff dest: in_set_takeD)
  have s': "s' = scan_loop q ?s"
    unfolding s'_def k(2) by (rule scan_loop_frames [OF fk(2)])
  note part = scan_item_partial [OF assms(1,2) k(1)]
  show ?thesis
    using part scan_loop_torn [OF fk(1) k(3,4)] unfolding s'
    by (cases "q = []") (auto simp: scan_good_def scan_commits_def)
qed

lemma items_bytes_simps [simp]:
  "items_bytes bound [] = []"
  "items_bytes bound (it # its) = log_bytes bound (item_records it) @ items_bytes bound its"
  by (simp_all add: items_bytes_def)

lemma scan_torn_items:
  assumes "scan_good s" "items_ok bound its"
  defines "s' n \<equiv> scan_loop (take n (items_bytes bound its)) s"
  shows "\<exists>j \<le> length its. scan_good (s' n)
    \<and> scan_commits (s' n) = scan_commits s @ committed_of (take j its)
    \<and> (j = length its \<or> n < length (items_bytes bound (take (Suc j) its)))
    \<and> (length (items_bytes bound (take j its)) \<le> n)"
  using assms(1,2) unfolding s'_def
proof (induction its arbitrary: s n)
  case Nil
  then show ?case by (simp add: committed_of_def)
next
  case (Cons it its)
  let ?b = "log_bytes bound (item_records it)"
  have ok: "item_ok it" "list_all (frame_ok bound) (item_records it)" "items_ok bound its"
    using Cons.prems by (auto simp: items_ok_def)
  show ?case
  proof (cases "n < length ?b")
    case True
    then show ?thesis
      using scan_torn_item [OF Cons.prems(1) ok(1,2) True]
      by (intro exI [of _ 0]) (simp add: committed_of_def)
  next
    case False
    then have t: "take n (items_bytes bound (it # its)) = ?b @ take (n - length ?b) (items_bytes bound its)"
      by simp
    note s1 = scan_item [OF Cons.prems(1) ok(1)]
    obtain j where j: "j \<le> length its"
      "scan_good (scan_loop (take (n - length ?b) (items_bytes bound its))
         (scan_records (item_records it) s))"
      "scan_commits (scan_loop (take (n - length ?b) (items_bytes bound its))
         (scan_records (item_records it) s))
       = scan_commits (scan_records (item_records it) s) @ committed_of (take j its)"
      "j = length its \<or> n - length ?b < length (items_bytes bound (take (Suc j) its))"
      "length (items_bytes bound (take j its)) \<le> n - length ?b"
      using Cons.IH [of "scan_records (item_records it) s" "n - length ?b"] s1 ok(3) by auto
    show ?thesis
      using j s1 False unfolding t scan_loop_frames [OF ok(2)]
      by (intro exI [of _ "Suc j"]) (auto simp: committed_of_def)
  qed
qed

lemma scan_bytes_good:
  assumes "scan_good (scan_loop bs
      \<lparr>ss_result = empty_scan, ss_pending = [], ss_pending_txn = 0, ss_stop = False\<rparr>)"
  shows "sc_ok (scan_bytes bs)"
    "sc_committed (scan_bytes bs) = scan_commits (scan_loop bs
      \<lparr>ss_result = empty_scan, ss_pending = [], ss_pending_txn = 0, ss_stop = False\<rparr>)"
  using assms by (auto simp: scan_bytes_def scan_finish_def Let_def scan_good_def scan_commits_def)

section \<open>What the writer leaves on disk\<close>

text \<open>The loop of an engine commit: append every staged record, stop at the first failure.\<close>

type_synonym StagedRecords = "(JournalRecordType \<times> bytes) list"

primrec append_all :: "StagedRecords \<Rightarrow> JournalResult \<Rightarrow> Journal \<Rightarrow> JournalResult \<times> Journal" where
  "append_all [] res j = (res, j)"
| "append_all (r # rs) res j =
     (case journal_append (fst r) (snd r) j of (res1, j1) \<Rightarrow>
        if jres_ok res1 then append_all rs res1 j1 else (res1, j1))"

text \<open>The records that a committed transaction writes, from a given sequence number.\<close>

primrec staged_frames :: "u64 \<Rightarrow> u64 \<Rightarrow> StagedRecords \<Rightarrow> JournalRecord list" where
  "staged_frames txn sq [] = []"
| "staged_frames txn sq (r # rs) =
     \<lparr>jr_type = fst r, jr_sequence = sq + 1, jr_txn_id = txn, jr_payload = snd r\<rparr>
     # staged_frames txn (sq + 1) rs"

abbreviation journal_bound :: "Journal \<Rightarrow> nat" where
  "journal_bound j \<equiv> unat (jc_max_payload_bytes (jn_config j))"

lemma next_io_frame [simp]:
  "next_io j = (r, j1) \<Longrightarrow> jn_config j1 = jn_config j \<and> jn_open j1 = jn_open j \<and> jn_file j1 = jn_file j
     \<and> jn_size_bytes j1 = jn_size_bytes j \<and> jn_last_sequence j1 = jn_last_sequence j
     \<and> jn_record_count j1 = jn_record_count j \<and> jn_txn_id j1 = jn_txn_id j
     \<and> jn_txn_open j1 = jn_txn_open j \<and> jn_txn_record_count j1 = jn_txn_record_count j
     \<and> jn_txn_bytes j1 = jn_txn_bytes j"
  by (auto simp: next_io_def split: list.splits)

lemma write_record_ok:
  assumes "write_record t txn payload j = (res, j1)" "jres_ok res"
  shows "jn_file j1 = jn_file j @ encode_journal_record
           \<lparr>jr_type = t, jr_sequence = jn_last_sequence j + 1, jr_txn_id = txn,
            jr_payload = payload\<rparr> (journal_bound j)"
    and "jn_last_sequence j1 = jn_last_sequence j + 1" "jn_config j1 = jn_config j"
    "jn_open j1" "jn_txn_id j1 = jn_txn_id j" "jn_txn_open j1 = jn_txn_open j"
    "length payload \<le> journal_bound j"
  using assms
  by (auto simp: write_record_def write_all_def Let_def journal_fail_def journal_success_def not_less
      split: if_splits prod.splits IoOutcome.splits)

text \<open>
  What a sequence of writes may leave behind: some of the records it was to write,
  each within the payload bound, the last of them possibly torn.
\<close>

definition payload_ok :: "nat \<Rightarrow> JournalRecord \<Rightarrow> bool" where
  "payload_ok bound r \<longleftrightarrow> length (jr_payload r) \<le> bound"

definition torn_write :: "nat \<Rightarrow> JournalRecord list \<Rightarrow> bytes \<Rightarrow> bool" where
  "torn_write bound rs bs \<longleftrightarrow>
     (\<exists>k n. k \<le> length rs \<and> list_all (payload_ok bound) (take k rs)
        \<and> bs = take n (log_bytes bound (take k rs)))"

definition full_write :: "nat \<Rightarrow> JournalRecord list \<Rightarrow> bytes \<Rightarrow> bool" where
  "full_write bound rs bs \<longleftrightarrow> list_all (payload_ok bound) rs \<and> bs = log_bytes bound rs"

lemma torn_write_Nil [simp]: "torn_write bound rs []"
  unfolding torn_write_def by (intro exI [of _ 0]) simp

lemma full_write_torn: "full_write bound rs bs \<Longrightarrow> torn_write bound (rs @ ss) bs"
  unfolding torn_write_def full_write_def
  by (intro exI [of _ "length rs"] exI [of _ "length bs"]) simp

lemma full_then_torn:
  assumes "full_write bound rs bs" "torn_write bound ss cs"
  shows "torn_write bound (rs @ ss) (bs @ cs)"
proof -
  obtain k n where "k \<le> length ss" "list_all (payload_ok bound) (take k ss)"
    "cs = take n (log_bytes bound (take k ss))"
    using assms(2) unfolding torn_write_def by blast
  then show ?thesis
    using assms(1) unfolding torn_write_def full_write_def
    by (intro exI [of _ "length rs + k"] exI [of _ "length bs + n"]) simp
qed

lemma full_then_full:
  "full_write bound rs bs \<Longrightarrow> full_write bound ss cs \<Longrightarrow> full_write bound (rs @ ss) (bs @ cs)"
  by (simp add: full_write_def)

lemma torn_write_mono: "torn_write bound rs bs \<Longrightarrow> torn_write bound (rs @ ss) bs"
  unfolding torn_write_def
  by (metis append_Nil2 le_add1 le_trans length_append take_append take_0 diff_is_0_eq)

abbreviation next_frame :: "JournalRecordType \<Rightarrow> u64 \<Rightarrow> bytes \<Rightarrow> Journal \<Rightarrow> JournalRecord" where
  "next_frame t txn payload j \<equiv>
     \<lparr>jr_type = t, jr_sequence = jn_last_sequence j + 1, jr_txn_id = txn, jr_payload = payload\<rparr>"

lemma write_record_full:
  assumes "write_record t txn payload j = (res, j1)" "jres_ok res"
  shows "\<exists>bs. jn_file j1 = jn_file j @ bs \<and> full_write (journal_bound j) [next_frame t txn payload j] bs"
  using write_record_ok [OF assms] by (simp add: full_write_def payload_ok_def)

lemma write_record_torn:
  assumes "write_record t txn payload j = (res, j1)"
  shows "\<exists>bs. jn_file j1 = jn_file j @ bs \<and> torn_write (journal_bound j) [next_frame t txn payload j] bs"
proof (cases "jres_ok res")
  case True
  then show ?thesis
    using write_record_full [OF assms] full_write_torn [of _ _ _ "[]"] by fastforce
next
  case False
  then consider "jn_file j1 = jn_file j"
    | n where "length payload \<le> journal_bound j"
      "jn_file j1 = jn_file j @ take n (encode_journal_record (next_frame t txn payload j) (journal_bound j))"
    using assms
    by (auto simp: write_record_def write_all_def Let_def journal_fail_def journal_success_def not_less
        split: if_splits prod.splits IoOutcome.splits)
  then show ?thesis
  proof cases
    case (2 n)
    then show ?thesis
      unfolding torn_write_def
      by (intro exI [of _ "take n (encode_journal_record (next_frame t txn payload j) (journal_bound j))"]
          conjI exI [of _ 1] exI [of _ n]) (simp_all add: payload_ok_def)
  qed simp
qed

lemma append_all_ok:
  assumes "append_all rs res0 j = (res, j1)" "jres_ok res" "jn_txn_open j"
  shows "jn_file j1 = jn_file j @ log_bytes (journal_bound j)
           (staged_frames (jn_txn_id j) (jn_last_sequence j) rs)
    \<and> jn_config j1 = jn_config j \<and> jn_txn_id j1 = jn_txn_id j \<and> jn_txn_open j1
    \<and> jn_last_sequence j1 = jn_last_sequence j + of_nat (length rs)
    \<and> list_all (\<lambda>r. length (snd r) \<le> journal_bound j) rs"
  using assms
proof (induction rs arbitrary: res0 j)
  case (Cons r rs)
  obtain res2 j2 where a: "journal_append (fst r) (snd r) j = (res2, j2)" by force
  have ok2: "jres_ok res2" using Cons.prems a by (auto split: if_splits)
  then obtain j3 where w: "write_record (fst r) (jn_txn_id j) (snd r) j = (res2, j3)"
    and j2: "jn_file j2 = jn_file j3" "jn_config j2 = jn_config j3" "jn_txn_id j2 = jn_txn_id j3"
      "jn_txn_open j2 = jn_txn_open j3" "jn_last_sequence j2 = jn_last_sequence j3"
    using a Cons.prems(3)
    by (auto simp: journal_append_def journal_fail_def split: if_splits prod.splits)
  note wr = write_record_ok [OF w ok2]
  have "append_all rs res2 j2 = (res, j1)" using Cons.prems(1) a ok2 by simp
  from Cons.IH [OF this Cons.prems(2)] show ?case
    using wr j2 Cons.prems(3) by (simp add: algebra_simps)
qed simp

lemma staged_payload_ok:
  "list_all (\<lambda>r. length (snd r) \<le> bound) rs \<Longrightarrow>
     list_all (payload_ok bound) (staged_frames txn sq rs)"
  by (induction rs arbitrary: sq) (auto simp: payload_ok_def)

lemma append_all_torn:
  assumes "append_all rs res0 j = (res, j1)" "jn_txn_open j"
  shows "\<exists>bs. jn_file j1 = jn_file j @ bs
    \<and> torn_write (journal_bound j) (staged_frames (jn_txn_id j) (jn_last_sequence j) rs) bs"
  using assms
proof (induction rs arbitrary: res0 j)
  case (Cons r rs)
  obtain res2 j2 where a: "journal_append (fst r) (snd r) j = (res2, j2)" by force
  show ?case
  proof (cases "jres_ok res2")
    case True
    obtain j3 where w: "write_record (fst r) (jn_txn_id j) (snd r) j = (res2, j3)"
      and j2: "jn_file j2 = jn_file j3" "jn_config j2 = jn_config j3" "jn_txn_id j2 = jn_txn_id j3"
        "jn_txn_open j2 = jn_txn_open j3" "jn_last_sequence j2 = jn_last_sequence j3"
      using a Cons.prems(2) True
      by (auto simp: journal_append_def journal_fail_def split: if_splits prod.splits)
    note wr = write_record_ok [OF w True]
    obtain bs where bs: "jn_file j3 = jn_file j @ bs"
      "full_write (journal_bound j) [next_frame (fst r) (jn_txn_id j) (snd r) j] bs"
      using write_record_full [OF w True] by blast
    have "append_all rs res2 j2 = (res, j1)" using Cons.prems(1) a True by simp
    from Cons.IH [OF this] wr j2 Cons.prems(2) obtain cs where
      "jn_file j1 = jn_file j2 @ cs"
      "torn_write (journal_bound j) (staged_frames (jn_txn_id j) (jn_last_sequence j + 1) rs) cs"
      by auto
    then show ?thesis
      using full_then_torn [OF bs(2)] bs(1) j2 by (intro exI [of _ "bs @ cs"]) simp
  next
    case False
    then have j1: "j1 = j2" using Cons.prems(1) a by simp
    have "\<exists>bs. jn_file j2 = jn_file j @ bs
        \<and> torn_write (journal_bound j) [next_frame (fst r) (jn_txn_id j) (snd r) j] bs"
      using a Cons.prems(2) False write_record_torn [of "fst r" "jn_txn_id j" "snd r" j]
      by (auto simp: journal_append_def journal_fail_def split: if_splits prod.splits)
    then obtain bs where "jn_file j2 = jn_file j @ bs"
      "torn_write (journal_bound j) [next_frame (fst r) (jn_txn_id j) (snd r) j] bs" by blast
    then show ?thesis
      using torn_write_mono [of _ "[next_frame (fst r) (jn_txn_id j) (snd r) j]"] j1 by fastforce
  qed
qed simp

section \<open>A transaction as the engine runs it\<close>

definition journal_transaction :: "u64 \<Rightarrow> StagedRecords \<Rightarrow> Journal \<Rightarrow> JournalResult \<times> Journal" where
  "journal_transaction txn rs j =
     (case journal_begin txn j of (res, j1) \<Rightarrow>
        if \<not> jres_ok res then (res, snd (journal_rollback j1))
        else (case append_all rs res j1 of (res2, j2) \<Rightarrow>
            if \<not> jres_ok res2 then (res2, snd (journal_rollback j2))
            else journal_commit j2))"

definition transaction_frames :: "u64 \<Rightarrow> StagedRecords \<Rightarrow> Journal \<Rightarrow> JournalRecord list" where
  "transaction_frames txn rs j =
     [next_frame JT_TxnBegin txn (put_u64 txn) j]
     @ staged_frames txn (jn_last_sequence j + 1) rs"

lemma rollback_file [simp]: "jn_file (snd (journal_rollback j)) = jn_file j"
  by (simp add: journal_rollback_def)

lemma barrier_file: "durable_barrier j = (b, j1) \<Longrightarrow> jn_file j1 = jn_file j"
  by (auto simp: durable_barrier_def split: prod.splits)

lemma journal_begin_ok:
  assumes "journal_begin txn j = (res, j1)" "jres_ok res"
  shows "\<exists>bs. jn_file j1 = jn_file j @ bs
      \<and> full_write (journal_bound j) [next_frame JT_TxnBegin txn (put_u64 txn) j] bs
      \<and> jn_config j1 = jn_config j \<and> jn_last_sequence j1 = jn_last_sequence j + 1
      \<and> jn_txn_open j1 \<and> jn_txn_id j1 = txn \<and> txn \<noteq> 0"
proof -
  obtain r0 j0 where w: "write_record JT_TxnBegin txn (put_u64 txn) j = (r0, j0)" by force
  have r0: "res = r0" "jres_ok r0" "txn \<noteq> 0"
    "j1 = j0\<lparr>jn_txn_id := txn, jn_txn_open := True, jn_txn_record_count := 0, jn_txn_bytes := 0\<rparr>"
    using assms w by (auto simp: journal_begin_def journal_fail_def split: if_splits)
  show ?thesis
    using write_record_full [OF w r0(2)] write_record_ok(2,3) [OF w r0(2)] r0(3,4) by simp
qed

lemma journal_begin_torn:
  assumes "journal_begin txn j = (res, j1)"
  shows "\<exists>bs. jn_file j1 = jn_file j @ bs
      \<and> torn_write (journal_bound j) [next_frame JT_TxnBegin txn (put_u64 txn) j] bs"
proof (cases "jn_file j1 = jn_file j")
  case True
  then show ?thesis by (intro exI [of _ "[]"]) simp
next
  case False
  obtain r0 j0 where w: "write_record JT_TxnBegin txn (put_u64 txn) j = (r0, j0)" by force
  then have "jn_file j1 = jn_file j0"
    using assms False by (auto simp: journal_begin_def split: if_splits)
  then show ?thesis using write_record_torn [OF w] by simp
qed

lemma journal_commit_file:
  assumes "journal_commit j = (res, j1)"
  shows "\<exists>c bs. jr_type c = JT_TxnCommit \<and> jr_txn_id c = jn_txn_id j \<and> jn_file j1 = jn_file j @ bs
      \<and> torn_write (journal_bound j) [c] bs
      \<and> (jres_ok res \<longrightarrow> full_write (journal_bound j) [c] bs \<and> \<not> jn_txn_open j1)"
proof -
  let ?p = "commit_payload (jn_txn_id j) (jn_txn_record_count j) (jn_txn_bytes j)"
  let ?c = "next_frame JT_TxnCommit (jn_txn_id j) ?p j"
  obtain res0 j0 where w: "write_record JT_TxnCommit (jn_txn_id j) ?p j = (res0, j0)" by force
  have "\<exists>bs. jn_file j1 = jn_file j @ bs \<and> torn_write (journal_bound j) [?c] bs
      \<and> (jres_ok res \<longrightarrow> full_write (journal_bound j) [?c] bs \<and> \<not> jn_txn_open j1)"
  proof (cases "jn_open j \<and> jn_txn_open j \<and> jres_ok res0")
    case True
    obtain bs where bs: "jn_file j0 = jn_file j @ bs" "full_write (journal_bound j) [?c] bs"
      using write_record_full [OF w] True by blast
    have "jn_file j1 = jn_file j0" "jres_ok res \<longrightarrow> \<not> jn_txn_open j1"
      using assms w True
      by (auto simp: journal_commit_def journal_fail_def dest: barrier_file
          split: if_splits prod.splits bool.splits)
    then show ?thesis using bs full_write_torn [of _ "[?c]" bs "[]"] by auto
  next
    case False
    have "\<not> jres_ok res"
      using assms w False by (auto simp: journal_commit_def journal_fail_def split: if_splits)
    moreover have "jn_file j1 = jn_file j0 \<or> jn_file j1 = jn_file j"
      using assms w False by (auto simp: journal_commit_def split: if_splits)
    moreover obtain bs where "jn_file j0 = jn_file j @ bs" "torn_write (journal_bound j) [?c] bs"
      using write_record_torn [OF w] by blast
    ultimately show ?thesis by auto
  qed
  then show ?thesis by (intro exI [of _ ?c]) simp
qed

text \<open>Either the transaction is complete on disk, or what is there has no commit record in full.\<close>

lemma journal_transaction_file:
  assumes "journal_transaction txn rs j = (res, j1)" "txn \<noteq> 0"
  shows "\<exists>c bs. jr_type c = JT_TxnCommit \<and> jr_txn_id c = txn \<and> jn_file j1 = jn_file j @ bs
      \<and> torn_write (journal_bound j) (transaction_frames txn rs j @ [c]) bs
      \<and> (jres_ok res \<longrightarrow> full_write (journal_bound j) (transaction_frames txn rs j @ [c]) bs
           \<and> \<not> jn_txn_open j1)"
proof -
  obtain r1 j2 where b: "journal_begin txn j = (r1, j2)" by force
  let ?b = "next_frame JT_TxnBegin txn (put_u64 txn) j"
  define dummy where "dummy = \<lparr>jr_type = JT_TxnCommit, jr_sequence = 0, jr_txn_id = txn, jr_payload = []\<rparr>"
  show ?thesis
  proof (cases "jres_ok r1")
    case False
    then have "res = r1" "jn_file j1 = jn_file j2"
      using assms(1) b by (auto simp: journal_transaction_def)
    moreover obtain bs where "jn_file j2 = jn_file j @ bs" "torn_write (journal_bound j) [?b] bs"
      using journal_begin_torn [OF b] by blast
    ultimately show ?thesis
      using False torn_write_mono [of _ "[?b]" bs "staged_frames txn (jn_last_sequence j + 1) rs @ [dummy]"]
      by (intro exI [of _ dummy] exI [of _ bs]) (simp add: transaction_frames_def dummy_def)
  next
    case True
    obtain bs where bs: "jn_file j2 = jn_file j @ bs" "full_write (journal_bound j) [?b] bs"
      "jn_config j2 = jn_config j" "jn_last_sequence j2 = jn_last_sequence j + 1"
      "jn_txn_open j2" "jn_txn_id j2 = txn"
      using journal_begin_ok [OF b True] by blast
    obtain r2 j3 where a: "append_all rs r1 j2 = (r2, j3)" by force
    show ?thesis
    proof (cases "jres_ok r2")
      case False
      then have "res = r2" "jn_file j1 = jn_file j3"
        using assms(1) b True a by (auto simp: journal_transaction_def)
      moreover obtain cs where "jn_file j3 = jn_file j2 @ cs"
        "torn_write (journal_bound j) (staged_frames txn (jn_last_sequence j + 1) rs) cs"
        using append_all_torn [OF a bs(5)] bs by auto
      ultimately show ?thesis
        using False bs(1) full_then_torn [OF bs(2) torn_write_mono [of _ _ cs "[dummy]"]]
        by (intro exI [of _ dummy] exI [of _ "bs @ cs"]) (simp add: transaction_frames_def dummy_def)
    next
      case True
      have j3: "jn_file j3 = jn_file j2 @ log_bytes (journal_bound j)
           (staged_frames txn (jn_last_sequence j + 1) rs)" "jn_config j3 = jn_config j"
        "jn_txn_id j3 = txn"
        using append_all_ok [OF a True bs(5)] bs by auto
      have st: "full_write (journal_bound j) (staged_frames txn (jn_last_sequence j + 1) rs)
          (log_bytes (journal_bound j) (staged_frames txn (jn_last_sequence j + 1) rs))"
        using append_all_ok [OF a True bs(5)] bs staged_payload_ok by (auto simp: full_write_def)
      have "journal_commit j3 = (res, j1)"
        using assms(1) b \<open>jres_ok r1\<close> a True by (simp add: journal_transaction_def)
      from journal_commit_file [OF this] obtain c ds where
        "jr_type c = JT_TxnCommit" "jr_txn_id c = txn" "jn_file j1 = jn_file j3 @ ds"
        "torn_write (journal_bound j) [c] ds"
        "jres_ok res \<longrightarrow> full_write (journal_bound j) [c] ds \<and> \<not> jn_txn_open j1"
        using j3 by auto
      moreover note f = full_then_full [OF bs(2) st]
      ultimately show ?thesis
        using bs(1) j3(1) full_then_torn [OF f] full_then_full [OF f]
        by (intro exI [of _ c] exI [of _ "bs @ log_bytes (journal_bound j)
           (staged_frames txn (jn_last_sequence j + 1) rs) @ ds"])
           (simp add: transaction_frames_def)
    qed
  qed
qed

definition fresh_scan :: ScanState where
  "fresh_scan = \<lparr>ss_result = empty_scan, ss_pending = [], ss_pending_txn = 0, ss_stop = False\<rparr>"

lemma fresh_scan_good: "scan_good fresh_scan" "scan_commits fresh_scan = []"
  by (simp_all add: fresh_scan_def scan_good_def scan_commits_def empty_scan_def)

lemma items_bytes_append: "items_bytes b (xs @ ys) = items_bytes b xs @ items_bytes b ys"
  by (simp add: items_bytes_def)

lemma items_bytes_take_le: "length (items_bytes b (take j its)) \<le> length (items_bytes b its)"
  by (subst (2) append_take_drop_id [of j its, symmetric]) (simp only: items_bytes_append length_append le_add1)

lemma scan_prefix:
  fixes n :: nat
  assumes "items_ok bound its"
  defines "bs \<equiv> take n (items_bytes bound its)"
  shows "sc_ok (scan_bytes bs) \<and> (\<exists>j \<le> length its.
      sc_committed (scan_bytes bs) = committed_of (take j its)
      \<and> length (items_bytes bound (take j its)) \<le> n
      \<and> (j = length its \<or> n < length (items_bytes bound (take (Suc j) its))))"
  using scan_torn_items [OF fresh_scan_good(1) assms(1), of n]
    scan_bytes_good [of "take n (items_bytes bound its)"]
  by (auto simp: bs_def fresh_scan_def [symmetric] fresh_scan_good(2))

text \<open>A complete old log followed by an arbitrary prefix of one more item.\<close>

lemma scan_torn_last:
  fixes n :: nat
  assumes "items_ok bound (its @ [it])"
  defines "bs \<equiv> items_bytes bound its @ take n (log_bytes bound (item_records it))"
  shows "sc_ok (scan_bytes bs)"
    and "sc_committed (scan_bytes bs) =
      (if n < length (log_bytes bound (item_records it)) then committed_of its
       else committed_of its @ item_committed it)"
proof -
  let ?n = "length (items_bytes bound its) + n" and ?its = "its @ [it]"
  have bs: "bs = take ?n (items_bytes bound ?its)"
    by (simp add: bs_def items_bytes_append)
  from scan_prefix [OF assms(1), of ?n] obtain j where
    ok: "sc_ok (scan_bytes bs)" and j: "j \<le> length ?its"
    "sc_committed (scan_bytes bs) = committed_of (take j ?its)"
    "length (items_bytes bound (take j ?its)) \<le> ?n"
    "j = length ?its \<or> ?n < length (items_bytes bound (take (Suc j) ?its))"
    unfolding bs by blast
  show "sc_ok (scan_bytes bs)" by (rule ok)
  have ge: "length its \<le> j"
  proof (rule ccontr)
    assume "\<not> length its \<le> j"
    then have "take (Suc j) ?its = take (Suc j) its" "j \<noteq> length ?its" by auto
    then have "?n < length (items_bytes bound (take (Suc j) its))" using j(4) by simp
    then show False using items_bytes_take_le [of bound "Suc j" its] by simp
  qed
  show "sc_committed (scan_bytes bs) =
      (if n < length (log_bytes bound (item_records it)) then committed_of its
       else committed_of its @ item_committed it)"
  proof (cases "j = length its")
    case True
    then have "?n < length (items_bytes bound ?its)" using j(4) by simp
    then show ?thesis using True j(2) by (simp add: items_bytes_append)
  next
    case False
    then have "j = Suc (length its)" using ge j(1) by simp
    then show ?thesis
      using j(2,3) by (simp add: items_bytes_append committed_of_def)
  qed
qed

lemma staged_body:
  assumes "list_all (\<lambda>r. fst r \<noteq> JT_TxnBegin \<and> fst r \<noteq> JT_TxnCommit) rs"
  shows "list_all (body_record txn) (staged_frames txn sq rs)"
  using assms by (induction rs arbitrary: sq) (auto simp: body_record_def)

lemma list_all_take: "list_all P xs \<Longrightarrow> list_all P (take k xs)"
  by (auto simp: list_all_iff dest: in_set_takeD)

lemma payload_ok_frame_ok:
  "bound \<le> kScanPayloadBound \<Longrightarrow> list_all (payload_ok bound) rs = list_all (frame_ok bound) rs"
  by (auto simp: list_all_iff payload_ok_def frame_ok_def)

text \<open>Every torn write of a transaction reads back as an item without its commit record.\<close>

lemma torn_transaction:
  assumes "torn_write bound (b # body @ [c]) bs" "item_ok (LogTxn b body c)" "items_ok bound its"
    "bound \<le> kScanPayloadBound"
  shows "sc_ok (scan_bytes (items_bytes bound its @ bs))
    \<and> (sc_committed (scan_bytes (items_bytes bound its @ bs)) = committed_of its
       \<or> sc_committed (scan_bytes (items_bytes bound its @ bs)) = committed_of its @ body)"
proof -
  obtain k n where k: "k \<le> length (b # body @ [c])"
    "list_all (frame_ok bound) (take k (b # body @ [c]))"
    "bs = take n (log_bytes bound (take k (b # body @ [c])))"
    using assms(1,4) unfolding torn_write_def by (auto simp: payload_ok_frame_ok)
  have item: "sc_ok (scan_bytes (items_bytes bound its @ bs))
      \<and> (sc_committed (scan_bytes (items_bytes bound its @ bs)) = committed_of its
         \<or> sc_committed (scan_bytes (items_bytes bound its @ bs)) = committed_of its @ item_committed it)"
    if "item_ok it" "take k (b # body @ [c]) = item_records it" for it
    using scan_torn_last [of bound its it n] assms(3) that k by (auto simp: items_ok_def)
  show ?thesis
  proof (cases "k = 0 \<or> k = length (b # body @ [c])")
    case True
    then show ?thesis
    proof
      assume "k = 0"
      then have "bs = []" using k(3) by simp
      then show ?thesis
        using scan_prefix [OF assms(3), of "length (items_bytes bound its)"] items_bytes_take_le
        by (auto simp: le_antisym dest!: leD)
    next
      assume "k = length (b # body @ [c])"
      then show ?thesis using item [OF assms(2)] by simp
    qed
  next
    case False
    then obtain k' where "k = Suc k'" "k' \<le> length body" using k(1) by (cases k) auto
    then have "take k (b # body @ [c]) = item_records (LogOpen b (take k' body))" by simp
    then show ?thesis using item [of "LogOpen b (take k' body)"] assms(2) by (simp add: list_all_take)
  qed
qed

section \<open>What a compaction leaves on disk\<close>

primrec snapshot_frames :: "u64 \<Rightarrow> JournalRecord list \<Rightarrow> JournalRecord list" where
  "snapshot_frames sq [] = []"
| "snapshot_frames sq (r # rs) =
     \<lparr>jr_type = jr_type r, jr_sequence = sq + 1, jr_txn_id = 1, jr_payload = jr_payload r\<rparr>
     # snapshot_frames (sq + 1) rs"

lemma write_one_ok:
  assumes "cf_ok (write_one bound t txn sq payload f)"
  defines "r \<equiv> \<lparr>jr_type = t, jr_sequence = sq, jr_txn_id = txn, jr_payload = payload\<rparr>"
  shows "cf_ok f" "cf_bytes (write_one bound t txn sq payload f) = cf_bytes f @ encode_journal_record r bound"
    "payload_ok bound r"
  using assms
  by (auto simp: write_one_def Let_def payload_ok_def encode_journal_record_def
      split: if_splits list.splits IoOutcome.splits)

lemma write_snapshot_ok:
  assumes "cf_ok (write_snapshot bound sq rs f)"
  shows "cf_ok f \<and> cf_bytes (write_snapshot bound sq rs f)
           = cf_bytes f @ log_bytes bound (snapshot_frames sq rs)
    \<and> list_all (payload_ok bound) (snapshot_frames sq rs)"
  using assms
proof (induction rs arbitrary: sq f)
  case (Cons r rs)
  from Cons.IH [of "sq + 1" "write_one bound (jr_type r) 1 (sq + 1) (jr_payload r) f"] Cons.prems
  show ?case
    using write_one_ok [of bound "jr_type r" 1 "sq + 1" "jr_payload r" f] by simp
qed simp

definition banner_record :: JournalRecord where
  "banner_record = \<lparr>jr_type = JT_FileHeader, jr_sequence = 0, jr_txn_id = 0, jr_payload = journal_banner\<rparr>"

definition compaction_items :: "JournalRecord list \<Rightarrow> LogItem list" where
  "compaction_items rs =
     [LogSelf banner_record,
      LogTxn \<lparr>jr_type = JT_TxnBegin, jr_sequence = 1, jr_txn_id = 1, jr_payload = put_u64 1\<rparr>
        (snapshot_frames 1 rs)
        \<lparr>jr_type = JT_TxnCommit, jr_sequence = of_nat (length rs) + 2, jr_txn_id = 1,
         jr_payload = commit_payload 1 (of_nat (length rs)) (payload_total rs)\<rparr>]"

lemma snapshot_body:
  assumes "list_all (\<lambda>r. jr_type r \<noteq> JT_TxnBegin \<and> jr_type r \<noteq> JT_TxnCommit) rs"
  shows "list_all (body_record 1) (snapshot_frames sq rs)"
  using assms by (induction rs arbitrary: sq) (auto simp: body_record_def)

lemma compaction_file_ok:
  assumes "cf_ok (compaction_file bound rs io)" "bound \<le> kScanPayloadBound"
    "list_all (\<lambda>r. jr_type r \<noteq> JT_TxnBegin \<and> jr_type r \<noteq> JT_TxnCommit) rs"
  shows "items_ok bound (compaction_items rs)"
    and "cf_bytes (compaction_file bound rs io) = items_bytes bound (compaction_items rs)"
proof -
  define f1 where "f1 = write_one bound JT_FileHeader 0 0 journal_banner \<lparr>cf_ok = True, cf_bytes = [], cf_io = io\<rparr>"
  define f2 where "f2 = write_one bound JT_TxnBegin 1 1 (put_u64 1) f1"
  define f3 where "f3 = write_snapshot bound 1 rs f2"
  define f4 where "f4 = write_one bound JT_TxnCommit 1 (of_nat (length rs) + 2)
      (commit_payload 1 (of_nat (length rs)) (payload_total rs)) f3"
  have f4_eq: "compaction_file bound rs io = f4"
    by (simp add: compaction_file_def Let_def f1_def f2_def f3_def f4_def)
  have ok4: "cf_ok f4" using assms(1) f4_eq by simp
  note w4 = write_one_ok [OF ok4 [unfolded f4_def], folded f4_def]
  note w3 = write_snapshot_ok [OF w4(1) [unfolded f3_def], folded f3_def]
  have ok2: "cf_ok f2" using w3 by blast
  note w2 = write_one_ok [OF ok2 [unfolded f2_def], folded f2_def]
  note w1 = write_one_ok [OF w2(1) [unfolded f1_def], folded f1_def]
  show "cf_bytes (compaction_file bound rs io) = items_bytes bound (compaction_items rs)"
    using w1 w2 w3 w4 unfolding f4_eq
    by (simp add: items_bytes_def compaction_items_def banner_record_def)
  show "items_ok bound (compaction_items rs)"
    using w1(3) w2(3) w3 w4(3) snapshot_body [OF assms(3), of 1] assms(2)
    by (auto simp: items_ok_def compaction_items_def banner_record_def begin_record_def
        payload_ok_frame_ok [OF assms(2), symmetric])
qed

lemma compact_with_file:
  assumes "compact_with rs j = (res, j1)"
  defines "f \<equiv> compaction_file (journal_bound j) rs (jn_io (snd (next_io j)))"
  shows "jn_file j1 = jn_file j \<and> \<not> jres_ok res \<or> cf_ok f \<and> jn_file j1 = cf_bytes f"
  using assms
  by (auto simp: compact_with_def Let_def journal_fail_def journal_success_def durable_barrier_def
      split: if_splits prod.splits IoOutcome.splits bool.splits)

lemma scan_whole:
  assumes "items_ok bound its"
  shows "sc_ok (scan_bytes (items_bytes bound its))"
    "sc_committed (scan_bytes (items_bytes bound its)) = committed_of its"
  using scan_prefix [OF assms, of "length (items_bytes bound its)"] items_bytes_take_le
  by (auto dest!: leD)

section \<open>Properties\<close>

text \<open>
  A framed record is decoded to itself, with its exact length, whatever bytes
  follow it, and every proper prefix of a frame is reported as truncated, never as
  corrupt and never as a shorter record, for every payload within the bounds.
\<close>

theorem journal_frame_roundtrip:
  assumes "length (jr_payload r) \<le> bound" "length (jr_payload r) \<le> kScanPayloadBound"
  shows "decode_journal_record (encode_journal_record r bound @ rest) kScanPayloadBound
           = Inr (r, 36 + length (jr_payload r))
         \<and> (\<forall>n < 36 + length (jr_payload r).
              decode_journal_record (take n (encode_journal_record r bound)) kScanPayloadBound
              = Inl JournalStatus_Truncated)"
proof -
  have ok: "frame_ok bound r" using assms by (simp add: frame_ok_def)
  have "decode_journal_record (take n (encode_journal_record r bound)) kScanPayloadBound
      = Inl JournalStatus_Truncated" if "n < 36 + length (jr_payload r)" for n
    using that length_frame [OF ok] by (intro decode_torn_frame [OF ok]) simp_all
  then show ?thesis using decode_frame [OF ok, of rest] length_frame [OF ok] by simp
qed

theorem journal_frame_roundtrip_witness:
  "decode_journal_record
     (encode_journal_record \<lparr>jr_type = JT_FlowPut, jr_sequence = 3, jr_txn_id = 2, jr_payload = [9]\<rparr> 16
      @ [1, 2]) kScanPayloadBound
   = Inr (\<lparr>jr_type = JT_FlowPut, jr_sequence = 3, jr_txn_id = 2, jr_payload = [9]\<rparr>, 37)"
  using journal_frame_roundtrip [of "\<lparr>jr_type = JT_FlowPut, jr_sequence = 3, jr_txn_id = 2,
      jr_payload = [9]\<rparr>" 16 "[1, 2]"]
  by (simp add: kScanPayloadBound_def)

text \<open>
  C7: Crash safety of the log.  Cut a log of self-committing records, committed
  transactions and abandoned transactions at any byte: the scan succeeds and yields
  exactly the records of the items that lie completely before the cut.  A
  transaction is recovered if and only if its commit record is complete on disk,
  and no record of a torn, aborted or half-written transaction is ever returned.
\<close>

theorem journal_crash_safe:
  fixes n :: nat
  assumes "items_ok bound its" and "n \<le> kJournalMaxScanBytes"
  defines "res \<equiv> scan_journal_file (Some (take n (items_bytes bound its))) IoOk IoOk IoOk"
  shows "sc_ok res \<and> (\<exists>j \<le> length its.
           sc_committed res = committed_of (take j its)
           \<and> length (items_bytes bound (take j its)) \<le> n
           \<and> (j = length its \<or> n < length (items_bytes bound (take (Suc j) its))))"
proof -
  have "res = scan_bytes (take n (items_bytes bound its))"
    using assms(2) by (simp add: res_def scan_journal_file_def min.coboundedI2)
      (simp add: min_def)
  then show ?thesis using scan_prefix [OF assms(1), of n] by simp
qed

theorem journal_crash_safe_witness:
  "sc_ok (scan_journal_file (Some (take 20 (items_bytes 100 (compaction_items [])))) IoOk IoOk IoOk)"
proof -
  have "items_ok 100 (compaction_items [])"
    by (simp add: items_ok_def compaction_items_def banner_record_def begin_record_def frame_ok_def
        journal_banner_def commit_payload_def kScanPayloadBound_def)
  then show ?thesis
    using journal_crash_safe [of 100 "compaction_items []" 20] by (simp add: kJournalMaxScanBytes_def)
qed

text \<open>
  C25: Atomicity of a journal transaction under every sequence of file errors.
  After the writer ran a transaction on a well-formed log, with any writes failing
  or torn at any byte, a scan of the file succeeds and finds either none of the
  staged records or all of them in order; when the writer reports success it finds
  all of them.
\<close>

theorem journal_transaction_atomic:
  assumes "items_ok (journal_bound j) its" "jn_file j = items_bytes (journal_bound j) its"
    and "journal_bound j \<le> kScanPayloadBound" "txn \<noteq> 0"
    and "list_all (\<lambda>r. fst r \<noteq> JT_TxnBegin \<and> fst r \<noteq> JT_TxnCommit) rs"
  defines "res \<equiv> fst (journal_transaction txn rs j)"
    and "scanned \<equiv> scan_bytes (jn_file (snd (journal_transaction txn rs j)))"
    and "staged \<equiv> staged_frames txn (jn_last_sequence j + 1) rs"
  shows "sc_ok scanned
         \<and> (sc_committed scanned = committed_of its \<or> sc_committed scanned = committed_of its @ staged)
         \<and> (jres_ok res \<longrightarrow> sc_committed scanned = committed_of its @ staged)"
proof -
  let ?b = "next_frame JT_TxnBegin txn (put_u64 txn) j" and ?n = "journal_bound j"
  obtain c bs where c: "jr_type c = JT_TxnCommit" "jr_txn_id c = txn"
    "jn_file (snd (journal_transaction txn rs j)) = jn_file j @ bs"
    "torn_write ?n (?b # staged @ [c]) bs"
    "jres_ok res \<longrightarrow> full_write ?n (?b # staged @ [c]) bs"
    using journal_transaction_file [OF surjective_pairing assms(4), of rs j]
    unfolding transaction_frames_def res_def staged_def by auto
  have it: "item_ok (LogTxn ?b staged c)"
    using c assms(4) staged_body [OF assms(5)] by (simp add: begin_record_def staged_def)
  have scanned: "scanned = scan_bytes (items_bytes ?n its @ bs)"
    unfolding scanned_def c(3) assms(2) ..
  have full: "sc_committed scanned = committed_of its @ staged" if "jres_ok res"
  proof -
    have fw: "list_all (frame_ok ?n) (?b # staged @ [c])" "bs = log_bytes ?n (item_records (LogTxn ?b staged c))"
      using c(5) that unfolding full_write_def payload_ok_frame_ok [OF assms(3)] by simp_all
    then have "items_ok ?n (its @ [LogTxn ?b staged c])"
      using assms(1) it by (simp add: items_ok_def)
    from scan_torn_last(2) [OF this, of "length bs"] show ?thesis
      unfolding scanned using fw(2) by simp
  qed
  show ?thesis
    using torn_transaction [OF c(4) it assms(1,3)] full unfolding scanned by blast
qed

definition example_journal :: "IoOutcome list \<Rightarrow> Journal" where
  "example_journal io =
     journal_handle \<lparr>jc_path = ''log'', jc_max_bytes = 1000, jc_max_payload_bytes = 1000,
        jc_fsync_on_commit = True\<rparr> [] io"

theorem journal_transaction_atomic_witness:
  "sc_ok (scan_bytes (jn_file (snd (journal_transaction 1 [(JT_FlowPut, [7])]
     (example_journal [IoOk, IoFail 11])))))"
  using journal_transaction_atomic [of "example_journal [IoOk, IoFail 11]" "[]" 1 "[(JT_FlowPut, [7])]"]
  by (simp add: example_journal_def journal_handle_def items_ok_def kScanPayloadBound_def)

text \<open>
  C26: Compaction replaces the log in one step.  Whatever file operation fails, the
  log file is afterwards either exactly what it was, or the complete compacted log,
  which scans to the banner followed by the snapshot records in order; when
  compaction reports success it is the latter.
\<close>

theorem compaction_atomic:
  assumes "journal_bound j \<le> kScanPayloadBound"
    and "list_all (\<lambda>r. jr_type r \<noteq> JT_TxnBegin \<and> jr_type r \<noteq> JT_TxnCommit) rs"
  defines "res \<equiv> fst (compact_with rs j)" and "after \<equiv> jn_file (snd (compact_with rs j))"
  shows "after = jn_file j \<and> \<not> jres_ok res
         \<or> sc_ok (scan_bytes after)
           \<and> sc_committed (scan_bytes after) = banner_record # snapshot_frames 1 rs"
proof -
  define f where "f = compaction_file (journal_bound j) rs (jn_io (snd (next_io j)))"
  from compact_with_file [OF surjective_pairing, of rs j, folded f_def res_def after_def]
  consider "after = jn_file j \<and> \<not> jres_ok res" | "cf_ok f" "after = cf_bytes f" by blast
  then show ?thesis
  proof cases
    case 2
    note c = compaction_file_ok [OF 2(1) [unfolded f_def] assms(1,2), folded f_def]
    show ?thesis
      using scan_whole [OF c(1)] unfolding 2(2) c(2)
      by (simp add: committed_of_def compaction_items_def)
  qed blast
qed

theorem compaction_atomic_witness:
  "let j = example_journal [] in
     jn_file (snd (compact_with [] j)) = jn_file j \<and> \<not> jres_ok (fst (compact_with [] j))
     \<or> sc_ok (scan_bytes (jn_file (snd (compact_with [] j))))
       \<and> sc_committed (scan_bytes (jn_file (snd (compact_with [] j)))) = [banner_record]"
  using compaction_atomic [of "example_journal []" "[]"]
  by (simp add: example_journal_def journal_handle_def kScanPayloadBound_def Let_def)

end
