(* ===== verification/Backend.thy ===== *)
theory Backend
  imports Codec
begin

text \<open>
  Enforcement backends (\<^verbatim>\<open>include/rate_governor/backend.hpp\<close>, \<^verbatim>\<open>src/backend.cpp\<close>,
  \<^verbatim>\<open>include/rate_governor/synthetic_device.hpp\<close>, \<^verbatim>\<open>src/synthetic_backend.cpp\<close>): the
  requests and outcomes of the interface, the interface itself as a record of
  operations on a backend state, the backend that refuses everything and the
  software device with its deterministic failure injection.  A locale states what a
  fencing backend owes its coordinator; the synthetic backend is shown to honour it.
\<close>

section \<open>Requests and outcomes\<close>

record ApplyRequest =
  ar_attempt :: EnforcementAttemptId
  ar_envelope :: RateEnvelopeId
  ar_envelope_generation :: Generation
  ar_fingerprint :: PlanFingerprint
  ar_rate_ups :: u64
  ar_burst_tokens :: u64
  ar_refill :: RefillSemantics
  ar_epoch :: FabricEpoch
  ar_boot :: WorkerBootId
  ar_issued_ns :: TimestampNs

record RevokeRequest =
  rr_attempt :: EnforcementAttemptId
  rr_envelope :: RateEnvelopeId
  rr_envelope_generation :: Generation
  rr_fingerprint :: PlanFingerprint
  rr_epoch :: FabricEpoch
  rr_boot :: WorkerBootId
  rr_reason :: ReasonCode
  rr_issued_ns :: TimestampNs

datatype DispatchStatus =
    DispatchStatus_Unknown | DispatchStatus_Completed | DispatchStatus_Pending
  | DispatchStatus_Rejected | DispatchStatus_Unsupported | DispatchStatus_Failed

record DispatchOutcome =
  do_status :: DispatchStatus
  do_reason :: ReasonCode
  do_applied_rate_ups :: u64
  do_applied_burst_tokens :: u64
  do_epoch :: FabricEpoch
  do_boot :: WorkerBootId
  do_detail :: string

definition empty_dispatch :: DispatchOutcome where
  "empty_dispatch =
     \<lparr>do_status = DispatchStatus_Unknown, do_reason = R_None, do_applied_rate_ups = 0,
      do_applied_burst_tokens = 0, do_epoch = StrongId 0, do_boot = StrongId 0, do_detail = []\<rparr>"

definition dispatch_completed :: "DispatchOutcome \<Rightarrow> bool" where
  "dispatch_completed d \<longleftrightarrow> do_status d = DispatchStatus_Completed"

datatype VerificationStatus =
    VerificationStatus_Unknown | VerificationStatus_Confirmed | VerificationStatus_Mismatch
  | VerificationStatus_Unsupported | VerificationStatus_Failed

record VerificationOutcome =
  vo_status :: VerificationStatus
  vo_reason :: ReasonCode
  vo_observed_present :: bool
  vo_observed_rate_ups :: u64
  vo_observed_burst_tokens :: u64
  vo_epoch :: FabricEpoch
  vo_boot :: WorkerBootId
  vo_detail :: string

definition empty_verification :: VerificationOutcome where
  "empty_verification =
     \<lparr>vo_status = VerificationStatus_Unknown, vo_reason = R_None, vo_observed_present = False,
      vo_observed_rate_ups = 0, vo_observed_burst_tokens = 0, vo_epoch = StrongId 0,
      vo_boot = StrongId 0, vo_detail = []\<rparr>"

text \<open>
  The virtual functions of \<^verbatim>\<open>IEnforcementBackend\<close> over a backend state: the calls
  that may change the backend return its new state.
\<close>

record 'b BackendOps =
  ops_describe :: "'b \<Rightarrow> BackendDescriptor"
  ops_dispatch_apply :: "ApplyRequest \<Rightarrow> 'b \<Rightarrow> DispatchOutcome \<times> 'b"
  ops_dispatch_revoke :: "RevokeRequest \<Rightarrow> 'b \<Rightarrow> DispatchOutcome \<times> 'b"
  ops_verify :: "ApplyRequest \<Rightarrow> 'b \<Rightarrow> VerificationOutcome \<times> 'b"
  ops_session_boot :: "'b \<Rightarrow> WorkerBootId"
  ops_session_epoch :: "'b \<Rightarrow> FabricEpoch"
  ops_session_live :: "'b \<Rightarrow> bool"
  ops_shutdown :: "'b \<Rightarrow> 'b"

section \<open>The unsupported backend\<close>

type_synonym UnsupportedBackend = BackendDescriptor

definition configuration_provenance :: "string \<Rightarrow> Provenance" where
  "configuration_provenance detail =
     \<lparr>prov_source = AuthoritySource_Configuration, prov_epoch = StrongId 0, prov_boot = StrongId 0,
      prov_sequence = 0, prov_detail = detail\<rparr>"

definition unsupported_backend :: "BackendId \<Rightarrow> Generation \<Rightarrow> string \<Rightarrow> UnsupportedBackend" where
  "unsupported_backend i g label =
     \<lparr>backend_id = i, backend_generation = g, backend_kind = BackendKind_Unsupported,
      backend_capabilities = 0, backend_verification = VerificationMode_None,
      backend_max_rate_ups = 0, backend_max_burst_tokens = 0,
      backend_label = truncate_bounded label kMaxProvenanceDetail,
      backend_provenance = configuration_provenance ''unsupported backend''\<rparr>"

definition unsupported_apply :: "ApplyRequest \<Rightarrow> UnsupportedBackend \<Rightarrow> DispatchOutcome \<times> UnsupportedBackend" where
  "unsupported_apply r b =
     (empty_dispatch\<lparr>do_status := DispatchStatus_Unsupported,
        do_reason := R_PlanRejectedBackendUnsupported, do_epoch := ar_epoch r, do_boot := ar_boot r,
        do_detail := ''backend cannot apply a rate envelope''\<rparr>, b)"

definition unsupported_revoke :: "RevokeRequest \<Rightarrow> UnsupportedBackend \<Rightarrow> DispatchOutcome \<times> UnsupportedBackend" where
  "unsupported_revoke r b =
     (empty_dispatch\<lparr>do_status := DispatchStatus_Unsupported, do_reason := R_UnsupportedOperation,
        do_epoch := rr_epoch r, do_boot := rr_boot r,
        do_detail := ''backend cannot revoke a rate envelope''\<rparr>, b)"

definition unsupported_verify :: "ApplyRequest \<Rightarrow> UnsupportedBackend \<Rightarrow> VerificationOutcome \<times> UnsupportedBackend" where
  "unsupported_verify r b =
     (empty_verification\<lparr>vo_status := VerificationStatus_Unsupported,
        vo_reason := R_ApplyVerificationUnsupported, vo_epoch := ar_epoch r, vo_boot := ar_boot r,
        vo_detail := ''backend has no post-apply readback''\<rparr>, b)"

definition unsupported_ops :: "UnsupportedBackend BackendOps" where
  "unsupported_ops =
     \<lparr>ops_describe = (\<lambda>b. b), ops_dispatch_apply = unsupported_apply,
      ops_dispatch_revoke = unsupported_revoke, ops_verify = unsupported_verify,
      ops_session_boot = (\<lambda>_. StrongId 0), ops_session_epoch = (\<lambda>_. StrongId 0),
      ops_session_live = (\<lambda>_. True), ops_shutdown = (\<lambda>b. b)\<rparr>"

section \<open>The synthetic device\<close>

record SyntheticDeviceConfig =
  sd_max_rate_ups :: u64
  sd_max_burst_tokens :: u64
  sd_envelope_limit :: u64
  sd_fail_every_nth_apply :: u64
  sd_refuse_every_nth_verify :: u64
  sd_underreport_every_nth_verify :: u64
  sd_overreport_every_nth_verify :: u64
  sd_refuse_all_applies :: bool
  sd_refuse_all_verifies :: bool
  sd_apply_spins :: u64

record SyntheticEntry =
  se_envelope :: RateEnvelopeId
  se_generation :: Generation
  se_rate_ups :: u64
  se_burst_tokens :: u64
  se_epoch :: FabricEpoch
  se_boot :: WorkerBootId
  se_applies :: u64
  se_revokes :: u64

definition empty_entry :: SyntheticEntry where
  "empty_entry =
     \<lparr>se_envelope = StrongId 0, se_generation = StrongId 0, se_rate_ups = 0, se_burst_tokens = 0,
      se_epoch = StrongId 0, se_boot = StrongId 0, se_applies = 0, se_revokes = 0\<rparr>"

record DeviceAccounting =
  da_applies :: u64
  da_revokes :: u64
  da_verifications :: u64
  da_refusals :: u64
  da_under_deliveries :: u64
  da_over_deliveries :: u64
  da_injection_triggers :: u64
  da_entries_peak :: u64
  da_epoch_advances :: u64
  da_table_clears :: u64
  da_fenced_stale_epoch :: u64
  da_fenced_stale_boot :: u64
  da_limit_rejections :: u64

definition empty_accounting :: DeviceAccounting where
  "empty_accounting =
     \<lparr>da_applies = 0, da_revokes = 0, da_verifications = 0, da_refusals = 0,
      da_under_deliveries = 0, da_over_deliveries = 0, da_injection_triggers = 0,
      da_entries_peak = 0, da_epoch_advances = 0, da_table_clears = 0,
      da_fenced_stale_epoch = 0, da_fenced_stale_boot = 0, da_limit_rejections = 0\<rparr>"

record SyntheticDevice =
  dev_config :: SyntheticDeviceConfig
  dev_boot :: WorkerBootId
  dev_highest_epoch :: FabricEpoch
  dev_admitted_boot :: WorkerBootId
  dev_table :: "SyntheticEntry table"
  dev_accounting :: DeviceAccounting
  dev_apply_calls :: u64
  dev_verify_calls :: u64

definition synthetic_device ::
  "SyntheticDeviceConfig \<Rightarrow> WorkerBootId \<Rightarrow> FabricEpoch \<Rightarrow> WorkerBootId \<Rightarrow> SyntheticDevice" where
  "synthetic_device c boot epoch admitted =
     \<lparr>dev_config = (if sd_envelope_limit c = 0 then c\<lparr>sd_envelope_limit := 1\<rparr> else c),
      dev_boot = boot, dev_highest_epoch = epoch, dev_admitted_boot = admitted, dev_table = [],
      dev_accounting = empty_accounting, dev_apply_calls = 0, dev_verify_calls = 0\<rparr>"

text \<open>An increment of one of the counters.\<close>

definition account :: "(DeviceAccounting \<Rightarrow> DeviceAccounting) \<Rightarrow> SyntheticDevice \<Rightarrow> SyntheticDevice" where
  "account f d = d\<lparr>dev_accounting := f (dev_accounting d)\<rparr>"

definition admit_incarnation ::
  "FabricEpoch \<Rightarrow> WorkerBootId \<Rightarrow> SyntheticDevice \<Rightarrow> (bool \<times> ReasonCode) \<times> SyntheticDevice" where
  "admit_incarnation epoch boot d =
     (if epoch < dev_highest_epoch d then
        ((False, R_BackendFencedStaleEpoch),
         account (\<lambda>a. a\<lparr>da_fenced_stale_epoch := da_fenced_stale_epoch a + 1\<rparr>) d)
      else if epoch = dev_highest_epoch d then
        (if id_valid (dev_admitted_boot d) \<and> boot \<noteq> dev_admitted_boot d then
           ((False, R_BackendFencedStaleBoot),
            account (\<lambda>a. a\<lparr>da_fenced_stale_boot := da_fenced_stale_boot a + 1\<rparr>) d)
         else ((True, R_None), d\<lparr>dev_admitted_boot := boot\<rparr>))
      else
        ((True, R_None),
         (account (\<lambda>a. a\<lparr>da_epoch_advances := da_epoch_advances a + 1,
                        da_table_clears := da_table_clears a + 1\<rparr>) d)
           \<lparr>dev_table := [], dev_highest_epoch := epoch, dev_admitted_boot := boot\<rparr>))"

text \<open>The reason of a refusal, or nothing when the incarnation is admitted.\<close>

definition incarnation_ok ::
  "FabricEpoch \<Rightarrow> FabricEpoch \<Rightarrow> WorkerBootId \<Rightarrow> WorkerBootId \<Rightarrow> ReasonCode option" where
  "incarnation_ok request_epoch highest request_boot admitted =
     (if request_epoch < highest then Some R_BackendFencedStaleEpoch
      else if highest < request_epoch then Some R_BackendFencedStaleEpoch
      else if request_boot \<noteq> admitted then Some R_BackendFencedStaleBoot
      else None)"

definition fence_account :: "ReasonCode \<Rightarrow> SyntheticDevice \<Rightarrow> SyntheticDevice" where
  "fence_account reason d =
     account (\<lambda>a. a\<lparr>da_refusals := da_refusals a + 1\<rparr>)
       (if reason = R_BackendFencedStaleEpoch
        then account (\<lambda>a. a\<lparr>da_fenced_stale_epoch := da_fenced_stale_epoch a + 1\<rparr>) d
        else account (\<lambda>a. a\<lparr>da_fenced_stale_boot := da_fenced_stale_boot a + 1\<rparr>) d)"

definition count_refusal :: "SyntheticDevice \<Rightarrow> SyntheticDevice" where
  "count_refusal d = account (\<lambda>a. a\<lparr>da_refusals := da_refusals a + 1\<rparr>) d"

definition count_limit_refusal :: "SyntheticDevice \<Rightarrow> SyntheticDevice" where
  "count_limit_refusal d =
     account (\<lambda>a. a\<lparr>da_refusals := da_refusals a + 1,
                   da_limit_rejections := da_limit_rejections a + 1\<rparr>) d"

text \<open>A refusal of the device: status, reason and detail, with the device that counted it.\<close>

definition refuse_apply ::
  "DispatchStatus \<Rightarrow> ReasonCode \<Rightarrow> string \<Rightarrow> SyntheticDevice \<Rightarrow> SyntheticDevice
   \<Rightarrow> (DispatchOutcome \<times> SyntheticDevice) option" where
  "refuse_apply st reason detail d d' =
     Some (empty_dispatch\<lparr>do_epoch := dev_highest_epoch d, do_boot := dev_boot d, do_status := st,
             do_reason := reason, do_detail := detail\<rparr>, d')"

text \<open>The early returns of an apply, in the order of the code.\<close>

definition device_apply_refusal ::
  "ApplyRequest \<Rightarrow> SyntheticDevice \<Rightarrow> (DispatchOutcome \<times> SyntheticDevice) option" where
  "device_apply_refusal r d =
     (case incarnation_ok (ar_epoch r) (dev_highest_epoch d) (ar_boot r) (dev_admitted_boot d) of
        Some reason \<Rightarrow>
          refuse_apply DispatchStatus_Rejected reason
            ''device refused a request from a fenced incarnation'' d (fence_account reason d)
      | None \<Rightarrow>
          if \<not> id_valid (ar_envelope r) \<or> \<not> id_valid (ar_envelope_generation r) then
            refuse_apply DispatchStatus_Rejected R_MalformedInput
              ''device refused an apply with an unusable binding'' d (count_refusal d)
          else if sd_refuse_all_applies (dev_config d) then
            refuse_apply DispatchStatus_Rejected R_ApplyBackendFailed
              ''device configured to refuse all applies'' d (count_refusal d)
          else if sd_fail_every_nth_apply (dev_config d) \<noteq> 0
                  \<and> dev_apply_calls d mod sd_fail_every_nth_apply (dev_config d) = 0 then
            refuse_apply DispatchStatus_Failed R_ApplyBackendFailed ''injected apply failure'' d
              (account (\<lambda>a. a\<lparr>da_injection_triggers := da_injection_triggers a + 1\<rparr>) d)
          else if sd_max_rate_ups (dev_config d) \<noteq> 0
                  \<and> sd_max_rate_ups (dev_config d) < ar_rate_ups r then
            refuse_apply DispatchStatus_Rejected R_CapacityLimitExceeded
              ''requested rate exceeds the declared device maximum'' d (count_limit_refusal d)
          else if sd_max_burst_tokens (dev_config d) \<noteq> 0
                  \<and> sd_max_burst_tokens (dev_config d) < ar_burst_tokens r then
            refuse_apply DispatchStatus_Rejected R_CapacityLimitExceeded
              ''requested burst exceeds the declared device maximum'' d (count_limit_refusal d)
          else if table_find (dev_table d) (id_value (ar_envelope r)) = None
                  \<and> unat (sd_envelope_limit (dev_config d)) \<le> length (dev_table d) then
            refuse_apply DispatchStatus_Rejected R_CapacityLimitExceeded
              ''device envelope table is full'' d (count_limit_refusal d)
          else None)"

definition device_apply :: "ApplyRequest \<Rightarrow> SyntheticDevice \<Rightarrow> DispatchOutcome \<times> SyntheticDevice" where
  "device_apply r d0 =
     (let d = d0\<lparr>dev_apply_calls := dev_apply_calls d0 + 1\<rparr>
      in (case device_apply_refusal r d of
          Some refused \<Rightarrow> refused
        | None \<Rightarrow>
            let key = id_value (ar_envelope r);
                old = (case table_find (dev_table d) key of Some e \<Rightarrow> e | None \<Rightarrow> empty_entry);
                e = old\<lparr>se_envelope := ar_envelope r, se_generation := ar_envelope_generation r,
                        se_rate_ups := ar_rate_ups r, se_burst_tokens := ar_burst_tokens r,
                        se_epoch := dev_highest_epoch d, se_boot := dev_boot d,
                        se_applies := se_applies old + 1\<rparr>;
                t = table_put key e (dev_table d);
                d1 = account (\<lambda>a. a\<lparr>da_applies := da_applies a + 1,
                       da_entries_peak := (if unat (da_entries_peak a) < length t
                                           then of_nat (length t) else da_entries_peak a)\<rparr>)
                       (d\<lparr>dev_table := t\<rparr>)
            in (empty_dispatch\<lparr>do_epoch := dev_highest_epoch d, do_boot := dev_boot d,
                  do_status := DispatchStatus_Completed, do_reason := R_ApplyAcknowledged,
                  do_applied_rate_ups := se_rate_ups e, do_applied_burst_tokens := se_burst_tokens e,
                  do_detail := ''device holds the envelope''\<rparr>, d1)))"

definition device_revoke :: "RevokeRequest \<Rightarrow> SyntheticDevice \<Rightarrow> DispatchOutcome \<times> SyntheticDevice" where
  "device_revoke r d =
     (let out = empty_dispatch\<lparr>do_epoch := dev_highest_epoch d, do_boot := dev_boot d\<rparr>
      in (case incarnation_ok (rr_epoch r) (dev_highest_epoch d) (rr_boot r) (dev_admitted_boot d) of
          Some reason \<Rightarrow>
            (out\<lparr>do_status := DispatchStatus_Rejected, do_reason := reason,
                 do_detail := ''device refused a revoke from a fenced incarnation''\<rparr>,
             fence_account reason d)
        | None \<Rightarrow>
            (out\<lparr>do_status := DispatchStatus_Completed, do_reason := R_RevokeVerified,
                 do_detail := ''device holds no envelope for this binding''\<rparr>,
             account (\<lambda>a. a\<lparr>da_revokes := da_revokes a + 1\<rparr>)
               (d\<lparr>dev_table := table_erase (id_value (rr_envelope r)) (dev_table d)\<rparr>))))"

text \<open>The answer for an entry the device holds at the requested generation.\<close>

definition observe_entry ::
  "SyntheticEntry \<Rightarrow> VerificationOutcome \<Rightarrow> SyntheticDevice \<Rightarrow> VerificationOutcome \<times> SyntheticDevice" where
  "observe_entry e out d =
     (let seen = out\<lparr>vo_status := VerificationStatus_Confirmed, vo_reason := R_ApplyVerified,
                   vo_observed_present := True, vo_observed_rate_ups := se_rate_ups e,
                   vo_observed_burst_tokens := se_burst_tokens e\<rparr>
      in if sd_underreport_every_nth_verify (dev_config d) \<noteq> 0
            \<and> dev_verify_calls d mod sd_underreport_every_nth_verify (dev_config d) = 0 then
           (seen\<lparr>vo_observed_rate_ups := 0, vo_observed_burst_tokens := 0,
                 vo_reason := R_ApplyUnderDelivered,
                 vo_detail := ''injected under-delivery readback''\<rparr>,
            account (\<lambda>a. a\<lparr>da_under_deliveries := da_under_deliveries a + 1,
                          da_injection_triggers := da_injection_triggers a + 1\<rparr>) d)
         else if sd_overreport_every_nth_verify (dev_config d) \<noteq> 0
            \<and> dev_verify_calls d mod sd_overreport_every_nth_verify (dev_config d) = 0 then
           (seen\<lparr>vo_observed_rate_ups := saturating_add (vo_observed_rate_ups seen) 1,
                 vo_reason := R_ApplyOverDeliveredRevoking,
                 vo_detail := ''injected over-delivery readback''\<rparr>,
            account (\<lambda>a. a\<lparr>da_over_deliveries := da_over_deliveries a + 1,
                          da_injection_triggers := da_injection_triggers a + 1\<rparr>) d)
         else (seen, d))"

definition device_read_back ::
  "ApplyRequest \<Rightarrow> SyntheticDevice \<Rightarrow> VerificationOutcome \<times> SyntheticDevice" where
  "device_read_back r d0 =
     (let d = d0\<lparr>dev_verify_calls := dev_verify_calls d0 + 1\<rparr>;
          out = empty_verification\<lparr>vo_epoch := dev_highest_epoch d, vo_boot := dev_boot d\<rparr>
      in (case incarnation_ok (ar_epoch r) (dev_highest_epoch d) (ar_boot r) (dev_admitted_boot d) of
          Some reason \<Rightarrow>
            (out\<lparr>vo_status := VerificationStatus_Failed, vo_reason := reason,
                 vo_detail := ''device refused a readback from a fenced incarnation''\<rparr>, d)
        | None \<Rightarrow>
            if sd_refuse_all_verifies (dev_config d)
               \<or> sd_refuse_every_nth_verify (dev_config d) \<noteq> 0
                  \<and> dev_verify_calls d mod sd_refuse_every_nth_verify (dev_config d) = 0 then
              (out\<lparr>vo_status := VerificationStatus_Failed, vo_reason := R_ApplyVerificationUnknown,
                   vo_detail := ''injected readback failure''\<rparr>,
               account (\<lambda>a. a\<lparr>da_injection_triggers := da_injection_triggers a + 1\<rparr>) d)
            else
              let d1 = account (\<lambda>a. a\<lparr>da_verifications := da_verifications a + 1\<rparr>) d;
                  existing = table_find (dev_table d1) (id_value (ar_envelope r))
              in if existing = None \<or> se_generation (the existing) \<noteq> ar_envelope_generation r then
                   (out\<lparr>vo_status := VerificationStatus_Confirmed, vo_reason := R_RevokeVerified,
                        vo_observed_present := False,
                        vo_detail := ''device holds no envelope for this binding generation''\<rparr>, d1)
                 else observe_entry (the existing) out d1))"

definition entry_count :: "SyntheticDevice \<Rightarrow> nat" where
  "entry_count d = length (dev_table d)"

definition device_lookup :: "RateEnvelopeId \<Rightarrow> SyntheticDevice \<Rightarrow> SyntheticEntry option" where
  "device_lookup e d = table_find (dev_table d) (id_value e)"

definition force_clear :: "SyntheticDevice \<Rightarrow> SyntheticDevice" where
  "force_clear d = account (\<lambda>a. a\<lparr>da_table_clears := da_table_clears a + 1\<rparr>) (d\<lparr>dev_table := []\<rparr>)"

section \<open>The in-process adapter\<close>

record SyntheticBackend =
  sb_descriptor :: BackendDescriptor
  sb_device :: SyntheticDevice
  sb_live :: bool

definition synthetic_backend ::
  "BackendId \<Rightarrow> Generation \<Rightarrow> SyntheticDeviceConfig \<Rightarrow> WorkerBootId \<Rightarrow> FabricEpoch \<Rightarrow> string
   \<Rightarrow> SyntheticBackend" where
  "synthetic_backend i g c boot epoch label =
     \<lparr>sb_descriptor =
        \<lparr>backend_id = i, backend_generation = g, backend_kind = BackendKind_Synthetic,
         backend_capabilities =
           kBackendCapApply OR kBackendCapRevoke OR kBackendCapVerify OR kBackendCapBurst,
         backend_verification = VerificationMode_PostApplyReadback,
         backend_max_rate_ups = sd_max_rate_ups c, backend_max_burst_tokens = sd_max_burst_tokens c,
         backend_label = truncate_bounded label kMaxProvenanceDetail,
         backend_provenance = (configuration_provenance ''synthetic software enforcement device'')
           \<lparr>prov_epoch := epoch, prov_boot := boot\<rparr>\<rparr>,
      sb_device = synthetic_device c boot epoch boot, sb_live = True\<rparr>"

definition session_lost_dispatch :: DispatchOutcome where
  "session_lost_dispatch =
     empty_dispatch\<lparr>do_status := DispatchStatus_Failed, do_reason := R_BackendSessionLost,
       do_detail := ''backend session is not live''\<rparr>"

definition synthetic_apply :: "ApplyRequest \<Rightarrow> SyntheticBackend \<Rightarrow> DispatchOutcome \<times> SyntheticBackend" where
  "synthetic_apply r b =
     (if \<not> sb_live b then (session_lost_dispatch, b)
      else (case device_apply r (sb_device b) of (out, d) \<Rightarrow> (out, b\<lparr>sb_device := d\<rparr>)))"

definition synthetic_revoke :: "RevokeRequest \<Rightarrow> SyntheticBackend \<Rightarrow> DispatchOutcome \<times> SyntheticBackend" where
  "synthetic_revoke r b =
     (if \<not> sb_live b then (session_lost_dispatch, b)
      else (case device_revoke r (sb_device b) of (out, d) \<Rightarrow> (out, b\<lparr>sb_device := d\<rparr>)))"

definition synthetic_verify :: "ApplyRequest \<Rightarrow> SyntheticBackend \<Rightarrow> VerificationOutcome \<times> SyntheticBackend" where
  "synthetic_verify r b =
     (if \<not> sb_live b then
        (empty_verification\<lparr>vo_status := VerificationStatus_Failed, vo_reason := R_BackendSessionLost,
           vo_detail := ''backend session is not live; effect is UNKNOWN''\<rparr>, b)
      else (case device_read_back r (sb_device b) of (out, d) \<Rightarrow> (out, b\<lparr>sb_device := d\<rparr>)))"

definition synthetic_ops :: "SyntheticBackend BackendOps" where
  "synthetic_ops =
     \<lparr>ops_describe = sb_descriptor, ops_dispatch_apply = synthetic_apply,
      ops_dispatch_revoke = synthetic_revoke, ops_verify = synthetic_verify,
      ops_session_boot = (\<lambda>b. dev_boot (sb_device b)),
      ops_session_epoch = (\<lambda>b. dev_highest_epoch (sb_device b)),
      ops_session_live = sb_live, ops_shutdown = (\<lambda>b. b)\<rparr>"

section \<open>What a fencing backend owes its coordinator\<close>

text \<open>
  \<open>holds b e\<close>: the generation, rate and burst that the backend enforces for an
  envelope.  \<open>serves b epoch boot\<close>: the incarnation may mutate the backend.
  \<open>honest b r\<close>: the readbacks that answer the request are not false.
  \<open>ok b\<close>: the backend is in a state its operations keep.
\<close>

locale fencing_backend =
  fixes ops :: "'b BackendOps"
    and holds :: "'b \<Rightarrow> RateEnvelopeId \<Rightarrow> (Generation \<times> u64 \<times> u64) option"
    and serves :: "'b \<Rightarrow> FabricEpoch \<Rightarrow> WorkerBootId \<Rightarrow> bool"
    and honest :: "'b \<Rightarrow> ApplyRequest \<Rightarrow> bool"
    and ok :: "'b \<Rightarrow> bool"
  assumes apply_ok: "ok b \<Longrightarrow> ok (snd (ops_dispatch_apply ops r b))"
    and revoke_ok: "ok b \<Longrightarrow> ok (snd (ops_dispatch_revoke ops q b))"
    and verify_ok: "ok b \<Longrightarrow> ok (snd (ops_verify ops r b))"
    and apply_honest: "ok b \<Longrightarrow> honest (snd (ops_dispatch_apply ops r b)) r' = honest b r'"
    and revoke_honest: "ok b \<Longrightarrow> honest (snd (ops_dispatch_revoke ops q b)) r' = honest b r'"
    and apply_completed:
      "ok b \<Longrightarrow> do_status (fst (ops_dispatch_apply ops r b)) = DispatchStatus_Completed \<Longrightarrow>
         serves b (ar_epoch r) (ar_boot r)
         \<and> holds (snd (ops_dispatch_apply ops r b))
           = (holds b)(ar_envelope r \<mapsto> (ar_envelope_generation r, ar_rate_ups r, ar_burst_tokens r))"
    and apply_refused:
      "ok b \<Longrightarrow> do_status (fst (ops_dispatch_apply ops r b)) \<noteq> DispatchStatus_Completed \<Longrightarrow>
         holds (snd (ops_dispatch_apply ops r b)) = holds b"
    and revoke_completed:
      "ok b \<Longrightarrow> do_status (fst (ops_dispatch_revoke ops q b)) = DispatchStatus_Completed \<Longrightarrow>
         serves b (rr_epoch q) (rr_boot q)
         \<and> holds (snd (ops_dispatch_revoke ops q b)) = (holds b)(rr_envelope q := None)"
    and revoke_refused:
      "ok b \<Longrightarrow> do_status (fst (ops_dispatch_revoke ops q b)) \<noteq> DispatchStatus_Completed \<Longrightarrow>
         holds (snd (ops_dispatch_revoke ops q b)) = holds b"
    and verify_holds: "ok b \<Longrightarrow> holds (snd (ops_verify ops r b)) = holds b"
    and verify_confirmed:
      "ok b \<Longrightarrow> honest b r \<Longrightarrow>
       vo_status (fst (ops_verify ops r b)) = VerificationStatus_Confirmed \<Longrightarrow>
         (if vo_observed_present (fst (ops_verify ops r b))
          then holds b (ar_envelope r)
               = Some (ar_envelope_generation r, vo_observed_rate_ups (fst (ops_verify ops r b)),
                       vo_observed_burst_tokens (fst (ops_verify ops r b)))
          else \<forall>g rate burst. holds b (ar_envelope r) = Some (g, rate, burst) \<longrightarrow>
                 g \<noteq> ar_envelope_generation r)"
begin

lemma fenced_apply_changes_nothing:
  "ok b \<Longrightarrow> \<not> serves b (ar_epoch r) (ar_boot r) \<Longrightarrow> holds (snd (ops_dispatch_apply ops r b)) = holds b"
  using apply_completed apply_refused by blast

lemma fenced_revoke_changes_nothing:
  "ok b \<Longrightarrow> \<not> serves b (rr_epoch q) (rr_boot q) \<Longrightarrow> holds (snd (ops_dispatch_revoke ops q b)) = holds b"
  using revoke_completed revoke_refused by blast

text \<open>A confirmed readback after a completed apply reports exactly what was applied.\<close>

lemma apply_then_verify:
  assumes "ok b" "honest b r"
    and "do_status (fst (ops_dispatch_apply ops r b)) = DispatchStatus_Completed"
    and "vo_status (fst (ops_verify ops r (snd (ops_dispatch_apply ops r b)))) = VerificationStatus_Confirmed"
  shows "vo_observed_present (fst (ops_verify ops r (snd (ops_dispatch_apply ops r b))))
    \<and> vo_observed_rate_ups (fst (ops_verify ops r (snd (ops_dispatch_apply ops r b)))) = ar_rate_ups r
    \<and> vo_observed_burst_tokens (fst (ops_verify ops r (snd (ops_dispatch_apply ops r b)))) = ar_burst_tokens r"
proof -
  let ?b = "snd (ops_dispatch_apply ops r b)"
  have h: "holds ?b (ar_envelope r) = Some (ar_envelope_generation r, ar_rate_ups r, ar_burst_tokens r)"
    using apply_completed [OF assms(1,3)] by simp
  from verify_confirmed [of ?b r] assms h show ?thesis
    by (auto simp: apply_honest apply_ok split: if_splits)
qed

text \<open>A confirmed readback after a completed revoke reports that nothing is held.\<close>

lemma revoke_then_verify:
  assumes "ok b" "honest b r" "rr_envelope q = ar_envelope r"
    and "do_status (fst (ops_dispatch_revoke ops q b)) = DispatchStatus_Completed"
    and "vo_status (fst (ops_verify ops r (snd (ops_dispatch_revoke ops q b)))) = VerificationStatus_Confirmed"
  shows "\<not> vo_observed_present (fst (ops_verify ops r (snd (ops_dispatch_revoke ops q b))))"
proof -
  let ?b = "snd (ops_dispatch_revoke ops q b)"
  have "holds ?b (ar_envelope r) = None"
    using revoke_completed [OF assms(1,4)] assms(3) by simp
  with verify_confirmed [of ?b r] assms show ?thesis
    by (auto simp: revoke_honest revoke_ok split: if_splits)
qed

end

subsection \<open>The synthetic backend honours the contract\<close>

definition device_holds :: "SyntheticDevice \<Rightarrow> RateEnvelopeId \<Rightarrow> (Generation \<times> u64 \<times> u64) option" where
  "device_holds d e =
     map_option (\<lambda>x. (se_generation x, se_rate_ups x, se_burst_tokens x)) (device_lookup e d)"

definition device_serves :: "SyntheticDevice \<Rightarrow> FabricEpoch \<Rightarrow> WorkerBootId \<Rightarrow> bool" where
  "device_serves d epoch boot \<longleftrightarrow> epoch = dev_highest_epoch d \<and> boot = dev_admitted_boot d"

definition device_honest :: "SyntheticDevice \<Rightarrow> bool" where
  "device_honest d \<longleftrightarrow>
     sd_underreport_every_nth_verify (dev_config d) = 0
     \<and> sd_overreport_every_nth_verify (dev_config d) = 0"

lemma incarnation_ok_None:
  "incarnation_ok e h b a = None \<longleftrightarrow> e = h \<and> b = a"
  by (auto simp: incarnation_ok_def)

lemma account_frame [simp]:
  "dev_table (account f d) = dev_table d" "dev_config (account f d) = dev_config d"
  "dev_highest_epoch (account f d) = dev_highest_epoch d" "dev_boot (account f d) = dev_boot d"
  "dev_admitted_boot (account f d) = dev_admitted_boot d"
  by (simp_all add: account_def)

lemmas counting_defs = fence_account_def count_refusal_def count_limit_refusal_def

lemma device_apply_refusal_Some:
  assumes "device_apply_refusal r d = Some (out, d')"
  shows "do_status out \<noteq> DispatchStatus_Completed \<and> dev_table d' = dev_table d
    \<and> dev_config d' = dev_config d"
proof -
  have r: "do_status out = st \<and> d' = d''"
    if "refuse_apply st reason detail d d'' = Some (out, d')" for st reason detail d''
    using that by (auto simp: refuse_apply_def)
  show ?thesis
    using assms unfolding device_apply_refusal_def
    by (simp split: option.splits if_splits add: counting_defs) (auto dest!: r)
qed

lemma device_apply_refusal_None:
  "device_apply_refusal r d = None \<Longrightarrow> device_serves d (ar_epoch r) (ar_boot r)"
  by (auto simp: device_apply_refusal_def device_serves_def refuse_apply_def
      incarnation_ok_None [symmetric] split: option.splits)

lemma device_serves_calls [simp]:
  "device_serves (d\<lparr>dev_apply_calls := n\<rparr>) e b = device_serves d e b"
  by (simp add: device_serves_def)

lemma device_apply_cases:
  obtains (refused) "do_status (fst (device_apply r d)) \<noteq> DispatchStatus_Completed"
    "dev_table (snd (device_apply r d)) = dev_table d"
    "dev_config (snd (device_apply r d)) = dev_config d"
  | (completed) e where "do_status (fst (device_apply r d)) = DispatchStatus_Completed"
    "device_serves d (ar_epoch r) (ar_boot r)"
    "dev_config (snd (device_apply r d)) = dev_config d"
    "dev_table (snd (device_apply r d)) = table_put (id_value (ar_envelope r)) e (dev_table d)"
    "se_generation e = ar_envelope_generation r" "se_rate_ups e = ar_rate_ups r"
    "se_burst_tokens e = ar_burst_tokens r"
    "do_applied_rate_ups (fst (device_apply r d)) = ar_rate_ups r"
    "do_applied_burst_tokens (fst (device_apply r d)) = ar_burst_tokens r"
proof (cases "device_apply_refusal r (d\<lparr>dev_apply_calls := dev_apply_calls d + 1\<rparr>)")
  case None
  then show ?thesis
    using completed device_apply_refusal_None [OF None] by (simp add: device_apply_def Let_def)
next
  case (Some p)
  then show ?thesis
    using refused device_apply_refusal_Some [of r _ "fst p" "snd p"]
    by (simp add: device_apply_def)
qed

lemma device_apply_table_ok: "table_ok (dev_table d) \<Longrightarrow> table_ok (dev_table (snd (device_apply r d)))"
  by (cases rule: device_apply_cases [of r d]) (auto simp: table_ok_put)

lemma device_revoke_cases:
  "do_status (fst (device_revoke r d)) = DispatchStatus_Completed \<Longrightarrow>
     device_serves d (rr_epoch r) (rr_boot r)
     \<and> dev_table (snd (device_revoke r d)) = table_erase (id_value (rr_envelope r)) (dev_table d)"
  "do_status (fst (device_revoke r d)) \<noteq> DispatchStatus_Completed \<Longrightarrow>
     dev_table (snd (device_revoke r d)) = dev_table d"
  "dev_config (snd (device_revoke r d)) = dev_config d"
  by (auto simp: device_revoke_def Let_def counting_defs device_serves_def
      incarnation_ok_None [symmetric] split: option.splits)

lemma observe_entry_frame:
  "dev_table (snd (observe_entry e out d)) = dev_table d"
  "vo_observed_present (fst (observe_entry e out d))"
  "device_honest d \<Longrightarrow> vo_observed_rate_ups (fst (observe_entry e out d)) = se_rate_ups e
     \<and> vo_observed_burst_tokens (fst (observe_entry e out d)) = se_burst_tokens e"
  by (simp_all add: observe_entry_def Let_def device_honest_def)

lemma device_read_back_table [simp]: "dev_table (snd (device_read_back r d)) = dev_table d"
  by (simp add: device_read_back_def Let_def observe_entry_frame split: option.splits)

lemma device_read_back_confirmed:
  assumes "device_honest d" "vo_status (fst (device_read_back r d)) = VerificationStatus_Confirmed"
  shows "if vo_observed_present (fst (device_read_back r d))
         then device_holds d (ar_envelope r)
              = Some (ar_envelope_generation r, vo_observed_rate_ups (fst (device_read_back r d)),
                      vo_observed_burst_tokens (fst (device_read_back r d)))
         else \<forall>g rate burst. device_holds d (ar_envelope r) = Some (g, rate, burst) \<longrightarrow>
                g \<noteq> ar_envelope_generation r"
proof -
  let ?d = "account (\<lambda>a. a\<lparr>da_verifications := da_verifications a + 1\<rparr>)
      (d\<lparr>dev_verify_calls := dev_verify_calls d + 1\<rparr>)"
  let ?e = "table_find (dev_table d) (id_value (ar_envelope r))"
  have h: "device_honest ?d" using assms(1) by (simp add: device_honest_def)
  have inc: "incarnation_ok (ar_epoch r) (dev_highest_epoch d) (ar_boot r) (dev_admitted_boot d) = None"
    using assms(2) by (cases "incarnation_ok (ar_epoch r) (dev_highest_epoch d) (ar_boot r)
        (dev_admitted_boot d)") (simp_all add: device_read_back_def Let_def)
  show ?thesis
  proof (cases "?e = None \<or> se_generation (the ?e) \<noteq> ar_envelope_generation r")
    case True
    then have "\<not> vo_observed_present (fst (device_read_back r d))"
      using inc by (simp add: device_read_back_def Let_def empty_verification_def)
    then show ?thesis using True by (auto simp: device_holds_def device_lookup_def)
  next
    case False
    then obtain out where "fst (device_read_back r d) = fst (observe_entry (the ?e) out ?d)"
      using assms(2) inc by (auto simp: device_read_back_def Let_def split: if_splits)
    then show ?thesis
      using False h by (auto simp: observe_entry_frame device_holds_def device_lookup_def)
  qed
qed

lemma device_holds_put:
  "dev_table d' = table_put (id_value e) x (dev_table d) \<Longrightarrow>
     device_holds d' = (device_holds d)(e \<mapsto> (se_generation x, se_rate_ups x, se_burst_tokens x))"
  by (auto simp: device_holds_def device_lookup_def fun_eq_iff StrongId.expand)

lemma device_holds_erase:
  "table_ok (dev_table d) \<Longrightarrow> dev_table d' = table_erase (id_value e) (dev_table d) \<Longrightarrow>
     device_holds d' = (device_holds d)(e := None)"
  by (auto simp: device_holds_def device_lookup_def fun_eq_iff StrongId.expand table_find_erase)

lemma device_holds_same: "dev_table d' = dev_table d \<Longrightarrow> device_holds d' = device_holds d"
  by (auto simp: device_holds_def device_lookup_def fun_eq_iff)

lemma fencing_synthetic:
  "fencing_backend synthetic_ops (\<lambda>b. device_holds (sb_device b))
     (\<lambda>b e i. sb_live b \<and> device_serves (sb_device b) e i) (\<lambda>b r. device_honest (sb_device b))
     (\<lambda>b. table_ok (dev_table (sb_device b)))"
proof
  fix b :: SyntheticBackend and r q and r' :: ApplyRequest
  let ?a = "device_apply r (sb_device b)" and ?q = "device_revoke q (sb_device b)"
  have a: "fst (synthetic_apply r b) = (if sb_live b then fst ?a else session_lost_dispatch)"
    "sb_device (snd (synthetic_apply r b)) = (if sb_live b then snd ?a else sb_device b)"
    by (simp_all add: synthetic_apply_def split: prod.splits)
  have v: "fst (synthetic_revoke q b) = (if sb_live b then fst ?q else session_lost_dispatch)"
    "sb_device (snd (synthetic_revoke q b)) = (if sb_live b then snd ?q else sb_device b)"
    by (simp_all add: synthetic_revoke_def split: prod.splits)
  show "table_ok (dev_table (sb_device b)) \<Longrightarrow>
      table_ok (dev_table (sb_device (snd (ops_dispatch_apply synthetic_ops r b))))"
    by (simp add: synthetic_ops_def a device_apply_table_ok)
  show "table_ok (dev_table (sb_device b)) \<Longrightarrow>
      table_ok (dev_table (sb_device (snd (ops_dispatch_revoke synthetic_ops q b))))"
    using device_revoke_cases [of q "sb_device b"]
    by (cases "do_status (fst ?q) = DispatchStatus_Completed")
       (auto simp: synthetic_ops_def v table_ok_erase)
  show "table_ok (dev_table (sb_device b)) \<Longrightarrow>
      table_ok (dev_table (sb_device (snd (ops_verify synthetic_ops r b))))"
    using device_read_back_table [of r "sb_device b"]
    by (auto simp: synthetic_ops_def synthetic_verify_def simp del: device_read_back_table
        split: prod.splits)
  show "device_honest (sb_device (snd (ops_dispatch_apply synthetic_ops r b)))
      = device_honest (sb_device b)"
    by (cases rule: device_apply_cases [of r "sb_device b"])
       (auto simp: synthetic_ops_def a device_honest_def)
  show "device_honest (sb_device (snd (ops_dispatch_revoke synthetic_ops q b)))
      = device_honest (sb_device b)"
    using device_revoke_cases(3) [of q "sb_device b"]
    by (auto simp: synthetic_ops_def v device_honest_def)
  show "do_status (fst (ops_dispatch_apply synthetic_ops r b)) = DispatchStatus_Completed \<Longrightarrow>
      (sb_live b \<and> device_serves (sb_device b) (ar_epoch r) (ar_boot r))
      \<and> device_holds (sb_device (snd (ops_dispatch_apply synthetic_ops r b)))
        = (device_holds (sb_device b))(ar_envelope r
            \<mapsto> (ar_envelope_generation r, ar_rate_ups r, ar_burst_tokens r))"
    by (cases rule: device_apply_cases [of r "sb_device b"])
       (auto simp: synthetic_ops_def a session_lost_dispatch_def dest: device_holds_put split: if_splits)
  show "do_status (fst (ops_dispatch_apply synthetic_ops r b)) \<noteq> DispatchStatus_Completed \<Longrightarrow>
      device_holds (sb_device (snd (ops_dispatch_apply synthetic_ops r b))) = device_holds (sb_device b)"
    by (cases rule: device_apply_cases [of r "sb_device b"])
       (auto simp: synthetic_ops_def a dest: device_holds_same split: if_splits)
  show "table_ok (dev_table (sb_device b)) \<Longrightarrow>
      do_status (fst (ops_dispatch_revoke synthetic_ops q b)) = DispatchStatus_Completed \<Longrightarrow>
      (sb_live b \<and> device_serves (sb_device b) (rr_epoch q) (rr_boot q))
      \<and> device_holds (sb_device (snd (ops_dispatch_revoke synthetic_ops q b)))
        = (device_holds (sb_device b))(rr_envelope q := None)"
    using device_revoke_cases [of q "sb_device b"]
    by (auto simp: synthetic_ops_def v session_lost_dispatch_def dest: device_holds_erase split: if_splits)
  show "do_status (fst (ops_dispatch_revoke synthetic_ops q b)) \<noteq> DispatchStatus_Completed \<Longrightarrow>
      device_holds (sb_device (snd (ops_dispatch_revoke synthetic_ops q b))) = device_holds (sb_device b)"
    using device_revoke_cases [of q "sb_device b"]
    by (auto simp: synthetic_ops_def v dest: device_holds_same split: if_splits)
  show "device_holds (sb_device (snd (ops_verify synthetic_ops r b))) = device_holds (sb_device b)"
    using device_holds_same [OF device_read_back_table, of r "sb_device b"]
    by (simp add: synthetic_ops_def synthetic_verify_def split: prod.splits) auto
  show "device_honest (sb_device b) \<Longrightarrow>
      vo_status (fst (ops_verify synthetic_ops r b)) = VerificationStatus_Confirmed \<Longrightarrow>
      if vo_observed_present (fst (ops_verify synthetic_ops r b))
      then device_holds (sb_device b) (ar_envelope r)
           = Some (ar_envelope_generation r, vo_observed_rate_ups (fst (ops_verify synthetic_ops r b)),
                   vo_observed_burst_tokens (fst (ops_verify synthetic_ops r b)))
      else \<forall>g rate burst. device_holds (sb_device b) (ar_envelope r) = Some (g, rate, burst) \<longrightarrow>
             g \<noteq> ar_envelope_generation r"
    using device_read_back_confirmed [of "sb_device b" r]
    by (auto simp: synthetic_ops_def synthetic_verify_def split: prod.splits if_splits)
qed

interpretation synthetic: fencing_backend synthetic_ops "\<lambda>b. device_holds (sb_device b)"
  "\<lambda>b e i. sb_live b \<and> device_serves (sb_device b) e i" "\<lambda>b r. device_honest (sb_device b)"
  "\<lambda>b. table_ok (dev_table (sb_device b))"
  by (rule fencing_synthetic)

interpretation unsupported: fencing_backend unsupported_ops "\<lambda>b e. None" "\<lambda>b e i. False" "\<lambda>b r. True"
  "\<lambda>b. True"
  by unfold_locales
     (auto simp: unsupported_ops_def unsupported_apply_def unsupported_revoke_def
       unsupported_verify_def empty_dispatch_def empty_verification_def)

section \<open>Properties\<close>


definition example_device_config :: SyntheticDeviceConfig where
  "example_device_config =
     \<lparr>sd_max_rate_ups = 0, sd_max_burst_tokens = 0, sd_envelope_limit = 4,
      sd_fail_every_nth_apply = 0, sd_refuse_every_nth_verify = 0,
      sd_underreport_every_nth_verify = 0, sd_overreport_every_nth_verify = 0,
      sd_refuse_all_applies = False, sd_refuse_all_verifies = False, sd_apply_spins = 0\<rparr>"

definition example_apply_request :: ApplyRequest where
  "example_apply_request =
     \<lparr>ar_attempt = StrongId 1, ar_envelope = StrongId 9, ar_envelope_generation = StrongId 1,
      ar_fingerprint = empty_fingerprint, ar_rate_ups = 400, ar_burst_tokens = 30,
      ar_refill = RefillSemantics_Unknown, ar_epoch = StrongId 1, ar_boot = StrongId 7,
      ar_issued_ns = 20\<rparr>"


text \<open>
  On the synthetic backend without false readbacks, a completed apply followed
  by a confirmed readback observes the envelope present with exactly the requested
  rate and burst, and a completed revoke followed by a confirmed readback observes
  it absent; neither touches what the device holds for another envelope.
\<close>

theorem synthetic_effect_is_observed:
  assumes "device_honest (sb_device b)" "table_ok (dev_table (sb_device b))"
  shows "(do_status (fst (synthetic_apply r b)) = DispatchStatus_Completed
          \<and> vo_status (fst (synthetic_verify r (snd (synthetic_apply r b)))) = VerificationStatus_Confirmed \<longrightarrow>
            vo_observed_present (fst (synthetic_verify r (snd (synthetic_apply r b))))
            \<and> vo_observed_rate_ups (fst (synthetic_verify r (snd (synthetic_apply r b)))) = ar_rate_ups r
            \<and> vo_observed_burst_tokens (fst (synthetic_verify r (snd (synthetic_apply r b)))) = ar_burst_tokens r)
         \<and> (do_status (fst (synthetic_revoke q b)) = DispatchStatus_Completed
          \<and> rr_envelope q = ar_envelope r
          \<and> vo_status (fst (synthetic_verify r (snd (synthetic_revoke q b)))) = VerificationStatus_Confirmed \<longrightarrow>
            \<not> vo_observed_present (fst (synthetic_verify r (snd (synthetic_revoke q b)))))
         \<and> (e \<noteq> ar_envelope r \<longrightarrow>
            device_holds (sb_device (snd (synthetic_apply r b))) e = device_holds (sb_device b) e)"
proof -
  have ops: "ops_dispatch_apply synthetic_ops = synthetic_apply"
    "ops_dispatch_revoke synthetic_ops = synthetic_revoke" "ops_verify synthetic_ops = synthetic_verify"
    by (simp_all add: synthetic_ops_def)
  have "device_holds (sb_device (snd (synthetic_apply r b))) e = device_holds (sb_device b) e"
    if "e \<noteq> ar_envelope r"
    using that assms(2) synthetic.apply_completed [of b r] synthetic.apply_refused [of b r] unfolding ops
    by (cases "do_status (fst (synthetic_apply r b)) = DispatchStatus_Completed") simp_all
  then show ?thesis
    using synthetic.apply_then_verify [of b r, unfolded ops, OF assms(2,1)]
      synthetic.revoke_then_verify [where b = b and r = r and q = q, unfolded ops, OF assms(2,1)] by blast
qed

theorem synthetic_effect_is_observed_witness:
  "vo_observed_rate_ups (fst (synthetic_verify example_apply_request (snd (synthetic_apply
     example_apply_request
     (synthetic_backend (StrongId 5) (StrongId 1) example_device_config (StrongId 7) (StrongId 1) []))))) = 400"
proof -
  let ?b = "synthetic_backend (StrongId 5) (StrongId 1) example_device_config (StrongId 7) (StrongId 1) []"
  have 1: "do_status (fst (synthetic_apply example_apply_request ?b)) = DispatchStatus_Completed"
    by (simp add: synthetic_apply_def synthetic_backend_def synthetic_device_def device_apply_def
        device_apply_refusal_def incarnation_ok_def example_apply_request_def
        example_device_config_def id_valid_def Let_def)
  have 2: "vo_status (fst (synthetic_verify example_apply_request
      (snd (synthetic_apply example_apply_request ?b)))) = VerificationStatus_Confirmed"
    by (simp add: synthetic_apply_def synthetic_verify_def synthetic_backend_def synthetic_device_def
        device_apply_def device_apply_refusal_def device_read_back_def observe_entry_def
        incarnation_ok_def example_apply_request_def example_device_config_def id_valid_def
        Let_def account_def)
  show ?thesis
    using synthetic_effect_is_observed [of ?b example_apply_request] 1 2
    by (simp add: device_honest_def synthetic_backend_def synthetic_device_def
        example_device_config_def example_apply_request_def)
qed

end
