(* ===== verification/Engine_State.thy ===== *)
theory Engine_State
  imports Plan Journal Backend
begin

text \<open>
  The engine's state and the helpers that run under its lock
  (\<^verbatim>\<open>include/rate_governor/engine.hpp\<close>, \<^verbatim>\<open>src/engine.cpp\<close>): configuration, counters,
  audit events, the tables, durable commits with compaction, replay of durable
  records, retention of attempts, the actor check and the ingest of authorities.
  A member function that runs under the lock is a function on the state; the clock
  reading that the code takes is an argument.  Message texts, the detail text of an
  event and the instant of an event are not modelled: nothing reads them.
\<close>

section \<open>Configuration, counters and events\<close>

datatype DurabilityMode = DurabilityMode_None | DurabilityMode_Strict

record EngineConfig =
  ec_initial_epoch :: FabricEpoch
  ec_boot :: WorkerBootId
  ec_advance_epoch_on_recovery :: bool
  ec_durability :: DurabilityMode
  ec_max_envelopes :: u64
  ec_max_flows :: u64
  ec_max_grants :: u64
  ec_max_reservations :: u64
  ec_max_policies :: u64
  ec_max_resources :: u64
  ec_max_backends :: u64
  ec_max_attempts_per_envelope :: u64
  ec_max_audit_events :: u64
  ec_max_attribute_bytes :: u64
  ec_attempt_deadline_ns :: u64
  ec_revalidate_interval_ns :: u64
  ec_journal :: JournalConfig

record AuditEvent =
  ev_sequence :: AuditSequence
  ev_epoch :: FabricEpoch
  ev_boot :: WorkerBootId
  ev_reason :: ReasonCode
  ev_klass :: ReasonClass
  ev_envelope :: RateEnvelopeId
  ev_envelope_generation :: Generation
  ev_attempt :: EnforcementAttemptId

record EngineCounters =
  ct_envelopes_opened :: u64
  ct_plans_authorized :: u64
  ct_plans_denied :: u64
  ct_applies_dispatched :: u64
  ct_applies_verified :: u64
  ct_applies_degraded :: u64
  ct_revokes_dispatched :: u64
  ct_revokes_verified :: u64
  ct_completions_accepted :: u64
  ct_completions_rejected :: u64
  ct_completions_duplicate :: u64
  ct_stale_transitions :: u64
  ct_fencing_rejections :: u64
  ct_idempotent_replays :: u64
  ct_journal_commits :: u64
  ct_journal_failures :: u64
  ct_compactions :: u64
  ct_events_emitted :: u64
  ct_events_dropped :: u64
  ct_work_rejected_shutdown :: u64
  ct_clock_regressions :: u64
  ct_token_consumptions :: u64
  ct_token_starvations :: u64

definition empty_counters :: EngineCounters where
  "empty_counters =
     \<lparr>ct_envelopes_opened = 0, ct_plans_authorized = 0, ct_plans_denied = 0,
      ct_applies_dispatched = 0, ct_applies_verified = 0, ct_applies_degraded = 0,
      ct_revokes_dispatched = 0, ct_revokes_verified = 0, ct_completions_accepted = 0,
      ct_completions_rejected = 0, ct_completions_duplicate = 0, ct_stale_transitions = 0,
      ct_fencing_rejections = 0, ct_idempotent_replays = 0, ct_journal_commits = 0,
      ct_journal_failures = 0, ct_compactions = 0, ct_events_emitted = 0,
      ct_events_dropped = 0, ct_work_rejected_shutdown = 0, ct_clock_regressions = 0,
      ct_token_consumptions = 0, ct_token_starvations = 0\<rparr>"

section \<open>The engine\<close>

text \<open>
  The backend pointer is the backend's operations with its state, or nothing; the
  journal pointer is the journal or nothing.
\<close>

record 'b Engine =
  eng_config :: EngineConfig
  eng_backend :: "('b BackendOps \<times> 'b) option"
  eng_journal :: "Journal option"
  eng_epoch :: FabricEpoch
  eng_backend_bound :: bool
  eng_backend_session_epoch :: FabricEpoch
  eng_durability_degraded :: bool
  eng_flows :: "Flow table"
  eng_grants :: "Grant table"
  eng_reservations :: "Reservation table"
  eng_policies :: "Policy table"
  eng_resources :: "Resource table"
  eng_backends :: "BackendDescriptor table"
  eng_envelopes :: "RateEnvelope table"
  eng_attempts :: "EnforcementAttempt table"
  eng_attempt_order :: "u64 list"
  eng_attempts_by_envelope :: "u64 list table"
  eng_events :: "AuditEvent list"
  eng_next_envelope_id :: u64
  eng_next_attempt_id :: u64
  eng_next_event_sequence :: u64
  eng_next_txn_id :: u64
  eng_attempt_sequence :: u64
  eng_events_dropped :: u64
  eng_recovery_orphan_records :: u64
  eng_last_tick_ns :: TimestampNs
  eng_tick_seen :: bool
  eng_counters :: EngineCounters
  eng_shutting_down :: bool

definition count :: "(EngineCounters \<Rightarrow> EngineCounters) \<Rightarrow> 'b Engine \<Rightarrow> 'b Engine" where
  "count f e = e\<lparr>eng_counters := f (eng_counters e)\<rparr>"

text \<open>The status of a refused or failed call, the state being what the call left.\<close>

definition fail :: "ErrorCode \<Rightarrow> ReasonCode \<Rightarrow> 'a Result" where
  "fail c r = Inl (Error c r)"

section \<open>Durability\<close>

definition journaling_locked :: "'b Engine \<Rightarrow> bool" where
  "journaling_locked e \<longleftrightarrow>
     (case eng_journal e of None \<Rightarrow> False | Some j \<Rightarrow> jn_open j)
     \<and> ec_durability (eng_config e) = DurabilityMode_Strict \<and> \<not> eng_durability_degraded e"

definition durable_status_locked :: "'b Engine \<Rightarrow> 'a Result \<times> 'b Engine" where
  "durable_status_locked e =
     (fail ErrorCode_JournalFailure R_JournalAppendFailed,
      count (\<lambda>c. c\<lparr>ct_journal_failures := ct_journal_failures c + 1\<rparr>)
        (e\<lparr>eng_durability_degraded := True\<rparr>))"

definition snapshot_record :: "JournalRecordType \<Rightarrow> bytes \<Rightarrow> JournalRecord" where
  "snapshot_record t payload = \<lparr>jr_type = t, jr_sequence = 0, jr_txn_id = 0, jr_payload = payload\<rparr>"

definition build_snapshot_records_locked :: "'b Engine \<Rightarrow> JournalRecord list" where
  "build_snapshot_records_locked e =
     map (\<lambda>x. snapshot_record JT_FlowPut (encode_flow (snd x))) (eng_flows e)
     @ map (\<lambda>x. snapshot_record JT_GrantPut (encode_grant (snd x))) (eng_grants e)
     @ map (\<lambda>x. snapshot_record JT_ReservationPut (encode_reservation (snd x))) (eng_reservations e)
     @ map (\<lambda>x. snapshot_record JT_PolicyPut (encode_policy (snd x))) (eng_policies e)
     @ map (\<lambda>x. snapshot_record JT_ResourcePut (encode_resource (snd x))) (eng_resources e)
     @ map (\<lambda>x. snapshot_record JT_BackendPut (encode_backend (snd x))) (eng_backends e)
     @ [snapshot_record JT_EpochAdvance
          (encode_epoch_payload (eng_epoch e) (ec_boot (eng_config e)) R_None)]
     @ map (\<lambda>x. snapshot_record JT_EnvelopeOpened (encode_envelope (snd x))) (eng_envelopes e)
     @ map (\<lambda>x. snapshot_record JT_AttemptCreated (encode_attempt (snd x))) (eng_attempts e)"

definition maybe_compact_locked :: "'b Engine \<Rightarrow> 'b Engine" where
  "maybe_compact_locked e =
     (case eng_journal e of
        None \<Rightarrow> e
      | Some j \<Rightarrow>
          if \<not> jn_open j then e
          else
            let limit = jc_max_bytes (jn_config j)
            in if limit = 0 \<or> jn_size_bytes j \<le> limit then e
               else (case compact_with (build_snapshot_records_locked e) j of (res, j1) \<Rightarrow>
                   let e1 = e\<lparr>eng_journal := Some j1\<rparr>
                   in if \<not> jres_ok res then snd (durable_status_locked e1 :: unit Result \<times> 'b Engine)
                      else count (\<lambda>c. c\<lparr>ct_compactions := ct_compactions c + 1\<rparr>) e1))"

definition commit_records_locked :: "StagedRecords \<Rightarrow> 'b Engine \<Rightarrow> Status \<times> 'b Engine" where
  "commit_records_locked records e =
     (if ec_durability (eng_config e) \<noteq> DurabilityMode_Strict then (Inr (), e)
      else if eng_durability_degraded e then (fail ErrorCode_JournalFailure R_JournalAppendFailed, e)
      else (case eng_journal e of
          None \<Rightarrow> (fail ErrorCode_JournalFailure R_JournalAppendFailed, e)
        | Some j \<Rightarrow>
            if \<not> jn_open j then (fail ErrorCode_JournalFailure R_JournalAppendFailed, e)
            else if records = [] then (Inr (), e)
            else
              (case journal_transaction (eng_next_txn_id e) records j of (res, j1) \<Rightarrow>
                 let e1 = e\<lparr>eng_next_txn_id := eng_next_txn_id e + 1, eng_journal := Some j1\<rparr>
                 in if \<not> jres_ok res then durable_status_locked e1
                    else (Inr (), maybe_compact_locked
                            (count (\<lambda>c. c\<lparr>ct_journal_commits := ct_journal_commits c + 1\<rparr>) e1)))))"

definition commit_one_locked :: "JournalRecordType \<Rightarrow> bytes \<Rightarrow> 'b Engine \<Rightarrow> Status \<times> 'b Engine" where
  "commit_one_locked t payload e = commit_records_locked [(t, payload)] e"

definition kMaxRecordsPerTransaction :: nat where
  "kMaxRecordsPerTransaction = 256"

function commit_many_locked :: "StagedRecords \<Rightarrow> 'b Engine \<Rightarrow> Status \<times> 'b Engine" where
  "commit_many_locked records e =
     (if records = [] then (Inr (), e)
      else (case commit_records_locked (take kMaxRecordsPerTransaction records) e of
          (Inl err, e1) \<Rightarrow> (Inl err, e1)
        | (Inr _, e1) \<Rightarrow> commit_many_locked (drop kMaxRecordsPerTransaction records) e1))"
  by pat_completeness auto
termination
  by (relation "measure (\<lambda>(records, e). length records)")
     (auto simp: kMaxRecordsPerTransaction_def)

declare commit_many_locked.simps [simp del]

definition write_incarnation_banner_locked :: "'b Engine \<Rightarrow> 'b Engine" where
  "write_incarnation_banner_locked e =
     snd (commit_one_locked JT_EpochAdvance
       (encode_epoch_payload (eng_epoch e) (ec_boot (eng_config e)) R_EngineShutdown) e)"

definition stage_envelope :: "RateEnvelope \<Rightarrow> JournalRecordType \<Rightarrow> JournalRecordType \<times> bytes" where
  "stage_envelope env t = (t, encode_envelope env)"

definition stage_attempt :: "EnforcementAttempt \<Rightarrow> JournalRecordType \<Rightarrow> JournalRecordType \<times> bytes" where
  "stage_attempt a t = (t, encode_attempt a)"

section \<open>Events, lookup and the actor check\<close>

definition push_event_locked ::
  "ReasonCode \<Rightarrow> RateEnvelopeId \<Rightarrow> Generation \<Rightarrow> EnforcementAttemptId \<Rightarrow> 'b Engine \<Rightarrow> 'b Engine" where
  "push_event_locked reason env gen att e =
     (let ev = \<lparr>ev_sequence = StrongId (eng_next_event_sequence e), ev_epoch = eng_epoch e,
                ev_boot = ec_boot (eng_config e), ev_reason = reason, ev_klass = classify reason,
                ev_envelope = env, ev_envelope_generation = gen, ev_attempt = att\<rparr>;
          all = eng_events e @ [ev];
          dropped = length all - unat (ec_max_audit_events (eng_config e))
      in count (\<lambda>c. c\<lparr>ct_events_dropped := ct_events_dropped c + of_nat dropped,
                     ct_events_emitted := ct_events_emitted c + 1\<rparr>)
           (e\<lparr>eng_next_event_sequence := eng_next_event_sequence e + 1,
              eng_events := drop dropped all,
              eng_events_dropped := eng_events_dropped e + of_nat dropped\<rparr>))"

definition find_envelope_locked :: "RateEnvelopeId \<Rightarrow> 'b Engine \<Rightarrow> RateEnvelope option" where
  "find_envelope_locked i e = table_find (eng_envelopes e) (id_value i)"

definition find_attempt_locked :: "EnforcementAttemptId \<Rightarrow> 'b Engine \<Rightarrow> EnforcementAttempt option" where
  "find_attempt_locked i e = table_find (eng_attempts e) (id_value i)"

text \<open>The reason of a refusal, or nothing when the actor may act.\<close>

definition check_actor_locked :: "ActorContext \<Rightarrow> 'b Engine \<Rightarrow> ReasonCode option" where
  "check_actor_locked actor e =
     (if \<not> has_incarnation actor then Some R_UnknownAuthority
      else if actor_epoch actor \<noteq> eng_epoch e
      then Some (if actor_epoch actor < eng_epoch e then R_AttemptFencedByEpoch else R_UnknownAuthority)
      else if actor_boot actor \<noteq> ec_boot (eng_config e) then Some R_AttemptFencedByBoot
      else if \<not> authoritative (actor_provenance actor) then Some R_UnknownAuthority
      else None)"

section \<open>Retention of attempts\<close>

text \<open>The first attempt of a list that the table holds in a terminal state.\<close>

definition first_terminal :: "EnforcementAttempt table \<Rightarrow> u64 list \<Rightarrow> u64 option" where
  "first_terminal m ids =
     List.find (\<lambda>k. case table_find m k of
        Some a \<Rightarrow> attempt_state_is_terminal (att_state a) | None \<Rightarrow> False) ids"

function evict_terminal ::
  "nat \<Rightarrow> u64 list \<Rightarrow> EnforcementAttempt table \<Rightarrow> u64 list
   \<Rightarrow> u64 list \<times> EnforcementAttempt table \<times> u64 list" where
  "evict_terminal limit ids m order =
     (if limit < length ids then
        (case first_terminal m ids of
           None \<Rightarrow> (ids, m, order)
         | Some victim \<Rightarrow>
             evict_terminal limit (remove1 victim ids) (table_erase victim m)
               (filter (\<lambda>k. k \<noteq> victim) order))
      else (ids, m, order))"
  by pat_completeness auto
termination
  by (relation "measure (\<lambda>(limit, ids, m, order). length ids)")
     (auto simp: first_terminal_def find_Some_iff length_remove1)

declare evict_terminal.simps [simp del]

definition retain_attempt_locked :: "EnforcementAttempt \<Rightarrow> 'b Engine \<Rightarrow> 'b Engine" where
  "retain_attempt_locked a e =
     (let k = id_value (att_id a);
          owner = id_value (att_envelope a);
          m = table_put k a (eng_attempts e);
          old = (case table_find (eng_attempts_by_envelope e) owner of Some l \<Rightarrow> l | None \<Rightarrow> []);
          ids = (if k \<in> set old then old else old @ [k]);
          order = (if k \<in> set old then eng_attempt_order e else eng_attempt_order e @ [k])
      in (case evict_terminal (unat (ec_max_attempts_per_envelope (eng_config e))) ids m order of
          (ids1, m1, order1) \<Rightarrow>
            let excess = length order1
                  - unat (ec_max_envelopes (eng_config e) * ec_max_attempts_per_envelope (eng_config e))
            in e\<lparr>eng_attempts := fold table_erase (take excess order1) m1,
                 eng_attempt_order := drop excess order1,
                 eng_attempts_by_envelope := table_put owner ids1 (eng_attempts_by_envelope e)\<rparr>))"

section \<open>Replay of durable records\<close>

definition orphan :: "'b Engine \<Rightarrow> 'b Engine" where
  "orphan e = e\<lparr>eng_recovery_orphan_records := eng_recovery_orphan_records e + 1\<rparr>"

definition replay_envelope :: "bytes \<Rightarrow> 'b Engine \<Rightarrow> 'b Engine" where
  "replay_envelope payload e =
     (case decode_envelope payload of
        None \<Rightarrow> orphan e
      | Some (env, _) \<Rightarrow>
          let k = id_value (env_id env)
          in e\<lparr>eng_envelopes := table_put k env (eng_envelopes e),
               eng_next_envelope_id := (if eng_next_envelope_id e \<le> k then k + 1
                                        else eng_next_envelope_id e)\<rparr>)"

definition replay_counters :: "bytes \<Rightarrow> 'b Engine \<Rightarrow> 'b Engine" where
  "replay_counters payload e =
     (case decode_bucket_payload payload of
        None \<Rightarrow> orphan e
      | Some (patch, _) \<Rightarrow>
          (case table_find (eng_envelopes e) (id_value (env_id patch)) of
             None \<Rightarrow> orphan e
           | Some env \<Rightarrow>
               if env_generation env \<noteq> env_generation patch then orphan e
               else e\<lparr>eng_envelopes := table_put (id_value (env_id patch))
                        (env\<lparr>env_bucket := env_bucket patch, env_created_ns := env_created_ns patch,
                             env_updated_ns := env_updated_ns patch,
                             env_attempts_issued := env_attempts_issued patch,
                             env_completions_applied := env_completions_applied patch,
                             env_completions_rejected := env_completions_rejected patch\<rparr>)
                        (eng_envelopes e)\<rparr>))"

definition replay_attempt :: "bytes \<Rightarrow> 'b Engine \<Rightarrow> 'b Engine" where
  "replay_attempt payload e =
     (case decode_attempt payload of
        None \<Rightarrow> orphan e
      | Some (a, _) \<Rightarrow>
          retain_attempt_locked a
            (e\<lparr>eng_next_attempt_id := (if eng_next_attempt_id e \<le> id_value (att_id a)
                                       then id_value (att_id a) + 1 else eng_next_attempt_id e)\<rparr>))"

definition replay_record :: "JournalRecord \<Rightarrow> 'b Engine \<Rightarrow> 'b Engine" where
  "replay_record r e =
     (let t = jr_type r; payload = jr_payload r
      in if t \<in> {JT_FileHeader, JT_TxnBegin, JT_TxnCommit, JT_CompactionMarker} then e
         else if t = JT_FlowPut then
           (case decode_flow payload of
              None \<Rightarrow> e
            | Some (x, _) \<Rightarrow> e\<lparr>eng_flows := table_put (id_value (flow_id x)) x (eng_flows e)\<rparr>)
         else if t \<in> {JT_GrantPut, JT_GrantStateChange} then
           (case decode_grant payload of
              None \<Rightarrow> orphan e
            | Some (x, _) \<Rightarrow> e\<lparr>eng_grants := table_put (id_value (grant_id x)) x (eng_grants e)\<rparr>)
         else if t \<in> {JT_ReservationPut, JT_ReservationStateChange} then
           (case decode_reservation payload of
              None \<Rightarrow> orphan e
            | Some (x, _) \<Rightarrow>
                e\<lparr>eng_reservations := table_put (id_value (reservation_id x)) x (eng_reservations e)\<rparr>)
         else if t \<in> {JT_PolicyPut, JT_PolicyStateChange} then
           (case decode_policy payload of
              None \<Rightarrow> orphan e
            | Some (x, _) \<Rightarrow> e\<lparr>eng_policies := table_put (id_value (policy_id x)) x (eng_policies e)\<rparr>)
         else if t \<in> {JT_ResourcePut, JT_ResourceStateChange} then
           (case decode_resource payload of
              None \<Rightarrow> orphan e
            | Some (x, _) \<Rightarrow> e\<lparr>eng_resources := table_put (id_value (resource_id x)) x (eng_resources e)\<rparr>)
         else if t = JT_BackendPut then
           (case decode_backend payload of
              None \<Rightarrow> e
            | Some (x, _) \<Rightarrow> e\<lparr>eng_backends := table_put (id_value (backend_id x)) x (eng_backends e)\<rparr>)
         else if t = JT_EpochAdvance then
           (case decode_epoch_payload payload of
              None \<Rightarrow> e
            | Some ((epoch, boot, reason), _) \<Rightarrow>
                if id_valid epoch \<and> eng_epoch e < epoch then e\<lparr>eng_epoch := epoch\<rparr> else e)
         else if t \<in> {JT_EnvelopeOpened, JT_EnvelopeBindingChange, JT_EnvelopeAuthorized,
                      JT_EnvelopeStateChange, JT_EnvelopeEffectRecorded} then replay_envelope payload e
         else if t = JT_EnvelopeCounters then replay_counters payload e
         else if t \<in> {JT_AttemptCreated, JT_AttemptDispatched, JT_AttemptAcknowledged,
                      JT_AttemptTerminated, JT_AttemptVerified, JT_AttemptCompensating}
         then replay_attempt payload e
         else orphan e)"

definition apply_snapshot_records :: "JournalRecord list \<Rightarrow> 'b Engine \<Rightarrow> 'b Engine" where
  "apply_snapshot_records records e = fold replay_record records e"

section \<open>Ingest of authorities\<close>

definition ingest_precondition :: "ReasonCode \<Rightarrow> Status" where
  "ingest_precondition structure =
     (if structure = R_None then Inr ()
      else fail (if structure = R_UnknownAuthority then ErrorCode_Denied else ErrorCode_InvalidArgument)
             structure)"

definition reject_shutdown :: "'b Engine \<Rightarrow> 'a Result \<times> 'b Engine" where
  "reject_shutdown e =
     (fail ErrorCode_ShuttingDown R_WorkRejectedDuringShutdown,
      count (\<lambda>c. c\<lparr>ct_work_rejected_shutdown := ct_work_rejected_shutdown c + 1\<rparr>) e)"

definition put_flow :: "Flow \<Rightarrow> 'b Engine \<Rightarrow> Status \<times> 'b Engine" where
  "put_flow x e =
     (if validate_flow x \<noteq> R_None then (ingest_precondition (validate_flow x), e)
      else if eng_shutting_down e then reject_shutdown e
      else
        let key = id_value (flow_id x); existing = table_find (eng_flows e) key
        in if existing \<noteq> None \<and> flow_generation x \<le> flow_generation (the existing)
           then (fail ErrorCode_StaleAuthority R_EnvelopeStaleFlowGenerationChanged, e)
           else if existing = None \<and> unat (ec_max_flows (eng_config e)) \<le> length (eng_flows e)
           then (fail ErrorCode_LimitExceeded R_CapacityLimitExceeded, e)
           else (case commit_one_locked JT_FlowPut (encode_flow x) e of
               (Inl err, e1) \<Rightarrow> (Inl err, e1)
             | (Inr _, e1) \<Rightarrow>
                 (Inr (), push_event_locked R_EnvelopeOpened (StrongId 0) (StrongId 0) (StrongId 0)
                    (e1\<lparr>eng_flows := table_put key x (eng_flows e1)\<rparr>))))"

definition put_grant :: "Grant \<Rightarrow> 'b Engine \<Rightarrow> Status \<times> 'b Engine" where
  "put_grant x e =
     (if validate_grant x \<noteq> R_None then (ingest_precondition (validate_grant x), e)
      else if eng_shutting_down e then reject_shutdown e
      else
        let key = id_value (grant_id x); existing = table_find (eng_grants e) key
        in if existing \<noteq> None \<and> grant_generation x \<le> grant_generation (the existing)
           then (fail ErrorCode_StaleAuthority R_PlanRejectedGrantGenerationMismatch, e)
           else if existing = None \<and> unat (ec_max_grants (eng_config e)) \<le> length (eng_grants e)
           then (fail ErrorCode_LimitExceeded R_CapacityLimitExceeded, e)
           else (case commit_one_locked JT_GrantPut (encode_grant x) e of
               (Inl err, e1) \<Rightarrow> (Inl err, e1)
             | (Inr _, e1) \<Rightarrow>
                 (Inr (), push_event_locked R_PlanAuthorized (StrongId 0) (StrongId 0) (StrongId 0)
                    (e1\<lparr>eng_grants := table_put key x (eng_grants e1)\<rparr>))))"

definition put_reservation :: "Reservation \<Rightarrow> 'b Engine \<Rightarrow> Status \<times> 'b Engine" where
  "put_reservation x e =
     (if validate_reservation x \<noteq> R_None then (ingest_precondition (validate_reservation x), e)
      else if eng_shutting_down e then reject_shutdown e
      else
        let key = id_value (reservation_id x); existing = table_find (eng_reservations e) key
        in if existing \<noteq> None \<and> reservation_generation x \<le> reservation_generation (the existing)
           then (fail ErrorCode_StaleAuthority R_PlanRejectedReservationGenerationMismatch, e)
           else if existing = None \<and> unat (ec_max_reservations (eng_config e)) \<le> length (eng_reservations e)
           then (fail ErrorCode_LimitExceeded R_CapacityLimitExceeded, e)
           else (case commit_one_locked JT_ReservationPut (encode_reservation x) e of
               (Inl err, e1) \<Rightarrow> (Inl err, e1)
             | (Inr _, e1) \<Rightarrow>
                 (Inr (), push_event_locked R_PlanAuthorized (StrongId 0) (StrongId 0) (StrongId 0)
                    (e1\<lparr>eng_reservations := table_put key x (eng_reservations e1)\<rparr>))))"

definition put_policy :: "Policy \<Rightarrow> 'b Engine \<Rightarrow> Status \<times> 'b Engine" where
  "put_policy x e =
     (if validate_policy x \<noteq> R_None then (ingest_precondition (validate_policy x), e)
      else if eng_shutting_down e then reject_shutdown e
      else
        let key = id_value (policy_id x); existing = table_find (eng_policies e) key
        in if existing \<noteq> None \<and> policy_generation x \<le> policy_generation (the existing)
           then (fail ErrorCode_StaleAuthority R_PlanRejectedPolicyGenerationMismatch, e)
           else if existing = None \<and> unat (ec_max_policies (eng_config e)) \<le> length (eng_policies e)
           then (fail ErrorCode_LimitExceeded R_CapacityLimitExceeded, e)
           else (case commit_one_locked JT_PolicyPut (encode_policy x) e of
               (Inl err, e1) \<Rightarrow> (Inl err, e1)
             | (Inr _, e1) \<Rightarrow>
                 (Inr (), push_event_locked R_EnvelopeReducedByPolicy (StrongId 0) (StrongId 0) (StrongId 0)
                    (e1\<lparr>eng_policies := table_put key x (eng_policies e1)\<rparr>))))"

definition put_resource :: "Resource \<Rightarrow> 'b Engine \<Rightarrow> Status \<times> 'b Engine" where
  "put_resource x e =
     (if validate_resource x \<noteq> R_None then (ingest_precondition (validate_resource x), e)
      else if eng_shutting_down e then reject_shutdown e
      else
        let key = id_value (resource_id x); existing = table_find (eng_resources e) key
        in if existing \<noteq> None \<and> resource_generation x \<le> resource_generation (the existing)
           then (fail ErrorCode_StaleAuthority R_PlanRejectedResourceGenerationMismatch, e)
           else if existing = None \<and> unat (ec_max_resources (eng_config e)) \<le> length (eng_resources e)
           then (fail ErrorCode_LimitExceeded R_CapacityLimitExceeded, e)
           else (case commit_one_locked JT_ResourcePut (encode_resource x) e of
               (Inl err, e1) \<Rightarrow> (Inl err, e1)
             | (Inr _, e1) \<Rightarrow>
                 (Inr (), push_event_locked R_EnvelopeReducedByPolicy (StrongId 0) (StrongId 0) (StrongId 0)
                    (e1\<lparr>eng_resources := table_put key x (eng_resources e1)\<rparr>))))"

definition put_backend :: "BackendDescriptor \<Rightarrow> 'b Engine \<Rightarrow> Status \<times> 'b Engine" where
  "put_backend x e =
     (if validate_backend x \<noteq> R_None then (ingest_precondition (validate_backend x), e)
      else if eng_shutting_down e then reject_shutdown e
      else
        let key = id_value (backend_id x); existing = table_find (eng_backends e) key
        in if existing \<noteq> None \<and> backend_generation x \<le> backend_generation (the existing)
           then (fail ErrorCode_StaleAuthority R_PlanRejectedBackendGenerationMismatch, e)
           else if existing = None \<and> unat (ec_max_backends (eng_config e)) \<le> length (eng_backends e)
           then (fail ErrorCode_LimitExceeded R_CapacityLimitExceeded, e)
           else (case commit_one_locked JT_BackendPut (encode_backend x) e of
               (Inl err, e1) \<Rightarrow> (Inl err, e1)
             | (Inr _, e1) \<Rightarrow>
                 (Inr (), push_event_locked R_BackendSessionEstablished (StrongId 0) (StrongId 0) (StrongId 0)
                    (e1\<lparr>eng_backends := table_put key x (eng_backends e1)\<rparr>))))"

section \<open>Construction\<close>

definition normalize_config :: "EngineConfig \<Rightarrow> EngineConfig" where
  "normalize_config c =
     (let c1 = (if \<not> id_valid (ec_boot c) then c\<lparr>ec_boot := StrongId 1\<rparr> else c);
          c2 = (if ec_max_attribute_bytes c1 = 0 then c1\<lparr>ec_max_attribute_bytes := 256\<rparr> else c1);
          c3 = (if ec_max_audit_events c2 = 0 then c2\<lparr>ec_max_audit_events := 1\<rparr> else c2)
      in if ec_max_attempts_per_envelope c3 = 0
         then c3\<lparr>ec_max_attempts_per_envelope := 1\<rparr> else c3)"

definition rate_governor ::
  "EngineConfig \<Rightarrow> ('b BackendOps \<times> 'b) option \<Rightarrow> Journal option \<Rightarrow> 'b Engine" where
  "rate_governor config backend journal =
     (let epoch = (if id_valid (ec_initial_epoch config) then ec_initial_epoch config else StrongId 1);
          session = (case backend of None \<Rightarrow> StrongId 0 | Some (ops, b) \<Rightarrow> ops_session_epoch ops b);
          bound = (case backend of None \<Rightarrow> False
                   | Some (ops, b) \<Rightarrow> ops_session_live ops b \<and> session = epoch);
          e = \<lparr>eng_config = normalize_config config, eng_backend = backend, eng_journal = journal,
               eng_epoch = epoch, eng_backend_bound = bound, eng_backend_session_epoch = session,
               eng_durability_degraded = False, eng_flows = [], eng_grants = [],
               eng_reservations = [], eng_policies = [], eng_resources = [], eng_backends = [],
               eng_envelopes = [], eng_attempts = [], eng_attempt_order = [],
               eng_attempts_by_envelope = [], eng_events = [], eng_next_envelope_id = 1,
               eng_next_attempt_id = 1, eng_next_event_sequence = 1, eng_next_txn_id = 1,
               eng_attempt_sequence = 0, eng_events_dropped = 0, eng_recovery_orphan_records = 0,
               eng_last_tick_ns = 0, eng_tick_seen = False, eng_counters = empty_counters,
               eng_shutting_down = False\<rparr>
      in if (case journal of None \<Rightarrow> False | Some j \<Rightarrow> jn_open j)
            \<and> ec_durability config = DurabilityMode_Strict
         then write_incarnation_banner_locked e else e)"

text \<open>An engine to run examples on: one envelope's worth of limits, the first epoch, boot seven.\<close>

definition example_config :: "DurabilityMode \<Rightarrow> EngineConfig" where
  "example_config mode =
     \<lparr>ec_initial_epoch = StrongId 1, ec_boot = StrongId 7, ec_advance_epoch_on_recovery = True,
      ec_durability = mode, ec_max_envelopes = 4, ec_max_flows = 4, ec_max_grants = 4,
      ec_max_reservations = 4, ec_max_policies = 4, ec_max_resources = 4, ec_max_backends = 4,
      ec_max_attempts_per_envelope = 2, ec_max_audit_events = 8, ec_max_attribute_bytes = 256,
      ec_attempt_deadline_ns = 0, ec_revalidate_interval_ns = 0,
      ec_journal = \<lparr>jc_path = [], jc_max_bytes = 0, jc_max_payload_bytes = 0,
        jc_fsync_on_commit = True\<rparr>\<rparr>"

definition example_engine :: "unit Engine" where
  "example_engine = rate_governor (example_config DurabilityMode_None) None None"

section \<open>What a commit can change\<close>

text \<open>
  A durable commit, whatever its outcome, changes the journal, the degraded flag, the
  counters and the transaction number, and nothing of the governed state.
\<close>

definition only_durability :: "'b Engine \<Rightarrow> 'b Engine \<Rightarrow> bool" where
  "only_durability e e1 \<longleftrightarrow>
     (\<exists>j d c t. e1 = e\<lparr>eng_journal := j, eng_durability_degraded := d, eng_counters := c,
                       eng_next_txn_id := t\<rparr>)"

lemma only_durability_refl [simp, intro]: "only_durability e e"
proof -
  have "e = e\<lparr>eng_journal := eng_journal e, eng_durability_degraded := eng_durability_degraded e,
              eng_counters := eng_counters e, eng_next_txn_id := eng_next_txn_id e\<rparr>" by simp
  then show ?thesis unfolding only_durability_def by blast
qed

lemma only_durability_trans [trans]:
  "only_durability e e1 \<Longrightarrow> only_durability e1 e2 \<Longrightarrow> only_durability e e2"
  unfolding only_durability_def by force

lemma only_durability_updates:
  "only_durability e (e\<lparr>eng_journal := j\<rparr>)"
  "only_durability e (e\<lparr>eng_durability_degraded := d\<rparr>)"
  "only_durability e (e\<lparr>eng_counters := c\<rparr>)"
  "only_durability e (e\<lparr>eng_next_txn_id := t\<rparr>)"
  "only_durability e (count f e)"
proof -
  have [simp]: "e\<lparr>eng_journal := eng_journal e\<rparr> = e" "e\<lparr>eng_counters := eng_counters e\<rparr> = e"
    "e\<lparr>eng_durability_degraded := eng_durability_degraded e\<rparr> = e"
    "e\<lparr>eng_next_txn_id := eng_next_txn_id e\<rparr> = e" by simp_all
  show "only_durability e (e\<lparr>eng_journal := j\<rparr>)"
    unfolding only_durability_def
    by (rule exI [of _ j], rule exI [of _ "eng_durability_degraded e"],
        rule exI [of _ "eng_counters e"], rule exI [of _ "eng_next_txn_id e"]) simp
  show "only_durability e (e\<lparr>eng_durability_degraded := d\<rparr>)"
    unfolding only_durability_def
    by (rule exI [of _ "eng_journal e"], rule exI [of _ d],
        rule exI [of _ "eng_counters e"], rule exI [of _ "eng_next_txn_id e"]) simp
  show c: "only_durability e (e\<lparr>eng_counters := c\<rparr>)" for c
    unfolding only_durability_def
    by (rule exI [of _ "eng_journal e"], rule exI [of _ "eng_durability_degraded e"],
        rule exI [of _ c], rule exI [of _ "eng_next_txn_id e"]) simp
  show "only_durability e (e\<lparr>eng_next_txn_id := t\<rparr>)"
    unfolding only_durability_def
    by (rule exI [of _ "eng_journal e"], rule exI [of _ "eng_durability_degraded e"],
        rule exI [of _ "eng_counters e"], rule exI [of _ t]) simp
  show "only_durability e (count f e)" unfolding count_def by (rule c)
qed

lemma only_durability_fields:
  assumes "only_durability e e1"
  shows "eng_config e1 = eng_config e" "eng_backend e1 = eng_backend e" "eng_epoch e1 = eng_epoch e"
    "eng_backend_bound e1 = eng_backend_bound e"
    "eng_backend_session_epoch e1 = eng_backend_session_epoch e" "eng_flows e1 = eng_flows e"
    "eng_grants e1 = eng_grants e" "eng_reservations e1 = eng_reservations e"
    "eng_policies e1 = eng_policies e" "eng_resources e1 = eng_resources e"
    "eng_backends e1 = eng_backends e" "eng_envelopes e1 = eng_envelopes e"
    "eng_attempts e1 = eng_attempts e" "eng_attempt_order e1 = eng_attempt_order e"
    "eng_attempts_by_envelope e1 = eng_attempts_by_envelope e" "eng_events e1 = eng_events e"
    "eng_next_envelope_id e1 = eng_next_envelope_id e"
    "eng_next_attempt_id e1 = eng_next_attempt_id e"
    "eng_next_event_sequence e1 = eng_next_event_sequence e"
    "eng_attempt_sequence e1 = eng_attempt_sequence e" "eng_events_dropped e1 = eng_events_dropped e"
    "eng_recovery_orphan_records e1 = eng_recovery_orphan_records e"
    "eng_last_tick_ns e1 = eng_last_tick_ns e" "eng_tick_seen e1 = eng_tick_seen e"
    "eng_shutting_down e1 = eng_shutting_down e"
  using assms unfolding only_durability_def by force+

lemma durable_status_frame: "durable_status_locked e = (r, e1) \<Longrightarrow> only_durability e e1"
  unfolding durable_status_locked_def
  by (auto intro: only_durability_trans [OF only_durability_updates(2) only_durability_updates(5)])

lemma durable_status_error:
  "fst (durable_status_locked e) = fail ErrorCode_JournalFailure R_JournalAppendFailed"
  by (simp add: durable_status_locked_def)

lemma maybe_compact_frame: "only_durability e (maybe_compact_locked e)"
proof -
  have "only_durability e (snd (durable_status_locked (e\<lparr>eng_journal := j\<rparr>)))" for j
    by (rule only_durability_trans [OF only_durability_updates(1) durable_status_frame [OF surjective_pairing]])
  moreover have "only_durability e (count f (e\<lparr>eng_journal := j\<rparr>))" for f j
    by (rule only_durability_trans [OF only_durability_updates(1) only_durability_updates(5)])
  ultimately show ?thesis
    by (auto simp: maybe_compact_locked_def Let_def split: option.split prod.split)
qed

lemma commit_records_frame:
  assumes "commit_records_locked rs e = (r, e1)"
  shows "only_durability e e1"
proof -
  have s: "only_durability e (e\<lparr>eng_next_txn_id := t, eng_journal := j\<rparr>)" for t j
    by (rule only_durability_trans [OF only_durability_updates(4) only_durability_updates(1)])
  have "only_durability e e1" if "durable_status_locked (e\<lparr>eng_next_txn_id := t, eng_journal := j\<rparr>) = (r, e1)"
    for t j by (rule only_durability_trans [OF s durable_status_frame [OF that]])
  moreover have "only_durability e (maybe_compact_locked (count f (e\<lparr>eng_next_txn_id := t, eng_journal := j\<rparr>)))"
    for f t j
    by (rule only_durability_trans [OF only_durability_trans [OF s only_durability_updates(5)]
          maybe_compact_frame])
  ultimately show ?thesis
    using assms
    by (auto simp: commit_records_locked_def Let_def split: if_splits option.splits prod.splits)
qed

lemma commit_one_frame: "commit_one_locked t p e = (r, e1) \<Longrightarrow> only_durability e e1"
  unfolding commit_one_locked_def by (rule commit_records_frame)

lemma commit_many_frame: "commit_many_locked rs e = (r, e1) \<Longrightarrow> only_durability e e1"
proof (induction rs e rule: commit_many_locked.induct)
  case (1 rs e)
  show ?case
    using 1 commit_records_frame [of "take kMaxRecordsPerTransaction rs" e]
    by (subst (asm) (2) commit_many_locked.simps)
       (fastforce split: if_splits prod.splits sum.splits intro: only_durability_trans)
qed

lemma push_event_fields [simp]:
  "eng_config (push_event_locked r i g a e) = eng_config e"
  "eng_backend (push_event_locked r i g a e) = eng_backend e"
  "eng_journal (push_event_locked r i g a e) = eng_journal e"
  "eng_epoch (push_event_locked r i g a e) = eng_epoch e"
  "eng_backend_bound (push_event_locked r i g a e) = eng_backend_bound e"
  "eng_backend_session_epoch (push_event_locked r i g a e) = eng_backend_session_epoch e"
  "eng_durability_degraded (push_event_locked r i g a e) = eng_durability_degraded e"
  "eng_flows (push_event_locked r i g a e) = eng_flows e"
  "eng_grants (push_event_locked r i g a e) = eng_grants e"
  "eng_reservations (push_event_locked r i g a e) = eng_reservations e"
  "eng_policies (push_event_locked r i g a e) = eng_policies e"
  "eng_resources (push_event_locked r i g a e) = eng_resources e"
  "eng_backends (push_event_locked r i g a e) = eng_backends e"
  "eng_envelopes (push_event_locked r i g a e) = eng_envelopes e"
  "eng_attempts (push_event_locked r i g a e) = eng_attempts e"
  "eng_attempt_order (push_event_locked r i g a e) = eng_attempt_order e"
  "eng_attempts_by_envelope (push_event_locked r i g a e) = eng_attempts_by_envelope e"
  "eng_next_envelope_id (push_event_locked r i g a e) = eng_next_envelope_id e"
  "eng_next_attempt_id (push_event_locked r i g a e) = eng_next_attempt_id e"
  "eng_attempt_sequence (push_event_locked r i g a e) = eng_attempt_sequence e"
  "eng_shutting_down (push_event_locked r i g a e) = eng_shutting_down e"
  by (simp_all add: push_event_locked_def Let_def count_def)

lemma count_fields [simp]:
  "eng_config (count f e) = eng_config e" "eng_backend (count f e) = eng_backend e"
  "eng_journal (count f e) = eng_journal e" "eng_epoch (count f e) = eng_epoch e"
  "eng_backend_bound (count f e) = eng_backend_bound e"
  "eng_backend_session_epoch (count f e) = eng_backend_session_epoch e"
  "eng_durability_degraded (count f e) = eng_durability_degraded e"
  "eng_flows (count f e) = eng_flows e" "eng_grants (count f e) = eng_grants e"
  "eng_reservations (count f e) = eng_reservations e" "eng_policies (count f e) = eng_policies e"
  "eng_resources (count f e) = eng_resources e" "eng_backends (count f e) = eng_backends e"
  "eng_envelopes (count f e) = eng_envelopes e" "eng_attempts (count f e) = eng_attempts e"
  "eng_attempt_order (count f e) = eng_attempt_order e"
  "eng_attempts_by_envelope (count f e) = eng_attempts_by_envelope e"
  "eng_events (count f e) = eng_events e"
  "eng_next_envelope_id (count f e) = eng_next_envelope_id e"
  "eng_next_attempt_id (count f e) = eng_next_attempt_id e"
  "eng_attempt_sequence (count f e) = eng_attempt_sequence e"
  "eng_shutting_down (count f e) = eng_shutting_down e"
  "eng_counters (count f e) = f (eng_counters e)"
  by (simp_all add: count_def)

section \<open>Ingest as an interface\<close>

text \<open>
  What the six ingest operations share: an accepted definition is well formed, stored
  under its own identity and strictly newer than what it replaces; a refused one
  leaves the table alone.  From this follows that a table only ever moves forward.
\<close>

definition superseded :: "('x \<Rightarrow> Generation) \<Rightarrow> 'x table \<Rightarrow> 'x table \<Rightarrow> bool" where
  "superseded gen m m' \<longleftrightarrow>
     (\<forall>k x. table_find m k = Some x \<longrightarrow>
        (\<exists>y. table_find m' k = Some y \<and> (y = x \<or> gen x < gen y)))"

lemma superseded_refl [simp]: "superseded gen m m"
  by (auto simp: superseded_def)

lemma superseded_trans:
  assumes "superseded gen m m1" "superseded gen m1 m2"
  shows "superseded gen m m2"
  unfolding superseded_def
proof (intro allI impI)
  fix k x assume "table_find m k = Some x"
  then obtain y where y: "table_find m1 k = Some y" "y = x \<or> gen x < gen y"
    using assms(1) unfolding superseded_def by blast
  then obtain z where "table_find m2 k = Some z" "z = y \<or> gen y < gen z"
    using assms(2) unfolding superseded_def by blast
  with y(2) show "\<exists>z. table_find m2 k = Some z \<and> (z = x \<or> gen x < gen z)"
    using order.strict_trans [of "gen x" "gen y" "gen z"] by auto
qed

lemma superseded_put:
  assumes "\<And>y. table_find m k = Some y \<Longrightarrow> gen y < gen x"
  shows "superseded gen m (table_put k x m)"
  using assms by (auto simp: superseded_def)

locale authority_ingest =
  fixes put :: "'x \<Rightarrow> 'e \<Rightarrow> Status \<times> 'e"
    and tab :: "'e \<Rightarrow> 'x table"
    and key :: "'x \<Rightarrow> u64"
    and gen :: "'x \<Rightarrow> Generation"
    and valid :: "'x \<Rightarrow> bool"
  assumes put_accepted:
      "put x e = (Inr u, e1) \<Longrightarrow>
         valid x \<and> tab e1 = table_put (key x) x (tab e)
         \<and> (\<forall>y. table_find (tab e) (key x) = Some y \<longrightarrow> gen y < gen x)"
    and put_refused: "put x e = (Inl err, e1) \<Longrightarrow> tab e1 = tab e"
begin

lemma put_supersedes: "superseded gen (tab e) (tab (snd (put x e)))"
proof (cases "put x e")
  case (Pair r e1)
  then show ?thesis
    using put_accepted [of x e _ e1] put_refused [of x e _ e1]
    by (cases r) (auto intro: superseded_put)
qed

lemma put_valid:
  assumes "table_all (\<lambda>y. valid y \<and> P y) (tab e)" "P x"
  shows "table_all (\<lambda>y. valid y \<and> P y) (tab (snd (put x e)))"
proof (cases "put x e")
  case (Pair r e1)
  then show ?thesis
    using put_accepted [of x e _ e1] put_refused [of x e _ e1] assms
    by (cases r) auto
qed

lemma put_stale:
  assumes "table_find (tab e) (key x) = Some y" "gen x \<le> gen y"
  shows "\<exists>err. fst (put x e) = Inl err" "tab (snd (put x e)) = tab e"
proof -
  obtain err e1 where "put x e = (Inl err, e1)"
    using put_accepted [of x e] assms by (cases "put x e"; cases "fst (put x e)") force+
  then show "\<exists>err. fst (put x e) = Inl err" "tab (snd (put x e)) = tab e"
    using put_refused by auto
qed

lemma put_table_ok: "table_ok (tab e) \<Longrightarrow> table_ok (tab (snd (put x e)))"
  using put_accepted [of x e] put_refused [of x e] table_ok_put
  by (cases "put x e"; cases "fst (put x e)") auto

end

lemma ingest_precondition_refuses:
  "structure \<noteq> R_None \<Longrightarrow> \<exists>err. ingest_precondition structure = Inl err"
  by (simp add: ingest_precondition_def fail_def)

lemmas ingest_cases =
  Let_def reject_shutdown_def fail_def

interpretation flow_ingest: authority_ingest put_flow eng_flows "\<lambda>x. id_value (flow_id x)"
  flow_generation "\<lambda>x. validate_flow x = R_None"
  by unfold_locales
     (auto simp: put_flow_def ingest_cases only_durability_fields [OF commit_one_frame]
           dest: ingest_precondition_refuses split: if_splits prod.splits sum.splits)

interpretation grant_ingest: authority_ingest put_grant eng_grants "\<lambda>x. id_value (grant_id x)"
  grant_generation "\<lambda>x. validate_grant x = R_None"
  by unfold_locales
     (auto simp: put_grant_def ingest_cases only_durability_fields [OF commit_one_frame]
           dest: ingest_precondition_refuses split: if_splits prod.splits sum.splits)

interpretation reservation_ingest: authority_ingest put_reservation eng_reservations "\<lambda>x. id_value (reservation_id x)"
  reservation_generation "\<lambda>x. validate_reservation x = R_None"
  by unfold_locales
     (auto simp: put_reservation_def ingest_cases only_durability_fields [OF commit_one_frame]
           dest: ingest_precondition_refuses split: if_splits prod.splits sum.splits)

interpretation policy_ingest: authority_ingest put_policy eng_policies "\<lambda>x. id_value (policy_id x)"
  policy_generation "\<lambda>x. validate_policy x = R_None"
  by unfold_locales
     (auto simp: put_policy_def ingest_cases only_durability_fields [OF commit_one_frame]
           dest: ingest_precondition_refuses split: if_splits prod.splits sum.splits)

interpretation resource_ingest: authority_ingest put_resource eng_resources "\<lambda>x. id_value (resource_id x)"
  resource_generation "\<lambda>x. validate_resource x = R_None"
  by unfold_locales
     (auto simp: put_resource_def ingest_cases only_durability_fields [OF commit_one_frame]
           dest: ingest_precondition_refuses split: if_splits prod.splits sum.splits)

interpretation backend_ingest: authority_ingest put_backend eng_backends "\<lambda>x. id_value (backend_id x)"
  backend_generation "\<lambda>x. validate_backend x = R_None"
  by unfold_locales
     (auto simp: put_backend_def ingest_cases only_durability_fields [OF commit_one_frame]
           dest: ingest_precondition_refuses split: if_splits prod.splits sum.splits)

section \<open>Retention keeps what is in flight\<close>

lemma first_terminal_Some:
  assumes "first_terminal m ids = Some k"
  shows "k \<in> set ids" "\<exists>a. table_find m k = Some a \<and> attempt_state_is_terminal (att_state a)"
  using assms by (auto simp: first_terminal_def find_Some_iff split: option.splits)

lemma first_terminal_None:
  "first_terminal m ids = None \<Longrightarrow> k \<in> set ids \<Longrightarrow> table_find m k = Some a
   \<Longrightarrow> \<not> attempt_state_is_terminal (att_state a)"
  by (auto simp: first_terminal_def find_None_iff split: option.splits)

text \<open>The eviction loop only erases terminal attempts, and stops only below the limit or without one.\<close>

lemma evict_terminal_stop:
  "\<not> limit < length ids \<or> first_terminal m ids = None
   \<Longrightarrow> evict_terminal limit ids m order = (ids, m, order)"
  by (subst evict_terminal.simps) auto

lemma evict_terminal_step:
  "limit < length ids \<Longrightarrow> first_terminal m ids = Some v
   \<Longrightarrow> evict_terminal limit ids m order
       = evict_terminal limit (remove1 v ids) (table_erase v m) (filter (\<lambda>k. k \<noteq> v) order)"
  by (subst evict_terminal.simps) simp

text \<open>Induction over the loop: a relation that every eviction keeps relates start and end.\<close>

lemma evict_terminal_induct [consumes 1, case_names stop step]:
  assumes "evict_terminal limit ids m order = (ids1, m1, order1)"
    and "\<And>ids m order. \<not> limit < length ids \<or> first_terminal m ids = None \<Longrightarrow> P ids m order ids m order"
    and "\<And>ids m order v. limit < length ids \<Longrightarrow> first_terminal m ids = Some v
         \<Longrightarrow> P (remove1 v ids) (table_erase v m) (filter (\<lambda>k. k \<noteq> v) order) ids1 m1 order1
         \<Longrightarrow> P ids m order ids1 m1 order1"
  shows "P ids m order ids1 m1 order1"
  using assms(1)
proof (induction "length ids" arbitrary: ids m order rule: less_induct)
  case less
  show ?case
  proof (cases "limit < length ids \<and> first_terminal m ids \<noteq> None")
    case True
    then obtain v where v: "limit < length ids" "first_terminal m ids = Some v" by auto
    then have "length (remove1 v ids) < length ids"
      using first_terminal_Some(1) [OF v(2)] by (simp add: length_remove1)
    with v less show ?thesis by (intro assms(3) [OF v]) (auto simp: evict_terminal_step)
  qed (use less.prems assms(2) in \<open>auto simp: evict_terminal_stop\<close>)
qed

lemma evict_terminal_keeps:
  assumes "evict_terminal limit ids m order = (ids1, m1, order1)" "table_ok m"
    and "table_find m k = Some a" "\<not> attempt_state_is_terminal (att_state a)"
  shows "table_find m1 k = Some a"
  using assms
proof (induction rule: evict_terminal_induct)
  case (step ids m order v)
  have "v \<noteq> k" using first_terminal_Some(2) [OF step.hyps(2)] step.prems(2,3) by auto
  then show ?case using step by (simp add: table_find_erase table_ok_erase)
qed simp

lemma evict_terminal_result:
  assumes "evict_terminal limit ids m order = (ids1, m1, order1)"
  shows "length ids1 \<le> limit \<or> first_terminal m1 ids1 = None" "set ids1 \<subseteq> set ids"
    "length order1 \<le> length order" "table_ok m \<Longrightarrow> table_ok m1" "set m1 \<subseteq> set m"
proof -
  show "length ids1 \<le> limit \<or> first_terminal m1 ids1 = None"
    using assms by (induction rule: evict_terminal_induct) auto
  show "set ids1 \<subseteq> set ids"
    using assms by (induction rule: evict_terminal_induct) (auto dest: set_mp [OF set_remove1_subset])
  show "length order1 \<le> length order"
    using assms
  proof (induction rule: evict_terminal_induct)
    case (step ids m order v)
    then show ?case using length_filter_le [of "\<lambda>k. k \<noteq> v" order] by linarith
  qed simp
  show "table_ok m \<Longrightarrow> table_ok m1"
    using assms by (induction rule: evict_terminal_induct) (auto simp: table_ok_erase)
  show "set m1 \<subseteq> set m"
    using assms by (induction rule: evict_terminal_induct) (auto dest: set_mp [OF table_entries_erase])
qed

lemma retain_fields [simp]:
  "eng_config (retain_attempt_locked a e) = eng_config e"
  "eng_backend (retain_attempt_locked a e) = eng_backend e"
  "eng_journal (retain_attempt_locked a e) = eng_journal e"
  "eng_epoch (retain_attempt_locked a e) = eng_epoch e"
  "eng_backend_bound (retain_attempt_locked a e) = eng_backend_bound e"
  "eng_durability_degraded (retain_attempt_locked a e) = eng_durability_degraded e"
  "eng_flows (retain_attempt_locked a e) = eng_flows e"
  "eng_grants (retain_attempt_locked a e) = eng_grants e"
  "eng_reservations (retain_attempt_locked a e) = eng_reservations e"
  "eng_policies (retain_attempt_locked a e) = eng_policies e"
  "eng_resources (retain_attempt_locked a e) = eng_resources e"
  "eng_backends (retain_attempt_locked a e) = eng_backends e"
  "eng_envelopes (retain_attempt_locked a e) = eng_envelopes e"
  "eng_events (retain_attempt_locked a e) = eng_events e"
  "eng_next_envelope_id (retain_attempt_locked a e) = eng_next_envelope_id e"
  "eng_next_attempt_id (retain_attempt_locked a e) = eng_next_attempt_id e"
  "eng_attempt_sequence (retain_attempt_locked a e) = eng_attempt_sequence e"
  "eng_recovery_orphan_records (retain_attempt_locked a e) = eng_recovery_orphan_records e"
  "eng_counters (retain_attempt_locked a e) = eng_counters e"
  "eng_shutting_down (retain_attempt_locked a e) = eng_shutting_down e"
  by (simp_all add: retain_attempt_locked_def Let_def split: prod.split)

lemma table_erase_all_entries: "set (fold table_erase ks m) \<subseteq> set m"
  by (induction ks arbitrary: m) (auto dest: set_mp [OF table_entries_erase])

lemma table_ok_erase_all: "table_ok m \<Longrightarrow> table_ok (fold table_erase ks m)"
  by (induction ks arbitrary: m) (auto simp: table_ok_erase)

text \<open>The bound on retained attempts, as the code computes it.\<close>

definition attempt_bound :: "'b Engine \<Rightarrow> nat" where
  "attempt_bound e =
     unat (ec_max_envelopes (eng_config e) * ec_max_attempts_per_envelope (eng_config e))"

lemma retain_attempt_shape:
  obtains ids order ids1 m1 order1 where
    "evict_terminal (unat (ec_max_attempts_per_envelope (eng_config e))) ids
       (table_put (id_value (att_id a)) a (eng_attempts e)) order = (ids1, m1, order1)"
    "length order \<le> Suc (length (eng_attempt_order e))"
    "eng_attempts (retain_attempt_locked a e)
       = fold table_erase (take (length order1 - attempt_bound e) order1) m1"
    "eng_attempt_order (retain_attempt_locked a e) = drop (length order1 - attempt_bound e) order1"
    "table_find (eng_attempts_by_envelope (retain_attempt_locked a e)) (id_value (att_envelope a))
       = Some ids1"
proof -
  define k0 where "k0 = id_value (att_id a)"
  define old where "old = (case table_find (eng_attempts_by_envelope e) (id_value (att_envelope a)) of
    Some l \<Rightarrow> l | None \<Rightarrow> [])"
  define order where "order = (if k0 \<in> set old then eng_attempt_order e else eng_attempt_order e @ [k0])"
  define ids where "ids = (if k0 \<in> set old then old else old @ [k0])"
  obtain ids1 m1 order1 where ev:
    "evict_terminal (unat (ec_max_attempts_per_envelope (eng_config e))) ids
       (table_put k0 a (eng_attempts e)) order = (ids1, m1, order1)" by (metis prod_cases3)
  have "retain_attempt_locked a e =
    (case evict_terminal (unat (ec_max_attempts_per_envelope (eng_config e))) ids
       (table_put k0 a (eng_attempts e)) order of
     (ids1, m1, order1) \<Rightarrow>
       e\<lparr>eng_attempts := fold table_erase (take (length order1 - attempt_bound e) order1) m1,
         eng_attempt_order := drop (length order1 - attempt_bound e) order1,
         eng_attempts_by_envelope :=
           table_put (id_value (att_envelope a)) ids1 (eng_attempts_by_envelope e)\<rparr>)"
    by (simp only: retain_attempt_locked_def Let_def k0_def old_def ids_def order_def attempt_bound_def)
  note r = this [unfolded ev prod.case]
  have "length order \<le> Suc (length (eng_attempt_order e))" by (simp add: order_def)
  with ev show thesis by (intro that [OF ev [unfolded k0_def]]) (simp_all add: r)
qed

lemma retain_entries:
  "set (eng_attempts (retain_attempt_locked a e))
   \<subseteq> insert (id_value (att_id a), a) (set (eng_attempts e))"
proof (rule retain_attempt_shape [of e a])
  fix ids order ids1 m1 order1
  assume ev: "evict_terminal (unat (ec_max_attempts_per_envelope (eng_config e))) ids
       (table_put (id_value (att_id a)) a (eng_attempts e)) order = (ids1, m1, order1)"
    and r: "eng_attempts (retain_attempt_locked a e)
       = fold table_erase (take (length order1 - attempt_bound e) order1) m1"
  show ?thesis
    unfolding r
    by (rule subset_trans [OF table_erase_all_entries
          subset_trans [OF evict_terminal_result(5) [OF ev] table_entries_put]])
qed

lemma retain_table_ok:
  assumes "table_ok (eng_attempts e)"
  shows "table_ok (eng_attempts (retain_attempt_locked a e))"
  by (rule retain_attempt_shape [of e a])
     (simp add: table_ok_erase_all evict_terminal_result(4) table_ok_put [OF assms])

lemma retain_attempt_find:
  assumes "table_ok (eng_attempts e)" "length (eng_attempt_order e) < attempt_bound e"
    and "\<not> attempt_state_is_terminal (att_state b)"
    and "k = id_value (att_id a) \<and> b = a \<or> k \<noteq> id_value (att_id a) \<and> table_find (eng_attempts e) k = Some b"
  shows "table_find (eng_attempts (retain_attempt_locked a e)) k = Some b"
proof (rule retain_attempt_shape [of e a])
  fix ids order ids1 m1 order1
  assume ev: "evict_terminal (unat (ec_max_attempts_per_envelope (eng_config e))) ids
       (table_put (id_value (att_id a)) a (eng_attempts e)) order = (ids1, m1, order1)"
    and l: "length order \<le> Suc (length (eng_attempt_order e))"
    and r: "eng_attempts (retain_attempt_locked a e)
       = fold table_erase (take (length order1 - attempt_bound e) order1) m1"
  have "length order1 \<le> attempt_bound e"
    using evict_terminal_result(3) [OF ev] assms(2) l by simp
  moreover have "table_find m1 k = Some b"
    using assms(3,4) by (intro evict_terminal_keeps [OF ev table_ok_put [OF assms(1)]]) auto
  ultimately show ?thesis unfolding r by simp
qed

lemma retain_attempt_bounded:
  assumes "table_ok (eng_attempts e)"
  shows "length (eng_attempt_order (retain_attempt_locked a e)) \<le> attempt_bound e"
    "\<exists>ids. table_find (eng_attempts_by_envelope (retain_attempt_locked a e)) (id_value (att_envelope a)) = Some ids
       \<and> (length ids \<le> unat (ec_max_attempts_per_envelope (eng_config e))
          \<or> (\<forall>k \<in> set ids. \<forall>b. table_find (eng_attempts (retain_attempt_locked a e)) k = Some b
                \<longrightarrow> \<not> attempt_state_is_terminal (att_state b)))"
proof -
  obtain ids order ids1 m1 order1 where
    ev: "evict_terminal (unat (ec_max_attempts_per_envelope (eng_config e))) ids
           (table_put (id_value (att_id a)) a (eng_attempts e)) order = (ids1, m1, order1)"
    and r: "eng_attempts (retain_attempt_locked a e)
              = fold table_erase (take (length order1 - attempt_bound e) order1) m1"
    and o: "eng_attempt_order (retain_attempt_locked a e) = drop (length order1 - attempt_bound e) order1"
    and t: "table_find (eng_attempts_by_envelope (retain_attempt_locked a e)) (id_value (att_envelope a))
              = Some ids1"
    by (rule retain_attempt_shape)
  show "length (eng_attempt_order (retain_attempt_locked a e)) \<le> attempt_bound e"
    unfolding o by simp
  have ok: "table_ok m1" by (rule evict_terminal_result(4) [OF ev table_ok_put [OF assms]])
  have "table_find m1 k = Some b"
    if "table_find (eng_attempts (retain_attempt_locked a e)) k = Some b" for k b
    using table_find_entry [OF that] table_erase_all_entries table_entry_find [OF ok]
    unfolding r by blast
  then show "\<exists>ids. table_find (eng_attempts_by_envelope (retain_attempt_locked a e)) (id_value (att_envelope a)) = Some ids
       \<and> (length ids \<le> unat (ec_max_attempts_per_envelope (eng_config e))
          \<or> (\<forall>k \<in> set ids. \<forall>b. table_find (eng_attempts (retain_attempt_locked a e)) k = Some b
                \<longrightarrow> \<not> attempt_state_is_terminal (att_state b)))"
    using t evict_terminal_result(1) [OF ev] first_terminal_None by blast
qed

text \<open>
  retaining an attempt never drops one that is still open.  As long as the log of
  attempts is below its bound, the new attempt, if it is not terminal, is retained, and
  every other attempt that is not terminal is still found unchanged; the log stays
  within its bound, and the list of the attempt's envelope is within the per-envelope
  limit unless every attempt in it is still open.
\<close>

theorem retention_keeps_open_attempts:
  fixes e :: "'b Engine" and a :: EnforcementAttempt
  assumes "table_ok (eng_attempts e)" "length (eng_attempt_order e) < attempt_bound e"
  defines "e1 \<equiv> retain_attempt_locked a e"
  shows "(\<not> attempt_state_is_terminal (att_state a)
            \<longrightarrow> find_attempt_locked (att_id a) e1 = Some a)
         \<and> (\<forall>i b. i \<noteq> att_id a \<and> find_attempt_locked i e = Some b
              \<and> \<not> attempt_state_is_terminal (att_state b) \<longrightarrow> find_attempt_locked i e1 = Some b)
         \<and> length (eng_attempt_order e1) \<le> attempt_bound e
         \<and> (\<exists>ids. table_find (eng_attempts_by_envelope e1) (id_value (att_envelope a)) = Some ids
              \<and> (length ids \<le> unat (ec_max_attempts_per_envelope (eng_config e))
                 \<or> (\<forall>k \<in> set ids. \<forall>b. find_attempt_locked (StrongId k) e1 = Some b
                       \<longrightarrow> \<not> attempt_state_is_terminal (att_state b))))"
proof -
  have key: "id_value i \<noteq> id_value (att_id a)" if "i \<noteq> att_id a" for i
    using that by (cases i; cases "att_id a") auto
  show ?thesis
    unfolding e1_def find_attempt_locked_def
    using retain_attempt_find [OF assms(1,2)] retain_attempt_bounded [OF assms(1), of a] key
    by auto
qed

theorem retention_keeps_open_attempts_witness:
  "let a = empty_attempt\<lparr>att_id := StrongId 1, att_envelope := StrongId 1,
                         att_state := AttemptState_Dispatched\<rparr>
   in table_ok (eng_attempts example_engine)
      \<and> length (eng_attempt_order example_engine) < attempt_bound example_engine
      \<and> find_attempt_locked (StrongId 1) (retain_attempt_locked a example_engine) = Some a"
proof -
  let ?a = "empty_attempt\<lparr>att_id := StrongId 1, att_envelope := StrongId 1,
                         att_state := AttemptState_Dispatched\<rparr>"
  have e: "table_ok (eng_attempts example_engine)"
    "length (eng_attempt_order example_engine) < attempt_bound example_engine"
    by (simp_all add: example_engine_def rate_governor_def example_config_def attempt_bound_def
          normalize_config_def Let_def)
  show ?thesis
    using retention_keeps_open_attempts [OF e, of ?a] e
    by (simp add: attempt_state_is_terminal_def Let_def)
qed

end
