(* ===== verification/Engine_Authority.thy ===== *)
theory Engine_Authority
  imports Engine_State
begin

text \<open>
  Changes of authority (\<^verbatim>\<open>src/engine_authority.cpp\<close>): the state of a grant, a
  reservation, a policy or a resource, the fabric epoch and the admission of a backend
  session; and the loss of a session (\<^verbatim>\<open>src/engine_runtime.cpp\<close>), which the lifecycle
  operations report when they notice it.
\<close>

section \<open>Intake\<close>

text \<open>
  The checks every mutating call makes first: shutdown, then the incarnation of the
  actor.  A refusal is the answer of the call with the state that counted it.
\<close>

definition refuse_actor :: "ActorContext \<Rightarrow> 'b Engine \<Rightarrow> ('a Result \<times> 'b Engine) option" where
  "refuse_actor actor e =
     (case check_actor_locked actor e of
        None \<Rightarrow> None
      | Some fence \<Rightarrow>
          Some (fail ErrorCode_Fenced fence,
                count (\<lambda>c. c\<lparr>ct_fencing_rejections := ct_fencing_rejections c + 1\<rparr>) e))"

definition refuse_intake :: "ActorContext \<Rightarrow> 'b Engine \<Rightarrow> ('a Result \<times> 'b Engine) option" where
  "refuse_intake actor e =
     (if eng_shutting_down e then Some (reject_shutdown e) else refuse_actor actor e)"

section \<open>Authority state changes\<close>

definition change_grant_state ::
  "GrantId \<Rightarrow> Generation \<Rightarrow> GrantState \<Rightarrow> ReasonCode \<Rightarrow> ActorContext \<Rightarrow> 'b Engine \<Rightarrow> Status \<times> 'b Engine" where
  "change_grant_state i generation st reason actor e =
     (case refuse_intake actor e of
        Some refused \<Rightarrow> refused
      | None \<Rightarrow>
          (case table_find (eng_grants e) (id_value i) of
             None \<Rightarrow> (fail ErrorCode_NotFound R_PlanRejectedMissingGrant, e)
           | Some found \<Rightarrow>
               if grant_generation found \<noteq> generation
               then (fail ErrorCode_StaleAuthority R_PlanRejectedGrantGenerationMismatch, e)
               else
                 let updated = found\<lparr>grant_generation := StrongId (id_value generation + 1),
                                     grant_state := st, grant_provenance := actor_provenance actor\<rparr>
                 in (case commit_one_locked JT_GrantStateChange (encode_grant updated) e of
                     (Inl err, e1) \<Rightarrow> (Inl err, e1)
                   | (Inr _, e1) \<Rightarrow>
                       (Inr (), push_event_locked reason (StrongId 0) (StrongId 0) (StrongId 0)
                          (e1\<lparr>eng_grants := table_put (id_value i) updated (eng_grants e1)\<rparr>)))))"

definition change_reservation_state ::
  "ReservationId \<Rightarrow> Generation \<Rightarrow> ReservationState \<Rightarrow> ReasonCode \<Rightarrow> ActorContext \<Rightarrow> 'b Engine \<Rightarrow> Status \<times> 'b Engine" where
  "change_reservation_state i generation st reason actor e =
     (case refuse_intake actor e of
        Some refused \<Rightarrow> refused
      | None \<Rightarrow>
          (case table_find (eng_reservations e) (id_value i) of
             None \<Rightarrow> (fail ErrorCode_NotFound R_PlanRejectedMissingReservation, e)
           | Some found \<Rightarrow>
               if reservation_generation found \<noteq> generation
               then (fail ErrorCode_StaleAuthority R_PlanRejectedReservationGenerationMismatch, e)
               else
                 let updated = found\<lparr>reservation_generation := StrongId (id_value generation + 1),
                                     reservation_state := st, reservation_provenance := actor_provenance actor\<rparr>
                 in (case commit_one_locked JT_ReservationStateChange (encode_reservation updated) e of
                     (Inl err, e1) \<Rightarrow> (Inl err, e1)
                   | (Inr _, e1) \<Rightarrow>
                       (Inr (), push_event_locked reason (StrongId 0) (StrongId 0) (StrongId 0)
                          (e1\<lparr>eng_reservations := table_put (id_value i) updated (eng_reservations e1)\<rparr>)))))"

definition change_policy_state ::
  "PolicyId \<Rightarrow> Generation \<Rightarrow> PolicyState \<Rightarrow> ReasonCode \<Rightarrow> ActorContext \<Rightarrow> 'b Engine \<Rightarrow> Status \<times> 'b Engine" where
  "change_policy_state i generation st reason actor e =
     (case refuse_intake actor e of
        Some refused \<Rightarrow> refused
      | None \<Rightarrow>
          (case table_find (eng_policies e) (id_value i) of
             None \<Rightarrow> (fail ErrorCode_NotFound R_PlanRejectedMissingPolicy, e)
           | Some found \<Rightarrow>
               if policy_generation found \<noteq> generation
               then (fail ErrorCode_StaleAuthority R_PlanRejectedPolicyGenerationMismatch, e)
               else
                 let updated = found\<lparr>policy_generation := StrongId (id_value generation + 1),
                                     policy_state := st, policy_provenance := actor_provenance actor\<rparr>
                 in (case commit_one_locked JT_PolicyStateChange (encode_policy updated) e of
                     (Inl err, e1) \<Rightarrow> (Inl err, e1)
                   | (Inr _, e1) \<Rightarrow>
                       (Inr (), push_event_locked reason (StrongId 0) (StrongId 0) (StrongId 0)
                          (e1\<lparr>eng_policies := table_put (id_value i) updated (eng_policies e1)\<rparr>)))))"

definition change_resource_state ::
  "ResourceId \<Rightarrow> Generation \<Rightarrow> ResourceState \<Rightarrow> ReasonCode \<Rightarrow> ActorContext \<Rightarrow> 'b Engine \<Rightarrow> Status \<times> 'b Engine" where
  "change_resource_state i generation st reason actor e =
     (case refuse_intake actor e of
        Some refused \<Rightarrow> refused
      | None \<Rightarrow>
          (case table_find (eng_resources e) (id_value i) of
             None \<Rightarrow> (fail ErrorCode_NotFound R_PlanRejectedUnknownResource, e)
           | Some found \<Rightarrow>
               if resource_generation found \<noteq> generation
               then (fail ErrorCode_StaleAuthority R_PlanRejectedResourceGenerationMismatch, e)
               else
                 let updated = found\<lparr>resource_generation := StrongId (id_value generation + 1),
                                     resource_state := st, resource_provenance := actor_provenance actor\<rparr>
                 in (case commit_one_locked JT_ResourceStateChange (encode_resource updated) e of
                     (Inl err, e1) \<Rightarrow> (Inl err, e1)
                   | (Inr _, e1) \<Rightarrow>
                       (Inr (), push_event_locked reason (StrongId 0) (StrongId 0) (StrongId 0)
                          (e1\<lparr>eng_resources := table_put (id_value i) updated (eng_resources e1)\<rparr>)))))"

section \<open>The fabric epoch\<close>

definition holds_or_claims :: "RateEnvelope \<Rightarrow> bool" where
  "holds_or_claims env \<longleftrightarrow>
     env_effect_verified env \<or> env_applied_rate_ups env \<noteq> 0
     \<or> env_state env = EnvelopeState_Applied \<or> env_state env = EnvelopeState_Dispatching"

text \<open>
  What an epoch change leaves of an envelope that holds or claims an effect.  The code
  reads the clock once per envelope, so the reading is a function of the envelope's key.
\<close>

definition epoch_demoted :: "TimestampNs \<Rightarrow> RateEnvelope \<Rightarrow> RateEnvelope" where
  "epoch_demoted now env =
     (let u = env\<lparr>env_requires_revalidation := True, env_effect_verified := False\<rparr>;
          u1 = (if env_state u = EnvelopeState_Applied \<or> env_state u = EnvelopeState_Dispatching
                then u\<lparr>env_state := EnvelopeState_Degraded,
                       env_reason := R_EnvelopeStaleFabricEpochAdvanced\<rparr>
                else u)
      in u1\<lparr>env_updated_ns := now\<rparr>)"

definition epoch_updates :: "(u64 \<Rightarrow> TimestampNs) \<Rightarrow> 'b Engine \<Rightarrow> RateEnvelope list" where
  "epoch_updates clock e =
     map (\<lambda>entry. epoch_demoted (clock (fst entry)) (snd entry))
       (filter (\<lambda>entry. holds_or_claims (snd entry) \<or> env_requires_revalidation (snd entry))
          (eng_envelopes e))"

definition publish_stale :: "RateEnvelope \<Rightarrow> 'b Engine \<Rightarrow> 'b Engine" where
  "publish_stale u e =
     push_event_locked R_EnvelopeStaleFabricEpochAdvanced (env_id u) (env_generation u) (StrongId 0)
       (count (\<lambda>c. c\<lparr>ct_stale_transitions := ct_stale_transitions c + 1\<rparr>)
          (e\<lparr>eng_envelopes := table_put (id_value (env_id u)) u (eng_envelopes e)\<rparr>))"

definition advance_epoch ::
  "(u64 \<Rightarrow> TimestampNs) \<Rightarrow> FabricEpoch \<Rightarrow> ActorContext \<Rightarrow> 'b Engine \<Rightarrow> Status \<times> 'b Engine" where
  "advance_epoch clock new_epoch actor e =
     (if \<not> id_valid new_epoch \<or> new_epoch \<le> eng_epoch e
      then (fail ErrorCode_InvalidArgument R_MalformedInput, e)
      else (case refuse_actor actor e of
          Some refused \<Rightarrow> refused
        | None \<Rightarrow>
            let updates = epoch_updates clock e;
                records = (JT_EpochAdvance, encode_epoch_payload new_epoch (ec_boot (eng_config e))
                             R_EnvelopeStaleFabricEpochAdvanced)
                          # map (\<lambda>u. stage_envelope u JT_EnvelopeStateChange) updates
            in (case commit_records_locked records e of
                (Inl err, e1) \<Rightarrow> (Inl err, e1)
              | (Inr _, e1) \<Rightarrow>
                  let e2 = e1\<lparr>eng_epoch := new_epoch, eng_backend_bound := False,
                              eng_backend_session_epoch := StrongId 0\<rparr>
                  in (Inr (), push_event_locked R_EnvelopeStaleFabricEpochAdvanced (StrongId 0)
                        (StrongId 0) (StrongId 0) (fold publish_stale updates e2)))))"

section \<open>Admission and loss of a backend session\<close>

definition bind_backend ::
  "('b BackendOps \<times> 'b) option \<Rightarrow> FabricEpoch \<Rightarrow> 'b Engine \<Rightarrow> 'b Engine" where
  "bind_backend backend session_epoch e =
     (let reported = (case backend of None \<Rightarrow> StrongId 0 | Some (ops, b) \<Rightarrow> ops_session_epoch ops b);
          epoch_agrees = (id_valid reported \<and> reported = eng_epoch e \<and> session_epoch = eng_epoch e);
          bound = (case backend of None \<Rightarrow> False
                   | Some (ops, b) \<Rightarrow> ops_session_live ops b \<and> epoch_agrees);
          e1 = e\<lparr>eng_backend := backend, eng_backend_session_epoch := session_epoch,
                 eng_backend_bound := bound\<rparr>;
          e2 = (if bound then e1
                else count (\<lambda>c. c\<lparr>ct_fencing_rejections := ct_fencing_rejections c + 1\<rparr>) e1)
      in push_event_locked (if bound then R_BackendSessionEstablished else R_BackendFencedStaleEpoch)
           (StrongId 0) (StrongId 0) (StrongId 0) e2)"

primrec merge_envelope :: "RateEnvelope list \<Rightarrow> RateEnvelope \<Rightarrow> RateEnvelope list" where
  "merge_envelope [] candidate = [candidate]"
| "merge_envelope (x # xs) candidate =
     (if env_id x = env_id candidate then candidate # xs else x # merge_envelope xs candidate)"

primrec merge_attempt :: "EnforcementAttempt list \<Rightarrow> EnforcementAttempt \<Rightarrow> EnforcementAttempt list" where
  "merge_attempt [] candidate = [candidate]"
| "merge_attempt (x # xs) candidate =
     (if att_id x = att_id candidate then candidate # xs else x # merge_attempt xs candidate)"

definition session_lost_update :: "RateEnvelope \<Rightarrow> RateEnvelope" where
  "session_lost_update env =
     (let u = env\<lparr>env_effect_verified := False, env_requires_revalidation := True\<rparr>
      in if env_state u = EnvelopeState_Applied \<or> env_state u = EnvelopeState_Dispatching
         then u\<lparr>env_state := EnvelopeState_Degraded, env_reason := R_BackendSessionLost\<rparr>
         else if env_reason u = R_None then u\<lparr>env_reason := R_BackendSessionLost\<rparr> else u)"

definition collect_session_lost_updates_locked ::
  "'b Engine \<Rightarrow> RateEnvelope list \<Rightarrow> RateEnvelope list" where
  "collect_session_lost_updates_locked e out =
     fold (\<lambda>entry acc. if holds_or_claims (snd entry)
                       then merge_envelope acc (session_lost_update (snd entry)) else acc)
       (eng_envelopes e) out"

definition put_envelope :: "RateEnvelope \<Rightarrow> 'b Engine \<Rightarrow> 'b Engine" where
  "put_envelope env e =
     e\<lparr>eng_envelopes := table_put (id_value (env_id env)) env (eng_envelopes e)\<rparr>"

definition put_attempt :: "EnforcementAttempt \<Rightarrow> 'b Engine \<Rightarrow> 'b Engine" where
  "put_attempt a e = e\<lparr>eng_attempts := table_put (id_value (att_id a)) a (eng_attempts e)\<rparr>"

definition mark_session_lost :: "ActorContext \<Rightarrow> 'b Engine \<Rightarrow> Status \<times> 'b Engine" where
  "mark_session_lost actor e =
     (case refuse_actor actor e of
        Some refused \<Rightarrow> refused
      | None \<Rightarrow>
          let e1 = e\<lparr>eng_backend_bound := False\<rparr>;
              updates = collect_session_lost_updates_locked e1 [];
              lost = push_event_locked R_BackendSessionLost (StrongId 0) (StrongId 0) (StrongId 0)
          in if updates = [] then (Inr (), lost e1)
             else (case commit_many_locked
                          (map (\<lambda>u. stage_envelope u JT_EnvelopeStateChange) updates) e1 of
                 (Inl err, e2) \<Rightarrow> (Inl err, e2)
               | (Inr _, e2) \<Rightarrow>
                   (Inr (), lost (fold (\<lambda>u s. count (\<lambda>c. c\<lparr>ct_stale_transitions :=
                        ct_stale_transitions c + 1\<rparr>) (put_envelope u s)) updates e2))))"

section \<open>The tables are keyed by identity\<close>

definition keyed :: "('v \<Rightarrow> u64) \<Rightarrow> 'v table \<Rightarrow> bool" where
  "keyed key m \<longleftrightarrow> table_ok m \<and> (\<forall>(k, v) \<in> set m. key v = k)"

lemma keyed_Nil [simp]: "keyed key []"
  by (simp add: keyed_def)

lemma keyed_ok: "keyed key m \<Longrightarrow> table_ok m"
  by (simp add: keyed_def)

lemma keyed_find: "keyed key m \<Longrightarrow> table_find m k = Some v \<Longrightarrow> key v = k"
  unfolding keyed_def using table_find_entry by fastforce

lemma keyed_put: "keyed key m \<Longrightarrow> key v = k \<Longrightarrow> keyed key (table_put k v m)"
  unfolding keyed_def using table_entries_put [of k v m] table_ok_put [of m k v] by fastforce

lemma keyed_subset: "keyed key m \<Longrightarrow> table_ok m' \<Longrightarrow> set m' \<subseteq> set m \<Longrightarrow> keyed key m'"
  unfolding keyed_def by blast

lemma keyed_put_all: "keyed key m \<Longrightarrow> keyed key (table_put_all key us m)"
  by (induction us arbitrary: m) (auto simp: keyed_put)

text \<open>A loop that rewrites some of the entries in place, read back by lookup.\<close>

lemma table_find_put_all_map:
  assumes "table_ok m" "\<And>x. x \<in> set m \<Longrightarrow> key (f x) = fst x"
  shows "table_find (table_put_all key (map f (filter P m)) m') k =
    (case table_find m k of
       Some v \<Rightarrow> if P (k, v) then Some (f (k, v)) else table_find m' k
     | None \<Rightarrow> table_find m' k)"
  using assms
proof (induction m arbitrary: m')
  case (Cons x m)
  have absent: "table_find m (fst x) = None"
    using Cons.prems(1) by (intro table_find_absent) auto
  show ?case
    using Cons absent by (cases x) (auto split: option.splits)
qed simp

abbreviation envelope_key :: "RateEnvelope \<Rightarrow> u64" where
  "envelope_key env \<equiv> id_value (env_id env)"

abbreviation attempt_key :: "EnforcementAttempt \<Rightarrow> u64" where
  "attempt_key a \<equiv> id_value (att_id a)"

section \<open>What an epoch change and a lost session leave\<close>

lemma publish_stale_fields [simp]:
  "eng_envelopes (fold publish_stale us e) = table_put_all envelope_key us (eng_envelopes e)"
  "eng_epoch (fold publish_stale us e) = eng_epoch e"
  "eng_backend_bound (fold publish_stale us e) = eng_backend_bound e"
  "eng_attempts (fold publish_stale us e) = eng_attempts e"
  "eng_attempt_order (fold publish_stale us e) = eng_attempt_order e"
  "eng_attempts_by_envelope (fold publish_stale us e) = eng_attempts_by_envelope e"
  "eng_config (fold publish_stale us e) = eng_config e"
  "eng_backend (fold publish_stale us e) = eng_backend e"
  "eng_next_envelope_id (fold publish_stale us e) = eng_next_envelope_id e"
  "eng_next_attempt_id (fold publish_stale us e) = eng_next_attempt_id e"
  "eng_flows (fold publish_stale us e) = eng_flows e"
  "eng_grants (fold publish_stale us e) = eng_grants e"
  "eng_reservations (fold publish_stale us e) = eng_reservations e"
  "eng_policies (fold publish_stale us e) = eng_policies e"
  "eng_resources (fold publish_stale us e) = eng_resources e"
  "eng_backends (fold publish_stale us e) = eng_backends e"
  "eng_shutting_down (fold publish_stale us e) = eng_shutting_down e"
  by (induction us arbitrary: e) (simp_all add: publish_stale_def)

lemma epoch_demoted_fields [simp]:
  "env_id (epoch_demoted now env) = env_id env"
  "env_generation (epoch_demoted now env) = env_generation env"
  "env_effect_verified (epoch_demoted now env) = False"
  "env_requires_revalidation (epoch_demoted now env) = True"
  "env_bucket (epoch_demoted now env) = env_bucket env"
  "env_plan (epoch_demoted now env) = env_plan env"
  "env_has_plan (epoch_demoted now env) = env_has_plan env"
  "env_applied_rate_ups (epoch_demoted now env) = env_applied_rate_ups env"
  "env_state (epoch_demoted now env) =
     (if env_state env = EnvelopeState_Applied \<or> env_state env = EnvelopeState_Dispatching
      then EnvelopeState_Degraded else env_state env)"
  by (simp_all add: epoch_demoted_def Let_def)

lemma advance_epoch_success:
  assumes "advance_epoch clock new_epoch actor e = (Inr u, e1)"
  shows "eng_epoch e < new_epoch" "eng_epoch e1 = new_epoch" "\<not> eng_backend_bound e1"
    "eng_envelopes e1 = table_put_all envelope_key (epoch_updates clock e) (eng_envelopes e)"
    "eng_attempts e1 = eng_attempts e" "eng_config e1 = eng_config e" "check_actor_locked actor e = None"
  using assms
  by (auto simp: advance_epoch_def refuse_actor_def fail_def Let_def
        only_durability_fields [OF commit_records_frame]
        split: if_splits option.splits prod.splits sum.splits)

lemma advance_epoch_failure:
  assumes "advance_epoch clock new_epoch actor e = (Inl err, e1)"
  shows "only_durability e e1"
  using assms
  by (auto simp: advance_epoch_def refuse_actor_def Let_def
        intro: only_durability_updates commit_records_frame
        split: if_splits option.splits prod.splits sum.splits)

lemma epoch_updates_find:
  assumes "keyed envelope_key (eng_envelopes e)"
  shows "table_find (table_put_all envelope_key (epoch_updates clock e) (eng_envelopes e)) k =
    map_option (\<lambda>env. if holds_or_claims env \<or> env_requires_revalidation env
                      then epoch_demoted (clock k) env else env) (table_find (eng_envelopes e) k)"
  using assms unfolding epoch_updates_def keyed_def
  by (subst table_find_put_all_map) (auto split: option.splits)

text \<open>
  C23: an epoch change is fail-safe.  When it succeeds, the epoch has strictly grown to
  the requested one, no backend session is admitted any more, no envelope presents a
  verified effect or the states applied or dispatching, and every envelope that held or
  claimed an effect, or already required revalidation, requires it now; the others are
  untouched and no envelope disappears.  When it is refused, the epoch, the envelopes
  and the session are as they were.
\<close>

theorem advance_epoch_fails_safe:
  assumes "keyed envelope_key (eng_envelopes e)" "advance_epoch clock new_epoch actor e = (r, e1)"
  shows "case r of
      Inr _ \<Rightarrow>
        eng_epoch e < new_epoch \<and> eng_epoch e1 = new_epoch \<and> \<not> eng_backend_bound e1
        \<and> (\<forall>i. case find_envelope_locked i e of
             None \<Rightarrow> find_envelope_locked i e1 = None
           | Some env \<Rightarrow>
               \<exists>env1. find_envelope_locked i e1 = Some env1 \<and> \<not> env_effect_verified env1
                 \<and> env_state env1 \<notin> {EnvelopeState_Applied, EnvelopeState_Dispatching}
                 \<and> (if holds_or_claims env \<or> env_requires_revalidation env
                    then env_requires_revalidation env1 else env1 = env))
    | Inl _ \<Rightarrow>
        eng_epoch e1 = eng_epoch e \<and> eng_envelopes e1 = eng_envelopes e
        \<and> eng_backend_bound e1 = eng_backend_bound e"
proof (cases r)
  case (Inl err)
  then show ?thesis
    using only_durability_fields [OF advance_epoch_failure [OF assms(2) [unfolded Inl]]] by simp
next
  case (Inr u)
  have find: "find_envelope_locked i e1 = map_option (\<lambda>env. if holds_or_claims env
      \<or> env_requires_revalidation env then epoch_demoted (clock (id_value i)) env else env)
      (find_envelope_locked i e)" for i
    using advance_epoch_success(4) [OF assms(2) [unfolded Inr]] epoch_updates_find [OF assms(1)]
    by (simp add: find_envelope_locked_def)
  have "case find_envelope_locked i e of
             None \<Rightarrow> find_envelope_locked i e1 = None
           | Some env \<Rightarrow>
               \<exists>env1. find_envelope_locked i e1 = Some env1 \<and> \<not> env_effect_verified env1
                 \<and> env_state env1 \<notin> {EnvelopeState_Applied, EnvelopeState_Dispatching}
                 \<and> (if holds_or_claims env \<or> env_requires_revalidation env
                    then env_requires_revalidation env1 else env1 = env)" for i
  proof (cases "find_envelope_locked i e")
    case (Some env)
    then show ?thesis
      by (cases "holds_or_claims env \<or> env_requires_revalidation env")
         (simp_all add: find, auto simp: holds_or_claims_def)
  qed (simp add: find)
  then show ?thesis
    unfolding Inr using advance_epoch_success(1-3) [OF assms(2) [unfolded Inr]] by simp
qed

text \<open>An engine without a journal that holds one applied envelope.\<close>

definition example_applied :: RateEnvelope where
  "example_applied = empty_envelope\<lparr>env_id := StrongId 9, env_generation := StrongId 1,
     env_state := EnvelopeState_Applied, env_effect_verified := True, env_applied_rate_ups := 400\<rparr>"

definition example_actor :: ActorContext where
  "example_actor = operator_context (StrongId 1) (StrongId 7) ''operator''"

lemma example_engine_fields [simp]:
  "eng_epoch example_engine = StrongId 1" "eng_envelopes example_engine = []"
  "eng_attempts example_engine = []" "eng_shutting_down example_engine = False"
  "eng_grants example_engine = []" "eng_flows example_engine = []"
  "eng_config example_engine = example_config DurabilityMode_None"
  by (simp_all add: example_engine_def rate_governor_def example_config_def normalize_config_def
        Let_def id_valid_def)

lemma example_config_fields [simp]:
  "ec_durability (example_config mode) = mode" "ec_boot (example_config mode) = StrongId 7"
  by (simp_all add: example_config_def)

lemma example_actor_admitted:
  "eng_epoch e = StrongId 1 \<Longrightarrow> ec_boot (eng_config e) = StrongId 7
   \<Longrightarrow> check_actor_locked example_actor e = None"
  by (simp add: check_actor_locked_def example_actor_def operator_context_def has_incarnation_def
        id_valid_def authoritative_def)

lemma commit_not_strict:
  "ec_durability (eng_config e) \<noteq> DurabilityMode_Strict \<Longrightarrow> commit_records_locked rs e = (Inr (), e)"
  by (simp add: commit_records_locked_def)

theorem advance_epoch_fails_safe_witness:
  "let e = put_envelope example_applied example_engine;
       e1 = snd (advance_epoch (\<lambda>_. 5) (StrongId 2) example_actor e)
   in keyed envelope_key (eng_envelopes e)
      \<and> eng_epoch e1 = StrongId 2
      \<and> (\<exists>env1. find_envelope_locked (StrongId 9) e1 = Some env1 \<and> \<not> env_effect_verified env1
           \<and> env_requires_revalidation env1)"
proof -
  define e where "e = put_envelope example_applied example_engine"
  have k: "keyed envelope_key (eng_envelopes e)"
    by (simp add: e_def put_envelope_def keyed_def)
  have "check_actor_locked example_actor e = None"
    by (rule example_actor_admitted) (simp_all add: e_def put_envelope_def)
  then have "fst (advance_epoch (\<lambda>_. 5) (StrongId 2) example_actor e) = Inr ()"
    by (simp add: advance_epoch_def refuse_actor_def commit_not_strict id_valid_def
          e_def put_envelope_def Let_def less_eq_StrongId_def word_le_nat_alt)
  then obtain e1 where a: "advance_epoch (\<lambda>_. 5) (StrongId 2) example_actor e = (Inr (), e1)"
    by (metis prod.collapse)
  have "find_envelope_locked (StrongId 9) e = Some example_applied" "holds_or_claims example_applied"
    by (simp_all add: e_def put_envelope_def find_envelope_locked_def example_applied_def holds_or_claims_def)
  then show ?thesis
    using advance_epoch_fails_safe [OF k a] k a
    unfolding Let_def e_def [symmetric]
    by (auto dest!: spec [of _ "StrongId 9"])
qed

section \<open>The lost session\<close>

lemma session_lost_fields [simp]:
  "env_id (session_lost_update env) = env_id env"
  "env_generation (session_lost_update env) = env_generation env"
  "env_effect_verified (session_lost_update env) = False"
  "env_requires_revalidation (session_lost_update env) = True"
  "env_bucket (session_lost_update env) = env_bucket env"
  "env_plan (session_lost_update env) = env_plan env"
  "env_has_plan (session_lost_update env) = env_has_plan env"
  "env_applied_rate_ups (session_lost_update env) = env_applied_rate_ups env"
  "env_state (session_lost_update env) =
     (if env_state env = EnvelopeState_Applied \<or> env_state env = EnvelopeState_Dispatching
      then EnvelopeState_Degraded else env_state env)"
  by (simp_all add: session_lost_update_def Let_def)

text \<open>
  A list of updates that is merged by identity.  Merging the updates of a keyed table, in
  order, is collecting them, and publishing the list rewrites exactly the chosen entries.
\<close>

locale update_list =
  fixes merge :: "'v list \<Rightarrow> 'v \<Rightarrow> 'v list" and key :: "'v \<Rightarrow> u64"
  assumes merge_fresh: "key u \<notin> key ` set xs \<Longrightarrow> merge xs u = xs @ [u]"
begin

lemma collect:
  assumes "keyed key m" "\<And>x. x \<in> set m \<Longrightarrow> key (f (snd x)) = key (snd x)"
    and "\<And>u x. u \<in> set out \<Longrightarrow> x \<in> set m \<Longrightarrow> key u \<noteq> key (snd x)"
  shows "fold (\<lambda>x acc. if P (snd x) then merge acc (f (snd x)) else acc) m out
         = out @ map (\<lambda>x. f (snd x)) (filter (\<lambda>x. P (snd x)) m)"
  using assms
proof (induction m arbitrary: out)
  case (Cons x m)
  have later: "key (snd x) \<noteq> key (snd y)" if "y \<in> set m" for y
    using Cons.prems(1) that by (cases x; cases y) (force simp: keyed_def)
  have ih: "fold (\<lambda>x acc. if P (snd x) then merge acc (f (snd x)) else acc) m out'
        = out' @ map (\<lambda>x. f (snd x)) (filter (\<lambda>x. P (snd x)) m)"
    if "\<And>u y. u \<in> set out' \<Longrightarrow> y \<in> set m \<Longrightarrow> key u \<noteq> key (snd y)" for out'
    using Cons.prems(1,2) that by (intro Cons.IH) (auto simp: keyed_def)
  have "merge out (f (snd x)) = out @ [f (snd x)]"
    using Cons.prems(2,3) by (intro merge_fresh) (fastforce)
  moreover have "key u \<noteq> key (snd y)" if "u \<in> set (out @ [f (snd x)])" "y \<in> set m" for u y
    using that Cons.prems(2) [of x] Cons.prems(3) [of u y] later [of y] by auto
  ultimately show ?case
    using Cons.prems(3) ih [of out] ih [of "out @ [f (snd x)]"]
    by (cases "P (snd x)") simp_all
qed simp

lemma collect_find:
  assumes "keyed key m" "\<And>x. x \<in> set m \<Longrightarrow> key (f (snd x)) = key (snd x)"
  shows "table_find (table_put_all key
      (fold (\<lambda>x acc. if P (snd x) then merge acc (f (snd x)) else acc) m []) m) k
    = map_option (\<lambda>v. if P v then f v else v) (table_find m k)"
  unfolding collect [where out = "[]", OF assms, simplified]
  using assms by (subst table_find_put_all_map) (auto simp: keyed_def split: option.splits)

end

interpretation envelope_updates: update_list merge_envelope envelope_key
proof
  fix u :: RateEnvelope and xs
  show "envelope_key u \<notin> envelope_key ` set xs \<Longrightarrow> merge_envelope xs u = xs @ [u]"
    by (induction xs) auto
qed

interpretation attempt_updates: update_list merge_attempt attempt_key
proof
  fix u :: EnforcementAttempt and xs
  show "attempt_key u \<notin> attempt_key ` set xs \<Longrightarrow> merge_attempt xs u = xs @ [u]"
    by (induction xs) auto
qed

lemma put_envelope_fields [simp]:
  "eng_envelopes (put_envelope env e) = table_put (envelope_key env) env (eng_envelopes e)"
  "eng_config (put_envelope env e) = eng_config e" "eng_epoch (put_envelope env e) = eng_epoch e"
  "eng_attempts (put_envelope env e) = eng_attempts e" "eng_backend (put_envelope env e) = eng_backend e"
  "eng_attempt_order (put_envelope env e) = eng_attempt_order e"
  "eng_attempts_by_envelope (put_envelope env e) = eng_attempts_by_envelope e"
  "eng_backend_bound (put_envelope env e) = eng_backend_bound e"
  "eng_next_envelope_id (put_envelope env e) = eng_next_envelope_id e"
  "eng_next_attempt_id (put_envelope env e) = eng_next_attempt_id e"
  "eng_flows (put_envelope env e) = eng_flows e" "eng_grants (put_envelope env e) = eng_grants e"
  "eng_reservations (put_envelope env e) = eng_reservations e"
  "eng_policies (put_envelope env e) = eng_policies e"
  "eng_resources (put_envelope env e) = eng_resources e"
  "eng_backends (put_envelope env e) = eng_backends e"
  "eng_shutting_down (put_envelope env e) = eng_shutting_down e"
  by (simp_all add: put_envelope_def)

lemma put_all_envelopes_fields [simp]:
  fixes g :: "RateEnvelope \<Rightarrow> EngineCounters \<Rightarrow> EngineCounters"
  defines "put us e \<equiv> fold (\<lambda>u s. count (g u) (put_envelope u s)) us e"
  shows "eng_envelopes (put us e) = table_put_all envelope_key us (eng_envelopes e)"
    "eng_config (put us e) = eng_config e" "eng_epoch (put us e) = eng_epoch e"
    "eng_attempts (put us e) = eng_attempts e" "eng_backend (put us e) = eng_backend e"
    "eng_attempt_order (put us e) = eng_attempt_order e"
    "eng_attempts_by_envelope (put us e) = eng_attempts_by_envelope e"
    "eng_backend_bound (put us e) = eng_backend_bound e"
    "eng_next_envelope_id (put us e) = eng_next_envelope_id e"
    "eng_next_attempt_id (put us e) = eng_next_attempt_id e"
    "eng_flows (put us e) = eng_flows e" "eng_grants (put us e) = eng_grants e"
    "eng_reservations (put us e) = eng_reservations e" "eng_policies (put us e) = eng_policies e"
    "eng_resources (put us e) = eng_resources e" "eng_backends (put us e) = eng_backends e"
    "eng_shutting_down (put us e) = eng_shutting_down e"
  unfolding put_def by (induction us arbitrary: e) simp_all

lemma session_lost_find:
  assumes "keyed envelope_key (eng_envelopes e)"
  shows "table_find (table_put_all envelope_key (collect_session_lost_updates_locked e []) (eng_envelopes e)) k =
    map_option (\<lambda>env. if holds_or_claims env then session_lost_update env else env)
      (table_find (eng_envelopes e) k)"
  unfolding collect_session_lost_updates_locked_def
  by (rule envelope_updates.collect_find [OF assms]) simp

lemma mark_session_lost_success:
  assumes "mark_session_lost actor e = (Inr u, e1)"
  shows "\<not> eng_backend_bound e1"
    "eng_envelopes e1 = table_put_all envelope_key (collect_session_lost_updates_locked e []) (eng_envelopes e)"
    "eng_attempts e1 = eng_attempts e" "eng_config e1 = eng_config e" "eng_epoch e1 = eng_epoch e"
proof -
  have lost: "collect_session_lost_updates_locked (e\<lparr>eng_backend_bound := b\<rparr>) [] = collect_session_lost_updates_locked e []" for b
    by (simp add: collect_session_lost_updates_locked_def)
  show "\<not> eng_backend_bound e1"
    "eng_envelopes e1 = table_put_all envelope_key (collect_session_lost_updates_locked e []) (eng_envelopes e)"
    "eng_attempts e1 = eng_attempts e" "eng_config e1 = eng_config e" "eng_epoch e1 = eng_epoch e"
    using assms
    by (auto simp: mark_session_lost_def refuse_actor_def fail_def Let_def lost
          only_durability_fields [OF commit_many_frame]
          split: if_splits option.splits prod.splits sum.splits)
qed

text \<open>
  noticing that the enforcement session is gone withdraws every claim it supported:
  no session is admitted any more, no envelope presents a verified effect or the states
  applied or dispatching, and each envelope that did, or that has a recorded rate,
  requires revalidation.  The others are untouched.
\<close>

theorem lost_session_withdraws_claims:
  assumes "keyed envelope_key (eng_envelopes e)" "mark_session_lost actor e = (Inr u, e1)"
    and "find_envelope_locked i e = Some env"
  shows "\<not> eng_backend_bound e1
    \<and> (\<exists>env1. find_envelope_locked i e1 = Some env1 \<and> \<not> env_effect_verified env1
         \<and> env_state env1 \<notin> {EnvelopeState_Applied, EnvelopeState_Dispatching}
         \<and> (if holds_or_claims env then env_requires_revalidation env1 else env1 = env))"
proof -
  have "find_envelope_locked i e1 = Some (if holds_or_claims env then session_lost_update env else env)"
    using mark_session_lost_success(2) [OF assms(2)] session_lost_find [OF assms(1)] assms(3)
    by (simp add: find_envelope_locked_def)
  then show ?thesis
    using mark_session_lost_success(1) [OF assms(2)]
    by (cases "holds_or_claims env") (auto simp: holds_or_claims_def)
qed

theorem lost_session_withdraws_claims_witness:
  "let e = put_envelope example_applied example_engine;
       e1 = snd (mark_session_lost example_actor e)
   in find_envelope_locked (StrongId 9) e = Some example_applied
      \<and> (\<exists>env1. find_envelope_locked (StrongId 9) e1 = Some env1 \<and> \<not> env_effect_verified env1
           \<and> env_requires_revalidation env1)"
proof -
  define e where "e = put_envelope example_applied example_engine"
  have k: "keyed envelope_key (eng_envelopes e)"
    by (simp add: e_def keyed_def)
  have c: "check_actor_locked example_actor e = None"
    by (rule example_actor_admitted) (simp_all add: e_def)
  have "ec_durability (eng_config e) \<noteq> DurabilityMode_Strict" by (simp add: e_def)
  then have n: "commit_many_locked rs (e\<lparr>eng_backend_bound := False\<rparr>) = (Inr (), e\<lparr>eng_backend_bound := False\<rparr>)" for rs
    by (induction rs "e\<lparr>eng_backend_bound := False\<rparr>" rule: commit_many_locked.induct)
       (subst commit_many_locked.simps, simp add: commit_not_strict)
  have "fst (mark_session_lost example_actor e) = Inr ()"
    by (simp add: mark_session_lost_def refuse_actor_def c n Let_def)
  then obtain e1 where a: "mark_session_lost example_actor e = (Inr (), e1)"
    by (metis prod.collapse)
  have f: "find_envelope_locked (StrongId 9) e = Some example_applied" and "holds_or_claims example_applied"
    by (simp_all add: e_def find_envelope_locked_def example_applied_def holds_or_claims_def)
  then show ?thesis
    using lost_session_withdraws_claims [OF k a f] a
    unfolding Let_def e_def [symmetric] by auto
qed

section \<open>Authority only moves forward\<close>

datatype AuthorityUpdate =
    PutFlow Flow | PutGrant Grant | PutReservation Reservation | PutPolicy Policy
  | PutResource Resource | PutBackend BackendDescriptor
  | ChangeGrant GrantId Generation GrantState ReasonCode ActorContext
  | ChangeReservation ReservationId Generation ReservationState ReasonCode ActorContext
  | ChangePolicy PolicyId Generation PolicyState ReasonCode ActorContext
  | ChangeResource ResourceId Generation ResourceState ReasonCode ActorContext

primrec run_authority :: "AuthorityUpdate \<Rightarrow> 'b Engine \<Rightarrow> Status \<times> 'b Engine" where
  "run_authority (PutFlow x) = put_flow x"
| "run_authority (PutGrant x) = put_grant x"
| "run_authority (PutReservation x) = put_reservation x"
| "run_authority (PutPolicy x) = put_policy x"
| "run_authority (PutResource x) = put_resource x"
| "run_authority (PutBackend x) = put_backend x"
| "run_authority (ChangeGrant i g st r actor) = change_grant_state i g st r actor"
| "run_authority (ChangeReservation i g st r actor) = change_reservation_state i g st r actor"
| "run_authority (ChangePolicy i g st r actor) = change_policy_state i g st r actor"
| "run_authority (ChangeResource i g st r actor) = change_resource_state i g st r actor"

text \<open>The last generation cannot be advanced: the increment would wrap to zero.\<close>

primrec advances :: "AuthorityUpdate \<Rightarrow> bool" where
  "advances (PutFlow x) = True"
| "advances (PutGrant x) = True"
| "advances (PutReservation x) = True"
| "advances (PutPolicy x) = True"
| "advances (PutResource x) = True"
| "advances (PutBackend x) = True"
| "advances (ChangeGrant i g st r actor) = (id_value g \<noteq> kU64Max)"
| "advances (ChangeReservation i g st r actor) = (id_value g \<noteq> kU64Max)"
| "advances (ChangePolicy i g st r actor) = (id_value g \<noteq> kU64Max)"
| "advances (ChangeResource i g st r actor) = (id_value g \<noteq> kU64Max)"

definition authorities_advanced :: "'b Engine \<Rightarrow> 'b Engine \<Rightarrow> bool" where
  "authorities_advanced e e1 \<longleftrightarrow>
     superseded flow_generation (eng_flows e) (eng_flows e1)
     \<and> superseded grant_generation (eng_grants e) (eng_grants e1)
     \<and> superseded reservation_generation (eng_reservations e) (eng_reservations e1)
     \<and> superseded policy_generation (eng_policies e) (eng_policies e1)
     \<and> superseded resource_generation (eng_resources e) (eng_resources e1)
     \<and> superseded backend_generation (eng_backends e) (eng_backends e1)"

lemma authorities_advanced_refl [simp]: "authorities_advanced e e"
  by (simp add: authorities_advanced_def)

lemma authorities_advanced_trans:
  "authorities_advanced e e1 \<Longrightarrow> authorities_advanced e1 e2 \<Longrightarrow> authorities_advanced e e2"
  unfolding authorities_advanced_def by (meson superseded_trans)

lemma next_generation: "id_value g \<noteq> kU64Max \<Longrightarrow> g < StrongId (id_value g + 1)"
proof -
  assume "id_value g \<noteq> kU64Max"
  then have "unat (id_value g) \<noteq> unat kU64Max" by (simp add: word_unat_eq_iff)
  then have "unat (id_value g) < 18446744073709551615"
    using unat_u64_lt [of "id_value g"] by (simp del: unat_u64_lt)
  then show ?thesis by (simp add: less_StrongId_def word_less_nat_alt unat_word_ariths)
qed

lemma put_flow_others:
  shows "eng_grants (snd (put_flow x e)) = eng_grants e"
    "eng_reservations (snd (put_flow x e)) = eng_reservations e"
    "eng_policies (snd (put_flow x e)) = eng_policies e"
    "eng_resources (snd (put_flow x e)) = eng_resources e"
    "eng_backends (snd (put_flow x e)) = eng_backends e"
  by (auto simp: put_flow_def ingest_cases only_durability_fields [OF commit_one_frame]
        split: prod.splits sum.splits)

lemma put_grant_others:
  shows "eng_flows (snd (put_grant x e)) = eng_flows e"
    "eng_reservations (snd (put_grant x e)) = eng_reservations e"
    "eng_policies (snd (put_grant x e)) = eng_policies e"
    "eng_resources (snd (put_grant x e)) = eng_resources e"
    "eng_backends (snd (put_grant x e)) = eng_backends e"
  by (auto simp: put_grant_def ingest_cases only_durability_fields [OF commit_one_frame]
        split: prod.splits sum.splits)

lemma put_reservation_others:
  shows "eng_flows (snd (put_reservation x e)) = eng_flows e"
    "eng_grants (snd (put_reservation x e)) = eng_grants e"
    "eng_policies (snd (put_reservation x e)) = eng_policies e"
    "eng_resources (snd (put_reservation x e)) = eng_resources e"
    "eng_backends (snd (put_reservation x e)) = eng_backends e"
  by (auto simp: put_reservation_def ingest_cases only_durability_fields [OF commit_one_frame]
        split: prod.splits sum.splits)

lemma put_policy_others:
  shows "eng_flows (snd (put_policy x e)) = eng_flows e"
    "eng_grants (snd (put_policy x e)) = eng_grants e"
    "eng_reservations (snd (put_policy x e)) = eng_reservations e"
    "eng_resources (snd (put_policy x e)) = eng_resources e"
    "eng_backends (snd (put_policy x e)) = eng_backends e"
  by (auto simp: put_policy_def ingest_cases only_durability_fields [OF commit_one_frame]
        split: prod.splits sum.splits)

lemma put_resource_others:
  shows "eng_flows (snd (put_resource x e)) = eng_flows e"
    "eng_grants (snd (put_resource x e)) = eng_grants e"
    "eng_reservations (snd (put_resource x e)) = eng_reservations e"
    "eng_policies (snd (put_resource x e)) = eng_policies e"
    "eng_backends (snd (put_resource x e)) = eng_backends e"
  by (auto simp: put_resource_def ingest_cases only_durability_fields [OF commit_one_frame]
        split: prod.splits sum.splits)

lemma put_backend_others:
  shows "eng_flows (snd (put_backend x e)) = eng_flows e"
    "eng_grants (snd (put_backend x e)) = eng_grants e"
    "eng_reservations (snd (put_backend x e)) = eng_reservations e"
    "eng_policies (snd (put_backend x e)) = eng_policies e"
    "eng_resources (snd (put_backend x e)) = eng_resources e"
  by (auto simp: put_backend_def ingest_cases only_durability_fields [OF commit_one_frame]
        split: prod.splits sum.splits)

lemma change_grant_state_tables:
  shows "eng_flows (snd (change_grant_state i g st r actor e)) = eng_flows e"
    "eng_reservations (snd (change_grant_state i g st r actor e)) = eng_reservations e"
    "eng_policies (snd (change_grant_state i g st r actor e)) = eng_policies e"
    "eng_resources (snd (change_grant_state i g st r actor e)) = eng_resources e"
    "eng_backends (snd (change_grant_state i g st r actor e)) = eng_backends e"
    "id_value g \<noteq> kU64Max \<Longrightarrow>
     superseded grant_generation (eng_grants e) (eng_grants (snd (change_grant_state i g st r actor e)))"
  by (auto simp: change_grant_state_def refuse_intake_def refuse_actor_def reject_shutdown_def Let_def
        only_durability_fields [OF commit_one_frame] next_generation
        intro: superseded_put split: option.splits prod.splits sum.splits)

lemma change_reservation_state_tables:
  shows "eng_flows (snd (change_reservation_state i g st r actor e)) = eng_flows e"
    "eng_grants (snd (change_reservation_state i g st r actor e)) = eng_grants e"
    "eng_policies (snd (change_reservation_state i g st r actor e)) = eng_policies e"
    "eng_resources (snd (change_reservation_state i g st r actor e)) = eng_resources e"
    "eng_backends (snd (change_reservation_state i g st r actor e)) = eng_backends e"
    "id_value g \<noteq> kU64Max \<Longrightarrow>
     superseded reservation_generation (eng_reservations e) (eng_reservations (snd (change_reservation_state i g st r actor e)))"
  by (auto simp: change_reservation_state_def refuse_intake_def refuse_actor_def reject_shutdown_def Let_def
        only_durability_fields [OF commit_one_frame] next_generation
        intro: superseded_put split: option.splits prod.splits sum.splits)

lemma change_policy_state_tables:
  shows "eng_flows (snd (change_policy_state i g st r actor e)) = eng_flows e"
    "eng_grants (snd (change_policy_state i g st r actor e)) = eng_grants e"
    "eng_reservations (snd (change_policy_state i g st r actor e)) = eng_reservations e"
    "eng_resources (snd (change_policy_state i g st r actor e)) = eng_resources e"
    "eng_backends (snd (change_policy_state i g st r actor e)) = eng_backends e"
    "id_value g \<noteq> kU64Max \<Longrightarrow>
     superseded policy_generation (eng_policies e) (eng_policies (snd (change_policy_state i g st r actor e)))"
  by (auto simp: change_policy_state_def refuse_intake_def refuse_actor_def reject_shutdown_def Let_def
        only_durability_fields [OF commit_one_frame] next_generation
        intro: superseded_put split: option.splits prod.splits sum.splits)

lemma change_resource_state_tables:
  shows "eng_flows (snd (change_resource_state i g st r actor e)) = eng_flows e"
    "eng_grants (snd (change_resource_state i g st r actor e)) = eng_grants e"
    "eng_reservations (snd (change_resource_state i g st r actor e)) = eng_reservations e"
    "eng_policies (snd (change_resource_state i g st r actor e)) = eng_policies e"
    "eng_backends (snd (change_resource_state i g st r actor e)) = eng_backends e"
    "id_value g \<noteq> kU64Max \<Longrightarrow>
     superseded resource_generation (eng_resources e) (eng_resources (snd (change_resource_state i g st r actor e)))"
  by (auto simp: change_resource_state_def refuse_intake_def refuse_actor_def reject_shutdown_def Let_def
        only_durability_fields [OF commit_one_frame] next_generation
        intro: superseded_put split: option.splits prod.splits sum.splits)

lemmas run_authority_tables =
  put_flow_others put_grant_others put_reservation_others put_policy_others put_resource_others
  put_backend_others change_grant_state_tables change_reservation_state_tables
  change_policy_state_tables change_resource_state_tables flow_ingest.put_supersedes
  grant_ingest.put_supersedes reservation_ingest.put_supersedes policy_ingest.put_supersedes
  resource_ingest.put_supersedes backend_ingest.put_supersedes

lemma run_authority_advances: "advances u \<Longrightarrow> authorities_advanced e (snd (run_authority u e))"
  by (cases u) (simp_all add: authorities_advanced_def run_authority_tables)

text \<open>
  C24: authority never moves backwards.  Over any sequence of ingests and state changes,
  accepted or refused, whatever the journal does, no flow, grant, reservation, policy,
  resource or backend disappears, and what is stored under its identity at the end is
  either the same definition or one of a strictly greater generation; so a generation
  names one definition.  State changes of the last generation, whose increment wraps,
  are excluded.
\<close>

theorem authority_never_regresses:
  assumes "list_all advances us"
  shows "authorities_advanced e (fold (\<lambda>u s. snd (run_authority u s)) us e)"
  using assms
proof (induction us arbitrary: e)
  case (Cons u us)
  then show ?case
    using authorities_advanced_trans [OF run_authority_advances [of u e]] by simp
qed simp

theorem authority_never_regresses_witness:
  "authorities_advanced example_engine
     (fold (\<lambda>u s. snd (run_authority u s))
        [PutGrant example_grant,
         ChangeGrant (StrongId 3) (StrongId 1) GrantState_Recalled R_EnvelopeStaleGrantRecalled example_actor]
        example_engine)"
  by (rule authority_never_regresses) (simp add: word_unat_eq_iff)

end
