(* ===== verification/Engine_Envelopes.thy ===== *)
theory Engine_Envelopes
  imports Engine_Authority
begin

text \<open>
  Envelopes in the engine (\<^verbatim>\<open>src/engine_lifecycle.cpp\<close>, first and last part): the inputs
  of a plan collected from the tables, whether the authority that funds an envelope is
  still current, opening and authorizing an envelope, spending its burst allowance, and
  closing an attempt by cancellation or abandonment.
\<close>

section \<open>Plans from the tables\<close>

definition make_plan_inputs_locked :: "RateEnvelope \<Rightarrow> 'b Engine \<Rightarrow> PlanInputs" where
  "make_plan_inputs_locked env e =
     \<lparr>pi_envelope = env_id env, pi_envelope_generation = env_generation env,
      pi_flow = env_flow env, pi_flow_generation = env_flow_generation env,
      pi_flow_def = table_find (eng_flows e) (id_value (env_flow env)),
      pi_resource = env_resource env, pi_resource_generation = env_resource_generation env,
      pi_resource_def = table_find (eng_resources e) (id_value (env_resource env)),
      pi_grant = env_grant env, pi_grant_generation = env_grant_generation env,
      pi_grant_def = table_find (eng_grants e) (id_value (env_grant env)),
      pi_has_reservation = env_has_reservation env,
      pi_reservation = env_reservation env,
      pi_reservation_generation = env_reservation_generation env,
      pi_reservation_def = table_find (eng_reservations e) (id_value (env_reservation env)),
      pi_policy = env_policy env, pi_policy_generation = env_policy_generation env,
      pi_policy_def = table_find (eng_policies e) (id_value (env_policy env)),
      pi_backend = env_backend env, pi_backend_generation = env_backend_generation env,
      pi_backend_def = table_find (eng_backends e) (id_value (env_backend env)),
      pi_epoch = eng_epoch e, pi_boot = ec_boot (eng_config e)\<rparr>"

definition derive_plan_locked :: "RateEnvelope \<Rightarrow> TimestampNs \<Rightarrow> 'b Engine \<Rightarrow> PlanOutcome" where
  "derive_plan_locked env now e = derive_plan (make_plan_inputs_locked env e) now"

text \<open>The parts of the authority check, in the order of the code; \<open>R_None\<close> passes on.\<close>

definition flow_status :: "RateEnvelope \<Rightarrow> PlanInputs \<Rightarrow> ReasonCode" where
  "flow_status env inputs =
     (case pi_flow_def inputs of
        None \<Rightarrow> R_EnvelopeStaleFlowGenerationChanged
      | Some f \<Rightarrow>
          if flow_generation f \<noteq> env_flow_generation env \<or> \<not> flow_active f
          then R_EnvelopeStaleFlowGenerationChanged else R_None)"

definition resource_status :: "RateEnvelope \<Rightarrow> PlanInputs \<Rightarrow> ReasonCode" where
  "resource_status env inputs =
     (case pi_resource_def inputs of
        None \<Rightarrow> R_EnvelopeStaleResourceGenerationChanged
      | Some r \<Rightarrow>
          if resource_generation r \<noteq> env_resource_generation env
          then R_EnvelopeStaleResourceGenerationChanged
          else if \<not> resource_active r then R_EnvelopeStaleResourceGenerationChanged else R_None)"

definition grant_status :: "RateEnvelope \<Rightarrow> TimestampNs \<Rightarrow> PlanInputs \<Rightarrow> ReasonCode" where
  "grant_status env now inputs =
     (case pi_grant_def inputs of
        None \<Rightarrow> R_EnvelopeStaleGrantRecalled
      | Some g \<Rightarrow>
          if grant_generation g \<noteq> env_grant_generation env then R_EnvelopeStaleGrantRecalled
          else if grant_state g = GrantState_Recalled then R_EnvelopeStaleGrantRecalled
          else if \<not> grant_active g then R_EnvelopeStaleGrantRecalled
          else if \<not> window_contains (grant_window g) now then R_EnvelopeStaleGrantExpired
          else R_None)"

definition policy_status :: "RateEnvelope \<Rightarrow> TimestampNs \<Rightarrow> PlanInputs \<Rightarrow> ReasonCode" where
  "policy_status env now inputs =
     (case pi_policy_def inputs of
        None \<Rightarrow> R_EnvelopeStalePolicyGenerationChanged
      | Some p \<Rightarrow>
          if policy_generation p \<noteq> env_policy_generation env
          then R_EnvelopeStalePolicyGenerationChanged
          else if \<not> policy_active p then R_EnvelopeStalePolicyGenerationChanged
          else if \<not> window_contains (policy_window p) now then R_EnvelopeStalePolicyExpired
          else R_None)"

definition reservation_status :: "RateEnvelope \<Rightarrow> TimestampNs \<Rightarrow> PlanInputs \<Rightarrow> ReasonCode" where
  "reservation_status env now inputs =
     (if \<not> env_has_reservation env then R_None
      else (case pi_reservation_def inputs of
          None \<Rightarrow> R_EnvelopeStaleReservationExpired
        | Some r \<Rightarrow>
            if reservation_generation r \<noteq> env_reservation_generation env
            then R_EnvelopeStaleReservationExpired
            else if \<not> reservation_active r \<or> \<not> window_contains (reservation_window r) now
            then R_EnvelopeStaleReservationExpired else R_None))"

definition backend_status :: "RateEnvelope \<Rightarrow> PlanInputs \<Rightarrow> ReasonCode" where
  "backend_status env inputs =
     (case pi_backend_def inputs of
        None \<Rightarrow> R_EnvelopeStaleNoLiveAuthority
      | Some b \<Rightarrow>
          if backend_generation b \<noteq> env_backend_generation env
          then R_EnvelopeStaleNoLiveAuthority else R_None)"

definition capacity_status :: "RateEnvelope \<Rightarrow> PlanInputs \<Rightarrow> ReasonCode" where
  "capacity_status env inputs =
     (case pi_resource_def inputs of
        None \<Rightarrow> R_EnvelopeStaleResourceGenerationChanged
      | Some r \<Rightarrow>
          if env_has_plan env \<and> resource_capacity_ups r < plan_ceiling_ups (env_plan env)
          then R_EnvelopeStaleResourceCapacityReduced else R_None)"

definition first_reason :: "ReasonCode list \<Rightarrow> ReasonCode" where
  "first_reason rs = (case List.find (\<lambda>r. r \<noteq> R_None) rs of Some r \<Rightarrow> r | None \<Rightarrow> R_None)"

definition authority_status_locked :: "RateEnvelope \<Rightarrow> TimestampNs \<Rightarrow> 'b Engine \<Rightarrow> ReasonCode" where
  "authority_status_locked env now e =
     (let inputs = make_plan_inputs_locked env e
      in first_reason [flow_status env inputs, resource_status env inputs, grant_status env now inputs,
           policy_status env now inputs, reservation_status env now inputs, backend_status env inputs,
           capacity_status env inputs])"

section \<open>Opening an envelope\<close>

text \<open>A generation of zero is resolved to the current one.\<close>

definition resolve :: "('x \<Rightarrow> Generation) \<Rightarrow> Generation \<Rightarrow> 'x table \<Rightarrow> u64 \<Rightarrow> Generation" where
  "resolve gen requested table raw_id =
     (if id_valid requested then requested
      else (case table_find table raw_id of None \<Rightarrow> StrongId 0 | Some x \<Rightarrow> gen x))"

definition open_refusal :: "EnvelopeRequest \<Rightarrow> 'b Engine \<Rightarrow> Error option" where
  "open_refusal req e =
     (if \<not> id_valid (req_flow req) \<or> \<not> id_valid (req_resource req) \<or> \<not> id_valid (req_grant req)
         \<or> \<not> id_valid (req_policy req) \<or> \<not> id_valid (req_backend req)
      then Some (Error ErrorCode_InvalidArgument R_MalformedInput)
      else if req_has_reservation req \<and> \<not> id_valid (req_reservation req)
      then Some (Error ErrorCode_InvalidArgument R_MalformedInput)
      else if \<not> is_bounded_text (req_annotation req) (unat (ec_max_attribute_bytes (eng_config e)))
      then Some (Error ErrorCode_InvalidArgument R_MalformedInput)
      else if unat (ec_max_envelopes (eng_config e)) \<le> length (eng_envelopes e)
      then Some (Error ErrorCode_LimitExceeded R_CapacityLimitExceeded)
      else None)"

definition opened_envelope :: "EnvelopeRequest \<Rightarrow> TimestampNs \<Rightarrow> 'b Engine \<Rightarrow> RateEnvelope" where
  "opened_envelope req now e =
     empty_envelope\<lparr>env_id := StrongId (eng_next_envelope_id e), env_generation := StrongId 1,
       env_flow := req_flow req, env_resource := req_resource req, env_grant := req_grant req,
       env_policy := req_policy req, env_backend := req_backend req,
       env_has_reservation := req_has_reservation req, env_reservation := req_reservation req,
       env_flow_generation :=
         resolve flow_generation (req_flow_generation req) (eng_flows e) (id_value (req_flow req)),
       env_resource_generation :=
         resolve resource_generation (req_resource_generation req) (eng_resources e)
           (id_value (req_resource req)),
       env_grant_generation :=
         resolve grant_generation (req_grant_generation req) (eng_grants e) (id_value (req_grant req)),
       env_reservation_generation :=
         resolve reservation_generation (req_reservation_generation req) (eng_reservations e)
           (id_value (req_reservation req)),
       env_policy_generation :=
         resolve policy_generation (req_policy_generation req) (eng_policies e)
           (id_value (req_policy req)),
       env_backend_generation :=
         resolve backend_generation (req_backend_generation req) (eng_backends e)
           (id_value (req_backend req)),
       env_state := EnvelopeState_Desired, env_reason := R_EnvelopeOpened,
       env_annotation := req_annotation req, env_created_ns := now, env_updated_ns := now\<rparr>"

definition open_envelope ::
  "TimestampNs \<Rightarrow> EnvelopeRequest \<Rightarrow> ActorContext \<Rightarrow> 'b Engine \<Rightarrow> RateEnvelopeId Result \<times> 'b Engine" where
  "open_envelope now req actor e =
     (case refuse_intake actor e of
        Some refused \<Rightarrow> refused
      | None \<Rightarrow>
          (case open_refusal req e of
             Some err \<Rightarrow> (Inl err, e)
           | None \<Rightarrow>
               let env = opened_envelope req now e;
                   e0 = e\<lparr>eng_next_envelope_id := eng_next_envelope_id e + 1\<rparr>
               in (case commit_one_locked JT_EnvelopeOpened (encode_envelope env) e0 of
                   (Inl err, e1) \<Rightarrow> (Inl err, e1)
                 | (Inr _, e1) \<Rightarrow>
                     (Inr (env_id env),
                      push_event_locked R_EnvelopeOpened (env_id env) (env_generation env) (StrongId 0)
                        (count (\<lambda>c. c\<lparr>ct_envelopes_opened := ct_envelopes_opened c + 1\<rparr>)
                           (put_envelope env e1))))))"

section \<open>Authorizing an envelope\<close>

definition assign_envelope :: "RateEnvelopeId \<Rightarrow> RateEnvelope \<Rightarrow> 'b Engine \<Rightarrow> 'b Engine" where
  "assign_envelope i env e = e\<lparr>eng_envelopes := table_put (id_value i) env (eng_envelopes e)\<rparr>"

definition assign_attempt :: "EnforcementAttemptId \<Rightarrow> EnforcementAttempt \<Rightarrow> 'b Engine \<Rightarrow> 'b Engine" where
  "assign_attempt i a e = e\<lparr>eng_attempts := table_put (id_value i) a (eng_attempts e)\<rparr>"

definition denied_envelope :: "TimestampNs \<Rightarrow> ReasonCode \<Rightarrow> RateEnvelope \<Rightarrow> RateEnvelope" where
  "denied_envelope now reason env =
     (let u = env\<lparr>env_reason := reason, env_updated_ns := now\<rparr>
      in if env_state u = EnvelopeState_Desired \<or> env_state u = EnvelopeState_Authorized
         then u\<lparr>env_state := EnvelopeState_Failed\<rparr> else u)"

definition binding_unchanged :: "RateEnvelope \<Rightarrow> EffectivePlan \<Rightarrow> bool" where
  "binding_unchanged env p \<longleftrightarrow>
     env_has_plan env
     \<and> same_binding (plan_fingerprint (env_plan env)) (plan_fingerprint p)
     \<and> fp_effective_ceiling_ups (plan_fingerprint (env_plan env))
         = fp_effective_ceiling_ups (plan_fingerprint p)
     \<and> fp_effective_burst_tokens (plan_fingerprint (env_plan env))
         = fp_effective_burst_tokens (plan_fingerprint p)"

definition authorized_envelope :: "TimestampNs \<Rightarrow> EffectivePlan \<Rightarrow> RateEnvelope \<Rightarrow> RateEnvelope" where
  "authorized_envelope now p env =
     (let u = env\<lparr>env_has_plan := True, env_plan := p, env_plan_revision := env_plan_revision env + 1,
                  env_updated_ns := now\<rparr>;
          u1 = (if env_state env = EnvelopeState_Applied \<or> env_state env = EnvelopeState_Degraded
                then if \<not> binding_unchanged env p
                     then u\<lparr>env_state := EnvelopeState_Degraded, env_reason := R_EnvelopeReducedByPolicy,
                            env_requires_revalidation := False\<rparr>
                     else u
                else if env_state env \<noteq> EnvelopeState_RevokePending
                        \<and> env_state env \<noteq> EnvelopeState_Revoked
                then u\<lparr>env_state := EnvelopeState_Authorized, env_reason := R_EnvelopeAuthorized\<rparr>
                else u)
      in if \<not> bk_initialized (env_bucket u1) \<or> bk_capacity (env_bucket u1) \<noteq> plan_burst_tokens p
            \<or> bk_rate_ups (env_bucket u1) \<noteq> plan_ceiling_ups p
         then u1\<lparr>env_bucket :=
                   configure_bucket (env_bucket u1) (plan_burst_tokens p) (plan_ceiling_ups p) now\<rparr>
         else u1)"

definition authorize ::
  "TimestampNs \<Rightarrow> RateEnvelopeId \<Rightarrow> ActorContext \<Rightarrow> 'b Engine \<Rightarrow> PlanOutcome Result \<times> 'b Engine" where
  "authorize now i actor e =
     (case refuse_intake actor e of
        Some refused \<Rightarrow> refused
      | None \<Rightarrow>
          (case find_envelope_locked i e of
             None \<Rightarrow> (fail ErrorCode_NotFound R_MalformedInput, e)
           | Some env \<Rightarrow>
               let outcome = derive_plan_locked env now e
               in if \<not> po_authorized outcome then
                    let e0 = count (\<lambda>c. c\<lparr>ct_plans_denied := ct_plans_denied c + 1\<rparr>) e;
                        u = denied_envelope now (po_reason outcome) env
                    in (case commit_records_locked [stage_envelope u JT_EnvelopeStateChange] e0 of
                        (Inl err, e1) \<Rightarrow> (Inl err, e1)
                      | (Inr _, e1) \<Rightarrow>
                          (Inr outcome, push_event_locked (po_reason outcome) i (env_generation u)
                             (StrongId 0) (assign_envelope i u e1)))
                  else
                    let e0 = count (\<lambda>c. c\<lparr>ct_plans_authorized := ct_plans_authorized c + 1\<rparr>) e;
                        u = authorized_envelope now (po_plan outcome) env
                    in (case commit_records_locked [stage_envelope u JT_EnvelopeAuthorized] e0 of
                        (Inl err, e1) \<Rightarrow> (Inl err, e1)
                      | (Inr _, e1) \<Rightarrow>
                          (Inr outcome, push_event_locked (po_reason outcome) i (env_generation u)
                             (StrongId 0) (assign_envelope i u e1)))))"

definition explain_plan :: "TimestampNs \<Rightarrow> RateEnvelopeId \<Rightarrow> 'b Engine \<Rightarrow> PlanOutcome Result" where
  "explain_plan now i e =
     (case find_envelope_locked i e of
        None \<Rightarrow> fail ErrorCode_NotFound R_MalformedInput
      | Some env \<Rightarrow> Inr (derive_plan_locked env now e))"

section \<open>Spending the burst allowance\<close>

definition consume_burst ::
  "TimestampNs \<Rightarrow> RateEnvelopeId \<Rightarrow> u64 \<Rightarrow> 'b Engine \<Rightarrow> u64 Result \<times> 'b Engine" where
  "consume_burst now i tokens e =
     (if eng_shutting_down e then reject_shutdown e
      else (case find_envelope_locked i e of
          None \<Rightarrow> (fail ErrorCode_NotFound R_MalformedInput, e)
        | Some env \<Rightarrow>
            if env_state env \<noteq> EnvelopeState_Applied \<and> env_state env \<noteq> EnvelopeState_Degraded
            then (fail ErrorCode_Denied R_EnvelopeFailed, e)
            else if authority_status_locked env now e \<noteq> R_None
            then (fail ErrorCode_StaleAuthority R_EnvelopeStaleNoLiveAuthority, e)
            else
              (case refill_bucket (env_bucket env) now of (refill, b) \<Rightarrow>
                 let u = env\<lparr>env_bucket := b\<rparr>;
                     e0 = (if ro_clock_regressed refill
                           then count (\<lambda>c. c\<lparr>ct_clock_regressions := ct_clock_regressions c + 1\<rparr>) e
                           else e)
                 in if bk_tokens b < tokens then
                      (case commit_records_locked [stage_envelope u JT_EnvelopeCounters]
                         (count (\<lambda>c. c\<lparr>ct_token_starvations := ct_token_starvations c + 1\<rparr>) e0) of
                         (Inl err, e1) \<Rightarrow> (Inl err, e1)
                       | (Inr _, e1) \<Rightarrow>
                           (fail ErrorCode_Denied R_TokenBucketEmpty, assign_envelope i u e1))
                    else
                      let u1 = u\<lparr>env_bucket := snd (try_consume b tokens), env_updated_ns := now\<rparr>
                      in (case commit_records_locked [stage_envelope u1 JT_EnvelopeCounters]
                            (count (\<lambda>c. c\<lparr>ct_token_consumptions := ct_token_consumptions c + 1\<rparr>) e0) of
                          (Inl err, e1) \<Rightarrow> (Inl err, e1)
                        | (Inr _, e1) \<Rightarrow>
                            (Inr (bk_tokens (env_bucket u1)), assign_envelope i u1 e1)))))"

section \<open>Closing an attempt\<close>

definition attempt_inflight :: "AttemptState \<Rightarrow> bool" where
  "attempt_inflight st \<longleftrightarrow>
     st = AttemptState_Created \<or> st = AttemptState_Dispatched \<or> st = AttemptState_Acknowledged"

definition cancel_attempt ::
  "TimestampNs \<Rightarrow> EnforcementAttemptId \<Rightarrow> ReasonCode \<Rightarrow> ActorContext \<Rightarrow> 'b Engine \<Rightarrow> Status \<times> 'b Engine" where
  "cancel_attempt now i reason actor e =
     (case refuse_actor actor e of
        Some refused \<Rightarrow> refused
      | None \<Rightarrow>
          (case find_attempt_locked i e of
             None \<Rightarrow> (fail ErrorCode_NotFound R_MalformedInput, e)
           | Some found \<Rightarrow>
               if \<not> attempt_inflight (att_state found)
               then (fail ErrorCode_Conflict R_AttemptCancelled, e)
               else
                 let u = found\<lparr>att_state := AttemptState_Cancelled,
                               att_reason := (if reason = R_None then R_AttemptCancelled else reason),
                               att_completed_ns := now,
                               att_detail := ''cancelled by an operator; it can never publish success''\<rparr>
                 in (case commit_records_locked [stage_attempt u JT_AttemptTerminated] e of
                     (Inl err, e1) \<Rightarrow> (Inl err, e1)
                   | (Inr _, e1) \<Rightarrow>
                       (Inr (), push_event_locked R_AttemptCancelled (att_envelope u)
                          (att_envelope_generation u) (att_id u) (assign_attempt i u e1)))))"

definition abandon_attempt ::
  "TimestampNs \<Rightarrow> EnforcementAttemptId \<Rightarrow> ReasonCode \<Rightarrow> ActorContext \<Rightarrow> 'b Engine \<Rightarrow> Status \<times> 'b Engine" where
  "abandon_attempt now i reason actor e =
     (case refuse_actor actor e of
        Some refused \<Rightarrow> refused
      | None \<Rightarrow>
          (case find_attempt_locked i e of
             None \<Rightarrow> (fail ErrorCode_NotFound R_MalformedInput, e)
           | Some found \<Rightarrow>
               if \<not> attempt_inflight (att_state found)
               then (fail ErrorCode_Conflict R_AttemptDeadlineExceeded, e)
               else
                 let u = found\<lparr>att_state := AttemptState_Abandoned,
                       att_reason := (if reason = R_None then R_AttemptAbandonedWorkerDeath else reason),
                       att_completed_ns := now,
                       att_detail := ''abandoned; the effect is UNKNOWN until it is revalidated''\<rparr>
                 in (case find_envelope_locked (att_envelope u) e of
                     None \<Rightarrow> (fail ErrorCode_NotFound R_MalformedInput, e)
                   | Some env \<Rightarrow>
                       let v = env\<lparr>env_state := EnvelopeState_Degraded, env_reason := att_reason u,
                                   env_requires_revalidation := True, env_effect_verified := False,
                                   env_updated_ns := att_completed_ns u\<rparr>
                       in (case commit_records_locked [stage_attempt u JT_AttemptTerminated,
                                  stage_envelope v JT_EnvelopeStateChange] e of
                           (Inl err, e1) \<Rightarrow> (Inl err, e1)
                         | (Inr _, e1) \<Rightarrow>
                             (Inr (), push_event_locked R_AttemptAbandonedWorkerDeath (att_envelope u)
                                (att_envelope_generation u) (att_id u)
                                (assign_envelope (att_envelope u) v (assign_attempt i u e1)))))))"

section \<open>Frames\<close>

lemma assign_envelope_fields [simp]:
  "eng_envelopes (assign_envelope i env e) = table_put (id_value i) env (eng_envelopes e)"
  "eng_config (assign_envelope i env e) = eng_config e" "eng_epoch (assign_envelope i env e) = eng_epoch e"
  "eng_attempts (assign_envelope i env e) = eng_attempts e"
  "eng_backend (assign_envelope i env e) = eng_backend e"
  "eng_attempt_order (assign_envelope i env e) = eng_attempt_order e"
  "eng_attempts_by_envelope (assign_envelope i env e) = eng_attempts_by_envelope e"
  "eng_backend_bound (assign_envelope i env e) = eng_backend_bound e"
  "eng_next_envelope_id (assign_envelope i env e) = eng_next_envelope_id e"
  "eng_next_attempt_id (assign_envelope i env e) = eng_next_attempt_id e"
  "eng_flows (assign_envelope i env e) = eng_flows e" "eng_grants (assign_envelope i env e) = eng_grants e"
  "eng_reservations (assign_envelope i env e) = eng_reservations e"
  "eng_policies (assign_envelope i env e) = eng_policies e"
  "eng_resources (assign_envelope i env e) = eng_resources e"
  "eng_backends (assign_envelope i env e) = eng_backends e"
  "eng_shutting_down (assign_envelope i env e) = eng_shutting_down e"
  by (simp_all add: assign_envelope_def)

lemma assign_attempt_fields [simp]:
  "eng_attempts (assign_attempt i a e) = table_put (id_value i) a (eng_attempts e)"
  "eng_envelopes (assign_attempt i a e) = eng_envelopes e"
  "eng_config (assign_attempt i a e) = eng_config e" "eng_epoch (assign_attempt i a e) = eng_epoch e"
  "eng_backend (assign_attempt i a e) = eng_backend e"
  "eng_attempt_order (assign_attempt i a e) = eng_attempt_order e"
  "eng_attempts_by_envelope (assign_attempt i a e) = eng_attempts_by_envelope e"
  "eng_backend_bound (assign_attempt i a e) = eng_backend_bound e"
  "eng_next_envelope_id (assign_attempt i a e) = eng_next_envelope_id e"
  "eng_next_attempt_id (assign_attempt i a e) = eng_next_attempt_id e"
  "eng_flows (assign_attempt i a e) = eng_flows e" "eng_grants (assign_attempt i a e) = eng_grants e"
  "eng_reservations (assign_attempt i a e) = eng_reservations e"
  "eng_policies (assign_attempt i a e) = eng_policies e"
  "eng_resources (assign_attempt i a e) = eng_resources e"
  "eng_backends (assign_attempt i a e) = eng_backends e"
  "eng_shutting_down (assign_attempt i a e) = eng_shutting_down e"
  by (simp_all add: assign_attempt_def)

text \<open>Two states with the same authorities, epoch and boot give the same plans and statuses.\<close>

definition same_authority :: "'b Engine \<Rightarrow> 'b Engine \<Rightarrow> bool" where
  "same_authority e e1 \<longleftrightarrow>
     eng_flows e1 = eng_flows e \<and> eng_resources e1 = eng_resources e \<and> eng_grants e1 = eng_grants e
     \<and> eng_reservations e1 = eng_reservations e \<and> eng_policies e1 = eng_policies e
     \<and> eng_backends e1 = eng_backends e \<and> eng_epoch e1 = eng_epoch e \<and> eng_config e1 = eng_config e"

lemma same_authority_inputs:
  "same_authority e e1 \<Longrightarrow> make_plan_inputs_locked env e1 = make_plan_inputs_locked env e"
  by (simp add: same_authority_def make_plan_inputs_locked_def)

lemma same_authority_status:
  "same_authority e e1 \<Longrightarrow> authority_status_locked env now e1 = authority_status_locked env now e"
  by (simp add: authority_status_locked_def same_authority_inputs)

lemma same_authority_durability: "only_durability e e1 \<Longrightarrow> same_authority e e1"
  by (simp add: same_authority_def only_durability_fields)

section \<open>Authority of an authorized envelope\<close>

lemma first_reason_None: "first_reason rs = R_None \<longleftrightarrow> (\<forall>r \<in> set rs. r = R_None)"
  unfolding first_reason_def by (induction rs) auto

lemma authority_status_None:
  "authority_status_locked env now e = R_None \<longleftrightarrow>
     (\<exists>f. table_find (eng_flows e) (id_value (env_flow env)) = Some f
          \<and> flow_generation f = env_flow_generation env \<and> flow_active f)
     \<and> (\<exists>r. table_find (eng_resources e) (id_value (env_resource env)) = Some r
          \<and> resource_generation r = env_resource_generation env \<and> resource_active r
          \<and> (env_has_plan env \<longrightarrow> plan_ceiling_ups (env_plan env) \<le> resource_capacity_ups r))
     \<and> (\<exists>g. table_find (eng_grants e) (id_value (env_grant env)) = Some g
          \<and> grant_generation g = env_grant_generation env \<and> grant_active g
          \<and> window_contains (grant_window g) now)
     \<and> (\<exists>p. table_find (eng_policies e) (id_value (env_policy env)) = Some p
          \<and> policy_generation p = env_policy_generation env \<and> policy_active p
          \<and> window_contains (policy_window p) now)
     \<and> (env_has_reservation env \<longrightarrow>
          (\<exists>s. table_find (eng_reservations e) (id_value (env_reservation env)) = Some s
             \<and> reservation_generation s = env_reservation_generation env \<and> reservation_active s
             \<and> window_contains (reservation_window s) now))
     \<and> (\<exists>b. table_find (eng_backends e) (id_value (env_backend env)) = Some b
          \<and> backend_generation b = env_backend_generation env)"
proof -
  let ?i = "make_plan_inputs_locked env e"
  have f: "flow_status env ?i = R_None \<longleftrightarrow> (\<exists>f. table_find (eng_flows e) (id_value (env_flow env)) = Some f
          \<and> flow_generation f = env_flow_generation env \<and> flow_active f)"
    by (auto simp: flow_status_def make_plan_inputs_locked_def split: option.splits)
  have r: "resource_status env ?i = R_None \<and> capacity_status env ?i = R_None \<longleftrightarrow>
      (\<exists>r. table_find (eng_resources e) (id_value (env_resource env)) = Some r
          \<and> resource_generation r = env_resource_generation env \<and> resource_active r
          \<and> (env_has_plan env \<longrightarrow> plan_ceiling_ups (env_plan env) \<le> resource_capacity_ups r))"
    by (auto simp: resource_status_def capacity_status_def make_plan_inputs_locked_def not_less
          split: option.splits)
  have g: "grant_status env now ?i = R_None \<longleftrightarrow>
      (\<exists>g. table_find (eng_grants e) (id_value (env_grant env)) = Some g
          \<and> grant_generation g = env_grant_generation env \<and> grant_active g
          \<and> window_contains (grant_window g) now)"
    by (auto simp: grant_status_def make_plan_inputs_locked_def grant_active_def split: option.splits)
  have p: "policy_status env now ?i = R_None \<longleftrightarrow>
      (\<exists>p. table_find (eng_policies e) (id_value (env_policy env)) = Some p
          \<and> policy_generation p = env_policy_generation env \<and> policy_active p
          \<and> window_contains (policy_window p) now)"
    by (auto simp: policy_status_def make_plan_inputs_locked_def split: option.splits)
  have s: "reservation_status env now ?i = R_None \<longleftrightarrow> (env_has_reservation env \<longrightarrow>
          (\<exists>s. table_find (eng_reservations e) (id_value (env_reservation env)) = Some s
             \<and> reservation_generation s = env_reservation_generation env \<and> reservation_active s
             \<and> window_contains (reservation_window s) now))"
    by (auto simp: reservation_status_def make_plan_inputs_locked_def split: option.splits)
  have b: "backend_status env ?i = R_None \<longleftrightarrow>
      (\<exists>b. table_find (eng_backends e) (id_value (env_backend env)) = Some b
          \<and> backend_generation b = env_backend_generation env)"
    by (auto simp: backend_status_def make_plan_inputs_locked_def split: option.splits)
  show ?thesis
    unfolding authority_status_locked_def Let_def first_reason_None f [symmetric] r [symmetric]
      g [symmetric] p [symmetric] s [symmetric] b [symmetric]
    by auto
qed

lemma authorized_envelope_fields [simp]:
  "env_id (authorized_envelope now p env) = env_id env"
  "env_generation (authorized_envelope now p env) = env_generation env"
  "env_flow (authorized_envelope now p env) = env_flow env"
  "env_flow_generation (authorized_envelope now p env) = env_flow_generation env"
  "env_resource (authorized_envelope now p env) = env_resource env"
  "env_resource_generation (authorized_envelope now p env) = env_resource_generation env"
  "env_grant (authorized_envelope now p env) = env_grant env"
  "env_grant_generation (authorized_envelope now p env) = env_grant_generation env"
  "env_policy (authorized_envelope now p env) = env_policy env"
  "env_policy_generation (authorized_envelope now p env) = env_policy_generation env"
  "env_has_reservation (authorized_envelope now p env) = env_has_reservation env"
  "env_reservation (authorized_envelope now p env) = env_reservation env"
  "env_reservation_generation (authorized_envelope now p env) = env_reservation_generation env"
  "env_backend (authorized_envelope now p env) = env_backend env"
  "env_backend_generation (authorized_envelope now p env) = env_backend_generation env"
  "env_has_plan (authorized_envelope now p env)"
  "env_plan (authorized_envelope now p env) = p"
  "env_effect_verified (authorized_envelope now p env) = env_effect_verified env"
  "env_applied_rate_ups (authorized_envelope now p env) = env_applied_rate_ups env"
  "bk_capacity (env_bucket (authorized_envelope now p env)) = plan_burst_tokens p"
  "bk_rate_ups (env_bucket (authorized_envelope now p env)) = plan_ceiling_ups p"
  "bk_initialized (env_bucket (authorized_envelope now p env))"
  by (simp_all add: authorized_envelope_def Let_def configure_bucket_def)

lemma authorized_bucket_ok:
  "bucket_ok (env_bucket env) \<Longrightarrow> bucket_ok (env_bucket (authorized_envelope now p env))"
  by (simp add: authorized_envelope_def Let_def bucket_ok_configure)

text \<open>A plan that is authorized from the tables leaves no authority stale.\<close>

lemma authorized_authority_current:
  assumes "po_authorized (derive_plan_locked env now e)"
    and "env_flow u = env_flow env" "env_flow_generation u = env_flow_generation env"
    and "env_resource u = env_resource env" "env_resource_generation u = env_resource_generation env"
    and "env_grant u = env_grant env" "env_grant_generation u = env_grant_generation env"
    and "env_policy u = env_policy env" "env_policy_generation u = env_policy_generation env"
    and "env_has_reservation u = env_has_reservation env" "env_reservation u = env_reservation env"
    and "env_reservation_generation u = env_reservation_generation env"
    and "env_backend u = env_backend env" "env_backend_generation u = env_backend_generation env"
    and "env_plan u = po_plan (derive_plan_locked env now e)"
  shows "authority_status_locked u now e = R_None"
proof -
  let ?i = "make_plan_inputs_locked env e"
  note c = derive_plan_authorized_cases [OF assms(1) [unfolded derive_plan_locked_def]]
  have "plan_ceiling_ups (env_plan u) = cand_value (input_ceiling ?i)"
    by (simp add: assms(15) derive_plan_locked_def plan_ceiling_ups_def derive_plan_legal(2) [OF c]
          published_effective)
  also have "\<dots> \<le> resource_capacity_ups (the (pi_resource_def ?i))"
    unfolding input_ceiling_min by (rule Min_le) (simp_all add: declared_ceilings_def)
  finally show ?thesis
    unfolding authority_status_None using c(1)
    by (auto simp: plan_legal_def make_plan_inputs_locked_def assms)
qed

lemma authorize_success:
  assumes "authorize now i actor e = (Inr outcome, e1)"
  obtains env where "find_envelope_locked i e = Some env" "outcome = derive_plan_locked env now e"
    "find_envelope_locked i e1 = Some (if po_authorized outcome
       then authorized_envelope now (po_plan outcome) env
       else denied_envelope now (po_reason outcome) env)"
    "same_authority e e1" "check_actor_locked actor e = None" "\<not> eng_shutting_down e"
proof -
  obtain env where "find_envelope_locked i e = Some env" "outcome = derive_plan_locked env now e"
    "check_actor_locked actor e = None" "\<not> eng_shutting_down e"
    using assms
    by (auto simp: authorize_def refuse_intake_def refuse_actor_def reject_shutdown_def fail_def Let_def
          split: option.splits if_splits prod.splits sum.splits)
  with assms show thesis
    by (intro that [of env])
       (auto simp: authorize_def refuse_intake_def refuse_actor_def Let_def find_envelope_locked_def
          same_authority_def only_durability_fields [OF commit_records_frame]
          split: if_splits prod.splits sum.splits)
qed

section \<open>Properties\<close>


text \<open>An engine that governs the flow of the plan examples.\<close>

definition governed_engine :: "unit Engine" where
  "governed_engine =
     example_engine\<lparr>eng_flows := [(1, example_flow)], eng_resources := [(2, example_resource)],
       eng_grants := [(3, example_grant)], eng_policies := [(4, example_policy)],
       eng_backends := [(5, example_backend)],
       eng_envelopes := [(9, empty_envelope\<lparr>env_id := StrongId 9, env_generation := StrongId 1,
          env_flow := StrongId 1, env_flow_generation := StrongId 1,
          env_resource := StrongId 2, env_resource_generation := StrongId 1,
          env_grant := StrongId 3, env_grant_generation := StrongId 1,
          env_policy := StrongId 4, env_policy_generation := StrongId 1,
          env_backend := StrongId 5, env_backend_generation := StrongId 1,
          env_state := EnvelopeState_Desired\<rparr>)]\<rparr>"

lemma governed_fields:
  "\<not> eng_shutting_down governed_engine" "eng_epoch governed_engine = StrongId 1"
  "eng_config governed_engine = example_config DurabilityMode_None"
  by (simp_all add: governed_engine_def)

lemma governed_inputs:
  "find_envelope_locked (StrongId 9) governed_engine = Some env
   \<Longrightarrow> make_plan_inputs_locked env governed_engine = example_inputs"
  by (auto simp: find_envelope_locked_def governed_engine_def make_plan_inputs_locked_def
        example_inputs_def empty_envelope_def example_engine_def rate_governor_def example_config_def
        normalize_config_def Let_def id_valid_def)


text \<open>
  C22: spending is exact and bounded.  A spend of the burst allowance that succeeds was
  made on an applied or degraded envelope whose authority is current; the balance the
  caller is told is the balance that is stored, and it is the old balance plus what the
  elapsed time earned at the envelope's rate, cut at the capacity, less the tokens
  requested, computed without overflow.
\<close>

theorem consume_burst_exact:
  assumes "consume_burst now i tokens e = (Inr left, e1)"
    and "find_envelope_locked i e = Some env"
    and "bucket_ok (env_bucket env)" "bk_initialized (env_bucket env)"
    and "bk_last_refill_ns (env_bucket env) \<le> now"
  shows "env_state env \<in> {EnvelopeState_Applied, EnvelopeState_Degraded}
    \<and> authority_status_locked env now e = R_None
    \<and> unat left + unat tokens
      = min (unat (bk_capacity (env_bucket env)))
          (unat (bk_tokens (env_bucket env))
           + ((unat now - unat (bk_last_refill_ns (env_bucket env))) * unat (bk_rate_ups (env_bucket env))
              + unat (bk_fractional_numerator (env_bucket env))) div 10 ^ 9)
    \<and> (\<exists>env1. find_envelope_locked i e1 = Some env1 \<and> bk_tokens (env_bucket env1) = left
         \<and> env_state env1 = env_state env \<and> bucket_ok (env_bucket env1))"
proof -
  obtain refill b where r: "refill_bucket (env_bucket env) now = (refill, b)" by fastforce
  have st: "env_state env \<in> {EnvelopeState_Applied, EnvelopeState_Degraded}"
    "authority_status_locked env now e = R_None" and le: "\<not> bk_tokens b < tokens"
    and left: "left = bk_tokens (snd (try_consume b tokens))"
    and find: "find_envelope_locked i e1 = Some (env\<lparr>env_bucket := snd (try_consume b tokens),
      env_updated_ns := now\<rparr>)"
    using assms(1,2) r
    by (auto simp: consume_burst_def reject_shutdown_def fail_def Let_def find_envelope_locked_def
          split: if_splits prod.splits sum.splits)
  have "bucket_ok b" using bucket_ok_refill [OF assms(3), of now] r by simp
  then have ok: "bucket_ok (snd (try_consume b tokens))" by (rule bucket_ok_consume)
  have "unat left + unat tokens = unat (bk_tokens b)"
    using le by (simp add: left try_consume_def) (simp add: unat_sub_exact word_le_nat_alt not_less)
  also have "\<dots> = min (unat (bk_capacity (env_bucket env)))
      (unat (bk_tokens (env_bucket env)) + earned (env_bucket env) now div 1000000000)"
    using refill_tokens [OF assms(3-5)] r by simp
  finally show ?thesis using st find ok left by (simp add: earned_def)
qed

text \<open>The governed envelope, applied, with ten of thirty tokens left.\<close>

definition spending_engine :: "unit Engine" where
  "spending_engine =
     governed_engine\<lparr>eng_envelopes :=
       [(9, (snd (hd (eng_envelopes governed_engine)))\<lparr>env_state := EnvelopeState_Applied,
          env_bucket := \<lparr>bk_tokens = 10, bk_capacity = 30, bk_rate_ups = 400,
            bk_last_refill_ns = 20, bk_fractional_numerator = 0, bk_initialized = True\<rparr>\<rparr>)]\<rparr>"

lemma spending_status:
  "find_envelope_locked (StrongId 9) spending_engine = Some env
   \<Longrightarrow> authority_status_locked env 20 spending_engine = R_None"
  unfolding authority_status_None
  by (auto simp: find_envelope_locked_def spending_engine_def governed_engine_def empty_envelope_def
        example_defs flow_active_def resource_active_def grant_active_def policy_active_def
        window_contains_def is_never_def kNeverExpiresNs_def kU64Max_def)

theorem consume_burst_exact_witness:
  "let env = snd (hd (eng_envelopes spending_engine))
   in bucket_ok (env_bucket env) \<and> fst (consume_burst 20 (StrongId 9) 4 spending_engine) = Inr 6
      \<and> unat (6 :: u64) + unat (4 :: u64) = min 30 (10 + 0)"
proof -
  define env where "env = snd (hd (eng_envelopes spending_engine))"
  have f: "find_envelope_locked (StrongId 9) spending_engine = Some env"
    by (simp add: env_def find_envelope_locked_def spending_engine_def)
  have b: "env_bucket env = \<lparr>bk_tokens = 10, bk_capacity = 30, bk_rate_ups = 400,
      bk_last_refill_ns = 20, bk_fractional_numerator = 0, bk_initialized = True\<rparr>"
    "env_state env = EnvelopeState_Applied"
    by (simp_all add: env_def spending_engine_def)
  have ok: "bucket_ok (env_bucket env)"
    by (simp add: b bucket_ok_def kNanosecondsPerSecond_def)
  have "\<not> eng_shutting_down spending_engine"
    "ec_durability (eng_config spending_engine) \<noteq> DurabilityMode_Strict"
    by (simp_all add: spending_engine_def governed_fields)
  then have "fst (consume_burst 20 (StrongId 9) 4 spending_engine) = Inr 6"
    by (simp add: consume_burst_def f b spending_status [OF f] refill_bucket_def Let_def
          commit_not_strict try_consume_def)
  then obtain e1 where c: "consume_burst 20 (StrongId 9) 4 spending_engine = (Inr 6, e1)"
    by (metis prod.collapse)
  show ?thesis
    using consume_burst_exact [OF c f ok] c ok by (simp add: b env_def [symmetric])
qed

text \<open>Eight bytes are always read as some word.\<close>

lemma get_u64_total: "8 \<le> length bs \<Longrightarrow> \<exists>v. get_u64 bs = Some (v, drop 8 bs)"
  by (simp add: get_u64_def get_raw_def)

lemma length_put_words [simp]:
  "length (put_u64 v) = 8" "length (put_u32 w) = 4" "length (put_u16 x) = 2" "length (put_u8 y) = 1"
  by (simp_all add: put_u64_def put_u32_def put_u16_def put_u8_def)



end
