(* ===== verification/Engine_Enforcement.thy ===== *)
theory Engine_Enforcement
  imports Engine_Envelopes
begin

text \<open>
  Enforcement (\<^verbatim>\<open>src/engine_lifecycle.cpp\<close>, middle part): dispatching an apply or a
  revoke to the backend, recording its completion, reading the effect back and deciding
  what the envelope may claim.  Each of the two operations has three sections under the
  engine's lock, with the call of the backend between them; a section is one definition,
  and \<open>apply_envelope\<close> and \<open>revoke\<close> compose them the way the code does.
\<close>

section \<open>Reports and outcomes\<close>

record CompletionReport =
  cr_status :: DispatchStatus
  cr_acknowledged :: bool
  cr_acknowledged_rate_ups :: u64
  cr_acknowledged_burst_tokens :: u64
  cr_epoch :: FabricEpoch
  cr_boot :: WorkerBootId
  cr_reason :: ReasonCode
  cr_detail :: string
  cr_received_ns :: TimestampNs

record CompletionOutcome =
  co_attempt :: EnforcementAttemptId
  co_accepted :: bool
  co_duplicate :: bool
  co_rejected_late :: bool
  co_verification_performed :: bool
  co_verified :: bool
  co_disputed :: bool
  co_compensating_revoke_required :: bool
  co_reason :: ReasonCode
  co_resulting_state :: EnvelopeState

definition empty_completion :: CompletionOutcome where
  "empty_completion =
     \<lparr>co_attempt = StrongId 0, co_accepted = False, co_duplicate = False, co_rejected_late = False,
      co_verification_performed = False, co_verified = False, co_disputed = False,
      co_compensating_revoke_required = False, co_reason = R_None,
      co_resulting_state = EnvelopeState_Unknown\<rparr>"

record ApplyDispatch =
  ad_attempt :: EnforcementAttemptId
  ad_duplicate :: bool
  ad_dispatched :: bool
  ad_awaiting_completion :: bool
  ad_verification_performed :: bool
  ad_verified :: bool
  ad_compensating_revoke_required :: bool
  ad_observed_rate_ups :: u64
  ad_observed_burst_tokens :: u64
  ad_resulting_state :: EnvelopeState
  ad_reason :: ReasonCode

definition empty_apply_dispatch :: ApplyDispatch where
  "empty_apply_dispatch =
     \<lparr>ad_attempt = StrongId 0, ad_duplicate = False, ad_dispatched = False,
      ad_awaiting_completion = False, ad_verification_performed = False, ad_verified = False,
      ad_compensating_revoke_required = False, ad_observed_rate_ups = 0,
      ad_observed_burst_tokens = 0, ad_resulting_state = EnvelopeState_Unknown, ad_reason = R_None\<rparr>"

record RevokeDispatch =
  rd_attempt :: EnforcementAttemptId
  rd_duplicate :: bool
  rd_dispatched :: bool
  rd_verified :: bool
  rd_resulting_state :: EnvelopeState
  rd_reason :: ReasonCode

definition empty_revoke_dispatch :: RevokeDispatch where
  "empty_revoke_dispatch =
     \<lparr>rd_attempt = StrongId 0, rd_duplicate = False, rd_dispatched = False, rd_verified = False,
      rd_resulting_state = EnvelopeState_Unknown, rd_reason = R_None\<rparr>"

text \<open>How the first section of an operation ends: with an answer, with an answer after the
  session was found dead, or with a request for the backend.\<close>

datatype ('d, 'r) PhaseOne =
    PhaseReturn "'d Result" | PhaseSessionLost "'d Result" | PhaseProceed 'd 'r

section \<open>Requests for the backend\<close>

definition make_apply_request :: "RateEnvelope \<Rightarrow> EnforcementAttempt \<Rightarrow> ApplyRequest" where
  "make_apply_request env a =
     \<lparr>ar_attempt = att_id a, ar_envelope = env_id env, ar_envelope_generation = env_generation env,
      ar_fingerprint = att_fingerprint a, ar_rate_ups = plan_ceiling_ups (env_plan env),
      ar_burst_tokens = plan_burst_tokens (env_plan env), ar_refill = plan_refill (env_plan env),
      ar_epoch = att_epoch a, ar_boot = att_boot a, ar_issued_ns = att_dispatched_ns a\<rparr>"

definition make_revoke_request :: "RateEnvelope \<Rightarrow> EnforcementAttempt \<Rightarrow> ReasonCode \<Rightarrow> RevokeRequest" where
  "make_revoke_request env a reason =
     \<lparr>rr_attempt = att_id a, rr_envelope = env_id env, rr_envelope_generation = env_generation env,
      rr_fingerprint = att_fingerprint a, rr_epoch = att_epoch a, rr_boot = att_boot a,
      rr_reason = reason, rr_issued_ns = att_dispatched_ns a\<rparr>"

definition find_inflight :: "u64 \<Rightarrow> 'b Engine \<Rightarrow> EnforcementAttempt option" where
  "find_inflight key e =
     map_option snd (List.find (\<lambda>entry. att_idempotency_key (snd entry) = key
                                        \<and> attempt_inflight (att_state (snd entry))) (eng_attempts e))"

text \<open>The session checks of both operations: a backend admitted at this epoch that is live.\<close>

definition session_refusal :: "'b Engine \<Rightarrow> ('d, 'r) PhaseOne option" where
  "session_refusal e =
     (case eng_backend e of
        None \<Rightarrow> Some (PhaseReturn (fail ErrorCode_BackendFailure R_BackendSessionLost))
      | Some (ops, b) \<Rightarrow>
          if \<not> eng_backend_bound e
          then Some (PhaseReturn (fail ErrorCode_BackendFailure R_BackendSessionLost))
          else if \<not> ops_session_live ops b
          then Some (PhaseSessionLost (fail ErrorCode_BackendFailure R_BackendSessionLost))
          else None)"

definition descriptor_matches :: "RateEnvelope \<Rightarrow> 'b Engine \<Rightarrow> bool" where
  "descriptor_matches env e \<longleftrightarrow>
     (case eng_backend e of
        None \<Rightarrow> False
      | Some (ops, b) \<Rightarrow>
          backend_id (ops_describe ops b) = env_backend env
          \<and> backend_generation (ops_describe ops b) = env_backend_generation env)"

text \<open>The boot of a new attempt is the session's, or the engine's when the session has none.\<close>

definition session_boot :: "'b Engine \<Rightarrow> WorkerBootId" where
  "session_boot e =
     (case eng_backend e of
        None \<Rightarrow> ec_boot (eng_config e)
      | Some (ops, b) \<Rightarrow>
          if id_valid (ops_session_boot ops b) then ops_session_boot ops b else ec_boot (eng_config e))"

definition deadline_from :: "TimestampNs \<Rightarrow> 'b Engine \<Rightarrow> TimestampNs" where
  "deadline_from now e =
     (if ec_attempt_deadline_ns (eng_config e) = 0 then 0
      else saturating_add now (ec_attempt_deadline_ns (eng_config e)))"

definition allocate_attempt :: "'b Engine \<Rightarrow> 'b Engine" where
  "allocate_attempt e =
     e\<lparr>eng_next_attempt_id := eng_next_attempt_id e + 1,
       eng_attempt_sequence := eng_attempt_sequence e + 1\<rparr>"

definition call_apply :: "ApplyRequest \<Rightarrow> 'b Engine \<Rightarrow> DispatchOutcome \<times> 'b Engine" where
  "call_apply r e =
     (case eng_backend e of
        None \<Rightarrow> (empty_dispatch, e)
      | Some (ops, b) \<Rightarrow>
          (case ops_dispatch_apply ops r b of (d, b1) \<Rightarrow> (d, e\<lparr>eng_backend := Some (ops, b1)\<rparr>)))"

definition call_revoke :: "RevokeRequest \<Rightarrow> 'b Engine \<Rightarrow> DispatchOutcome \<times> 'b Engine" where
  "call_revoke r e =
     (case eng_backend e of
        None \<Rightarrow> (empty_dispatch, e)
      | Some (ops, b) \<Rightarrow>
          (case ops_dispatch_revoke ops r b of (d, b1) \<Rightarrow> (d, e\<lparr>eng_backend := Some (ops, b1)\<rparr>)))"

definition call_verify :: "ApplyRequest \<Rightarrow> 'b Engine \<Rightarrow> VerificationOutcome \<times> 'b Engine" where
  "call_verify r e =
     (case eng_backend e of
        None \<Rightarrow>
          (empty_verification\<lparr>vo_status := VerificationStatus_Failed,
             vo_reason := R_ApplyVerificationUnknown,
             vo_detail := ''no backend session is bound; the effect is UNKNOWN''\<rparr>, e)
      | Some (ops, b) \<Rightarrow>
          (case ops_verify ops r b of (v, b1) \<Rightarrow> (v, e\<lparr>eng_backend := Some (ops, b1)\<rparr>)))"

section \<open>Dispatching an apply\<close>

definition planned_envelope :: "EffectivePlan \<Rightarrow> RateEnvelope \<Rightarrow> RateEnvelope" where
  "planned_envelope p env =
     (if binding_unchanged env p then env
      else env\<lparr>env_has_plan := True, env_plan := p, env_plan_revision := env_plan_revision env + 1\<rparr>)"

definition apply_attempt :: "TimestampNs \<Rightarrow> u64 \<Rightarrow> RateEnvelope \<Rightarrow> 'b Engine \<Rightarrow> EnforcementAttempt" where
  "apply_attempt now key env e =
     empty_attempt\<lparr>att_id := StrongId (eng_next_attempt_id e), att_envelope := env_id env,
       att_envelope_generation := env_generation env, att_kind := AttemptKind_Apply,
       att_state := AttemptState_Created, att_reason := R_ApplyDispatched,
       att_fingerprint := plan_fingerprint (env_plan env), att_backend := env_backend env,
       att_backend_generation := env_backend_generation env, att_epoch := eng_epoch e,
       att_boot := session_boot e, att_sequence := eng_attempt_sequence e + 1,
       att_idempotency_key := key, att_created_ns := now, att_dispatched_ns := now,
       att_deadline_ns := deadline_from now e,
       att_requested_rate_ups := plan_ceiling_ups (env_plan env),
       att_requested_burst_tokens := plan_burst_tokens (env_plan env),
       att_detail := ''apply dispatched''\<rparr>"

definition dispatching_envelope :: "TimestampNs \<Rightarrow> RateEnvelope \<Rightarrow> RateEnvelope" where
  "dispatching_envelope now env =
     env\<lparr>env_state := EnvelopeState_Dispatching, env_reason := R_ApplyDispatched,
         env_updated_ns := now, env_attempts_issued := env_attempts_issued env + 1,
         env_bucket := configure_bucket (env_bucket env) (plan_burst_tokens (env_plan env))
                         (plan_ceiling_ups (env_plan env)) now\<rparr>"

definition deny_apply ::
  "TimestampNs \<Rightarrow> RateEnvelopeId \<Rightarrow> PlanOutcome \<Rightarrow> RateEnvelope \<Rightarrow> 'b Engine
   \<Rightarrow> (ApplyDispatch, ApplyRequest) PhaseOne \<times> 'b Engine" where
  "deny_apply now i plan env e =
     (let denied = env\<lparr>env_reason := po_reason plan, env_updated_ns := now\<rparr>
      in (case commit_records_locked [stage_envelope denied JT_EnvelopeStateChange]
             (count (\<lambda>c. c\<lparr>ct_plans_denied := ct_plans_denied c + 1\<rparr>) e) of
          (Inl err, e1) \<Rightarrow> (PhaseReturn (Inl err), e1)
        | (Inr _, e1) \<Rightarrow>
            (PhaseReturn (fail ErrorCode_Denied (po_reason plan)),
             push_event_locked (po_reason plan) i (env_generation denied) (StrongId 0)
               (assign_envelope i denied e1))))"

definition dispatch_planned ::
  "TimestampNs \<Rightarrow> RateEnvelopeId \<Rightarrow> u64 \<Rightarrow> EffectivePlan \<Rightarrow> RateEnvelope \<Rightarrow> 'b Engine
   \<Rightarrow> (ApplyDispatch, ApplyRequest) PhaseOne \<times> 'b Engine" where
  "dispatch_planned now i key p env e =
     (let planned = planned_envelope p env;
          a = apply_attempt now key planned e;
          u = dispatching_envelope now planned;
          records = (if binding_unchanged env p then []
                     else [stage_envelope planned JT_EnvelopeAuthorized])
                    @ [stage_attempt a JT_AttemptCreated, stage_envelope u JT_EnvelopeStateChange]
      in (case commit_records_locked records (allocate_attempt e) of
          (Inl err, e1) \<Rightarrow> (PhaseReturn (Inl err), e1)
        | (Inr _, e1) \<Rightarrow>
            (PhaseProceed
               (empty_apply_dispatch\<lparr>ad_attempt := att_id a, ad_dispatched := True,
                  ad_resulting_state := env_state u, ad_reason := R_ApplyDispatched\<rparr>)
               (make_apply_request u a),
             count (\<lambda>c. c\<lparr>ct_applies_dispatched := ct_applies_dispatched c + 1\<rparr>)
               (retain_attempt_locked a (assign_envelope i u e1)))))"

definition apply_phase_one ::
  "TimestampNs \<Rightarrow> RateEnvelopeId \<Rightarrow> ActorContext \<Rightarrow> 'b Engine
   \<Rightarrow> (ApplyDispatch, ApplyRequest) PhaseOne \<times> 'b Engine" where
  "apply_phase_one now i actor e =
     (case refuse_intake actor e of
        Some (r, e1) \<Rightarrow> (PhaseReturn r, e1)
      | None \<Rightarrow>
          (case find_envelope_locked i e of
             None \<Rightarrow> (PhaseReturn (fail ErrorCode_NotFound R_MalformedInput), e)
           | Some env \<Rightarrow>
               if env_state env = EnvelopeState_Revoked
               then (PhaseReturn (fail ErrorCode_Conflict R_EnvelopeRevoked), e)
               else if env_cooldown_until_ns env \<noteq> 0 \<and> now < env_cooldown_until_ns env
               then (PhaseReturn (fail ErrorCode_Denied R_EnvelopeCooldownActive), e)
               else
                 let key = compute_idempotency_key (env_id env) (env_generation env) AttemptKind_Apply
                 in (case find_inflight key e of
                     Some a \<Rightarrow>
                       (PhaseReturn (Inr (empty_apply_dispatch\<lparr>ad_attempt := att_id a,
                          ad_duplicate := True, ad_reason := R_AttemptIdempotentReplay,
                          ad_resulting_state := env_state env\<rparr>)),
                        count (\<lambda>c. c\<lparr>ct_idempotent_replays := ct_idempotent_replays c + 1\<rparr>) e)
                   | None \<Rightarrow>
                       (case session_refusal e of
                          Some r \<Rightarrow> (r, e)
                        | None \<Rightarrow>
                            if \<not> descriptor_matches env e
                            then (PhaseReturn (fail ErrorCode_StaleAuthority R_AttemptFencedByGeneration), e)
                            else
                              let plan = derive_plan_locked env now e
                              in if \<not> po_authorized plan then deny_apply now i plan env e
                                 else dispatch_planned now i key (po_plan plan) env e))))"

section \<open>Recording the completion of an apply\<close>

definition late_attempt ::
  "TimestampNs \<Rightarrow> ReasonCode \<Rightarrow> bool \<Rightarrow> string \<Rightarrow> 'b Engine \<Rightarrow> EnforcementAttempt \<Rightarrow> EnforcementAttempt" where
  "late_attempt now reason reports_effect detail e a =
     a\<lparr>att_state := (if att_state a \<noteq> AttemptState_Ambiguous then AttemptState_LateRejected
                     else att_state a),
       att_reason := reason, att_completed_ns := now, att_compensating := reports_effect,
       att_detail := truncate_bounded detail (unat (ec_max_attribute_bytes (eng_config e)))\<rparr>"

definition late_envelope :: "TimestampNs \<Rightarrow> ReasonCode \<Rightarrow> bool \<Rightarrow> RateEnvelope \<Rightarrow> RateEnvelope" where
  "late_envelope now reason reports_effect env =
     (let u = env\<lparr>env_completions_rejected := env_completions_rejected env + 1, env_updated_ns := now\<rparr>
      in if \<not> reports_effect then u
         else
           let v = u\<lparr>env_requires_revalidation := True, env_effect_verified := False\<rparr>
           in if env_state v \<noteq> EnvelopeState_Revoked
              then v\<lparr>env_state := EnvelopeState_RevokePending,
                     env_reason := (if reason = R_None then R_CompensatingRevokeIssued else reason)\<rparr>
              else v)"

definition reject_late ::
  "TimestampNs \<Rightarrow> RateEnvelopeId \<Rightarrow> EnforcementAttemptId \<Rightarrow> RateEnvelope \<Rightarrow> EnforcementAttempt
   \<Rightarrow> ReasonCode \<Rightarrow> bool \<Rightarrow> string \<Rightarrow> 'b Engine \<Rightarrow> CompletionOutcome \<times> 'b Engine" where
  "reject_late now i j env a reason reports_effect detail e =
     (let a1 = late_attempt now reason reports_effect detail e a;
          env1 = late_envelope now reason reports_effect env;
          rejected = empty_completion\<lparr>co_attempt := att_id a, co_rejected_late := True,
                       co_reason := reason, co_compensating_revoke_required := reports_effect\<rparr>
      in (case commit_records_locked [stage_attempt a1 JT_AttemptTerminated,
                 stage_envelope env1 JT_EnvelopeStateChange] e of
          (Inl _, e1) \<Rightarrow> (rejected\<lparr>co_resulting_state := env_state env\<rparr>, e1)
        | (Inr _, e1) \<Rightarrow>
            (rejected\<lparr>co_resulting_state := env_state env1\<rparr>,
             push_event_locked reason (env_id env1) (env_generation env1) (att_id a1)
               (count (\<lambda>c. c\<lparr>ct_completions_rejected := ct_completions_rejected c + 1,
                            ct_stale_transitions := ct_stale_transitions c + 1\<rparr>)
                  (assign_envelope i env1 (assign_attempt j a1 e1))))))"

definition fencing_boot :: "CompletionReport \<Rightarrow> EnforcementAttempt \<Rightarrow> bool" where
  "fencing_boot report a \<longleftrightarrow>
     id_valid (cr_boot report) \<and> id_valid (att_boot a) \<and> cr_boot report \<noteq> att_boot a"

definition fencing_epoch :: "CompletionReport \<Rightarrow> EnforcementAttempt \<Rightarrow> 'b Engine \<Rightarrow> bool" where
  "fencing_epoch report a e \<longleftrightarrow>
     fp_epoch (att_fingerprint a) \<noteq> eng_epoch e
     \<or> id_valid (cr_epoch report) \<and> cr_epoch report \<noteq> eng_epoch e"

definition record_pending ::
  "EnforcementAttemptId \<Rightarrow> RateEnvelope \<Rightarrow> EnforcementAttempt \<Rightarrow> 'b Engine
   \<Rightarrow> CompletionOutcome Result \<times> 'b Engine" where
  "record_pending j env a e =
     (let u = a\<lparr>att_state := AttemptState_Dispatched, att_reason := R_ApplyDispatched,
                att_detail := ''backend accepted the work and will complete asynchronously''\<rparr>
      in (case commit_records_locked [stage_attempt u JT_AttemptDispatched] e of
          (Inl err, e1) \<Rightarrow> (Inl err, e1)
        | (Inr _, e1) \<Rightarrow>
            (Inr (empty_completion\<lparr>co_attempt := j, co_accepted := True, co_reason := R_ApplyDispatched,
                    co_resulting_state := env_state env\<rparr>), assign_attempt j u e1)))"

definition refused_attempt ::
  "TimestampNs \<Rightarrow> CompletionReport \<Rightarrow> EnforcementAttempt \<Rightarrow> EnforcementAttempt" where
  "refused_attempt now report a =
     a\<lparr>att_state := (if cr_status report = DispatchStatus_Failed then AttemptState_Ambiguous
                     else AttemptState_Failed),
       att_reason := (if cr_reason report = R_None then R_ApplyBackendFailed else cr_reason report),
       att_completed_ns := now,
       att_detail := (if cr_detail report = [] then ''backend refused the apply'' else cr_detail report)\<rparr>"

definition refused_envelope ::
  "TimestampNs \<Rightarrow> EnforcementAttempt \<Rightarrow> RateEnvelope \<Rightarrow> RateEnvelope" where
  "refused_envelope now a1 env =
     env\<lparr>env_state := EnvelopeState_Degraded, env_reason := att_reason a1, env_updated_ns := now,
         env_completions_rejected := env_completions_rejected env + 1,
         env_requires_revalidation := (att_state a1 = AttemptState_Ambiguous),
         env_effect_verified := False,
         env_cooldown_until_ns :=
           (if env_has_plan env \<and> cooldown_ns (plan_hysteresis (env_plan env)) \<noteq> 0
            then saturating_add now (cooldown_ns (plan_hysteresis (env_plan env)))
            else env_cooldown_until_ns env)\<rparr>"

definition record_refused ::
  "TimestampNs \<Rightarrow> RateEnvelopeId \<Rightarrow> EnforcementAttemptId \<Rightarrow> CompletionReport \<Rightarrow> RateEnvelope
   \<Rightarrow> EnforcementAttempt \<Rightarrow> 'b Engine \<Rightarrow> CompletionOutcome Result \<times> 'b Engine" where
  "record_refused now i j report env a e =
     (let a1 = refused_attempt now report a;
          env1 = refused_envelope now a1 env
      in (case commit_records_locked [stage_attempt a1 JT_AttemptTerminated,
                 stage_envelope env1 JT_EnvelopeStateChange] e of
          (Inl err, e1) \<Rightarrow> (Inl err, e1)
        | (Inr _, e1) \<Rightarrow>
            (Inr (empty_completion\<lparr>co_attempt := j, co_accepted := True, co_reason := att_reason a1,
                    co_resulting_state := env_state env1\<rparr>),
             push_event_locked (att_reason a1) i (env_generation env1) j
               (count (\<lambda>c. c\<lparr>ct_applies_degraded := ct_applies_degraded c + 1\<rparr>)
                  (assign_envelope i env1 (assign_attempt j a1 e1))))))"

definition acknowledged_attempt ::
  "TimestampNs \<Rightarrow> CompletionReport \<Rightarrow> EnforcementAttempt \<Rightarrow> EnforcementAttempt" where
  "acknowledged_attempt now report a =
     a\<lparr>att_acknowledged := True, att_acknowledged_rate_ups := cr_acknowledged_rate_ups report,
       att_acknowledged_burst_tokens := cr_acknowledged_burst_tokens report,
       att_state := AttemptState_Acknowledged, att_reason := R_ApplyAcknowledged,
       att_completed_ns := now,
       att_detail := (if cr_detail report = [] then ''acknowledged'' else cr_detail report)\<rparr>"

text \<open>
  The section before the readback.  Nothing as the answer means that the acknowledgement
  is recorded and the effect is to be read back.
\<close>

definition finish_apply_report ::
  "TimestampNs \<Rightarrow> RateEnvelopeId \<Rightarrow> EnforcementAttemptId \<Rightarrow> CompletionReport \<Rightarrow> 'b Engine
   \<Rightarrow> CompletionOutcome Result option \<times> 'b Engine" where
  "finish_apply_report now i j report e =
     (case (find_attempt_locked j e, find_envelope_locked i e) of
        (Some a, Some env) \<Rightarrow>
          if att_kind a \<noteq> AttemptKind_Apply
          then (Some (fail ErrorCode_InvalidArgument R_MalformedInput), e)
          else if att_state a = AttemptState_Verified \<or> att_state a = AttemptState_DuplicateIgnored
          then (Some (Inr (empty_completion\<lparr>co_attempt := j, co_duplicate := True,
                  co_reason := R_AttemptDuplicateIgnored, co_resulting_state := env_state env\<rparr>)),
                count (\<lambda>c. c\<lparr>ct_completions_duplicate := ct_completions_duplicate c + 1\<rparr>) e)
          else if \<not> attempt_inflight (att_state a) \<or> fencing_boot report a \<or> fencing_epoch report a e
          then map_prod (Some \<circ> Inr) id
                 (reject_late now i j env a
                    (if fencing_boot report a then R_AttemptFencedByBoot
                     else if fencing_epoch report a e then R_AttemptFencedByEpoch
                     else R_AttemptLateCompletionRejected)
                    (cr_acknowledged report)
                    (if fencing_boot report a then ''completion carried a foreign boot id''
                     else if fencing_epoch report a e then ''completion carried a superseded fabric epoch''
                     else ''attempt was no longer in flight'') e)
          else if authority_status_locked env now e \<noteq> R_None
          then map_prod (Some \<circ> Inr) id
                 (reject_late now i j env a (authority_status_locked env now e) (cr_acknowledged report)
                    ''the authority that funded this attempt changed while it was in flight'' e)
          else if cr_status report = DispatchStatus_Pending
          then map_prod Some id (record_pending j env a e)
          else if \<not> cr_acknowledged report
          then map_prod Some id (record_refused now i j report env a e)
          else
            let a1 = acknowledged_attempt now report a
            in (case commit_records_locked [stage_attempt a1 JT_AttemptAcknowledged] e of
                (Inl err, e1) \<Rightarrow> (Some (Inl err), e1)
              | (Inr _, e1) \<Rightarrow> (None, assign_attempt j a1 e1))
      | _ \<Rightarrow> (Some (fail ErrorCode_NotFound R_MalformedInput), e))"

section \<open>Deciding from the readback\<close>

definition with_effect :: "VerificationOutcome \<Rightarrow> FabricEpoch \<Rightarrow> RateEnvelope \<Rightarrow> RateEnvelope" where
  "with_effect v epoch env =
     env\<lparr>env_applied_rate_ups := vo_observed_rate_ups v,
         env_applied_burst_tokens := vo_observed_burst_tokens v,
         env_applied_epoch := (if id_valid (vo_epoch v) then vo_epoch v else epoch),
         env_applied_boot := vo_boot v\<rparr>"

definition disputed_envelope :: "ReasonCode \<Rightarrow> RateEnvelope \<Rightarrow> RateEnvelope" where
  "disputed_envelope reason env =
     env\<lparr>env_state := EnvelopeState_Degraded, env_reason := reason,
         env_requires_revalidation := True, env_effect_verified := False\<rparr>"

text \<open>
  The attempt and the envelope that a readback leaves, whether it confirmed exactly what
  was requested, and whether a compensating revoke is required.
\<close>

definition judge_readback ::
  "TimestampNs \<Rightarrow> ApplyRequest \<Rightarrow> VerificationOutcome \<Rightarrow> EnforcementAttempt \<Rightarrow> RateEnvelope \<Rightarrow> 'b Engine
   \<Rightarrow> EnforcementAttempt \<times> RateEnvelope \<times> bool \<times> bool" where
  "judge_readback now request v attempt envelope e =
     (let a = attempt\<lparr>att_verified_rate_ups := vo_observed_rate_ups v,
                      att_verified_burst_tokens := vo_observed_burst_tokens v, att_completed_ns := now\<rparr>;
          env = envelope\<lparr>env_updated_ns := now,
                         env_completions_applied := env_completions_applied envelope + 1\<rparr>
      in if vo_status v = VerificationStatus_Unsupported then
           (a\<lparr>att_state := AttemptState_Ambiguous, att_reason := R_ApplyVerificationUnsupported\<rparr>,
            disputed_envelope R_ApplyVerificationUnsupported env, False, False)
         else if vo_status v = VerificationStatus_Failed then
           (a\<lparr>att_state := AttemptState_Ambiguous, att_reason := R_ApplyVerificationUnknown\<rparr>,
            disputed_envelope R_ApplyVerificationUnknown env, False, False)
         else if \<not> vo_observed_present v then
           (a\<lparr>att_state := AttemptState_Failed, att_reason := R_ApplyVerificationMismatch\<rparr>,
            disputed_envelope R_ApplyVerificationMismatch env, False, False)
         else if vo_observed_rate_ups v = ar_rate_ups request
                 \<and> vo_observed_burst_tokens v = ar_burst_tokens request then
           (a\<lparr>att_state := AttemptState_Verified, att_verified := True, att_effect_confirmed := True,
              att_reason := R_ApplyVerified\<rparr>,
            (with_effect v (eng_epoch e) env)
              \<lparr>env_state := EnvelopeState_Applied, env_reason := R_ApplyVerified,
               env_effect_verified := True, env_requires_revalidation := False,
               env_cooldown_until_ns := 0,
               env_revalidate_by_ns :=
                 (if ec_revalidate_interval_ns (eng_config e) \<noteq> 0
                  then saturating_add now (ec_revalidate_interval_ns (eng_config e))
                  else env_revalidate_by_ns env)\<rparr>, True, False)
         else if ar_rate_ups request < vo_observed_rate_ups v then
           (a\<lparr>att_state := AttemptState_Verified, att_verified := True, att_compensating := True,
              att_reason := R_ApplyOverDeliveredRevoking\<rparr>,
            (with_effect v (eng_epoch e) env)
              \<lparr>env_state := EnvelopeState_RevokePending, env_reason := R_ApplyOverDeliveredRevoking,
               env_effect_verified := False, env_requires_revalidation := True\<rparr>, False, True)
         else
           let floor = (if env_has_plan envelope then plan_floor_ups (env_plan envelope) else 0);
               a1 = a\<lparr>att_state := AttemptState_Verified, att_verified := True,
                      att_reason := R_ApplyUnderDelivered\<rparr>;
               env1 = (with_effect v (eng_epoch e) env)
                        \<lparr>env_effect_verified := True, env_reason := R_ApplyUnderDelivered\<rparr>
           in if floor \<le> vo_observed_rate_ups v
              then (a1, env1\<lparr>env_state := EnvelopeState_Degraded, env_requires_revalidation := False\<rparr>,
                    False, False)
              else (a1\<lparr>att_compensating := True\<rparr>,
                    env1\<lparr>env_state := EnvelopeState_RevokePending, env_requires_revalidation := True\<rparr>,
                    False, True))"

definition with_detail :: "string \<Rightarrow> EnforcementAttempt \<Rightarrow> EnforcementAttempt" where
  "with_detail detail a = (if detail = [] then a else a\<lparr>att_detail := detail\<rparr>)"

definition publish_readback ::
  "TimestampNs \<Rightarrow> RateEnvelopeId \<Rightarrow> EnforcementAttemptId \<Rightarrow> ApplyRequest \<Rightarrow> VerificationOutcome
   \<Rightarrow> RateEnvelope \<Rightarrow> EnforcementAttempt \<Rightarrow> 'b Engine \<Rightarrow> CompletionOutcome Result \<times> 'b Engine" where
  "publish_readback now i j request v env a e =
     (case judge_readback now request v a env e of (a0, env1, exact, compensating) \<Rightarrow>
        let a1 = with_detail (vo_detail v) a0;
            e0 = count (\<lambda>c. if exact then c\<lparr>ct_applies_verified := ct_applies_verified c + 1\<rparr>
                            else c\<lparr>ct_applies_degraded := ct_applies_degraded c + 1\<rparr>) e
        in (case commit_records_locked [stage_attempt a1 JT_AttemptVerified,
                   stage_envelope env1 JT_EnvelopeEffectRecorded] e0 of
            (Inl err, e1) \<Rightarrow> (Inl err, e1)
          | (Inr _, e1) \<Rightarrow>
              (Inr (empty_completion\<lparr>co_attempt := j, co_accepted := True,
                      co_verification_performed := True, co_verified := exact, co_disputed := \<not> exact,
                      co_compensating_revoke_required := compensating, co_reason := att_reason a1,
                      co_resulting_state := env_state env1\<rparr>),
               push_event_locked (att_reason a1) i (env_generation env1) j
                 (assign_envelope i env1 (assign_attempt j a1 e1)))))"

definition finish_apply_verified ::
  "TimestampNs \<Rightarrow> RateEnvelopeId \<Rightarrow> EnforcementAttemptId \<Rightarrow> ApplyRequest \<Rightarrow> VerificationOutcome
   \<Rightarrow> 'b Engine \<Rightarrow> CompletionOutcome Result \<times> 'b Engine" where
  "finish_apply_verified now i j request v e =
     (case (find_attempt_locked j e, find_envelope_locked i e) of
        (Some a, Some env) \<Rightarrow>
          if att_state a \<noteq> AttemptState_Acknowledged
          then map_prod Inr id
                 (reject_late now i j env a R_AttemptCancelled (vo_observed_present v)
                    ''the attempt left the in-flight state while the readback was outstanding'' e)
          else if authority_status_locked env now e \<noteq> R_None
                  \<or> fp_epoch (att_fingerprint a) \<noteq> eng_epoch e
          then map_prod Inr id
                 (reject_late now i j env a
                    (if fp_epoch (att_fingerprint a) \<noteq> eng_epoch e
                     then R_EnvelopeStaleFabricEpochAdvanced else authority_status_locked env now e)
                    (vo_observed_present v) ''authority changed while the readback was outstanding'' e)
          else publish_readback now i j request v env a e
      | _ \<Rightarrow> (fail ErrorCode_NotFound R_MalformedInput, e))"

definition finish_apply ::
  "TimestampNs \<Rightarrow> RateEnvelopeId \<Rightarrow> EnforcementAttemptId \<Rightarrow> ApplyRequest \<Rightarrow> CompletionReport
   \<Rightarrow> 'b Engine \<Rightarrow> CompletionOutcome Result \<times> 'b Engine" where
  "finish_apply now i j request report e =
     (case finish_apply_report now i j report e of
        (Some r, e1) \<Rightarrow> (r, e1)
      | (None, e1) \<Rightarrow>
          (case call_verify request e1 of (v, e2) \<Rightarrow> finish_apply_verified now i j request v e2))"

definition dispatch_report :: "TimestampNs \<Rightarrow> DispatchOutcome \<Rightarrow> CompletionReport" where
  "dispatch_report received d =
     \<lparr>cr_status = do_status d, cr_acknowledged = (do_status d = DispatchStatus_Completed),
      cr_acknowledged_rate_ups = do_applied_rate_ups d,
      cr_acknowledged_burst_tokens = do_applied_burst_tokens d, cr_epoch = do_epoch d,
      cr_boot = do_boot d, cr_reason = do_reason d, cr_detail = do_detail d,
      cr_received_ns = received\<rparr>"

text \<open>
  The whole operation; the three instants are the readings of the clock at the start, at
  the reception of the dispatch outcome and at the start of the completion.
\<close>

definition apply_envelope ::
  "TimestampNs \<Rightarrow> TimestampNs \<Rightarrow> TimestampNs \<Rightarrow> RateEnvelopeId \<Rightarrow> ActorContext \<Rightarrow> 'b Engine
   \<Rightarrow> ApplyDispatch Result \<times> 'b Engine" where
  "apply_envelope now received finished i actor e =
     (case apply_phase_one now i actor e of
        (PhaseReturn r, e1) \<Rightarrow> (r, e1)
      | (PhaseSessionLost r, e1) \<Rightarrow> (r, snd (mark_session_lost actor e1))
      | (PhaseProceed d request, e1) \<Rightarrow>
          (case call_apply request e1 of (outcome, e2) \<Rightarrow>
             (case finish_apply finished i (ar_attempt request) request
                     (dispatch_report received outcome) e2 of
                (Inl err, e3) \<Rightarrow> (Inl err, e3)
              | (Inr c, e3) \<Rightarrow>
                  (Inr (d\<lparr>ad_verification_performed := co_verification_performed c,
                          ad_verified := co_verified c,
                          ad_compensating_revoke_required := co_compensating_revoke_required c,
                          ad_observed_rate_ups := do_applied_rate_ups outcome,
                          ad_resulting_state := co_resulting_state c, ad_reason := co_reason c,
                          ad_awaiting_completion := (co_reason c = R_ApplyDispatched)\<rparr>), e3))))"

definition complete_apply ::
  "TimestampNs \<Rightarrow> EnforcementAttemptId \<Rightarrow> CompletionReport \<Rightarrow> ActorContext \<Rightarrow> 'b Engine
   \<Rightarrow> CompletionOutcome Result \<times> 'b Engine" where
  "complete_apply now j report actor e =
     (case refuse_actor actor e of
        Some refused \<Rightarrow> refused
      | None \<Rightarrow>
          (case find_attempt_locked j e of
             None \<Rightarrow> (fail ErrorCode_NotFound R_MalformedInput, e)
           | Some a \<Rightarrow>
               if att_kind a \<noteq> AttemptKind_Apply
               then (fail ErrorCode_InvalidArgument R_MalformedInput, e)
               else (case find_envelope_locked (att_envelope a) e of
                   None \<Rightarrow> (fail ErrorCode_NotFound R_MalformedInput, e)
                 | Some env \<Rightarrow>
                     finish_apply now (att_envelope a) j (make_apply_request env a) report e)))"

end
