(* ===== verification/Engine_Revoke.thy ===== *)
theory Engine_Revoke
  imports Engine_Enforcement
begin

text \<open>
  Revocation (\<^verbatim>\<open>src/engine_lifecycle.cpp\<close>): dispatching a revoke, recording its
  completion and confirming by readback that nothing is enforced any more.  The sections
  under the engine's lock are one definition each, as for an apply.
\<close>

section \<open>Dispatching a revoke\<close>

definition revoke_attempt ::
  "TimestampNs \<Rightarrow> u64 \<Rightarrow> ReasonCode \<Rightarrow> RateEnvelope \<Rightarrow> 'b Engine \<Rightarrow> EnforcementAttempt" where
  "revoke_attempt now key reason env e =
     empty_attempt\<lparr>att_id := StrongId (eng_next_attempt_id e), att_envelope := env_id env,
       att_envelope_generation := env_generation env, att_kind := AttemptKind_Revoke,
       att_state := AttemptState_Created,
       att_reason := (if reason = R_None then R_RevokeDispatched else reason),
       att_fingerprint := (if env_has_plan env then plan_fingerprint (env_plan env)
                           else empty_fingerprint),
       att_backend := env_backend env, att_backend_generation := env_backend_generation env,
       att_epoch := eng_epoch e, att_boot := session_boot e,
       att_sequence := eng_attempt_sequence e + 1, att_idempotency_key := key,
       att_created_ns := now, att_dispatched_ns := now, att_deadline_ns := deadline_from now e,
       att_detail := ''revoke dispatched''\<rparr>"

definition revoking_envelope :: "TimestampNs \<Rightarrow> ReasonCode \<Rightarrow> RateEnvelope \<Rightarrow> RateEnvelope" where
  "revoking_envelope now reason env =
     env\<lparr>env_state := EnvelopeState_RevokePending, env_reason := reason, env_updated_ns := now,
         env_attempts_issued := env_attempts_issued env + 1\<rparr>"

definition dispatch_revocation ::
  "TimestampNs \<Rightarrow> RateEnvelopeId \<Rightarrow> u64 \<Rightarrow> ReasonCode \<Rightarrow> RateEnvelope \<Rightarrow> 'b Engine
   \<Rightarrow> (RevokeDispatch, RevokeRequest) PhaseOne \<times> 'b Engine" where
  "dispatch_revocation now i key reason env e =
     (let a = revoke_attempt now key reason env e;
          u = revoking_envelope now (att_reason a) env
      in (case commit_records_locked [stage_attempt a JT_AttemptCreated,
                 stage_envelope u JT_EnvelopeStateChange] (allocate_attempt e) of
          (Inl err, e1) \<Rightarrow> (PhaseReturn (Inl err), e1)
        | (Inr _, e1) \<Rightarrow>
            (PhaseProceed
               (empty_revoke_dispatch\<lparr>rd_attempt := att_id a, rd_dispatched := True,
                  rd_resulting_state := env_state u, rd_reason := att_reason a\<rparr>)
               (make_revoke_request u a (att_reason a)),
             count (\<lambda>c. c\<lparr>ct_revokes_dispatched := ct_revokes_dispatched c + 1\<rparr>)
               (retain_attempt_locked a (assign_envelope i u e1)))))"

definition revoke_phase_one ::
  "TimestampNs \<Rightarrow> RateEnvelopeId \<Rightarrow> ReasonCode \<Rightarrow> ActorContext \<Rightarrow> 'b Engine
   \<Rightarrow> (RevokeDispatch, RevokeRequest) PhaseOne \<times> 'b Engine" where
  "revoke_phase_one now i reason actor e =
     (case refuse_intake actor e of
        Some (r, e1) \<Rightarrow> (PhaseReturn r, e1)
      | None \<Rightarrow>
          (case find_envelope_locked i e of
             None \<Rightarrow> (PhaseReturn (fail ErrorCode_NotFound R_MalformedInput), e)
           | Some env \<Rightarrow>
               if env_state env = EnvelopeState_Revoked
               then (PhaseReturn (Inr (empty_revoke_dispatch\<lparr>rd_duplicate := True,
                       rd_resulting_state := env_state env, rd_reason := R_EnvelopeRevoked\<rparr>)),
                     count (\<lambda>c. c\<lparr>ct_idempotent_replays := ct_idempotent_replays c + 1\<rparr>) e)
               else
                 let key = compute_idempotency_key (env_id env) (env_generation env) AttemptKind_Revoke
                 in (case find_inflight key e of
                     Some a \<Rightarrow>
                       (PhaseReturn (Inr (empty_revoke_dispatch\<lparr>rd_attempt := att_id a,
                          rd_duplicate := True, rd_resulting_state := env_state env,
                          rd_reason := R_AttemptIdempotentReplay\<rparr>)),
                        count (\<lambda>c. c\<lparr>ct_idempotent_replays := ct_idempotent_replays c + 1\<rparr>) e)
                   | None \<Rightarrow>
                       (case session_refusal e of
                          Some r \<Rightarrow> (r, e)
                        | None \<Rightarrow> dispatch_revocation now i key reason env e))))"

section \<open>Recording the completion of a revoke\<close>

definition reject_late_revoke ::
  "TimestampNs \<Rightarrow> RateEnvelopeId \<Rightarrow> EnforcementAttemptId \<Rightarrow> ReasonCode \<Rightarrow> RateEnvelope
   \<Rightarrow> EnforcementAttempt \<Rightarrow> 'b Engine \<Rightarrow> CompletionOutcome Result \<times> 'b Engine" where
  "reject_late_revoke now i j reason env a e =
     (let u = a\<lparr>att_state := AttemptState_LateRejected, att_reason := reason, att_completed_ns := now,
                att_detail := ''revoke completion arrived after the attempt stopped being in flight''\<rparr>
      in (case commit_records_locked [stage_attempt u JT_AttemptTerminated] e of
          (Inl err, e1) \<Rightarrow> (Inl err, e1)
        | (Inr _, e1) \<Rightarrow>
            (Inr (empty_completion\<lparr>co_attempt := j, co_reason := att_reason u, co_rejected_late := True,
                    co_resulting_state := env_state env\<rparr>),
             push_event_locked (att_reason u) i (env_generation env) j
               (count (\<lambda>c. c\<lparr>ct_completions_rejected := ct_completions_rejected c + 1\<rparr>)
                  (assign_attempt j u e1)))))"

definition refused_revoke_attempt ::
  "TimestampNs \<Rightarrow> CompletionReport \<Rightarrow> EnforcementAttempt \<Rightarrow> EnforcementAttempt" where
  "refused_revoke_attempt now report a =
     a\<lparr>att_state := (if cr_status report = DispatchStatus_Failed then AttemptState_Ambiguous
                     else AttemptState_Failed),
       att_reason := (if cr_reason report = R_None then R_RevokeBackendFailed else cr_reason report),
       att_completed_ns := now,
       att_detail := (if cr_detail report = [] then ''backend refused the revoke'' else cr_detail report)\<rparr>"

definition revoke_disputed :: "ReasonCode \<Rightarrow> RateEnvelope \<Rightarrow> RateEnvelope" where
  "revoke_disputed reason env =
     env\<lparr>env_state := EnvelopeState_RevokePending, env_reason := reason,
         env_requires_revalidation := True, env_effect_verified := False\<rparr>"

definition record_refused_revoke ::
  "TimestampNs \<Rightarrow> RateEnvelopeId \<Rightarrow> EnforcementAttemptId \<Rightarrow> CompletionReport \<Rightarrow> RateEnvelope
   \<Rightarrow> EnforcementAttempt \<Rightarrow> 'b Engine \<Rightarrow> CompletionOutcome Result \<times> 'b Engine" where
  "record_refused_revoke now i j report env a e =
     (let a1 = refused_revoke_attempt now report a;
          env1 = (revoke_disputed (att_reason a1) env)
                   \<lparr>env_updated_ns := now,
                    env_completions_rejected := env_completions_rejected env + 1\<rparr>
      in (case commit_records_locked [stage_attempt a1 JT_AttemptTerminated,
                 stage_envelope env1 JT_EnvelopeStateChange] e of
          (Inl err, e1) \<Rightarrow> (Inl err, e1)
        | (Inr _, e1) \<Rightarrow>
            (Inr (empty_completion\<lparr>co_attempt := j, co_accepted := True, co_reason := att_reason a1,
                    co_resulting_state := env_state env1\<rparr>),
             push_event_locked (att_reason a1) i (env_generation env1) j
               (assign_envelope i env1 (assign_attempt j a1 e1)))))"

definition acknowledged_revoke ::
  "TimestampNs \<Rightarrow> CompletionReport \<Rightarrow> EnforcementAttempt \<Rightarrow> EnforcementAttempt" where
  "acknowledged_revoke now report a =
     a\<lparr>att_acknowledged := True, att_state := AttemptState_Acknowledged,
       att_reason := R_RevokeDispatched, att_completed_ns := now,
       att_detail := (if cr_detail report = [] then ''revoke acknowledged'' else cr_detail report)\<rparr>"

text \<open>The section before the readback: an answer, or the probe to read back with.\<close>

definition finish_revoke_report ::
  "TimestampNs \<Rightarrow> RateEnvelopeId \<Rightarrow> EnforcementAttemptId \<Rightarrow> CompletionReport \<Rightarrow> 'b Engine
   \<Rightarrow> (CompletionOutcome Result + ApplyRequest) \<times> 'b Engine" where
  "finish_revoke_report now i j report e =
     (case (find_attempt_locked j e, find_envelope_locked i e) of
        (Some a, Some env) \<Rightarrow>
          if att_kind a \<noteq> AttemptKind_Revoke
          then (Inl (fail ErrorCode_InvalidArgument R_MalformedInput), e)
          else if att_state a = AttemptState_Verified \<or> att_state a = AttemptState_DuplicateIgnored
          then (Inl (Inr (empty_completion\<lparr>co_attempt := j, co_duplicate := True,
                  co_reason := R_AttemptDuplicateIgnored, co_resulting_state := env_state env\<rparr>)),
                count (\<lambda>c. c\<lparr>ct_completions_duplicate := ct_completions_duplicate c + 1\<rparr>) e)
          else
            let boot = fencing_boot report a;
                epoch = (id_valid (fp_epoch (att_fingerprint a))
                         \<and> fp_epoch (att_fingerprint a) \<noteq> eng_epoch e)
            in if \<not> attempt_inflight (att_state a) \<or> boot \<or> epoch
               then map_prod Inl id
                      (reject_late_revoke now i j
                         (if boot then R_AttemptFencedByBoot
                          else if epoch then R_AttemptFencedByEpoch
                          else R_AttemptLateCompletionRejected) env a e)
               else if \<not> cr_acknowledged report
               then map_prod Inl id (record_refused_revoke now i j report env a e)
               else
                 let a1 = acknowledged_revoke now report a
                 in (case commit_records_locked [stage_attempt a1 JT_AttemptAcknowledged] e of
                     (Inl err, e1) \<Rightarrow> (Inl (Inl err), e1)
                   | (Inr _, e1) \<Rightarrow>
                       (Inr ((make_apply_request env a1)\<lparr>ar_rate_ups := 0, ar_burst_tokens := 0\<rparr>),
                        assign_attempt j a1 e1))
      | _ \<Rightarrow> (Inl (fail ErrorCode_NotFound R_MalformedInput), e))"

section \<open>Deciding from the readback\<close>

definition judge_revoke ::
  "TimestampNs \<Rightarrow> VerificationOutcome \<Rightarrow> EnforcementAttempt \<Rightarrow> RateEnvelope
   \<Rightarrow> EnforcementAttempt \<times> RateEnvelope \<times> bool" where
  "judge_revoke now v attempt envelope =
     (let a = attempt\<lparr>att_verified_rate_ups := vo_observed_rate_ups v,
                      att_verified_burst_tokens := vo_observed_burst_tokens v, att_completed_ns := now\<rparr>;
          env = envelope\<lparr>env_updated_ns := now,
                         env_completions_applied := env_completions_applied envelope + 1\<rparr>
      in if vo_status v = VerificationStatus_Confirmed \<and> \<not> vo_observed_present v then
           (a\<lparr>att_state := AttemptState_Verified, att_verified := True, att_effect_confirmed := True,
              att_reason := R_RevokeVerified\<rparr>,
            env\<lparr>env_state := EnvelopeState_Revoked, env_reason := R_EnvelopeRevoked,
                env_effect_verified := False, env_requires_revalidation := False,
                env_applied_rate_ups := 0, env_applied_burst_tokens := 0,
                env_bucket := (env_bucket env)\<lparr>bk_tokens := 0\<rparr>, env_cooldown_until_ns := 0\<rparr>, True)
         else
           let reason = (if vo_status v = VerificationStatus_Failed then R_ApplyVerificationUnknown
                         else R_ApplyVerificationMismatch)
           in (a\<lparr>att_state := AttemptState_Ambiguous, att_reason := reason\<rparr>,
               revoke_disputed reason env, False))"

definition publish_revoke ::
  "TimestampNs \<Rightarrow> RateEnvelopeId \<Rightarrow> EnforcementAttemptId \<Rightarrow> VerificationOutcome \<Rightarrow> RateEnvelope
   \<Rightarrow> EnforcementAttempt \<Rightarrow> 'b Engine \<Rightarrow> CompletionOutcome Result \<times> 'b Engine" where
  "publish_revoke now i j v env a e =
     (case judge_revoke now v a env of (a0, env1, confirmed) \<Rightarrow>
        let a1 = with_detail (vo_detail v) a0;
            e0 = (if confirmed
                  then count (\<lambda>c. c\<lparr>ct_revokes_verified := ct_revokes_verified c + 1\<rparr>) e else e)
        in (case commit_records_locked [stage_attempt a1 JT_AttemptVerified,
                   stage_envelope env1 JT_EnvelopeEffectRecorded] e0 of
            (Inl err, e1) \<Rightarrow> (Inl err, e1)
          | (Inr _, e1) \<Rightarrow>
              (Inr (empty_completion\<lparr>co_attempt := j, co_accepted := True,
                      co_verification_performed := True, co_verified := confirmed,
                      co_disputed := \<not> confirmed, co_reason := att_reason a1,
                      co_resulting_state := env_state env1\<rparr>),
               push_event_locked (att_reason a1) i (env_generation env1) j
                 (assign_envelope i env1 (assign_attempt j a1 e1)))))"

definition finish_revoke_verified ::
  "TimestampNs \<Rightarrow> RateEnvelopeId \<Rightarrow> EnforcementAttemptId \<Rightarrow> VerificationOutcome \<Rightarrow> EnvelopeState
   \<Rightarrow> 'b Engine \<Rightarrow> CompletionOutcome Result \<times> 'b Engine" where
  "finish_revoke_verified now i j v before e =
     (case (find_attempt_locked j e, find_envelope_locked i e) of
        (Some a, Some env) \<Rightarrow>
          if att_state a \<noteq> AttemptState_Acknowledged then
            let u = a\<lparr>att_state := AttemptState_LateRejected, att_reason := R_AttemptCancelled,
                      att_completed_ns := now,
                      att_detail := ''revoke attempt left the in-flight state during readback''\<rparr>
            in (case commit_records_locked [stage_attempt u JT_AttemptTerminated] e of
                (Inl err, e1) \<Rightarrow> (Inl err, e1)
              | (Inr _, e1) \<Rightarrow>
                  (Inr (empty_completion\<lparr>co_attempt := j, co_verification_performed := True,
                          co_rejected_late := True, co_reason := att_reason u,
                          co_resulting_state := before\<rparr>),
                   count (\<lambda>c. c\<lparr>ct_completions_rejected := ct_completions_rejected c + 1\<rparr>)
                     (assign_attempt j u e1)))
          else publish_revoke now i j v env a e
      | _ \<Rightarrow> (fail ErrorCode_NotFound R_MalformedInput, e))"

definition finish_revoke ::
  "TimestampNs \<Rightarrow> RateEnvelopeId \<Rightarrow> EnforcementAttemptId \<Rightarrow> CompletionReport \<Rightarrow> 'b Engine
   \<Rightarrow> CompletionOutcome Result \<times> 'b Engine" where
  "finish_revoke now i j report e =
     (case finish_revoke_report now i j report e of
        (Inl r, e1) \<Rightarrow> (r, e1)
      | (Inr probe, e1) \<Rightarrow>
          (case call_verify probe e1 of (v, e2) \<Rightarrow>
             finish_revoke_verified now i j v
               (case find_envelope_locked i e of Some env \<Rightarrow> env_state env
                | None \<Rightarrow> EnvelopeState_Unknown) e2))"

definition revoke ::
  "TimestampNs \<Rightarrow> TimestampNs \<Rightarrow> TimestampNs \<Rightarrow> RateEnvelopeId \<Rightarrow> ReasonCode \<Rightarrow> ActorContext \<Rightarrow> 'b Engine
   \<Rightarrow> RevokeDispatch Result \<times> 'b Engine" where
  "revoke now received finished i reason actor e =
     (case revoke_phase_one now i reason actor e of
        (PhaseReturn r, e1) \<Rightarrow> (r, e1)
      | (PhaseSessionLost r, e1) \<Rightarrow> (r, snd (mark_session_lost actor e1))
      | (PhaseProceed d request, e1) \<Rightarrow>
          (case call_revoke request e1 of (outcome, e2) \<Rightarrow>
             (case finish_revoke finished i (rr_attempt request)
                     ((dispatch_report received outcome)
                        \<lparr>cr_acknowledged_rate_ups := 0, cr_acknowledged_burst_tokens := 0\<rparr>) e2 of
                (Inl err, e3) \<Rightarrow> (Inl err, e3)
              | (Inr c, e3) \<Rightarrow>
                  (Inr (d\<lparr>rd_verified := co_verified c, rd_resulting_state := co_resulting_state c,
                          rd_reason := co_reason c\<rparr>), e3))))"

definition complete_revoke ::
  "TimestampNs \<Rightarrow> EnforcementAttemptId \<Rightarrow> CompletionReport \<Rightarrow> ActorContext \<Rightarrow> 'b Engine
   \<Rightarrow> CompletionOutcome Result \<times> 'b Engine" where
  "complete_revoke now j report actor e =
     (case refuse_actor actor e of
        Some refused \<Rightarrow> refused
      | None \<Rightarrow>
          (case find_attempt_locked j e of
             None \<Rightarrow> (fail ErrorCode_NotFound R_MalformedInput, e)
           | Some a \<Rightarrow>
               if att_kind a \<noteq> AttemptKind_Revoke
               then (fail ErrorCode_InvalidArgument R_MalformedInput, e)
               else (case find_envelope_locked (att_envelope a) e of
                   None \<Rightarrow> (fail ErrorCode_NotFound R_MalformedInput, e)
                 | Some env \<Rightarrow> finish_revoke now (att_envelope a) j report e)))"

end
