(* ===== verification/Engine_Maintenance.thy ===== *)
theory Engine_Maintenance
  imports Engine_Revoke
begin

text \<open>
  Maintenance (\<^verbatim>\<open>src/engine_runtime.cpp\<close>): the periodic tick, the revalidation of
  questioned effects against the backend, shutdown, and the demotion of everything a
  recovered engine cannot vouch for.
\<close>

section \<open>The tick\<close>

definition kMaxTickEnvelopeTransitions :: nat where
  "kMaxTickEnvelopeTransitions = 512"

definition kMaxTickAttemptTransitions :: nat where
  "kMaxTickAttemptTransitions = 512"

definition kMaxRevalidationsPerCall :: nat where
  "kMaxRevalidationsPerCall = 256"

record TickReport =
  tr_now_ns :: TimestampNs
  tr_envelopes_refilled :: u64
  tr_envelopes_stale :: u64
  tr_envelopes_reduced :: u64
  tr_attempts_expired :: u64
  tr_revokes_pending :: u64
  tr_cooldowns_expired :: u64
  tr_clock_regressions :: u64
  tr_token_buckets_saturated :: u64
  tr_revalidations_required :: u64
  tr_capacity_rejections :: u64
  tr_deferred :: u64
  tr_journal_failed :: bool

definition empty_tick_report :: "TimestampNs \<Rightarrow> TickReport" where
  "empty_tick_report now =
     \<lparr>tr_now_ns = now, tr_envelopes_refilled = 0, tr_envelopes_stale = 0, tr_envelopes_reduced = 0,
      tr_attempts_expired = 0, tr_revokes_pending = 0, tr_cooldowns_expired = 0,
      tr_clock_regressions = 0, tr_token_buckets_saturated = 0, tr_revalidations_required = 0,
      tr_capacity_rejections = 0, tr_deferred = 0, tr_journal_failed = False\<rparr>"

text \<open>The local variables of a tick: the engine, the report and the two lists of updates.\<close>

record 'b TickState =
  tk_engine :: "'b Engine"
  tk_report :: TickReport
  tk_envelopes :: "RateEnvelope list"
  tk_attempts :: "EnforcementAttempt list"

definition tick_count :: "(TickReport \<Rightarrow> TickReport) \<Rightarrow> 'b TickState \<Rightarrow> 'b TickState" where
  "tick_count f s = s\<lparr>tk_report := f (tk_report s)\<rparr>"

definition count_regression :: "RateEnvelopeId \<Rightarrow> Generation \<Rightarrow> 'b TickState \<Rightarrow> 'b TickState" where
  "count_regression i g s =
     tick_count (\<lambda>r. r\<lparr>tr_clock_regressions := tr_clock_regressions r + 1\<rparr>)
       (s\<lparr>tk_engine := push_event_locked R_ClockRegressionDetected i g (StrongId 0)
            (count (\<lambda>c. c\<lparr>ct_clock_regressions := ct_clock_regressions c + 1\<rparr>) (tk_engine s))\<rparr>)"

definition tick_refill ::
  "TimestampNs \<Rightarrow> RateEnvelope \<Rightarrow> 'b TickState \<Rightarrow> RateEnvelope \<times> bool \<times> 'b TickState" where
  "tick_refill now env s =
     (if \<not> bk_initialized (env_bucket env) then (env, False, s)
      else (case refill_bucket (env_bucket env) now of (refill, b) \<Rightarrow>
        let s1 = (if ro_clock_regressed refill
                  then count_regression (env_id env) (env_generation env) s else s);
            s2 = (if ro_saturated refill
                  then tick_count (\<lambda>r. r\<lparr>tr_token_buckets_saturated :=
                         tr_token_buckets_saturated r + 1\<rparr>) s1 else s1);
            s3 = (if ro_tokens_granted refill \<noteq> 0
                  then tick_count (\<lambda>r. r\<lparr>tr_envelopes_refilled := tr_envelopes_refilled r + 1\<rparr>) s2
                  else s2)
        in (env\<lparr>env_bucket := b\<rparr>, ro_tokens_granted refill \<noteq> 0 \<or> ro_elapsed_ns refill \<noteq> 0, s3)))"

definition tick_cooldown ::
  "TimestampNs \<Rightarrow> RateEnvelope \<Rightarrow> 'b TickState \<Rightarrow> RateEnvelope \<times> bool \<times> 'b TickState" where
  "tick_cooldown now env s =
     (if env_cooldown_until_ns env \<noteq> 0 \<and> env_cooldown_until_ns env \<le> now then
        let u = env\<lparr>env_cooldown_until_ns := 0\<rparr>
        in (if env_state u = EnvelopeState_Degraded \<and> \<not> env_requires_revalidation u
            then u\<lparr>env_state := EnvelopeState_Authorized, env_reason := R_EnvelopeAuthorized\<rparr> else u,
            True, tick_count (\<lambda>r. r\<lparr>tr_cooldowns_expired := tr_cooldowns_expired r + 1\<rparr>) s)
      else (env, False, s))"

definition holds_effect :: "RateEnvelope \<Rightarrow> bool" where
  "holds_effect env \<longleftrightarrow>
     env_state env = EnvelopeState_Applied \<or> env_state env = EnvelopeState_Degraded
     \<or> env_state env = EnvelopeState_Dispatching \<or> env_state env = EnvelopeState_RevokePending
     \<or> env_effect_verified env \<or> env_applied_rate_ups env \<noteq> 0"

definition stale_envelope :: "ReasonCode \<Rightarrow> RateEnvelope \<Rightarrow> RateEnvelope" where
  "stale_envelope stale env =
     env\<lparr>env_requires_revalidation := (holds_effect env \<or> env_requires_revalidation env),
         env_effect_verified := False,
         env_state := (if holds_effect env then EnvelopeState_RevokePending else EnvelopeState_Stale),
         env_reason := stale\<rparr>"

definition tick_authority ::
  "TimestampNs \<Rightarrow> RateEnvelope \<Rightarrow> 'b TickState \<Rightarrow> RateEnvelope \<times> bool \<times> 'b TickState" where
  "tick_authority now env s =
     (let stale = authority_status_locked env now (tk_engine s)
      in if stale \<noteq> R_None \<and> env_reason env \<noteq> stale \<and> env_state env \<noteq> EnvelopeState_Revoked
            \<and> env_state env \<noteq> EnvelopeState_Stale then
           (stale_envelope stale env, True,
            tick_count (\<lambda>r. r\<lparr>tr_envelopes_stale := tr_envelopes_stale r + 1,
                             tr_revokes_pending := (if holds_effect env then tr_revokes_pending r + 1
                                                    else tr_revokes_pending r)\<rparr>)
              (s\<lparr>tk_engine := push_event_locked stale (env_id env) (env_generation env) (StrongId 0)
                   (count (\<lambda>c. c\<lparr>ct_stale_transitions := ct_stale_transitions c + 1\<rparr>) (tk_engine s))\<rparr>))
         else (env, False, s))"

definition tick_envelope :: "TimestampNs \<Rightarrow> u64 \<times> RateEnvelope \<Rightarrow> 'b TickState \<Rightarrow> 'b TickState" where
  "tick_envelope now entry s =
     (case tick_refill now (snd entry) s of (u1, c1, s1) \<Rightarrow>
        case tick_cooldown now u1 s1 of (u2, c2, s2) \<Rightarrow>
        case tick_authority now u2 s2 of (u3, c3, s3) \<Rightarrow>
          if \<not> (c1 \<or> c2 \<or> c3) then s3
          else if kMaxTickEnvelopeTransitions \<le> length (tk_envelopes s3)
          then tick_count (\<lambda>r. r\<lparr>tr_deferred := tr_deferred r + 1\<rparr>) s3
          else s3\<lparr>tk_envelopes := merge_envelope (tk_envelopes s3) (u3\<lparr>env_updated_ns := now\<rparr>)\<rparr>)"

definition expired_attempt :: "TimestampNs \<Rightarrow> EnforcementAttempt \<Rightarrow> EnforcementAttempt" where
  "expired_attempt now a =
     a\<lparr>att_state := AttemptState_Ambiguous, att_reason := R_AttemptDeadlineExceeded,
       att_completed_ns := now,
       att_detail := ''attempt deadline passed without a completion; the outcome is UNKNOWN''\<rparr>"

definition questioned_envelope :: "TimestampNs \<Rightarrow> ReasonCode \<Rightarrow> RateEnvelope \<Rightarrow> RateEnvelope" where
  "questioned_envelope now reason env =
     env\<lparr>env_state := EnvelopeState_Degraded, env_reason := reason, env_requires_revalidation := True,
         env_effect_verified := False, env_updated_ns := now\<rparr>"

definition tick_attempt :: "TimestampNs \<Rightarrow> u64 \<times> EnforcementAttempt \<Rightarrow> 'b TickState \<Rightarrow> 'b TickState" where
  "tick_attempt now entry s =
     (let a = snd entry
      in if \<not> attempt_inflight (att_state a) then s
         else if att_deadline_ns a = 0 \<or> now \<le> att_deadline_ns a then s
         else if kMaxTickAttemptTransitions \<le> length (tk_attempts s)
         then tick_count (\<lambda>r. r\<lparr>tr_deferred := tr_deferred r + 1\<rparr>) s
         else
           let u = expired_attempt now a;
               s1 = tick_count (\<lambda>r. r\<lparr>tr_attempts_expired := tr_attempts_expired r + 1\<rparr>)
                      (s\<lparr>tk_attempts := merge_attempt (tk_attempts s) u\<rparr>);
               s2 = (case table_find (eng_envelopes (tk_engine s1)) (id_value (att_envelope u)) of
                       None \<Rightarrow> s1
                     | Some env \<Rightarrow>
                         tick_count (\<lambda>r. r\<lparr>tr_revalidations_required := tr_revalidations_required r + 1\<rparr>)
                           (s1\<lparr>tk_envelopes := merge_envelope (tk_envelopes s1)
                                 (questioned_envelope now R_AttemptDeadlineExceeded env)\<rparr>))
           in s2\<lparr>tk_engine := push_event_locked R_AttemptDeadlineExceeded (att_envelope u)
                   (att_envelope_generation u) (att_id u) (tk_engine s2)\<rparr>)"

text \<open>Writing the updates back once they are durable.\<close>

definition publish_updates ::
  "RateEnvelope list \<Rightarrow> EnforcementAttempt list \<Rightarrow> 'b Engine \<Rightarrow> 'b Engine" where
  "publish_updates envs atts e = fold put_attempt atts (fold put_envelope envs e)"

definition tick_commit :: "'b TickState \<Rightarrow> TickReport \<times> 'b Engine" where
  "tick_commit s =
     (let envs = tk_envelopes s; atts = tk_attempts s; r = tk_report s
      in if envs = [] \<and> atts = [] then (r, tk_engine s)
         else (case commit_many_locked
                  (map (\<lambda>u. stage_envelope u JT_EnvelopeStateChange) envs
                   @ map (\<lambda>a. stage_attempt a JT_AttemptTerminated) atts) (tk_engine s) of
             (Inl _, e1) \<Rightarrow>
               (r\<lparr>tr_journal_failed := True,
                  tr_deferred := tr_deferred r + of_nat (length envs + length atts)\<rparr>, e1)
           | (Inr _, e1) \<Rightarrow> (r, publish_updates envs atts e1)))"

definition questioned :: "RateEnvelope \<Rightarrow> bool" where
  "questioned env \<longleftrightarrow> env_requires_revalidation env \<and> env_state env \<noteq> EnvelopeState_Revoked"

definition tick_start :: "TimestampNs \<Rightarrow> 'b Engine \<Rightarrow> 'b TickState" where
  "tick_start now e =
     (let s0 = \<lparr>tk_engine = e, tk_report = empty_tick_report now, tk_envelopes = [], tk_attempts = []\<rparr>;
          s1 = (if eng_tick_seen e \<and> now < eng_last_tick_ns e
                then count_regression (StrongId 0) (StrongId 0) s0 else s0);
          s2 = s1\<lparr>tk_engine := (tk_engine s1)\<lparr>eng_last_tick_ns := now, eng_tick_seen := True\<rparr>\<rparr>
      in if (case eng_backend e of None \<Rightarrow> False
             | Some (ops, b) \<Rightarrow> eng_backend_bound e \<and> \<not> ops_session_live ops b)
         then s2\<lparr>tk_envelopes := fold (\<lambda>u acc. merge_envelope acc u)
                     (collect_session_lost_updates_locked (tk_engine s2) []) (tk_envelopes s2),
                 tk_engine := push_event_locked R_BackendSessionLost (StrongId 0) (StrongId 0) (StrongId 0)
                     ((tk_engine s2)\<lparr>eng_backend_bound := False\<rparr>)\<rparr>
         else s2)"

definition tick :: "TimestampNs \<Rightarrow> 'b Engine \<Rightarrow> TickReport \<times> 'b Engine" where
  "tick now e =
     (let s0 = tick_start now e;
          s1 = fold (tick_envelope now) (eng_envelopes e) s0;
          s2 = fold (tick_attempt now) (eng_attempts e) s1
      in (case tick_commit s2 of (r, e1) \<Rightarrow>
            (r\<lparr>tr_revalidations_required := tr_revalidations_required r
                 + of_nat (length (filter (\<lambda>x. questioned (snd x)) (eng_envelopes e1)))\<rparr>, e1)))"

section \<open>Revalidation\<close>

record RevalidationItem =
  ri_envelope :: RateEnvelopeId
  ri_before :: EnvelopeState
  ri_after :: EnvelopeState
  ri_reason :: ReasonCode
  ri_effect_confirmed :: bool
  ri_reapply_required :: bool

record RevalidationReport =
  rv_considered :: u64
  rv_confirmed_applied :: u64
  rv_requeued :: u64
  rv_unknown :: u64
  rv_denied :: u64
  rv_skipped_no_backend :: u64
  rv_items :: "RevalidationItem list"

definition empty_revalidation :: RevalidationReport where
  "empty_revalidation =
     \<lparr>rv_considered = 0, rv_confirmed_applied = 0, rv_requeued = 0, rv_unknown = 0, rv_denied = 0,
      rv_skipped_no_backend = 0, rv_items = []\<rparr>"

definition revalidation_due :: "TimestampNs \<Rightarrow> RateEnvelope \<Rightarrow> bool" where
  "revalidation_due now env \<longleftrightarrow>
     env_requires_revalidation env
     \<or> env_state env = EnvelopeState_Applied \<and> env_revalidate_by_ns env \<noteq> 0
       \<and> env_revalidate_by_ns env \<le> now"

definition revalidation_candidates :: "TimestampNs \<Rightarrow> 'b Engine \<Rightarrow> u64 list" where
  "revalidation_candidates now e =
     map fst (filter (\<lambda>x. env_state (snd x) \<noteq> EnvelopeState_Revoked \<and> revalidation_due now (snd x))
                (eng_envelopes e))"

definition revalidation_probe :: "FabricEpoch \<Rightarrow> WorkerBootId \<Rightarrow> RateEnvelope \<Rightarrow> ApplyRequest" where
  "revalidation_probe epoch boot env =
     \<lparr>ar_attempt = StrongId 0, ar_envelope = env_id env, ar_envelope_generation = env_generation env,
      ar_fingerprint = plan_fingerprint (env_plan env),
      ar_rate_ups = plan_ceiling_ups (env_plan env),
      ar_burst_tokens = plan_burst_tokens (env_plan env), ar_refill = plan_refill (env_plan env),
      ar_epoch = epoch, ar_boot = boot, ar_issued_ns = 0\<rparr>"

text \<open>
  The envelope that a readback leaves, with the change of the report: the expectations
  are those of the probe, and the floor is the plan's when the probe was built.
\<close>

definition judge_revalidation ::
  "TimestampNs \<Rightarrow> FabricEpoch \<Rightarrow> u64 \<Rightarrow> ApplyRequest \<Rightarrow> VerificationOutcome \<Rightarrow> RateEnvelope
   \<Rightarrow> RateEnvelope \<times> (RevalidationReport \<Rightarrow> RevalidationReport) \<times> bool \<times> bool" where
  "judge_revalidation now epoch floor probe v env =
     (let u = env\<lparr>env_updated_ns := now\<rparr>
      in if vo_status v = VerificationStatus_Unsupported \<or> vo_status v = VerificationStatus_Failed then
           (u\<lparr>env_reason := R_EnvelopeRevalidationUnknown, env_requires_revalidation := True,
              env_effect_verified := False\<rparr>,
            \<lambda>r. r\<lparr>rv_unknown := rv_unknown r + 1\<rparr>, False, False)
         else if \<not> vo_observed_present v then
           (u\<lparr>env_state := EnvelopeState_Authorized, env_reason := R_EnvelopeRevalidationDenied,
              env_requires_revalidation := False, env_effect_verified := False,
              env_applied_rate_ups := 0, env_applied_burst_tokens := 0,
              env_applied_epoch := StrongId 0, env_applied_boot := StrongId 0\<rparr>,
            \<lambda>r. r\<lparr>rv_requeued := rv_requeued r + 1\<rparr>, False, True)
         else if vo_observed_rate_ups v = ar_rate_ups probe
                 \<and> vo_observed_burst_tokens v = ar_burst_tokens probe then
           ((with_effect v epoch u)
              \<lparr>env_state := EnvelopeState_Applied, env_reason := R_EnvelopeRevalidatedApplied,
               env_requires_revalidation := False, env_effect_verified := True\<rparr>,
            \<lambda>r. r\<lparr>rv_confirmed_applied := rv_confirmed_applied r + 1\<rparr>, True, False)
         else
           let over = ar_rate_ups probe < vo_observed_rate_ups v
           in ((with_effect v epoch u)
                 \<lparr>env_state := (if over then EnvelopeState_RevokePending else EnvelopeState_Degraded),
                  env_reason := (if over then R_ApplyOverDeliveredRevoking
                                 else if floor \<le> vo_observed_rate_ups v then R_ApplyUnderDelivered
                                 else R_EnvelopeRevalidationDenied),
                  env_requires_revalidation := True, env_effect_verified := False\<rparr>,
               \<lambda>r. r\<lparr>rv_denied := rv_denied r + 1\<rparr>, False, False))"

definition push_item :: "RevalidationItem \<Rightarrow> RevalidationReport \<Rightarrow> RevalidationReport" where
  "push_item item r = r\<lparr>rv_items := rv_items r @ [item]\<rparr>"

text \<open>The section after the readback of one candidate.\<close>

definition revalidate_decide ::
  "TimestampNs \<Rightarrow> TimestampNs \<Rightarrow> FabricEpoch \<Rightarrow> RateEnvelopeId \<Rightarrow> EnvelopeState \<Rightarrow> u64 \<Rightarrow> ApplyRequest
   \<Rightarrow> VerificationOutcome \<Rightarrow> RevalidationReport \<times> 'b Engine \<Rightarrow> RevalidationReport \<times> 'b Engine" where
  "revalidate_decide now decided epoch i before floor probe v s =
     (case s of (report, e) \<Rightarrow>
        case find_envelope_locked i e of
          None \<Rightarrow> (report, e)
        | Some env \<Rightarrow>
            if \<not> revalidation_due decided env then (report, e)
            else (case judge_revalidation now epoch floor probe v env of (u, f, confirmed, reapply) \<Rightarrow>
              let item = \<lparr>ri_envelope = i, ri_before = before, ri_after = EnvelopeState_Unknown,
                          ri_reason = env_reason u, ri_effect_confirmed = confirmed,
                          ri_reapply_required = reapply\<rparr>
              in (case commit_records_locked [stage_envelope u JT_EnvelopeStateChange] e of
                  (Inl _, e1) \<Rightarrow>
                    (push_item (item\<lparr>ri_reason := R_JournalAppendFailed, ri_after := env_state env\<rparr>)
                       (f report), e1)
                | (Inr _, e1) \<Rightarrow>
                    (push_item (item\<lparr>ri_after := env_state u\<rparr>) (f report),
                     push_event_locked (ri_reason item) i (env_generation u) (StrongId 0)
                       (assign_envelope i u e1)))))"

text \<open>
  The clock is read three times for a candidate: when the probe is built, after the
  readback and when the decision is taken; the readings are functions of its key.
\<close>

definition revalidate_one ::
  "(u64 \<Rightarrow> TimestampNs \<times> TimestampNs \<times> TimestampNs) \<Rightarrow> FabricEpoch \<Rightarrow> u64
   \<Rightarrow> RevalidationReport \<times> 'b Engine \<Rightarrow> RevalidationReport \<times> 'b Engine" where
  "revalidate_one clock epoch raw_id s =
     (case (s, clock raw_id) of ((report, e), (probed, now, decided)) \<Rightarrow>
        case find_envelope_locked (StrongId raw_id) e of
          None \<Rightarrow> (report, e)
        | Some env \<Rightarrow>
            if \<not> revalidation_due probed env then (report, e)
            else
              let boot = (case eng_backend e of None \<Rightarrow> StrongId 0
                          | Some (ops, b) \<Rightarrow> ops_session_boot ops b);
                  probe = revalidation_probe epoch boot env
              in (case call_verify probe e of (v, e1) \<Rightarrow>
                    revalidate_decide now decided epoch (StrongId raw_id) (env_state env)
                      (plan_floor_ups (env_plan env)) probe v (report, e1)))"

definition revalidate_all ::
  "TimestampNs \<Rightarrow> (u64 \<Rightarrow> TimestampNs \<times> TimestampNs \<times> TimestampNs) \<Rightarrow> ActorContext \<Rightarrow> 'b Engine
   \<Rightarrow> RevalidationReport \<times> 'b Engine" where
  "revalidate_all selection clock actor e =
     (case check_actor_locked actor e of
        Some _ \<Rightarrow>
          (empty_revalidation,
           count (\<lambda>c. c\<lparr>ct_fencing_rejections := ct_fencing_rejections c + 1\<rparr>) e)
      | None \<Rightarrow>
          let due = revalidation_candidates selection e;
              candidates = take kMaxRevalidationsPerCall due;
              report = empty_revalidation\<lparr>rv_considered := of_nat (length candidates),
                         rv_skipped_no_backend := of_nat (length due - kMaxRevalidationsPerCall)\<rparr>
          in if eng_backend e = None \<or> \<not> eng_backend_bound e
             then (report\<lparr>rv_skipped_no_backend := rv_skipped_no_backend report + rv_considered report\<rparr>, e)
             else fold (revalidate_one clock (eng_epoch e)) candidates (report, e))"

section \<open>Shutdown\<close>

record ShutdownReport =
  sr_work_stopped :: bool
  sr_attempts_abandoned :: u64
  sr_envelopes_requiring_revalidation :: u64
  sr_events_dropped :: u64
  sr_backend_shutdown :: bool

definition shutdown_attempt :: "TimestampNs \<Rightarrow> EnforcementAttempt \<Rightarrow> EnforcementAttempt" where
  "shutdown_attempt now a =
     a\<lparr>att_state := AttemptState_Abandoned, att_reason := R_EngineShutdown, att_completed_ns := now,
       att_detail := ''engine shutdown while the attempt was in flight; the effect is UNKNOWN''\<rparr>"

definition abandon_one ::
  "TimestampNs \<Rightarrow> u64 \<times> EnforcementAttempt \<Rightarrow> 'b TickState \<Rightarrow> 'b TickState" where
  "abandon_one now entry s =
     (let a = snd entry
      in if \<not> attempt_inflight (att_state a) then s
         else
           let u = shutdown_attempt now a;
               s1 = s\<lparr>tk_attempts := merge_attempt (tk_attempts s) u\<rparr>;
               s2 = (case table_find (eng_envelopes (tk_engine s1)) (id_value (att_envelope u)) of
                       None \<Rightarrow> s1
                     | Some env \<Rightarrow> s1\<lparr>tk_envelopes := merge_envelope (tk_envelopes s1)
                                       (questioned_envelope now R_EngineShutdown env)\<rparr>)
           in s2\<lparr>tk_engine := push_event_locked R_EngineShutdown (att_envelope u)
                   (att_envelope_generation u) (att_id u) (tk_engine s2)\<rparr>)"

definition shutdown :: "TimestampNs \<Rightarrow> 'b Engine \<Rightarrow> ShutdownReport \<times> 'b Engine" where
  "shutdown now e =
     (let e0 = e\<lparr>eng_shutting_down := True\<rparr>;
          s = fold (abandon_one now) (eng_attempts e0)
                \<lparr>tk_engine = e0, tk_report = empty_tick_report now, tk_envelopes = [], tk_attempts = []\<rparr>;
          envs = tk_envelopes s; atts = tk_attempts s;
          e1 = (if atts = [] \<and> envs = [] then tk_engine s
                else (case commit_many_locked
                         (map (\<lambda>a. stage_attempt a JT_AttemptTerminated) atts
                          @ map (\<lambda>u. stage_envelope u JT_EnvelopeStateChange) envs) (tk_engine s) of
                    (Inl _, e1) \<Rightarrow> e1
                  | (Inr _, e1) \<Rightarrow> publish_updates envs atts e1));
          e2 = (case eng_backend e1 of None \<Rightarrow> e1
                | Some (ops, b) \<Rightarrow> e1\<lparr>eng_backend := Some (ops, ops_shutdown ops b)\<rparr>)
      in (\<lparr>sr_work_stopped = True,
           sr_attempts_abandoned =
             of_nat (length (filter (\<lambda>x. attempt_inflight (att_state (snd x))) (eng_attempts e))),
           sr_envelopes_requiring_revalidation =
             of_nat (length (filter (\<lambda>x. questioned (snd x)) (eng_envelopes e1))),
           sr_events_dropped = eng_events_dropped e1,
           sr_backend_shutdown = (eng_backend e1 \<noteq> None)\<rparr>, e2))"

section \<open>Demotion for recovery\<close>

definition ambiguous_attempt :: "TimestampNs \<Rightarrow> EnforcementAttempt \<Rightarrow> EnforcementAttempt" where
  "ambiguous_attempt now a =
     a\<lparr>att_state := AttemptState_Ambiguous, att_reason := R_EnvelopeRecoveredRequiresRevalidation,
       att_completed_ns := now, att_effect_confirmed := False, att_verified := False,
       att_detail := ''unfinished at the previous incarnation; the outcome is UNKNOWN and can never publish success''\<rparr>"

definition claims_effect :: "RateEnvelope \<Rightarrow> bool" where
  "claims_effect env \<longleftrightarrow>
     env_effect_verified env \<or> env_applied_rate_ups env \<noteq> 0 \<or> env_applied_burst_tokens env \<noteq> 0"

definition holds_state :: "RateEnvelope \<Rightarrow> bool" where
  "holds_state env \<longleftrightarrow>
     env_state env = EnvelopeState_Applied \<or> env_state env = EnvelopeState_Dispatching
     \<or> env_state env = EnvelopeState_Degraded \<or> env_requires_revalidation env"

definition recovered_envelope :: "TimestampNs \<Rightarrow> RateEnvelope \<Rightarrow> RateEnvelope" where
  "recovered_envelope now env =
     (let u = env\<lparr>env_effect_verified := False, env_requires_revalidation := True\<rparr>;
          u1 = (if env_state u = EnvelopeState_Applied \<or> env_state u = EnvelopeState_Dispatching
                then u\<lparr>env_state := EnvelopeState_Degraded,
                       env_reason := R_EnvelopeRecoveredRequiresRevalidation\<rparr>
                else if env_reason u = R_None
                then u\<lparr>env_reason := R_EnvelopeRecoveredRequiresRevalidation\<rparr> else u)
      in u1\<lparr>env_updated_ns := now\<rparr>)"

definition demotion_attempts :: "TimestampNs \<Rightarrow> 'b Engine \<Rightarrow> EnforcementAttempt list" where
  "demotion_attempts now e =
     fold (\<lambda>x acc. if attempt_inflight (att_state (snd x))
                   then merge_attempt acc (ambiguous_attempt now (snd x)) else acc) (eng_attempts e) []"

definition demotion_envelopes :: "TimestampNs \<Rightarrow> 'b Engine \<Rightarrow> RateEnvelope list" where
  "demotion_envelopes now e =
     fold (\<lambda>x acc. if claims_effect (snd x) \<or> holds_state (snd x)
                   then merge_envelope acc (recovered_envelope now (snd x)) else acc) (eng_envelopes e) []"

text \<open>The three counts of the code are the result beside the status.\<close>

definition demote_for_recovery ::
  "TimestampNs \<Rightarrow> ActorContext \<Rightarrow> 'b Engine \<Rightarrow> Status \<times> (u64 \<times> u64 \<times> u64) \<times> 'b Engine" where
  "demote_for_recovery now actor e =
     (case refuse_actor actor e of
        Some (r, e1) \<Rightarrow> (r, (0, 0, 0), e1)
      | None \<Rightarrow>
          let atts = demotion_attempts now e; envs = demotion_envelopes now e;
              counts =
                (of_nat (length (filter (\<lambda>x. attempt_inflight (att_state (snd x))) (eng_attempts e))),
                 of_nat (length (filter (\<lambda>x. claims_effect (snd x) \<or> holds_state (snd x)) (eng_envelopes e))),
                 of_nat (length (filter (\<lambda>x. claims_effect (snd x)) (eng_envelopes e))))
          in if atts = [] \<and> envs = [] then (Inr (), counts, e)
             else (case commit_many_locked
                      (map (\<lambda>a. stage_attempt a JT_AttemptTerminated) atts
                       @ map (\<lambda>u. stage_envelope u JT_EnvelopeStateChange) envs) e of
                 (Inl err, e1) \<Rightarrow> (Inl err, counts, e1)
               | (Inr _, e1) \<Rightarrow>
                   (Inr (), counts,
                    push_event_locked R_EnvelopeRecoveredRequiresRevalidation (StrongId 0) (StrongId 0)
                      (StrongId 0) (publish_updates envs atts e1))))"

end
