(* ===== verification/Engine_View.thy ===== *)
theory Engine_View
  imports Engine_Maintenance
begin

text \<open>
  Observation (\<^verbatim>\<open>src/engine_runtime.cpp\<close>, last part): the next action for an envelope,
  the view of it that answers whether its rate is enforceable now, and the read-only
  queries of the engine.  The explanation texts are not modelled.
\<close>

section \<open>The next action\<close>

definition derive_action_locked ::
  "RateEnvelope \<Rightarrow> TimestampNs \<Rightarrow> 'b Engine \<Rightarrow> EnvelopeAction \<times> ReasonCode" where
  "derive_action_locked env now e =
     (let authority = authority_status_locked env now e
      in case env_state env of
        EnvelopeState_Unknown \<Rightarrow> (EnvelopeAction_Halt, R_None)
      | EnvelopeState_Desired \<Rightarrow> (EnvelopeAction_AwaitAuthorization, R_None)
      | EnvelopeState_Authorized \<Rightarrow>
          if authority \<noteq> R_None then (EnvelopeAction_RejectStale, authority)
          else (EnvelopeAction_RetryApply, R_None)
      | EnvelopeState_Dispatching \<Rightarrow> (EnvelopeAction_AwaitVerification, R_None)
      | EnvelopeState_Applied \<Rightarrow>
          if authority \<noteq> R_None then (EnvelopeAction_RejectStale, authority)
          else if env_requires_revalidation env then (EnvelopeAction_Revalidate, R_None)
          else if env_revalidate_by_ns env \<noteq> 0 \<and> env_revalidate_by_ns env \<le> now
          then (EnvelopeAction_Revalidate, R_EnvelopeRevalidationUnknown)
          else (EnvelopeAction_None, R_None)
      | EnvelopeState_Degraded \<Rightarrow>
          if authority \<noteq> R_None then (EnvelopeAction_Revoke, authority)
          else if env_requires_revalidation env then (EnvelopeAction_Revalidate, R_None)
          else if env_cooldown_until_ns env \<noteq> 0 \<and> now < env_cooldown_until_ns env
          then (EnvelopeAction_None, R_EnvelopeCooldownActive)
          else if env_has_plan env \<and> plan_ceiling_ups (env_plan env) < env_applied_rate_ups env
          then (EnvelopeAction_Reduce, R_ApplyOverDeliveredRevoking)
          else (EnvelopeAction_RetryApply, R_None)
      | EnvelopeState_RevokePending \<Rightarrow> (EnvelopeAction_Revoke, R_None)
      | EnvelopeState_Revoked \<Rightarrow> (EnvelopeAction_None, R_None)
      | EnvelopeState_Stale \<Rightarrow>
          if env_effect_verified env \<or> env_applied_rate_ups env \<noteq> 0 then (EnvelopeAction_Revoke, R_None)
          else (EnvelopeAction_RejectStale, R_None)
      | EnvelopeState_Failed \<Rightarrow> (EnvelopeAction_Halt, R_None)
      | _ \<Rightarrow> (EnvelopeAction_None, R_None))"

section \<open>The view\<close>

record EnvelopeView =
  view_id :: RateEnvelopeId
  view_generation :: Generation
  view_state :: EnvelopeState
  view_reason :: ReasonCode
  view_action :: EnvelopeAction
  view_action_reason :: ReasonCode
  view_legally_enforceable_now :: bool
  view_has_plan :: bool
  view_effective_ceiling_ups :: u64
  view_effective_floor_ups :: u64
  view_effective_target_ups :: u64
  view_effective_burst_tokens :: u64
  view_burst_tokens_available :: u64
  view_burst_capacity :: u64
  view_limiting_authority :: LimitingAuthority
  view_applied_rate_ups :: u64
  view_applied_burst_tokens :: u64
  view_effect_verified :: bool
  view_applied_epoch :: FabricEpoch
  view_applied_boot :: WorkerBootId
  view_plan_valid_from_ns :: TimestampNs
  view_plan_valid_until_ns :: TimestampNs
  view_cooldown_until_ns :: TimestampNs
  view_revalidate_by_ns :: TimestampNs
  view_requires_revalidation :: bool
  view_attempts_issued :: u64
  view_completions_applied :: u64
  view_completions_rejected :: u64
  view_annotation :: string

definition make_view_locked :: "RateEnvelope \<Rightarrow> TimestampNs \<Rightarrow> 'b Engine \<Rightarrow> EnvelopeView" where
  "make_view_locked env now e =
     (let p = env_plan env; planned = env_has_plan env;
          authority = authority_status_locked env now e;
          epoch_current = (\<not> id_valid (env_applied_epoch env) \<or> env_applied_epoch env = eng_epoch e);
          effect_current = (env_effect_verified env \<and> epoch_current \<and> \<not> env_requires_revalidation env)
      in \<lparr>view_id = env_id env, view_generation = env_generation env, view_state = env_state env,
          view_reason = env_reason env, view_action = fst (derive_action_locked env now e),
          view_action_reason = snd (derive_action_locked env now e),
          view_legally_enforceable_now =
            (env_state env = EnvelopeState_Applied \<and> authority = R_None \<and> effect_current),
          view_has_plan = planned,
          view_effective_ceiling_ups = (if planned then plan_ceiling_ups p else 0),
          view_effective_floor_ups = (if planned then plan_floor_ups p else 0),
          view_effective_target_ups = (if planned then plan_target_ups p else 0),
          view_effective_burst_tokens = (if planned then plan_burst_tokens p else 0),
          view_burst_tokens_available = bk_tokens (env_bucket env),
          view_burst_capacity = bk_capacity (env_bucket env),
          view_limiting_authority = (if planned then plan_limiting_authority p else LimitingAuthority_None),
          view_applied_rate_ups = env_applied_rate_ups env,
          view_applied_burst_tokens = env_applied_burst_tokens env,
          view_effect_verified = env_effect_verified env,
          view_applied_epoch = env_applied_epoch env, view_applied_boot = env_applied_boot env,
          view_plan_valid_from_ns = (if planned then fp_valid_from_ns (plan_fingerprint p) else 0),
          view_plan_valid_until_ns = (if planned then fp_valid_until_ns (plan_fingerprint p) else 0),
          view_cooldown_until_ns = env_cooldown_until_ns env,
          view_revalidate_by_ns = env_revalidate_by_ns env,
          view_requires_revalidation = env_requires_revalidation env,
          view_attempts_issued = env_attempts_issued env,
          view_completions_applied = env_completions_applied env,
          view_completions_rejected = env_completions_rejected env,
          view_annotation = env_annotation env\<rparr>)"

section \<open>Queries\<close>

definition inspect :: "TimestampNs \<Rightarrow> RateEnvelopeId \<Rightarrow> 'b Engine \<Rightarrow> EnvelopeView Result" where
  "inspect now i e =
     (case find_envelope_locked i e of
        None \<Rightarrow> fail ErrorCode_NotFound R_MalformedInput
      | Some env \<Rightarrow> Inr (make_view_locked env now e))"

definition list_envelopes :: "TimestampNs \<Rightarrow> nat \<Rightarrow> 'b Engine \<Rightarrow> EnvelopeView list" where
  "list_envelopes now limit e =
     map (\<lambda>x. make_view_locked (snd x) now e)
       (take (min limit (unat (ec_max_envelopes (eng_config e)))) (eng_envelopes e))"

definition inspect_attempt :: "EnforcementAttemptId \<Rightarrow> 'b Engine \<Rightarrow> EnforcementAttempt Result" where
  "inspect_attempt i e =
     (case table_find (eng_attempts e) (id_value i) of
        None \<Rightarrow> fail ErrorCode_NotFound R_MalformedInput | Some a \<Rightarrow> Inr a)"

definition list_attempts :: "RateEnvelopeId \<Rightarrow> nat \<Rightarrow> 'b Engine \<Rightarrow> EnforcementAttempt list" where
  "list_attempts i limit e =
     (case table_find (eng_attempts_by_envelope e) (id_value i) of
        None \<Rightarrow> []
      | Some ids \<Rightarrow> List.map_filter (table_find (eng_attempts e)) (take (min limit (length ids)) ids))"

definition drain_events :: "nat \<Rightarrow> 'b Engine \<Rightarrow> AuditEvent list \<times> 'b Engine" where
  "drain_events limit e =
     (take limit (eng_events e), e\<lparr>eng_events := drop limit (eng_events e)\<rparr>)"

record EngineStorageStats =
  st_grants :: u64
  st_reservations :: u64
  st_policies :: u64
  st_resources :: u64
  st_backends :: u64
  st_envelopes :: u64
  st_attempts :: u64
  st_audit_events :: u64
  st_audit_events_dropped :: u64
  st_journal_bytes :: u64
  st_recovery_orphan_records :: u64

definition storage_stats :: "'b Engine \<Rightarrow> EngineStorageStats" where
  "storage_stats e =
     \<lparr>st_grants = of_nat (length (eng_grants e)), st_reservations = of_nat (length (eng_reservations e)),
      st_policies = of_nat (length (eng_policies e)), st_resources = of_nat (length (eng_resources e)),
      st_backends = of_nat (length (eng_backends e)), st_envelopes = of_nat (length (eng_envelopes e)),
      st_attempts = of_nat (length (eng_attempts e)), st_audit_events = of_nat (length (eng_events e)),
      st_audit_events_dropped = eng_events_dropped e,
      st_journal_bytes = (case eng_journal e of None \<Rightarrow> 0 | Some j \<Rightarrow> jn_size_bytes j),
      st_recovery_orphan_records = eng_recovery_orphan_records e\<rparr>"

end
