(* ===== verification/Recovery.thy ===== *)
theory Recovery
  imports Engine_View
begin

text \<open>
  Recovery (\<^verbatim>\<open>src/recovery.cpp\<close>): scanning the log of a previous incarnation, building
  an engine from its committed records, demoting every claim that engine cannot vouch
  for and, when configured, moving to the next epoch.
\<close>

section \<open>What the log recorded of the incarnations\<close>

definition recorded_epoch :: "JournalRecord \<Rightarrow> FabricEpoch \<Rightarrow> FabricEpoch" where
  "recorded_epoch r highest =
     (let t = jr_type r; payload = jr_payload r
      in if t = JT_EpochAdvance then
           (case decode_epoch_payload payload of
              None \<Rightarrow> highest
            | Some ((epoch, boot, reason), _) \<Rightarrow> if highest < epoch then epoch else highest)
         else if t \<in> {JT_EnvelopeOpened, JT_EnvelopeAuthorized, JT_EnvelopeStateChange,
                      JT_EnvelopeBindingChange, JT_EnvelopeEffectRecorded} then
           (case decode_envelope payload of
              None \<Rightarrow> highest
            | Some (env, _) \<Rightarrow>
                let h = (if highest < env_applied_epoch env then env_applied_epoch env else highest)
                in if env_has_plan env \<and> h < fp_epoch (plan_fingerprint (env_plan env))
                   then fp_epoch (plan_fingerprint (env_plan env)) else h)
         else if t \<in> {JT_AttemptCreated, JT_AttemptDispatched, JT_AttemptAcknowledged,
                      JT_AttemptTerminated, JT_AttemptVerified} then
           (case decode_attempt payload of
              None \<Rightarrow> highest
            | Some (a, _) \<Rightarrow> if highest < att_epoch a then att_epoch a else highest)
         else highest)"

definition highest_recorded_epoch :: "JournalRecord list \<Rightarrow> FabricEpoch" where
  "highest_recorded_epoch records = fold recorded_epoch records (StrongId 0)"

definition recorded_boot :: "JournalRecord \<Rightarrow> WorkerBootId \<Rightarrow> WorkerBootId" where
  "recorded_boot r highest =
     (if jr_type r \<noteq> JT_EpochAdvance then highest
      else (case decode_epoch_payload (jr_payload r) of
          None \<Rightarrow> highest
        | Some ((epoch, boot, reason), _) \<Rightarrow> if highest < boot then boot else highest))"

definition highest_recorded_boot :: "JournalRecord list \<Rightarrow> WorkerBootId" where
  "highest_recorded_boot records = fold recorded_boot records (StrongId 0)"

section \<open>The report\<close>

record RecoveryReport =
  rp_journal_present :: bool
  rp_journal_ok :: bool
  rp_status :: JournalStatus
  rp_committed_records :: u64
  rp_committed_transactions :: u64
  rp_discarded_uncommitted_records :: u64
  rp_discarded_truncated_bytes :: u64
  rp_truncated_tail :: bool
  rp_grants :: u64
  rp_reservations :: u64
  rp_policies :: u64
  rp_resources :: u64
  rp_backends :: u64
  rp_envelopes :: u64
  rp_attempts :: u64
  rp_attempts_marked_ambiguous :: u64
  rp_envelopes_requiring_revalidation :: u64
  rp_effect_claims_demoted :: u64
  rp_envelopes_revoke_pending :: u64
  rp_recovered_epoch :: FabricEpoch
  rp_new_epoch :: FabricEpoch
  rp_previous_boot :: WorkerBootId
  rp_new_boot :: WorkerBootId
  rp_liveness_restored :: bool
  rp_backend_bound :: bool
  rp_notes :: "ReasonCode list"

text \<open>
  The files of the machine are a map from paths to contents; the I/O outcomes of the scan
  and of the reopened log are arguments, as are the readings of the clock.
\<close>

record RecoveryEnv =
  rx_files :: "string \<Rightarrow> bytes option"
  rx_measured :: IoOutcome
  rx_rewound :: IoOutcome
  rx_got :: IoOutcome
  rx_io :: "IoOutcome list"
  rx_demoted_at :: TimestampNs
  rx_clock :: "u64 \<Rightarrow> TimestampNs"
  rx_listed_at :: TimestampNs

definition recovery_config :: "EngineConfig \<Rightarrow> JournalScanResult \<Rightarrow> EngineConfig" where
  "recovery_config config scan =
     (let recorded = highest_recorded_epoch (sc_committed scan)
      in config\<lparr>ec_initial_epoch := (if id_valid recorded then recorded else ec_initial_epoch config)\<rparr>)"

definition recovery_journal :: "RecoveryEnv \<Rightarrow> string \<Rightarrow> EngineConfig \<Rightarrow> JournalResult \<times> Journal option" where
  "recovery_journal x path effective =
     (let jc = (if jc_path (ec_journal effective) = [] then (ec_journal effective)\<lparr>jc_path := path\<rparr>
                else ec_journal effective)
      in journal_open jc False (case rx_files x (jc_path jc) of None \<Rightarrow> [] | Some bs \<Rightarrow> bs) (rx_io x))"

text \<open>Building the engine and replaying the committed records into it.\<close>

definition restored_engine :: "EngineConfig \<Rightarrow> JournalScanResult \<Rightarrow> Journal \<Rightarrow> 'b Engine" where
  "restored_engine effective scan j =
     apply_snapshot_records (sc_committed scan)
       (rate_governor (effective\<lparr>ec_durability := DurabilityMode_Strict\<rparr>) None (Some j))"

definition recovery_actor :: "EngineConfig \<Rightarrow> 'b Engine \<Rightarrow> ActorContext" where
  "recovery_actor effective e =
     operator_context (eng_epoch e) (ec_boot effective) ''recovery of a previous incarnation''"

definition recovery_advance ::
  "(u64 \<Rightarrow> TimestampNs) \<Rightarrow> EngineConfig \<Rightarrow> ActorContext \<Rightarrow> 'b Engine \<Rightarrow> Status \<times> 'b Engine" where
  "recovery_advance clock effective actor e =
     (if ec_advance_epoch_on_recovery effective
      then advance_epoch clock (StrongId (id_value (eng_epoch e) + 1)) actor e
      else (Inr (), e))"

definition recovery_compact :: "bool \<Rightarrow> JournalScanResult \<Rightarrow> 'b Engine \<Rightarrow> ReasonCode list \<times> 'b Engine" where
  "recovery_compact truncate_journal_tail scan e =
     (case eng_journal e of
        Some j \<Rightarrow>
          if truncate_journal_tail \<and> sc_truncated_tail scan
          then ([R_JournalCompacted],
                e\<lparr>eng_journal := Some (snd (compact_with (build_snapshot_records_locked e) j))\<rparr>)
          else ([], e)
      | None \<Rightarrow> ([], e))"

definition recovery_report ::
  "RecoveryEnv \<Rightarrow> EngineConfig \<Rightarrow> JournalScanResult \<Rightarrow> u64 \<times> u64 \<times> u64 \<Rightarrow> ReasonCode list \<Rightarrow> 'b Engine
   \<Rightarrow> RecoveryReport" where
  "recovery_report x effective scan counts notes e =
     (let stats = storage_stats e
      in \<lparr>rp_journal_present = True, rp_journal_ok = True, rp_status = sc_status scan,
          rp_committed_records = of_nat (length (sc_committed scan)),
          rp_committed_transactions = sc_committed_transactions scan,
          rp_discarded_uncommitted_records = sc_discarded_uncommitted_records scan,
          rp_discarded_truncated_bytes = sc_discarded_truncated_bytes scan,
          rp_truncated_tail = sc_truncated_tail scan,
          rp_grants = st_grants stats, rp_reservations = st_reservations stats,
          rp_policies = st_policies stats, rp_resources = st_resources stats,
          rp_backends = st_backends stats, rp_envelopes = st_envelopes stats,
          rp_attempts = st_attempts stats,
          rp_attempts_marked_ambiguous = fst counts,
          rp_envelopes_requiring_revalidation = fst (snd counts),
          rp_effect_claims_demoted = snd (snd counts),
          rp_envelopes_revoke_pending =
            of_nat (length (filter (\<lambda>v. view_state v = EnvelopeState_RevokePending)
              (list_envelopes (rx_listed_at x) (unat (st_envelopes stats)) e))),
          rp_recovered_epoch = ec_initial_epoch effective, rp_new_epoch = eng_epoch e,
          rp_previous_boot = highest_recorded_boot (sc_committed scan),
          rp_new_boot = ec_boot effective, rp_liveness_restored = False, rp_backend_bound = False,
          rp_notes = notes\<rparr>)"

definition recover_engine ::
  "RecoveryEnv \<Rightarrow> string \<Rightarrow> EngineConfig \<Rightarrow> bool \<Rightarrow> ('b Engine \<times> RecoveryReport) Result" where
  "recover_engine x path config truncate_journal_tail =
     (let scan = scan_journal_file (rx_files x path) (rx_measured x) (rx_rewound x) (rx_got x)
      in if \<not> sc_ok scan
         then fail ErrorCode_JournalFailure
                (if sc_status scan = JournalStatus_VersionUnsupported then R_JournalVersionUnsupported
                 else R_JournalCorruptRecord)
         else
           let effective = recovery_config config scan
           in (case snd (recovery_journal x path effective) of
               None \<Rightarrow> fail ErrorCode_JournalFailure R_JournalAppendFailed
             | Some j \<Rightarrow>
                 let e = restored_engine effective scan j; actor = recovery_actor effective e
                 in (case demote_for_recovery (rx_demoted_at x) actor e of
                     (Inl err, _, _) \<Rightarrow> Inl err
                   | (Inr _, counts, e1) \<Rightarrow>
                       (case recovery_advance (rx_clock x) effective actor e1 of
                          (Inl err, _) \<Rightarrow> Inl err
                        | (Inr _, e2) \<Rightarrow>
                            (case recovery_compact truncate_journal_tail scan e2 of (notes, e3) \<Rightarrow>
                               Inr (e3, recovery_report x effective scan counts notes e2))))))"

end
