(* ===== verification/Engine_Frames.thy ===== *)
theory Engine_Frames
  imports Recovery
begin

text \<open>
  What one section under the engine's lock can do to the envelopes and the attempts.  The
  relation \<open>evolves\<close> says that the authorities are untouched, that every envelope is kept
  or rewritten in a permitted way, and that every attempt was there, was rewritten in a
  permitted way, or is new; its rules follow the shape of the code (commit, then assign),
  so that an operation's lemma is its definition, a case split and the rules.
\<close>

named_theorems evolves_rules \<open>introduction rules for the effect of a section\<close>
named_theorems evolves_elims \<open>the same for results known by an equation\<close>

section \<open>Rewriting a table\<close>

definition reworks :: "('v \<Rightarrow> 'v \<Rightarrow> bool) \<Rightarrow> 'v table \<Rightarrow> 'v table \<Rightarrow> bool" where
  "reworks P m m1 \<longleftrightarrow>
     (table_ok m \<longrightarrow> table_ok m1)
     \<and> (\<forall>k. rel_option (\<lambda>v w. w = v \<or> P v w) (table_find m k) (table_find m1 k))"

lemma reworks_refl [simp, intro]: "reworks P m m"
  by (simp add: reworks_def option.rel_refl)

lemma reworks_put:
  assumes "reworks P m m1" "table_find m k = Some v" "P v w"
  shows "reworks P m (table_put k w m1)"
  using assms by (auto simp: reworks_def table_ok_put)

lemma reworks_put_all:
  assumes "reworks P m m1" "\<And>u. u \<in> set us \<Longrightarrow> \<exists>v. table_find m (key u) = Some v \<and> P v u"
  shows "reworks P m (table_put_all key us m1)"
  using assms
proof (induction us arbitrary: m1)
  case (Cons u us)
  obtain v where "table_find m (key u) = Some v" "P v u" using Cons.prems(2) by auto
  then have "reworks P m (table_put (key u) u m1)" by (rule reworks_put [OF Cons.prems(1)])
  with Cons show ?case by simp
qed simp

lemma reworks_find:
  assumes "reworks P m m1" "table_find m1 k = Some w"
  obtains v where "table_find m k = Some v" "w = v \<or> P v w"
proof -
  have "rel_option (\<lambda>v w. w = v \<or> P v w) (table_find m k) (Some w)"
    using assms unfolding reworks_def by metis
  then show thesis by (auto simp: option_rel_Some2 intro: that)
qed

lemma reworks_find_old:
  assumes "reworks P m m1" "table_find m k = Some v"
  obtains w where "table_find m1 k = Some w" "w = v \<or> P v w"
proof -
  have "rel_option (\<lambda>v w. w = v \<or> P v w) (Some v) (table_find m1 k)"
    using assms unfolding reworks_def by metis
  then show thesis by (auto simp: option_rel_Some1 intro: that)
qed

definition arises ::
  "('v \<Rightarrow> 'v \<Rightarrow> bool) \<Rightarrow> (u64 \<Rightarrow> 'v \<Rightarrow> bool) \<Rightarrow> 'v table \<Rightarrow> 'v table \<Rightarrow> bool" where
  "arises Q N m m1 \<longleftrightarrow>
     (table_ok m \<longrightarrow> table_ok m1)
     \<and> (\<forall>k w. table_find m1 k = Some w \<longrightarrow>
          N k w \<or> (\<exists>v. table_find m k = Some v \<and> (w = v \<or> Q v w)))"

lemma arises_refl [simp, intro]: "arises Q N m m"
  by (simp add: arises_def)

lemma arises_put:
  assumes "arises Q N m m1" "table_find m k = Some v" "Q v w"
  shows "arises Q N m (table_put k w m1)"
  using assms by (auto simp: arises_def table_ok_put)

lemma arises_put_all:
  assumes "arises Q N m m1" "\<And>u. u \<in> set us \<Longrightarrow> \<exists>v. table_find m (key u) = Some v \<and> Q v u"
  shows "arises Q N m (table_put_all key us m1)"
  using assms
proof (induction us arbitrary: m1)
  case (Cons u us)
  obtain v where "table_find m (key u) = Some v" "Q v u" using Cons.prems(2) by auto
  then have "arises Q N m (table_put (key u) u m1)" by (rule arises_put [OF Cons.prems(1)])
  with Cons show ?case by simp
qed simp

section \<open>The effect of a section\<close>

definition authority_frame :: "'b Engine \<Rightarrow> 'b Engine \<Rightarrow> bool" where
  "authority_frame e e1 \<longleftrightarrow>
     eng_flows e1 = eng_flows e \<and> eng_resources e1 = eng_resources e \<and> eng_grants e1 = eng_grants e
     \<and> eng_reservations e1 = eng_reservations e \<and> eng_policies e1 = eng_policies e
     \<and> eng_backends e1 = eng_backends e \<and> eng_next_envelope_id e1 = eng_next_envelope_id e"

definition evolves ::
  "(RateEnvelope \<Rightarrow> RateEnvelope \<Rightarrow> bool) \<Rightarrow> (EnforcementAttempt \<Rightarrow> EnforcementAttempt \<Rightarrow> bool)
   \<Rightarrow> (u64 \<Rightarrow> EnforcementAttempt \<Rightarrow> bool) \<Rightarrow> 'b Engine \<Rightarrow> 'b Engine \<Rightarrow> bool" where
  "evolves P Q N e e1 \<longleftrightarrow>
     authority_frame e e1 \<and> reworks P (eng_envelopes e) (eng_envelopes e1)
     \<and> arises Q N (eng_attempts e) (eng_attempts e1)"

lemma evolves_refl [simp, intro, evolves_rules]: "evolves P Q N e e"
  by (simp add: evolves_def authority_frame_def)

lemma evolves_mono:
  assumes "evolves P Q N e e1"
    and "\<And>env u. P env u \<Longrightarrow> P' env u" "\<And>a b. Q a b \<Longrightarrow> Q' a b" "\<And>k a. N k a \<Longrightarrow> N' k a"
  shows "evolves P' Q' N' e e1"
proof -
  have "reworks P' m m1" if "reworks P m m1" for m m1
  proof -
    have "rel_option (\<lambda>v w. w = v \<or> P' v w) (table_find m k) (table_find m1 k)" for k
    proof -
      have "rel_option (\<lambda>v w. w = v \<or> P v w) (table_find m k) (table_find m1 k)"
        using that unfolding reworks_def by blast
      then show ?thesis
        using assms(2) by (cases "table_find m k"; cases "table_find m1 k") auto
    qed
    with that show ?thesis unfolding reworks_def by blast
  qed
  moreover have "arises Q' N' m m1" if "arises Q N m m1" for m m1
    using that assms(3,4) unfolding arises_def by blast
  ultimately show ?thesis using assms(1) by (simp add: evolves_def)
qed

lemma evolves_durability:
  "evolves P Q N e e1 \<Longrightarrow> only_durability e1 e2 \<Longrightarrow> evolves P Q N e e2"
  by (simp add: evolves_def authority_frame_def only_durability_fields)

text \<open>The rules for the control structure of a section: the branches are taken one by one.\<close>

lemma evolves_leaf [evolves_rules]: "evolves P Q N e e1 \<Longrightarrow> evolves P Q N e (snd (r, e1))"
  by simp

lemma evolves_if [evolves_rules]:
  "(c \<Longrightarrow> evolves P Q N e (snd x)) \<Longrightarrow> (\<not> c \<Longrightarrow> evolves P Q N e (snd y))
   \<Longrightarrow> evolves P Q N e (snd (if c then x else y))"
  by simp

lemma evolves_option [evolves_rules]:
  "(c = None \<Longrightarrow> evolves P Q N e (snd x)) \<Longrightarrow> (\<And>v. c = Some v \<Longrightarrow> evolves P Q N e (snd (f v)))
   \<Longrightarrow> evolves P Q N e (snd (case c of None \<Rightarrow> x | Some v \<Rightarrow> f v))"
  by (cases c) simp_all

lemma evolves_map_prod [evolves_rules]:
  "evolves P Q N e (snd x) \<Longrightarrow> evolves P Q N e (snd (map_prod f id x))"
  by (cases x) simp

lemma evolves_commit [evolves_rules]:
  "evolves P Q N e e0 \<Longrightarrow> (\<And>u e1. evolves P Q N e e1 \<Longrightarrow> evolves P Q N e (snd (g u e1)))
   \<Longrightarrow> evolves P Q N e (snd (case commit_records_locked rs e0 of (Inl err, e1) \<Rightarrow> (f err, e1)
                                  | (Inr u, e1) \<Rightarrow> g u e1))"
  using evolves_durability commit_records_frame by (fastforce split: prod.splits sum.splits)

lemma evolves_commit_one [evolves_rules]:
  "evolves P Q N e e0 \<Longrightarrow> (\<And>u e1. evolves P Q N e e1 \<Longrightarrow> evolves P Q N e (snd (g u e1)))
   \<Longrightarrow> evolves P Q N e (snd (case commit_one_locked t p e0 of (Inl err, e1) \<Rightarrow> (f err, e1)
                                  | (Inr u, e1) \<Rightarrow> g u e1))"
  using evolves_durability commit_one_frame by (fastforce split: prod.splits sum.splits)

lemma evolves_commit_many [evolves_rules]:
  "evolves P Q N e e0 \<Longrightarrow> (\<And>u e1. evolves P Q N e e1 \<Longrightarrow> evolves P Q N e (snd (g u e1)))
   \<Longrightarrow> evolves P Q N e (snd (case commit_many_locked rs e0 of (Inl err, e1) \<Rightarrow> (f err, e1)
                                  | (Inr u, e1) \<Rightarrow> g u e1))"
  using evolves_durability commit_many_frame by (fastforce split: prod.splits sum.splits)

lemma evolves_count [evolves_rules]: "evolves P Q N e e1 \<Longrightarrow> evolves P Q N e (count f e1)"
  by (rule evolves_durability [OF _ only_durability_updates(5)])

lemma evolves_event [evolves_rules]:
  "evolves P Q N e e1 \<Longrightarrow> evolves P Q N e (push_event_locked r i g j e1)"
  by (simp add: evolves_def authority_frame_def)

lemma evolves_allocate [evolves_rules]:
  "evolves P Q N e e1 \<Longrightarrow> evolves P Q N e (allocate_attempt e1)"
  by (simp add: evolves_def authority_frame_def allocate_attempt_def)

lemma evolves_assign_envelope [evolves_rules]:
  "find_envelope_locked i e = Some env \<Longrightarrow> P env u \<Longrightarrow> evolves P Q N e e1
   \<Longrightarrow> evolves P Q N e (assign_envelope i u e1)"
  by (simp add: evolves_def authority_frame_def find_envelope_locked_def reworks_put)

lemma evolves_assign_attempt [evolves_rules]:
  "find_attempt_locked j e = Some a \<Longrightarrow> Q a b \<Longrightarrow> evolves P Q N e e1
   \<Longrightarrow> evolves P Q N e (assign_attempt j b e1)"
  by (simp add: evolves_def authority_frame_def find_attempt_locked_def arises_put)

lemma evolves_retain [evolves_rules]:
  assumes "N (attempt_key a) a" "evolves P Q N e e1" "table_ok (eng_attempts e)"
  shows "evolves P Q N e (retain_attempt_locked a e1)"
proof -
  have ok: "table_ok (eng_attempts e1)" using assms(2,3) by (simp add: evolves_def arises_def)
  have "N k w \<or> (\<exists>v. table_find (eng_attempts e) k = Some v \<and> (w = v \<or> Q v w))"
    if "table_find (eng_attempts (retain_attempt_locked a e1)) k = Some w" for k w
  proof -
    have "(k, w) \<in> insert (attempt_key a, a) (set (eng_attempts e1))"
      using retain_entries table_find_entry [OF that] by blast
    then show ?thesis
      using assms(1,2) table_entry_find [OF ok] by (auto simp: evolves_def arises_def)
  qed
  then show ?thesis
    using assms retain_table_ok [OF ok] by (simp add: evolves_def authority_frame_def arises_def)
qed

lemma evolves_updates:
  assumes "evolves P Q N e e1"
  shows "evolves P Q N e (e1\<lparr>eng_backend_bound := b\<rparr>)" "evolves P Q N e (e1\<lparr>eng_backend := x\<rparr>)"
    "evolves P Q N e (e1\<lparr>eng_shutting_down := s\<rparr>)" "evolves P Q N e (e1\<lparr>eng_epoch := ep\<rparr>)"
    "evolves P Q N e (e1\<lparr>eng_backend_session_epoch := ep\<rparr>)"
    "evolves P Q N e (e1\<lparr>eng_last_tick_ns := t\<rparr>)" "evolves P Q N e (e1\<lparr>eng_tick_seen := ts\<rparr>)"
    "evolves P Q N e (e1\<lparr>eng_events := ev\<rparr>)"
  using assms by (simp_all add: evolves_def authority_frame_def)

declare evolves_updates [evolves_rules]

section \<open>Permitted changes\<close>

text \<open>What an envelope is bound to; nothing changes it after the envelope was opened.\<close>

definition binding :: "RateEnvelope \<Rightarrow> _" where
  "binding env =
     (env_id env, env_generation env, (env_flow env, env_flow_generation env),
      (env_resource env, env_resource_generation env), (env_grant env, env_grant_generation env),
      (env_policy env, env_policy_generation env),
      (env_has_reservation env, env_reservation env, env_reservation_generation env),
      (env_backend env, env_backend_generation env))"

definition claims :: "RateEnvelope \<Rightarrow> bool" where
  "claims env \<longleftrightarrow> env_state env = EnvelopeState_Applied \<and> env_effect_verified env"

text \<open>
  A quiet change keeps the binding, the plan and the sanity of the bucket, and neither
  adds nor alters a verified effect.
\<close>

definition quiet :: "RateEnvelope \<Rightarrow> RateEnvelope \<Rightarrow> bool" where
  "quiet env u \<longleftrightarrow>
     binding u = binding env \<and> (bucket_ok (env_bucket env) \<longrightarrow> bucket_ok (env_bucket u))
     \<and> env_has_plan u = env_has_plan env \<and> env_plan u = env_plan env
     \<and> (env_effect_verified u \<longrightarrow>
          env_effect_verified env \<and> env_applied_rate_ups u = env_applied_rate_ups env)
     \<and> (claims u \<longrightarrow> claims env)"

text \<open>What identifies an attempt, and the permitted changes of one.\<close>

definition attempt_identity :: "EnforcementAttempt \<Rightarrow> _" where
  "attempt_identity a =
     (att_id a, att_envelope a, att_envelope_generation a, att_kind a, att_idempotency_key a,
      att_fingerprint a, att_epoch a, att_boot a, att_requested_rate_ups a)"

definition progresses :: "EnforcementAttempt \<Rightarrow> EnforcementAttempt \<Rightarrow> bool" where
  "progresses a b \<longleftrightarrow>
     attempt_identity b = attempt_identity a
     \<and> (attempt_inflight (att_state b) \<longrightarrow> attempt_inflight (att_state a))
     \<and> (att_state b = AttemptState_Verified \<longrightarrow>
          att_state a = AttemptState_Verified \<or> att_state a = AttemptState_Acknowledged)"

abbreviation no_attempt :: "u64 \<Rightarrow> EnforcementAttempt \<Rightarrow> bool" where
  "no_attempt \<equiv> (\<lambda>k a. False)"

lemmas quiet_defs = quiet_def claims_def
lemmas progress_defs = progresses_def attempt_inflight_def

lemma binding_updates [simp]:
  "binding (env\<lparr>env_state := a\<rparr>) = binding env" "binding (env\<lparr>env_reason := b\<rparr>) = binding env"
  "binding (env\<lparr>env_has_plan := c\<rparr>) = binding env" "binding (env\<lparr>env_plan := d\<rparr>) = binding env"
  "binding (env\<lparr>env_plan_revision := f\<rparr>) = binding env" "binding (env\<lparr>env_bucket := g\<rparr>) = binding env"
  "binding (env\<lparr>env_effect_verified := c\<rparr>) = binding env"
  "binding (env\<lparr>env_requires_revalidation := c\<rparr>) = binding env"
  "binding (env\<lparr>env_applied_rate_ups := h\<rparr>) = binding env"
  "binding (env\<lparr>env_applied_burst_tokens := h\<rparr>) = binding env"
  "binding (env\<lparr>env_applied_epoch := i\<rparr>) = binding env"
  "binding (env\<lparr>env_applied_boot := j\<rparr>) = binding env"
  "binding (env\<lparr>env_cooldown_until_ns := k\<rparr>) = binding env"
  "binding (env\<lparr>env_revalidate_by_ns := k\<rparr>) = binding env"
  "binding (env\<lparr>env_updated_ns := k\<rparr>) = binding env"
  "binding (env\<lparr>env_attempts_issued := k\<rparr>) = binding env"
  "binding (env\<lparr>env_completions_applied := k\<rparr>) = binding env"
  "binding (env\<lparr>env_completions_rejected := k\<rparr>) = binding env"
  by (simp_all add: binding_def)

lemma identity_updates [simp]:
  "attempt_identity (a\<lparr>att_state := st\<rparr>) = attempt_identity a"
  "attempt_identity (a\<lparr>att_reason := r\<rparr>) = attempt_identity a"
  "attempt_identity (a\<lparr>att_completed_ns := t\<rparr>) = attempt_identity a"
  "attempt_identity (a\<lparr>att_detail := d\<rparr>) = attempt_identity a"
  "attempt_identity (a\<lparr>att_compensating := b\<rparr>) = attempt_identity a"
  "attempt_identity (a\<lparr>att_verified := b\<rparr>) = attempt_identity a"
  "attempt_identity (a\<lparr>att_effect_confirmed := b\<rparr>) = attempt_identity a"
  "attempt_identity (a\<lparr>att_acknowledged := b\<rparr>) = attempt_identity a"
  "attempt_identity (a\<lparr>att_acknowledged_rate_ups := v\<rparr>) = attempt_identity a"
  "attempt_identity (a\<lparr>att_acknowledged_burst_tokens := v\<rparr>) = attempt_identity a"
  "attempt_identity (a\<lparr>att_verified_rate_ups := v\<rparr>) = attempt_identity a"
  "attempt_identity (a\<lparr>att_verified_burst_tokens := v\<rparr>) = attempt_identity a"
  by (simp_all add: attempt_identity_def)

lemma quiet_updates [simp]:
  "quiet env (epoch_demoted now env)" "quiet env (session_lost_update env)"
  "quiet env (denied_envelope now r env)" "quiet env (late_envelope now r b env)"
  "quiet env (refused_envelope now a env)" "quiet env (revoking_envelope now r env)"
  "quiet env (revoke_disputed r env)" "quiet env (stale_envelope r env)"
  "quiet env (questioned_envelope now r env)" "quiet env (recovered_envelope now env)"
  "quiet env (disputed_envelope r env)"
  by (auto simp: quiet_defs epoch_demoted_def session_lost_update_def denied_envelope_def
        late_envelope_def refused_envelope_def revoking_envelope_def revoke_disputed_def
        stale_envelope_def questioned_envelope_def recovered_envelope_def disputed_envelope_def Let_def)

lemma progress_updates [simp]:
  "progresses a (late_attempt now r b d e a)" "progresses a (refused_attempt now report a)"
  "attempt_inflight (att_state a) \<Longrightarrow> progresses a (acknowledged_attempt now report a)"
  "progresses a (refused_revoke_attempt now report a)"
  "attempt_inflight (att_state a) \<Longrightarrow> progresses a (acknowledged_revoke now report a)"
  "progresses a (expired_attempt now a)" "progresses a (shutdown_attempt now a)"
  "progresses a (ambiguous_attempt now a)"
  by (auto simp: progress_defs late_attempt_def refused_attempt_def acknowledged_attempt_def
        refused_revoke_attempt_def acknowledged_revoke_def expired_attempt_def shutdown_attempt_def
        ambiguous_attempt_def)

lemma progress_detail [simp]: "progresses a (with_detail d c) \<longleftrightarrow> progresses a c"
  by (auto simp: progress_defs with_detail_def)

lemma quiet_refl [simp]: "quiet env env"
  by (simp add: quiet_def)

lemma quiet_id: "quiet env u \<Longrightarrow> env_id u = env_id env"
  by (simp add: quiet_def binding_def)

lemma progress_id: "progresses a b \<Longrightarrow> att_id b = att_id a"
  by (simp add: progresses_def attempt_identity_def)

lemma quiet_trans: "quiet env u \<Longrightarrow> quiet u v \<Longrightarrow> quiet env v"
  by (auto simp: quiet_def)

section \<open>Operations with one section\<close>

lemma refuse_actor_evolves [evolves_elims]:
  "refuse_actor actor e = Some x \<Longrightarrow> evolves P Q N e (snd x)"
  by (auto simp: refuse_actor_def split: option.splits intro!: evolves_count evolves_refl)

lemma refuse_intake_evolves [evolves_elims]:
  "refuse_intake actor e = Some x \<Longrightarrow> evolves P Q N e (snd x)"
  "refuse_intake actor e = Some x \<Longrightarrow> evolves P Q N e (snd (case x of (r, e1) \<Rightarrow> (f r, e1)))"
  by (auto simp: refuse_intake_def refuse_actor_def reject_shutdown_def split: option.splits if_splits
        intro!: evolves_count evolves_refl)

lemma reject_shutdown_evolves [evolves_rules]: "evolves P Q N e (snd (reject_shutdown e))"
  by (simp add: reject_shutdown_def evolves_count)

lemma cancel_attempt_evolves:
  "evolves quiet progresses no_attempt e (snd (cancel_attempt now i r actor e))"
  unfolding cancel_attempt_def Let_def
  by (rule evolves_rules | erule evolves_elims | assumption | simp add: progress_defs)+

lemma abandon_attempt_evolves:
  "evolves quiet progresses no_attempt e (snd (abandon_attempt now i r actor e))"
  unfolding abandon_attempt_def Let_def
  by (rule evolves_rules | erule evolves_elims | assumption | simp add: progress_defs quiet_defs)+

lemma quiet_refill:
  "refill_bucket (env_bucket env) now = (r, b) \<Longrightarrow> quiet env (env\<lparr>env_bucket := b\<rparr>)"
  "refill_bucket (env_bucket env) now = (r, b) \<Longrightarrow>
   quiet env (env\<lparr>env_bucket := snd (try_consume b n), env_updated_ns := t\<rparr>)"
  using bucket_ok_refill [of "env_bucket env" now] bucket_ok_consume [of b n]
  by (auto simp: quiet_defs)

lemma evolves_if_state [evolves_rules]:
  "evolves P Q N e e1 \<Longrightarrow> evolves P Q N e e2 \<Longrightarrow> evolves P Q N e (if c then e1 else e2)"
  by simp

lemma evolves_refill [evolves_rules]:
  "(\<And>r b. refill_bucket x now = (r, b) \<Longrightarrow> evolves P Q N e (snd (f r b)))
   \<Longrightarrow> evolves P Q N e (snd (case refill_bucket x now of (r, b) \<Rightarrow> f r b))"
  by (simp split: prod.split)

lemma consume_burst_evolves:
  "evolves quiet progresses no_attempt e (snd (consume_burst now i n e))"
  unfolding consume_burst_def Let_def
  by (rule evolves_rules | erule evolves_elims | assumption | erule quiet_refill | simp)+

lemma bind_backend_evolves: "evolves quiet progresses no_attempt e (bind_backend b ep e)"
  unfolding bind_backend_def Let_def by (rule evolves_rules | simp)+

section \<open>Planning\<close>

text \<open>A change that may also install a plan derived from the current authorities.\<close>

definition settles :: "'b Engine \<Rightarrow> RateEnvelope \<Rightarrow> RateEnvelope \<Rightarrow> bool" where
  "settles e env u \<longleftrightarrow>
     binding u = binding env \<and> (bucket_ok (env_bucket env) \<longrightarrow> bucket_ok (env_bucket u))
     \<and> (env_has_plan u = env_has_plan env \<and> env_plan u = env_plan env
        \<or> (\<exists>now. po_authorized (derive_plan_locked env now e)
                 \<and> env_plan u = po_plan (derive_plan_locked env now e)))
     \<and> (env_effect_verified u \<longrightarrow>
          env_effect_verified env \<and> env_applied_rate_ups u = env_applied_rate_ups env)
     \<and> (claims u \<longrightarrow> claims env)"

lemma quiet_settles: "quiet env u \<Longrightarrow> settles e env u"
  by (auto simp: quiet_def settles_def)

lemma settles_authorized:
  assumes "po_authorized (derive_plan_locked env now e)"
  shows "settles e env (authorized_envelope now (po_plan (derive_plan_locked env now e)) env)"
proof -
  let ?p = "po_plan (derive_plan_locked env now e)"
  have "claims (authorized_envelope now ?p env) \<longrightarrow> claims env"
    by (simp add: claims_def authorized_envelope_def Let_def)
  moreover have "binding (authorized_envelope now ?p env) = binding env"
    by (simp add: binding_def)
  ultimately show ?thesis
    unfolding settles_def using assms authorized_bucket_ok by auto
qed

lemma authorize_evolves:
  "evolves (settles e) progresses no_attempt e (snd (authorize now i actor e))"
  unfolding authorize_def Let_def
  by (rule evolves_rules | erule evolves_elims | assumption
      | (rule settles_authorized, simp) | (rule quiet_settles, simp))+

section \<open>The sections of an apply\<close>

lemma planned_binding [simp]: "binding (planned_envelope p env) = binding env"
  by (simp add: planned_envelope_def)

lemma settles_dispatching:
  assumes "po_authorized (derive_plan_locked env now e)"
  shows "settles e env
    (dispatching_envelope now (planned_envelope (po_plan (derive_plan_locked env now e)) env))"
  using assms
  by (auto simp: settles_def dispatching_envelope_def claims_def planned_envelope_def)

text \<open>
  A new attempt has the key of its envelope, generation and kind, is in flight, and no
  attempt in flight had that key.
\<close>

definition opens_attempt :: "'b Engine \<Rightarrow> u64 \<Rightarrow> EnforcementAttempt \<Rightarrow> bool" where
  "opens_attempt e k a \<longleftrightarrow>
     k = eng_next_attempt_id e \<and> attempt_key a = k \<and> att_state a = AttemptState_Created
     \<and> att_idempotency_key a
         = compute_idempotency_key (att_envelope a) (att_envelope_generation a) (att_kind a)
     \<and> find_inflight (att_idempotency_key a) e = None"

lemma apply_phase_one_evolves:
  assumes "table_ok (eng_attempts e)"
  shows "evolves (settles e) progresses (opens_attempt e) e (snd (apply_phase_one now i actor e))"
proof -
  have new: "opens_attempt e (attempt_key (apply_attempt now key (planned_envelope p env) e))
      (apply_attempt now key (planned_envelope p env) e)"
    if "find_inflight key e = None"
      "key = compute_idempotency_key (env_id env) (env_generation env) AttemptKind_Apply" for key p env
    using that by (simp add: opens_attempt_def apply_attempt_def planned_envelope_def)
  show ?thesis
    unfolding apply_phase_one_def deny_apply_def dispatch_planned_def Let_def
    by (rule evolves_rules assms | erule evolves_elims | assumption
        | (rule settles_dispatching, simp) | (rule quiet_settles, simp add: quiet_defs)
        | (rule new, assumption, simp) | simp)+
qed

text \<open>A change of the envelope with a given number only.\<close>

definition only_at ::
  "RateEnvelopeId \<Rightarrow> 'b Engine \<Rightarrow> (RateEnvelope \<Rightarrow> RateEnvelope \<Rightarrow> bool)
   \<Rightarrow> RateEnvelope \<Rightarrow> RateEnvelope \<Rightarrow> bool" where
  "only_at i e P env u \<longleftrightarrow> find_envelope_locked i e = Some env \<and> P env u"

lemma evolves_only_at: "evolves (only_at i e P) Q N e e1 \<Longrightarrow> evolves P Q N e e1"
  by (erule evolves_mono) (simp_all add: only_at_def)

lemma reject_late_evolves:
  assumes "find_envelope_locked i e = Some env" "find_attempt_locked j e = Some a"
  shows "evolves (only_at i e quiet) progresses no_attempt e (snd (reject_late now i j env a r b d e))"
  unfolding reject_late_def Let_def
  by (rule evolves_rules assms | assumption | simp add: only_at_def assms(1) | simp)+

lemma record_pending_evolves:
  assumes "find_attempt_locked j e = Some a" "attempt_inflight (att_state a)"
  shows "evolves quiet progresses no_attempt e (snd (record_pending j env a e))"
  unfolding record_pending_def Let_def
  by (rule evolves_rules assms(1) | assumption | use assms(2) in \<open>simp add: progresses_def\<close>)+

lemma record_refused_evolves:
  assumes "find_envelope_locked i e = Some env" "find_attempt_locked j e = Some a"
  shows "evolves quiet progresses no_attempt e (snd (record_refused now i j report env a e))"
  unfolding record_refused_def Let_def
  by (rule evolves_rules assms | assumption | simp)+

lemma finish_apply_report_evolves:
  "evolves quiet progresses no_attempt e (snd (finish_apply_report now i j report e))"
  unfolding finish_apply_report_def Let_def prod.case
  by (rule evolves_rules | assumption
      | (rule evolves_only_at [OF reject_late_evolves], assumption, assumption)
      | (rule record_pending_evolves, assumption, simp)
      | (rule record_refused_evolves, assumption, assumption) | simp)+

text \<open>
  What a readback may leave: a verified effect is the observed rate, which does not exceed
  the requested one, and a claim needs exactly what was requested.
\<close>

definition exact_readback :: "ApplyRequest \<Rightarrow> VerificationOutcome \<Rightarrow> bool" where
  "exact_readback request v \<longleftrightarrow>
     vo_status v \<noteq> VerificationStatus_Unsupported \<and> vo_status v \<noteq> VerificationStatus_Failed
     \<and> vo_observed_present v \<and> vo_observed_rate_ups v = ar_rate_ups request
     \<and> vo_observed_burst_tokens v = ar_burst_tokens request"

definition observes :: "ApplyRequest \<Rightarrow> VerificationOutcome \<Rightarrow> RateEnvelope \<Rightarrow> RateEnvelope \<Rightarrow> bool" where
  "observes request v env u \<longleftrightarrow>
     quiet env u
     \<or> binding u = binding env \<and> env_bucket u = env_bucket env
       \<and> env_has_plan u = env_has_plan env \<and> env_plan u = env_plan env
       \<and> (env_effect_verified u \<longrightarrow>
            env_applied_rate_ups u = vo_observed_rate_ups v \<and> vo_observed_present v
            \<and> vo_observed_rate_ups v \<le> ar_rate_ups request)
       \<and> (claims u \<longrightarrow> exact_readback request v)"

lemma judge_readback_cases:
  assumes "judge_readback now request v a env e = (a1, env1, exact, fix_up)"
    "att_state a = AttemptState_Acknowledged"
  shows "observes request v env env1" "progresses a a1" "exact \<longleftrightarrow> exact_readback request v"
    "exact \<longleftrightarrow> claims env1"
  using assms
  by (auto simp: judge_readback_def Let_def observes_def exact_readback_def claims_def with_effect_def
        disputed_envelope_def progresses_def attempt_inflight_def not_less split: if_splits)

lemma publish_readback_evolves:
  assumes "find_envelope_locked i e = Some env" "find_attempt_locked j e = Some a"
    "att_state a = AttemptState_Acknowledged"
  shows "evolves (only_at i e (observes request v)) progresses no_attempt e
           (snd (publish_readback now i j request v env a e))"
proof -
  obtain a1 env1 exact fix_up where j: "judge_readback now request v a env e = (a1, env1, exact, fix_up)"
    by (metis prod_cases4)
  show ?thesis
    unfolding publish_readback_def j prod.case Let_def
    by (rule evolves_rules assms(1,2) | assumption
        | (simp, rule judge_readback_cases(2) [OF j assms(3)])
        | simp add: only_at_def assms(1) judge_readback_cases(1) [OF j assms(3)] | simp)+
qed

lemma observes_quiet: "quiet env u \<Longrightarrow> observes request v env u"
  by (simp add: observes_def)

lemma finish_apply_verified_evolves:
  "evolves (only_at i e (observes request v)) progresses no_attempt e
     (snd (finish_apply_verified now i j request v e))"
  unfolding finish_apply_verified_def prod.case
  by (rule evolves_rules | assumption
      | (rule evolves_mono [OF reject_late_evolves], assumption, assumption,
         simp add: only_at_def observes_quiet, assumption, assumption)
      | (rule publish_readback_evolves, assumption, assumption, simp) | simp)+

section \<open>The sections of a revoke\<close>

lemma revoke_phase_one_evolves:
  assumes "table_ok (eng_attempts e)"
  shows "evolves quiet progresses (opens_attempt e) e (snd (revoke_phase_one now i reason actor e))"
proof -
  have new: "opens_attempt e (attempt_key (revoke_attempt now key reason env e))
      (revoke_attempt now key reason env e)"
    if "find_inflight key e = None"
      "key = compute_idempotency_key (env_id env) (env_generation env) AttemptKind_Revoke" for key env
    using that by (simp add: opens_attempt_def revoke_attempt_def)
  show ?thesis
    unfolding revoke_phase_one_def dispatch_revocation_def Let_def
    by (rule evolves_rules assms | erule evolves_elims | assumption
        | (rule new, assumption, simp) | simp)+
qed

lemma reject_late_revoke_evolves:
  assumes "find_attempt_locked j e = Some a"
  shows "evolves quiet progresses no_attempt e (snd (reject_late_revoke now i j r env a e))"
  unfolding reject_late_revoke_def Let_def
  by (rule evolves_rules assms | assumption | simp add: progress_defs)+

lemma record_refused_revoke_evolves:
  assumes "find_envelope_locked i e = Some env" "find_attempt_locked j e = Some a"
  shows "evolves quiet progresses no_attempt e (snd (record_refused_revoke now i j report env a e))"
  unfolding record_refused_revoke_def Let_def
  by (rule evolves_rules assms | assumption | simp | simp add: quiet_defs revoke_disputed_def)+

lemma finish_revoke_report_evolves:
  "evolves quiet progresses no_attempt e (snd (finish_revoke_report now i j report e))"
  unfolding finish_revoke_report_def Let_def prod.case
  by (rule evolves_rules | assumption | (rule reject_late_revoke_evolves, assumption)
      | (rule record_refused_revoke_evolves, assumption, assumption) | simp)+

lemma judge_revoke_cases:
  assumes "judge_revoke now v a env = (a1, env1, confirmed)" "att_state a = AttemptState_Acknowledged"
  shows "quiet env env1" "progresses a a1"
  using assms
  by (auto simp: judge_revoke_def Let_def quiet_defs revoke_disputed_def progress_defs bucket_ok_drain
        split: if_splits)

lemma publish_revoke_evolves:
  assumes "find_envelope_locked i e = Some env" "find_attempt_locked j e = Some a"
    "att_state a = AttemptState_Acknowledged"
  shows "evolves quiet progresses no_attempt e (snd (publish_revoke now i j v env a e))"
proof -
  obtain a1 env1 confirmed where j: "judge_revoke now v a env = (a1, env1, confirmed)"
    by (metis prod_cases3)
  show ?thesis
    unfolding publish_revoke_def j prod.case Let_def
    by (rule evolves_rules assms(1,2) judge_revoke_cases(1) [OF j assms(3)] | assumption
        | (simp, rule judge_revoke_cases(2) [OF j assms(3)]) | simp)+
qed

lemma finish_revoke_verified_evolves:
  "evolves quiet progresses no_attempt e (snd (finish_revoke_verified now i j v before e))"
  unfolding finish_revoke_verified_def Let_def prod.case
  by (rule evolves_rules | assumption | (rule publish_revoke_evolves, assumption, assumption, simp)
      | simp add: progress_defs | simp)+

section \<open>Lists of updates\<close>

definition updates_ok :: "('v \<Rightarrow> u64) \<Rightarrow> ('v \<Rightarrow> 'v \<Rightarrow> bool) \<Rightarrow> 'v table \<Rightarrow> 'v list \<Rightarrow> bool" where
  "updates_ok key P m us \<longleftrightarrow> (\<forall>u \<in> set us. \<exists>v. table_find m (key u) = Some v \<and> P v u)"

lemma updates_ok_Nil [simp]: "updates_ok key P m []"
  by (simp add: updates_ok_def)

lemma merge_envelope_set: "set (merge_envelope xs u) \<subseteq> insert u (set xs)"
  by (induction xs) auto

lemma merge_attempt_set: "set (merge_attempt xs u) \<subseteq> insert u (set xs)"
  by (induction xs) auto

lemma updates_ok_merge_envelope:
  "updates_ok envelope_key P m us \<Longrightarrow> table_find m (envelope_key u) = Some v \<Longrightarrow> P v u
   \<Longrightarrow> updates_ok envelope_key P m (merge_envelope us u)"
  using merge_envelope_set [of us u] unfolding updates_ok_def by blast

lemma updates_ok_merge_attempt:
  "updates_ok attempt_key P m us \<Longrightarrow> table_find m (attempt_key u) = Some v \<Longrightarrow> P v u
   \<Longrightarrow> updates_ok attempt_key P m (merge_attempt us u)"
  using merge_attempt_set [of us u] unfolding updates_ok_def by blast

lemma updates_ok_merge_all:
  "updates_ok envelope_key P m us \<Longrightarrow> updates_ok envelope_key P m vs
   \<Longrightarrow> updates_ok envelope_key P m (fold (\<lambda>u acc. merge_envelope acc u) vs us)"
proof (induction vs arbitrary: us)
  case (Cons v vs)
  from Cons.prems(2) obtain w where "table_find m (envelope_key v) = Some w" "P w v"
    by (auto simp: updates_ok_def)
  then have "updates_ok envelope_key P m (merge_envelope us v)"
    by (rule updates_ok_merge_envelope [OF Cons.prems(1)])
  moreover have "updates_ok envelope_key P m vs" using Cons.prems(2) by (simp add: updates_ok_def)
  ultimately show ?case using Cons.IH by simp
qed simp

text \<open>The entry that a loop over a keyed table visits is the one that lookup finds.\<close>

lemma keyed_entry: "keyed key m \<Longrightarrow> (k, v) \<in> set m \<Longrightarrow> key v = k \<and> table_find m k = Some v"
  using table_entry_find [of m k v] unfolding keyed_def by blast

lemma updates_ok_fold_envelopes:
  assumes "keyed envelope_key m" "set xs \<subseteq> set m" "updates_ok envelope_key P m us"
    and "\<And>env. c env \<Longrightarrow> P env (f env) \<and> env_id (f env) = env_id env"
  shows "updates_ok envelope_key P m
    (fold (\<lambda>x acc. if c (snd x) then merge_envelope acc (f (snd x)) else acc) xs us)"
  using assms(2,3)
proof (induction xs arbitrary: us)
  case (Cons x xs)
  have "updates_ok envelope_key P m (if c (snd x) then merge_envelope us (f (snd x)) else us)"
    using keyed_entry [OF assms(1), of "fst x" "snd x"] Cons.prems assms(4) [of "snd x"]
    by (auto intro: updates_ok_merge_envelope)
  with Cons show ?case by simp
qed simp

lemma updates_ok_fold_attempts:
  assumes "keyed attempt_key m" "set xs \<subseteq> set m" "updates_ok attempt_key P m us"
    and "\<And>a. c a \<Longrightarrow> P a (f a) \<and> att_id (f a) = att_id a"
  shows "updates_ok attempt_key P m
    (fold (\<lambda>x acc. if c (snd x) then merge_attempt acc (f (snd x)) else acc) xs us)"
  using assms(2,3)
proof (induction xs arbitrary: us)
  case (Cons x xs)
  have "updates_ok attempt_key P m (if c (snd x) then merge_attempt us (f (snd x)) else us)"
    using keyed_entry [OF assms(1), of "fst x" "snd x"] Cons.prems assms(4) [of "snd x"]
    by (auto intro: updates_ok_merge_attempt)
  with Cons show ?case by simp
qed simp

lemma evolves_put_envelopes [evolves_rules]:
  assumes "updates_ok envelope_key P (eng_envelopes e) us" "evolves P Q N e e1"
  shows "evolves P Q N e (fold put_envelope us e1)"
proof -
  have "eng_envelopes (fold put_envelope us e1) = table_put_all envelope_key us (eng_envelopes e1)"
    "authority_frame e1 (fold put_envelope us e1)"
    "eng_attempts (fold put_envelope us e1) = eng_attempts e1"
    by (induction us arbitrary: e1) (simp_all add: authority_frame_def)
  with assms show ?thesis
    by (auto simp: evolves_def authority_frame_def updates_ok_def intro!: reworks_put_all)
qed

lemma evolves_put_attempts [evolves_rules]:
  assumes "updates_ok attempt_key Q (eng_attempts e) us" "evolves P Q N e e1"
  shows "evolves P Q N e (fold put_attempt us e1)"
proof -
  have "eng_attempts (fold put_attempt us e1) = table_put_all attempt_key us (eng_attempts e1)"
    "authority_frame e1 (fold put_attempt us e1)"
    "eng_envelopes (fold put_attempt us e1) = eng_envelopes e1"
    by (induction us arbitrary: e1) (simp_all add: authority_frame_def put_attempt_def)
  with assms show ?thesis
    by (auto simp: evolves_def authority_frame_def updates_ok_def intro!: arises_put_all)
qed

lemma evolves_publish_stale [evolves_rules]:
  "updates_ok envelope_key P (eng_envelopes e) us \<Longrightarrow> evolves P Q N e e1
   \<Longrightarrow> evolves P Q N e (fold publish_stale us e1)"
  by (simp add: evolves_def authority_frame_def updates_ok_def reworks_put_all)

lemma evolves_publish_lost [evolves_rules]:
  "updates_ok envelope_key P (eng_envelopes e) us \<Longrightarrow> evolves P Q N e e1
   \<Longrightarrow> evolves P Q N e (fold (\<lambda>u s. count (g u) (put_envelope u s)) us e1)"
  by (simp add: evolves_def authority_frame_def updates_ok_def reworks_put_all)

lemma session_lost_updates_ok:
  assumes "keyed envelope_key (eng_envelopes e)"
  shows "updates_ok envelope_key quiet (eng_envelopes e) (collect_session_lost_updates_locked e [])"
  unfolding collect_session_lost_updates_locked_def
  by (rule updates_ok_fold_envelopes [OF assms]) simp_all

lemma mark_session_lost_evolves:
  assumes "keyed envelope_key (eng_envelopes e)"
  shows "evolves quiet progresses no_attempt e (snd (mark_session_lost actor e))"
proof -
  have ok: "updates_ok envelope_key quiet (eng_envelopes e)
      (collect_session_lost_updates_locked (e\<lparr>eng_backend_bound := False\<rparr>) [])"
    using session_lost_updates_ok [of "e\<lparr>eng_backend_bound := False\<rparr>"] assms by simp
  show ?thesis
    unfolding mark_session_lost_def Let_def
    by (rule evolves_rules ok | erule evolves_elims | assumption | simp)+
qed

lemma epoch_updates_ok:
  assumes "keyed envelope_key (eng_envelopes e)"
  shows "updates_ok envelope_key quiet (eng_envelopes e) (epoch_updates clock e)"
  unfolding updates_ok_def
proof
  fix u assume "u \<in> set (epoch_updates clock e)"
  then obtain k env where x: "(k, env) \<in> set (eng_envelopes e)" and u: "u = epoch_demoted (clock k) env"
    by (auto simp: epoch_updates_def)
  show "\<exists>v. table_find (eng_envelopes e) (envelope_key u) = Some v \<and> quiet v u"
    unfolding u using keyed_entry [OF assms x] by (intro exI [of _ env]) simp
qed

lemma advance_epoch_evolves:
  assumes "keyed envelope_key (eng_envelopes e)"
  shows "evolves quiet progresses no_attempt e (snd (advance_epoch clock ep actor e))"
  unfolding advance_epoch_def Let_def
  by (rule evolves_rules epoch_updates_ok assms | erule evolves_elims | assumption | simp)+

lemma publish_updates_evolves [evolves_rules]:
  "updates_ok envelope_key P (eng_envelopes e) envs \<Longrightarrow> updates_ok attempt_key Q (eng_attempts e) atts
   \<Longrightarrow> evolves P Q N e e1 \<Longrightarrow> evolves P Q N e (publish_updates envs atts e1)"
  unfolding publish_updates_def by (rule evolves_rules | assumption)+

section \<open>Maintenance\<close>

lemma demote_for_recovery_evolves:
  assumes "keyed envelope_key (eng_envelopes e)" "keyed attempt_key (eng_attempts e)"
  shows "evolves quiet progresses no_attempt e (snd (snd (demote_for_recovery now actor e)))"
proof -
  have envs: "updates_ok envelope_key quiet (eng_envelopes e) (demotion_envelopes now e)"
    unfolding demotion_envelopes_def
    by (rule updates_ok_fold_envelopes [OF assms(1)]) (simp_all add: quiet_id [OF quiet_updates(10)])
  have atts: "updates_ok attempt_key progresses (eng_attempts e) (demotion_attempts now e)"
    unfolding demotion_attempts_def
    by (rule updates_ok_fold_attempts [OF assms(2)]) (simp_all add: progress_id [OF progress_updates(8)])
  show ?thesis
  proof (cases "refuse_actor actor e :: (Status \<times> _) option")
    case (Some x)
    then show ?thesis
      using refuse_actor_evolves [OF Some] by (cases x) (simp add: demote_for_recovery_def)
  next
    case None
    then show ?thesis
      using evolves_durability [OF evolves_refl commit_many_frame]
      by (auto simp: demote_for_recovery_def Let_def split: prod.splits sum.splits
            intro!: evolves_event publish_updates_evolves [OF envs atts])
  qed
qed

text \<open>What the loops of a tick and of a shutdown keep: the tables, and good lists of updates.\<close>

definition collecting :: "'b Engine \<Rightarrow> 'b TickState \<Rightarrow> bool" where
  "collecting e s \<longleftrightarrow>
     evolves quiet progresses no_attempt e (tk_engine s)
     \<and> eng_envelopes (tk_engine s) = eng_envelopes e \<and> eng_attempts (tk_engine s) = eng_attempts e
     \<and> updates_ok envelope_key quiet (eng_envelopes e) (tk_envelopes s)
     \<and> updates_ok attempt_key progresses (eng_attempts e) (tk_attempts s)"

lemma collecting_report [simp]: "collecting e (tick_count f s) \<longleftrightarrow> collecting e s"
  by (simp add: collecting_def tick_count_def)

lemma collecting_event [simp]:
  "collecting e s \<Longrightarrow> collecting e (s\<lparr>tk_engine := push_event_locked r i g j (tk_engine s)\<rparr>)"
  "collecting e s \<Longrightarrow> collecting e (s\<lparr>tk_engine := push_event_locked r i g j (count f (tk_engine s))\<rparr>)"
  by (simp_all add: collecting_def evolves_event evolves_count)

lemma collecting_regression [simp]: "collecting e s \<Longrightarrow> collecting e (count_regression i g s)"
  by (simp add: count_regression_def)

lemma collecting_envelope:
  "collecting e s \<Longrightarrow> table_find (eng_envelopes e) (envelope_key u) = Some env \<Longrightarrow> quiet env u
   \<Longrightarrow> collecting e (s\<lparr>tk_envelopes := merge_envelope (tk_envelopes s) u\<rparr>)"
  by (simp add: collecting_def updates_ok_merge_envelope)

lemma collecting_attempt:
  "collecting e s \<Longrightarrow> table_find (eng_attempts e) (attempt_key b) = Some a \<Longrightarrow> progresses a b
   \<Longrightarrow> collecting e (s\<lparr>tk_attempts := merge_attempt (tk_attempts s) b\<rparr>)"
  by (simp add: collecting_def updates_ok_merge_attempt)

lemma fold_invariant: "I s \<Longrightarrow> (\<And>x s. x \<in> set xs \<Longrightarrow> I s \<Longrightarrow> I (f x s)) \<Longrightarrow> I (fold f xs s)"
  by (induction xs arbitrary: s) simp_all

lemma tick_refill_collecting:
  assumes "tick_refill now env s = (u, c, s1)" "collecting e s"
  shows "collecting e s1" "quiet env u"
  using assms quiet_refill(1) [of env now]
  by (auto simp: tick_refill_def Let_def split: prod.splits if_splits)

lemma tick_cooldown_collecting:
  assumes "tick_cooldown now env s = (u, c, s1)" "collecting e s"
  shows "collecting e s1" "quiet env u"
  using assms by (auto simp: tick_cooldown_def quiet_defs Let_def split: if_splits)

lemma tick_authority_collecting:
  assumes "tick_authority now env s = (u, c, s1)" "collecting e s"
  shows "collecting e s1" "quiet env u"
  using assms by (auto simp: tick_authority_def Let_def split: if_splits)

lemma tick_envelope_collecting:
  assumes "keyed envelope_key (eng_envelopes e)" "x \<in> set (eng_envelopes e)" "collecting e s"
  shows "collecting e (tick_envelope now x s)"
proof -
  obtain u1 c1 s1 where 1: "tick_refill now (snd x) s = (u1, c1, s1)" by (metis prod_cases3)
  obtain u2 c2 s2 where 2: "tick_cooldown now u1 s1 = (u2, c2, s2)" by (metis prod_cases3)
  obtain u3 c3 s3 where 3: "tick_authority now u2 s2 = (u3, c3, s3)" by (metis prod_cases3)
  note r = tick_refill_collecting [OF 1 assms(3)]
  note c = tick_cooldown_collecting [OF 2 r(1)]
  note a = tick_authority_collecting [OF 3 c(1)]
  have q: "quiet (snd x) (u3\<lparr>env_updated_ns := now\<rparr>)"
    by (rule quiet_trans [OF quiet_trans [OF r(2) quiet_trans [OF c(2) a(2)]]]) (simp add: quiet_defs)
  have "table_find (eng_envelopes e) (envelope_key (u3\<lparr>env_updated_ns := now\<rparr>)) = Some (snd x)"
    using keyed_entry [OF assms(1), of "fst x" "snd x"] assms(2) quiet_id [OF q] by simp
  note m = collecting_envelope [OF a(1) this q]
  show ?thesis
    unfolding tick_envelope_def 1 2 3 prod.case using a(1) m by simp
qed

lemma collecting_questioned:
  assumes "keyed envelope_key (eng_envelopes e)" "collecting e s"
    "table_find (eng_envelopes e) k = Some env"
  shows "collecting e (s\<lparr>tk_envelopes := merge_envelope (tk_envelopes s) (questioned_envelope now r env)\<rparr>)"
  by (rule collecting_envelope [OF assms(2), of _ env])
     (use keyed_find [OF assms(1,3)] assms(3) quiet_id [OF quiet_updates(9)] in simp_all)

lemma collecting_closed_attempt:
  assumes "keyed attempt_key (eng_attempts e)" "x \<in> set (eng_attempts e)" "collecting e s"
    "progresses (snd x) b"
  shows "collecting e (s\<lparr>tk_attempts := merge_attempt (tk_attempts s) b\<rparr>)"
  by (rule collecting_attempt [OF assms(3), of _ "snd x"])
     (use keyed_entry [OF assms(1), of "fst x" "snd x"] assms(2,4) progress_id [OF assms(4)] in simp_all)

lemma tick_attempt_collecting:
  assumes "keyed envelope_key (eng_envelopes e)" "keyed attempt_key (eng_attempts e)"
    "x \<in> set (eng_attempts e)" "collecting e s"
  shows "collecting e (tick_attempt now x s)"
proof -
  define u where "u = expired_attempt now (snd x)"
  define s1 where "s1 = tick_count (\<lambda>r. r\<lparr>tr_attempts_expired := tr_attempts_expired r + 1\<rparr>)
    (s\<lparr>tk_attempts := merge_attempt (tk_attempts s) u\<rparr>)"
  have c: "collecting e s1"
    unfolding s1_def u_def using collecting_closed_attempt [OF assms(2-4)] by simp
  then have t: "eng_envelopes (tk_engine s1) = eng_envelopes e" by (simp add: collecting_def)
  show ?thesis
    unfolding tick_attempt_def Let_def u_def [symmetric] s1_def [symmetric] t
    using c assms(4) collecting_questioned [OF assms(1) c] by (auto split: option.splits)
qed

lemma abandon_one_collecting:
  assumes "keyed envelope_key (eng_envelopes e)" "keyed attempt_key (eng_attempts e)"
    "x \<in> set (eng_attempts e)" "collecting e s"
  shows "collecting e (abandon_one now x s)"
proof -
  define u where "u = shutdown_attempt now (snd x)"
  define s1 where "s1 = s\<lparr>tk_attempts := merge_attempt (tk_attempts s) u\<rparr>"
  have c: "collecting e s1"
    unfolding s1_def u_def using collecting_closed_attempt [OF assms(2-4)] by simp
  then have t: "eng_envelopes (tk_engine s1) = eng_envelopes e" by (simp add: collecting_def)
  show ?thesis
    unfolding abandon_one_def Let_def u_def [symmetric] s1_def [symmetric] t
    using c assms(4) collecting_questioned [OF assms(1) c] by (auto split: option.splits)
qed

lemma tick_start_collecting:
  assumes "keyed envelope_key (eng_envelopes e)"
  shows "collecting e (tick_start now e)"
proof -
  let ?s0 = "\<lparr>tk_engine = e, tk_report = empty_tick_report now, tk_envelopes = [], tk_attempts = []\<rparr>"
  define s1 where "s1 = (if eng_tick_seen e \<and> now < eng_last_tick_ns e
    then count_regression (StrongId 0) (StrongId 0) ?s0 else ?s0)"
  define s2 where "s2 = s1\<lparr>tk_engine := (tk_engine s1)\<lparr>eng_last_tick_ns := now, eng_tick_seen := True\<rparr>\<rparr>"
  have "collecting e ?s0" by (simp add: collecting_def)
  then have "collecting e s1" by (simp add: s1_def)
  then have c: "collecting e s2" by (simp add: s2_def collecting_def evolves_updates)
  then have t: "eng_envelopes (tk_engine s2) = eng_envelopes e" by (simp add: collecting_def)
  have "updates_ok envelope_key quiet (eng_envelopes e)
      (fold (\<lambda>u acc. merge_envelope acc u) (collect_session_lost_updates_locked (tk_engine s2) [])
        (tk_envelopes s2))"
    using session_lost_updates_ok [of "tk_engine s2"] assms c t
    by (intro updates_ok_merge_all) (simp_all add: collecting_def)
  with c show ?thesis
    unfolding tick_start_def Let_def s1_def [symmetric] s2_def [symmetric]
    by (simp add: collecting_def evolves_updates evolves_event)
qed

lemma tick_commit_evolves:
  "collecting e s \<Longrightarrow> evolves quiet progresses no_attempt e (snd (tick_commit s))"
  unfolding tick_commit_def Let_def
  by (rule evolves_rules | assumption | simp add: collecting_def)+

lemma tick_evolves:
  assumes "keyed envelope_key (eng_envelopes e)" "keyed attempt_key (eng_attempts e)"
  shows "evolves quiet progresses no_attempt e (snd (tick now e))"
proof -
  have "collecting e (fold (tick_envelope now) (eng_envelopes e) (tick_start now e))"
    by (rule fold_invariant [where I = "collecting e", OF tick_start_collecting [OF assms(1)]])
       (rule tick_envelope_collecting [OF assms(1)])
  then have "collecting e (fold (tick_attempt now) (eng_attempts e)
      (fold (tick_envelope now) (eng_envelopes e) (tick_start now e)))"
    by (rule fold_invariant) (rule tick_attempt_collecting [OF assms])
  from tick_commit_evolves [OF this] show ?thesis
    by (simp add: tick_def Let_def case_prod_beta)
qed

lemma shutdown_evolves:
  assumes "keyed envelope_key (eng_envelopes e)" "keyed attempt_key (eng_attempts e)"
  shows "evolves quiet progresses no_attempt e (snd (shutdown now e))"
proof -
  define s where "s = fold (abandon_one now) (eng_attempts (e\<lparr>eng_shutting_down := True\<rparr>))
    \<lparr>tk_engine = e\<lparr>eng_shutting_down := True\<rparr>, tk_report = empty_tick_report now,
     tk_envelopes = [], tk_attempts = []\<rparr>"
  have c: "collecting e s"
    unfolding s_def
    by (rule fold_invariant, simp add: collecting_def evolves_updates)
       (rule abandon_one_collecting [OF assms], simp_all)
  define e1 where "e1 = (if tk_attempts s = [] \<and> tk_envelopes s = [] then tk_engine s
    else (case commit_many_locked
             (map (\<lambda>a. stage_attempt a JT_AttemptTerminated) (tk_attempts s)
              @ map (\<lambda>u. stage_envelope u JT_EnvelopeStateChange) (tk_envelopes s)) (tk_engine s) of
        (Inl _, e1) \<Rightarrow> e1 | (Inr _, e1) \<Rightarrow> publish_updates (tk_envelopes s) (tk_attempts s) e1))"
  have "evolves quiet progresses no_attempt e e1"
    using c evolves_durability [OF _ commit_many_frame]
    by (fastforce simp: e1_def collecting_def split: prod.splits sum.splits
        intro!: publish_updates_evolves)
  moreover have "snd (shutdown now e) = (case eng_backend e1 of None \<Rightarrow> e1
      | Some (ops, b) \<Rightarrow> e1\<lparr>eng_backend := Some (ops, ops_shutdown ops b)\<rparr>)"
    unfolding shutdown_def Let_def e1_def s_def snd_conv by (rule refl)
  ultimately show ?thesis by (simp add: evolves_updates split: option.splits prod.splits)
qed

section \<open>Revalidation\<close>

lemma judge_revalidation_cases:
  assumes "judge_revalidation now epoch floor probe v env = (u, f, confirmed, reapply)"
  shows "observes probe v env u" "confirmed \<longleftrightarrow> exact_readback probe v"
proof -
  let ?unknown = "vo_status v = VerificationStatus_Unsupported \<or> vo_status v = VerificationStatus_Failed"
  let ?same = "vo_observed_rate_ups v = ar_rate_ups probe \<and> vo_observed_burst_tokens v = ar_burst_tokens probe"
  have "observes probe v env u \<and> (confirmed \<longleftrightarrow> exact_readback probe v)"
  proof (cases "?unknown \<or> \<not> vo_observed_present v \<or> \<not> ?same")
    case True
    then have "\<not> exact_readback probe v" by (auto simp: exact_readback_def)
    moreover have "\<not> confirmed" "\<not> env_effect_verified u" "binding u = binding env"
      "env_bucket u = env_bucket env" "env_has_plan u = env_has_plan env" "env_plan u = env_plan env"
      using True assms by (auto simp: judge_revalidation_def Let_def with_effect_def split: if_splits)
    then have "quiet env u" "\<not> confirmed" by (simp_all add: quiet_defs)
    ultimately show ?thesis by (simp add: observes_def)
  next
    case False
    then show ?thesis
      using assms
      by (auto simp: judge_revalidation_def Let_def observes_def with_effect_def exact_readback_def claims_def)
  qed
  then show "observes probe v env u" "confirmed \<longleftrightarrow> exact_readback probe v" by simp_all
qed

lemma revalidate_decide_evolves:
  "evolves (only_at i e (observes probe v)) progresses no_attempt e
     (snd (revalidate_decide now decided epoch i before floor probe v (report, e)))"
proof -
  have "observes probe v env (fst (judge_revalidation now epoch floor probe v env))" for env
    using judge_revalidation_cases(1) by (metis prod_cases4 fst_conv)
  note o = this
  have d: "snd (revalidate_decide now decided epoch i before floor probe v (report, e)) =
    (case find_envelope_locked i e of None \<Rightarrow> e
     | Some env \<Rightarrow>
         if \<not> revalidation_due decided env then e
         else (case commit_records_locked
                 [stage_envelope (fst (judge_revalidation now epoch floor probe v env)) JT_EnvelopeStateChange] e of
             (Inl _, e1) \<Rightarrow> e1
           | (Inr _, e1) \<Rightarrow>
               push_event_locked (env_reason (fst (judge_revalidation now epoch floor probe v env))) i
                 (env_generation (fst (judge_revalidation now epoch floor probe v env))) (StrongId 0)
                 (assign_envelope i (fst (judge_revalidation now epoch floor probe v env)) e1)))"
    by (simp add: revalidate_decide_def Let_def split: prod.splits option.splits sum.splits)
  show ?thesis
    unfolding d using evolves_durability [OF evolves_refl commit_records_frame] o
    by (fastforce simp: only_at_def split: option.splits prod.splits sum.splits
          intro!: evolves_event evolves_assign_envelope)
qed

end
