(* ===== verification/Engine_Steps.thy ===== *)
theory Engine_Steps
  imports Engine_Frames
begin

text \<open>
  The engine under concurrent use.  A state of the system is the engine with the
  operations that have released its lock and still have sections to run; a step is one
  section, with an arbitrary clock reading, an arbitrary report of a backend and an
  arbitrary readback, so that the runs of this relation are all interleavings.  What every
  reachable state satisfies is proved by rule induction: an enforceable rate is within
  every authority that funds it, no two dispatches of one kind are in flight for an
  envelope, and every claim of an effect has been read back.
\<close>

section \<open>Calls with one section\<close>

datatype 'b Call =
    Authority AuthorityUpdate
  | AdvanceEpoch "u64 \<Rightarrow> TimestampNs" FabricEpoch ActorContext
  | BindBackend "('b BackendOps \<times> 'b) option" FabricEpoch
  | MarkSessionLost ActorContext
  | OpenEnvelope TimestampNs EnvelopeRequest ActorContext
  | Authorize TimestampNs RateEnvelopeId ActorContext
  | ConsumeBurst TimestampNs RateEnvelopeId u64
  | CancelAttempt TimestampNs EnforcementAttemptId ReasonCode ActorContext
  | AbandonAttempt TimestampNs EnforcementAttemptId ReasonCode ActorContext
  | Tick TimestampNs
  | Shutdown TimestampNs
  | Demote TimestampNs ActorContext
  | DrainEvents nat
  | BackendMoves "('b BackendOps \<times> 'b) option"

primrec run_call :: "'b Call \<Rightarrow> 'b Engine \<Rightarrow> 'b Engine" where
  "run_call (Authority u) e = snd (run_authority u e)"
| "run_call (AdvanceEpoch clock ep actor) e = snd (advance_epoch clock ep actor e)"
| "run_call (BindBackend b ep) e = bind_backend b ep e"
| "run_call (MarkSessionLost actor) e = snd (mark_session_lost actor e)"
| "run_call (OpenEnvelope now req actor) e = snd (open_envelope now req actor e)"
| "run_call (Authorize now i actor) e = snd (authorize now i actor e)"
| "run_call (ConsumeBurst now i n) e = snd (consume_burst now i n e)"
| "run_call (CancelAttempt now j r actor) e = snd (cancel_attempt now j r actor e)"
| "run_call (AbandonAttempt now j r actor) e = snd (abandon_attempt now j r actor e)"
| "run_call (Tick now) e = snd (tick now e)"
| "run_call (Shutdown now) e = snd (shutdown now e)"
| "run_call (Demote now actor) e = snd (snd (demote_for_recovery now actor e))"
| "run_call (DrainEvents n) e = snd (drain_events n e)"
| "run_call (BackendMoves b) e = e\<lparr>eng_backend := b\<rparr>"

text \<open>
  Two counters wrap after \<open>2 ^ 64\<close> uses: the generation of an authority and the number of
  the next envelope.  The relation stops before.
\<close>

definition in_range :: "'b Call \<Rightarrow> 'b Engine \<Rightarrow> bool" where
  "in_range c e \<longleftrightarrow>
     (case c of Authority u \<Rightarrow> advances u
      | OpenEnvelope now req actor \<Rightarrow> eng_next_envelope_id e \<noteq> kU64Max | _ \<Rightarrow> True)"

section \<open>Operations in progress\<close>

datatype Task =
    ApplyTask RateEnvelopeId EnforcementAttemptId ApplyRequest
  | ReadbackTask RateEnvelopeId EnforcementAttemptId ApplyRequest
  | RevokeTask RateEnvelopeId EnforcementAttemptId
  | RevokeReadbackTask RateEnvelopeId EnforcementAttemptId EnvelopeState
  | RevalidateTask RateEnvelopeId EnvelopeState u64 ApplyRequest FabricEpoch

record 'b System =
  sys_engine :: "'b Engine"
  sys_tasks :: "Task list"

abbreviation system :: "'b Engine \<Rightarrow> Task list \<Rightarrow> 'b System" where
  "system e ts \<equiv> \<lparr>sys_engine = e, sys_tasks = ts\<rparr>"

text \<open>What an operation leaves to do when its section ends.\<close>

fun after_apply :: "RateEnvelopeId \<Rightarrow> (ApplyDispatch, ApplyRequest) PhaseOne \<Rightarrow> Task list" where
  "after_apply i (PhaseProceed d request) = [ApplyTask i (ar_attempt request) request]"
| "after_apply i _ = []"

fun after_revoke :: "RateEnvelopeId \<Rightarrow> (RevokeDispatch, RevokeRequest) PhaseOne \<Rightarrow> Task list" where
  "after_revoke i (PhaseProceed d request) = [RevokeTask i (rr_attempt request)]"
| "after_revoke i _ = []"

inductive step :: "'b System \<Rightarrow> 'b System \<Rightarrow> bool" where
  call: "in_range c e \<Longrightarrow> step (system e ts) (system (run_call c e) ts)"
| apply_begin:
    "apply_phase_one now i actor e = (r, e1) \<Longrightarrow> step (system e ts) (system e1 (after_apply i r @ ts))"
| complete_begin:
    "find_attempt_locked j e = Some a \<Longrightarrow> att_kind a = AttemptKind_Apply
     \<Longrightarrow> find_envelope_locked (att_envelope a) e = Some env
     \<Longrightarrow> step (system e ts) (system e (ApplyTask (att_envelope a) j (make_apply_request env a) # ts))"
| apply_report:
    "ApplyTask i j request \<in> set ts \<Longrightarrow> finish_apply_report now i j report e = (r, e1)
     \<Longrightarrow> step (system e ts)
           (system e1 ((if r = None then [ReadbackTask i j request] else [])
                       @ remove1 (ApplyTask i j request) ts))"
| apply_readback:
    "ReadbackTask i j request \<in> set ts \<Longrightarrow> finish_apply_verified now i j request v e = (r, e1)
     \<Longrightarrow> step (system e ts) (system e1 (remove1 (ReadbackTask i j request) ts))"
| revoke_begin:
    "revoke_phase_one now i reason actor e = (r, e1)
     \<Longrightarrow> step (system e ts) (system e1 (after_revoke i r @ ts))"
| complete_revoke_begin:
    "find_attempt_locked j e = Some a \<Longrightarrow> att_kind a = AttemptKind_Revoke
     \<Longrightarrow> find_envelope_locked (att_envelope a) e = Some env
     \<Longrightarrow> step (system e ts) (system e (RevokeTask (att_envelope a) j # ts))"
| revoke_report:
    "RevokeTask i j \<in> set ts \<Longrightarrow> finish_revoke_report now i j report e = (r, e1)
     \<Longrightarrow> step (system e ts)
           (system e1 ((case r of Inl _ \<Rightarrow> [] | Inr probe \<Rightarrow> [RevokeReadbackTask i j before])
                       @ remove1 (RevokeTask i j) ts))"
| revoke_readback:
    "RevokeReadbackTask i j before \<in> set ts \<Longrightarrow> finish_revoke_verified now i j v before e = (r, e1)
     \<Longrightarrow> step (system e ts) (system e1 (remove1 (RevokeReadbackTask i j before) ts))"
| revalidate_begin:
    "find_envelope_locked i e = Some env \<Longrightarrow> revalidation_due now env
     \<Longrightarrow> step (system e ts)
           (system e (RevalidateTask i (env_state env) (plan_floor_ups (env_plan env))
                        (revalidation_probe epoch boot env) epoch # ts))"
| revalidate_end:
    "RevalidateTask i before floor probe epoch \<in> set ts
     \<Longrightarrow> revalidate_decide now decided epoch i before floor probe v (report, e) = (report1, e1)
     \<Longrightarrow> step (system e ts) (system e1 (remove1 (RevalidateTask i before floor probe epoch) ts))"

text \<open>A system starts from a constructed engine.\<close>

inductive reachable :: "'b System \<Rightarrow> bool" where
  start: "reachable (system (rate_governor config backend journal) [])"
| step: "reachable s \<Longrightarrow> step s s1 \<Longrightarrow> reachable s1"

section \<open>Rates that an authority funds\<close>

definition generation_seen :: "('x \<Rightarrow> Generation) \<Rightarrow> 'x table \<Rightarrow> u64 \<Rightarrow> Generation \<Rightarrow> bool" where
  "generation_seen gen m k g \<longleftrightarrow> (\<exists>x. table_find m k = Some x \<and> g \<le> gen x)"

definition generation_current :: "('x \<Rightarrow> Generation) \<Rightarrow> 'x table \<Rightarrow> u64 \<Rightarrow> Generation \<Rightarrow> bool" where
  "generation_current gen m k g \<longleftrightarrow> (\<exists>x. table_find m k = Some x \<and> gen x = g)"

lemma generation_seen_superseded:
  assumes "superseded gen m m1" "generation_seen gen m k g"
  shows "generation_seen gen m1 k g"
  using assms unfolding superseded_def generation_seen_def by (metis less_imp_le order_trans)

lemma generation_current_superseded:
  assumes "superseded gen m m1" "generation_seen gen m k g" "generation_current gen m1 k g"
  shows "table_find m1 k = table_find m k"
  using assms unfolding superseded_def generation_seen_def generation_current_def
  by (metis leD option.inject)

definition binding_seen :: "RateEnvelope \<Rightarrow> 'b Engine \<Rightarrow> bool" where
  "binding_seen env e \<longleftrightarrow>
     generation_seen grant_generation (eng_grants e) (id_value (env_grant env)) (env_grant_generation env)
     \<and> generation_seen policy_generation (eng_policies e) (id_value (env_policy env)) (env_policy_generation env)
     \<and> generation_seen resource_generation (eng_resources e) (id_value (env_resource env)) (env_resource_generation env)
     \<and> generation_seen backend_generation (eng_backends e) (id_value (env_backend env)) (env_backend_generation env)
     \<and> (env_has_reservation env \<longrightarrow>
          generation_seen reservation_generation (eng_reservations e) (id_value (env_reservation env))
            (env_reservation_generation env))"

definition binding_current :: "RateEnvelope \<Rightarrow> 'b Engine \<Rightarrow> bool" where
  "binding_current env e \<longleftrightarrow>
     generation_current grant_generation (eng_grants e) (id_value (env_grant env)) (env_grant_generation env)
     \<and> generation_current policy_generation (eng_policies e) (id_value (env_policy env)) (env_policy_generation env)
     \<and> generation_current resource_generation (eng_resources e) (id_value (env_resource env)) (env_resource_generation env)
     \<and> generation_current backend_generation (eng_backends e) (id_value (env_backend env)) (env_backend_generation env)
     \<and> (env_has_reservation env \<longrightarrow>
          generation_current reservation_generation (eng_reservations e) (id_value (env_reservation env))
            (env_reservation_generation env))"

definition rate_limit :: "RateEnvelope \<Rightarrow> 'b Engine \<Rightarrow> u64" where
  "rate_limit env e = Min (set (declared_ceilings (make_plan_inputs_locked env e)))"

text \<open>
  A rate is funded when, while the generations that the envelope binds are current, no
  authority of them declares less; the bound generations have been seen, so that only
  the same definitions can make them current.
\<close>

definition funded :: "'b Engine \<Rightarrow> RateEnvelope \<Rightarrow> u64 \<Rightarrow> bool" where
  "funded e env rate \<longleftrightarrow>
     rate = 0 \<or> binding_seen env e \<and> (binding_current env e \<longrightarrow> rate \<le> rate_limit env e)"

lemma funded_zero [simp]: "funded e env 0"
  by (simp add: funded_def)

lemma funded_less: "funded e env rate \<Longrightarrow> rate1 \<le> rate \<Longrightarrow> funded e env rate1"
  unfolding funded_def by (auto simp: le_less_trans)

lemma funded_binding:
  assumes "binding u = binding env"
  shows "funded e u rate = funded e env rate"
  using assms
  by (simp add: funded_def binding_seen_def binding_current_def rate_limit_def
        make_plan_inputs_locked_def binding_def)

lemma funded_frame: "authority_frame e e1 \<Longrightarrow> funded e1 env rate = funded e env rate"
  by (simp add: authority_frame_def funded_def binding_seen_def binding_current_def rate_limit_def
        make_plan_inputs_locked_def declared_ceilings_def)

lemma binding_current_superseded:
  assumes "authorities_advanced e e1" "binding_seen env e" "binding_current env e1"
  shows "binding_current env e" "rate_limit env e1 = rate_limit env e"
proof -
  have g: "table_find (eng_grants e1) (id_value (env_grant env)) = table_find (eng_grants e) (id_value (env_grant env))"
    and p: "table_find (eng_policies e1) (id_value (env_policy env)) = table_find (eng_policies e) (id_value (env_policy env))"
    and r: "table_find (eng_resources e1) (id_value (env_resource env)) = table_find (eng_resources e) (id_value (env_resource env))"
    and b: "table_find (eng_backends e1) (id_value (env_backend env)) = table_find (eng_backends e) (id_value (env_backend env))"
    and s: "env_has_reservation env \<Longrightarrow> table_find (eng_reservations e1) (id_value (env_reservation env))
          = table_find (eng_reservations e) (id_value (env_reservation env))"
    using assms unfolding authorities_advanced_def binding_seen_def binding_current_def
    by (blast intro: generation_current_superseded)+
  show "binding_current env e"
    using assms(3) s unfolding binding_current_def generation_current_def g p r b by auto
  have "declared_ceilings (make_plan_inputs_locked env e1) = declared_ceilings (make_plan_inputs_locked env e)"
    using s by (cases "env_has_reservation env")
      (simp_all add: make_plan_inputs_locked_def declared_ceilings_def g p r b)
  then show "rate_limit env e1 = rate_limit env e" by (simp add: rate_limit_def)
qed

lemma funded_advanced:
  assumes "authorities_advanced e e1" "funded e env rate"
  shows "funded e1 env rate"
proof -
  have "binding_seen env e1" if "binding_seen env e"
    using that assms(1) unfolding authorities_advanced_def binding_seen_def
    by (blast intro: generation_seen_superseded)
  then show ?thesis
    using assms(2) binding_current_superseded [OF assms(1), of env] unfolding funded_def by auto
qed

lemma funded_plan:
  assumes "po_authorized (derive_plan_locked env now e)"
  shows "funded e env (plan_ceiling_ups (po_plan (derive_plan_locked env now e)))"
proof -
  note c = derive_plan_authorized_cases [OF assms [unfolded derive_plan_locked_def]]
  have "plan_ceiling_ups (po_plan (derive_plan_locked env now e)) = rate_limit env e"
    by (simp add: derive_plan_locked_def plan_ceiling_ups_def derive_plan_legal(2) [OF c]
          published_effective rate_limit_def input_ceiling_min)
  moreover have "binding_seen env e"
    using c(1) by (auto simp: plan_legal_def make_plan_inputs_locked_def binding_seen_def generation_seen_def)
  ultimately show ?thesis by (simp add: funded_def)
qed

section \<open>The invariant\<close>

definition envelope_ok :: "'b Engine \<Rightarrow> RateEnvelope \<Rightarrow> bool" where
  "envelope_ok e env \<longleftrightarrow>
     bucket_ok (env_bucket env) \<and> funded e env (plan_ceiling_ups (env_plan env))
     \<and> (env_effect_verified env \<longrightarrow> funded e env (env_applied_rate_ups env))"

definition envelopes_ok :: "'b Engine \<Rightarrow> bool" where
  "envelopes_ok e \<longleftrightarrow>
     keyed envelope_key (eng_envelopes e)
     \<and> (\<forall>k env. table_find (eng_envelopes e) k = Some env \<longrightarrow>
          k < eng_next_envelope_id e \<and> envelope_ok e env)"

definition one_in_flight :: "EnforcementAttempt table \<Rightarrow> bool" where
  "one_in_flight m \<longleftrightarrow>
     (\<forall>k k1 a b. table_find m k = Some a \<longrightarrow> table_find m k1 = Some b
        \<longrightarrow> attempt_inflight (att_state a) \<longrightarrow> attempt_inflight (att_state b)
        \<longrightarrow> att_idempotency_key a = att_idempotency_key b \<longrightarrow> k = k1)"

definition attempts_ok :: "'b Engine \<Rightarrow> bool" where
  "attempts_ok e \<longleftrightarrow>
     keyed attempt_key (eng_attempts e)
     \<and> (\<forall>k a. table_find (eng_attempts e) k = Some a \<longrightarrow>
          att_idempotency_key a
          = compute_idempotency_key (att_envelope a) (att_envelope_generation a) (att_kind a))
     \<and> one_in_flight (eng_attempts e)"

text \<open>An operation in progress asks for a rate that is funded for its envelope.\<close>

definition request_ok :: "'b Engine \<Rightarrow> RateEnvelopeId \<Rightarrow> ApplyRequest \<Rightarrow> bool" where
  "request_ok e i request \<longleftrightarrow>
     (\<exists>env. find_envelope_locked i e = Some env \<and> funded e env (ar_rate_ups request))"

fun task_ok :: "'b Engine \<Rightarrow> Task \<Rightarrow> bool" where
  "task_ok e (ApplyTask i j request) = request_ok e i request"
| "task_ok e (ReadbackTask i j request) = request_ok e i request"
| "task_ok e (RevalidateTask i before floor probe epoch) = request_ok e i probe"
| "task_ok e _ = True"

definition system_ok :: "'b System \<Rightarrow> bool" where
  "system_ok s \<longleftrightarrow>
     envelopes_ok (sys_engine s) \<and> attempts_ok (sys_engine s)
     \<and> (\<forall>t \<in> set (sys_tasks s). task_ok (sys_engine s) t)"

subsection \<open>How the parts of the invariant move\<close>

text \<open>A permitted change of an envelope keeps its binding and what is funded for it.\<close>

definition sound_change :: "'b Engine \<Rightarrow> RateEnvelope \<Rightarrow> RateEnvelope \<Rightarrow> bool" where
  "sound_change e env u \<longleftrightarrow> binding u = binding env \<and> (envelope_ok e env \<longrightarrow> envelope_ok e u)"

lemma sound_settles:
  assumes "settles e env u"
  shows "sound_change e env u"
proof -
  have b: "binding u = binding env" using assms by (simp add: settles_def)
  show ?thesis
    using assms funded_plan [of env _ e]
    by (auto simp: settles_def sound_change_def envelope_ok_def funded_binding [OF b])
qed

lemma sound_quiet: "quiet env u \<Longrightarrow> sound_change e env u"
  by (rule sound_settles [OF quiet_settles])

lemma sound_observes:
  assumes "observes request v env u" "funded e env (ar_rate_ups request)"
  shows "sound_change e env u"
proof (cases "quiet env u")
  case False
  then have b: "binding u = binding env" using assms by (simp add: observes_def)
  show ?thesis
    using False assms funded_less [OF assms(2)]
    by (simp add: observes_def sound_change_def envelope_ok_def funded_binding [OF b])
qed (rule sound_quiet)

lemma binding_id: "binding u = binding env \<Longrightarrow> env_id u = env_id env"
  by (simp add: binding_def)

lemma keyed_reworks:
  assumes "keyed key m" "reworks P m m1" "\<And>v w. P v w \<Longrightarrow> key w = key v"
  shows "keyed key m1"
  unfolding keyed_def
proof (intro conjI ballI, safe)
  show ok: "table_ok m1" using assms(1,2) by (simp add: keyed_def reworks_def)
  fix k w assume "(k, w) \<in> set m1"
  then obtain v where "table_find m k = Some v" "w = v \<or> P v w"
    using reworks_find [OF assms(2) table_entry_find [OF ok]] by metis
  then show "key w = k" using keyed_find [OF assms(1)] assms(3) by metis
qed

lemma keyed_arises:
  assumes "keyed key m" "arises Q N m m1" "\<And>v w. Q v w \<Longrightarrow> key w = key v" "\<And>k w. N k w \<Longrightarrow> key w = k"
  shows "keyed key m1"
  unfolding keyed_def
proof (intro conjI ballI, safe)
  show ok: "table_ok m1" using assms(1,2) by (simp add: keyed_def arises_def)
  fix k w assume "(k, w) \<in> set m1"
  then have "N k w \<or> (\<exists>v. table_find m k = Some v \<and> (w = v \<or> Q v w))"
    using assms(2) table_entry_find [OF ok] unfolding arises_def by blast
  then show "key w = k" using keyed_find [OF assms(1)] assms(3,4) by metis
qed

lemma envelopes_ok_evolves:
  assumes "envelopes_ok e" "evolves P Q N e e1" "\<And>env u. P env u \<Longrightarrow> sound_change e env u"
  shows "envelopes_ok e1"
proof -
  have f: "authority_frame e e1" and r: "reworks P (eng_envelopes e) (eng_envelopes e1)"
    using assms(2) by (simp_all add: evolves_def)
  have "k < eng_next_envelope_id e1 \<and> envelope_ok e1 u" if u: "table_find (eng_envelopes e1) k = Some u" for k u
  proof -
    obtain env where env: "table_find (eng_envelopes e) k = Some env" "u = env \<or> P env u"
      using reworks_find [OF r u] by blast
    then have "k < eng_next_envelope_id e" "envelope_ok e u"
      using assms(1,3) unfolding envelopes_ok_def sound_change_def by blast+
    then show ?thesis using f by (simp add: envelope_ok_def funded_frame [OF f] authority_frame_def)
  qed
  moreover have "keyed envelope_key (eng_envelopes e1)"
  proof (rule keyed_reworks [OF _ r])
    show "keyed envelope_key (eng_envelopes e)" using assms(1) by (simp add: envelopes_ok_def)
    show "envelope_key u = envelope_key env" if "P env u" for env u
      using assms(3) [OF that] binding_id [of u env] by (simp add: sound_change_def)
  qed
  ultimately show ?thesis by (simp add: envelopes_ok_def)
qed

lemma task_ok_evolves:
  assumes "task_ok e t" "evolves P Q N e e1" "\<And>env u. P env u \<Longrightarrow> sound_change e env u"
  shows "task_ok e1 t"
proof -
  have f: "authority_frame e e1" and r: "reworks P (eng_envelopes e) (eng_envelopes e1)"
    using assms(2) by (simp_all add: evolves_def)
  have "request_ok e1 i request" if "request_ok e i request" for i request
  proof -
    from that obtain env where env: "table_find (eng_envelopes e) (id_value i) = Some env"
      "funded e env (ar_rate_ups request)"
      unfolding request_ok_def find_envelope_locked_def by blast
    obtain u where "table_find (eng_envelopes e1) (id_value i) = Some u" "u = env \<or> P env u"
      using reworks_find_old [OF r env(1)] by blast
    moreover from this have b: "binding u = binding env" using assms(3) by (auto simp: sound_change_def)
    ultimately show ?thesis
      using env(2) by (simp add: request_ok_def find_envelope_locked_def funded_frame [OF f] funded_binding [OF b])
  qed
  with assms(1) show ?thesis by (cases t) simp_all
qed

lemma find_inflight_None:
  assumes "table_ok (eng_attempts e)" "find_inflight key e = None" "table_find (eng_attempts e) k = Some a"
  shows "\<not> (att_idempotency_key a = key \<and> attempt_inflight (att_state a))"
  using assms(2) table_find_entry [OF assms(3)]
  by (fastforce simp: find_inflight_def find_None_iff)

lemma attempts_ok_evolves:
  assumes "attempts_ok e" "evolves P progresses N e e1" "\<And>k a. N k a \<Longrightarrow> opens_attempt e k a"
  shows "attempts_ok e1"
proof -
  have keyed: "keyed attempt_key (eng_attempts e)" and one: "one_in_flight (eng_attempts e)"
    using assms(1) by (simp_all add: attempts_ok_def)
  have r: "arises progresses N (eng_attempts e) (eng_attempts e1)" using assms(2) by (simp add: evolves_def)
  have origin: "N k b \<or> (\<exists>a. table_find (eng_attempts e) k = Some a \<and> (b = a \<or> progresses a b))"
    if "table_find (eng_attempts e1) k = Some b" for k b
    using r that unfolding arises_def by blast
  have same: "att_idempotency_key b = att_idempotency_key a \<and> att_envelope b = att_envelope a
      \<and> att_envelope_generation b = att_envelope_generation a \<and> att_kind b = att_kind a
      \<and> (attempt_inflight (att_state b) \<longrightarrow> attempt_inflight (att_state a))"
    if "b = a \<or> progresses a b" for a b
    using that by (auto simp: progresses_def attempt_identity_def)
  have clash: False
    if "N k b" "table_find (eng_attempts e) k1 = Some a" "attempt_inflight (att_state a)"
      "att_idempotency_key a = att_idempotency_key b" for k b k1 a
    using assms(3) [OF that(1)] find_inflight_None [OF keyed_ok [OF keyed] _ that(2)] that(3,4)
    unfolding opens_attempt_def by metis
  have "k = k1"
    if x: "table_find (eng_attempts e1) k = Some a" "table_find (eng_attempts e1) k1 = Some b"
      "attempt_inflight (att_state a)" "attempt_inflight (att_state b)"
      "att_idempotency_key a = att_idempotency_key b" for k k1 a b
  proof -
    consider "N k a" "N k1 b" | (l) "N k a" "\<not> N k1 b" | (r) "\<not> N k a" "N k1 b" | (n) "\<not> N k a" "\<not> N k1 b"
      by blast
    then show ?thesis
    proof cases
      case 1 then show ?thesis using assms(3) unfolding opens_attempt_def by metis
    next
      case l
      then show ?thesis using origin [OF x(2)] same [of b] clash [OF l(1)] x(4,5) by metis
    next
      case r
      then show ?thesis using origin [OF x(1)] same [of a] clash [OF r(2)] x(3,5) by metis
    next
      case n
      obtain a0 where a0: "table_find (eng_attempts e) k = Some a0" "a = a0 \<or> progresses a0 a"
        using origin [OF x(1)] n by blast
      obtain b0 where b0: "table_find (eng_attempts e) k1 = Some b0" "b = b0 \<or> progresses b0 b"
        using origin [OF x(2)] n by blast
      show ?thesis
        using one a0(1) b0(1) same [OF a0(2)] same [OF b0(2)] x(3-5) unfolding one_in_flight_def by metis
    qed
  qed
  then have "one_in_flight (eng_attempts e1)" unfolding one_in_flight_def by blast
  moreover have "att_idempotency_key b
      = compute_idempotency_key (att_envelope b) (att_envelope_generation b) (att_kind b)"
    if b: "table_find (eng_attempts e1) k = Some b" for k b
    using origin [OF b] assms(1,3) same [of b] unfolding attempts_ok_def opens_attempt_def by metis
  moreover have "keyed attempt_key (eng_attempts e1)"
    by (rule keyed_arises [OF keyed r]) (use assms(3) in \<open>auto simp: progress_id opens_attempt_def\<close>)
  ultimately show ?thesis by (simp add: attempts_ok_def)
qed

subsection \<open>Calls\<close>

lemma run_authority_governed:
  "eng_envelopes (snd (run_authority u e)) = eng_envelopes e"
  "eng_attempts (snd (run_authority u e)) = eng_attempts e"
  "eng_next_envelope_id (snd (run_authority u e)) = eng_next_envelope_id e"
  by (cases u;
      auto simp: put_flow_def put_grant_def put_reservation_def put_policy_def put_resource_def
        put_backend_def change_grant_state_def change_reservation_state_def change_policy_state_def
        change_resource_state_def ingest_cases refuse_intake_def refuse_actor_def Let_def
        only_durability_fields [OF commit_one_frame]
        split: option.splits prod.splits sum.splits)+

lemma system_ok_authority:
  assumes "system_ok (system e ts)" "advances u"
  shows "system_ok (system (snd (run_authority u e)) ts)"
proof -
  let ?e = "snd (run_authority u e)"
  note f = funded_advanced [OF run_authority_advances [OF assms(2)], of e]
  have "envelope_ok ?e env" if "envelope_ok e env" for env
    using that f by (auto simp: envelope_ok_def)
  moreover have "task_ok ?e t" if "task_ok e t" for t
    using that f
    by (cases t) (auto simp: request_ok_def find_envelope_locked_def run_authority_governed)
  ultimately show ?thesis
    using assms(1)
    by (simp add: system_ok_def envelopes_ok_def attempts_ok_def run_authority_governed)
qed

lemma system_ok_evolves:
  assumes "system_ok (system e ts)" "evolves P progresses N e e1"
    and "\<And>env u. P env u \<Longrightarrow> sound_change e env u" "\<And>k a. N k a \<Longrightarrow> opens_attempt e k a"
    and "set ts1 \<subseteq> set ts \<union> set new"
    and "envelopes_ok e1 \<Longrightarrow> attempts_ok e1 \<Longrightarrow> (\<forall>t \<in> set ts. task_ok e1 t) \<Longrightarrow> \<forall>t \<in> set new. task_ok e1 t"
  shows "system_ok (system e1 ts1)"
proof -
  have "envelopes_ok e1" "attempts_ok e1"
    using assms(1) envelopes_ok_evolves [OF _ assms(2,3)] attempts_ok_evolves [OF _ assms(2,4)]
    by (simp_all add: system_ok_def)
  moreover have "\<forall>t \<in> set ts. task_ok e1 t"
    using assms(1) task_ok_evolves [OF _ assms(2,3)] by (simp add: system_ok_def)
  ultimately show ?thesis using assms(5,6) by (auto simp: system_ok_def)
qed

lemmas system_ok_quiet = system_ok_evolves [where P = quiet and new = "[]" and N = no_attempt, OF _ _ sound_quiet]

lemma open_envelope_result:
  fixes e :: "'b Engine" and now :: TimestampNs and req :: EnvelopeRequest and actor :: ActorContext
  defines "e1 \<equiv> snd (open_envelope now req actor e)" and "n \<equiv> eng_next_envelope_id e"
  shows "authority_frame e (e1\<lparr>eng_next_envelope_id := n\<rparr>) \<and> eng_attempts e1 = eng_attempts e
    \<and> (eng_envelopes e1 = eng_envelopes e \<and> (eng_next_envelope_id e1 = n \<or> eng_next_envelope_id e1 = n + 1)
       \<or> eng_envelopes e1 = table_put n (opened_envelope req now e) (eng_envelopes e)
          \<and> eng_next_envelope_id e1 = n + 1)"
proof (cases "refuse_intake actor e :: (RateEnvelopeId Result \<times> _) option")
  case (Some x)
  then show ?thesis
    unfolding e1_def n_def open_envelope_def
    by (auto simp: refuse_intake_def refuse_actor_def reject_shutdown_def authority_frame_def
          split: if_splits option.splits)
next
  case None
  have "envelope_key (opened_envelope req now e) = n" by (simp add: opened_envelope_def n_def)
  with None show ?thesis
    unfolding e1_def n_def open_envelope_def
    by (auto simp: Let_def authority_frame_def only_durability_fields [OF commit_one_frame]
          split: option.splits prod.splits sum.splits)
qed

lemma next_number: "(n :: u64) \<noteq> kU64Max \<Longrightarrow> k < n \<Longrightarrow> k < n + 1"
  using next_generation [of "StrongId n"] by (auto simp: less_StrongId_def)

lemma opened_ok: "envelope_ok e (opened_envelope req now e0)"
  by (simp add: envelope_ok_def opened_envelope_def empty_envelope_def empty_plan_def
        plan_ceiling_ups_def empty_fingerprint_def)

lemma system_ok_open:
  assumes "system_ok (system e ts)" "eng_next_envelope_id e \<noteq> kU64Max"
  shows "system_ok (system (snd (open_envelope now req actor e)) ts)"
proof -
  define e1 where "e1 = snd (open_envelope now req actor e)"
  define n where "n = eng_next_envelope_id e"
  define env where "env = opened_envelope req now e"
  note r = open_envelope_result [of e now req actor, folded e1_def n_def env_def]
  have "authority_frame e (e1\<lparr>eng_next_envelope_id := n\<rparr>)" using r by blast
  then have f: "funded e1 x rate = funded e x rate" for x rate
    using funded_frame [of e "e1\<lparr>eng_next_envelope_id := n\<rparr>" x rate]
    by (simp add: funded_def binding_seen_def binding_current_def rate_limit_def make_plan_inputs_locked_def
          declared_ceilings_def)
  have old: "keyed envelope_key (eng_envelopes e)"
    "\<And>k x. table_find (eng_envelopes e) k = Some x \<Longrightarrow> k < n \<and> envelope_ok e x"
    using assms(1) by (simp_all add: system_ok_def envelopes_ok_def n_def)
  have le: "k < eng_next_envelope_id e1" if "k < n" for k
    using r next_number [OF assms(2) [folded n_def] that] that by auto
  have new: "n < n + 1" "envelope_key env = n"
    using next_generation [of "StrongId n"] assms(2)
    by (simp_all add: n_def less_StrongId_def env_def opened_envelope_def)
  have find: "table_find (eng_envelopes e1) k = Some x \<Longrightarrow>
      table_find (eng_envelopes e) k = Some x \<or> k = n \<and> x = env \<and> eng_next_envelope_id e1 = n + 1" for k x
    using r by (auto split: if_splits)
  have keep: "table_find (eng_envelopes e) k = Some x \<Longrightarrow> table_find (eng_envelopes e1) k = Some x" for k x
    using r old(2) [of k x] by auto
  have "envelopes_ok e1"
    unfolding envelopes_ok_def
  proof (intro conjI allI impI)
    show "keyed envelope_key (eng_envelopes e1)" using r old(1) keyed_put [OF old(1) new(2)] by auto
    fix k x assume "table_find (eng_envelopes e1) k = Some x"
    from find [OF this] show "k < eng_next_envelope_id e1" "envelope_ok e1 x"
      using old(2) le new(1) opened_ok [of e1 req now e] by (auto simp: envelope_ok_def f env_def)
  qed
  moreover have "task_ok e1 t" if "task_ok e t" for t
    using that keep by (cases t) (auto simp: request_ok_def find_envelope_locked_def f)
  ultimately show ?thesis
    using assms(1) r by (simp add: system_ok_def attempts_ok_def e1_def [symmetric])
qed

lemma system_ok_call:
  assumes "system_ok (system e ts)" "in_range c e"
  shows "system_ok (system (run_call c e) ts)"
proof -
  have k: "keyed envelope_key (eng_envelopes e)" "keyed attempt_key (eng_attempts e)"
    using assms(1) by (simp_all add: system_ok_def envelopes_ok_def attempts_ok_def)
  note quiet = system_ok_quiet [OF assms(1)]
  show ?thesis
  proof (cases c)
    case (Authority u)
    then show ?thesis using assms system_ok_authority [of e ts u] by (simp add: in_range_def)
  next
    case (OpenEnvelope now req actor)
    then show ?thesis using assms system_ok_open [of e ts] by (simp add: in_range_def)
  next
    case (Authorize now i actor)
    show ?thesis
      unfolding Authorize run_call.simps
      by (rule system_ok_evolves [OF assms(1) authorize_evolves sound_settles, where new = "[]"]) simp_all
  next
    case (DrainEvents n)
    then show ?thesis
      by (auto simp: drain_events_def intro!: quiet evolves_updates)
  next
    case (BackendMoves b)
    then show ?thesis by (auto intro!: quiet evolves_updates)
  qed (auto intro!: quiet advance_epoch_evolves bind_backend_evolves mark_session_lost_evolves
         consume_burst_evolves cancel_attempt_evolves abandon_attempt_evolves tick_evolves
         shutdown_evolves demote_for_recovery_evolves k)
qed

subsection \<open>Sections of longer operations\<close>

lemma apply_phase_one_request:
  assumes "apply_phase_one now i actor e = (PhaseProceed d request, e1)"
  shows "\<exists>u. find_envelope_locked i e1 = Some u \<and> ar_rate_ups request = plan_ceiling_ups (env_plan u)"
  using assms
  by (auto simp: apply_phase_one_def deny_apply_def dispatch_planned_def Let_def make_apply_request_def
        session_refusal_def find_envelope_locked_def dispatching_envelope_def
        split: option.splits if_splits prod.splits sum.splits)

lemma request_ok_own_plan:
  assumes "envelopes_ok e" "find_envelope_locked i e = Some env" "ar_rate_ups request = plan_ceiling_ups (env_plan env)"
  shows "request_ok e i request"
  using assms unfolding request_ok_def envelopes_ok_def envelope_ok_def find_envelope_locked_def by metis

lemma system_ok_step:
  assumes "step s s1" "system_ok s"
  shows "system_ok s1"
  using assms
proof (induction rule: step.induct)
  case (call c e ts)
  then show ?case by (intro system_ok_call)
next
  case (apply_begin now i actor e r e1 ts)
  have ok: "table_ok (eng_attempts e)"
    using apply_begin(2) by (simp add: system_ok_def attempts_ok_def keyed_def)
  have new: "task_ok e1 t" if "envelopes_ok e1" "t \<in> set (after_apply i r)" for t
    using that apply_begin(1) apply_phase_one_request request_ok_own_plan [OF that(1)]
    by (cases r) fastforce+
  show ?case
    using apply_phase_one_evolves [OF ok, of now i actor] new
    by (intro system_ok_evolves [OF apply_begin(2), where new = "after_apply i r" and P = "settles e"
            and N = "opens_attempt e"])
       (auto simp: apply_begin(1) sound_settles)
next
  case (complete_begin j e a env ts)
  have "request_ok e (att_envelope a) (make_apply_request env a)"
    using complete_begin(4) by (intro request_ok_own_plan [OF _ complete_begin(3)])
      (simp_all add: system_ok_def make_apply_request_def)
  with complete_begin(4) show ?case by (simp add: system_ok_def)
next
  case (apply_report i j request ts now report e r e1)
  have "task_ok e (ApplyTask i j request)" using apply_report(1,3) by (auto simp: system_ok_def)
  then show ?case
    using finish_apply_report_evolves [of e now i j report] apply_report(1) set_remove1_subset [of _ ts]
    by (intro system_ok_evolves [OF apply_report(3), where P = quiet and N = no_attempt and new = "if r = None then [ReadbackTask i j request] else []"])
       (auto simp: apply_report(2) sound_quiet)
next
  case (apply_readback i j request ts now v e r e1)
  have "task_ok e (ReadbackTask i j request)" using apply_readback(1,3) by (auto simp: system_ok_def)
  then obtain env where env: "find_envelope_locked i e = Some env" "funded e env (ar_rate_ups request)"
    by (auto simp: request_ok_def)
  show ?case
    using finish_apply_verified_evolves [of i e request v now j] set_remove1_subset [of _ ts] env
    by (intro system_ok_evolves [OF apply_readback(3), where P = "only_at i e (observes request v)" and N = no_attempt and new = "[]"])
       (auto simp: apply_readback(2) only_at_def sound_observes)
next
  case (revoke_begin now i reason actor e r e1 ts)
  have ok: "table_ok (eng_attempts e)"
    using revoke_begin(2) by (simp add: system_ok_def attempts_ok_def keyed_def)
  show ?case
    using revoke_phase_one_evolves [OF ok, of now i reason actor]
    by (intro system_ok_evolves [OF revoke_begin(2), where P = quiet and N = "opens_attempt e" and new = "after_revoke i r"])
       (cases r; auto simp: revoke_begin(1) sound_quiet)+
next
  case (complete_revoke_begin j e a env ts)
  then show ?case by (simp add: system_ok_def)
next
  case (revoke_report i j ts now report e r e1 before)
  show ?case
    using finish_revoke_report_evolves [of e now i j report] set_remove1_subset [of _ ts]
    by (intro system_ok_evolves [OF revoke_report(3), where P = quiet and N = no_attempt and
          new = "case r of Inl _ \<Rightarrow> [] | Inr probe \<Rightarrow> [RevokeReadbackTask i j before]"])
       (auto simp: revoke_report(2) sound_quiet split: sum.splits)
next
  case (revoke_readback i j before ts now v e r e1)
  show ?case
    using finish_revoke_verified_evolves [of e now i j v before] set_remove1_subset [of _ ts]
    by (intro system_ok_evolves [OF revoke_readback(3), where P = quiet and N = no_attempt and new = "[]"])
       (auto simp: revoke_readback(2) sound_quiet)
next
  case (revalidate_begin i e env now ts epoch boot)
  have "request_ok e i (revalidation_probe epoch boot env)"
    using revalidate_begin(3) by (intro request_ok_own_plan [OF _ revalidate_begin(1)])
      (simp_all add: system_ok_def revalidation_probe_def)
  with revalidate_begin(3) show ?case by (simp add: system_ok_def)
next
  case (revalidate_end i before floor probe epoch ts now decided v report e report1 e1)
  have "task_ok e (RevalidateTask i before floor probe epoch)"
    using revalidate_end(1,3) by (auto simp: system_ok_def)
  then obtain env where env: "find_envelope_locked i e = Some env" "funded e env (ar_rate_ups probe)"
    by (auto simp: request_ok_def)
  show ?case
    using revalidate_decide_evolves [of i e probe v now decided epoch before floor report]
      set_remove1_subset [of _ ts] env
    by (intro system_ok_evolves [OF revalidate_end(3), where P = "only_at i e (observes probe v)" and N = no_attempt and new = "[]"])
       (auto simp: revalidate_end(2) only_at_def sound_observes)
qed

lemma constructed_tables:
  "eng_envelopes (rate_governor config backend journal) = []"
  "eng_attempts (rate_governor config backend journal) = []"
  by (auto simp: rate_governor_def write_incarnation_banner_locked_def Let_def
        only_durability_fields [OF commit_one_frame, OF surjective_pairing])

theorem reachable_ok: "reachable s \<Longrightarrow> system_ok s"
proof (induction rule: reachable.induct)
  case (start config backend journal)
  then show ?case
    by (simp add: system_ok_def envelopes_ok_def attempts_ok_def one_in_flight_def constructed_tables)
qed (rule system_ok_step)

section \<open>Claims against an abstract protocol\<close>

text \<open>
  The protocol that the engine implements, without tables, plans, epochs or records: a
  claim that an envelope enforces a rate may be withdrawn at any time, and may be made
  only for a rate that has been asked of a backend and not been settled yet.
\<close>

record Protocol =
  pr_claims :: "u64 \<rightharpoonup> u64"
  pr_outstanding :: "(u64 \<times> u64) set"

inductive protocol_step :: "Protocol \<Rightarrow> Protocol \<Rightarrow> bool" where
  withdraw: "c1 \<subseteq>\<^sub>m c \<Longrightarrow> out1 \<subseteq> insert x out
    \<Longrightarrow> protocol_step \<lparr>pr_claims = c, pr_outstanding = out\<rparr> \<lparr>pr_claims = c1, pr_outstanding = out1\<rparr>"
| confirm: "(i, rate) \<in> out \<Longrightarrow> c1 \<subseteq>\<^sub>m c(i \<mapsto> rate) \<Longrightarrow> out1 \<subseteq> out
    \<Longrightarrow> protocol_step \<lparr>pr_claims = c, pr_outstanding = out\<rparr> \<lparr>pr_claims = c1, pr_outstanding = out1\<rparr>"

definition claimed_rate :: "RateEnvelope \<Rightarrow> u64 option" where
  "claimed_rate env = (if claims env then Some (env_applied_rate_ups env) else None)"

definition engine_claims :: "'b Engine \<Rightarrow> u64 \<rightharpoonup> u64" where
  "engine_claims e k = Option.bind (table_find (eng_envelopes e) k) claimed_rate"

fun task_asks :: "Task \<Rightarrow> (u64 \<times> u64) set" where
  "task_asks (ApplyTask i j request) = {(id_value i, ar_rate_ups request)}"
| "task_asks (ReadbackTask i j request) = {(id_value i, ar_rate_ups request)}"
| "task_asks (RevalidateTask i before floor probe epoch) = {(id_value i, ar_rate_ups probe)}"
| "task_asks _ = {}"

definition protocol_of :: "'b System \<Rightarrow> Protocol" where
  "protocol_of s =
     \<lparr>pr_claims = engine_claims (sys_engine s), pr_outstanding = \<Union> (task_asks ` set (sys_tasks s))\<rparr>"

lemma claims_shrink:
  assumes "evolves P Q N e e1" "\<And>env u. P env u \<Longrightarrow> claimed_rate u = None \<or> claimed_rate u = claimed_rate env"
  shows "engine_claims e1 \<subseteq>\<^sub>m engine_claims e"
  unfolding map_le_def
proof
  fix k assume "k \<in> dom (engine_claims e1)"
  then obtain u where u: "table_find (eng_envelopes e1) k = Some u" "claimed_rate u \<noteq> None"
    by (auto simp: engine_claims_def bind_eq_Some_conv)
  obtain env where "table_find (eng_envelopes e) k = Some env" "u = env \<or> P env u"
    using assms(1) u(1) reworks_find unfolding evolves_def by metis
  with u assms(2) [of env u] show "engine_claims e1 k = engine_claims e k"
    by (auto simp: engine_claims_def)
qed

lemma claims_settles: "settles e env u \<Longrightarrow> claimed_rate u = None \<or> claimed_rate u = claimed_rate env"
  by (auto simp: settles_def claimed_rate_def claims_def)

lemma claims_quiet: "quiet env u \<Longrightarrow> claimed_rate u = None \<or> claimed_rate u = claimed_rate env"
  by (rule claims_settles [OF quiet_settles])

lemma claims_observes:
  "observes request v env u \<Longrightarrow>
   claimed_rate u = None \<or> claimed_rate u = claimed_rate env \<or> claimed_rate u = Some (ar_rate_ups request)"
  using claims_quiet [of env u]
  by (auto simp: observes_def claimed_rate_def claims_def exact_readback_def)

lemma claims_confirmed:
  assumes "keyed envelope_key (eng_envelopes e)" "evolves (only_at i e (observes request v)) Q N e e1"
  shows "engine_claims e1 \<subseteq>\<^sub>m (engine_claims e)(id_value i \<mapsto> ar_rate_ups request)
    \<or> engine_claims e1 \<subseteq>\<^sub>m engine_claims e"
proof -
  have r: "reworks (only_at i e (observes request v)) (eng_envelopes e) (eng_envelopes e1)"
    using assms(2) by (simp add: evolves_def)
  have "engine_claims e1 k = engine_claims e k \<or> engine_claims e1 k = None
      \<or> k = id_value i \<and> engine_claims e1 k = Some (ar_rate_ups request)" for k
  proof (cases "table_find (eng_envelopes e1) k")
    case (Some u)
    then obtain env where env: "table_find (eng_envelopes e) k = Some env"
      "u = env \<or> only_at i e (observes request v) env u"
      using reworks_find [OF r] by metis
    have "k = id_value i" if "find_envelope_locked i e = Some env"
      using that keyed_find [OF assms(1)] env(1) by (metis find_envelope_locked_def)
    with Some env claims_observes [of request v env u] show ?thesis
      by (auto simp: engine_claims_def only_at_def)
  qed (simp add: engine_claims_def)
  then show ?thesis
    unfolding map_le_def by (cases "engine_claims e1 (id_value i) = Some (ar_rate_ups request)")
      (metis domIff fun_upd_apply)+
qed

lemma run_call_claims:
  assumes "system_ok (system e ts)" "in_range c e"
  shows "engine_claims (run_call c e) \<subseteq>\<^sub>m engine_claims e"
proof -
  have k: "keyed envelope_key (eng_envelopes e)" "keyed attempt_key (eng_attempts e)"
    using assms(1) by (simp_all add: system_ok_def envelopes_ok_def attempts_ok_def)
  note quiet = claims_shrink [where P = quiet, OF _ claims_quiet]
  show ?thesis
  proof (cases c)
    case (Authority u)
    then show ?thesis by (simp add: engine_claims_def run_authority_governed map_le_def)
  next
    case (OpenEnvelope now req actor)
    have "claimed_rate (opened_envelope req now e) = None"
      by (simp add: claimed_rate_def claims_def opened_envelope_def empty_envelope_def)
    with open_envelope_result [of e now req actor] OpenEnvelope show ?thesis
      by (auto simp: engine_claims_def map_le_def dom_def split: if_splits)
  next
    case (Authorize now i actor)
    then show ?thesis using claims_shrink [OF authorize_evolves claims_settles] by simp
  next
    case (DrainEvents n)
    then show ?thesis by (simp add: drain_events_def engine_claims_def map_le_def)
  next
    case (BackendMoves b)
    then show ?thesis by (simp add: engine_claims_def map_le_def)
  qed (auto intro!: quiet advance_epoch_evolves bind_backend_evolves mark_session_lost_evolves
         consume_burst_evolves cancel_attempt_evolves abandon_attempt_evolves tick_evolves
         shutdown_evolves demote_for_recovery_evolves k)
qed

lemma protocol_withdraw:
  "pr_claims q \<subseteq>\<^sub>m pr_claims p \<Longrightarrow> pr_outstanding q \<subseteq> insert x (pr_outstanding p) \<Longrightarrow> protocol_step p q"
  by (cases p; cases q) (auto intro: protocol_step.withdraw)

lemma protocol_quiet:
  "pr_claims q \<subseteq>\<^sub>m pr_claims p \<Longrightarrow> pr_outstanding q \<subseteq> pr_outstanding p \<Longrightarrow> protocol_step p q"
  using protocol_withdraw [of q p undefined] by blast

lemma protocol_confirm:
  "pr_claims q \<subseteq>\<^sub>m (pr_claims p)(i \<mapsto> rate) \<or> pr_claims q \<subseteq>\<^sub>m pr_claims p
   \<Longrightarrow> (i, rate) \<in> pr_outstanding p \<Longrightarrow> pr_outstanding q \<subseteq> pr_outstanding p \<Longrightarrow> protocol_step p q"
proof (elim disjE)
  assume "pr_claims q \<subseteq>\<^sub>m (pr_claims p)(i \<mapsto> rate)" "(i, rate) \<in> pr_outstanding p"
    "pr_outstanding q \<subseteq> pr_outstanding p"
  then show ?thesis by (cases p; cases q) (simp add: protocol_step.confirm)
qed (rule protocol_quiet)

lemma remove1_asks: "\<Union> (task_asks ` set (remove1 t ts)) \<subseteq> \<Union> (task_asks ` set ts)"
  using set_remove1_subset [of t ts] by blast

lemma task_asked: "t \<in> set ts \<Longrightarrow> task_asks t \<subseteq> \<Union> (task_asks ` set ts)"
  by blast

lemma step_refines:
  assumes "step s s1" "system_ok s"
  shows "protocol_step (protocol_of s) (protocol_of s1)"
  using assms
proof (induction rule: step.induct)
  case (call c e ts)
  then show ?case by (intro protocol_quiet) (simp_all add: protocol_of_def run_call_claims)
next
  case (apply_begin now i actor e r e1 ts)
  have ok: "table_ok (eng_attempts e)"
    using apply_begin(2) by (simp add: system_ok_def attempts_ok_def keyed_def)
  have "engine_claims e1 \<subseteq>\<^sub>m engine_claims e"
    using claims_shrink [OF apply_phase_one_evolves [OF ok, of now i actor] claims_settles] apply_begin(1) by simp
  then show ?case
  proof (cases r)
    case (PhaseProceed d request)
    with \<open>engine_claims e1 \<subseteq>\<^sub>m engine_claims e\<close> show ?thesis
      by (intro protocol_withdraw [of _ _ "(id_value i, ar_rate_ups request)"]) (simp_all add: protocol_of_def)
  qed (auto intro!: protocol_quiet simp: protocol_of_def)
next
  case (complete_begin j e a env ts)
  then show ?case
    by (intro protocol_withdraw [of _ _ "(id_value (att_envelope a), ar_rate_ups (make_apply_request env a))"])
       (simp_all add: protocol_of_def)
next
  case (apply_report i j request ts now report e r e1)
  have "engine_claims e1 \<subseteq>\<^sub>m engine_claims e"
    using claims_shrink [OF finish_apply_report_evolves [of e now i j report] claims_quiet] apply_report(2) by simp
  then show ?case
    using task_asked [OF apply_report(1)] remove1_asks [of "ApplyTask i j request" ts]
    by (intro protocol_quiet) (simp_all add: protocol_of_def)
next
  case (apply_readback i j request ts now v e r e1)
  have k: "keyed envelope_key (eng_envelopes e)"
    using apply_readback(3) by (simp add: system_ok_def envelopes_ok_def)
  show ?case
    using claims_confirmed [OF k finish_apply_verified_evolves [of i e request v now j]] apply_readback(2)
      task_asked [OF apply_readback(1)] remove1_asks [of "ReadbackTask i j request" ts]
    by (intro protocol_confirm [of _ _ "id_value i" "ar_rate_ups request"]) (simp_all add: protocol_of_def)
next
  case (revoke_begin now i reason actor e r e1 ts)
  have ok: "table_ok (eng_attempts e)"
    using revoke_begin(2) by (simp add: system_ok_def attempts_ok_def keyed_def)
  have "engine_claims e1 \<subseteq>\<^sub>m engine_claims e"
    using claims_shrink [OF revoke_phase_one_evolves [OF ok, of now i reason actor] claims_quiet]
      revoke_begin(1) by simp
  then show ?case by (intro protocol_quiet; cases r) (auto simp: protocol_of_def)
next
  case (complete_revoke_begin j e a env ts)
  then show ?case by (intro protocol_quiet) (auto simp: protocol_of_def)
next
  case (revoke_report i j ts now report e r e1 before)
  have "engine_claims e1 \<subseteq>\<^sub>m engine_claims e"
    using claims_shrink [OF finish_revoke_report_evolves [of e now i j report] claims_quiet] revoke_report(2) by simp
  then show ?case
    using remove1_asks [of "RevokeTask i j" ts]
    by (intro protocol_quiet; cases r) (auto simp: protocol_of_def)
next
  case (revoke_readback i j before ts now v e r e1)
  have "engine_claims e1 \<subseteq>\<^sub>m engine_claims e"
    using claims_shrink [OF finish_revoke_verified_evolves [of e now i j v before] claims_quiet]
      revoke_readback(2) by simp
  then show ?case
    using remove1_asks [of "RevokeReadbackTask i j before" ts]
    by (intro protocol_quiet) (auto simp: protocol_of_def)
next
  case (revalidate_begin i e env now ts epoch boot)
  then show ?case
    by (intro protocol_withdraw [of _ _ "(id_value i, ar_rate_ups (revalidation_probe epoch boot env))"])
       (simp_all add: protocol_of_def)
next
  case (revalidate_end i before floor probe epoch ts now decided v report e report1 e1)
  have k: "keyed envelope_key (eng_envelopes e)"
    using revalidate_end(3) by (simp add: system_ok_def envelopes_ok_def)
  show ?case
    using claims_confirmed [OF k revalidate_decide_evolves [of i e probe v now decided epoch before floor report]]
      revalidate_end(2) task_asked [OF revalidate_end(1)] remove1_asks [of "RevalidateTask i before floor probe epoch" ts]
    by (intro protocol_confirm [of _ _ "id_value i" "ar_rate_ups probe"]) (simp_all add: protocol_of_def)
qed

end
