(* ===== verification/Engine_Runs.thy ===== *)
theory Engine_Runs
  imports Engine_Steps
begin

text \<open>
  Properties of the runs of the engine, with a concrete run on the synthetic backend: the
  authorities of the plan examples are ingested, a session is admitted, an envelope is
  opened and its rate is dispatched, acknowledged and read back.
\<close>

section \<open>A run on the synthetic backend\<close>

definition run_backend :: SyntheticBackend where
  "run_backend = synthetic_backend (StrongId 5) (StrongId 1) example_device_config (StrongId 3) (StrongId 1) []"

definition run_request :: EnvelopeRequest where
  "run_request =
     \<lparr>req_flow = StrongId 1, req_flow_generation = StrongId 0, req_resource = StrongId 2,
      req_resource_generation = StrongId 0, req_grant = StrongId 3, req_grant_generation = StrongId 0,
      req_has_reservation = False, req_reservation = StrongId 0, req_reservation_generation = StrongId 0,
      req_policy = StrongId 4, req_policy_generation = StrongId 0, req_backend = StrongId 5,
      req_backend_generation = StrongId 0, req_annotation = []\<rparr>"

definition run_calls :: "SyntheticBackend Call list" where
  "run_calls =
     [Authority (PutFlow example_flow), Authority (PutResource example_resource),
      Authority (PutGrant example_grant),
      Authority (PutPolicy (example_policy\<lparr>policy_refill := RefillSemantics_ContinuousTokenBucket\<rparr>)),
      Authority (PutBackend example_backend), BindBackend (Some (synthetic_ops, run_backend)) (StrongId 1),
      OpenEnvelope 20 run_request example_actor]"

definition run_start :: "SyntheticBackend Engine" where
  "run_start = rate_governor (example_config DurabilityMode_None) None None"

definition run_opened :: "SyntheticBackend Engine" where
  "run_opened = fold run_call run_calls run_start"

text \<open>The states of the run after the dispatch, the answer, the acknowledgement and the readback.\<close>

definition run_apply ::
  "SyntheticBackend Engine \<Rightarrow> (ApplyRequest \<times> SyntheticBackend Engine \<times> SyntheticBackend Engine
     \<times> CompletionReport \<times> SyntheticBackend Engine \<times> VerificationOutcome \<times> SyntheticBackend Engine) option" where
  "run_apply e =
     (case apply_phase_one 20 (StrongId 1) example_actor e of
        (PhaseProceed d request, e1) \<Rightarrow>
          (case call_apply request e1 of (outcome, e2) \<Rightarrow>
             let report = dispatch_report 21 outcome
             in (case finish_apply_report 22 (StrongId 1) (ar_attempt request) report e2 of
                 (None, e3) \<Rightarrow>
                   (case call_verify request e3 of (v, e4) \<Rightarrow>
                      Some (request, e1, e2, report, e3, v, snd (finish_apply_verified 22 (StrongId 1)
                        (ar_attempt request) request v e4)))
               | _ \<Rightarrow> None))
      | _ \<Rightarrow> None)"

definition enforceable :: "RateEnvelopeId \<Rightarrow> TimestampNs \<Rightarrow> u64 \<Rightarrow> 'b Engine \<Rightarrow> bool" where
  "enforceable i now rate e \<longleftrightarrow>
     (case find_envelope_locked i e of None \<Rightarrow> False
      | Some env \<Rightarrow> view_legally_enforceable_now (make_view_locked env now e) \<and> env_applied_rate_ups env = rate)"

fun calls_in_range :: "'b Call list \<Rightarrow> 'b Engine \<Rightarrow> bool" where
  "calls_in_range [] e = True"
| "calls_in_range (c # cs) e \<longleftrightarrow> in_range c e \<and> calls_in_range cs (run_call c e)"

lemma reachable_calls:
  "reachable (system e ts) \<Longrightarrow> calls_in_range cs e \<Longrightarrow> reachable (system (fold run_call cs e) ts)"
proof (induction cs arbitrary: e)
  case (Cons c cs)
  have "reachable (system (run_call c e) ts)"
    by (rule reachable.step [OF Cons.prems(1) step.call]) (use Cons.prems(2) in simp)
  with Cons show ?case by simp
qed simp

lemma run_calls_in_range: "calls_in_range run_calls run_start"
  by code_simp

lemma run_opened_reachable: "reachable (system run_opened [])"
  unfolding run_opened_def run_start_def
  by (rule reachable_calls [OF reachable.start run_calls_in_range [unfolded run_start_def]])

text \<open>What is evaluated: a revoke after the apply, and a tick after the session has died.\<close>

definition run_revoke ::
  "SyntheticBackend Engine \<Rightarrow> (EnforcementAttemptId \<times> CompletionReport \<times> SyntheticBackend Engine) option" where
  "run_revoke e =
     (case revoke_phase_one 30 (StrongId 1) R_EnvelopeRevoked example_actor e of
        (PhaseProceed d request, e1) \<Rightarrow>
          (case call_revoke request e1 of (outcome, e2) \<Rightarrow>
             Some (rr_attempt request, dispatch_report 31 outcome, e2))
      | _ \<Rightarrow> None)"

definition answered :: "(CompletionOutcome Result \<times> 'b Engine) \<Rightarrow> bool" where
  "answered x \<longleftrightarrow> (case x of (Inr c, e) \<Rightarrow> co_verified c | _ \<Rightarrow> False)"

lemma answeredE:
  assumes "answered x"
  obtains c e where "x = (Inr c, e)" "co_verified c"
  using assms by (cases x; cases "fst x") (auto simp: answered_def intro: that)

definition session_dies :: "SyntheticBackend Engine \<Rightarrow> SyntheticBackend Engine" where
  "session_dies e =
     e\<lparr>eng_backend := (case eng_backend e of None \<Rightarrow> None | Some (ops, b) \<Rightarrow> Some (ops, b\<lparr>sb_live := False\<rparr>))\<rparr>"

definition session_is_dead :: "SyntheticBackend Engine \<Rightarrow> bool" where
  "session_is_dead e \<longleftrightarrow> (case eng_backend e of None \<Rightarrow> False | Some (ops, b) \<Rightarrow> \<not> sb_live b)"

text \<open>A device without injected faults, in the request's incarnation, whose limits admit it.\<close>

definition device_ready :: "ApplyRequest \<Rightarrow> SyntheticDevice \<Rightarrow> bool" where
  "device_ready r d \<longleftrightarrow>
     device_serves d (ar_epoch r) (ar_boot r)
     \<and> id_valid (ar_envelope r) \<and> id_valid (ar_envelope_generation r)
     \<and> \<not> sd_refuse_all_applies (dev_config d) \<and> \<not> sd_refuse_all_verifies (dev_config d)
     \<and> sd_fail_every_nth_apply (dev_config d) = 0 \<and> sd_refuse_every_nth_verify (dev_config d) = 0
     \<and> sd_underreport_every_nth_verify (dev_config d) = 0
     \<and> sd_overreport_every_nth_verify (dev_config d) = 0
     \<and> (sd_max_rate_ups (dev_config d) = 0 \<or> ar_rate_ups r \<le> sd_max_rate_ups (dev_config d))
     \<and> (sd_max_burst_tokens (dev_config d) = 0 \<or> ar_burst_tokens r \<le> sd_max_burst_tokens (dev_config d))
     \<and> (table_find (dev_table d) (id_value (ar_envelope r)) \<noteq> None
         \<or> length (dev_table d) < unat (sd_envelope_limit (dev_config d)))"

definition run_checks :: "SyntheticBackend Engine \<Rightarrow> bool" where
  "run_checks e \<longleftrightarrow>
     (case run_apply e of None \<Rightarrow> False
      | Some (request, e1, e2, report, e3, v, e5) \<Rightarrow>
          table_ok (eng_attempts e) \<and> length (eng_attempt_order e) < attempt_bound e
          \<and> ec_durability (eng_config e) = DurabilityMode_None
          \<and> (case eng_backend e of None \<Rightarrow> False | Some (ops, b) \<Rightarrow> device_ready request (sb_device b))
          \<and> ar_rate_ups request = 400
          \<and> (case find_attempt_locked (ar_attempt request) e1 of None \<Rightarrow> False
             | Some a \<Rightarrow> attempt_inflight (att_state a))
          \<and> (case find_envelope_locked (StrongId 1) e1 of None \<Rightarrow> False
             | Some env \<Rightarrow> authority_status_locked env 22 e1 = R_None)
          \<and> engine_claims e3 1 = None
          \<and> answered (finish_apply 22 (StrongId 1) (ar_attempt request) request report e2)
          \<and> enforceable (StrongId 1) 23 400 e5
          \<and> (case run_revoke e5 of None \<Rightarrow> False
             | Some (j, report1, e6) \<Rightarrow> answered (finish_revoke 32 (StrongId 1) j report1 e6))
          \<and> (case tick 1000 (session_dies e5) of (r, e6) \<Rightarrow>
               \<not> eng_backend_bound e6 \<and> session_is_dead e6 \<and> enforceable (StrongId 1) 1000 400 e6))"

text \<open>For the evaluation, exact arithmetic in place of the loop of the wide division.\<close>

lemma mul_div_mod_code [code]:
  "mul_div_mod a b d =
     (if d \<noteq> 0 \<and> uint a * uint b div uint d < 18446744073709551616
      then \<lparr>mdm_ok = True, mdm_quotient = word_of_int (uint a * uint b div uint d),
            mdm_remainder = word_of_int (uint a * uint b mod uint d)\<rparr>
      else \<lparr>mdm_ok = False, mdm_quotient = 0, mdm_remainder = 0\<rparr>)"
proof -
  have n: "uint a * uint b div uint d = int (unat a * unat b div unat d)"
    "uint a * uint b mod uint d = int (unat a * unat b mod unat d)"
    by (simp_all add: zdiv_int zmod_int)
  have ok: "mdm_ok (mul_div_mod a b d) \<longleftrightarrow> d \<noteq> 0 \<and> uint a * uint b div uint d < 18446744073709551616"
    unfolding n mul_div_mod_values(1) by (simp only: of_nat_less_iff [symmetric, where 'a = int] of_nat_numeral)
  show ?thesis
  proof (cases "mdm_ok (mul_div_mod a b d)")
    case True
    have "mdm_quotient (mul_div_mod a b d) = word_of_int (uint a * uint b div uint d)"
      unfolding n by (rule word_unat_eq_iff [THEN iffD2])
        (simp add: mul_div_mod_values(2) [OF True] unat_of_nat True [unfolded mul_div_mod_values(1)])
    moreover have "unat a * unat b mod unat d < 18446744073709551616"
      using mul_div_mod_values(3) [OF True] unat_u64_lt [of "mdm_remainder (mul_div_mod a b d)"] by simp
    then have "mdm_remainder (mul_div_mod a b d) = word_of_int (uint a * uint b mod uint d)"
      unfolding n by (intro word_unat_eq_iff [THEN iffD2])
        (simp add: mul_div_mod_values(3) [OF True] unat_of_nat)
    ultimately show ?thesis using True ok by (intro MulDivMod.equality) simp_all
  next
    case False
    with ok show ?thesis by (auto simp: mul_div_mod_def Let_def split: if_splits)
  qed
qed

lemma run_checked: "run_checks run_opened"
  by code_simp

lemma run_applied:
  obtains request e1 e2 report e3 v e5 where
    "run_apply run_opened = Some (request, e1, e2, report, e3, v, e5)" "ar_rate_ups request = 400"
    "case find_attempt_locked (ar_attempt request) e1 of None \<Rightarrow> False
     | Some a \<Rightarrow> attempt_inflight (att_state a)"
    "engine_claims e3 1 = None" "enforceable (StrongId 1) 23 400 e5"
    "answered (finish_apply 22 (StrongId 1) (ar_attempt request) request report e2)"
    "case run_revoke e5 of None \<Rightarrow> False
     | Some (j, report1, e6) \<Rightarrow> answered (finish_revoke 32 (StrongId 1) j report1 e6)"
    "case tick 1000 (session_dies e5) of (r, e6) \<Rightarrow>
       \<not> eng_backend_bound e6 \<and> session_is_dead e6 \<and> enforceable (StrongId 1) 1000 400 e6"
proof -
  obtain request e1 e2 report e3 v e5 where r:
    "run_apply run_opened = Some (request, e1, e2, report, e3, v, e5)"
    using run_checked by (cases "run_apply run_opened") (auto simp: run_checks_def)
  show thesis
    using run_checked unfolding run_checks_def r option.case prod.case by (elim conjE) (rule that [OF r])
qed

lemma reachable_backend:
  "reachable (system e ts) \<Longrightarrow> reachable (system (e\<lparr>eng_backend := b\<rparr>) ts)"
  using reachable.step [OF _ step.call [of "BackendMoves b"]] by (simp add: in_range_def)

lemma call_apply_moves:
  "call_apply r e = (d, e1) \<Longrightarrow> \<exists>b. e1 = e\<lparr>eng_backend := b\<rparr>"
  by (auto simp: call_apply_def split: option.splits prod.splits) (metis Engine.surjective Engine.update_convs(2))+

lemma call_verify_moves:
  "call_verify r e = (v, e1) \<Longrightarrow> \<exists>b. e1 = e\<lparr>eng_backend := b\<rparr>"
  by (auto simp: call_verify_def split: option.splits prod.splits) (metis Engine.surjective Engine.update_convs(2))+

text \<open>The run reaches a state before the readback, and the state after it.\<close>

lemma run_steps:
  assumes "run_apply run_opened = Some (request, e1, e2, report, e3, v, e5)"
  obtains d outcome e4 where
    "apply_phase_one 20 (StrongId 1) example_actor run_opened = (PhaseProceed d request, e1)"
    "call_apply request e1 = (outcome, e2)" "report = dispatch_report 21 outcome"
    "finish_apply_report 22 (StrongId 1) (ar_attempt request) report e2 = (None, e3)"
    "call_verify request e3 = (v, e4)"
    "e5 = snd (finish_apply_verified 22 (StrongId 1) (ar_attempt request) request v e4)"
  using assms unfolding run_apply_def Let_def
  by (auto split: prod.splits PhaseOne.splits option.splits)

lemma run_states:
  assumes "run_apply run_opened = Some (request, e1, e2, report, e3, v, e5)"
  obtains e4 where
    "reachable (system e1 [ApplyTask (StrongId 1) (ar_attempt request) request])"
    "reachable (system e4 [ReadbackTask (StrongId 1) (ar_attempt request) request])"
    "step (system e4 [ReadbackTask (StrongId 1) (ar_attempt request) request]) (system e5 [])"
    "engine_claims e4 = engine_claims e3"
proof -
  obtain d outcome e4 where parts:
    "apply_phase_one 20 (StrongId 1) example_actor run_opened = (PhaseProceed d request, e1)"
    "call_apply request e1 = (outcome, e2)" "report = dispatch_report 21 outcome"
    "finish_apply_report 22 (StrongId 1) (ar_attempt request) report e2 = (None, e3)"
    "call_verify request e3 = (v, e4)"
    "e5 = snd (finish_apply_verified 22 (StrongId 1) (ar_attempt request) request v e4)"
    by (rule run_steps [OF assms])
  let ?j = "ar_attempt request"
  have e1: "reachable (system e1 [ApplyTask (StrongId 1) ?j request])"
    using reachable.step [OF run_opened_reachable step.apply_begin [OF parts(1)]] by simp
  then have "reachable (system e2 [ApplyTask (StrongId 1) ?j request])"
    using call_apply_moves [OF parts(2)] reachable_backend by blast
  from reachable.step [OF this step.apply_report [OF _ parts(4)]]
  have "reachable (system e3 [ReadbackTask (StrongId 1) ?j request])" by simp
  then have r: "reachable (system e4 [ReadbackTask (StrongId 1) ?j request])"
    using call_verify_moves [OF parts(5)] reachable_backend by blast
  obtain res where res: "finish_apply_verified 22 (StrongId 1) ?j request v e4 = (res, e5)"
    using parts(6) by (metis prod.collapse)
  have "step (system e4 [ReadbackTask (StrongId 1) ?j request]) (system e5 [])"
    using step.apply_readback [OF _ res, of "[ReadbackTask (StrongId 1) ?j request]"] by simp
  moreover have "engine_claims e4 = engine_claims e3"
    using call_verify_moves [OF parts(5)] by (auto simp: engine_claims_def)
  ultimately show thesis by (rule that [OF e1 r])
qed

lemma run_end_reachable:
  assumes "run_apply run_opened = Some (request, e1, e2, report, e3, v, e5)"
  shows "reachable (system e5 [])"
  by (rule run_states [OF assms]) (rule reachable.step)

lemma run_reachable:
  obtains request and e4 e5 :: "SyntheticBackend Engine" and j where
    "reachable (system e4 [ReadbackTask (StrongId 1) j request])"
    "step (system e4 [ReadbackTask (StrongId 1) j request]) (system e5 [])"
    "engine_claims e4 1 = None" "enforceable (StrongId 1) 23 400 e5"
proof -
  obtain request e1 e2 report e3 v e5 where run:
    "run_apply run_opened = Some (request, e1, e2, report, e3, v, e5)"
    and c: "engine_claims e3 1 = None" "enforceable (StrongId 1) 23 400 e5"
    by (rule run_applied)
  show thesis
    by (rule run_states [OF run]) (use that c in simp)
qed

lemma run_in_flight:
  obtains s :: "SyntheticBackend System" and j a where
    "reachable s" "find_attempt_locked j (sys_engine s) = Some a" "attempt_inflight (att_state a)"
proof -
  obtain request e1 e2 report e3 v e5 a where run:
    "run_apply run_opened = Some (request, e1, e2, report, e3, v, e5)"
    and a: "find_attempt_locked (ar_attempt request) e1 = Some a" "attempt_inflight (att_state a)"
    by (rule run_applied) (auto split: option.splits)
  show thesis
    by (rule run_states [OF run]) (rule that [where s = "system e1 _", unfolded System.simps], assumption, rule a(1), rule a(2))
qed

section \<open>What every reachable state satisfies\<close>

text \<open>
  C1: an enforceable rate is within every limit in force.  Whenever the engine, after any
  interleaving of calls, dispatches, reports and readbacks, presents an envelope as
  legally enforceable now, its effect was verified and it is applied, and the applied rate
  does not exceed what the current grant, policy and resource declare, nor the reservation
  when the envelope has one, nor the maximum of the backend when it declares one; the
  grant and the policy are active and inside their windows.
\<close>

theorem enforceable_within_limits:
  assumes "reachable s" "find_envelope_locked i (sys_engine s) = Some env"
    and "view_legally_enforceable_now (make_view_locked env now (sys_engine s))"
  shows "env_state env = EnvelopeState_Applied \<and> env_effect_verified env
    \<and> (\<exists>g. table_find (eng_grants (sys_engine s)) (id_value (env_grant env)) = Some g \<and> grant_active g
          \<and> window_contains (grant_window g) now \<and> env_applied_rate_ups env \<le> grant_ceiling_ups g)
    \<and> (\<exists>p. table_find (eng_policies (sys_engine s)) (id_value (env_policy env)) = Some p \<and> policy_active p
          \<and> window_contains (policy_window p) now \<and> env_applied_rate_ups env \<le> policy_ceiling_ups p)
    \<and> (\<exists>r. table_find (eng_resources (sys_engine s)) (id_value (env_resource env)) = Some r
          \<and> resource_active r \<and> env_applied_rate_ups env \<le> resource_capacity_ups r)
    \<and> (\<exists>b. table_find (eng_backends (sys_engine s)) (id_value (env_backend env)) = Some b
          \<and> (backend_max_rate_ups b \<noteq> 0 \<longrightarrow> env_applied_rate_ups env \<le> backend_max_rate_ups b))
    \<and> (env_has_reservation env \<longrightarrow>
         (\<exists>v. table_find (eng_reservations (sys_engine s)) (id_value (env_reservation env)) = Some v
            \<and> env_applied_rate_ups env \<le> reservation_ceiling_ups v))"
proof -
  let ?e = "sys_engine s" and ?rate = "env_applied_rate_ups env"
  have v: "env_state env = EnvelopeState_Applied" "env_effect_verified env"
    and "authority_status_locked env now ?e = R_None"
    using assms(3) by (simp_all add: make_view_locked_def Let_def)
  note a = this(3) [unfolded authority_status_None]
  have "funded ?e env ?rate"
    using reachable_ok [OF assms(1)] assms(2) v(2)
    by (auto simp: system_ok_def envelopes_ok_def envelope_ok_def find_envelope_locked_def)
  moreover have "binding_current env ?e"
    using a by (auto simp: binding_current_def generation_current_def)
  ultimately have "?rate \<le> rate_limit env ?e" by (auto simp: funded_def)
  then have l: "\<forall>x \<in> set (declared_ceilings (make_plan_inputs_locked env ?e)). ?rate \<le> x"
    unfolding rate_limit_def by (meson List.finite_set Min_le order_trans)
  show ?thesis
    using v a l by (auto simp: declared_ceilings_def make_plan_inputs_locked_def)
qed

theorem enforceable_within_limits_witness:
  "\<exists>(s :: SyntheticBackend System) env. reachable s \<and> find_envelope_locked (StrongId 1) (sys_engine s) = Some env
     \<and> view_legally_enforceable_now (make_view_locked env 23 (sys_engine s))
     \<and> env_applied_rate_ups env = 400
     \<and> (\<exists>g. table_find (eng_grants (sys_engine s)) (id_value (env_grant env)) = Some g
           \<and> 400 \<le> grant_ceiling_ups g)"
proof (rule run_reachable)
  fix request and e4 e5 :: "SyntheticBackend Engine" and j
  assume r: "reachable (system e4 [ReadbackTask (StrongId 1) j request])"
    "step (system e4 [ReadbackTask (StrongId 1) j request]) (system e5 [])"
    and "enforceable (StrongId 1) 23 400 e5"
  then obtain env where env: "find_envelope_locked (StrongId 1) e5 = Some env"
    "view_legally_enforceable_now (make_view_locked env 23 e5)" "env_applied_rate_ups env = 400"
    by (auto simp: enforceable_def split: option.splits)
  have "reachable (system e5 [])" by (rule reachable.step [OF r])
  with enforceable_within_limits [OF this, of "StrongId 1" env 23] env show ?thesis
    by (intro exI [of _ "system e5 []"] exI [of _ env]) auto
qed

text \<open>
  C11: no second dispatch while one is in flight.  In every reachable state, two attempts
  of the same kind for the same envelope and generation that are both in flight are the
  same attempt, so a backend is never asked twice at a time for one envelope by the
  engine's own bookkeeping; and every attempt carries the key of its envelope, generation
  and kind.
\<close>

theorem one_dispatch_in_flight:
  assumes "reachable s"
    and "find_attempt_locked j (sys_engine s) = Some a" "find_attempt_locked k (sys_engine s) = Some b"
    and "attempt_inflight (att_state a)" "attempt_inflight (att_state b)"
    and "att_envelope a = att_envelope b" "att_envelope_generation a = att_envelope_generation b"
    and "att_kind a = att_kind b"
  shows "j = k \<and> att_idempotency_key a
    = compute_idempotency_key (att_envelope a) (att_envelope_generation a) (att_kind a)"
proof -
  have ok: "attempts_ok (sys_engine s)" using reachable_ok [OF assms(1)] by (simp add: system_ok_def)
  then have key: "att_idempotency_key x
      = compute_idempotency_key (att_envelope x) (att_envelope_generation x) (att_kind x)"
    if "find_attempt_locked m (sys_engine s) = Some x" for m x
    using that by (simp add: attempts_ok_def find_attempt_locked_def)
  have "one_in_flight (eng_attempts (sys_engine s))" using ok by (simp add: attempts_ok_def)
  then have "id_value j = id_value k"
    using assms(2-5) key [OF assms(2)] key [OF assms(3)] assms(6-8)
    unfolding one_in_flight_def find_attempt_locked_def by metis
  then show ?thesis using key [OF assms(2)] by (simp add: StrongId.expand)
qed

theorem one_dispatch_in_flight_witness:
  "\<exists>(s :: SyntheticBackend System) j a. reachable s \<and> find_attempt_locked j (sys_engine s) = Some a
     \<and> attempt_inflight (att_state a)
     \<and> att_idempotency_key a
         = compute_idempotency_key (att_envelope a) (att_envelope_generation a) (att_kind a)"
proof (rule run_in_flight)
  fix s :: "SyntheticBackend System" and j a
  assume a: "reachable s" "find_attempt_locked j (sys_engine s) = Some a" "attempt_inflight (att_state a)"
  with one_dispatch_in_flight [OF a(1) a(2) a(2) a(3) a(3)] show ?thesis by auto
qed

text \<open>
  C2: the engine refines the claim protocol.  From every reachable state, every section of
  every operation is a step of the abstract protocol: it withdraws claims, or it makes the
  single claim that an envelope enforces a rate, and then that rate had been asked of a
  backend by an operation still in progress for that envelope.  No authority change, tick,
  epoch change, recovery or report makes a claim.
\<close>

theorem claims_follow_readbacks:
  assumes "reachable s" "step s s1"
  shows "protocol_step (protocol_of s) (protocol_of s1)"
  by (rule step_refines [OF assms(2) reachable_ok [OF assms(1)]])

theorem claims_follow_readbacks_witness:
  "\<exists>(s :: SyntheticBackend System) s1. reachable s \<and> step s s1
     \<and> protocol_step (protocol_of s) (protocol_of s1)
     \<and> pr_claims (protocol_of s) 1 = None \<and> pr_claims (protocol_of s1) 1 = Some 400"
proof (rule run_reachable)
  fix request and e4 e5 :: "SyntheticBackend Engine" and j
  assume r: "reachable (system e4 [ReadbackTask (StrongId 1) j request])"
    "step (system e4 [ReadbackTask (StrongId 1) j request]) (system e5 [])"
    and c: "engine_claims e4 1 = None" "enforceable (StrongId 1) 23 400 e5"
  have "engine_claims e5 1 = Some 400"
    using c(2) by (auto simp: enforceable_def engine_claims_def claimed_rate_def claims_def
      find_envelope_locked_def make_view_locked_def Let_def split: option.splits)
  then have "pr_claims (protocol_of (system e5 [])) 1 = Some 400"
    "pr_claims (protocol_of (system e4 [ReadbackTask (StrongId 1) j request])) 1 = None"
    using c(1) by (simp_all add: protocol_of_def)
  with r claims_follow_readbacks [OF r] show ?thesis by blast
qed



end
