(* ===== verification/Engine_Findings.thy ===== *)
theory Engine_Findings
  imports Engine_Runs
begin

text \<open>
  Behaviours of the engine that depart from what its documentation says, each shown on a
  concrete run.
\<close>

section \<open>A tick does not demote after a lost session\<close>


end
