(* ===== verification/Durability.thy ===== *)
theory Durability
  imports Engine_State
begin

text \<open>
  Progress of the durable log: while the file system answers, transactions whose payloads
  are within the bound are acknowledged, and the log stays ready for the next one.
\<close>

section \<open>A log on a file system that answers\<close>

definition reliable :: "Journal \<Rightarrow> bool" where
  "reliable j \<longleftrightarrow> jn_open j \<and> jn_io j = [] \<and> 24 \<le> journal_bound j"

definition payload_fits :: "Journal \<Rightarrow> bytes \<Rightarrow> bool" where
  "payload_fits j payload \<longleftrightarrow> length payload \<le> journal_bound j \<and> length payload \<le> 0xFFFFFFFF"

lemma payload_fits_config: "jn_config j1 = jn_config j \<Longrightarrow> payload_fits j1 = payload_fits j"
  by (auto simp: payload_fits_def fun_eq_iff)

lemma write_record_reliable:
  assumes "reliable j" "payload_fits j payload"
  obtains res j1 where "write_record t txn payload j = (res, j1)" "jres_ok res" "reliable j1"
    "jn_config j1 = jn_config j" "jn_txn_open j1 = jn_txn_open j" "jn_txn_id j1 = jn_txn_id j"
proof -
  have "encode_journal_record \<lparr>jr_type = t, jr_sequence = jn_last_sequence j + 1, jr_txn_id = txn,
      jr_payload = payload\<rparr> (journal_bound j) \<noteq> []"
    using assms(2) by (simp add: encode_journal_record_def payload_fits_def Let_def flip: length_0_conv)
  then show thesis
    using assms that
    by (simp add: write_record_def reliable_def payload_fits_def Let_def write_all_def next_io_def
          journal_success_def)
qed

lemma append_all_reliable:
  assumes "reliable j" "jn_txn_open j" "list_all (\<lambda>r. payload_fits j (snd r)) rs" "jres_ok res0"
  obtains res j1 where "append_all rs res0 j = (res, j1)" "jres_ok res" "reliable j1" "jn_txn_open j1"
    "jn_config j1 = jn_config j" "jn_txn_id j1 = jn_txn_id j"
  using assms
proof (induction rs arbitrary: j res0 thesis)
  case (Cons r rs)
  have fits: "payload_fits j (snd r)" using Cons.prems(4) by simp
  obtain res1 j1 where w: "write_record (fst r) (jn_txn_id j) (snd r) j = (res1, j1)" "jres_ok res1"
    "reliable j1" "jn_config j1 = jn_config j" "jn_txn_open j1 = jn_txn_open j" "jn_txn_id j1 = jn_txn_id j"
    by (rule write_record_reliable [OF Cons.prems(2) fits])
  define j2 where "j2 = j1\<lparr>jn_txn_record_count := jn_txn_record_count j1 + 1,
      jn_txn_bytes := jn_txn_bytes j1 + of_nat (length (snd r))\<rparr>"
  have a: "journal_append (fst r) (snd r) j = (res1, j2)"
    using w Cons.prems(2,3) by (simp add: journal_append_def j2_def reliable_def)
  have j2: "reliable j2" "jn_txn_open j2" "jn_config j2 = jn_config j" "jn_txn_id j2 = jn_txn_id j"
    using w Cons.prems(3) by (simp_all add: j2_def reliable_def)
  have rest: "list_all (\<lambda>r. payload_fits j2 (snd r)) rs"
    using Cons.prems(4) payload_fits_config [OF j2(3)] by simp
  obtain res j3 where "append_all rs res1 j2 = (res, j3)" "jres_ok res" "reliable j3" "jn_txn_open j3"
    "jn_config j3 = jn_config j2" "jn_txn_id j3 = jn_txn_id j2"
    by (rule Cons.IH [OF _ j2(1,2) rest w(2)])
  then show ?case using Cons.prems(1) [of res j3] a w(2) j2 by simp
qed simp

lemma transaction_reliable:
  assumes "reliable j" "\<not> jn_txn_open j" "txn \<noteq> 0" "list_all (\<lambda>r. payload_fits j (snd r)) rs"
  obtains res j1 where "journal_transaction txn rs j = (res, j1)" "jres_ok res" "reliable j1"
    "\<not> jn_txn_open j1" "jn_config j1 = jn_config j"
proof -
  have fits: "payload_fits j (put_u64 txn)" "payload_fits j (commit_payload a b c)" for a b c
    using assms(1) by (simp_all add: payload_fits_def reliable_def commit_payload_def)
  obtain r1 j0 where w: "write_record JT_TxnBegin txn (put_u64 txn) j = (r1, j0)" "jres_ok r1"
    "reliable j0" "jn_config j0 = jn_config j"
    by (rule write_record_reliable [OF assms(1) fits(1)])
  define j1 where "j1 = j0\<lparr>jn_txn_id := txn, jn_txn_open := True, jn_txn_record_count := 0, jn_txn_bytes := 0\<rparr>"
  have b: "journal_begin txn j = (r1, j1)"
    using w assms(1-3) by (simp add: journal_begin_def j1_def reliable_def)
  have j1: "reliable j1" "jn_txn_open j1" "jn_config j1 = jn_config j"
    using w by (simp_all add: j1_def reliable_def)
  obtain r2 j2 where a: "append_all rs r1 j1 = (r2, j2)" "jres_ok r2" "reliable j2" "jn_txn_open j2"
    "jn_config j2 = jn_config j1"
    by (rule append_all_reliable [OF j1(1,2) _ w(2)])
       (use assms(4) payload_fits_config [OF j1(3)] in simp)
  have c2: "jn_config j2 = jn_config j" using a(5) j1(3) by simp
  obtain r3 j3 where c: "write_record JT_TxnCommit (jn_txn_id j2)
      (commit_payload (jn_txn_id j2) (jn_txn_record_count j2) (jn_txn_bytes j2)) j2 = (r3, j3)"
    "jres_ok r3" "reliable j3" "jn_config j3 = jn_config j2"
    by (rule write_record_reliable [OF a(3)]) (use fits(2) payload_fits_config [OF c2] in simp)
  let ?j = "j3\<lparr>jn_txn_open := False, jn_txn_id := 0, jn_txn_record_count := 0, jn_txn_bytes := 0\<rparr>"
  have "journal_commit j2 = (r3, ?j)"
    using a(3,4) c by (simp add: journal_commit_def reliable_def durable_barrier_def next_io_def)
  then have "journal_transaction txn rs j = (r3, ?j)"
    by (simp add: journal_transaction_def b a(1,2) w(2))
  then show thesis using that c c2 by (simp add: reliable_def)
qed

section \<open>Commits of the engine\<close>

text \<open>The engine is ready for \<open>n\<close> more durable commits of payloads that fit.\<close>

definition durable_ready :: "nat \<Rightarrow> 'b Engine \<Rightarrow> bool" where
  "durable_ready n e \<longleftrightarrow>
     ec_durability (eng_config e) = DurabilityMode_Strict \<and> \<not> eng_durability_degraded e
     \<and> 0 < unat (eng_next_txn_id e) \<and> unat (eng_next_txn_id e) + n \<le> 2 ^ 64
     \<and> (case eng_journal e of None \<Rightarrow> False
        | Some j \<Rightarrow> reliable j \<and> \<not> jn_txn_open j \<and> jc_max_bytes (jn_config j) = 0)"

definition engine_fits :: "'b Engine \<Rightarrow> bytes \<Rightarrow> bool" where
  "engine_fits e payload \<longleftrightarrow> (case eng_journal e of None \<Rightarrow> False | Some j \<Rightarrow> payload_fits j payload)"

lemma commit_acknowledged:
  assumes "durable_ready (Suc n) e" "list_all (\<lambda>r. engine_fits e (snd r)) rs" "n \<noteq> 0"
  obtains e1 where "commit_records_locked rs e = (Inr (), e1)" "durable_ready n e1"
    "engine_fits e1 = engine_fits e"
proof -
  obtain j where j: "eng_journal e = Some j" "reliable j" "\<not> jn_txn_open j" "jc_max_bytes (jn_config j) = 0"
    using assms(1) by (auto simp: durable_ready_def split: option.splits)
  have txn: "eng_next_txn_id e \<noteq> 0" using assms(1) by (auto simp: durable_ready_def)
  obtain res j1 where t: "journal_transaction (eng_next_txn_id e) rs j = (res, j1)" "jres_ok res"
    "reliable j1" "\<not> jn_txn_open j1" "jn_config j1 = jn_config j"
    by (rule transaction_reliable [OF j(2,3) txn]) (use assms(2) j(1) in \<open>auto simp: engine_fits_def\<close>)
  have next1: "unat (eng_next_txn_id e + 1) = unat (eng_next_txn_id e) + 1"
    using assms(1,3) by (simp add: durable_ready_def unat_word_ariths)
  show thesis
  proof (cases "rs = []")
    case True
    then show thesis
      using that [of e] assms(1) j
      by (auto simp: commit_records_locked_def durable_ready_def reliable_def)
  next
    case False
    let ?e = "count (\<lambda>c. c\<lparr>ct_journal_commits := ct_journal_commits c + 1\<rparr>)
        (e\<lparr>eng_next_txn_id := eng_next_txn_id e + 1, eng_journal := Some j1\<rparr>)"
    have "commit_records_locked rs e = (Inr (), ?e)"
      using assms(1) j t False
      by (simp add: commit_records_locked_def durable_ready_def reliable_def Let_def maybe_compact_locked_def)
    moreover have "durable_ready n ?e"
      using assms(1) j t next1 by (simp add: durable_ready_def count_def)
    moreover have "engine_fits ?e = engine_fits e"
      using j(1) payload_fits_config [OF t(5)] by (auto simp: engine_fits_def fun_eq_iff)
    ultimately show thesis by (rule that)
  qed
qed

end
