(* ===== verification/Recovery_Safety.thy ===== *)
theory Recovery_Safety
  imports Engine_Steps Durability
begin

text \<open>
  What a recovered engine may say.  Replaying a log rebuilds tables that are keyed by
  identity; the demotion that follows leaves no attempt in flight and no envelope with a
  verified effect, and the engine is in an epoch that no record of the log exceeds.
\<close>

section \<open>Replay keeps the tables keyed\<close>

definition well_keyed :: "'b Engine \<Rightarrow> bool" where
  "well_keyed e \<longleftrightarrow> keyed envelope_key (eng_envelopes e) \<and> keyed attempt_key (eng_attempts e)"

text \<open>What a replayed record can do, by its type.\<close>

lemma replay_record_rule:
  assumes "P e" "P (orphan e)" "\<And>m. P (e\<lparr>eng_flows := m\<rparr>)" "\<And>m. P (e\<lparr>eng_grants := m\<rparr>)"
    "\<And>m. P (e\<lparr>eng_reservations := m\<rparr>)" "\<And>m. P (e\<lparr>eng_policies := m\<rparr>)"
    "\<And>m. P (e\<lparr>eng_resources := m\<rparr>)" "\<And>m. P (e\<lparr>eng_backends := m\<rparr>)"
    "\<And>ep. eng_epoch e < ep \<Longrightarrow> P (e\<lparr>eng_epoch := ep\<rparr>)"
    "P (replay_envelope (jr_payload r) e)" "P (replay_counters (jr_payload r) e)"
    "P (replay_attempt (jr_payload r) e)"
  shows "P (replay_record r e)"
  using assms by (cases "jr_type r") (simp_all add: replay_record_def Let_def split: option.split)

lemma well_keyed_retain: "well_keyed e \<Longrightarrow> well_keyed (retain_attempt_locked a e)"
  using retain_entries [of a e] retain_table_ok [of e a] by (auto simp: well_keyed_def keyed_def)

lemma well_keyed_replay_envelope: "well_keyed e \<Longrightarrow> well_keyed (replay_envelope payload e)"
  by (auto simp: replay_envelope_def orphan_def Let_def well_keyed_def keyed_put split: option.splits)

lemma well_keyed_replay_counters:
  assumes "well_keyed e"
  shows "well_keyed (replay_counters payload e)"
  using assms keyed_find [of envelope_key "eng_envelopes e"]
  by (auto simp: replay_counters_def orphan_def Let_def well_keyed_def keyed_put split: option.splits)

lemma well_keyed_replay_attempt: "well_keyed e \<Longrightarrow> well_keyed (replay_attempt payload e)"
  unfolding replay_attempt_def
  by (auto split: option.splits intro!: well_keyed_retain) (auto simp: well_keyed_def orphan_def)

lemma well_keyed_replay: "well_keyed e \<Longrightarrow> well_keyed (replay_record r e)"
  by (rule replay_record_rule)
     (auto simp: well_keyed_replay_envelope well_keyed_replay_counters well_keyed_replay_attempt,
      simp_all add: well_keyed_def orphan_def)

lemma well_keyed_restored: "well_keyed (restored_engine effective scan j)"
  unfolding restored_engine_def apply_snapshot_records_def
  by (rule fold_invariant) (simp_all add: well_keyed_replay, simp add: well_keyed_def constructed_tables)

lemma replay_record_frame:
  "eng_backend_bound (replay_record r e) = eng_backend_bound e" "eng_epoch e \<le> eng_epoch (replay_record r e)"
  "eng_config (replay_record r e) = eng_config e"
  by (rule replay_record_rule; auto simp: Let_def replay_envelope_def replay_counters_def
        replay_attempt_def orphan_def split: option.splits)+

lemma apply_snapshot_frame:
  "eng_backend_bound (apply_snapshot_records rs e) = eng_backend_bound e"
  "eng_epoch e \<le> eng_epoch (apply_snapshot_records rs e)"
proof -
  show "eng_backend_bound (apply_snapshot_records rs e) = eng_backend_bound e"
    unfolding apply_snapshot_records_def by (induction rs arbitrary: e) (simp_all add: replay_record_frame)
  show "eng_epoch e \<le> eng_epoch (apply_snapshot_records rs e)"
    unfolding apply_snapshot_records_def
    by (induction rs arbitrary: e) (auto intro: order_trans [OF replay_record_frame(2)])
qed

section \<open>The demotion\<close>

definition withdrawn :: "RateEnvelope \<Rightarrow> bool" where
  "withdrawn env \<longleftrightarrow>
     \<not> env_effect_verified env \<and> env_state env \<noteq> EnvelopeState_Applied
     \<and> env_state env \<noteq> EnvelopeState_Dispatching
     \<and> (claims_effect env \<or> holds_state env \<longrightarrow> env_requires_revalidation env)"

definition nothing_claimed :: "'b Engine \<Rightarrow> bool" where
  "nothing_claimed e \<longleftrightarrow>
     \<not> eng_backend_bound e
     \<and> (\<forall>k env. table_find (eng_envelopes e) k = Some env \<longrightarrow> withdrawn env)
     \<and> (\<forall>k a. table_find (eng_attempts e) k = Some a \<longrightarrow> \<not> attempt_inflight (att_state a))"

lemma withdrawn_recovered: "withdrawn (recovered_envelope now env)"
  by (simp add: withdrawn_def recovered_envelope_def Let_def)

lemma withdrawn_untouched: "\<not> (claims_effect env \<or> holds_state env) \<Longrightarrow> withdrawn env"
  by (auto simp: withdrawn_def claims_effect_def holds_state_def)

lemma ambiguous_not_inflight: "\<not> attempt_inflight (att_state (ambiguous_attempt now a))"
  by (simp add: ambiguous_attempt_def attempt_inflight_def)

lemma put_updates_fields [simp]:
  fixes e :: "'b Engine"
  shows "eng_envelopes (publish_updates us as e) = table_put_all envelope_key us (eng_envelopes e)"
  "eng_attempts (publish_updates us as e) = table_put_all attempt_key as (eng_attempts e)"
  "eng_backend_bound (publish_updates us as e) = eng_backend_bound e"
  "eng_epoch (publish_updates us as e) = eng_epoch e"
proof -
  have "eng_envelopes (fold put_envelope us e) = table_put_all envelope_key us (eng_envelopes e)"
    "eng_attempts (fold put_envelope us e) = eng_attempts e"
    "eng_backend_bound (fold put_envelope us e) = eng_backend_bound e"
    "eng_epoch (fold put_envelope us e) = eng_epoch e"
    by (induction us arbitrary: e) simp_all
  moreover have "eng_attempts (fold put_attempt as e1) = table_put_all attempt_key as (eng_attempts e1)"
    "eng_envelopes (fold put_attempt as e1) = eng_envelopes e1"
    "eng_backend_bound (fold put_attempt as e1) = eng_backend_bound e1"
    "eng_epoch (fold put_attempt as e1) = eng_epoch e1" for e1 :: "'b Engine"
    by (induction as arbitrary: e1) (simp_all add: put_attempt_def)
  ultimately show
    "eng_envelopes (publish_updates us as e) = table_put_all envelope_key us (eng_envelopes e)"
    "eng_attempts (publish_updates us as e) = table_put_all attempt_key as (eng_attempts e)"
    "eng_backend_bound (publish_updates us as e) = eng_backend_bound e"
    "eng_epoch (publish_updates us as e) = eng_epoch e"
    by (simp_all add: publish_updates_def)
qed

lemma demoted_find:
  assumes "well_keyed e"
  shows "table_find (table_put_all envelope_key (demotion_envelopes now e) (eng_envelopes e)) k
      = map_option (\<lambda>env. if claims_effect env \<or> holds_state env then recovered_envelope now env else env)
          (table_find (eng_envelopes e) k)"
    "table_find (table_put_all attempt_key (demotion_attempts now e) (eng_attempts e)) k
      = map_option (\<lambda>a. if attempt_inflight (att_state a) then ambiguous_attempt now a else a)
          (table_find (eng_attempts e) k)"
  using assms unfolding well_keyed_def demotion_envelopes_def demotion_attempts_def
  by (intro envelope_updates.collect_find attempt_updates.collect_find;
      simp add: recovered_envelope_def ambiguous_attempt_def Let_def)+

lemma demote_for_recovery_success:
  assumes "demote_for_recovery now actor e = (Inr u, counts, e1)"
  shows "eng_envelopes e1 = table_put_all envelope_key (demotion_envelopes now e) (eng_envelopes e)"
    "eng_attempts e1 = table_put_all attempt_key (demotion_attempts now e) (eng_attempts e)"
    "eng_backend_bound e1 = eng_backend_bound e" "eng_epoch e1 = eng_epoch e"
  using assms
  by (auto simp: demote_for_recovery_def refuse_actor_def fail_def Let_def
        only_durability_fields [OF commit_many_frame] split: option.splits prod.splits sum.splits if_splits)

lemma demoted_claims_nothing:
  assumes "well_keyed e" "\<not> eng_backend_bound e" "demote_for_recovery now actor e = (Inr u, counts, e1)"
  shows "nothing_claimed e1"
proof -
  note s = demote_for_recovery_success [OF assms(3)] and f = demoted_find [OF assms(1), of now]
  have "withdrawn env" if "table_find (eng_envelopes e1) k = Some env" for k env
    using that withdrawn_recovered withdrawn_untouched unfolding s(1) f(1) by (auto split: if_splits)
  moreover have "\<not> attempt_inflight (att_state a)" if t: "table_find (eng_attempts e1) k = Some a" for k a
  proof -
    obtain b where "a = (if attempt_inflight (att_state b) then ambiguous_attempt now b else b)"
      using t unfolding s(2) f(2) by blast
    then show ?thesis by (cases "attempt_inflight (att_state b)") (simp_all add: ambiguous_not_inflight)
  qed
  ultimately show ?thesis using s(3) assms(2) by (simp add: nothing_claimed_def)
qed

lemma advance_claims_nothing:
  assumes "nothing_claimed e" "keyed envelope_key (eng_envelopes e)"
    "advance_epoch clock ep actor e = (Inr u, e1)"
  shows "nothing_claimed e1"
proof -
  note s = advance_epoch_success [OF assms(3)]
  have "withdrawn env" if t: "table_find (eng_envelopes e1) k = Some env" for k env
  proof -
    obtain old where old: "table_find (eng_envelopes e) k = Some old"
      "env = (if holds_or_claims old \<or> env_requires_revalidation old then epoch_demoted (clock k) old else old)"
      using t unfolding s(4) epoch_updates_find [OF assms(2)] by blast
    then have "withdrawn old" using assms(1) by (auto simp: nothing_claimed_def)
    with old(2) show ?thesis
      by (auto simp: withdrawn_def split: if_splits)
  qed
  with s(3,5) assms(1) show ?thesis by (simp add: nothing_claimed_def)
qed

lemma constructed_frame:
  "\<not> eng_backend_bound (rate_governor config None journal)"
  "eng_epoch (rate_governor config backend journal)
     = (if id_valid (ec_initial_epoch config) then ec_initial_epoch config else StrongId 1)"
  by (auto simp: rate_governor_def write_incarnation_banner_locked_def normalize_config_def Let_def
        only_durability_fields [OF commit_one_frame, OF surjective_pairing])

lemma recorded_epoch_grows: "h \<le> recorded_epoch r h"
  by (auto simp: recorded_epoch_def Let_def split: option.splits)

lemma recorded_epochs_grow: "h \<le> fold recorded_epoch rs h"
  by (induction rs arbitrary: h) (auto intro: order_trans [OF recorded_epoch_grows])

lemma recovery_compact_frame:
  assumes "recovery_compact tail scan e = (remarks, e1)"
  shows "eng_envelopes e1 = eng_envelopes e" "eng_attempts e1 = eng_attempts e"
    "eng_backend_bound e1 = eng_backend_bound e" "eng_epoch e1 = eng_epoch e"
  using assms by (auto simp: recovery_compact_def split: option.splits if_splits)

lemma restored_frame:
  assumes "effective = recovery_config config scan"
  shows "\<not> eng_backend_bound (restored_engine effective scan j :: 'b Engine)"
    "highest_recorded_epoch (sc_committed scan) \<le> eng_epoch (restored_engine effective scan j :: 'b Engine)"
proof -
  let ?h = "highest_recorded_epoch (sc_committed scan)"
  show "\<not> eng_backend_bound (restored_engine effective scan j :: 'b Engine)"
    by (simp add: restored_engine_def apply_snapshot_frame constructed_frame)
  have "?h \<le> eng_epoch (rate_governor (effective\<lparr>ec_durability := DurabilityMode_Strict\<rparr>) None (Some j) :: 'b Engine)"
    using assms by (auto simp: constructed_frame recovery_config_def Let_def id_valid_def less_eq_StrongId_def)
  then show "?h \<le> eng_epoch (restored_engine effective scan j :: 'b Engine)"
    unfolding restored_engine_def by (rule order_trans [OF _ apply_snapshot_frame(2)])
qed

text \<open>The sections of a recovery that succeeds.\<close>

lemma recover_engineE:
  fixes e :: "'b Engine"
  assumes "recover_engine x path config tail = Inr (e, report)"
    and "scan = scan_journal_file (rx_files x path) (rx_measured x) (rx_rewound x) (rx_got x)"
    and "effective = recovery_config config scan"
  obtains j actor counts e1 e2 remarks where
    "demote_for_recovery (rx_demoted_at x) actor (restored_engine effective scan j :: 'b Engine) = (Inr (), counts, e1)"
    "recovery_advance (rx_clock x) effective actor e1 = (Inr (), e2)"
    "recovery_compact tail scan e2 = (remarks, e)" "report = recovery_report x effective scan counts remarks e2"
  using assms(1) that unfolding recover_engine_def assms(2) [symmetric] Let_def assms(3) [symmetric] fail_def
  by (auto split: if_splits option.splits prod.splits sum.splits)

lemma recovery_withdraws:
  fixes e :: "'b Engine"
  assumes "recover_engine x path config tail = Inr (e, report)"
  shows "nothing_claimed e" "keyed envelope_key (eng_envelopes e)"
proof -
  define scan where "scan = scan_journal_file (rx_files x path) (rx_measured x) (rx_rewound x) (rx_got x)"
  define effective where "effective = recovery_config config scan"
  obtain j actor counts e1 e2 remarks where r:
    "demote_for_recovery (rx_demoted_at x) actor (restored_engine effective scan j :: 'b Engine) = (Inr (), counts, e1)"
    "recovery_advance (rx_clock x) effective actor e1 = (Inr (), e2)" "recovery_compact tail scan e2 = (remarks, e)"
    by (rule recover_engineE [OF assms scan_def effective_def])
  have k: "well_keyed (restored_engine effective scan j :: 'b Engine)" by (rule well_keyed_restored)
  have n: "nothing_claimed e1"
    by (rule demoted_claims_nothing [OF k restored_frame(1) [OF effective_def] r(1)])
  have k1: "keyed envelope_key (eng_envelopes e1)"
    using k unfolding demote_for_recovery_success(1) [OF r(1)] well_keyed_def by (simp add: keyed_put_all)
  have "nothing_claimed e2 \<and> keyed envelope_key (eng_envelopes e2)"
  proof (cases "ec_advance_epoch_on_recovery effective")
    case True
    with r(2) have adv: "advance_epoch (rx_clock x) (StrongId (id_value (eng_epoch e1) + 1)) actor e1 = (Inr (), e2)"
      by (simp add: recovery_advance_def)
    show ?thesis
      using advance_claims_nothing [OF n k1 adv] keyed_put_all [OF k1] by (simp add: advance_epoch_success(4) [OF adv])
  qed (use n k1 r(2) in \<open>simp add: recovery_advance_def\<close>)
  then show "nothing_claimed e" "keyed envelope_key (eng_envelopes e)"
    using recovery_compact_frame [OF r(3)] by (simp_all add: nothing_claimed_def)
qed

text \<open>
  C4: a recovered engine claims nothing.  When recovery succeeds, whatever log it read, no
  session is admitted, no attempt is in flight, and every envelope is withdrawn: no
  verified effect, neither applied nor dispatching, and revalidation required wherever a
  rate or a state of the former incarnation is left.  Its epoch is at least every epoch
  the committed records mention, and strictly newer when the configuration advances the
  epoch; the report says so.
\<close>

theorem recovery_claims_nothing:
  fixes e :: "'b Engine"
  assumes "recover_engine x path config tail = Inr (e, report)"
  shows "nothing_claimed e
    \<and> (let h = highest_recorded_epoch (sc_committed (scan_journal_file (rx_files x path) (rx_measured x)
                  (rx_rewound x) (rx_got x)))
       in if ec_advance_epoch_on_recovery config then h < eng_epoch e else h \<le> eng_epoch e)
    \<and> rp_new_epoch report = eng_epoch e \<and> \<not> rp_backend_bound report \<and> \<not> rp_liveness_restored report"
proof -
  define scan where "scan = scan_journal_file (rx_files x path) (rx_measured x) (rx_rewound x) (rx_got x)"
  define effective where "effective = recovery_config config scan"
  obtain j actor counts e1 e2 remarks where r:
    "demote_for_recovery (rx_demoted_at x) actor (restored_engine effective scan j :: 'b Engine) = (Inr (), counts, e1)"
    "recovery_advance (rx_clock x) effective actor e1 = (Inr (), e2)"
    "recovery_compact tail scan e2 = (remarks, e)" "report = recovery_report x effective scan counts remarks e2"
    by (rule recover_engineE [OF assms scan_def effective_def])
  let ?h = "highest_recorded_epoch (sc_committed scan)"
  note f = restored_frame [OF effective_def, where 'b = 'b, of j]
    and d = demote_for_recovery_success [OF r(1)] and c = recovery_compact_frame [OF r(3)]
  have a: "ec_advance_epoch_on_recovery effective = ec_advance_epoch_on_recovery config"
    by (simp add: effective_def recovery_config_def Let_def)
  have "if ec_advance_epoch_on_recovery config then ?h < eng_epoch e2 else ?h \<le> eng_epoch e2"
  proof (cases "ec_advance_epoch_on_recovery config")
    case True
    with r(2) a have adv: "advance_epoch (rx_clock x) (StrongId (id_value (eng_epoch e1) + 1)) actor e1 = (Inr (), e2)"
      by (simp add: recovery_advance_def)
    have "eng_epoch e1 < eng_epoch e2" using advance_epoch_success(1,2) [OF adv] by simp
    with True f(2) d(4) show ?thesis by simp
  qed (use f(2) d(4) r(2) a in \<open>simp add: recovery_advance_def\<close>)
  then show ?thesis
    unfolding scan_def [symmetric] Let_def r(4) using c recovery_withdraws(1) [OF assms]
    by (simp add: recovery_report_def Let_def)
qed

section \<open>Recovery returns an engine\<close>

lemma replay_durable:
  "eng_journal (replay_record r e) = eng_journal e"
  "eng_durability_degraded (replay_record r e) = eng_durability_degraded e"
  "eng_next_txn_id (replay_record r e) = eng_next_txn_id e"
  by (rule replay_record_rule; auto simp: Let_def replay_envelope_def replay_counters_def
        replay_attempt_def orphan_def retain_attempt_locked_def split: option.splits prod.splits)+

lemma replays_durable:
  "durable_ready n (apply_snapshot_records rs e) = durable_ready n e"
  "engine_fits (apply_snapshot_records rs e) = engine_fits e"
  "eng_config (apply_snapshot_records rs e) = eng_config e"
proof -
  have "eng_journal (apply_snapshot_records rs e) = eng_journal e
      \<and> eng_durability_degraded (apply_snapshot_records rs e) = eng_durability_degraded e
      \<and> eng_next_txn_id (apply_snapshot_records rs e) = eng_next_txn_id e
      \<and> eng_config (apply_snapshot_records rs e) = eng_config e"
    unfolding apply_snapshot_records_def
    by (induction rs arbitrary: e) (simp_all add: replay_durable replay_record_frame)
  then show "durable_ready n (apply_snapshot_records rs e) = durable_ready n e"
    "engine_fits (apply_snapshot_records rs e) = engine_fits e"
    "eng_config (apply_snapshot_records rs e) = eng_config e"
    by (simp_all add: durable_ready_def engine_fits_def fun_eq_iff)
qed

lemma commit_many_acknowledged:
  assumes "durable_ready (Suc (length rs + n)) e" "list_all (\<lambda>r. engine_fits e (snd r)) rs"
  obtains e1 where "commit_many_locked rs e = (Inr (), e1)" "durable_ready (Suc n) e1"
    "engine_fits e1 = engine_fits e"
  using assms
proof (induction rs e arbitrary: thesis rule: commit_many_locked.induct)
  case (1 rs e)
  show ?case
  proof (cases "rs = []")
    case True
    with 1 show ?thesis by (simp add: commit_many_locked.simps)
  next
    case False
    let ?k = kMaxRecordsPerTransaction
    have len: "Suc (length (drop ?k rs)) \<le> length rs"
      using False by (cases rs) (simp_all add: kMaxRecordsPerTransaction_def)
    have fits: "list_all (\<lambda>r. engine_fits e (snd r)) (take ?k rs)"
      "list_all (\<lambda>r. engine_fits e (snd r)) (drop ?k rs)"
      using 1(4) by (auto simp: list_all_iff dest: in_set_takeD in_set_dropD)
    have "durable_ready (Suc (Suc (length (drop ?k rs) + n))) e"
      using 1(3) len by (simp add: durable_ready_def)
    from commit_acknowledged [OF this fits(1)] obtain e1 where
      e1: "commit_records_locked (take ?k rs) e = (Inr (), e1)" "durable_ready (Suc (length (drop ?k rs) + n)) e1"
      "engine_fits e1 = engine_fits e"
      by auto
    from 1(1) [OF False e1(1) [symmetric] refl _ e1(2)] fits(2) e1(3) obtain e2 where
      "commit_many_locked (drop ?k rs) e1 = (Inr (), e2)" "durable_ready (Suc n) e2" "engine_fits e2 = engine_fits e1"
      by auto
    with False e1 show ?thesis
      using 1(2) [of e2] by (simp add: commit_many_locked.simps [of rs])
  qed
qed

lemma durable_ready_frame:
  "eng_config e1 = eng_config e \<Longrightarrow> eng_journal e1 = eng_journal e
   \<Longrightarrow> eng_durability_degraded e1 = eng_durability_degraded e \<Longrightarrow> eng_next_txn_id e1 = eng_next_txn_id e
   \<Longrightarrow> durable_ready n e1 = durable_ready n e \<and> engine_fits e1 = engine_fits e"
  by (simp add: durable_ready_def engine_fits_def fun_eq_iff)

lemma push_event_txn: "eng_next_txn_id (push_event_locked r i g a e) = eng_next_txn_id e"
  by (simp add: push_event_locked_def Let_def count_def)

lemma put_updates_durable:
  "eng_config (publish_updates us as e) = eng_config e" "eng_journal (publish_updates us as e) = eng_journal e"
  "eng_durability_degraded (publish_updates us as e) = eng_durability_degraded e"
  "eng_next_txn_id (publish_updates us as e) = eng_next_txn_id e"
proof -
  have "eng_config (fold put_envelope us e) = eng_config e \<and> eng_journal (fold put_envelope us e) = eng_journal e
    \<and> eng_durability_degraded (fold put_envelope us e) = eng_durability_degraded e
    \<and> eng_next_txn_id (fold put_envelope us e) = eng_next_txn_id e" for e :: "'a Engine"
    by (induction us arbitrary: e) (simp_all add: put_envelope_def)
  moreover have "eng_config (fold put_attempt as e) = eng_config e \<and> eng_journal (fold put_attempt as e) = eng_journal e
    \<and> eng_durability_degraded (fold put_attempt as e) = eng_durability_degraded e
    \<and> eng_next_txn_id (fold put_attempt as e) = eng_next_txn_id e" for e :: "'a Engine"
    by (induction as arbitrary: e) (simp_all add: put_attempt_def)
  ultimately show
    "eng_config (publish_updates us as e) = eng_config e" "eng_journal (publish_updates us as e) = eng_journal e"
    "eng_durability_degraded (publish_updates us as e) = eng_durability_degraded e"
    "eng_next_txn_id (publish_updates us as e) = eng_next_txn_id e"
    by (simp_all add: publish_updates_def)
qed

lemma demote_acknowledged:
  assumes "check_actor_locked actor e = None"
    and "durable_ready (Suc (length (demotion_attempts now e) + length (demotion_envelopes now e) + n)) e"
    and "list_all (\<lambda>a. engine_fits e (encode_attempt a)) (demotion_attempts now e)"
    and "list_all (\<lambda>u. engine_fits e (encode_envelope u)) (demotion_envelopes now e)"
  obtains counts e1 where "demote_for_recovery now actor e = (Inr (), counts, e1)" "durable_ready (Suc n) e1"
    "engine_fits e1 = engine_fits e" "eng_config e1 = eng_config e"
proof -
  let ?rs = "map (\<lambda>a. stage_attempt a JT_AttemptTerminated) (demotion_attempts now e)
    @ map (\<lambda>u. stage_envelope u JT_EnvelopeStateChange) (demotion_envelopes now e)"
  have ready: "durable_ready (Suc (length ?rs + n)) e" using assms(2) by simp
  have fits: "list_all (\<lambda>r. engine_fits e (snd r)) ?rs"
    using assms(3,4) by (auto simp: list_all_iff stage_attempt_def stage_envelope_def)
  obtain e1 where e1: "commit_many_locked ?rs e = (Inr (), e1)" "durable_ready (Suc n) e1"
    "engine_fits e1 = engine_fits e"
    by (rule commit_many_acknowledged [OF ready fits])
  let ?e = "push_event_locked R_EnvelopeRecoveredRequiresRevalidation (StrongId 0) (StrongId 0) (StrongId 0)
      (publish_updates (demotion_envelopes now e) (demotion_attempts now e) e1)"
  have c: "eng_config e1 = eng_config e" by (rule only_durability_fields(1) [OF commit_many_frame [OF e1(1)]])
  have f: "durable_ready (Suc n) ?e \<and> engine_fits ?e = engine_fits e \<and> eng_config ?e = eng_config e"
    using durable_ready_frame [of ?e e1 "Suc n"] e1(2,3) c
    by (simp add: put_updates_durable push_event_txn)
  show thesis
  proof (cases "demotion_attempts now e = [] \<and> demotion_envelopes now e = []")
    case True
    with assms(1,2) show thesis
      by (intro that) (simp_all add: demote_for_recovery_def refuse_actor_def Let_def)
  next
    case False
    with assms(1) e1(1) f show thesis
      by (intro that [of _ ?e]) (auto simp: demote_for_recovery_def refuse_actor_def Let_def)
  qed
qed

lemma advance_acknowledged:
  assumes "check_actor_locked actor e = None" "eng_epoch e < ep" "id_valid ep"
    and "durable_ready 2 e" "engine_fits e (encode_epoch_payload ep (ec_boot (eng_config e))
      R_EnvelopeStaleFabricEpochAdvanced)"
    and "list_all (\<lambda>u. engine_fits e (encode_envelope u)) (epoch_updates clock e)"
  obtains e1 where "advance_epoch clock ep actor e = (Inr (), e1)"
proof -
  let ?rs = "(JT_EpochAdvance, encode_epoch_payload ep (ec_boot (eng_config e)) R_EnvelopeStaleFabricEpochAdvanced)
    # map (\<lambda>u. stage_envelope u JT_EnvelopeStateChange) (epoch_updates clock e)"
  have "list_all (\<lambda>r. engine_fits e (snd r)) ?rs"
    using assms(5,6) by (simp add: list_all_iff stage_envelope_def)
  then obtain e1 where "commit_records_locked ?rs e = (Inr (), e1)"
    using commit_acknowledged [of 1 e ?rs] assms(4) by (auto simp: numeral_2_eq_2)
  moreover have "\<not> ep \<le> eng_epoch e" using assms(2) by (simp add: not_le)
  ultimately have "\<exists>e1. advance_epoch clock ep actor e = (Inr (), e1)"
    using assms(1,3) by (simp add: advance_epoch_def refuse_actor_def Let_def)
  then show thesis using that by blast
qed

lemma constructed_ready:
  assumes "reliable j" "\<not> jn_txn_open j" "jc_max_bytes (jn_config j) = 0" "n + 2 \<le> 2 ^ 64" "n \<noteq> 0"
    and "ec_durability config = DurabilityMode_Strict"
  shows "durable_ready n (rate_governor config None (Some j) :: 'b Engine)"
    "engine_fits (rate_governor config None (Some j) :: 'b Engine) = payload_fits j"
    "eng_config (rate_governor config None (Some j) :: 'b Engine) = normalize_config config"
proof -
  obtain e :: "'b Engine" where e: "rate_governor config None (Some j) = write_incarnation_banner_locked e"
    "eng_journal e = Some j" "eng_config e = normalize_config config" "\<not> eng_durability_degraded e"
    "eng_next_txn_id e = 1"
    using assms(1,6) by (simp add: rate_governor_def Let_def reliable_def)
  have s: "ec_durability (normalize_config config) = DurabilityMode_Strict"
    using assms(6) by (simp add: normalize_config_def Let_def)
  have "durable_ready (Suc n) e"
    using assms(1-4) e s by (simp add: durable_ready_def)
  moreover have "list_all (\<lambda>r. engine_fits e (snd r)) [(JT_EpochAdvance,
      encode_epoch_payload (eng_epoch e) (ec_boot (eng_config e)) R_EngineShutdown)]"
    using assms(1) e(2) by (simp add: engine_fits_def payload_fits_def reliable_def encode_epoch_payload_def)
  ultimately obtain e1 where e1: "commit_records_locked [(JT_EpochAdvance,
      encode_epoch_payload (eng_epoch e) (ec_boot (eng_config e)) R_EngineShutdown)] e = (Inr (), e1)"
    "durable_ready n e1" "engine_fits e1 = engine_fits e"
    using commit_acknowledged assms(5) by metis
  then have r: "rate_governor config None (Some j) = e1"
    using e(1) by (simp add: write_incarnation_banner_locked_def commit_one_locked_def)
  show "durable_ready n (rate_governor config None (Some j) :: 'b Engine)"
    "engine_fits (rate_governor config None (Some j) :: 'b Engine) = payload_fits j"
    "eng_config (rate_governor config None (Some j) :: 'b Engine) = normalize_config config"
    unfolding r using e1 e(2,3) only_durability_fields(1) [OF commit_records_frame [OF e1(1)]]
    by (simp_all add: engine_fits_def fun_eq_iff)
qed

lemma demoted_length:
  "length (encode_envelope (recovered_envelope now env)) = length (encode_envelope env)"
  "length (encode_envelope (epoch_demoted now env)) = length (encode_envelope env)"
  by (simp_all add: encode_envelope_def recovered_envelope_def epoch_demoted_def Let_def put_bool_def)

lemma demotion_lists:
  assumes "well_keyed e"
  shows "demotion_envelopes now e = map (\<lambda>x. recovered_envelope now (snd x))
      (filter (\<lambda>x. claims_effect (snd x) \<or> holds_state (snd x)) (eng_envelopes e))"
    "demotion_attempts now e = map (\<lambda>x. ambiguous_attempt now (snd x))
      (filter (\<lambda>x. attempt_inflight (att_state (snd x))) (eng_attempts e))"
proof -
  have k: "keyed envelope_key (eng_envelopes e)" "keyed attempt_key (eng_attempts e)"
    using assms by (simp_all add: well_keyed_def)
  show "demotion_envelopes now e = map (\<lambda>x. recovered_envelope now (snd x))
      (filter (\<lambda>x. claims_effect (snd x) \<or> holds_state (snd x)) (eng_envelopes e))"
    unfolding demotion_envelopes_def
    by (subst envelope_updates.collect [OF k(1)]) (simp_all add: recovered_envelope_def Let_def)
  show "demotion_attempts now e = map (\<lambda>x. ambiguous_attempt now (snd x))
      (filter (\<lambda>x. attempt_inflight (att_state (snd x))) (eng_attempts e))"
    unfolding demotion_attempts_def
    by (subst attempt_updates.collect [OF k(2)]) (simp_all add: ambiguous_attempt_def)
qed

lemma demoted_entries:
  assumes "well_keyed e" "demote_for_recovery now actor e = (Inr (), counts, e1)" "env \<in> snd ` set (eng_envelopes e1)"
  obtains old where "old \<in> snd ` set (eng_envelopes e)" "length (encode_envelope env) = length (encode_envelope old)"
proof -
  obtain k where k: "(k, env) \<in> set (eng_envelopes e1)" using assms(3) by auto
  have "table_ok (eng_envelopes e1)"
    using assms(1) unfolding demote_for_recovery_success(1) [OF assms(2)] well_keyed_def
    by (intro keyed_ok [OF keyed_put_all]) simp
  then have "table_find (eng_envelopes e1) k = Some env" by (rule table_entry_find) (rule k)
  then obtain old where "table_find (eng_envelopes e) k = Some old"
    "env = (if claims_effect old \<or> holds_state old then recovered_envelope now old else old)"
    unfolding demote_for_recovery_success(1) [OF assms(2)] demoted_find(1) [OF assms(1)] by blast
  then show thesis
    using table_find_entry [of "eng_envelopes e" k old] by (intro that [of old]) (force simp: demoted_length)+
qed

lemma payload_fits_length: "length p = length q \<Longrightarrow> payload_fits j p = payload_fits j q"
  by (simp add: payload_fits_def)

lemma recovery_actor_admitted:
  fixes e1 :: "'b Engine"
  assumes "effective = recovery_config config scan" "id_valid (ec_boot config)"
    and "eng_epoch e1 = eng_epoch (restored_engine effective scan j :: 'b Engine)"
    and "ec_boot (eng_config e1) = ec_boot config"
  shows "check_actor_locked (recovery_actor effective (restored_engine effective scan j :: 'b Engine)) e1 = None"
proof -
  let ?c = "effective\<lparr>ec_durability := DurabilityMode_Strict\<rparr>"
  have "eng_epoch (rate_governor ?c None (Some j) :: 'b Engine) \<le> eng_epoch e1"
    unfolding assms(3) restored_engine_def by (rule apply_snapshot_frame(2))
  then have "id_valid (eng_epoch e1)"
    by (auto simp: constructed_frame id_valid_def less_eq_StrongId_def split: if_splits)
  with assms show ?thesis
    by (simp add: check_actor_locked_def recovery_actor_def operator_context_def has_incarnation_def
          authoritative_def recovery_config_def Let_def)
qed

lemma recovery_advances:
  assumes "check_actor_locked actor e = None" "durable_ready 2 e" "engine_fits e = payload_fits j" "reliable j"
    and "id_value (eng_epoch e) \<noteq> kU64Max"
    and "\<And>env. env \<in> snd ` set (eng_envelopes e) \<Longrightarrow> payload_fits j (encode_envelope env)"
  shows "\<exists>e1. recovery_advance clock effective actor e = (Inr (), e1)"
proof -
  let ?ep = "StrongId (id_value (eng_epoch e) + 1) :: FabricEpoch"
  have ep: "eng_epoch e < ?ep" by (rule next_generation [OF assms(5)])
  then have "id_valid ?ep" by (auto simp: id_valid_def less_StrongId_def)
  moreover have "engine_fits e (encode_epoch_payload ?ep (ec_boot (eng_config e)) R_EnvelopeStaleFabricEpochAdvanced)"
    using assms(3,4) by (simp add: payload_fits_def reliable_def encode_epoch_payload_def)
  moreover have "list_all (\<lambda>u. engine_fits e (encode_envelope u)) (epoch_updates clock e)"
    using assms(3,6) payload_fits_length [OF demoted_length(2)]
    by (force simp: list_all_iff epoch_updates_def)
  ultimately obtain e1 where "advance_epoch clock ?ep actor e = (Inr (), e1)"
    using advance_acknowledged [OF assms(1) ep _ assms(2)] by blast
  then show ?thesis by (simp add: recovery_advance_def)
qed

lemma recovery_ends:
  assumes scan: "scan = scan_journal_file (rx_files x path) (rx_measured x) (rx_rewound x) (rx_got x)" "sc_ok scan"
    and effective: "effective = recovery_config config scan"
    and opened: "snd (recovery_journal x path effective) = Some j"
    and j: "reliable j" "\<not> jn_txn_open j" "jc_max_bytes (jn_config j) = 0"
    and boot: "id_valid (ec_boot config)"
    and r: "(r :: 'b Engine) = restored_engine effective scan j" "id_value (eng_epoch r) \<noteq> kU64Max"
    and room: "length (eng_envelopes r) + length (eng_attempts r) + 4 \<le> 2 ^ 64"
    and fits: "\<forall>env \<in> snd ` set (eng_envelopes r). payload_fits j (encode_envelope env)"
      "\<forall>a \<in> snd ` set (eng_attempts r). payload_fits j (encode_attempt (ambiguous_attempt (rx_demoted_at x) a))"
  shows "\<exists>(e :: 'b Engine) report. recover_engine x path config tail = Inr (e, report)"
proof -
  let ?now = "rx_demoted_at x" and ?actor = "recovery_actor effective r"
  let ?n = "Suc (length (demotion_attempts ?now r) + length (demotion_envelopes ?now r) + 1)"
  have k: "well_keyed r" unfolding r(1) by (rule well_keyed_restored)
  note lists = demotion_lists [OF k, of ?now]
  have l: "length (demotion_attempts ?now r) \<le> length (eng_attempts r)"
    "length (demotion_envelopes ?now r) \<le> length (eng_envelopes r)"
    by (simp_all add: lists)
  have n: "?n + 2 \<le> 2 ^ 64"
    using room l by simp
  have m: "durable_ready m r \<and> engine_fits r = payload_fits j
      \<and> eng_config r = normalize_config (effective\<lparr>ec_durability := DurabilityMode_Strict\<rparr>)"
    if "m + 2 \<le> 2 ^ 64" "m \<noteq> 0" for m
    unfolding r(1) restored_engine_def replays_durable
    using constructed_ready [OF j that, where config = "effective\<lparr>ec_durability := DurabilityMode_Strict\<rparr>"]
    by simp
  have ready: "durable_ready ?n r" "engine_fits r = payload_fits j"
    "eng_config r = normalize_config (effective\<lparr>ec_durability := DurabilityMode_Strict\<rparr>)"
    using m [OF n] by simp_all
  have b: "ec_boot (eng_config r) = ec_boot config"
    unfolding ready(3) using boot by (simp add: effective normalize_config_def recovery_config_def Let_def)
  have actor: "check_actor_locked ?actor e = None"
    if "eng_epoch e = eng_epoch r" "eng_config e = eng_config r" for e :: "'b Engine"
    using recovery_actor_admitted [OF effective boot, where j = j and 'b = 'b, folded r(1)] that b by simp
  have f: "list_all (\<lambda>a. engine_fits r (encode_attempt a)) (demotion_attempts ?now r)"
    "list_all (\<lambda>u. engine_fits r (encode_envelope u)) (demotion_envelopes ?now r)"
    using fits payload_fits_length [OF demoted_length(1)]
    by (force simp: ready(2) lists list_all_iff)+
  obtain counts e1 where
    d: "demote_for_recovery ?now ?actor r = (Inr (), counts, e1)" "durable_ready 2 e1"
    "engine_fits e1 = engine_fits r" "eng_config e1 = eng_config r"
    by (rule demote_acknowledged [OF actor [OF refl refl] ready(1) f]) (simp add: numeral_2_eq_2)
  have ep: "eng_epoch e1 = eng_epoch r" by (rule demote_for_recovery_success(4) [OF d(1)])
  have e1: "payload_fits j (encode_envelope env)" if "env \<in> snd ` set (eng_envelopes e1)" for env
    by (rule demoted_entries [OF k d(1) that]) (use fits(1) payload_fits_length in blast)
  obtain e2 where "recovery_advance (rx_clock x) effective ?actor e1 = (Inr (), e2)"
    using recovery_advances [OF actor [OF ep d(4)] d(2) _ j(1) _ e1] d(3) ready(2) ep r(2) by metis
  with d(1) scan opened show ?thesis
    unfolding recover_engine_def Let_def scan(1) [symmetric] effective [symmetric]
    by (cases "recovery_compact tail scan e2") (simp add: r(1))
qed

text \<open>A log whose only transaction recorded an applied envelope with a verified effect.\<close>

definition example_frame :: "JournalRecordType \<Rightarrow> bytes \<Rightarrow> JournalRecord" where
  "example_frame t payload = \<lparr>jr_type = t, jr_sequence = 1, jr_txn_id = 1, jr_payload = payload\<rparr>"

definition example_log_items :: "LogItem list" where
  "example_log_items =
     [LogTxn (example_frame JT_TxnBegin []) [example_frame JT_EnvelopeOpened (encode_envelope example_applied)]
        (example_frame JT_TxnCommit [])]"

definition example_recovery :: RecoveryEnv where
  "example_recovery =
     \<lparr>rx_files = (\<lambda>p. Some (items_bytes 4096 example_log_items)), rx_measured = IoOk, rx_rewound = IoOk,
      rx_got = IoOk, rx_io = [], rx_demoted_at = 5, rx_clock = (\<lambda>k. 6), rx_listed_at = 7\<rparr>"

definition example_recovery_config :: EngineConfig where
  "example_recovery_config = (example_config DurabilityMode_Strict)
     \<lparr>ec_journal := \<lparr>jc_path = ''log'', jc_max_bytes = 0, jc_max_payload_bytes = 4096, jc_fsync_on_commit = True\<rparr>\<rparr>"

lemma example_envelope_length: "length (encode_envelope example_applied) \<le> 1000"
  by code_simp

lemma example_scan:
  "sc_ok (scan_journal_file (rx_files example_recovery p) IoOk IoOk IoOk)"
  "sc_committed (scan_journal_file (rx_files example_recovery p) IoOk IoOk IoOk)
     = [example_frame JT_EnvelopeOpened (encode_envelope example_applied)]"
proof -
  have ok: "items_ok 4096 example_log_items"
    using example_envelope_length
    by (simp add: items_ok_def example_log_items_def example_frame_def begin_record_def body_record_def
          frame_ok_def kScanPayloadBound_def)
  have "length (items_bytes 4096 example_log_items) \<le> kJournalMaxScanBytes"
    using example_envelope_length
    by (simp add: example_log_items_def kJournalMaxScanBytes_def example_frame_def encode_journal_record_def Let_def)
  then have "scan_journal_file (rx_files example_recovery p) IoOk IoOk IoOk
      = scan_bytes (items_bytes 4096 example_log_items)"
    by (simp add: scan_journal_file_def example_recovery_def not_less)
  with scan_whole [OF ok] show
    "sc_ok (scan_journal_file (rx_files example_recovery p) IoOk IoOk IoOk)"
    "sc_committed (scan_journal_file (rx_files example_recovery p) IoOk IoOk IoOk)
       = [example_frame JT_EnvelopeOpened (encode_envelope example_applied)]"
    by (simp_all add: committed_of_def example_log_items_def)
qed

definition example_journal_handle :: Journal where
  "example_journal_handle = (journal_handle (ec_journal example_recovery_config) (items_bytes 4096 example_log_items) [])
     \<lparr>jn_size_bytes := of_nat (length (items_bytes 4096 example_log_items))\<rparr>"

definition example_scanned :: JournalScanResult where
  "example_scanned = scan_journal_file (rx_files example_recovery ''log'') IoOk IoOk IoOk"

lemma example_storable: "envelope_storable example_applied"
  by (simp add: example_applied_def envelope_storable_def empty_envelope_def EnvelopeState_declared_def)

lemma example_decoded: "decode_envelope (encode_envelope example_applied) = Some (example_applied, [])"
  using envelope_codec.roundtrip [OF example_storable, of "[]"] by simp

lemma example_applied_fields:
  "env_applied_epoch example_applied = StrongId 0" "\<not> env_has_plan example_applied"
  by (simp_all add: example_applied_def empty_envelope_def)

lemma example_effective: "recovery_config example_recovery_config example_scanned = example_recovery_config"
proof -
  have "highest_recorded_epoch (sc_committed example_scanned) = StrongId 0"
    by (simp add: example_scanned_def example_scan highest_recorded_epoch_def recorded_epoch_def
          example_frame_def example_decoded example_applied_fields Let_def)
  then show ?thesis by (simp add: recovery_config_def Let_def id_valid_def)
qed

lemma example_opened:
  "snd (recovery_journal example_recovery ''log'' example_recovery_config) = Some example_journal_handle"
  by (simp add: recovery_journal_def example_recovery_def example_recovery_config_def example_journal_handle_def
        journal_open_def next_io_def journal_handle_def Let_def)

lemma example_restored:
  "eng_envelopes (restored_engine example_recovery_config example_scanned j) = [(9, example_applied)]"
  "eng_attempts (restored_engine example_recovery_config example_scanned j) = []"
  "eng_epoch (restored_engine example_recovery_config example_scanned j) = StrongId 1"
  by (simp_all add: restored_engine_def apply_snapshot_records_def example_scanned_def example_scan
        example_frame_def replay_record_def replay_envelope_def example_decoded Let_def constructed_tables
        constructed_frame)
     (simp_all add: example_applied_def example_recovery_config_def example_config_def id_valid_def)

lemma example_premises:
  "example_scanned = scan_journal_file (rx_files example_recovery ''log'') (rx_measured example_recovery)
     (rx_rewound example_recovery) (rx_got example_recovery)"
  "sc_ok example_scanned" "id_valid (ec_boot example_recovery_config)"
  using example_scan(1) [of "''log''"]
  by (simp_all add: example_scanned_def example_recovery_def example_recovery_config_def id_valid_def)

lemma example_reliable:
  "reliable example_journal_handle" "\<not> jn_txn_open example_journal_handle"
  "jc_max_bytes (jn_config example_journal_handle) = 0"
  "payload_fits example_journal_handle (encode_envelope example_applied)"
  using example_envelope_length
  by (simp_all add: example_journal_handle_def reliable_def journal_handle_def example_recovery_config_def
        payload_fits_def)



theorem recovery_claims_nothing_witness:
  "\<exists>(e :: SyntheticBackend Engine) report.
     recover_engine example_recovery ''log'' example_recovery_config False = Inr (e, report)
     \<and> nothing_claimed e"
proof -
  have "\<exists>(e :: SyntheticBackend Engine) report.
     recover_engine example_recovery ''log'' example_recovery_config False = Inr (e, report)"
    by (rule recovery_ends [OF example_premises(1,2) example_effective [symmetric] example_opened
          example_reliable(1-3) example_premises(3) refl])
       (simp_all add: example_restored example_reliable(4) kU64Max_def)
  then show ?thesis using recovery_claims_nothing by blast
qed

end
