(* ===== verification/Engine_Outcomes.thy ===== *)
theory Engine_Outcomes
  imports Engine_Runs
begin

text \<open>
  What the answers of the enforcement operations mean: an apply is answered as verified
  exactly when the engine now claims the requested rate, a revoke is confirmed exactly
  when the envelope is revoked, and on a backend that does what it acknowledges an apply
  that is dispatched ends with the rate in force.
\<close>

section \<open>The answer to an apply\<close>

lemma claims_not_exact:
  "observes request v env u \<Longrightarrow> \<not> exact_readback request v
   \<Longrightarrow> claimed_rate u = None \<or> claimed_rate u = claimed_rate env"
  using claims_quiet [of env u] by (auto simp: observes_def claimed_rate_def split: if_splits)

lemma judge_readback_applied:
  assumes "judge_readback now request v a env e = (a1, env1, True, fix_up)"
  shows "claimed_rate env1 = Some (ar_rate_ups request)" "env_state env1 = EnvelopeState_Applied"
    "att_state a1 = AttemptState_Verified" "\<not> fix_up" "exact_readback request v"
  using assms
  by (auto simp: judge_readback_def Let_def claimed_rate_def claims_def with_effect_def
        exact_readback_def split: if_splits)

lemma reject_late_answer [dest]: "reject_late now i j env a reason eff detail e = (c, e1) \<Longrightarrow> \<not> co_verified c"
  by (auto simp: reject_late_def Let_def empty_completion_def split: prod.splits sum.splits)

lemma publish_readback_answer:
  assumes "publish_readback now i j request v env a e = (Inr c, e1)"
    "att_state a = AttemptState_Acknowledged"
  shows "co_verified c \<longleftrightarrow> exact_readback request v"
    "co_verified c \<Longrightarrow> engine_claims e1 (id_value i) = Some (ar_rate_ups request)
       \<and> co_resulting_state c = EnvelopeState_Applied \<and> \<not> co_compensating_revoke_required c
       \<and> (\<exists>a1. find_attempt_locked j e1 = Some a1 \<and> att_state a1 = AttemptState_Verified)"
proof -
  obtain a1 env1 exact fix_up where j: "judge_readback now request v a env e = (a1, env1, exact, fix_up)"
    by (metis prod_cases4)
  show *: "co_verified c \<longleftrightarrow> exact_readback request v"
    using assms(1) judge_readback_cases(3) [OF j assms(2)]
    by (auto simp: publish_readback_def j Let_def split: prod.splits sum.splits)
  assume "co_verified c"
  then have "exact" using * judge_readback_cases(3) [OF j assms(2)] by simp
  with j have j: "judge_readback now request v a env e = (a1, env1, True, fix_up)" by simp
  then show "engine_claims e1 (id_value i) = Some (ar_rate_ups request)
       \<and> co_resulting_state c = EnvelopeState_Applied \<and> \<not> co_compensating_revoke_required c
       \<and> (\<exists>a1. find_attempt_locked j e1 = Some a1 \<and> att_state a1 = AttemptState_Verified)"
    using assms(1) judge_readback_applied [OF j]
    by (auto simp: publish_readback_def j Let_def engine_claims_def assign_envelope_def assign_attempt_def
          find_attempt_locked_def with_detail_def empty_completion_def split: prod.splits sum.splits)
qed

lemma finish_apply_report_answer:
  "finish_apply_report now i j report e = (Some (Inr c), e1) \<Longrightarrow> \<not> co_verified c"
  unfolding finish_apply_report_def Let_def
  by (auto simp: record_pending_def record_refused_def Let_def empty_completion_def map_prod_def fail_def
        split: option.splits prod.splits sum.splits if_splits)

text \<open>The section that records an acknowledgement, when it lets the readback go ahead.\<close>

lemma finish_apply_report_proceeds:
  assumes "finish_apply_report now i j report e = (None, e1)"
  obtains a env where "find_attempt_locked j e = Some a" "find_envelope_locked i e = Some env"
    "att_kind a = AttemptKind_Apply" "attempt_inflight (att_state a)"
    "\<not> fencing_boot report a" "\<not> fencing_epoch report a e"
    "authority_status_locked env now e = R_None" "cr_acknowledged report"
  using assms unfolding finish_apply_report_def Let_def
  by (auto simp: map_prod_def split: option.splits prod.splits sum.splits if_splits)

lemma finish_apply_verified_answer:
  assumes "finish_apply_verified now i j request v e = (Inr c, e1)"
  shows "if co_verified c
    then exact_readback request v \<and> engine_claims e1 (id_value i) = Some (ar_rate_ups request)
       \<and> co_resulting_state c = EnvelopeState_Applied \<and> \<not> co_compensating_revoke_required c
       \<and> (\<exists>a. find_attempt_locked j e = Some a \<and> att_state a = AttemptState_Acknowledged
            \<and> fp_epoch (att_fingerprint a) = eng_epoch e)
       \<and> (\<exists>a1. find_attempt_locked j e1 = Some a1 \<and> att_state a1 = AttemptState_Verified)
    else engine_claims e1 \<subseteq>\<^sub>m engine_claims e"
proof -
  consider (late) env a reason eff detail where "find_attempt_locked j e = Some a" "find_envelope_locked i e = Some env"
      "reject_late now i j env a reason eff detail e = (c, e1)"
    | (published) env a where "find_attempt_locked j e = Some a" "find_envelope_locked i e = Some env"
      "publish_readback now i j request v env a e = (Inr c, e1)" "att_state a = AttemptState_Acknowledged"
      "fp_epoch (att_fingerprint a) = eng_epoch e"
    using assms unfolding finish_apply_verified_def
    by (auto simp: map_prod_def fail_def split: option.splits prod.splits if_splits)
  then show ?thesis
  proof cases
    case late
    then show ?thesis
      using reject_late_answer [OF late(3)] claims_shrink [OF evolves_only_at
        [OF reject_late_evolves [OF late(2,1), of now reason eff detail]] claims_quiet] by simp
  next
    case published
    note p = publish_readback_answer [OF published(3,4)]
    show ?thesis
    proof (cases "co_verified c")
      case True
      with p published(1,4,5) show ?thesis by simp
    next
      case False
      then have "engine_claims e1 \<subseteq>\<^sub>m engine_claims e"
        using claims_shrink [OF evolves_only_at [OF publish_readback_evolves [OF published(2,1,4), of request v now]]
          claims_not_exact] p(1) published(3) by simp
      with False show ?thesis by simp
    qed
  qed
qed

lemma finish_apply_report_backend:
  "finish_apply_report now i j report e = (None, e1) \<Longrightarrow> eng_backend e1 = eng_backend e"
  unfolding finish_apply_report_def Let_def
  by (auto simp: assign_attempt_def map_prod_def only_durability_fields(2) [OF commit_records_frame]
        split: option.splits prod.splits sum.splits if_splits)

lemma call_verify_backend: "eng_backend e1 = eng_backend e \<Longrightarrow> fst (call_verify r e1) = fst (call_verify r e)"
  by (simp add: call_verify_def split: option.splits prod.splits)

text \<open>
  C3: the answer to an apply is what the engine claims.  When the completion of an apply
  is answered as verified, the attempt was in flight and not fenced, every authority of
  its envelope was current, the backend had acknowledged, its readback of that request
  returned exactly the requested rate and burst, and the engine now claims that rate; any
  other answer adds no claim for any envelope.
\<close>

theorem verified_means_read_back:
  assumes "finish_apply now i j request report e = (Inr c, e1)"
  shows "if co_verified c
    then exact_readback request (fst (call_verify request e)) \<and> cr_acknowledged report
       \<and> (\<exists>a env. find_attempt_locked j e = Some a \<and> attempt_inflight (att_state a)
            \<and> \<not> fencing_boot report a \<and> \<not> fencing_epoch report a e
            \<and> find_envelope_locked i e = Some env \<and> authority_status_locked env now e = R_None)
       \<and> (\<exists>a1. find_attempt_locked j e1 = Some a1 \<and> att_state a1 = AttemptState_Verified)
       \<and> co_resulting_state c = EnvelopeState_Applied
       \<and> engine_claims e1 (id_value i) = Some (ar_rate_ups request)
    else engine_claims e1 \<subseteq>\<^sub>m engine_claims e"
proof (cases "finish_apply_report now i j report e")
  case (Pair r e2)
  have sub: "engine_claims e2 \<subseteq>\<^sub>m engine_claims e"
    using claims_shrink [OF finish_apply_report_evolves [of e now i j report] claims_quiet] Pair by simp
  show ?thesis
  proof (cases r)
    case (Some x)
    with Pair assms have "x = Inr c" "e2 = e1" by (simp_all add: finish_apply_def)
    with Some Pair sub finish_apply_report_answer show ?thesis by fastforce
  next
    case None
    obtain v e3 where v: "call_verify request e2 = (v, e3)" by (metis prod.collapse)
    have f: "finish_apply_verified now i j request v e3 = (Inr c, e1)"
      using assms Pair None v by (simp add: finish_apply_def)
    have "v = fst (call_verify request e)"
      using call_verify_backend [OF finish_apply_report_backend] Pair None v by (metis fst_conv)
    moreover have "engine_claims e3 \<subseteq>\<^sub>m engine_claims e"
      using sub call_verify_moves [OF v] by (auto simp: engine_claims_def map_le_def dom_def)
    moreover obtain a env where "find_attempt_locked j e = Some a" "find_envelope_locked i e = Some env"
      "attempt_inflight (att_state a)" "\<not> fencing_boot report a" "\<not> fencing_epoch report a e"
      "authority_status_locked env now e = R_None" "cr_acknowledged report"
      by (rule finish_apply_report_proceeds [OF Pair [unfolded None]])
    ultimately show ?thesis
      using finish_apply_verified_answer [OF f]
      by (auto split: if_splits intro: map_le_trans)
  qed
qed

theorem verified_means_read_back_witness:
  "\<exists>request report (e :: SyntheticBackend Engine) c e1.
     finish_apply 22 (StrongId 1) (ar_attempt request) request report e = (Inr c, e1) \<and> co_verified c
     \<and> exact_readback request (fst (call_verify request e)) \<and> engine_claims e1 1 = Some 400"
proof -
  obtain request report and e :: "SyntheticBackend Engine" where rate: "ar_rate_ups request = 400"
    and "answered (finish_apply 22 (StrongId 1) (ar_attempt request) request report e)"
    by (rule run_applied)
  then obtain c e1 where
    "finish_apply 22 (StrongId 1) (ar_attempt request) request report e = (Inr c, e1)" "co_verified c"
    by (elim answeredE)
  with rate verified_means_read_back [OF this(1)] show ?thesis by (simp only: if_True StrongId.sel) blast
qed

section \<open>The answer to a revoke\<close>

definition confirmed_absent :: "VerificationOutcome \<Rightarrow> bool" where
  "confirmed_absent v \<longleftrightarrow> vo_status v = VerificationStatus_Confirmed \<and> \<not> vo_observed_present v"

definition is_revoked :: "RateEnvelopeId \<Rightarrow> 'b Engine \<Rightarrow> bool" where
  "is_revoked i e \<longleftrightarrow>
     (\<exists>env. find_envelope_locked i e = Some env \<and> env_state env = EnvelopeState_Revoked)"

text \<open>A section that turns no envelope into a revoked one.\<close>

abbreviation not_revoking :: "RateEnvelope \<Rightarrow> RateEnvelope \<Rightarrow> bool" where
  "not_revoking \<equiv> (\<lambda>env u. env_state u \<noteq> EnvelopeState_Revoked)"

lemma evolves_not_revoking:
  assumes "evolves not_revoking Q N e e1" "is_revoked k e1"
  shows "is_revoked k e"
proof -
  obtain u where u: "table_find (eng_envelopes e1) (id_value k) = Some u" "env_state u = EnvelopeState_Revoked"
    using assms(2) by (auto simp: is_revoked_def find_envelope_locked_def)
  then obtain env where "table_find (eng_envelopes e) (id_value k) = Some env" "u = env"
    using assms(1) reworks_find [of not_revoking "eng_envelopes e" "eng_envelopes e1" "id_value k" u]
    unfolding evolves_def by blast
  with u show ?thesis by (auto simp: is_revoked_def find_envelope_locked_def)
qed

lemma finish_revoke_report_not_revoking:
  "evolves not_revoking (\<lambda>a b. True) no_attempt e (snd (finish_revoke_report now i j report e))"
  unfolding finish_revoke_report_def reject_late_revoke_def record_refused_revoke_def Let_def prod.case
  by (rule evolves_rules | assumption | simp add: revoke_disputed_def)+

lemma finish_revoke_report_answer:
  assumes "finish_revoke_report now i j report e = (r, e1)"
  shows "r = Inl (Inr c) \<Longrightarrow> \<not> co_verified c" "r = Inr probe \<Longrightarrow> eng_backend e1 = eng_backend e"
    "r = Inr probe \<Longrightarrow> cr_acknowledged report \<and> ar_envelope probe = env_id (the (find_envelope_locked i e))
       \<and> ar_rate_ups probe = 0
       \<and> (\<exists>a. find_attempt_locked j e = Some a \<and> attempt_inflight (att_state a) \<and> \<not> fencing_boot report a)"
  using assms unfolding finish_revoke_report_def Let_def
  by (auto simp: reject_late_revoke_def record_refused_revoke_def assign_attempt_def Let_def
        empty_completion_def map_prod_def fail_def only_durability_fields(2) [OF commit_records_frame]
        make_apply_request_def
        split: option.splits prod.splits sum.splits if_splits)

lemma publish_revoke_answer:
  assumes "publish_revoke now i j v env a e = (Inr c, e1)"
  shows "co_verified c \<longleftrightarrow> confirmed_absent v"
    "co_verified c \<Longrightarrow> \<exists>u. find_envelope_locked i e1 = Some u \<and> env_state u = EnvelopeState_Revoked
       \<and> \<not> env_effect_verified u \<and> env_applied_rate_ups u = 0 \<and> bk_tokens (env_bucket u) = 0"
  using assms
  by (auto simp: publish_revoke_def judge_revoke_def Let_def confirmed_absent_def find_envelope_locked_def
        assign_envelope_def split: prod.splits sum.splits if_splits)

lemma publish_revoke_not_revoking:
  assumes "find_envelope_locked i e = Some env" "find_attempt_locked j e = Some a" "\<not> confirmed_absent v"
  shows "evolves not_revoking (\<lambda>a b. True) no_attempt e (snd (publish_revoke now i j v env a e))"
proof -
  obtain a1 env1 confirmed where j: "judge_revoke now v a env = (a1, env1, confirmed)"
    by (metis prod_cases3)
  then have n: "env_state env1 \<noteq> EnvelopeState_Revoked"
    using assms(3) by (auto simp: judge_revoke_def Let_def confirmed_absent_def revoke_disputed_def)
  show ?thesis
    unfolding publish_revoke_def j prod.case Let_def
    by (rule evolves_rules assms(1,2) n TrueI | assumption | simp)+
qed

lemma finish_revoke_verified_answer:
  assumes "finish_revoke_verified now i j v before e = (Inr c, e1)"
  shows "if co_verified c
    then confirmed_absent v
       \<and> (\<exists>u. find_envelope_locked i e1 = Some u \<and> env_state u = EnvelopeState_Revoked
            \<and> \<not> env_effect_verified u \<and> env_applied_rate_ups u = 0 \<and> bk_tokens (env_bucket u) = 0)
    else is_revoked k e1 \<longrightarrow> is_revoked k e"
proof -
  consider (late) a where "find_attempt_locked j e = Some a" "att_state a \<noteq> AttemptState_Acknowledged"
    | (published) env a where "find_attempt_locked j e = Some a" "find_envelope_locked i e = Some env"
      "publish_revoke now i j v env a e = (Inr c, e1)"
    using assms unfolding finish_revoke_verified_def
    by (auto simp: fail_def split: option.splits if_splits)
  then show ?thesis
  proof cases
    case late
    then show ?thesis
      using assms unfolding finish_revoke_verified_def Let_def
      by (auto simp: fail_def empty_completion_def is_revoked_def find_envelope_locked_def assign_attempt_def
            only_durability_fields(12) [OF commit_records_frame] split: option.splits prod.splits sum.splits)
  next
    case published
    note p = publish_revoke_answer [OF published(3)]
    show ?thesis
    proof (cases "co_verified c")
      case False
      then have "evolves not_revoking (\<lambda>a b. True) no_attempt e e1"
        using publish_revoke_not_revoking [OF published(2,1), of v now] p(1) published(3) by simp
      with False evolves_not_revoking show ?thesis by auto
    qed (use p in simp)
  qed
qed

text \<open>
  C10: an envelope is revoked only when the backend reads back as empty.  When the
  completion of a revoke is answered as verified, the attempt was in flight and its boot
  matched, the backend had acknowledged, the readback for that envelope confirmed that
  nothing is enforced, and the envelope is now revoked with no rate and an empty bucket;
  any other answer turns no envelope into a revoked one.
\<close>

theorem revoked_means_absent:
  assumes "finish_revoke now i j report e = (Inr c, e1)"
  shows "if co_verified c
    then (\<exists>probe. confirmed_absent (fst (call_verify probe e))
            \<and> ar_envelope probe = env_id (the (find_envelope_locked i e)) \<and> ar_rate_ups probe = 0)
       \<and> cr_acknowledged report
       \<and> (\<exists>a. find_attempt_locked j e = Some a \<and> attempt_inflight (att_state a) \<and> \<not> fencing_boot report a)
       \<and> (\<exists>u. find_envelope_locked i e1 = Some u \<and> env_state u = EnvelopeState_Revoked
            \<and> \<not> env_effect_verified u \<and> env_applied_rate_ups u = 0 \<and> bk_tokens (env_bucket u) = 0)
    else is_revoked k e1 \<longrightarrow> is_revoked k e"
proof (cases "finish_revoke_report now i j report e")
  case (Pair r e2)
  note a = finish_revoke_report_answer [OF Pair]
  have sub: "is_revoked k e2 \<longrightarrow> is_revoked k e"
    using evolves_not_revoking [OF finish_revoke_report_not_revoking [of e now i j report]] Pair by simp
  show ?thesis
  proof (cases r)
    case (Inl x)
    with Pair assms have "x = Inr c" "e2 = e1" by (simp_all add: finish_revoke_def)
    with Inl a(1) sub show ?thesis by simp
  next
    case (Inr probe)
    obtain v e3 where v: "call_verify probe e2 = (v, e3)" by (metis prod.collapse)
    then have f: "finish_revoke_verified now i j v (case find_envelope_locked i e of Some env \<Rightarrow> env_state env
                | None \<Rightarrow> EnvelopeState_Unknown) e3 = (Inr c, e1)"
      using assms Pair Inr by (simp add: finish_revoke_def)
    have "v = fst (call_verify probe e)"
      using call_verify_backend [OF a(2) [OF Inr]] v by (metis fst_conv)
    moreover have "is_revoked k e3 = is_revoked k e2"
      using call_verify_moves [OF v] by (auto simp: is_revoked_def find_envelope_locked_def)
    ultimately show ?thesis
      using finish_revoke_verified_answer [OF f, of k] a(3) [OF Inr] sub by auto
  qed
qed

theorem revoked_means_absent_witness:
  "\<exists>j report (e :: SyntheticBackend Engine) c e1 u.
     finish_revoke 32 (StrongId 1) j report e = (Inr c, e1) \<and> co_verified c
     \<and> find_envelope_locked (StrongId 1) e1 = Some u \<and> env_state u = EnvelopeState_Revoked"
proof -
  obtain j report and e :: "SyntheticBackend Engine" where
    "answered (finish_revoke 32 (StrongId 1) j report e)"
    by (rule run_applied) (auto split: option.splits)
  then obtain c e1 where "finish_revoke 32 (StrongId 1) j report e = (Inr c, e1)" "co_verified c"
    by (rule answeredE)
  with revoked_means_absent [OF this(1)] show ?thesis by (simp only: if_True) blast
qed

end
