(* ===== verification/Engine_Liveness.thy ===== *)
theory Engine_Liveness
  imports Engine_Outcomes
begin

text \<open>
  Progress: an apply that is dispatched to a backend that does what it acknowledges ends
  with the rate in force, on the backend and in the engine.
\<close>

lemma apply_phase_one_dispatches:
  assumes "apply_phase_one now i actor e = (PhaseProceed d request, e1)"
  obtains env key where "find_envelope_locked i e = Some env" "po_authorized (derive_plan_locked env now e)"
    "dispatch_planned now i key (po_plan (derive_plan_locked env now e)) env e = (PhaseProceed d request, e1)"
    "session_refusal e = (None :: (ApplyDispatch, ApplyRequest) PhaseOne option)"
  using assms unfolding apply_phase_one_def Let_def
  by (auto simp: deny_apply_def session_refusal_def Let_def
        split: option.splits prod.splits sum.splits if_splits)

lemma planned_epoch:
  assumes "po_authorized (derive_plan_locked env now e)"
  shows "fp_epoch (plan_fingerprint (env_plan (planned_envelope (po_plan (derive_plan_locked env now e)) env))) = eng_epoch e"
proof -
  note c = derive_plan_authorized_cases [OF assms [unfolded derive_plan_locked_def]]
  have "fp_epoch (plan_fingerprint (po_plan (derive_plan_locked env now e))) = eng_epoch e"
    unfolding derive_plan_locked_def derive_plan_legal(2) [OF c]
    by (simp add: published_binding make_plan_inputs_locked_def)
  then show ?thesis
    by (simp add: planned_envelope_def binding_unchanged_def same_binding_def)
qed

lemma dispatch_planned_result:
  assumes "dispatch_planned now i key p env e = (PhaseProceed d request, e1)"
    and "table_ok (eng_attempts e)" "length (eng_attempt_order e) < attempt_bound e"
  defines "u \<equiv> dispatching_envelope now (planned_envelope p env)"
    and "a \<equiv> apply_attempt now key (planned_envelope p env) e"
  shows "find_envelope_locked i e1 = Some u" "find_attempt_locked (ar_attempt request) e1 = Some a"
    "request = make_apply_request u a" "eng_backend e1 = eng_backend e" "eng_config e1 = eng_config e"
    "eng_epoch e1 = eng_epoch e"
proof -
  obtain records e2 where e2: "commit_records_locked records (allocate_attempt e) = (Inr (), e2)"
    and e1: "e1 = count (\<lambda>c. c\<lparr>ct_applies_dispatched := ct_applies_dispatched c + 1\<rparr>)
               (retain_attempt_locked a (assign_envelope i u e2))"
    and r: "request = make_apply_request u a"
    using assms(1) unfolding dispatch_planned_def Let_def u_def a_def
    by (auto split: prod.splits sum.splits)
  note f = only_durability_fields [OF commit_records_frame [OF e2]]
  have "table_find (eng_attempts (retain_attempt_locked a (assign_envelope i u e2))) (id_value (att_id a)) = Some a"
    using assms(2,3) f
    by (intro retain_attempt_find)
       (simp_all add: assign_envelope_def allocate_attempt_def attempt_bound_def a_def apply_attempt_def
          attempt_state_is_terminal_def)
  then show "find_attempt_locked (ar_attempt request) e1 = Some a"
    by (simp add: e1 r find_attempt_locked_def make_apply_request_def)
  show "find_envelope_locked i e1 = Some u" "request = make_apply_request u a"
    "eng_backend e1 = eng_backend e" "eng_config e1 = eng_config e" "eng_epoch e1 = eng_epoch e"
    using f by (simp_all add: e1 r find_envelope_locked_def assign_envelope_def allocate_attempt_def)
qed

lemma authority_status_frame:
  "authority_frame e e1 \<Longrightarrow> eng_epoch e1 = eng_epoch e \<Longrightarrow> eng_config e1 = eng_config e
   \<Longrightarrow> authority_status_locked env now e1 = authority_status_locked env now e"
  by (simp add: authority_status_locked_def make_plan_inputs_locked_def authority_frame_def)

lemma publish_readback_volatile:
  "ec_durability (eng_config e) \<noteq> DurabilityMode_Strict \<Longrightarrow>
   \<exists>c e1. publish_readback now i j request v env a e = (Inr c, e1) \<and> eng_backend e1 = eng_backend e"
  by (simp add: publish_readback_def Let_def commit_not_strict assign_attempt_def assign_envelope_def
        split: prod.splits)

lemma call_verify_assign:
  "call_verify r e = (v, e1) \<Longrightarrow> call_verify r (assign_attempt j a e)
     = (v, (assign_attempt j a e)\<lparr>eng_backend := eng_backend e1\<rparr>)"
  by (cases e) (auto simp: call_verify_def assign_attempt_def split: option.splits prod.splits)

lemma finish_apply_settles:
  assumes "find_attempt_locked j e = Some a" "find_envelope_locked i e = Some env"
    and a: "att_kind a = AttemptKind_Apply" "attempt_inflight (att_state a)"
      "fp_epoch (att_fingerprint a) = eng_epoch e"
    and fence: "\<not> fencing_boot report a" "\<not> fencing_epoch report a e"
    and auth: "authority_status_locked env now e = R_None"
    and report: "cr_acknowledged report" "cr_status report = DispatchStatus_Completed"
    and volatile: "ec_durability (eng_config e) \<noteq> DurabilityMode_Strict"
    and v: "call_verify request e = (v, e1)" "exact_readback request v"
  obtains c e3 where "finish_apply now i j request report e = (Inr c, e3)" "co_verified c"
    "eng_backend e3 = eng_backend e1" "engine_claims e3 (id_value i) = Some (ar_rate_ups request)"
proof -
  let ?a = "acknowledged_attempt now report a"
  have 1: "finish_apply_report now i j report e = (None, assign_attempt j ?a e)"
    using assms(1,2) a fence auth report commit_not_strict [OF volatile]
    by (auto simp: finish_apply_report_def Let_def attempt_inflight_def)
  let ?e = "(assign_attempt j ?a e)\<lparr>eng_backend := eng_backend e1\<rparr>"
  note 2 = call_verify_assign [OF v(1), of j ?a]
  have st: "att_state ?a = AttemptState_Acknowledged" by (simp add: acknowledged_attempt_def)
  have "authority_status_locked env now ?e = R_None"
    using auth authority_status_frame [of e ?e env now] by (simp add: authority_frame_def assign_attempt_def)
  then have 3: "finish_apply_verified now i j request v ?e = publish_readback now i j request v env ?a ?e"
    using assms(2) a(3) st
    by (simp add: finish_apply_verified_def find_attempt_locked_def find_envelope_locked_def assign_attempt_def
          acknowledged_attempt_def)
  obtain c e3 where p: "publish_readback now i j request v env ?a ?e = (Inr c, e3)" "eng_backend e3 = eng_backend e1"
    using publish_readback_volatile [of ?e now i j request v env ?a] volatile
    by (auto simp: assign_attempt_def)
  show thesis
  proof (rule that)
    show "finish_apply now i j request report e = (Inr c, e3)" by (simp add: finish_apply_def 1 2 3 p(1))
    show c: "co_verified c" using publish_readback_answer(1) [OF p(1) st] v(2) by simp
    show "engine_claims e3 (id_value i) = Some (ar_rate_ups request)"
      using publish_readback_answer(2) [OF p(1) st c] by simp
    show "eng_backend e3 = eng_backend e1" by (rule p(2))
  qed
qed

section \<open>On a backend that does what it acknowledges\<close>

context fencing_backend
begin

lemma completed_then_exact:
  assumes "ops_dispatch_apply ops r b = (outcome, b1)" "ops_verify ops r b1 = (v, b2)" "ok b" "honest b r"
    and "do_status outcome = DispatchStatus_Completed" "vo_status v = VerificationStatus_Confirmed"
  shows "exact_readback r v"
    "holds b2 (ar_envelope r) = Some (ar_envelope_generation r, ar_rate_ups r, ar_burst_tokens r)"
  using apply_then_verify [OF assms(3,4)] apply_completed [of b r] verify_holds [of b1 r] apply_ok [of b r] assms
  by (simp_all add: exact_readback_def)

lemma dispatched_apply_settles:
  assumes "apply_phase_one now i actor e = (PhaseProceed d request, e1)"
    and "table_ok (eng_attempts e)" "length (eng_attempt_order e) < attempt_bound e"
    and volatile: "ec_durability (eng_config e) \<noteq> DurabilityMode_Strict"
    and backend: "eng_backend e = Some (ops, b)" "ok b" "honest b request"
    and dispatched: "ops_dispatch_apply ops request b = (outcome, b1)" "do_status outcome = DispatchStatus_Completed"
      "do_boot outcome = ops_session_boot ops b" "do_epoch outcome = eng_epoch e"
    and verified: "ops_verify ops request b1 = (v, b2)" "vo_status v = VerificationStatus_Confirmed"
    and current: "find_envelope_locked i e1 = Some env" "authority_status_locked env finished e1 = R_None"
  shows "\<exists>r e3. apply_envelope now received finished i actor e = (Inr r, e3) \<and> ad_verified r
      \<and> engine_claims e3 (id_value i) = Some (ar_rate_ups request) \<and> eng_backend e3 = Some (ops, b2)
      \<and> holds b2 (ar_envelope request)
          = Some (ar_envelope_generation request, ar_rate_ups request, ar_burst_tokens request)"
proof -
  obtain env0 key where plan: "po_authorized (derive_plan_locked env0 now e)"
    and d: "dispatch_planned now i key (po_plan (derive_plan_locked env0 now e)) env0 e = (PhaseProceed d request, e1)"
    by (rule apply_phase_one_dispatches [OF assms(1)])
  note p = dispatch_planned_result [OF d assms(2,3)]
  define a where "a = apply_attempt now key (planned_envelope (po_plan (derive_plan_locked env0 now e)) env0) e"
  have a: "att_kind a = AttemptKind_Apply" "attempt_inflight (att_state a)"
    "fp_epoch (att_fingerprint a) = eng_epoch e" "att_boot a = session_boot e"
    using planned_epoch [OF plan] by (simp_all add: a_def apply_attempt_def attempt_inflight_def)
  let ?e = "e1\<lparr>eng_backend := Some (ops, b1)\<rparr>" and ?report = "dispatch_report received outcome"
  have call: "call_apply request e1 = (outcome, ?e)"
    using p(4) backend(1) dispatched(1) by (simp add: call_apply_def)
  have v: "call_verify request ?e = (v, e1\<lparr>eng_backend := Some (ops, b2)\<rparr>)"
    using verified(1) by (simp add: call_verify_def)
  have fence: "\<not> fencing_boot ?report a" "\<not> fencing_epoch ?report a ?e"
    using dispatched(3,4) p(6) a(3,4) backend(1)
    by (auto simp: fencing_boot_def fencing_epoch_def dispatch_report_def session_boot_def)
  have auth: "authority_status_locked env finished ?e = R_None"
    using current(2) authority_status_frame [of e1 ?e env finished] by (simp add: authority_frame_def)
  note exact = completed_then_exact [OF dispatched(1) verified(1) backend(2,3) dispatched(2) verified(2)]
  obtain c e3 where f: "finish_apply finished i (ar_attempt request) request ?report ?e = (Inr c, e3)"
    "co_verified c" "eng_backend e3 = Some (ops, b2)" "engine_claims e3 (id_value i) = Some (ar_rate_ups request)"
  proof (rule finish_apply_settles [OF _ _ a(1,2) _ fence auth _ _ _ v exact(1)])
    show "find_attempt_locked (ar_attempt request) ?e = Some a" "find_envelope_locked i ?e = Some env"
      using p(2) current(1) by (simp_all add: find_attempt_locked_def find_envelope_locked_def a_def)
    show "fp_epoch (att_fingerprint a) = eng_epoch ?e" "ec_durability (eng_config ?e) \<noteq> DurabilityMode_Strict"
      using a(3) p(5,6) volatile by simp_all
    show "cr_acknowledged ?report" "cr_status ?report = DispatchStatus_Completed"
      using dispatched(2) by (simp_all add: dispatch_report_def)
  qed simp
  show ?thesis
    using f exact(2) by (simp add: apply_envelope_def assms(1) call)
qed

end

section \<open>On the synthetic backend\<close>

lemma ready_apply:
  assumes "device_ready r d" "device_apply r d = (out, d1)"
  shows "do_status out = DispatchStatus_Completed" "do_boot out = dev_boot d" "do_epoch out = ar_epoch r"
    "vo_status (fst (device_read_back r d1)) = VerificationStatus_Confirmed"
proof -
  have r: "device_apply_refusal r (d\<lparr>dev_apply_calls := dev_apply_calls d + 1\<rparr>) = None"
    using assms(1) by (auto simp: device_ready_def device_apply_refusal_def device_serves_def incarnation_ok_def)
  then have "device_serves d1 (ar_epoch r) (ar_boot r)" "dev_config d1 = dev_config d"
    using assms by (auto simp: device_apply_def Let_def device_ready_def device_serves_def)
  then show "vo_status (fst (device_read_back r d1)) = VerificationStatus_Confirmed"
    using assms(1)
    by (simp add: device_read_back_def device_ready_def device_serves_def incarnation_ok_def Let_def observe_entry_def)
  show "do_status out = DispatchStatus_Completed" "do_boot out = dev_boot d" "do_epoch out = ar_epoch r"
    using assms r by (auto simp: device_apply_def Let_def device_ready_def device_serves_def)
qed

lemma dispatched_request_epoch:
  assumes "apply_phase_one now i actor e = (PhaseProceed d request, e1)"
    "table_ok (eng_attempts e)" "length (eng_attempt_order e) < attempt_bound e"
  shows "ar_epoch request = eng_epoch e"
  by (rule apply_phase_one_dispatches [OF assms(1)], drule dispatch_planned_result(3) [OF _ assms(2,3)])
     (simp add: make_apply_request_def apply_attempt_def)


lemma open_envelope_backend: "eng_backend (snd (open_envelope now req actor e)) = eng_backend e"
  by (auto simp: open_envelope_def refuse_intake_def refuse_actor_def reject_shutdown_def Let_def
        assign_envelope_def only_durability_fields(2) [OF commit_records_frame]
        only_durability_fields(2) [OF commit_one_frame]
        split: option.splits prod.splits sum.splits)

lemma run_opened_backend: "eng_backend run_opened = Some (synthetic_ops, run_backend)"
  by (simp add: run_opened_def run_calls_def open_envelope_backend bind_backend_def Let_def)


end
