(* ===== verification/Crc.thy ===== *)
theory Crc
  imports Codec
begin

text \<open>
  The checksum of the journal and of the wire (\<^verbatim>\<open>src/codec.cpp\<close>): the table-driven
  CRC-32C computes the bit-by-bit division by the Castagnoli polynomial, can be
  computed in pieces, and separates any two byte sequences that differ only inside a
  window of four bytes.
\<close>

section \<open>One bit of the division\<close>

definition crc_bit :: "u32 \<Rightarrow> u32" where
  "crc_bit crc = (if crc AND 1 \<noteq> 0 then drop_bit 1 crc XOR kCrc32cPolynomial else drop_bit 1 crc)"

lemma crc_bits_Suc: "crc_bits (Suc n) crc = crc_bits n (crc_bit crc)"
  by (simp add: crc_bit_def)

lemma crc_bits_add: "crc_bits (m + n) crc = crc_bits n (crc_bits m crc)"
  by (induction m arbitrary: crc) simp_all

lemma crc_bit_odd: "crc_bit x = drop_bit 1 x XOR (if odd x then kCrc32cPolynomial else 0)"
  by (simp add: crc_bit_def and_one_eq odd_iff_mod_2_eq_one)

lemma xor_cancel_left: "a XOR b = a XOR c \<longleftrightarrow> b = (c :: u32)"
  by (auto simp: bit_eq_iff bit_simps)

lemma xor_cancel_right: "b XOR a = c XOR a \<longleftrightarrow> b = (c :: u32)"
  by (auto simp: bit_eq_iff bit_simps)

lemma xor_eq_zero: "b XOR c = 0 \<longleftrightarrow> b = (c :: u32)"
  by (auto simp: bit_eq_iff bit_simps)

lemma odd_xor: "odd (x XOR y :: u32) \<longleftrightarrow> odd x \<noteq> odd y"
  using bit_xor_iff [of x y 0] by (simp add: bit_0)

lemma crc_bit_xor: "crc_bit (x XOR y) = crc_bit x XOR crc_bit y"
  by (simp add: crc_bit_odd odd_xor drop_bit_xor xor.assoc xor.left_commute)

lemma crc_bits_xor: "crc_bits n (x XOR y) = crc_bits n x XOR crc_bits n y"
  by (induction n arbitrary: x y) (simp_all only: crc_bits.simps(1) crc_bits_Suc crc_bit_xor)

lemma crc_bits_zero [simp]: "crc_bits n 0 = 0"
  by (induction n) (simp_all add: crc_bits_Suc crc_bit_odd del: crc_bits.simps(2))

text \<open>The polynomial has its top bit set, so a step can be undone and loses nothing.\<close>

lemma crc_bit_top: "bit (crc_bit x) 31 = odd x"
proof -
  have "\<not> bit x 32" using bit_imp_le_length [of x 32] by auto
  then show ?thesis
    by (simp add: crc_bit_odd bit_xor_iff bit_drop_bit_eq kCrc32cPolynomial_def bit_numeral_word_iff)
qed

lemma crc_bit_eq_zero: "crc_bit x = 0 \<Longrightarrow> x = 0"
proof -
  assume z: "crc_bit x = 0"
  then have e: "even x" using crc_bit_top [of x] by simp
  with z have "drop_bit 1 x = 0" by (simp add: crc_bit_odd)
  then have "\<not> bit x (Suc n)" for n
    using bit_drop_bit_eq [of 1 x] by (metis bit_0_eq bot_apply bot_bool_def comp_apply plus_1_eq_Suc)
  with e have "\<not> bit x n" for n by (cases n) (simp_all add: bit_0)
  then show ?thesis by (intro bit_eqI) simp
qed

lemma crc_bits_eq_zero: "crc_bits n x = 0 \<Longrightarrow> x = 0"
  by (induction n arbitrary: x) (auto simp only: crc_bits.simps(1) crc_bits_Suc dest: crc_bit_eq_zero)

lemma crc_bits_inj: "crc_bits n x = crc_bits n y \<longleftrightarrow> x = y"
proof
  assume "crc_bits n x = crc_bits n y"
  then have "crc_bits n (x XOR y) = 0" by (simp add: crc_bits_xor)
  then show "x = y" by (auto dest: crc_bits_eq_zero simp: xor_eq_zero)
qed simp

lemma crc_bits_low_zero: "take_bit n x = 0 \<Longrightarrow> crc_bits n x = drop_bit n x"
proof (induction n arbitrary: x)
  case (Suc n)
  have "even x" using Suc.prems bit_take_bit_iff [of "Suc n" x 0] by (simp add: bit_0)
  then have s: "crc_bit x = drop_bit 1 x" by (simp add: crc_bit_odd)
  have "take_bit n (drop_bit 1 x) = 0"
  proof (intro bit_eqI)
    fix m
    have "\<not> bit (take_bit (Suc n) x) (Suc m)" by (simp add: Suc.prems)
    then show "bit (take_bit n (drop_bit 1 x)) m = bit 0 m"
      by (simp add: bit_take_bit_iff bit_drop_bit_eq)
  qed
  then show ?case
    using Suc.IH [of "drop_bit 1 x"] by (simp add: crc_bits_Suc s drop_bit_drop_bit del: crc_bits.simps(2))
qed simp

section \<open>The table and the reference\<close>

text \<open>The division one bit at a time, without a table.\<close>

definition crc32c_bitwise :: "bytes \<Rightarrow> u32" where
  "crc32c_bitwise bs = foldl (\<lambda>crc b. crc_bits 8 (crc XOR ucast b)) 0xFFFFFFFF bs XOR 0xFFFFFFFF"

lemma crc_step_bits: "crc_step crc b = crc_bits 8 (crc XOR ucast b)"
proof -
  let ?x = "crc XOR ucast b"
  have split: "?x = take_bit 8 ?x XOR push_bit 8 (drop_bit 8 ?x)"
  proof (rule bit_eqI)
    fix n
    show "bit ?x n = bit (take_bit 8 ?x XOR push_bit 8 (drop_bit 8 ?x)) n"
      using bit_imp_le_length [of crc n] by (cases "n < 8") (auto simp: bit_simps)
  qed
  have low: "take_bit 8 (push_bit 8 (drop_bit 8 ?x)) = 0"
    by (auto simp: bit_eq_iff bit_simps)
  have high: "drop_bit 8 (push_bit 8 (drop_bit 8 ?x)) = drop_bit 8 crc"
  proof (rule bit_word_eqI)
    fix n
    have "\<not> bit b (8 + n)" using bit_imp_le_length [of b "8 + n"] by auto
    moreover have "bit crc (8 + n) \<Longrightarrow> 8 + n < 32" using bit_imp_le_length [of crc "8 + n"] by simp
    ultimately show "bit (drop_bit 8 (push_bit 8 (drop_bit 8 ?x))) n = bit (drop_bit 8 crc) n"
      by (auto simp: bit_simps)
  qed
  have "crc_bits 8 ?x = crc_bits 8 (take_bit 8 ?x) XOR crc_bits 8 (push_bit 8 (drop_bit 8 ?x))"
    by (subst split) (rule crc_bits_xor)
  also have "\<dots> = crc_bits 8 (take_bit 8 ?x) XOR drop_bit 8 crc"
    by (simp only: crc_bits_low_zero [OF low] high)
  finally show ?thesis by (simp add: crc_step_def crc32c_table_def and_FF_u32)
qed

lemma crc_step_eq: "crc_step = (\<lambda>crc b. crc_bits 8 (crc XOR ucast b))"
  by (intro ext) (rule crc_step_bits)

lemma crc32c_fold: "crc32c bs = foldl crc_step 0xFFFFFFFF bs XOR 0xFFFFFFFF"
  by (simp add: crc32c_def crc32c_extend_def)

lemma crc32c_extend_append: "crc32c_extend (crc32c_extend seed xs) ys = crc32c_extend seed (xs @ ys)"
  by (simp add: crc32c_extend_def xor.assoc)

section \<open>Windows of errors\<close>

primrec join_bytes :: "bytes \<Rightarrow> u32" where
  "join_bytes [] = 0"
| "join_bytes (b # bs) = ucast b XOR push_bit 8 (join_bytes bs)"

lemma join_bytes_high: "length bs \<le> 3 \<Longrightarrow> bit (join_bytes bs) n \<Longrightarrow> n < 8 * length bs"
proof (induction bs arbitrary: n)
  case (Cons b bs)
  then have "bit b n \<or> 8 \<le> n \<and> bit (join_bytes bs) (n - 8)"
    by (auto simp: bit_simps)
  then show ?case
    using Cons.IH [of "n - 8"] Cons.prems bit_imp_le_length [of b n] by auto
qed simp

lemma foldl_crc_join:
  "length bs \<le> 4 \<Longrightarrow> foldl crc_step s bs = crc_bits (8 * length bs) (s XOR join_bytes bs)"
proof (induction bs arbitrary: s)
  case (Cons b bs)
  have low: "take_bit 8 (push_bit 8 (join_bytes bs)) = 0"
    by (auto simp: bit_eq_iff bit_simps)
  have shifted: "drop_bit 8 (push_bit 8 (join_bytes bs)) = join_bytes bs"
  proof (rule bit_eqI)
    fix n
    show "bit (drop_bit 8 (push_bit 8 (join_bytes bs))) n = bit (join_bytes bs) n"
      using join_bytes_high [of bs n] Cons.prems by (auto simp: bit_simps)
  qed
  have "foldl crc_step s (b # bs) = crc_bits (8 * length bs) (crc_step s b XOR join_bytes bs)"
    using Cons by simp
  also have "crc_step s b XOR join_bytes bs = crc_bits 8 (s XOR join_bytes (b # bs))"
    by (simp only: crc_step_bits join_bytes.simps crc_bits_xor crc_bits_low_zero [OF low] shifted
        xor.assoc)
  finally show ?case by (simp add: crc_bits_add [symmetric] del: join_bytes.simps)
qed simp

lemma join_bytes_inj:
  "length us \<le> 4 \<Longrightarrow> length us = length vs \<Longrightarrow> join_bytes us = join_bytes vs \<Longrightarrow> us = vs"
proof (induction us arbitrary: vs)
  case (Cons u us)
  then obtain v ws where vs: "vs = v # ws" "length us = length ws" by (cases vs) auto
  have eq: "bit (join_bytes (u # us)) n = bit (join_bytes (v # ws)) n" for n
    using Cons.prems(3) vs by simp
  have "bit u n = bit v n" if "n < 8" for n using eq [of n] that by (simp add: bit_simps)
  then have "u = v" by (auto intro: bit_word_eqI)
  moreover have "join_bytes us = join_bytes ws"
  proof (rule bit_eqI)
    fix n
    have small: "\<not> bit u (n + 8)" "\<not> bit v (n + 8)"
      using bit_imp_le_length [of u "n + 8"] bit_imp_le_length [of v "n + 8"] by auto
    show "bit (join_bytes us) n = bit (join_bytes ws) n"
    proof (cases "n < 24")
      case True
      then show ?thesis using eq [of "n + 8"] small by (simp add: bit_simps)
    next
      case False
      then show ?thesis
        using join_bytes_high [of us n] join_bytes_high [of ws n] Cons.prems vs by auto
    qed
  qed
  ultimately show ?case using Cons.IH [of ws] Cons.prems vs by simp
qed simp

lemma foldl_crc_state: "foldl crc_step s bs = foldl crc_step t bs \<longleftrightarrow> s = t"
proof (induction bs arbitrary: s t)
  case (Cons b bs)
  have "crc_step s b = crc_step t b \<longleftrightarrow> s = t"
    by (simp only: crc_step_bits crc_bits_inj xor_cancel_right)
  then show ?case using Cons by simp
qed simp

lemma crc32c_window:
  assumes "length us = length vs" "length us \<le> 4"
  shows "crc32c (xs @ us @ ys) = crc32c (xs @ vs @ ys) \<longleftrightarrow> us = vs"
proof
  let ?s = "foldl crc_step 0xFFFFFFFF xs"
  assume "crc32c (xs @ us @ ys) = crc32c (xs @ vs @ ys)"
  then have "foldl crc_step (foldl crc_step ?s us) ys = foldl crc_step (foldl crc_step ?s vs) ys"
    by (simp add: crc32c_fold xor_cancel_right)
  then have "crc_bits (8 * length us) (?s XOR join_bytes us) = crc_bits (8 * length us) (?s XOR join_bytes vs)"
    using assms by (simp add: foldl_crc_state foldl_crc_join)
  then have "join_bytes us = join_bytes vs"
    by (simp only: crc_bits_inj xor_cancel_left)
  then show "us = vs" using join_bytes_inj assms by blast
qed simp

text \<open>A sequence followed by its own checksum always ends in the same state.\<close>

lemma join_put_u32: "join_bytes (put_u32 v) = v"
proof (rule bit_eqI)
  fix n
  show "bit (join_bytes (put_u32 v)) n = bit v n"
    using bit_imp_le_length [of v n]
    by (cases "n < 8"; cases "n < 16"; cases "n < 24") (auto simp: put_u32_def and_FF_u32 bit_simps)
qed

lemma crc32c_residue: "crc32c (w @ put_u32 (crc32c w)) = crc_bits 32 0xFFFFFFFF XOR 0xFFFFFFFF"
proof -
  let ?s = "foldl crc_step 0xFFFFFFFF w"
  have "foldl crc_step ?s (put_u32 (crc32c w)) = crc_bits 32 (?s XOR (?s XOR 0xFFFFFFFF))"
    using foldl_crc_join [of "put_u32 (crc32c w)" ?s] by (simp add: join_put_u32 crc32c_fold [of w])
  also have "?s XOR (?s XOR 0xFFFFFFFF) = (0xFFFFFFFF :: u32)"
    by (auto simp: bit_eq_iff bit_simps)
  finally show ?thesis by (simp only: crc32c_fold [of "w @ put_u32 (crc32c w)"] foldl_append)
qed

section \<open>Properties\<close>

text \<open>
  C39: The table-driven CRC-32C of the journal and the wire computes the bit-by-bit
  division by the Castagnoli polynomial, extending a checksum over further bytes gives
  the checksum of the whole, and two byte sequences that differ only inside a window
  of at most four bytes never have the same checksum.
\<close>

theorem crc32c_correct:
  "crc32c bs = crc32c_bitwise bs
   \<and> crc32c_extend (crc32c xs) ys = crc32c (xs @ ys)
   \<and> (length us = length vs \<and> length us \<le> 4 \<longrightarrow>
        (crc32c (xs @ us @ ys) = crc32c (xs @ vs @ ys) \<longleftrightarrow> us = vs))"
  using crc32c_extend_append [of 0 xs ys] crc32c_window [of us vs xs ys]
  by (simp add: crc32c_fold crc32c_bitwise_def crc_step_eq [symmetric] crc32c_def [symmetric])

theorem crc32c_correct_witness:
  "crc32c ([1, 2] @ [3, 4, 5, 6] @ [7]) \<noteq> crc32c ([1, 2] @ [3, 4, 5, 8] @ [7])"
  using crc32c_correct [of "[]" "[1, 2]" "[7]" "[3, 4, 5, 6]" "[3, 4, 5, 8]"] by simp

end
