(* ===== verification/Wire.thy ===== *)
theory Wire
  imports Record_Codec Backend Crc
begin

text \<open>
  The framed transport (\<^verbatim>\<open>include/rate_governor/wire.hpp\<close>, \<^verbatim>\<open>src/wire.cpp\<close>): the frame
  with its header, payload and checksum, and the bodies of the messages a coordinator
  and a worker exchange.  An encoder that cannot encode answers the empty vector, as in
  the code; a decoder answers the value, or nothing (for frames: the reason of the
  refusal).  The enumerators of a frame are cast from their raw number unchecked, so a
  type that is not declared is kept as its number.  One locale states what a message
  body owes its transport and every message is shown to honour it.
\<close>

section \<open>Frames\<close>

definition kWireProtocolVersion :: u16 where
  "kWireProtocolVersion = 1"

definition kWireFrameMagic :: u32 where
  "kWireFrameMagic = 0x31464752"

definition kWireHeaderSize :: nat where
  "kWireHeaderSize = 16"

definition kWireCrcSize :: nat where
  "kWireCrcSize = 4"

definition kWireMaxPayloadBytes :: nat where
  "kWireMaxPayloadBytes = 64 * 1024"

definition kWireMaxTextBytes :: nat where
  "kWireMaxTextBytes = 96"

datatype MessageType =
    MessageType_Unknown
  | MessageType_Hello
  | MessageType_HelloAck
  | MessageType_ApplyRequest
  | MessageType_ApplyResponse
  | MessageType_RevokeRequest
  | MessageType_RevokeResponse
  | MessageType_VerifyRequest
  | MessageType_VerifyResponse
  | MessageType_HeartbeatRequest
  | MessageType_HeartbeatResponse
  | MessageType_ShutdownRequest
  | MessageType_ShutdownResponse
  | MessageType_ErrorResponse
  | MessageType_AccountingRequest
  | MessageType_AccountingResponse
  | MessageType_other u16

primrec MessageType_to_u16 :: "MessageType \<Rightarrow> u16" where
  "MessageType_to_u16 MessageType_Unknown = 0"
| "MessageType_to_u16 MessageType_Hello = 1"
| "MessageType_to_u16 MessageType_HelloAck = 2"
| "MessageType_to_u16 MessageType_ApplyRequest = 10"
| "MessageType_to_u16 MessageType_ApplyResponse = 11"
| "MessageType_to_u16 MessageType_RevokeRequest = 12"
| "MessageType_to_u16 MessageType_RevokeResponse = 13"
| "MessageType_to_u16 MessageType_VerifyRequest = 14"
| "MessageType_to_u16 MessageType_VerifyResponse = 15"
| "MessageType_to_u16 MessageType_HeartbeatRequest = 16"
| "MessageType_to_u16 MessageType_HeartbeatResponse = 17"
| "MessageType_to_u16 MessageType_ShutdownRequest = 18"
| "MessageType_to_u16 MessageType_ShutdownResponse = 19"
| "MessageType_to_u16 MessageType_ErrorResponse = 20"
| "MessageType_to_u16 MessageType_AccountingRequest = 21"
| "MessageType_to_u16 MessageType_AccountingResponse = 22"
| "MessageType_to_u16 (MessageType_other b) = b"

definition MessageType_of_u16 :: "u16 \<Rightarrow> MessageType" where
  "MessageType_of_u16 b =
     (if b = 0 then MessageType_Unknown
      else if b = 1 then MessageType_Hello
      else if b = 2 then MessageType_HelloAck
      else if b = 10 then MessageType_ApplyRequest
      else if b = 11 then MessageType_ApplyResponse
      else if b = 12 then MessageType_RevokeRequest
      else if b = 13 then MessageType_RevokeResponse
      else if b = 14 then MessageType_VerifyRequest
      else if b = 15 then MessageType_VerifyResponse
      else if b = 16 then MessageType_HeartbeatRequest
      else if b = 17 then MessageType_HeartbeatResponse
      else if b = 18 then MessageType_ShutdownRequest
      else if b = 19 then MessageType_ShutdownResponse
      else if b = 20 then MessageType_ErrorResponse
      else if b = 21 then MessageType_AccountingRequest
      else if b = 22 then MessageType_AccountingResponse
      else MessageType_other b)"

record Frame =
  fr_type :: MessageType
  fr_flags :: u32
  fr_payload :: bytes

record FrameHeader =
  fh_magic :: u32
  fh_version :: u16
  fh_type :: MessageType
  fh_flags :: u32
  fh_payload_len :: u32

definition frame_checksum :: "bytes \<Rightarrow> nat \<Rightarrow> u32 option" where
  "frame_checksum bs header_and_payload =
     (if length bs < header_and_payload then None else Some (crc32c (take header_and_payload bs)))"

definition encode_frame :: "Frame \<Rightarrow> bytes" where
  "encode_frame f =
     (if kWireMaxPayloadBytes < length (fr_payload f) then []
      else
        let w = put_u32 kWireFrameMagic
                @ put_u16 kWireProtocolVersion
                @ put_u16 (MessageType_to_u16 (fr_type f))
                @ put_u32 (fr_flags f)
                @ put_u32 (of_nat (length (fr_payload f)))
                @ fr_payload f
        in (case frame_checksum w (length w) of None \<Rightarrow> [] | Some crc \<Rightarrow> w @ put_u32 crc))"

definition decode_frame_header :: "bytes \<Rightarrow> ReasonCode + FrameHeader" where
  "decode_frame_header header =
     (if length header < kWireHeaderSize then Inl R_MalformedInput
      else (case do {
          (magic, bs) \<leftarrow> get_u32 (take kWireHeaderSize header);
          (version, bs) \<leftarrow> get_u16 bs;
          (raw_type, bs) \<leftarrow> get_u16 bs;
          (flags, bs) \<leftarrow> get_u32 bs;
          (payload_len, bs) \<leftarrow> get_u32 bs;
          Some (magic, version, raw_type, flags, payload_len) } of
        None \<Rightarrow> Inl R_MalformedInput
      | Some (magic, version, raw_type, flags, payload_len) \<Rightarrow>
          if magic \<noteq> kWireFrameMagic then Inl R_MalformedInput
          else if version \<noteq> kWireProtocolVersion then Inl R_UnsupportedOperation
          else if kWireMaxPayloadBytes < unat payload_len then Inl R_CapacityLimitExceeded
          else Inr \<lparr>fh_magic = magic, fh_version = version,
                 fh_type = MessageType_of_u16 raw_type, fh_flags = flags,
                 fh_payload_len = payload_len\<rparr>))"

definition decode_frame :: "bytes \<Rightarrow> ReasonCode + Frame" where
  "decode_frame bs =
     (case decode_frame_header bs of
        Inl reason \<Rightarrow> Inl reason
      | Inr header \<Rightarrow>
          let header_and_payload = kWireHeaderSize + unat (fh_payload_len header);
              total = header_and_payload + kWireCrcSize
          in if length bs < total then Inl R_MalformedInput
             else (case get_u32 (take kWireCrcSize (drop header_and_payload bs)) of
                 None \<Rightarrow> Inl R_MalformedInput
               | Some (stored_crc, _) \<Rightarrow>
                   if frame_checksum bs header_and_payload \<noteq> Some stored_crc
                   then Inl R_MalformedInput
                   else Inr \<lparr>fr_type = fh_type header, fr_flags = fh_flags header,
                          fr_payload = take (unat (fh_payload_len header))
                                         (drop kWireHeaderSize bs)\<rparr>))"

section \<open>Message bodies\<close>

record HelloMessage =
  hm_backend :: BackendId
  hm_backend_generation :: Generation
  hm_boot :: WorkerBootId
  hm_epoch :: FabricEpoch
  hm_kind :: BackendKind
  hm_capabilities :: u32
  hm_verification :: VerificationMode
  hm_max_rate_ups :: u64
  hm_max_burst_tokens :: u64
  hm_process_id :: u64
  hm_started_at_ns :: u64
  hm_envelope_limit :: u64
  hm_queue_capacity :: u64
  hm_worker_threads :: u32
  hm_label :: string
  hm_build :: string

definition encode_hello :: "HelloMessage \<Rightarrow> bytes" where
  "encode_hello m =
     (case put_bounded_text (hm_label m) kWireMaxTextBytes of
        None \<Rightarrow> []
      | Some label \<Rightarrow>
     (case put_bounded_text (hm_build m) kWireMaxTextBytes of
        None \<Rightarrow> []
      | Some build \<Rightarrow>
          put_u64 (id_value (hm_backend m))
          @ put_u64 (id_value (hm_backend_generation m))
          @ put_u64 (id_value (hm_boot m))
          @ put_u64 (id_value (hm_epoch m))
          @ put_u8 (BackendKind_to_u8 (hm_kind m))
          @ put_u8 (VerificationMode_to_u8 (hm_verification m))
          @ put_u16 0
          @ put_u32 (hm_capabilities m)
          @ put_u64 (hm_max_rate_ups m)
          @ put_u64 (hm_max_burst_tokens m)
          @ put_u64 (hm_process_id m)
          @ put_u64 (hm_started_at_ns m)
          @ put_u64 (hm_envelope_limit m)
          @ put_u64 (hm_queue_capacity m)
          @ put_u32 (hm_worker_threads m)
          @ put_u32 (ucast kWireProtocolVersion)
          @ label @ build))"

definition decode_hello :: "bytes \<Rightarrow> HelloMessage option" where
  "decode_hello bs = do {
     (backend, bs) \<leftarrow> get_u64 bs;
     (backend_generation, bs) \<leftarrow> get_u64 bs;
     (boot, bs) \<leftarrow> get_u64 bs;
     (epoch, bs) \<leftarrow> get_u64 bs;
     (kind, bs) \<leftarrow> get_u8 bs;
     (verification, bs) \<leftarrow> get_u8 bs;
     (reserved, bs) \<leftarrow> get_u16 bs;
     (capabilities, bs) \<leftarrow> get_u32 bs;
     (max_rate_ups, bs) \<leftarrow> get_u64 bs;
     (max_burst_tokens, bs) \<leftarrow> get_u64 bs;
     (process_id, bs) \<leftarrow> get_u64 bs;
     (started_at_ns, bs) \<leftarrow> get_u64 bs;
     (envelope_limit, bs) \<leftarrow> get_u64 bs;
     (queue_capacity, bs) \<leftarrow> get_u64 bs;
     (worker_threads, bs) \<leftarrow> get_u32 bs;
     (protocol, bs) \<leftarrow> get_u32 bs;
     if reserved \<noteq> 0 \<or> protocol \<noteq> ucast kWireProtocolVersion then None else do {
     (label, bs) \<leftarrow> get_bounded_text kWireMaxTextBytes bs;
     (build, bs) \<leftarrow> get_bounded_text kWireMaxTextBytes bs;
     if bs \<noteq> [] then None
     else Some \<lparr>hm_backend = StrongId backend, hm_backend_generation = StrongId backend_generation,
        hm_boot = StrongId boot, hm_epoch = StrongId epoch,
        hm_kind = BackendKind_of_u8 kind, hm_capabilities = capabilities,
        hm_verification = VerificationMode_of_u8 verification,
        hm_max_rate_ups = max_rate_ups, hm_max_burst_tokens = max_burst_tokens,
        hm_process_id = process_id, hm_started_at_ns = started_at_ns,
        hm_envelope_limit = envelope_limit, hm_queue_capacity = queue_capacity,
        hm_worker_threads = worker_threads, hm_label = label, hm_build = build\<rparr> } }"

record ApplyRequestMessage =
  aq_attempt :: EnforcementAttemptId
  aq_envelope :: RateEnvelopeId
  aq_envelope_generation :: Generation
  aq_rate_ups :: u64
  aq_burst_tokens :: u64
  aq_refill :: RefillSemantics
  aq_epoch :: FabricEpoch
  aq_boot :: WorkerBootId
  aq_deadline_ns :: u64

definition encode_apply_request :: "ApplyRequestMessage \<Rightarrow> bytes" where
  "encode_apply_request m =
     put_u64 (id_value (aq_attempt m))
     @ put_u64 (id_value (aq_envelope m))
     @ put_u64 (id_value (aq_envelope_generation m))
     @ put_u64 (aq_rate_ups m)
     @ put_u64 (aq_burst_tokens m)
     @ put_u8 (RefillSemantics_to_u8 (aq_refill m))
     @ put_u8 0
     @ put_u16 0
     @ put_u64 (id_value (aq_epoch m))
     @ put_u64 (id_value (aq_boot m))
     @ put_u64 (aq_deadline_ns m)"

definition decode_apply_request :: "bytes \<Rightarrow> ApplyRequestMessage option" where
  "decode_apply_request bs = do {
     (attempt, bs) \<leftarrow> get_u64 bs;
     (envelope, bs) \<leftarrow> get_u64 bs;
     (envelope_generation, bs) \<leftarrow> get_u64 bs;
     (rate_ups, bs) \<leftarrow> get_u64 bs;
     (burst_tokens, bs) \<leftarrow> get_u64 bs;
     (refill, bs) \<leftarrow> get_u8 bs;
     (pad8, bs) \<leftarrow> get_u8 bs;
     (pad16, bs) \<leftarrow> get_u16 bs;
     (epoch, bs) \<leftarrow> get_u64 bs;
     (boot, bs) \<leftarrow> get_u64 bs;
     (deadline_ns, bs) \<leftarrow> get_u64 bs;
     if pad8 \<noteq> 0 \<or> pad16 \<noteq> 0 then None else do {
     if bs \<noteq> [] then None
     else Some \<lparr>aq_attempt = StrongId attempt, aq_envelope = StrongId envelope,
        aq_envelope_generation = StrongId envelope_generation, aq_rate_ups = rate_ups,
        aq_burst_tokens = burst_tokens, aq_refill = RefillSemantics_of_u8 refill,
        aq_epoch = StrongId epoch, aq_boot = StrongId boot, aq_deadline_ns = deadline_ns\<rparr> } }"

record ApplyResponseMessage =
  ap_attempt :: EnforcementAttemptId
  ap_accepted :: bool
  ap_reason :: ReasonCode
  ap_applied_rate_ups :: u64
  ap_applied_burst_tokens :: u64
  ap_epoch :: FabricEpoch
  ap_boot :: WorkerBootId
  ap_detail :: string

definition encode_apply_response :: "ApplyResponseMessage \<Rightarrow> bytes" where
  "encode_apply_response m =
     (case put_bounded_text (ap_detail m) kWireMaxTextBytes of
        None \<Rightarrow> []
      | Some detail \<Rightarrow>
          put_u64 (id_value (ap_attempt m))
          @ put_bool (ap_accepted m)
          @ put_u8 0
          @ put_u16 (reason_raw (ap_reason m))
          @ put_u32 0
          @ put_u64 (ap_applied_rate_ups m)
          @ put_u64 (ap_applied_burst_tokens m)
          @ put_u64 (id_value (ap_epoch m))
          @ put_u64 (id_value (ap_boot m))
          @ detail)"

definition decode_apply_response :: "bytes \<Rightarrow> ApplyResponseMessage option" where
  "decode_apply_response bs = do {
     (attempt, bs) \<leftarrow> get_u64 bs;
     (accepted, bs) \<leftarrow> get_u8 bs;
     (pad8, bs) \<leftarrow> get_u8 bs;
     (reason, bs) \<leftarrow> get_u16 bs;
     (pad32, bs) \<leftarrow> get_u32 bs;
     (applied_rate_ups, bs) \<leftarrow> get_u64 bs;
     (applied_burst_tokens, bs) \<leftarrow> get_u64 bs;
     (epoch, bs) \<leftarrow> get_u64 bs;
     (boot, bs) \<leftarrow> get_u64 bs;
     (detail, bs) \<leftarrow> get_bounded_text kWireMaxTextBytes bs;
     if pad8 \<noteq> 0 \<or> pad32 \<noteq> 0 \<or> 1 < accepted then None else do {
     if bs \<noteq> [] then None
     else Some \<lparr>ap_attempt = StrongId attempt, ap_accepted = (accepted = 1),
        ap_reason = ReasonCode reason, ap_applied_rate_ups = applied_rate_ups,
        ap_applied_burst_tokens = applied_burst_tokens, ap_epoch = StrongId epoch,
        ap_boot = StrongId boot, ap_detail = detail\<rparr> } }"

record RevokeRequestMessage =
  rq_attempt :: EnforcementAttemptId
  rq_envelope :: RateEnvelopeId
  rq_envelope_generation :: Generation
  rq_epoch :: FabricEpoch
  rq_boot :: WorkerBootId
  rq_reason :: ReasonCode

definition encode_revoke_request :: "RevokeRequestMessage \<Rightarrow> bytes" where
  "encode_revoke_request m =
     put_u64 (id_value (rq_attempt m))
     @ put_u64 (id_value (rq_envelope m))
     @ put_u64 (id_value (rq_envelope_generation m))
     @ put_u64 (id_value (rq_epoch m))
     @ put_u64 (id_value (rq_boot m))
     @ put_u16 (reason_raw (rq_reason m))
     @ put_u16 0
     @ put_u32 0"

definition decode_revoke_request :: "bytes \<Rightarrow> RevokeRequestMessage option" where
  "decode_revoke_request bs = do {
     (attempt, bs) \<leftarrow> get_u64 bs;
     (envelope, bs) \<leftarrow> get_u64 bs;
     (envelope_generation, bs) \<leftarrow> get_u64 bs;
     (epoch, bs) \<leftarrow> get_u64 bs;
     (boot, bs) \<leftarrow> get_u64 bs;
     (reason, bs) \<leftarrow> get_u16 bs;
     (pad16, bs) \<leftarrow> get_u16 bs;
     (pad32, bs) \<leftarrow> get_u32 bs;
     if pad16 \<noteq> 0 \<or> pad32 \<noteq> 0 then None else do {
     if bs \<noteq> [] then None
     else Some \<lparr>rq_attempt = StrongId attempt, rq_envelope = StrongId envelope,
        rq_envelope_generation = StrongId envelope_generation, rq_epoch = StrongId epoch,
        rq_boot = StrongId boot, rq_reason = ReasonCode reason\<rparr> } }"

record RevokeResponseMessage =
  rp_attempt :: EnforcementAttemptId
  rp_removed :: bool
  rp_reason :: ReasonCode
  rp_epoch :: FabricEpoch
  rp_boot :: WorkerBootId
  rp_detail :: string

definition encode_revoke_response :: "RevokeResponseMessage \<Rightarrow> bytes" where
  "encode_revoke_response m =
     (case put_bounded_text (rp_detail m) kWireMaxTextBytes of
        None \<Rightarrow> []
      | Some detail \<Rightarrow>
          put_u64 (id_value (rp_attempt m))
          @ put_bool (rp_removed m)
          @ put_u8 0
          @ put_u16 (reason_raw (rp_reason m))
          @ put_u32 0
          @ put_u64 (id_value (rp_epoch m))
          @ put_u64 (id_value (rp_boot m))
          @ detail)"

definition decode_revoke_response :: "bytes \<Rightarrow> RevokeResponseMessage option" where
  "decode_revoke_response bs = do {
     (attempt, bs) \<leftarrow> get_u64 bs;
     (removed, bs) \<leftarrow> get_u8 bs;
     (pad8, bs) \<leftarrow> get_u8 bs;
     (reason, bs) \<leftarrow> get_u16 bs;
     (pad32, bs) \<leftarrow> get_u32 bs;
     (epoch, bs) \<leftarrow> get_u64 bs;
     (boot, bs) \<leftarrow> get_u64 bs;
     (detail, bs) \<leftarrow> get_bounded_text kWireMaxTextBytes bs;
     if pad8 \<noteq> 0 \<or> pad32 \<noteq> 0 \<or> 1 < removed then None else do {
     if bs \<noteq> [] then None
     else Some \<lparr>rp_attempt = StrongId attempt, rp_removed = (removed = 1),
        rp_reason = ReasonCode reason, rp_epoch = StrongId epoch, rp_boot = StrongId boot,
        rp_detail = detail\<rparr> } }"

record VerifyRequestMessage =
  vq_attempt :: EnforcementAttemptId
  vq_envelope :: RateEnvelopeId
  vq_envelope_generation :: Generation
  vq_epoch :: FabricEpoch
  vq_boot :: WorkerBootId

definition encode_verify_request :: "VerifyRequestMessage \<Rightarrow> bytes" where
  "encode_verify_request m =
     put_u64 (id_value (vq_attempt m))
     @ put_u64 (id_value (vq_envelope m))
     @ put_u64 (id_value (vq_envelope_generation m))
     @ put_u64 (id_value (vq_epoch m))
     @ put_u64 (id_value (vq_boot m))"

definition decode_verify_request :: "bytes \<Rightarrow> VerifyRequestMessage option" where
  "decode_verify_request bs = do {
     (attempt, bs) \<leftarrow> get_u64 bs;
     (envelope, bs) \<leftarrow> get_u64 bs;
     (envelope_generation, bs) \<leftarrow> get_u64 bs;
     (epoch, bs) \<leftarrow> get_u64 bs;
     (boot, bs) \<leftarrow> get_u64 bs;
     if bs \<noteq> [] then None
     else Some \<lparr>vq_attempt = StrongId attempt, vq_envelope = StrongId envelope,
        vq_envelope_generation = StrongId envelope_generation, vq_epoch = StrongId epoch,
        vq_boot = StrongId boot\<rparr> }"

record VerifyResponseMessage =
  vp_attempt :: EnforcementAttemptId
  vp_present :: bool
  vp_observed_rate_ups :: u64
  vp_observed_burst_tokens :: u64
  vp_epoch :: FabricEpoch
  vp_boot :: WorkerBootId
  vp_reason :: ReasonCode
  vp_detail :: string

definition encode_verify_response :: "VerifyResponseMessage \<Rightarrow> bytes" where
  "encode_verify_response m =
     (case put_bounded_text (vp_detail m) kWireMaxTextBytes of
        None \<Rightarrow> []
      | Some detail \<Rightarrow>
          put_u64 (id_value (vp_attempt m))
          @ put_bool (vp_present m)
          @ put_u8 0
          @ put_u16 (reason_raw (vp_reason m))
          @ put_u32 0
          @ put_u64 (vp_observed_rate_ups m)
          @ put_u64 (vp_observed_burst_tokens m)
          @ put_u64 (id_value (vp_epoch m))
          @ put_u64 (id_value (vp_boot m))
          @ detail)"

definition decode_verify_response :: "bytes \<Rightarrow> VerifyResponseMessage option" where
  "decode_verify_response bs = do {
     (attempt, bs) \<leftarrow> get_u64 bs;
     (present, bs) \<leftarrow> get_u8 bs;
     (pad8, bs) \<leftarrow> get_u8 bs;
     (reason, bs) \<leftarrow> get_u16 bs;
     (pad32, bs) \<leftarrow> get_u32 bs;
     (observed_rate_ups, bs) \<leftarrow> get_u64 bs;
     (observed_burst_tokens, bs) \<leftarrow> get_u64 bs;
     (epoch, bs) \<leftarrow> get_u64 bs;
     (boot, bs) \<leftarrow> get_u64 bs;
     (detail, bs) \<leftarrow> get_bounded_text kWireMaxTextBytes bs;
     if pad8 \<noteq> 0 \<or> pad32 \<noteq> 0 \<or> 1 < present then None else do {
     if bs \<noteq> [] then None
     else Some \<lparr>vp_attempt = StrongId attempt, vp_present = (present = 1),
        vp_observed_rate_ups = observed_rate_ups,
        vp_observed_burst_tokens = observed_burst_tokens, vp_epoch = StrongId epoch,
        vp_boot = StrongId boot, vp_reason = ReasonCode reason, vp_detail = detail\<rparr> } }"

record AccountingResponseMessage =
  am_requests_served :: u64
  am_applies_applied :: u64
  am_revokes_applied :: u64
  am_verifications :: u64
  am_rejections :: u64
  am_malformed_frames :: u64
  am_fenced_stale_epoch :: u64
  am_fenced_stale_boot :: u64
  am_queue_rejections :: u64
  am_queue_capacity :: u64
  am_queue_high_water :: u64
  am_active_envelopes :: u64
  am_envelope_limit :: u64
  am_idle_noop_requests :: u64
  am_boot :: WorkerBootId
  am_epoch :: FabricEpoch

definition encode_accounting_response :: "AccountingResponseMessage \<Rightarrow> bytes" where
  "encode_accounting_response m =
     put_u64 (am_requests_served m)
     @ put_u64 (am_applies_applied m)
     @ put_u64 (am_revokes_applied m)
     @ put_u64 (am_verifications m)
     @ put_u64 (am_rejections m)
     @ put_u64 (am_malformed_frames m)
     @ put_u64 (am_fenced_stale_epoch m)
     @ put_u64 (am_fenced_stale_boot m)
     @ put_u64 (am_queue_rejections m)
     @ put_u64 (am_queue_capacity m)
     @ put_u64 (am_queue_high_water m)
     @ put_u64 (am_active_envelopes m)
     @ put_u64 (am_envelope_limit m)
     @ put_u64 (am_idle_noop_requests m)
     @ put_u64 (id_value (am_boot m))
     @ put_u64 (id_value (am_epoch m))"

definition decode_accounting_response :: "bytes \<Rightarrow> AccountingResponseMessage option" where
  "decode_accounting_response bs = do {
     (requests_served, bs) \<leftarrow> get_u64 bs;
     (applies_applied, bs) \<leftarrow> get_u64 bs;
     (revokes_applied, bs) \<leftarrow> get_u64 bs;
     (verifications, bs) \<leftarrow> get_u64 bs;
     (rejections, bs) \<leftarrow> get_u64 bs;
     (malformed_frames, bs) \<leftarrow> get_u64 bs;
     (fenced_stale_epoch, bs) \<leftarrow> get_u64 bs;
     (fenced_stale_boot, bs) \<leftarrow> get_u64 bs;
     (queue_rejections, bs) \<leftarrow> get_u64 bs;
     (queue_capacity, bs) \<leftarrow> get_u64 bs;
     (queue_high_water, bs) \<leftarrow> get_u64 bs;
     (active_envelopes, bs) \<leftarrow> get_u64 bs;
     (envelope_limit, bs) \<leftarrow> get_u64 bs;
     (idle_noop_requests, bs) \<leftarrow> get_u64 bs;
     (boot, bs) \<leftarrow> get_u64 bs;
     (epoch, bs) \<leftarrow> get_u64 bs;
     if bs \<noteq> [] then None
     else Some \<lparr>am_requests_served = requests_served, am_applies_applied = applies_applied,
        am_revokes_applied = revokes_applied, am_verifications = verifications,
        am_rejections = rejections, am_malformed_frames = malformed_frames,
        am_fenced_stale_epoch = fenced_stale_epoch,
        am_fenced_stale_boot = fenced_stale_boot, am_queue_rejections = queue_rejections,
        am_queue_capacity = queue_capacity, am_queue_high_water = queue_high_water,
        am_active_envelopes = active_envelopes, am_envelope_limit = envelope_limit,
        am_idle_noop_requests = idle_noop_requests, am_boot = StrongId boot,
        am_epoch = StrongId epoch\<rparr> }"

record ErrorMessage =
  em_reason :: ReasonCode
  em_detail :: string

definition encode_error :: "ErrorMessage \<Rightarrow> bytes" where
  "encode_error m =
     (case put_bounded_text (em_detail m) kWireMaxTextBytes of
        None \<Rightarrow> []
      | Some detail \<Rightarrow>
          put_u16 (reason_raw (em_reason m))
          @ put_u16 0
          @ put_u32 0
          @ detail)"

definition decode_error :: "bytes \<Rightarrow> ErrorMessage option" where
  "decode_error bs = do {
     (reason, bs) \<leftarrow> get_u16 bs;
     (pad16, bs) \<leftarrow> get_u16 bs;
     (pad32, bs) \<leftarrow> get_u32 bs;
     (detail, bs) \<leftarrow> get_bounded_text kWireMaxTextBytes bs;
     if pad16 \<noteq> 0 \<or> pad32 \<noteq> 0 then None else do {
     if bs \<noteq> [] then None
     else Some \<lparr>em_reason = ReasonCode reason, em_detail = detail\<rparr> } }"

section \<open>What the messages can carry\<close>

text \<open>
  Texts within the bound.  An enumerator is the cast of its number; the condition on it
  only excludes a second name of the model for a declared number.
\<close>

definition hello_sendable :: "HelloMessage \<Rightarrow> bool" where
  "hello_sendable m \<longleftrightarrow>
     BackendKind_of_u8 (BackendKind_to_u8 (hm_kind m)) = hm_kind m
     \<and> VerificationMode_of_u8 (VerificationMode_to_u8 (hm_verification m)) = hm_verification m
     \<and> length (hm_label m) \<le> kWireMaxTextBytes
     \<and> length (hm_build m) \<le> kWireMaxTextBytes"

definition apply_request_sendable :: "ApplyRequestMessage \<Rightarrow> bool" where
  "apply_request_sendable m \<longleftrightarrow>
     RefillSemantics_of_u8 (RefillSemantics_to_u8 (aq_refill m)) = aq_refill m"

definition apply_response_sendable :: "ApplyResponseMessage \<Rightarrow> bool" where
  "apply_response_sendable m \<longleftrightarrow>
     length (ap_detail m) \<le> kWireMaxTextBytes"

definition revoke_response_sendable :: "RevokeResponseMessage \<Rightarrow> bool" where
  "revoke_response_sendable m \<longleftrightarrow>
     length (rp_detail m) \<le> kWireMaxTextBytes"

definition verify_response_sendable :: "VerifyResponseMessage \<Rightarrow> bool" where
  "verify_response_sendable m \<longleftrightarrow>
     length (vp_detail m) \<le> kWireMaxTextBytes"

definition error_sendable :: "ErrorMessage \<Rightarrow> bool" where
  "error_sendable m \<longleftrightarrow>
     length (em_detail m) \<le> kWireMaxTextBytes"

section \<open>Reading is exact\<close>

text \<open>
  A read succeeds only on the bytes that the matching write produces, so a decoder
  that succeeds has seen the one encoding of its value.
\<close>

named_theorems exact_reads \<open>a successful read determines the bytes that were read\<close>

lemma list_of_length_2: "length b = 2 \<longleftrightarrow> (\<exists>b0 b1. b = [b0, b1])"
  by (auto simp: length_Suc_conv numeral_2_eq_2)

lemma list_of_length_4: "length b = 4 \<longleftrightarrow> (\<exists>b0 b1 b2 b3. b = [b0, b1, b2, b3])"
  by (auto simp: length_Suc_conv eval_nat_numeral)

lemma list_of_length_8:
  "length b = 8 \<longleftrightarrow> (\<exists>b0 b1 b2 b3 b4 b5 b6 b7. b = [b0, b1, b2, b3, b4, b5, b6, b7])"
  by (auto simp: length_Suc_conv eval_nat_numeral)

lemma get_u8_Some [exact_reads]: "get_u8 bs = Some (v, r) \<longleftrightarrow> bs = put_u8 v @ r"
  by (cases bs) (auto simp: get_u8_def get_raw_def put_u8_def bind_eq_Some_conv)

lemma u8_high_bit: "8 \<le> k \<Longrightarrow> \<not> bit (b :: u8) (k + n)"
  using bit_imp_le_length [of b "k + n"] by auto

lemma put_fold_u16:
  "length b = 2 \<Longrightarrow>
   put_u16 (fold (\<lambda>i out. out OR push_bit (8 * i) (ucast (b ! i))) [0..<2] 0) = b"
  unfolding list_of_length_2 put_u16_def and_FF_u16
  by (auto simp: upt_rec bit_simps u8_high_bit intro!: bit_word_eqI)

lemma put_fold_u32:
  "length b = 4 \<Longrightarrow>
   put_u32 (fold (\<lambda>i out. out OR push_bit (8 * i) (ucast (b ! i))) [0..<4] 0) = b"
  unfolding list_of_length_4 put_u32_def and_FF_u32
  by (auto simp: upt_rec bit_simps u8_high_bit intro!: bit_word_eqI)

lemma put_fold_u64:
  "length b = 8 \<Longrightarrow>
   put_u64 (fold (\<lambda>i out. out OR push_bit (8 * i) (ucast (b ! i))) [0..<8] 0) = b"
  unfolding list_of_length_8 put_u64_def and_FF_u64
  by (auto simp: upt_rec bit_simps u8_high_bit intro!: bit_word_eqI)

lemma get_u16_Some [exact_reads]: "get_u16 bs = Some (v, r) \<longleftrightarrow> bs = put_u16 v @ r"
proof
  assume "get_u16 bs = Some (v, r)"
  then show "bs = put_u16 v @ r"
    by (auto simp: get_u16_def bind_eq_Some_conv get_raw_Some put_fold_u16)
qed simp

lemma get_u32_Some [exact_reads]: "get_u32 bs = Some (v, r) \<longleftrightarrow> bs = put_u32 v @ r"
proof
  assume "get_u32 bs = Some (v, r)"
  then show "bs = put_u32 v @ r"
    by (auto simp: get_u32_def bind_eq_Some_conv get_raw_Some put_fold_u32)
qed simp

lemma get_u64_Some [exact_reads]: "get_u64 bs = Some (v, r) \<longleftrightarrow> bs = put_u64 v @ r"
proof
  assume "get_u64 bs = Some (v, r)"
  then show "bs = put_u64 v @ r"
    by (auto simp: get_u64_def bind_eq_Some_conv get_raw_Some put_fold_u64)
qed simp

lemma raw_of_raw_bytes [simp]: "raw_bytes (of_raw_bytes b) = b"
proof -
  have "of_nat (of_char (char_of (unat x) :: char)) = x" for x :: u8
    using unsigned_less [of x, where 'a = nat] by simp
  then show ?thesis by (simp add: raw_bytes_def of_raw_bytes_def comp_def)
qed

lemma length_of_raw_bytes [simp]: "length (of_raw_bytes b) = length b"
  by (simp add: of_raw_bytes_def)

lemma get_wire_text_Some [exact_reads]:
  "get_bounded_text kWireMaxTextBytes bs = Some (s, r)
   \<longleftrightarrow> (\<exists>t. put_bounded_text s kWireMaxTextBytes = Some t \<and> bs = t @ r)"
proof
  assume "get_bounded_text kWireMaxTextBytes bs = Some (s, r)"
  then show "\<exists>t. put_bounded_text s kWireMaxTextBytes = Some t \<and> bs = t @ r"
    by (auto simp: get_bounded_text_def put_bounded_text_def bind_eq_Some_conv get_raw_Some
        get_u16_Some kWireMaxTextBytes_def split: if_splits)
next
  have u: "length s \<le> 96 \<Longrightarrow> unat (of_nat (length s) :: u16) = length s"
    by (simp add: unsigned_of_nat take_bit_nat_eq_self)
  assume "\<exists>t. put_bounded_text s kWireMaxTextBytes = Some t \<and> bs = t @ r"
  then show "get_bounded_text kWireMaxTextBytes bs = Some (s, r)"
    by (auto simp: get_bounded_text_def put_bounded_text_def get_raw_append u
        kWireMaxTextBytes_def split: if_splits)
qed

lemma put_wire_text:
  "put_bounded_text s kWireMaxTextBytes
   = (if length s \<le> kWireMaxTextBytes then Some (put_u16 (of_nat (length s)) @ raw_bytes s) else None)"
  by (auto simp: put_bounded_text_def kWireMaxTextBytes_def)

lemma get_put_wire_text [codec_simps]:
  "length s \<le> kWireMaxTextBytes \<Longrightarrow>
   get_bounded_text kWireMaxTextBytes (put_u16 (of_nat (length s)) @ raw_bytes s @ r) = Some (s, r)"
  by (simp add: get_wire_text_Some put_wire_text)

lemma put_bool_of_u8: "\<not> 1 < (b :: u8) \<Longrightarrow> put_bool (b = 1) = put_u8 b"
proof -
  assume "\<not> 1 < b"
  then have "unat b \<le> 1" by (simp add: word_less_nat_alt)
  then have "b = 0 \<or> b = 1" by (auto simp: le_Suc_eq word_unat_eq_iff)
  then show ?thesis by (auto simp: put_bool_def)
qed

lemma MessageType_to_of [simp]: "MessageType_to_u16 (MessageType_of_u16 b) = b"
  by (simp add: MessageType_of_u16_def)

lemmas get_put_end [codec_simps] =
  get_put_u8 [where r = "[]", unfolded append_Nil2] get_put_u16 [where r = "[]", unfolded append_Nil2]
  get_put_u32 [where r = "[]", unfolded append_Nil2] get_put_u64 [where r = "[]", unfolded append_Nil2]
  get_put_wire_text [where r = "[]", unfolded append_Nil2]

text \<open>A decoder accepts exactly the encoding of a message that can be sent.\<close>

lemma hello_canonical: "decode_hello bs = Some m \<Longrightarrow> hello_sendable m \<and> encode_hello m = bs"
  by (auto simp: decode_hello_def encode_hello_def hello_sendable_def bind_eq_Some_conv exact_reads
      put_bool_of_u8 put_wire_text split: if_splits)

lemma hello_roundtrip: "hello_sendable m \<Longrightarrow> decode_hello (encode_hello m) = Some m"
  by (simp add: decode_hello_def encode_hello_def hello_sendable_def codec_simps put_bool_def put_wire_text)

lemma hello_fits: "length (encode_hello m) \<le> kWireMaxPayloadBytes"
  by (simp add: encode_hello_def kWireMaxPayloadBytes_def put_bool_def put_wire_text)
    (simp add: kWireMaxTextBytes_def)?

lemma hello_nonempty: "hello_sendable m \<Longrightarrow> encode_hello m \<noteq> []"
  by (simp add: encode_hello_def hello_sendable_def put_bool_def put_wire_text put_u64_def put_u16_def)

lemma apply_request_canonical: "decode_apply_request bs = Some m \<Longrightarrow> apply_request_sendable m \<and> encode_apply_request m = bs"
  by (auto simp: decode_apply_request_def encode_apply_request_def apply_request_sendable_def bind_eq_Some_conv exact_reads
      put_bool_of_u8 put_wire_text split: if_splits)

lemma apply_request_roundtrip: "apply_request_sendable m \<Longrightarrow> decode_apply_request (encode_apply_request m) = Some m"
  by (simp add: decode_apply_request_def encode_apply_request_def apply_request_sendable_def codec_simps put_bool_def)

lemma apply_request_fits: "length (encode_apply_request m) \<le> kWireMaxPayloadBytes"
  by (simp add: encode_apply_request_def kWireMaxPayloadBytes_def put_bool_def put_wire_text)
    (simp add: kWireMaxTextBytes_def)?

lemma apply_request_nonempty: "apply_request_sendable m \<Longrightarrow> encode_apply_request m \<noteq> []"
  by (simp add: encode_apply_request_def apply_request_sendable_def put_bool_def put_wire_text put_u64_def put_u16_def)

lemma apply_response_canonical: "decode_apply_response bs = Some m \<Longrightarrow> apply_response_sendable m \<and> encode_apply_response m = bs"
  by (auto simp: decode_apply_response_def encode_apply_response_def apply_response_sendable_def bind_eq_Some_conv exact_reads
      put_bool_of_u8 put_wire_text split: if_splits)

lemma apply_response_roundtrip: "apply_response_sendable m \<Longrightarrow> decode_apply_response (encode_apply_response m) = Some m"
  by (simp add: decode_apply_response_def encode_apply_response_def apply_response_sendable_def codec_simps put_bool_def put_wire_text)

lemma apply_response_fits: "length (encode_apply_response m) \<le> kWireMaxPayloadBytes"
  by (simp add: encode_apply_response_def kWireMaxPayloadBytes_def put_bool_def put_wire_text)
    (simp add: kWireMaxTextBytes_def)?

lemma apply_response_nonempty: "apply_response_sendable m \<Longrightarrow> encode_apply_response m \<noteq> []"
  by (simp add: encode_apply_response_def apply_response_sendable_def put_bool_def put_wire_text put_u64_def put_u16_def)

lemma revoke_request_canonical: "decode_revoke_request bs = Some m \<Longrightarrow> encode_revoke_request m = bs"
  by (auto simp: decode_revoke_request_def encode_revoke_request_def bind_eq_Some_conv exact_reads
      put_bool_of_u8 put_wire_text split: if_splits)

lemma revoke_request_roundtrip: "decode_revoke_request (encode_revoke_request m) = Some m"
  by (simp add: decode_revoke_request_def encode_revoke_request_def codec_simps put_bool_def)

lemma revoke_request_fits: "length (encode_revoke_request m) \<le> kWireMaxPayloadBytes"
  by (simp add: encode_revoke_request_def kWireMaxPayloadBytes_def put_bool_def put_wire_text)
    (simp add: kWireMaxTextBytes_def)?

lemma revoke_request_nonempty: "encode_revoke_request m \<noteq> []"
  by (simp add: encode_revoke_request_def put_bool_def put_wire_text put_u64_def put_u16_def)

lemma revoke_response_canonical: "decode_revoke_response bs = Some m \<Longrightarrow> revoke_response_sendable m \<and> encode_revoke_response m = bs"
  by (auto simp: decode_revoke_response_def encode_revoke_response_def revoke_response_sendable_def bind_eq_Some_conv exact_reads
      put_bool_of_u8 put_wire_text split: if_splits)

lemma revoke_response_roundtrip: "revoke_response_sendable m \<Longrightarrow> decode_revoke_response (encode_revoke_response m) = Some m"
  by (simp add: decode_revoke_response_def encode_revoke_response_def revoke_response_sendable_def codec_simps put_bool_def put_wire_text)

lemma revoke_response_fits: "length (encode_revoke_response m) \<le> kWireMaxPayloadBytes"
  by (simp add: encode_revoke_response_def kWireMaxPayloadBytes_def put_bool_def put_wire_text)
    (simp add: kWireMaxTextBytes_def)?

lemma revoke_response_nonempty: "revoke_response_sendable m \<Longrightarrow> encode_revoke_response m \<noteq> []"
  by (simp add: encode_revoke_response_def revoke_response_sendable_def put_bool_def put_wire_text put_u64_def put_u16_def)

lemma verify_request_canonical: "decode_verify_request bs = Some m \<Longrightarrow> encode_verify_request m = bs"
  by (auto simp: decode_verify_request_def encode_verify_request_def bind_eq_Some_conv exact_reads
      put_bool_of_u8 put_wire_text split: if_splits)

lemma verify_request_roundtrip: "decode_verify_request (encode_verify_request m) = Some m"
  by (simp add: decode_verify_request_def encode_verify_request_def codec_simps put_bool_def)

lemma verify_request_fits: "length (encode_verify_request m) \<le> kWireMaxPayloadBytes"
  by (simp add: encode_verify_request_def kWireMaxPayloadBytes_def put_bool_def put_wire_text)
    (simp add: kWireMaxTextBytes_def)?

lemma verify_request_nonempty: "encode_verify_request m \<noteq> []"
  by (simp add: encode_verify_request_def put_bool_def put_wire_text put_u64_def put_u16_def)

lemma verify_response_canonical: "decode_verify_response bs = Some m \<Longrightarrow> verify_response_sendable m \<and> encode_verify_response m = bs"
  by (auto simp: decode_verify_response_def encode_verify_response_def verify_response_sendable_def bind_eq_Some_conv exact_reads
      put_bool_of_u8 put_wire_text split: if_splits)

lemma verify_response_roundtrip: "verify_response_sendable m \<Longrightarrow> decode_verify_response (encode_verify_response m) = Some m"
  by (simp add: decode_verify_response_def encode_verify_response_def verify_response_sendable_def codec_simps put_bool_def put_wire_text)

lemma verify_response_fits: "length (encode_verify_response m) \<le> kWireMaxPayloadBytes"
  by (simp add: encode_verify_response_def kWireMaxPayloadBytes_def put_bool_def put_wire_text)
    (simp add: kWireMaxTextBytes_def)?

lemma verify_response_nonempty: "verify_response_sendable m \<Longrightarrow> encode_verify_response m \<noteq> []"
  by (simp add: encode_verify_response_def verify_response_sendable_def put_bool_def put_wire_text put_u64_def put_u16_def)

lemma accounting_response_canonical: "decode_accounting_response bs = Some m \<Longrightarrow> encode_accounting_response m = bs"
  by (auto simp: decode_accounting_response_def encode_accounting_response_def bind_eq_Some_conv exact_reads
      put_bool_of_u8 put_wire_text split: if_splits)

lemma accounting_response_roundtrip: "decode_accounting_response (encode_accounting_response m) = Some m"
  by (simp add: decode_accounting_response_def encode_accounting_response_def codec_simps put_bool_def)

lemma accounting_response_fits: "length (encode_accounting_response m) \<le> kWireMaxPayloadBytes"
  by (simp add: encode_accounting_response_def kWireMaxPayloadBytes_def put_bool_def put_wire_text)
    (simp add: kWireMaxTextBytes_def)?

lemma accounting_response_nonempty: "encode_accounting_response m \<noteq> []"
  by (simp add: encode_accounting_response_def put_bool_def put_wire_text put_u64_def put_u16_def)

lemma error_canonical: "decode_error bs = Some m \<Longrightarrow> error_sendable m \<and> encode_error m = bs"
  by (auto simp: decode_error_def encode_error_def error_sendable_def bind_eq_Some_conv exact_reads
      put_bool_of_u8 put_wire_text split: if_splits)

lemma error_roundtrip: "error_sendable m \<Longrightarrow> decode_error (encode_error m) = Some m"
  by (simp add: decode_error_def encode_error_def error_sendable_def codec_simps put_bool_def put_wire_text)

lemma error_fits: "length (encode_error m) \<le> kWireMaxPayloadBytes"
  by (simp add: encode_error_def kWireMaxPayloadBytes_def put_bool_def put_wire_text)
    (simp add: kWireMaxTextBytes_def)?

lemma error_nonempty: "error_sendable m \<Longrightarrow> encode_error m \<noteq> []"
  by (simp add: encode_error_def error_sendable_def put_bool_def put_wire_text put_u64_def put_u16_def)

section \<open>What a message body owes its transport\<close>

text \<open>
  The decoder accepts exactly the encodings of the messages that can be sent, and an
  encoding fits a frame.  A message then survives the transport whatever follows the
  frame on the stream, and no two messages share an encoding.
\<close>

definition frame_sendable :: "Frame \<Rightarrow> bool" where
  "frame_sendable f \<longleftrightarrow>
     MessageType_of_u16 (MessageType_to_u16 (fr_type f)) = fr_type f
     \<and> length (fr_payload f) \<le> kWireMaxPayloadBytes"

definition frame_head :: "Frame \<Rightarrow> bytes" where
  "frame_head f =
     put_u32 kWireFrameMagic @ put_u16 kWireProtocolVersion
     @ put_u16 (MessageType_to_u16 (fr_type f)) @ put_u32 (fr_flags f)
     @ put_u32 (of_nat (length (fr_payload f)))"

lemma length_frame_head [simp]: "length (frame_head f) = 16"
  by (simp add: frame_head_def)

lemma encode_frame_sendable:
  "frame_sendable f \<Longrightarrow>
   encode_frame f = frame_head f @ fr_payload f @ put_u32 (crc32c (frame_head f @ fr_payload f))"
  by (simp add: encode_frame_def frame_sendable_def frame_head_def frame_checksum_def Let_def)

lemma payload_len_back:
  "length p \<le> kWireMaxPayloadBytes \<Longrightarrow> unat (of_nat (length p) :: u32) = length p"
  by (simp add: kWireMaxPayloadBytes_def unsigned_of_nat take_bit_nat_eq_self)

lemma decode_frame_header_head:
  assumes "frame_sendable f"
  shows "decode_frame_header (frame_head f @ r)
    = Inr \<lparr>fh_magic = kWireFrameMagic, fh_version = kWireProtocolVersion, fh_type = fr_type f,
           fh_flags = fr_flags f, fh_payload_len = of_nat (length (fr_payload f))\<rparr>"
proof -
  have "take kWireHeaderSize (frame_head f @ r) = frame_head f"
    by (simp add: kWireHeaderSize_def)
  then show ?thesis
    using assms payload_len_back [of "fr_payload f"]
    by (simp add: decode_frame_header_def kWireHeaderSize_def frame_sendable_def)
       (simp add: frame_head_def codec_simps)
qed

lemma decode_frame_header_Inr:
  assumes "decode_frame_header bs = Inr h"
  shows "fh_magic h = kWireFrameMagic" "fh_version h = kWireProtocolVersion"
    "MessageType_of_u16 (MessageType_to_u16 (fh_type h)) = fh_type h"
    "unat (fh_payload_len h) \<le> kWireMaxPayloadBytes"
    "bs = (put_u32 kWireFrameMagic @ put_u16 kWireProtocolVersion
       @ put_u16 (MessageType_to_u16 (fh_type h)) @ put_u32 (fh_flags h) @ put_u32 (fh_payload_len h))
       @ drop 16 bs"
proof -
  have l: "16 \<le> length bs"
    using assms by (auto simp: decode_frame_header_def kWireHeaderSize_def split: if_splits)
  obtain magic version raw flags len rest where
    t: "take 16 bs = put_u32 magic @ put_u16 version @ put_u16 raw @ put_u32 flags @ put_u32 len @ rest"
    and m: "magic = kWireFrameMagic" "version = kWireProtocolVersion"
      "unat len \<le> kWireMaxPayloadBytes"
    and h: "h = \<lparr>fh_magic = magic, fh_version = version, fh_type = MessageType_of_u16 raw,
      fh_flags = flags, fh_payload_len = len\<rparr>"
    using assms
    by (auto simp: decode_frame_header_def kWireHeaderSize_def bind_eq_Some_conv exact_reads
        split: if_splits option.splits)
  have "length (take 16 bs) = 16 + length rest" by (simp add: t)
  then have "rest = []" using l by simp
  then show "fh_magic h = kWireFrameMagic" "fh_version h = kWireProtocolVersion"
    "MessageType_of_u16 (MessageType_to_u16 (fh_type h)) = fh_type h"
    "unat (fh_payload_len h) \<le> kWireMaxPayloadBytes"
    "bs = (put_u32 kWireFrameMagic @ put_u16 kWireProtocolVersion
       @ put_u16 (MessageType_to_u16 (fh_type h)) @ put_u32 (fh_flags h) @ put_u32 (fh_payload_len h))
       @ drop 16 bs"
    using t m h append_take_drop_id [of 16 bs] by simp_all
qed

lemma decode_encode_frame:
  assumes "frame_sendable f"
  shows "decode_frame (encode_frame f @ r) = Inr f"
proof -
  let ?w = "frame_head f @ fr_payload f"
  have e: "encode_frame f @ r = frame_head f @ fr_payload f @ put_u32 (crc32c ?w) @ r"
    by (simp add: encode_frame_sendable [OF assms])
  have l: "unat (of_nat (length (fr_payload f)) :: u32) = length (fr_payload f)"
    using assms by (intro payload_len_back) (simp add: frame_sendable_def)
  show ?thesis
    unfolding e decode_frame_def decode_frame_header_head [OF assms]
    by (simp add: l kWireHeaderSize_def kWireCrcSize_def frame_checksum_def codec_simps Let_def)
qed

lemma decode_frame_Inr:
  assumes "decode_frame bs = Inr f"
  shows "frame_sendable f \<and> (\<exists>rest. bs = encode_frame f @ rest)"
proof -
  obtain h where h: "decode_frame_header bs = Inr h"
    using assms by (cases "decode_frame_header bs") (simp_all add: decode_frame_def)
  note H = decode_frame_header_Inr [OF h]
  define n where "n = unat (fh_payload_len h)"
  define p where "p = take n (drop 16 bs)"
  obtain crc tl where c: "get_u32 (take 4 (drop (16 + n) bs)) = Some (crc, tl)"
    and long: "20 + n \<le> length bs" and sum: "crc = crc32c (take (16 + n) bs)"
    and f: "f = \<lparr>fr_type = fh_type h, fr_flags = fh_flags h, fr_payload = p\<rparr>"
    using assms h unfolding decode_frame_def
    by (auto simp: n_def p_def frame_checksum_def kWireHeaderSize_def kWireCrcSize_def Let_def
        split: if_splits option.splits)
  have lp: "length p = n" using long by (simp add: p_def)
  have s: "frame_sendable f" using H(3,4) lp by (simp add: f frame_sendable_def n_def)
  have "length (take 4 (drop (16 + n) bs)) = 4 + length tl"
    using c by (simp add: get_u32_Some)
  then have t: "take 4 (drop (16 + n) bs) = put_u32 crc" using c long by (simp add: get_u32_Some)
  have len: "of_nat (length p) = fh_payload_len h" by (simp add: lp n_def)
  have hd: "bs = frame_head f @ drop 16 bs" using H(5) len by (simp add: frame_head_def f)
  have w: "take (16 + n) bs = frame_head f @ p"
    by (subst hd) (simp add: p_def)
  have "bs = take (16 + n) bs @ drop (16 + n) bs" by simp
  also have "drop (16 + n) bs = take 4 (drop (16 + n) bs) @ drop 4 (drop (16 + n) bs)"
    by (rule append_take_drop_id [symmetric])
  finally have "bs = take (16 + n) bs @ take 4 (drop (16 + n) bs) @ drop (20 + n) bs"
    by (simp add: add.commute)
  then have "bs = encode_frame f @ drop (20 + n) bs"
    using s sum by (simp add: w t encode_frame_sendable) (simp add: f)
  then show ?thesis using s by blast
qed

locale wire_message =
  fixes enc :: "'m \<Rightarrow> bytes"
    and dec :: "bytes \<Rightarrow> 'm option"
    and sendable :: "'m \<Rightarrow> bool"
  assumes canonical: "dec bs = Some m \<Longrightarrow> sendable m \<and> enc m = bs"
    and roundtrip: "sendable m \<Longrightarrow> dec (enc m) = Some m"
    and fits: "length (enc m) \<le> kWireMaxPayloadBytes"
    and nonempty: "sendable m \<Longrightarrow> enc m \<noteq> []"
begin

lemma accepts_iff: "dec bs = Some m \<longleftrightarrow> sendable m \<and> bs = enc m"
  using canonical roundtrip by blast

lemma delivered:
  assumes "MessageType_of_u16 (MessageType_to_u16 t) = t"
  shows "decode_frame (encode_frame \<lparr>fr_type = t, fr_flags = fl, fr_payload = enc m\<rparr> @ rest)
    = Inr \<lparr>fr_type = t, fr_flags = fl, fr_payload = enc m\<rparr>"
  using assms fits by (simp add: decode_encode_frame frame_sendable_def)

end

section \<open>Damaged frames\<close>

lemma encode_frame_residue:
  "frame_sendable f \<Longrightarrow> crc32c (encode_frame f) = crc_bits 32 0xFFFFFFFF XOR 0xFFFFFFFF"
  using crc32c_residue [of "frame_head f @ fr_payload f"] by (simp add: encode_frame_sendable)

lemma length_encode_frame: "frame_sendable f \<Longrightarrow> length (encode_frame f) = 20 + length (fr_payload f)"
  by (simp add: encode_frame_sendable)

lemma frame_length_field:
  "frame_sendable f \<Longrightarrow>
   take 4 (drop 12 (encode_frame f @ rest)) = put_u32 (of_nat (length (fr_payload f)))"
  by (simp add: encode_frame_sendable frame_head_def)

lemma window_keeps_field:
  assumes "length us = length vs" "length xs + length us \<le> 12 \<or> 16 \<le> length xs"
  shows "take 4 (drop 12 (xs @ us @ ys)) = take 4 (drop 12 (xs @ vs @ ys))"
  using assms by (auto simp: drop_append take_append drop_take)

lemma changed_frame_refused:
  assumes s: "frame_sendable f"
    and c: "encode_frame f = xs @ us @ ys \<and> length us = length vs \<and> length us \<le> 4 \<and> us \<noteq> vs
      \<and> (length xs + length us \<le> 12 \<or> 16 \<le> length xs)"
  shows "\<exists>reason. decode_frame (xs @ vs @ ys) = Inl reason"
proof (cases "decode_frame (xs @ vs @ ys)")
  case (Inr g)
  then obtain rest where g: "frame_sendable g" "xs @ vs @ ys = encode_frame g @ rest"
    using decode_frame_Inr by blast
  have "put_u32 (of_nat (length (fr_payload g))) = put_u32 (of_nat (length (fr_payload f)))"
  proof -
    have "put_u32 (of_nat (length (fr_payload g))) = take 4 (drop 12 (xs @ vs @ ys))"
      unfolding g(2) by (rule frame_length_field [OF g(1), symmetric])
    also have "\<dots> = take 4 (drop 12 (encode_frame f @ []))"
      using window_keeps_field [of us vs xs ys] c by (metis append_Nil2)
    also have "\<dots> = put_u32 (of_nat (length (fr_payload f)))" by (rule frame_length_field [OF s])
    finally show ?thesis .
  qed
  then have "(of_nat (length (fr_payload g)) :: u32) = of_nat (length (fr_payload f))"
    by (metis get_put_u32 option.inject prod.inject)
  then have "length (fr_payload g) = length (fr_payload f)"
    using s g(1) payload_len_back unfolding frame_sendable_def by metis
  moreover have "length (xs @ vs @ ys) = length (encode_frame f)" using c by simp
  ultimately have "rest = []"
    using g length_encode_frame [OF s] length_encode_frame [OF g(1)] by simp
  then have "crc32c (xs @ vs @ ys) = crc32c (xs @ us @ ys)"
    using g c encode_frame_residue [OF s] encode_frame_residue [OF g(1)] by simp
  then show ?thesis using crc32c_window [of us vs xs ys] c by auto
qed blast

lemma cut_frame_refused:
  assumes s: "frame_sendable f" and c: "encode_frame f = xs @ ys \<and> ys \<noteq> []"
  shows "\<exists>reason. decode_frame xs = Inl reason"
proof (cases "decode_frame xs")
  case (Inr g)
  then obtain rest where g: "frame_sendable g" "xs = encode_frame g @ rest"
    using decode_frame_Inr by blast
  have e: "encode_frame f = encode_frame g @ rest @ ys" using c g(2) by simp
  have "Inr f = decode_frame (encode_frame f)"
    using decode_encode_frame [OF s, of "[]"] by simp
  also have "\<dots> = Inr g" unfolding e by (rule decode_encode_frame [OF g(1)])
  finally have "f = g" by simp
  then show ?thesis using e c by (metis append_is_Nil_conv append_self_conv)
qed blast

interpretation hello_message: wire_message encode_hello decode_hello hello_sendable
  by unfold_locales
    (simp_all add: hello_canonical hello_roundtrip hello_fits hello_nonempty)

interpretation apply_request_message: wire_message encode_apply_request decode_apply_request apply_request_sendable
  by unfold_locales
    (simp_all add: apply_request_canonical apply_request_roundtrip apply_request_fits apply_request_nonempty)

interpretation apply_response_message: wire_message encode_apply_response decode_apply_response apply_response_sendable
  by unfold_locales
    (simp_all add: apply_response_canonical apply_response_roundtrip apply_response_fits apply_response_nonempty)

interpretation revoke_request_message: wire_message encode_revoke_request decode_revoke_request "\<lambda>_. True"
  by unfold_locales
    (simp_all add: revoke_request_canonical revoke_request_roundtrip revoke_request_fits revoke_request_nonempty)

interpretation revoke_response_message: wire_message encode_revoke_response decode_revoke_response revoke_response_sendable
  by unfold_locales
    (simp_all add: revoke_response_canonical revoke_response_roundtrip revoke_response_fits revoke_response_nonempty)

interpretation verify_request_message: wire_message encode_verify_request decode_verify_request "\<lambda>_. True"
  by unfold_locales
    (simp_all add: verify_request_canonical verify_request_roundtrip verify_request_fits verify_request_nonempty)

interpretation verify_response_message: wire_message encode_verify_response decode_verify_response verify_response_sendable
  by unfold_locales
    (simp_all add: verify_response_canonical verify_response_roundtrip verify_response_fits verify_response_nonempty)

interpretation accounting_response_message: wire_message encode_accounting_response decode_accounting_response "\<lambda>_. True"
  by unfold_locales
    (simp_all add: accounting_response_canonical accounting_response_roundtrip accounting_response_fits accounting_response_nonempty)

interpretation error_message: wire_message encode_error decode_error error_sendable
  by unfold_locales
    (simp_all add: error_canonical error_roundtrip error_fits error_nonempty)

section \<open>Properties\<close>

text \<open>
  C34: The frame decoder accepts exactly what the frame encoder produces: bytes decode
  to a frame if and only if they start with the encoding of that frame, and the frame
  is within the payload bound.  Whatever follows on the stream is left alone.
\<close>

theorem frames_exact:
  "decode_frame bs = Inr f \<longleftrightarrow> frame_sendable f \<and> (\<exists>rest. bs = encode_frame f @ rest)"
  using decode_frame_Inr decode_encode_frame by blast

text \<open>
  C35: A damaged frame is refused, not repaired.  If up to four consecutive bytes of
  an encoded frame are changed, anywhere but in the length field, no frame is decoded;
  nor is one decoded from a frame that is cut short.
\<close>

theorem damaged_frame_refused:
  assumes "frame_sendable f"
  shows "(encode_frame f = xs @ us @ ys \<and> length us = length vs \<and> length us \<le> 4 \<and> us \<noteq> vs
          \<and> (length xs + length us \<le> 12 \<or> 16 \<le> length xs)
          \<longrightarrow> (\<exists>reason. decode_frame (xs @ vs @ ys) = Inl reason))
         \<and> (encode_frame f = xs @ ys \<and> ys \<noteq> [] \<longrightarrow> (\<exists>reason. decode_frame xs = Inl reason))"
  using changed_frame_refused [OF assms] cut_frame_refused [OF assms] by blast

definition example_frame :: Frame where
  "example_frame = \<lparr>fr_type = MessageType_HeartbeatRequest, fr_flags = 0, fr_payload = [7]\<rparr>"

theorem damaged_frame_refused_witness:
  "\<exists>reason. decode_frame (frame_head example_frame @ [8]
     @ put_u32 (crc32c (frame_head example_frame @ [7]))) = Inl reason"
proof -
  have s: "frame_sendable example_frame"
    by (simp add: frame_sendable_def example_frame_def MessageType_of_u16_def kWireMaxPayloadBytes_def)
  have "encode_frame example_frame
      = frame_head example_frame @ [7] @ put_u32 (crc32c (frame_head example_frame @ [7]))"
    using encode_frame_sendable [OF s] by (simp add: example_frame_def)
  then show ?thesis
    using damaged_frame_refused [OF s, of "frame_head example_frame" "[7]"
        "put_u32 (crc32c (frame_head example_frame @ [7]))" "[8]"] by simp
qed

text \<open>
  C36: Every message decoder accepts exactly the encodings of its messages: a payload is
  decoded to a message if and only if the message can be sent and the payload is its
  encoding.  Padding that is not zero, a flag above one, a text over its bound, missing
  or trailing bytes are all refused.
\<close>

theorem wire_messages_exact:
  "(decode_hello p1 = Some m1 \<longleftrightarrow> hello_sendable m1 \<and> p1 = encode_hello m1)
   \<and> (decode_apply_request p2 = Some m2 \<longleftrightarrow> apply_request_sendable m2 \<and> p2 = encode_apply_request m2)
   \<and> (decode_apply_response p3 = Some m3 \<longleftrightarrow> apply_response_sendable m3 \<and> p3 = encode_apply_response m3)
   \<and> (decode_revoke_request p4 = Some m4 \<longleftrightarrow> p4 = encode_revoke_request m4)
   \<and> (decode_revoke_response p5 = Some m5 \<longleftrightarrow> revoke_response_sendable m5 \<and> p5 = encode_revoke_response m5)
   \<and> (decode_verify_request p6 = Some m6 \<longleftrightarrow> p6 = encode_verify_request m6)
   \<and> (decode_verify_response p7 = Some m7 \<longleftrightarrow> verify_response_sendable m7 \<and> p7 = encode_verify_response m7)
   \<and> (decode_accounting_response p8 = Some m8 \<longleftrightarrow> p8 = encode_accounting_response m8)
   \<and> (decode_error p9 = Some m9 \<longleftrightarrow> error_sendable m9 \<and> p9 = encode_error m9)"
  by (simp add: hello_message.accepts_iff apply_request_message.accepts_iff apply_response_message.accepts_iff revoke_request_message.accepts_iff revoke_response_message.accepts_iff verify_request_message.accepts_iff verify_response_message.accepts_iff accounting_response_message.accepts_iff error_message.accepts_iff)

end
