(* ===== verification/Text_Forms.thy ===== *)
theory Text_Forms
  imports Journal Wire
begin

text \<open>
  The text forms of the model's values: the names of the enumerators
  (\<^verbatim>\<open>to_string_view\<close> in \<^verbatim>\<open>src/reason.cpp\<close>, \<^verbatim>\<open>src/entities.cpp\<close>, \<^verbatim>\<open>src/journal.cpp\<close>,
  \<^verbatim>\<open>src/wire.cpp\<close>) and the one-line descriptions of the entities
  (\<^verbatim>\<open>describe\<close>, \<^verbatim>\<open>explain_fingerprint\<close>).  The names of the reason codes identify them.
\<close>

section \<open>Names of the enumerators\<close>

definition reason_names :: "(ReasonCode \<times> string) list" where
  "reason_names =
    [(R_None, ''None''), (R_PlanAuthorized, ''PlanAuthorized''),
     (R_PlanTargetClampedByCeiling, ''PlanTargetClampedByCeiling''),
     (R_PlanBurstClampedByAuthority, ''PlanBurstClampedByAuthority''),
     (R_PlanRejectedFloorExceedsFundedCeiling, ''PlanRejectedFloorExceedsFundedCeiling''),
     (R_PlanRejectedTargetBelowFloor, ''PlanRejectedTargetBelowFloor''),
     (R_PlanRejectedUnknownFlow, ''PlanRejectedUnknownFlow''),
     (R_PlanRejectedUnknownResource, ''PlanRejectedUnknownResource''),
     (R_PlanRejectedMissingGrant, ''PlanRejectedMissingGrant''),
     (R_PlanRejectedMissingPolicy, ''PlanRejectedMissingPolicy''),
     (R_PlanRejectedMissingReservation, ''PlanRejectedMissingReservation''),
     (R_PlanRejectedMissingBackend, ''PlanRejectedMissingBackend''),
     (R_PlanRejectedFlowGenerationMismatch, ''PlanRejectedFlowGenerationMismatch''),
     (R_PlanRejectedGrantGenerationMismatch, ''PlanRejectedGrantGenerationMismatch''),
     (R_PlanRejectedReservationGenerationMismatch, ''PlanRejectedReservationGenerationMismatch''),
     (R_PlanRejectedPolicyGenerationMismatch, ''PlanRejectedPolicyGenerationMismatch''),
     (R_PlanRejectedResourceGenerationMismatch, ''PlanRejectedResourceGenerationMismatch''),
     (R_PlanRejectedBackendGenerationMismatch, ''PlanRejectedBackendGenerationMismatch''),
     (R_PlanRejectedGrantNotActive, ''PlanRejectedGrantNotActive''),
     (R_PlanRejectedPolicyNotActive, ''PlanRejectedPolicyNotActive''),
     (R_PlanRejectedResourceNotActive, ''PlanRejectedResourceNotActive''),
     (R_PlanRejectedReservationNotActive, ''PlanRejectedReservationNotActive''),
     (R_PlanRejectedGrantNotYetValid, ''PlanRejectedGrantNotYetValid''),
     (R_PlanRejectedGrantExpired, ''PlanRejectedGrantExpired''),
     (R_PlanRejectedReservationNotYetValid, ''PlanRejectedReservationNotYetValid''),
     (R_PlanRejectedReservationExpired, ''PlanRejectedReservationExpired''),
     (R_PlanRejectedPolicyExpired, ''PlanRejectedPolicyExpired''),
     (R_PlanRejectedPolicyNotYetValid, ''PlanRejectedPolicyNotYetValid''),
     (R_PlanRejectedBackendUnsupported, ''PlanRejectedBackendUnsupported''),
     (R_PlanRejectedEnvelopeGenerationMismatch, ''PlanRejectedEnvelopeGenerationMismatch''),
     (R_PlanRejectedResourceCapacityZero, ''PlanRejectedResourceCapacityZero''),
     (R_PlanRejectedCeilingZero, ''PlanRejectedCeilingZero''),
     (R_PlanRejectedFlowNotActive, ''PlanRejectedFlowNotActive''),
     (R_ApplyDispatched, ''ApplyDispatched''), (R_ApplyAcknowledged, ''ApplyAcknowledged''),
     (R_ApplyVerified, ''ApplyVerified''), (R_ApplyUnderDelivered, ''ApplyUnderDelivered''),
     (R_ApplyOverDeliveredRevoking, ''ApplyOverDeliveredRevoking''),
     (R_ApplyBackendFailed, ''ApplyBackendFailed''),
     (R_ApplyVerificationUnsupported, ''ApplyVerificationUnsupported''),
     (R_ApplyVerificationMismatch, ''ApplyVerificationMismatch''),
     (R_ApplyVerificationUnknown, ''ApplyVerificationUnknown''),
     (R_RevokeDispatched, ''RevokeDispatched''), (R_RevokeVerified, ''RevokeVerified''),
     (R_RevokeBackendFailed, ''RevokeBackendFailed''),
     (R_AttemptCancelled, ''AttemptCancelled''),
     (R_AttemptLateCompletionRejected, ''AttemptLateCompletionRejected''),
     (R_AttemptDuplicateIgnored, ''AttemptDuplicateIgnored''),
     (R_AttemptAbandonedWorkerDeath, ''AttemptAbandonedWorkerDeath''),
     (R_AttemptDeadlineExceeded, ''AttemptDeadlineExceeded''),
     (R_AttemptFencedByEpoch, ''AttemptFencedByEpoch''),
     (R_AttemptFencedByBoot, ''AttemptFencedByBoot''),
     (R_AttemptFencedByGeneration, ''AttemptFencedByGeneration''),
     (R_AttemptSupersededByNewerAttempt, ''AttemptSupersededByNewerAttempt''),
     (R_AttemptIdempotentReplay, ''AttemptIdempotentReplay''),
     (R_CompensatingRevokeIssued, ''CompensatingRevokeIssued''),
     (R_EnvelopeOpened, ''EnvelopeOpened''), (R_EnvelopeAuthorized, ''EnvelopeAuthorized''),
     (R_EnvelopeRevokePending, ''EnvelopeRevokePending''),
     (R_EnvelopeRevoked, ''EnvelopeRevoked''), (R_EnvelopeDegraded, ''EnvelopeDegraded''),
     (R_EnvelopeFailed, ''EnvelopeFailed''),
     (R_EnvelopeStaleGrantRecalled, ''EnvelopeStaleGrantRecalled''),
     (R_EnvelopeStaleGrantExpired, ''EnvelopeStaleGrantExpired''),
     (R_EnvelopeStaleReservationExpired, ''EnvelopeStaleReservationExpired''),
     (R_EnvelopeStalePolicyExpired, ''EnvelopeStalePolicyExpired''),
     (R_EnvelopeStalePolicyGenerationChanged, ''EnvelopeStalePolicyGenerationChanged''),
     (R_EnvelopeStaleResourceGenerationChanged, ''EnvelopeStaleResourceGenerationChanged''),
     (R_EnvelopeStaleResourceCapacityReduced, ''EnvelopeStaleResourceCapacityReduced''),
     (R_EnvelopeStaleFlowGenerationChanged, ''EnvelopeStaleFlowGenerationChanged''),
     (R_EnvelopeStaleFabricEpochAdvanced, ''EnvelopeStaleFabricEpochAdvanced''),
     (R_EnvelopeStaleNoLiveAuthority, ''EnvelopeStaleNoLiveAuthority''),
     (R_EnvelopeCooldownActive, ''EnvelopeCooldownActive''),
     (R_EnvelopeRecoveredRequiresRevalidation, ''EnvelopeRecoveredRequiresRevalidation''),
     (R_EnvelopeRevalidatedApplied, ''EnvelopeRevalidatedApplied''),
     (R_EnvelopeRevalidationUnknown, ''EnvelopeRevalidationUnknown''),
     (R_EnvelopeRevalidationDenied, ''EnvelopeRevalidationDenied''),
     (R_EnvelopeReducedByPolicy, ''EnvelopeReducedByPolicy''),
     (R_EnvelopeRevokedByOperator, ''EnvelopeRevokedByOperator''),
     (R_EnvelopeRevokedByGrantRecall, ''EnvelopeRevokedByGrantRecall''),
     (R_ClockRegressionDetected, ''ClockRegressionDetected''),
     (R_ClockTickOverflowSaturated, ''ClockTickOverflowSaturated''),
     (R_TokenBucketSaturated, ''TokenBucketSaturated''),
     (R_TokenBucketEmpty, ''TokenBucketEmpty''),
     (R_TokenBucketRefilled, ''TokenBucketRefilled''),
     (R_JournalAppendFailed, ''JournalAppendFailed''),
     (R_JournalTruncatedTail, ''JournalTruncatedTail''),
     (R_JournalCorruptRecord, ''JournalCorruptRecord''),
     (R_JournalCommitted, ''JournalCommitted''), (R_JournalCompacted, ''JournalCompacted''),
     (R_JournalVersionUnsupported, ''JournalVersionUnsupported''),
     (R_BackendSessionEstablished, ''BackendSessionEstablished''),
     (R_BackendSessionLost, ''BackendSessionLost''),
     (R_BackendFencedStaleEpoch, ''BackendFencedStaleEpoch''),
     (R_BackendFencedStaleBoot, ''BackendFencedStaleBoot''),
     (R_BackendRejectedMalformedRequest, ''BackendRejectedMalformedRequest''),
     (R_BackendQueueFull, ''BackendQueueFull''),
     (R_CapacityLimitExceeded, ''CapacityLimitExceeded''),
     (R_MalformedInput, ''MalformedInput''), (R_EngineShutdown, ''EngineShutdown''),
     (R_WorkRejectedDuringShutdown, ''WorkRejectedDuringShutdown''),
     (R_UnsupportedOperation, ''UnsupportedOperation''),
     (R_UnknownAuthority, ''UnknownAuthority'')]"

definition reason_text :: "ReasonCode \<Rightarrow> string" where
  "reason_text c = (case map_of reason_names c of Some name \<Rightarrow> name | None \<Rightarrow> ''Unknown'')"

definition record_type_names :: "(JournalRecordType \<times> string) list" where
  "record_type_names =
    [(JT_Unknown, ''Unknown''), (JT_FileHeader, ''FileHeader''), (JT_FlowPut, ''FlowPut''),
     (JT_GrantPut, ''GrantPut''), (JT_GrantStateChange, ''GrantStateChange''),
     (JT_ReservationPut, ''ReservationPut''),
     (JT_ReservationStateChange, ''ReservationStateChange''), (JT_PolicyPut, ''PolicyPut''),
     (JT_PolicyStateChange, ''PolicyStateChange''), (JT_ResourcePut, ''ResourcePut''),
     (JT_ResourceStateChange, ''ResourceStateChange''), (JT_BackendPut, ''BackendPut''),
     (JT_EpochAdvance, ''EpochAdvance''), (JT_EnvelopeOpened, ''EnvelopeOpened''),
     (JT_EnvelopeBindingChange, ''EnvelopeBindingChange''),
     (JT_EnvelopeAuthorized, ''EnvelopeAuthorized''),
     (JT_EnvelopeStateChange, ''EnvelopeStateChange''),
     (JT_EnvelopeEffectRecorded, ''EnvelopeEffectRecorded''),
     (JT_EnvelopeCounters, ''EnvelopeCounters''), (JT_AttemptCreated, ''AttemptCreated''),
     (JT_AttemptDispatched, ''AttemptDispatched''),
     (JT_AttemptAcknowledged, ''AttemptAcknowledged''),
     (JT_AttemptTerminated, ''AttemptTerminated''), (JT_AttemptVerified, ''AttemptVerified''),
     (JT_AttemptCompensating, ''AttemptCompensating''), (JT_TxnBegin, ''TxnBegin''),
     (JT_TxnCommit, ''TxnCommit''), (JT_CompactionMarker, ''CompactionMarker'')]"

definition record_type_text :: "JournalRecordType \<Rightarrow> string" where
  "record_type_text t = (case map_of record_type_names t of Some name \<Rightarrow> name | None \<Rightarrow> ''Unknown'')"

primrec FlowState_text :: "FlowState \<Rightarrow> string" where
  "FlowState_text FlowState_Unknown = ''Unknown''"
| "FlowState_text FlowState_Active = ''Active''"
| "FlowState_text FlowState_Withdrawn = ''Withdrawn''"
| "FlowState_text FlowState_Superseded = ''Superseded''"
| "FlowState_text (FlowState_other b) = ''Unknown''"

primrec GrantState_text :: "GrantState \<Rightarrow> string" where
  "GrantState_text GrantState_Unknown = ''Unknown''"
| "GrantState_text GrantState_Active = ''Active''"
| "GrantState_text GrantState_Recalled = ''Recalled''"
| "GrantState_text GrantState_Expired = ''Expired''"
| "GrantState_text GrantState_Superseded = ''Superseded''"
| "GrantState_text (GrantState_other b) = ''Unknown''"

primrec ReservationState_text :: "ReservationState \<Rightarrow> string" where
  "ReservationState_text ReservationState_Unknown = ''Unknown''"
| "ReservationState_text ReservationState_Active = ''Active''"
| "ReservationState_text ReservationState_Released = ''Released''"
| "ReservationState_text ReservationState_Expired = ''Expired''"
| "ReservationState_text ReservationState_Superseded = ''Superseded''"
| "ReservationState_text (ReservationState_other b) = ''Unknown''"

primrec PolicyState_text :: "PolicyState \<Rightarrow> string" where
  "PolicyState_text PolicyState_Unknown = ''Unknown''"
| "PolicyState_text PolicyState_Active = ''Active''"
| "PolicyState_text PolicyState_Suspended = ''Suspended''"
| "PolicyState_text PolicyState_Expired = ''Expired''"
| "PolicyState_text PolicyState_Superseded = ''Superseded''"
| "PolicyState_text (PolicyState_other b) = ''Unknown''"

primrec ResourceState_text :: "ResourceState \<Rightarrow> string" where
  "ResourceState_text ResourceState_Unknown = ''Unknown''"
| "ResourceState_text ResourceState_Active = ''Active''"
| "ResourceState_text ResourceState_Constrained = ''Constrained''"
| "ResourceState_text ResourceState_Withdrawn = ''Withdrawn''"
| "ResourceState_text ResourceState_Superseded = ''Superseded''"
| "ResourceState_text (ResourceState_other b) = ''Unknown''"

primrec RefillSemantics_text :: "RefillSemantics \<Rightarrow> string" where
  "RefillSemantics_text RefillSemantics_Unknown = ''Unknown''"
| "RefillSemantics_text RefillSemantics_ContinuousTokenBucket = ''ContinuousTokenBucket''"
| "RefillSemantics_text RefillSemantics_DiscreteTickBucket = ''DiscreteTickBucket''"
| "RefillSemantics_text (RefillSemantics_other b) = ''Unknown''"

primrec BackendKind_text :: "BackendKind \<Rightarrow> string" where
  "BackendKind_text BackendKind_Unknown = ''Unknown''"
| "BackendKind_text BackendKind_Unsupported = ''Unsupported''"
| "BackendKind_text BackendKind_Synthetic = ''Synthetic''"
| "BackendKind_text BackendKind_Physical = ''Physical''"
| "BackendKind_text (BackendKind_other b) = ''Unknown''"

primrec VerificationMode_text :: "VerificationMode \<Rightarrow> string" where
  "VerificationMode_text VerificationMode_Unknown = ''Unknown''"
| "VerificationMode_text VerificationMode_None = ''None''"
| "VerificationMode_text VerificationMode_PostApplyReadback = ''PostApplyReadback''"
| "VerificationMode_text (VerificationMode_other b) = ''Unknown''"

primrec AuthoritySource_text :: "AuthoritySource \<Rightarrow> string" where
  "AuthoritySource_text AuthoritySource_Unknown = ''Unknown''"
| "AuthoritySource_text AuthoritySource_Operator = ''Operator''"
| "AuthoritySource_text AuthoritySource_Configuration = ''Configuration''"
| "AuthoritySource_text AuthoritySource_Recovery = ''Recovery''"
| "AuthoritySource_text AuthoritySource_BackendReport = ''BackendReport''"
| "AuthoritySource_text AuthoritySource_Derived = ''Derived''"
| "AuthoritySource_text (AuthoritySource_other b) = ''Unknown''"

primrec EnvelopeState_text :: "EnvelopeState \<Rightarrow> string" where
  "EnvelopeState_text EnvelopeState_Unknown = ''UNKNOWN''"
| "EnvelopeState_text EnvelopeState_Desired = ''DESIRED''"
| "EnvelopeState_text EnvelopeState_Authorized = ''AUTHORIZED''"
| "EnvelopeState_text EnvelopeState_Dispatching = ''DISPATCHING''"
| "EnvelopeState_text EnvelopeState_Applied = ''APPLIED''"
| "EnvelopeState_text EnvelopeState_Degraded = ''DEGRADED''"
| "EnvelopeState_text EnvelopeState_RevokePending = ''REVOKE_PENDING''"
| "EnvelopeState_text EnvelopeState_Revoked = ''REVOKED''"
| "EnvelopeState_text EnvelopeState_Stale = ''STALE''"
| "EnvelopeState_text EnvelopeState_Failed = ''FAILED''"
| "EnvelopeState_text (EnvelopeState_other b) = ''UNKNOWN''"

primrec EnvelopeAction_text :: "EnvelopeAction \<Rightarrow> string" where
  "EnvelopeAction_text EnvelopeAction_None = ''NONE''"
| "EnvelopeAction_text EnvelopeAction_AwaitAuthorization = ''AWAIT_AUTHORIZATION''"
| "EnvelopeAction_text EnvelopeAction_AwaitVerification = ''AWAIT_VERIFICATION''"
| "EnvelopeAction_text EnvelopeAction_RetryApply = ''RETRY_APPLY''"
| "EnvelopeAction_text EnvelopeAction_Reduce = ''REDUCE''"
| "EnvelopeAction_text EnvelopeAction_Revoke = ''REVOKE''"
| "EnvelopeAction_text EnvelopeAction_Revalidate = ''REVALIDATE''"
| "EnvelopeAction_text EnvelopeAction_Fence = ''FENCE''"
| "EnvelopeAction_text EnvelopeAction_RejectStale = ''REJECT_STALE''"
| "EnvelopeAction_text EnvelopeAction_Halt = ''HALT''"

primrec LimitingAuthority_text :: "LimitingAuthority \<Rightarrow> string" where
  "LimitingAuthority_text LimitingAuthority_None = ''None''"
| "LimitingAuthority_text LimitingAuthority_Grant = ''Grant''"
| "LimitingAuthority_text LimitingAuthority_Reservation = ''Reservation''"
| "LimitingAuthority_text LimitingAuthority_Policy = ''Policy''"
| "LimitingAuthority_text LimitingAuthority_Resource = ''Resource''"
| "LimitingAuthority_text LimitingAuthority_Backend = ''Backend''"
| "LimitingAuthority_text LimitingAuthority_Unknown = ''Unknown''"
| "LimitingAuthority_text (LimitingAuthority_other b) = ''Unknown''"

primrec AttemptKind_text :: "AttemptKind \<Rightarrow> string" where
  "AttemptKind_text AttemptKind_Unknown = ''Unknown''"
| "AttemptKind_text AttemptKind_Apply = ''Apply''"
| "AttemptKind_text AttemptKind_Revoke = ''Revoke''"
| "AttemptKind_text (AttemptKind_other b) = ''Unknown''"

primrec AttemptState_text :: "AttemptState \<Rightarrow> string" where
  "AttemptState_text AttemptState_Unknown = ''Unknown''"
| "AttemptState_text AttemptState_Created = ''Created''"
| "AttemptState_text AttemptState_Dispatched = ''Dispatched''"
| "AttemptState_text AttemptState_Acknowledged = ''Acknowledged''"
| "AttemptState_text AttemptState_Verified = ''Verified''"
| "AttemptState_text AttemptState_Failed = ''Failed''"
| "AttemptState_text AttemptState_Cancelled = ''Cancelled''"
| "AttemptState_text AttemptState_Abandoned = ''Abandoned''"
| "AttemptState_text AttemptState_LateRejected = ''LateRejected''"
| "AttemptState_text AttemptState_DuplicateIgnored = ''DuplicateIgnored''"
| "AttemptState_text AttemptState_Ambiguous = ''Ambiguous''"
| "AttemptState_text (AttemptState_other b) = ''Unknown''"

primrec JournalStatus_text :: "JournalStatus \<Rightarrow> string" where
  "JournalStatus_text JournalStatus_Ok = ''Ok''"
| "JournalStatus_text JournalStatus_NotOpen = ''NotOpen''"
| "JournalStatus_text JournalStatus_IoError = ''IoError''"
| "JournalStatus_text JournalStatus_Corrupt = ''Corrupt''"
| "JournalStatus_text JournalStatus_Truncated = ''Truncated''"
| "JournalStatus_text JournalStatus_VersionUnsupported = ''VersionUnsupported''"
| "JournalStatus_text JournalStatus_BoundsExceeded = ''BoundsExceeded''"
| "JournalStatus_text JournalStatus_NoTransaction = ''NoTransaction''"
| "JournalStatus_text JournalStatus_TransactionOpen = ''TransactionOpen''"
| "JournalStatus_text JournalStatus_PayloadTooLarge = ''PayloadTooLarge''"

primrec MessageType_text :: "MessageType \<Rightarrow> string" where
  "MessageType_text MessageType_Unknown = ''Unknown''"
| "MessageType_text MessageType_Hello = ''Hello''"
| "MessageType_text MessageType_HelloAck = ''HelloAck''"
| "MessageType_text MessageType_ApplyRequest = ''ApplyRequest''"
| "MessageType_text MessageType_ApplyResponse = ''ApplyResponse''"
| "MessageType_text MessageType_RevokeRequest = ''RevokeRequest''"
| "MessageType_text MessageType_RevokeResponse = ''RevokeResponse''"
| "MessageType_text MessageType_VerifyRequest = ''VerifyRequest''"
| "MessageType_text MessageType_VerifyResponse = ''VerifyResponse''"
| "MessageType_text MessageType_HeartbeatRequest = ''HeartbeatRequest''"
| "MessageType_text MessageType_HeartbeatResponse = ''HeartbeatResponse''"
| "MessageType_text MessageType_ShutdownRequest = ''ShutdownRequest''"
| "MessageType_text MessageType_ShutdownResponse = ''ShutdownResponse''"
| "MessageType_text MessageType_ErrorResponse = ''ErrorResponse''"
| "MessageType_text MessageType_AccountingRequest = ''AccountingRequest''"
| "MessageType_text MessageType_AccountingResponse = ''AccountingResponse''"
| "MessageType_text (MessageType_other b) = ''Unknown''"

section \<open>Descriptions\<close>

definition describe_flow :: "Flow \<Rightarrow> string" where
  "describe_flow x =
     ''flow ''
     @ id_to_string ''flow'' (flow_id x)
     @ '' gen=''
     @ id_to_string ''gen'' (flow_generation x)
     @ '' state=''
     @ FlowState_text (flow_state x)"

definition describe_grant :: "Grant \<Rightarrow> string" where
  "describe_grant x =
     ''grant ''
     @ id_to_string ''grant'' (grant_id x)
     @ '' flow=''
     @ id_to_string ''flow'' (grant_flow x)
     @ '' resource=''
     @ id_to_string ''res'' (grant_resource x)
     @ '' gen=''
     @ id_to_string ''gen'' (grant_generation x)
     @ '' ceiling_ups=''
     @ to_string_u64 (grant_ceiling_ups x)
     @ '' burst_tokens=''
     @ to_string_u64 (grant_burst_tokens x)
     @ '' state=''
     @ GrantState_text (grant_state x)"

definition describe_reservation :: "Reservation \<Rightarrow> string" where
  "describe_reservation x =
     ''reservation ''
     @ id_to_string ''rsv'' (reservation_id x)
     @ '' flow=''
     @ id_to_string ''flow'' (reservation_flow x)
     @ '' ceiling_ups=''
     @ to_string_u64 (reservation_ceiling_ups x)
     @ '' burst_tokens=''
     @ to_string_u64 (reservation_burst_tokens x)
     @ '' state=''
     @ ReservationState_text (reservation_state x)"

definition describe_policy :: "Policy \<Rightarrow> string" where
  "describe_policy x =
     ''policy ''
     @ id_to_string ''pol'' (policy_id x)
     @ '' gen=''
     @ id_to_string ''gen'' (policy_generation x)
     @ '' floor=''
     @ to_string_u64 (policy_floor_ups x)
     @ '' target=''
     @ to_string_u64 (policy_target_ups x)
     @ '' ceiling=''
     @ to_string_u64 (policy_ceiling_ups x)
     @ '' burst=''
     @ to_string_u64 (policy_burst_tokens x)
     @ '' refill=''
     @ RefillSemantics_text (policy_refill x)
     @ '' state=''
     @ PolicyState_text (policy_state x)"

definition describe_resource :: "Resource \<Rightarrow> string" where
  "describe_resource x =
     ''resource ''
     @ id_to_string ''res'' (resource_id x)
     @ '' gen=''
     @ id_to_string ''gen'' (resource_generation x)
     @ '' capacity_ups=''
     @ to_string_u64 (resource_capacity_ups x)
     @ '' state=''
     @ ResourceState_text (resource_state x)"

definition describe_backend :: "BackendDescriptor \<Rightarrow> string" where
  "describe_backend x =
     ''backend ''
     @ id_to_string ''bkd'' (backend_id x)
     @ '' gen=''
     @ id_to_string ''gen'' (backend_generation x)
     @ '' kind=''
     @ BackendKind_text (backend_kind x)
     @ '' verification=''
     @ VerificationMode_text (backend_verification x)
     @ '' caps=0x''
     @ decimal (unat (backend_capabilities x))
     @ (if backend_label x \<noteq> []
        then '' label=''
          @ backend_label x
        else [])"

definition explain_fingerprint :: "PlanFingerprint \<Rightarrow> string" where
  "explain_fingerprint x =
     ''envelope=''
     @ id_to_string ''env'' (fp_envelope x)
     @ ''/''
     @ id_to_string ''gen'' (fp_envelope_generation x)
     @ '' flow=''
     @ id_to_string ''flow'' (fp_flow x)
     @ ''/''
     @ id_to_string ''gen'' (fp_flow_generation x)
     @ '' resource=''
     @ id_to_string ''res'' (fp_resource x)
     @ ''/''
     @ id_to_string ''gen'' (fp_resource_generation x)
     @ '' grant=''
     @ id_to_string ''grant'' (fp_grant x)
     @ ''/''
     @ id_to_string ''gen'' (fp_grant_generation x)
     @ (if fp_has_reservation x
        then '' reservation=''
          @ id_to_string ''rsv'' (fp_reservation x)
          @ ''/''
          @ id_to_string ''gen'' (fp_reservation_generation x)
        else [])
     @ '' policy=''
     @ id_to_string ''pol'' (fp_policy x)
     @ ''/''
     @ id_to_string ''gen'' (fp_policy_generation x)
     @ '' backend=''
     @ id_to_string ''bkd'' (fp_backend x)
     @ ''/''
     @ id_to_string ''gen'' (fp_backend_generation x)
     @ '' epoch=''
     @ id_to_string ''epoch'' (fp_epoch x)
     @ '' boot=''
     @ id_to_string ''boot'' (fp_boot x)"

definition describe_provenance :: "Provenance \<Rightarrow> string" where
  "describe_provenance x =
     (if \<not> authoritative x then ''provenance=UNKNOWN''
      else ''provenance=''
        @ AuthoritySource_text (prov_source x)
        @ (if id_valid (prov_epoch x)
        then '' epoch=''
          @ id_to_string ''epoch'' (prov_epoch x)
        else [])
        @ (if id_valid (prov_boot x)
        then '' boot=''
          @ id_to_string ''boot'' (prov_boot x)
        else [])
        @ (if prov_sequence x \<noteq> 0
        then '' seq=''
          @ to_string_u64 (prov_sequence x)
        else [])
        @ (if prov_detail x \<noteq> []
        then '' detail=''
          @ prov_detail x
        else []))"

section \<open>Names identify\<close>

lemma reason_names_distinct: "distinct (map fst reason_names)" "distinct (map snd reason_names)"
  by (simp_all add: reason_names_def)

lemma record_type_names_distinct:
  "distinct (map fst record_type_names)" "distinct (map snd record_type_names)"
  by (simp_all add: record_type_names_def)

lemma map_of_names_inj:
  assumes "distinct (map snd names)" "map_of names c = Some n" "map_of names c' = Some n"
  shows "c = c'"
proof -
  have "(c, n) \<in> set names" "(c', n) \<in> set names"
    using assms(2,3) by (auto dest: map_of_SomeD)
  then show ?thesis
    using assms(1) by (metis distinct_map inj_on_eq_iff snd_conv prod.inject)
qed

end
