(* ===== verification/Ipc.thy ===== *)
theory Ipc
  imports Wire
begin

text \<open>
  The socket transport (\<^verbatim>\<open>include/rate_governor/ipc.hpp\<close>, \<^verbatim>\<open>src/ipc.cpp\<close>).  The calls
  of the operating system are a parameter: a record of functions on a world that the
  process does not see, where a failed call answers nothing.  Everything the code does
  around them is modelled: the loops that complete partial writes and reads, the frame
  sent and received over them, the handle that is exchanged out once, the endpoints and
  the listener.  A locale states what a connected stream does; over it a frame is
  received exactly as it was sent, however the stream is cut into chunks.
\<close>

section \<open>The operating system\<close>

text \<open>
  \<open>os_send\<close> and \<open>os_recv\<close> answer nothing for \<^verbatim>\<open>kSocketError\<close>; a receive that answers no
  bytes reports that the peer has closed.  \<open>os_close\<close> is \<^verbatim>\<open>close_native\<close>: shut down, then
  close.  \<open>os_error\<close> is the text of the last error.
\<close>

record 'w SocketOs =
  os_socket :: "'w \<Rightarrow> u64 option \<times> 'w"
  os_connect :: "u64 \<Rightarrow> u16 \<Rightarrow> 'w \<Rightarrow> bool \<times> 'w"
  os_bind :: "u64 \<Rightarrow> u16 \<Rightarrow> 'w \<Rightarrow> bool \<times> 'w"
  os_listen :: "u64 \<Rightarrow> 'w \<Rightarrow> bool \<times> 'w"
  os_getsockname :: "u64 \<Rightarrow> 'w \<Rightarrow> u16 option \<times> 'w"
  os_accept :: "u64 \<Rightarrow> 'w \<Rightarrow> u64 option \<times> 'w"
  os_send :: "u64 \<Rightarrow> bytes \<Rightarrow> 'w \<Rightarrow> nat option \<times> 'w"
  os_recv :: "u64 \<Rightarrow> nat \<Rightarrow> 'w \<Rightarrow> bytes option \<times> 'w"
  os_shutdown :: "u64 \<Rightarrow> 'w \<Rightarrow> 'w"
  os_close :: "u64 \<Rightarrow> 'w \<Rightarrow> 'w"
  os_error :: "'w \<Rightarrow> string"

section \<open>Endpoints\<close>

record Endpoint =
  ep_host :: string
  ep_port :: u16

definition endpoint_to_string :: "Endpoint \<Rightarrow> string" where
  "endpoint_to_string e = ep_host e @ '':'' @ decimal (unat (ep_port e))"

text \<open>\<^verbatim>\<open>std::string_view::rfind\<close>: the last position of a character.\<close>

primrec rfind :: "char \<Rightarrow> string \<Rightarrow> nat option" where
  "rfind c [] = None"
| "rfind c (x # xs) =
     (case rfind c xs of Some i \<Rightarrow> Some (Suc i) | None \<Rightarrow> if x = c then Some 0 else None)"

definition endpoint_parse :: "string \<Rightarrow> Endpoint option" where
  "endpoint_parse str =
     (case rfind (CHR '':'') str of
        None \<Rightarrow> None
      | Some colon \<Rightarrow>
          if colon = 0 \<or> length str \<le> colon + 1 then None
          else (case parse_u64_strict (drop (colon + 1) str) of
              None \<Rightarrow> None
            | Some port \<Rightarrow>
                if 65535 < port then None
                else Some \<lparr>ep_host = take colon str, ep_port = ucast port\<rparr>))"

definition loopback :: "Endpoint \<Rightarrow> bool" where
  "loopback e \<longleftrightarrow> ep_host e = ''127.0.0.1'' \<or> ep_host e = ''localhost''"

section \<open>Sockets\<close>

definition kInvalidSocketHandle :: u64 where
  "kInvalidSocketHandle = NOT 0"

record Socket =
  sk_handle :: u64
  sk_bytes_sent :: u64
  sk_bytes_received :: u64
  sk_frames_sent :: u64
  sk_frames_received :: u64

definition empty_socket :: Socket where
  "empty_socket =
     \<lparr>sk_handle = kInvalidSocketHandle, sk_bytes_sent = 0, sk_bytes_received = 0,
      sk_frames_sent = 0, sk_frames_received = 0\<rparr>"

definition socket_valid :: "Socket \<Rightarrow> bool" where
  "socket_valid s \<longleftrightarrow> sk_handle s \<noteq> kInvalidSocketHandle"

text \<open>The move constructor: the new socket, and what is left of the other one.\<close>

definition socket_move :: "Socket \<Rightarrow> Socket \<times> Socket" where
  "socket_move other = (other, empty_socket)"

definition socket_interrupt :: "'w SocketOs \<Rightarrow> Socket \<Rightarrow> 'w \<Rightarrow> 'w" where
  "socket_interrupt os s w =
     (if sk_handle s \<noteq> kInvalidSocketHandle then os_shutdown os (sk_handle s) w else w)"

definition socket_close :: "'w SocketOs \<Rightarrow> Socket \<Rightarrow> 'w \<Rightarrow> Socket \<times> 'w" where
  "socket_close os s w =
     (s\<lparr>sk_handle := kInvalidSocketHandle\<rparr>,
      if sk_handle s \<noteq> kInvalidSocketHandle then os_close os (sk_handle s) w else w)"

text \<open>The move assignment to another socket: close, then take over.\<close>

definition socket_move_assign :: "'w SocketOs \<Rightarrow> Socket \<Rightarrow> Socket \<Rightarrow> 'w \<Rightarrow> Socket \<times> Socket \<times> 'w" where
  "socket_move_assign os s other w =
     (case socket_close os s w of (_, w1) \<Rightarrow> (other, empty_socket, w1))"

definition connect_to ::
  "'w SocketOs \<Rightarrow> Endpoint \<Rightarrow> Socket \<Rightarrow> 'w \<Rightarrow> (string + unit) \<times> Socket \<times> 'w" where
  "connect_to os endpoint out w =
     (if \<not> loopback endpoint then (Inl ''only loopback endpoints are accepted'', out, w)
      else (case os_socket os w of
          (None, w1) \<Rightarrow> (Inl (os_error os w1), out, w1)
        | (Some socket, w1) \<Rightarrow>
            (case os_connect os socket (ep_port endpoint) w1 of
               (False, w2) \<Rightarrow> (Inl (os_error os w2), out, os_close os socket w2)
             | (True, w2) \<Rightarrow>
                 (case socket_close os out w2 of
                    (out1, w3) \<Rightarrow> (Inr (), out1\<lparr>sk_handle := socket\<rparr>, w3)))))"

text \<open>The loop of a send: what is left of the bytes, and how many were sent.\<close>

function send_loop :: "'w SocketOs \<Rightarrow> bytes \<Rightarrow> Socket \<Rightarrow> 'w \<Rightarrow> (string + unit) \<times> Socket \<times> 'w" where
  "send_loop os remaining s w =
     (if remaining = [] then (Inr (), s, w)
      else (case os_send os (sk_handle s) remaining w of
          (None, w1) \<Rightarrow> (Inl (os_error os w1), s, w1)
        | (Some chunk, w1) \<Rightarrow>
            if chunk = 0 then (Inl (os_error os w1), s, w1)
            else send_loop os (drop chunk remaining)
                   (s\<lparr>sk_bytes_sent := sk_bytes_sent s + of_nat chunk\<rparr>) w1))"
  by pat_completeness auto

termination send_loop
  by (relation "measure (\<lambda>(os, remaining, s, w). length remaining)") auto

declare send_loop.simps [simp del]

definition send_raw :: "'w SocketOs \<Rightarrow> bytes \<Rightarrow> Socket \<Rightarrow> 'w \<Rightarrow> (string + unit) \<times> Socket \<times> 'w" where
  "send_raw os bs s w =
     (if \<not> socket_valid s then (Inl ''socket is not connected'', s, w) else send_loop os bs s w)"

definition send_frame :: "'w SocketOs \<Rightarrow> Frame \<Rightarrow> Socket \<Rightarrow> 'w \<Rightarrow> (string + unit) \<times> Socket \<times> 'w" where
  "send_frame os frame s w =
     (let encoded = encode_frame frame
      in if encoded = [] then
           (Inl ''frame could not be encoded within the configured bound'', s, w)
         else (case send_raw os encoded s w of
             (Inl err, s1, w1) \<Rightarrow> (Inl err, s1, w1)
           | (Inr _, s1, w1) \<Rightarrow> (Inr (), s1\<lparr>sk_frames_sent := sk_frames_sent s1 + 1\<rparr>, w1)))"

text \<open>The loop of a receive: the bytes that have arrived so far grow to the count.\<close>

function recv_loop ::
  "'w SocketOs \<Rightarrow> nat \<Rightarrow> bytes \<Rightarrow> Socket \<Rightarrow> 'w \<Rightarrow> (string + bytes) \<times> Socket \<times> 'w" where
  "recv_loop os needed arrived s w =
     (if needed \<le> length arrived then (Inr arrived, s, w)
      else (case os_recv os (sk_handle s) (needed - length arrived) w of
          (None, w1) \<Rightarrow> (Inl (os_error os w1), s, w1)
        | (Some chunk, w1) \<Rightarrow>
            if chunk = [] then (Inl ''peer closed the connection'', s, w1)
            else recv_loop os needed (arrived @ chunk)
                   (s\<lparr>sk_bytes_received := sk_bytes_received s + of_nat (length chunk)\<rparr>) w1))"
  by pat_completeness auto

termination recv_loop
  by (relation "measure (\<lambda>(os, needed, arrived, s, w). needed - length arrived)")
     (auto intro!: diff_less_mono2)

declare recv_loop.simps [simp del]

definition recv_exact :: "'w SocketOs \<Rightarrow> nat \<Rightarrow> Socket \<Rightarrow> 'w \<Rightarrow> (string + bytes) \<times> Socket \<times> 'w" where
  "recv_exact os needed s w =
     (if \<not> socket_valid s then (Inl ''socket is not connected'', s, w)
      else recv_loop os needed [] s w)"

text \<open>A failed receive carries its text and its reason, which is none for a transport failure.\<close>

definition recv_frame ::
  "'w SocketOs \<Rightarrow> Socket \<Rightarrow> 'w \<Rightarrow> ((string \<times> ReasonCode) + Frame) \<times> Socket \<times> 'w" where
  "recv_frame os s w =
     (case recv_exact os kWireHeaderSize s w of
        (Inl err, s1, w1) \<Rightarrow> (Inl (err, R_None), s1, w1)
      | (Inr header_bytes, s1, w1) \<Rightarrow>
          (case decode_frame_header header_bytes of
             Inl reason \<Rightarrow> (Inl (''frame header rejected'', reason), s1, w1)
           | Inr header \<Rightarrow>
               (case recv_exact os (unat (fh_payload_len header) + kWireCrcSize) s1 w1 of
                  (Inl err, s2, w2) \<Rightarrow> (Inl (err, R_None), s2, w2)
                | (Inr body, s2, w2) \<Rightarrow>
                    (case decode_frame (header_bytes @ body) of
                       Inl reason \<Rightarrow> (Inl (''frame body rejected'', reason), s2, w2)
                     | Inr frame \<Rightarrow>
                         (Inr frame, s2\<lparr>sk_frames_received := sk_frames_received s2 + 1\<rparr>, w2)))))"

section \<open>Listeners\<close>

record Listener =
  ln_handle :: u64
  ln_port :: u16

definition listener_valid :: "Listener \<Rightarrow> bool" where
  "listener_valid l \<longleftrightarrow> ln_handle l \<noteq> kInvalidSocketHandle"

definition bind_loopback :: "'w SocketOs \<Rightarrow> u16 \<Rightarrow> 'w \<Rightarrow> (string + Listener) \<times> 'w" where
  "bind_loopback os port w =
     (case os_socket os w of
        (None, w1) \<Rightarrow> (Inl (os_error os w1), w1)
      | (Some socket, w1) \<Rightarrow>
     (case os_bind os socket port w1 of
        (False, w2) \<Rightarrow> (Inl (os_error os w2), os_close os socket w2)
      | (True, w2) \<Rightarrow>
     (case os_listen os socket w2 of
        (False, w3) \<Rightarrow> (Inl (os_error os w3), os_close os socket w3)
      | (True, w3) \<Rightarrow>
     (case os_getsockname os socket w3 of
        (None, w4) \<Rightarrow> (Inl (os_error os w4), os_close os socket w4)
      | (Some bound, w4) \<Rightarrow> (Inr \<lparr>ln_handle = socket, ln_port = bound\<rparr>, w4)))))"

definition listener_accept ::
  "'w SocketOs \<Rightarrow> Listener \<Rightarrow> Socket \<Rightarrow> 'w \<Rightarrow> (string + unit) \<times> Socket \<times> 'w" where
  "listener_accept os l out w =
     (if \<not> listener_valid l then (Inl ''listener is not bound'', out, w)
      else (case os_accept os (ln_handle l) w of
          (None, w1) \<Rightarrow> (Inl (os_error os w1), out, w1)
        | (Some client, w1) \<Rightarrow>
            (case socket_close os out w1 of
               (out1, w2) \<Rightarrow> (Inr (), out1\<lparr>sk_handle := client\<rparr>, w2))))"

definition listener_close :: "'w SocketOs \<Rightarrow> Listener \<Rightarrow> 'w \<Rightarrow> Listener \<times> 'w" where
  "listener_close os l w =
     (if listener_valid l
      then (l\<lparr>ln_handle := kInvalidSocketHandle\<rparr>, os_close os (ln_handle l) w)
      else (l, w))"

section \<open>Endpoints read back\<close>

lemma rfind_None: "rfind c str = None \<longleftrightarrow> c \<notin> set str"
  by (induction str) (auto split: option.splits)

lemma rfind_append: "c \<notin> set ys \<Longrightarrow> rfind c (xs @ c # ys) = Some (length xs)"
  by (induction xs) (simp_all add: rfind_None [THEN iffD2])

lemma decimal_no_colon: "CHR '':'' \<notin> set (decimal n)"
proof
  assume "CHR '':'' \<in> set (decimal n)"
  then have "is_digit (CHR '':'')" using decimal_digits [of n] by (simp add: list_all_iff)
  then show False by (simp add: is_digit_def)
qed

lemma endpoint_parse_to_string:
  assumes "ep_host e \<noteq> []"
  shows "endpoint_parse (endpoint_to_string e) = Some e"
proof -
  let ?port = "ucast (ep_port e) :: u64"
  have p: "unat ?port = unat (ep_port e)" "\<not> 65535 < ?port"
    using unsigned_less [of "ep_port e", where 'a = nat]
    by (simp_all add: unsigned_ucast_eq take_bit_nat_eq_self word_less_nat_alt)
  have d: "parse_u64_strict (decimal (unat (ep_port e))) = Some ?port"
    using parse_to_string [of ?port] by (simp add: to_string_u64_def p(1))
  have same: "ucast ?port = ep_port e"
    by (rule bit_word_eqI) (simp add: bit_simps)
  show ?thesis
    using assms rfind_append [OF decimal_no_colon, of "ep_host e" "unat (ep_port e)"] p(2)
    by (simp add: endpoint_to_string_def endpoint_parse_def d decimal_nonempty same Suc_le_eq)
qed

section \<open>A frame from its two parts\<close>

lemma recv_frame_of_parts:
  assumes f: "frame_sendable f"
    and head: "recv_exact os kWireHeaderSize s w = (Inr (frame_head f), s1, w1)"
    and body: "recv_exact os (length (fr_payload f) + kWireCrcSize) s1 w1
      = (Inr (fr_payload f @ put_u32 (crc32c (frame_head f @ fr_payload f))), s2, w2)"
  shows "recv_frame os s w = (Inr f, s2\<lparr>sk_frames_received := sk_frames_received s2 + 1\<rparr>, w2)"
proof -
  have h: "decode_frame_header (frame_head f)
    = Inr \<lparr>fh_magic = kWireFrameMagic, fh_version = kWireProtocolVersion, fh_type = fr_type f,
           fh_flags = fr_flags f, fh_payload_len = of_nat (length (fr_payload f))\<rparr>"
    using decode_frame_header_head [OF f, of "[]"] by simp
  have l: "unat (of_nat (length (fr_payload f)) :: u32) = length (fr_payload f)"
    using f by (intro payload_len_back) (simp add: frame_sendable_def)
  have "decode_frame (frame_head f @ fr_payload f @ put_u32 (crc32c (frame_head f @ fr_payload f))) = Inr f"
    using decode_encode_frame [OF f, of "[]"] by (simp add: encode_frame_sendable [OF f])
  then show ?thesis using head body by (simp add: recv_frame_def h l)
qed

section \<open>What a connected stream does\<close>

text \<open>
  \<open>outgoing w\<close>: the bytes the process has handed over.  \<open>incoming w\<close>: the bytes that are
  on their way to it; more may follow.  A send takes a part of the bytes, a receive
  answers a part of what is coming, and neither loses or reorders anything.
\<close>

locale byte_stream =
  fixes os :: "'w SocketOs"
    and handle :: u64
    and outgoing incoming :: "'w \<Rightarrow> bytes"
  assumes connected: "handle \<noteq> kInvalidSocketHandle"
    and send_some:
      "data \<noteq> [] \<Longrightarrow> \<exists>n w'. os_send os handle data w = (Some n, w') \<and> 0 < n \<and> n \<le> length data
         \<and> outgoing w' = outgoing w @ take n data"
    and recv_some:
      "incoming w \<noteq> [] \<Longrightarrow> 0 < n \<Longrightarrow> \<exists>c w' more. os_recv os handle n w = (Some c, w') \<and> c \<noteq> []
         \<and> length c \<le> n \<and> incoming w @ more = c @ incoming w'"
begin

lemma send_loop_sends:
  assumes "sk_handle s = handle"
  shows "\<exists>s' w'. send_loop os data s w = (Inr (), s', w') \<and> outgoing w' = outgoing w @ data
    \<and> sk_handle s' = handle \<and> sk_frames_sent s' = sk_frames_sent s
    \<and> sk_bytes_sent s' = sk_bytes_sent s + of_nat (length data)"
  using assms
proof (induction data arbitrary: s w rule: length_induct)
  case (1 data)
  show ?case
  proof (cases "data = []")
    case True
    then show ?thesis using 1 by (simp add: send_loop.simps)
  next
    case False
    then obtain n w1 where n: "os_send os handle data w = (Some n, w1)" "0 < n" "n \<le> length data"
      "outgoing w1 = outgoing w @ take n data"
      using send_some by blast
    let ?s = "s\<lparr>sk_bytes_sent := sk_bytes_sent s + of_nat n\<rparr>"
    have less: "length (drop n data) < length data" using False n(2) by simp
    obtain s' w' where *: "send_loop os (drop n data) ?s w1 = (Inr (), s', w')"
      "outgoing w' = outgoing w1 @ drop n data" "sk_handle s' = handle"
      "sk_frames_sent s' = sk_frames_sent s"
      "sk_bytes_sent s' = sk_bytes_sent s + of_nat n + of_nat (length data - n)"
      using 1(1) [rule_format, OF less, of ?s w1] 1(2) by auto
    have "(of_nat n + of_nat (length data - n) :: u64) = of_nat (length data)"
      using n(3) by (simp flip: of_nat_add)
    then show ?thesis
      using * n 1(2) False by (subst send_loop.simps) (simp add: add.assoc)
  qed
qed

lemma recv_loop_receives:
  assumes "sk_handle s = handle" "incoming w = xs @ ys"
  shows "\<exists>s' w' more. recv_loop os (length arrived + length xs) arrived s w = (Inr (arrived @ xs), s', w')
    \<and> incoming w' = ys @ more \<and> sk_handle s' = handle \<and> sk_frames_received s' = sk_frames_received s
    \<and> sk_bytes_received s' = sk_bytes_received s + of_nat (length xs)"
  using assms
proof (induction xs arbitrary: arrived s w ys rule: length_induct)
  case (1 xs)
  show ?case
  proof (cases "xs = []")
    case True
    then show ?thesis using 1(2,3) by (simp add: recv_loop.simps)
  next
    case False
    then obtain c w1 more where c: "os_recv os handle (length xs) w = (Some c, w1)" "c \<noteq> []"
      "length c \<le> length xs" "incoming w @ more = c @ incoming w1"
      using recv_some [of w "length xs"] 1(3) by auto
    then obtain zs where zs: "xs = c @ zs" "incoming w1 = zs @ ys @ more"
      using 1(3) by (auto simp: append_eq_append_conv2)
    let ?s = "s\<lparr>sk_bytes_received := sk_bytes_received s + of_nat (length c)\<rparr>"
    have less: "length zs < length xs" using zs(1) c(2) by simp
    obtain s' w' more' where *:
      "recv_loop os (length (arrived @ c) + length zs) (arrived @ c) ?s w1 = (Inr ((arrived @ c) @ zs), s', w')"
      "incoming w' = (ys @ more) @ more'" "sk_handle s' = handle"
      "sk_frames_received s' = sk_frames_received s"
      "sk_bytes_received s' = sk_bytes_received s + of_nat (length c) + of_nat (length zs)"
      using 1(1) [rule_format, OF less, of ?s w1 "ys @ more" "arrived @ c"] 1(2) zs(2) by fastforce
    then show ?thesis
      using c(1,2) zs(1) 1(2) False by (subst recv_loop.simps) (simp add: add.assoc)
  qed
qed

lemma recv_exact_receives:
  assumes "sk_handle s = handle" "incoming w = xs @ ys" "length xs = n"
  obtains s' w' more where "recv_exact os n s w = (Inr xs, s', w')" "incoming w' = ys @ more"
    "sk_handle s' = handle" "sk_frames_received s' = sk_frames_received s"
    "sk_bytes_received s' = sk_bytes_received s + of_nat (length xs)"
  using recv_loop_receives [OF assms(1,2), of "[]"] assms connected that
  by (auto simp: recv_exact_def socket_valid_def)

lemma send_frame_sends:
  assumes "sk_handle s = handle" "frame_sendable f"
  shows "\<exists>s' w'. send_frame os f s w = (Inr (), s', w') \<and> outgoing w' = outgoing w @ encode_frame f
    \<and> sk_handle s' = handle \<and> sk_frames_sent s' = sk_frames_sent s + 1
    \<and> sk_bytes_sent s' = sk_bytes_sent s + of_nat (length (encode_frame f))"
proof -
  have "encode_frame f \<noteq> []" using length_encode_frame [OF assms(2)] by auto
  then show ?thesis
    using send_loop_sends [OF assms(1), of "encode_frame f" w] assms(1) connected
    by (auto simp: send_frame_def send_raw_def socket_valid_def Let_def)
qed

lemma recv_frame_receives:
  assumes s: "sk_handle s = handle" and f: "frame_sendable f" and w: "incoming w = encode_frame f @ rest"
  shows "\<exists>s' w' more. recv_frame os s w = (Inr f, s', w') \<and> incoming w' = rest @ more
    \<and> sk_handle s' = handle \<and> sk_frames_received s' = sk_frames_received s + 1
    \<and> sk_bytes_received s' = sk_bytes_received s + of_nat (length (encode_frame f))"
proof -
  let ?body = "fr_payload f @ put_u32 (crc32c (frame_head f @ fr_payload f))"
  have e: "encode_frame f = frame_head f @ ?body" by (rule encode_frame_sendable [OF f])
  obtain s1 w1 more1 where 1: "recv_exact os kWireHeaderSize s w = (Inr (frame_head f), s1, w1)"
    "incoming w1 = (?body @ rest) @ more1" "sk_handle s1 = handle"
    "sk_frames_received s1 = sk_frames_received s"
    "sk_bytes_received s1 = sk_bytes_received s + of_nat (length (frame_head f))"
    using w by (elim recv_exact_receives [OF s, of w "frame_head f" "?body @ rest" kWireHeaderSize, rotated 2])
      (simp_all add: e kWireHeaderSize_def)
  obtain s2 w2 more2 where 2:
    "recv_exact os (length (fr_payload f) + kWireCrcSize) s1 w1 = (Inr ?body, s2, w2)"
    "incoming w2 = (rest @ more1) @ more2" "sk_handle s2 = handle"
    "sk_frames_received s2 = sk_frames_received s1"
    "sk_bytes_received s2 = sk_bytes_received s1 + of_nat (length ?body)"
    using 1(2) by (elim recv_exact_receives [OF 1(3), of w1 ?body "rest @ more1"
          "length (fr_payload f) + kWireCrcSize", rotated 2]) (simp_all add: kWireCrcSize_def)
  show ?thesis
    using 1 2 recv_frame_of_parts [OF f 1(1) 2(1)] by (simp add: e add.assoc)
qed

end

section \<open>A pair of pipes\<close>

text \<open>
  One end of a connected stream as a pair of byte queues, where a call moves at most
  \<open>k\<close> bytes; the calls that do not move bytes are left to succeed.
\<close>

record Pipe =
  pp_out :: bytes
  pp_in :: bytes

definition pipe_os :: "nat \<Rightarrow> Pipe SocketOs" where
  "pipe_os k =
     \<lparr>os_socket = (\<lambda>w. (Some 1, w)), os_connect = (\<lambda>h p w. (True, w)), os_bind = (\<lambda>h p w. (True, w)),
      os_listen = (\<lambda>h w. (True, w)), os_getsockname = (\<lambda>h w. (Some 1, w)),
      os_accept = (\<lambda>h w. (Some 2, w)),
      os_send = (\<lambda>h data w. (Some (min k (length data)), w\<lparr>pp_out := pp_out w @ take k data\<rparr>)),
      os_recv = (\<lambda>h n w. (Some (take (min k n) (pp_in w)), w\<lparr>pp_in := drop (min k n) (pp_in w)\<rparr>)),
      os_shutdown = (\<lambda>h w. w), os_close = (\<lambda>h w. w), os_error = (\<lambda>w. ''socket error 0'')\<rparr>"

interpretation pipe: byte_stream "pipe_os (Suc k)" 1 pp_out pp_in for k
proof
  show "(1 :: u64) \<noteq> kInvalidSocketHandle" by (simp add: kInvalidSocketHandle_def)
next
  fix data :: bytes and w :: Pipe
  assume "data \<noteq> []"
  then show "\<exists>n w'. os_send (pipe_os (Suc k)) 1 data w = (Some n, w') \<and> 0 < n \<and> n \<le> length data
      \<and> pp_out w' = pp_out w @ take n data"
    by (auto simp: pipe_os_def min_def)
next
  fix w :: Pipe and n :: nat
  assume "pp_in w \<noteq> []" "0 < n"
  then show "\<exists>c w' more. os_recv (pipe_os (Suc k)) 1 n w = (Some c, w') \<and> c \<noteq> [] \<and> length c \<le> n
      \<and> pp_in w @ more = c @ pp_in w'"
    by (auto simp: pipe_os_def intro!: exI [of _ "[]"])
qed

section \<open>Properties\<close>

text \<open>
  C37: A frame crosses a connected stream whole, however the stream is cut into
  chunks.  On every operating system whose send takes some of the bytes and whose
  receive answers some of what is coming, sending a frame ends with exactly its
  encoding handed over, and receiving ends with the frame whose encoding is next on the
  stream and leaves what follows it; both count every byte.
\<close>

theorem frame_transport_exact:
  assumes "handle \<noteq> kInvalidSocketHandle"
    and "\<And>data w. data \<noteq> [] \<Longrightarrow> \<exists>n w'. os_send os handle data w = (Some n, w') \<and> 0 < n
           \<and> n \<le> length data \<and> outgoing w' = outgoing w @ take n data"
    and "\<And>n w. incoming w \<noteq> [] \<Longrightarrow> 0 < n \<Longrightarrow> \<exists>c w' more. os_recv os handle n w = (Some c, w')
           \<and> c \<noteq> [] \<and> length c \<le> n \<and> incoming w @ more = c @ incoming w'"
    and "sk_handle s = handle" "frame_sendable f"
  shows "(\<exists>s' w'. send_frame os f s w = (Inr (), s', w') \<and> outgoing w' = outgoing w @ encode_frame f
            \<and> sk_bytes_sent s' = sk_bytes_sent s + of_nat (length (encode_frame f)))
         \<and> (incoming w = encode_frame f @ rest \<longrightarrow>
            (\<exists>s' w' more. recv_frame os s w = (Inr f, s', w') \<and> incoming w' = rest @ more
            \<and> sk_bytes_received s' = sk_bytes_received s + of_nat (length (encode_frame f))))"
proof -
  have stream: "byte_stream os handle outgoing incoming"
    using assms(1-3) by unfold_locales blast+
  show ?thesis
    using byte_stream.send_frame_sends [OF stream assms(4,5), of w]
      byte_stream.recv_frame_receives [OF stream assms(4,5), of w rest] by blast
qed

theorem frame_transport_exact_witness:
  "\<exists>s' w' more. recv_frame (pipe_os 3) (empty_socket\<lparr>sk_handle := 1\<rparr>)
     \<lparr>pp_out = [], pp_in = encode_frame example_frame @ [9]\<rparr> = (Inr example_frame, s', w')
     \<and> pp_in w' = [9] @ more"
proof -
  have s: "frame_sendable example_frame"
    by (simp add: frame_sendable_def example_frame_def MessageType_of_u16_def kWireMaxPayloadBytes_def)
  have three: "pipe_os 3 = pipe_os (Suc 2)" by simp
  show ?thesis
    using frame_transport_exact [where os = "pipe_os (Suc 2)" and s = "empty_socket\<lparr>sk_handle := 1\<rparr>"
        and rest = "[9]" and w = "\<lparr>pp_out = [], pp_in = encode_frame example_frame @ [9]\<rparr>",
        OF pipe.connected pipe.send_some pipe.recv_some _ s]
    unfolding three by auto
qed

end
