(* ===== verification/Remote_Backend.thy ===== *)
theory Remote_Backend
  imports Text_Forms Ipc
begin

text \<open>
  The backend that reaches a worker over a socket
  (\<^verbatim>\<open>include/rate_governor/remote_backend.hpp\<close>, \<^verbatim>\<open>src/remote_backend.cpp\<close>): the
  handshake, one request and one response per call, and what a lost session, a
  foreign answer or a refusal is reported as.  The session and the world behind its
  socket together are the state of the backend interface.
\<close>

section \<open>State\<close>

record RemoteBackend =
  rb_socket :: Socket
  rb_endpoint :: Endpoint
  rb_hello :: HelloMessage
  rb_descriptor :: BackendDescriptor
  rb_worker_boot :: WorkerBootId
  rb_coordinator_boot :: WorkerBootId
  rb_admitted_epoch :: FabricEpoch
  rb_round_trips :: u64
  rb_live :: bool
  rb_last_error :: string

definition empty_hello :: HelloMessage where
  "empty_hello =
     \<lparr>hm_backend = StrongId 0, hm_backend_generation = StrongId 1, hm_boot = StrongId 0,
      hm_epoch = StrongId 0, hm_kind = BackendKind_Unknown, hm_capabilities = 0,
      hm_verification = VerificationMode_Unknown, hm_max_rate_ups = 0, hm_max_burst_tokens = 0,
      hm_process_id = 0, hm_started_at_ns = 0, hm_envelope_limit = 0, hm_queue_capacity = 0,
      hm_worker_threads = 0, hm_label = [], hm_build = []\<rparr>"

definition kProductName :: string where "kProductName = ''Rate Governor''"

definition kVersionString :: string where "kVersionString = ''1.0.0''"

section \<open>The handshake\<close>

definition coordinator_hello :: "FabricEpoch \<Rightarrow> WorkerBootId \<Rightarrow> HelloMessage" where
  "coordinator_hello epoch boot =
     empty_hello\<lparr>hm_epoch := epoch, hm_boot := boot, hm_label := ''coordinator'',
       hm_build := kProductName @ '' '' @ kVersionString\<rparr>"

definition refusal_text :: "string \<Rightarrow> string \<Rightarrow> bytes \<Rightarrow> string" where
  "refusal_text intro undecodable payload =
     (case decode_error payload of
        Some message \<Rightarrow> intro @ reason_text (em_reason message) @ '' ('' @ em_detail message @ '')''
      | None \<Rightarrow> undecodable)"

definition session_of_ack ::
  "Endpoint \<Rightarrow> WorkerBootId \<Rightarrow> HelloMessage \<Rightarrow> Socket \<Rightarrow> RemoteBackend" where
  "session_of_ack endpoint boot ack socket =
     \<lparr>rb_socket = socket, rb_endpoint = endpoint, rb_hello = ack,
      rb_descriptor =
        \<lparr>backend_id = hm_backend ack, backend_generation = hm_backend_generation ack,
         backend_kind = hm_kind ack, backend_capabilities = hm_capabilities ack,
         backend_verification = hm_verification ack, backend_max_rate_ups = hm_max_rate_ups ack,
         backend_max_burst_tokens = hm_max_burst_tokens ack, backend_label = hm_label ack,
         backend_provenance =
           \<lparr>prov_source = AuthoritySource_BackendReport, prov_epoch = hm_epoch ack,
            prov_boot = hm_boot ack, prov_sequence = 0,
            prov_detail = ''reported by the worker during the handshake''\<rparr>\<rparr>,
      rb_worker_boot = hm_boot ack, rb_coordinator_boot = boot, rb_admitted_epoch = hm_epoch ack,
      rb_round_trips = 0, rb_live = True, rb_last_error = []\<rparr>"

text \<open>Why an answer to the hello is not accepted, or the acknowledgement.\<close>

definition judge_ack :: "FabricEpoch \<Rightarrow> Frame \<Rightarrow> string + HelloMessage" where
  "judge_ack epoch response =
     (if fr_type response = MessageType_ErrorResponse then
        Inl (refusal_text ''worker refused the session: ''
               ''worker refused the session with an undecodable error'' (fr_payload response))
      else if fr_type response \<noteq> MessageType_HelloAck then
        Inl ''worker did not acknowledge the handshake''
      else (case decode_hello (fr_payload response) of
          None \<Rightarrow> Inl ''handshake acknowledgement could not be decoded''
        | Some ack \<Rightarrow>
            if \<not> id_valid (hm_boot ack) then
              Inl ''handshake acknowledgement carried no worker boot id''
            else if hm_epoch ack \<noteq> epoch then
              Inl ''handshake acknowledged a different fabric epoch''
            else Inr ack))"

text \<open>A session that is not established is dropped with its socket.\<close>

definition drop_session :: "'w SocketOs \<Rightarrow> string \<Rightarrow> Socket \<Rightarrow> 'w \<Rightarrow> (string + RemoteBackend) \<times> 'w" where
  "drop_session os err socket w = (Inl err, snd (socket_close os socket w))"

definition remote_connect ::
  "'w SocketOs \<Rightarrow> Endpoint \<Rightarrow> FabricEpoch \<Rightarrow> WorkerBootId \<Rightarrow> 'w \<Rightarrow> (string + RemoteBackend) \<times> 'w" where
  "remote_connect os endpoint epoch boot w =
     (case connect_to os endpoint empty_socket w of
        (Inl err, k, w1) \<Rightarrow> drop_session os err k w1
      | (Inr _, k, w1) \<Rightarrow>
          let payload = encode_hello (coordinator_hello epoch boot)
          in if payload = [] then drop_session os ''hello could not be encoded'' k w1
             else (case send_frame os \<lparr>fr_type = MessageType_Hello, fr_flags = 0, fr_payload = payload\<rparr> k w1 of
                 (Inl err, k1, w2) \<Rightarrow> drop_session os err k1 w2
               | (Inr _, k1, w2) \<Rightarrow>
                   (case recv_frame os k1 w2 of
                      (Inl (err, _), k2, w3) \<Rightarrow> drop_session os err k2 w3
                    | (Inr response, k2, w3) \<Rightarrow>
                        (case judge_ack epoch response of
                           Inl err \<Rightarrow> drop_session os err k2 w3
                         | Inr ack \<Rightarrow> (Inr (session_of_ack endpoint boot ack k2), w3)))))"

section \<open>One request and one response\<close>

definition note_failure ::
  "'w SocketOs \<Rightarrow> string \<Rightarrow> ReasonCode \<Rightarrow> RemoteBackend \<Rightarrow> 'w \<Rightarrow> RemoteBackend \<times> 'w" where
  "note_failure os err reason b w =
     (case socket_close os (rb_socket b) w of
        (k, w1) \<Rightarrow>
          (b\<lparr>rb_live := False,
             rb_last_error := err @ (if reason \<noteq> R_None then '' ['' @ reason_text reason @ '']'' else []),
             rb_socket := k\<rparr>, w1))"

definition mark_dead :: "'w SocketOs \<Rightarrow> string \<Rightarrow> RemoteBackend \<Rightarrow> 'w \<Rightarrow> RemoteBackend \<times> 'w" where
  "mark_dead os reason b w = note_failure os reason R_BackendSessionLost b w"

definition transact ::
  "'w SocketOs \<Rightarrow> Frame \<Rightarrow> MessageType \<Rightarrow> RemoteBackend \<Rightarrow> 'w \<Rightarrow> (string + Frame) \<times> RemoteBackend \<times> 'w" where
  "transact os request expected b w =
     (if \<not> rb_live b then (Inl ''backend session is not live'', b, w)
      else (case send_frame os request (rb_socket b) w of
          (Inl err, k, w1) \<Rightarrow>
            (Inl err, note_failure os err R_BackendSessionLost (b\<lparr>rb_socket := k\<rparr>) w1)
        | (Inr _, k, w1) \<Rightarrow>
            (case recv_frame os k w1 of
               (Inl (err, reason), k1, w2) \<Rightarrow>
                 (Inl err, note_failure os err (if reason = R_None then R_BackendSessionLost else reason)
                             (b\<lparr>rb_socket := k1\<rparr>) w2)
             | (Inr received, k1, w2) \<Rightarrow>
                 let b1 = b\<lparr>rb_socket := k1, rb_round_trips := rb_round_trips b + 1\<rparr>
                 in if fr_type received = MessageType_ErrorResponse then
                      (Inl (refusal_text ''worker error: '' ''worker returned an undecodable error''
                              (fr_payload received)), b1, w2)
                    else if fr_type received \<noteq> expected then
                      (Inl ''unexpected response frame type'',
                       note_failure os ''unexpected response frame type''
                         R_BackendRejectedMalformedRequest b1 w2)
                    else (Inr received, b1, w2))))"

definition request_frame :: "MessageType \<Rightarrow> bytes \<Rightarrow> Frame" where
  "request_frame t payload = \<lparr>fr_type = t, fr_flags = 0, fr_payload = payload\<rparr>"

text \<open>The outcome of a call before it is answered, and an outcome that reports a failure.\<close>

definition dispatch_start :: "RemoteBackend \<Rightarrow> DispatchOutcome" where
  "dispatch_start b = empty_dispatch\<lparr>do_epoch := rb_admitted_epoch b, do_boot := rb_worker_boot b\<rparr>"

definition dispatch_failed :: "ReasonCode \<Rightarrow> string \<Rightarrow> RemoteBackend \<Rightarrow> DispatchOutcome" where
  "dispatch_failed reason detail b =
     (dispatch_start b)\<lparr>do_status := DispatchStatus_Failed, do_reason := reason, do_detail := detail\<rparr>"

definition apply_message :: "RemoteBackend \<Rightarrow> ApplyRequest \<Rightarrow> ApplyRequestMessage" where
  "apply_message b r =
     \<lparr>aq_attempt = ar_attempt r, aq_envelope = ar_envelope r,
      aq_envelope_generation = ar_envelope_generation r, aq_rate_ups = ar_rate_ups r,
      aq_burst_tokens = ar_burst_tokens r, aq_refill = ar_refill r, aq_epoch = ar_epoch r,
      aq_boot = rb_coordinator_boot b, aq_deadline_ns = 0\<rparr>"

definition judge_apply_response ::
  "RemoteBackend \<Rightarrow> ApplyRequest \<Rightarrow> ApplyResponseMessage \<Rightarrow> DispatchOutcome" where
  "judge_apply_response b r decoded =
     (if ap_boot decoded \<noteq> rb_worker_boot b then
        dispatch_failed R_AttemptFencedByBoot ''apply response carried a foreign boot id'' b
      else if ap_epoch decoded \<noteq> rb_admitted_epoch b then
        dispatch_failed R_AttemptFencedByEpoch ''apply response carried a different fabric epoch'' b
      else
        \<lparr>do_status = (if ap_accepted decoded then DispatchStatus_Completed else DispatchStatus_Rejected),
         do_reason = ap_reason decoded, do_applied_rate_ups = ap_applied_rate_ups decoded,
         do_applied_burst_tokens = ap_applied_burst_tokens decoded, do_epoch = ap_epoch decoded,
         do_boot = ap_boot decoded, do_detail = ap_detail decoded\<rparr>)"

definition remote_apply ::
  "'w SocketOs \<Rightarrow> ApplyRequest \<Rightarrow> RemoteBackend \<times> 'w \<Rightarrow> DispatchOutcome \<times> RemoteBackend \<times> 'w" where
  "remote_apply os r = (\<lambda>(b, w).
     if \<not> rb_live b then
       (dispatch_failed R_BackendSessionLost ''backend session is not live; the effect is UNKNOWN'' b, b, w)
     else
       let payload = encode_apply_request (apply_message b r)
       in if payload = [] then
            (dispatch_failed R_MalformedInput ''apply request could not be encoded'' b, b, w)
          else (case transact os (request_frame MessageType_ApplyRequest payload)
                       MessageType_ApplyResponse b w of
              (Inl err, b1, w1) \<Rightarrow> (dispatch_failed R_BackendSessionLost err b, b1, w1)
            | (Inr response, b1, w1) \<Rightarrow>
                (case decode_apply_response (fr_payload response) of
                   None \<Rightarrow>
                     (dispatch_failed R_BackendRejectedMalformedRequest
                        ''apply response could not be decoded'' b,
                      note_failure os ''apply response could not be decoded''
                        R_BackendRejectedMalformedRequest b1 w1)
                 | Some decoded \<Rightarrow>
                     if ap_attempt decoded \<noteq> ar_attempt r then
                       (dispatch_failed R_BackendRejectedMalformedRequest
                          ''apply response referenced a different attempt'' b,
                        note_failure os ''apply response referenced a different attempt''
                          R_BackendRejectedMalformedRequest b1 w1)
                     else (judge_apply_response b r decoded, b1, w1))))"

definition revoke_message :: "RemoteBackend \<Rightarrow> RevokeRequest \<Rightarrow> RevokeRequestMessage" where
  "revoke_message b r =
     \<lparr>rq_attempt = rr_attempt r, rq_envelope = rr_envelope r,
      rq_envelope_generation = rr_envelope_generation r, rq_epoch = rr_epoch r,
      rq_boot = rb_coordinator_boot b, rq_reason = rr_reason r\<rparr>"

definition judge_revoke_response ::
  "RemoteBackend \<Rightarrow> RevokeRequest \<Rightarrow> RevokeResponseMessage \<Rightarrow> DispatchOutcome" where
  "judge_revoke_response b r decoded =
     (if rp_attempt decoded \<noteq> rr_attempt r \<or> rp_boot decoded \<noteq> rb_worker_boot b
         \<or> rp_epoch decoded \<noteq> rb_admitted_epoch b then
        dispatch_failed R_AttemptFencedByBoot ''revoke response did not match the dispatched attempt'' b
      else
        (dispatch_start b)\<lparr>
          do_status := (if rp_removed decoded then DispatchStatus_Completed else DispatchStatus_Rejected),
          do_reason := rp_reason decoded, do_epoch := rp_epoch decoded, do_boot := rp_boot decoded,
          do_detail := rp_detail decoded\<rparr>)"

definition remote_revoke ::
  "'w SocketOs \<Rightarrow> RevokeRequest \<Rightarrow> RemoteBackend \<times> 'w \<Rightarrow> DispatchOutcome \<times> RemoteBackend \<times> 'w" where
  "remote_revoke os r = (\<lambda>(b, w).
     if \<not> rb_live b then
       (dispatch_failed R_BackendSessionLost ''backend session is not live; the effect is UNKNOWN'' b, b, w)
     else
       let payload = encode_revoke_request (revoke_message b r)
       in if payload = [] then
            (dispatch_failed R_MalformedInput ''revoke request could not be encoded'' b, b, w)
          else (case transact os (request_frame MessageType_RevokeRequest payload)
                       MessageType_RevokeResponse b w of
              (Inl err, b1, w1) \<Rightarrow> (dispatch_failed R_BackendSessionLost err b, b1, w1)
            | (Inr response, b1, w1) \<Rightarrow>
                (case decode_revoke_response (fr_payload response) of
                   None \<Rightarrow>
                     (dispatch_failed R_BackendRejectedMalformedRequest
                        ''revoke response could not be decoded'' b,
                      note_failure os ''revoke response could not be decoded''
                        R_BackendRejectedMalformedRequest b1 w1)
                 | Some decoded \<Rightarrow> (judge_revoke_response b r decoded, b1, w1))))"

definition verification_start :: "RemoteBackend \<Rightarrow> VerificationOutcome" where
  "verification_start b =
     empty_verification\<lparr>vo_epoch := rb_admitted_epoch b, vo_boot := rb_worker_boot b\<rparr>"

definition verification_failed :: "ReasonCode \<Rightarrow> string \<Rightarrow> RemoteBackend \<Rightarrow> VerificationOutcome" where
  "verification_failed reason detail b =
     (verification_start b)\<lparr>vo_status := VerificationStatus_Failed, vo_reason := reason,
       vo_detail := detail\<rparr>"

definition verify_message :: "RemoteBackend \<Rightarrow> ApplyRequest \<Rightarrow> VerifyRequestMessage" where
  "verify_message b r =
     \<lparr>vq_attempt = ar_attempt r, vq_envelope = ar_envelope r,
      vq_envelope_generation = ar_envelope_generation r, vq_epoch = ar_epoch r,
      vq_boot = rb_coordinator_boot b\<rparr>"

definition judge_verify_response ::
  "RemoteBackend \<Rightarrow> ApplyRequest \<Rightarrow> VerifyResponseMessage \<Rightarrow> VerificationOutcome" where
  "judge_verify_response b r decoded =
     (if vp_attempt decoded \<noteq> ar_attempt r then
        verification_failed R_ApplyVerificationUnknown ''verify response referenced a different attempt'' b
      else if vp_boot decoded \<noteq> rb_worker_boot b \<or> vp_epoch decoded \<noteq> rb_admitted_epoch b then
        verification_failed R_AttemptFencedByBoot ''verify response came from a fenced incarnation'' b
      else
        (verification_start b)\<lparr>vo_status := VerificationStatus_Confirmed, vo_reason := vp_reason decoded,
          vo_observed_present := vp_present decoded,
          vo_observed_rate_ups := vp_observed_rate_ups decoded,
          vo_observed_burst_tokens := vp_observed_burst_tokens decoded,
          vo_detail := vp_detail decoded\<rparr>)"

definition remote_verify ::
  "'w SocketOs \<Rightarrow> ApplyRequest \<Rightarrow> RemoteBackend \<times> 'w \<Rightarrow> VerificationOutcome \<times> RemoteBackend \<times> 'w" where
  "remote_verify os r = (\<lambda>(b, w).
     if \<not> rb_live b then
       (verification_failed R_ApplyVerificationUnknown
          ''backend session is not live; the effect is UNKNOWN'' b, b, w)
     else
       let payload = encode_verify_request (verify_message b r)
       in if payload = [] then
            (verification_failed R_MalformedInput ''verify request could not be encoded'' b, b, w)
          else (case transact os (request_frame MessageType_VerifyRequest payload)
                       MessageType_VerifyResponse b w of
              (Inl err, b1, w1) \<Rightarrow> (verification_failed R_ApplyVerificationUnknown err b, b1, w1)
            | (Inr response, b1, w1) \<Rightarrow>
                (case decode_verify_response (fr_payload response) of
                   None \<Rightarrow>
                     (verification_failed R_ApplyVerificationUnknown
                        ''verify response could not be decoded'' b,
                      note_failure os ''verify response could not be decoded''
                        R_BackendRejectedMalformedRequest b1 w1)
                 | Some decoded \<Rightarrow> (judge_verify_response b r decoded, b1, w1))))"

definition fetch_accounting ::
  "'w SocketOs \<Rightarrow> RemoteBackend \<Rightarrow> 'w \<Rightarrow> AccountingResponseMessage option \<times> RemoteBackend \<times> 'w" where
  "fetch_accounting os b w =
     (case transact os (request_frame MessageType_AccountingRequest []) MessageType_AccountingResponse b w of
        (Inl err, b1, w1) \<Rightarrow> (None, b1, w1)
      | (Inr response, b1, w1) \<Rightarrow> (decode_accounting_response (fr_payload response), b1, w1))"

definition remote_shutdown :: "'w SocketOs \<Rightarrow> RemoteBackend \<times> 'w \<Rightarrow> RemoteBackend \<times> 'w" where
  "remote_shutdown os = (\<lambda>(b, w).
     let (b1, w1) =
           (if rb_live b
            then snd (transact os (request_frame MessageType_ShutdownRequest [])
                        MessageType_ShutdownResponse b w)
            else (b, w))
     in (case socket_close os (rb_socket b1) w1 of
           (k, w2) \<Rightarrow> (b1\<lparr>rb_live := False, rb_socket := k\<rparr>, w2)))"

definition session_description :: "RemoteBackend \<Rightarrow> string" where
  "session_description b =
     ''remote worker '' @ endpoint_to_string (rb_endpoint b)
     @ '' boot='' @ id_to_string ''boot'' (rb_worker_boot b)
     @ '' epoch='' @ id_to_string ''epoch'' (rb_admitted_epoch b)
     @ '' kind='' @ BackendKind_text (backend_kind (rb_descriptor b))
     @ (if hm_build (rb_hello b) \<noteq> [] then '' build='' @ hm_build (rb_hello b) else [])"

definition remote_ops :: "'w SocketOs \<Rightarrow> (RemoteBackend \<times> 'w) BackendOps" where
  "remote_ops os =
     \<lparr>ops_describe = (\<lambda>(b, w). rb_descriptor b), ops_dispatch_apply = remote_apply os,
      ops_dispatch_revoke = remote_revoke os, ops_verify = remote_verify os,
      ops_session_boot = (\<lambda>(b, w). rb_worker_boot b),
      ops_session_epoch = (\<lambda>(b, w). rb_admitted_epoch b),
      ops_session_live = (\<lambda>(b, w). rb_live b), ops_shutdown = remote_shutdown os\<rparr>"

end
