(* ===== verification/Worker_Session.thy ===== *)
theory Worker_Session
  imports Ipc
begin

text \<open>
  The session server of the worker process (\<^verbatim>\<open>include/rate_governor/worker_session.hpp\<close>,
  \<^verbatim>\<open>src/worker_session.cpp\<close>): the reader that receives frames and queues them, the
  threads that take frames from the bounded queue and serve them on the device, and
  the counters.  The device may be shared between sessions, so it is passed beside the
  session.  What a session, its queue and its threads can do together is a step
  relation; the functions of the code are its steps.
\<close>

section \<open>State\<close>

record WorkerSessionConfig =
  wc_backend :: BackendId
  wc_backend_generation :: Generation
  wc_boot :: WorkerBootId
  wc_starting_epoch :: FabricEpoch
  wc_threads :: u32
  wc_queue_capacity :: u64
  wc_label :: string
  wc_build :: string
  wc_device :: SyntheticDeviceConfig
  wc_verbose :: bool

record WorkerSessionAccounting =
  wa_requests_served :: u64
  wa_applies_applied :: u64
  wa_revokes_applied :: u64
  wa_verifications :: u64
  wa_rejections :: u64
  wa_malformed_frames :: u64
  wa_fenced_stale_epoch :: u64
  wa_fenced_stale_boot :: u64
  wa_queue_rejections :: u64
  wa_queue_capacity :: u64
  wa_queue_high_water :: u64
  wa_idle_noop_requests :: u64
  wa_shutdown_requests :: u64
  wa_stopped :: bool

record PendingFrame =
  pf_frame :: Frame
  pf_sequence :: u64

record WorkerSession =
  ws_config :: WorkerSessionConfig
  ws_socket :: Socket
  ws_accounting :: WorkerSessionAccounting
  ws_last_error :: string
  ws_queue :: "PendingFrame list"
  ws_queue_closed :: bool
  ws_stopping :: bool
  ws_stopped :: bool
  ws_shutdown_requested :: bool
  ws_sequence :: u64

text \<open>A session on a given socket; the device is made by the first constructor, or shared.\<close>

definition worker_session :: "WorkerSessionConfig \<Rightarrow> Socket \<Rightarrow> WorkerSession" where
  "worker_session c socket =
     \<lparr>ws_config = c, ws_socket = socket,
      ws_accounting =
        \<lparr>wa_requests_served = 0, wa_applies_applied = 0, wa_revokes_applied = 0,
         wa_verifications = 0, wa_rejections = 0, wa_malformed_frames = 0,
         wa_fenced_stale_epoch = 0, wa_fenced_stale_boot = 0, wa_queue_rejections = 0,
         wa_queue_capacity = wc_queue_capacity c, wa_queue_high_water = 0,
         wa_idle_noop_requests = 0, wa_shutdown_requests = 0, wa_stopped = False\<rparr>,
      ws_last_error = [], ws_queue = [], ws_queue_closed = False, ws_stopping = False,
      ws_stopped = False, ws_shutdown_requested = False, ws_sequence = 0\<rparr>"

definition worker_device :: "WorkerSessionConfig \<Rightarrow> SyntheticDevice" where
  "worker_device c = synthetic_device (wc_device c) (wc_boot c) (wc_starting_epoch c) (StrongId 0)"

text \<open>An increment of one of the counters, under the state lock.\<close>

definition tally :: "(WorkerSessionAccounting \<Rightarrow> WorkerSessionAccounting) \<Rightarrow> WorkerSession \<Rightarrow> WorkerSession" where
  "tally f s = s\<lparr>ws_accounting := f (ws_accounting s)\<rparr>"

definition count_rejection :: "WorkerSession \<Rightarrow> WorkerSession" where
  "count_rejection s = tally (\<lambda>a. a\<lparr>wa_rejections := wa_rejections a + 1\<rparr>) s"

definition count_malformed :: "WorkerSession \<Rightarrow> WorkerSession" where
  "count_malformed s = tally (\<lambda>a. a\<lparr>wa_malformed_frames := wa_malformed_frames a + 1\<rparr>) s"

section \<open>Sending, stopping and queueing\<close>

definition request_stop :: "'w SocketOs \<Rightarrow> string \<Rightarrow> WorkerSession \<Rightarrow> 'w \<Rightarrow> WorkerSession \<times> 'w" where
  "request_stop os reason s w =
     (let already = ws_stopping s;
          s1 = s\<lparr>ws_stopping := True,
                 ws_last_error := (if \<not> already \<and> ws_last_error s = [] then reason
                                   else ws_last_error s)\<rparr>
      in (case socket_close os (ws_socket s1) w of (k, w1) \<Rightarrow> (s1\<lparr>ws_socket := k\<rparr>, w1)))"

definition session_send :: "'w SocketOs \<Rightarrow> Frame \<Rightarrow> WorkerSession \<Rightarrow> 'w \<Rightarrow> bool \<times> WorkerSession \<times> 'w" where
  "session_send os frame s w =
     (case send_frame os frame (ws_socket s) w of
        (Inl err, k, w1) \<Rightarrow>
          (False, request_stop os (''response send failed: '' @ err) (s\<lparr>ws_socket := k\<rparr>) w1)
      | (Inr _, k, w1) \<Rightarrow> (True, s\<lparr>ws_socket := k\<rparr>, w1))"

definition enqueue :: "PendingFrame \<Rightarrow> WorkerSession \<Rightarrow> bool \<times> WorkerSession" where
  "enqueue pending s =
     (if ws_queue_closed s then (False, s)
      else if unat (wc_queue_capacity (ws_config s)) \<le> length (ws_queue s) then (False, s)
      else
        let q = ws_queue s @ [pending];
            depth = of_nat (length q)
        in (True, tally (\<lambda>a. if wa_queue_high_water a < depth then a\<lparr>wa_queue_high_water := depth\<rparr> else a)
                    (s\<lparr>ws_queue := q\<rparr>)))"

definition message_frame :: "MessageType \<Rightarrow> bytes \<Rightarrow> Frame" where
  "message_frame t payload = \<lparr>fr_type = t, fr_flags = 0, fr_payload = payload\<rparr>"

definition error_frame :: "ReasonCode \<Rightarrow> string \<Rightarrow> Frame" where
  "error_frame reason detail =
     message_frame MessageType_ErrorResponse (encode_error \<lparr>em_reason = reason, em_detail = detail\<rparr>)"

definition wire_accounting :: "WorkerSession \<Rightarrow> SyntheticDevice \<Rightarrow> AccountingResponseMessage" where
  "wire_accounting s d =
     (let a = ws_accounting s
      in \<lparr>am_requests_served = wa_requests_served a, am_applies_applied = wa_applies_applied a,
          am_revokes_applied = wa_revokes_applied a, am_verifications = wa_verifications a,
          am_rejections = wa_rejections a, am_malformed_frames = wa_malformed_frames a,
          am_fenced_stale_epoch = wa_fenced_stale_epoch a,
          am_fenced_stale_boot = wa_fenced_stale_boot a,
          am_queue_rejections = wa_queue_rejections a, am_queue_capacity = wa_queue_capacity a,
          am_queue_high_water = wa_queue_high_water a,
          am_active_envelopes = of_nat (entry_count d),
          am_envelope_limit = sd_envelope_limit (wc_device (ws_config s)),
          am_idle_noop_requests = wa_idle_noop_requests a,
          am_boot = wc_boot (ws_config s), am_epoch = dev_highest_epoch d\<rparr>)"

section \<open>The reader\<close>

definition malformed_reason :: "ReasonCode \<Rightarrow> bool" where
  "malformed_reason r \<longleftrightarrow>
     r = R_MalformedInput \<or> r = R_UnsupportedOperation \<or> r = R_CapacityLimitExceeded"

text \<open>One round of the reader after its check of the stop flag: whether it goes on.\<close>

definition reader_round ::
  "'w SocketOs \<Rightarrow> WorkerSession \<Rightarrow> SyntheticDevice \<Rightarrow> 'w \<Rightarrow> bool \<times> WorkerSession \<times> 'w" where
  "reader_round os s d w =
     (case recv_frame os (ws_socket s) w of
        (Inl (err, reason), k, w1) \<Rightarrow>
          let s1 = s\<lparr>ws_socket := k\<rparr>
          in (False,
              if malformed_reason reason
              then (count_malformed s1)\<lparr>ws_last_error := ''malformed frame: '' @ err\<rparr>
              else if ws_last_error s1 = [] then s1\<lparr>ws_last_error := err\<rparr> else s1, w1)
      | (Inr frame, k, w1) \<Rightarrow>
          let s1 = s\<lparr>ws_socket := k\<rparr>
          in if fr_type frame = MessageType_ShutdownRequest then
               (case session_send os (message_frame MessageType_ShutdownResponse
                        (encode_accounting_response (wire_accounting s1 d))) s1 w1 of
                  (_, s2, w2) \<Rightarrow>
                    (False,
                     (tally (\<lambda>a. a\<lparr>wa_shutdown_requests := wa_shutdown_requests a + 1\<rparr>) s2)
                       \<lparr>ws_shutdown_requested := True, ws_stopping := True\<rparr>, w2))
             else
               let n = ws_sequence s1 + 1
               in (case enqueue \<lparr>pf_frame = frame, pf_sequence = n\<rparr> (s1\<lparr>ws_sequence := n\<rparr>) of
                     (True, s2) \<Rightarrow> (True, s2, w1)
                   | (False, s2) \<Rightarrow>
                       (case session_send os (error_frame R_BackendQueueFull ''worker queue is full or closed'')
                               (tally (\<lambda>a. a\<lparr>wa_queue_rejections := wa_queue_rejections a + 1,
                                            wa_rejections := wa_rejections a + 1\<rparr>) s2) w1 of
                          (_, s3, w2) \<Rightarrow> (True, s3, w2))))"

section \<open>Serving a frame\<close>

definition hello_reply :: "WorkerSessionConfig \<Rightarrow> SyntheticDevice \<Rightarrow> HelloMessage" where
  "hello_reply c d =
     \<lparr>hm_backend = wc_backend c, hm_backend_generation = wc_backend_generation c,
      hm_boot = wc_boot c, hm_epoch = dev_highest_epoch d, hm_kind = BackendKind_Synthetic,
      hm_capabilities = kBackendCapApply OR kBackendCapRevoke OR kBackendCapVerify OR kBackendCapBurst,
      hm_verification = VerificationMode_PostApplyReadback,
      hm_max_rate_ups = sd_max_rate_ups (wc_device c),
      hm_max_burst_tokens = sd_max_burst_tokens (wc_device c), hm_process_id = 0,
      hm_started_at_ns = 0, hm_envelope_limit = sd_envelope_limit (wc_device c),
      hm_queue_capacity = wc_queue_capacity c, hm_worker_threads = wc_threads c,
      hm_label = wc_label c, hm_build = wc_build c\<rparr>"

text \<open>The answer to a payload that could not be decoded.\<close>

definition reject_malformed ::
  "'w SocketOs \<Rightarrow> string \<Rightarrow> WorkerSession \<Rightarrow> SyntheticDevice \<Rightarrow> 'w \<Rightarrow> WorkerSession \<times> SyntheticDevice \<times> 'w" where
  "reject_malformed os detail s d w =
     (case session_send os (error_frame R_BackendRejectedMalformedRequest detail) s w of
        (_, s1, w1) \<Rightarrow> (count_malformed s1, d, w1))"

definition handle_hello ::
  "'w SocketOs \<Rightarrow> bytes \<Rightarrow> WorkerSession \<Rightarrow> SyntheticDevice \<Rightarrow> 'w \<Rightarrow> WorkerSession \<times> SyntheticDevice \<times> 'w" where
  "handle_hello os payload s d w =
     (case decode_hello payload of
        None \<Rightarrow>
          (case reject_malformed os ''hello could not be decoded'' s d w of
             (s1, d1, w1) \<Rightarrow> (s1\<lparr>ws_stopping := True\<rparr>, d1, w1))
      | Some hello \<Rightarrow>
          (case admit_incarnation (hm_epoch hello) (hm_boot hello) d of
             ((False, reason), d1) \<Rightarrow>
               let stale_epoch = reason = R_BackendFencedStaleEpoch;
                   detail = (if stale_epoch
                             then ''coordinator epoch is stale relative to the admitted epoch''
                             else ''coordinator incarnation conflicts with the admitted boot id'');
                   s1 = tally (\<lambda>a. if stale_epoch
                                   then a\<lparr>wa_fenced_stale_epoch := wa_fenced_stale_epoch a + 1,
                                          wa_rejections := wa_rejections a + 1\<rparr>
                                   else a\<lparr>wa_fenced_stale_boot := wa_fenced_stale_boot a + 1,
                                          wa_rejections := wa_rejections a + 1\<rparr>) s
               in (case session_send os (error_frame reason detail) s1 w of
                     (_, s2, w1) \<Rightarrow> (s2\<lparr>ws_stopping := True\<rparr>, d1, w1))
           | ((True, _), d1) \<Rightarrow>
               (case session_send os (message_frame MessageType_HelloAck
                        (encode_hello (hello_reply (ws_config s) d1))) s w of
                  (_, s1, w1) \<Rightarrow> (s1, d1, w1))))"

definition detail_or_ok :: "string \<Rightarrow> string" where
  "detail_or_ok detail = (if detail = [] then ''ok'' else detail)"

definition apply_of_message :: "ApplyRequestMessage \<Rightarrow> ApplyRequest" where
  "apply_of_message m =
     \<lparr>ar_attempt = aq_attempt m, ar_envelope = aq_envelope m,
      ar_envelope_generation = aq_envelope_generation m, ar_fingerprint = empty_fingerprint,
      ar_rate_ups = aq_rate_ups m, ar_burst_tokens = aq_burst_tokens m, ar_refill = aq_refill m,
      ar_epoch = aq_epoch m, ar_boot = aq_boot m, ar_issued_ns = 0\<rparr>"

definition apply_response :: "ApplyRequestMessage \<Rightarrow> DispatchOutcome \<Rightarrow> ApplyResponseMessage" where
  "apply_response m out =
     \<lparr>ap_attempt = aq_attempt m, ap_accepted = (do_status out = DispatchStatus_Completed),
      ap_reason = do_reason out, ap_applied_rate_ups = do_applied_rate_ups out,
      ap_applied_burst_tokens = do_applied_burst_tokens out, ap_epoch = do_epoch out,
      ap_boot = do_boot out, ap_detail = detail_or_ok (do_detail out)\<rparr>"

definition handle_apply ::
  "'w SocketOs \<Rightarrow> bytes \<Rightarrow> WorkerSession \<Rightarrow> SyntheticDevice \<Rightarrow> 'w \<Rightarrow> WorkerSession \<times> SyntheticDevice \<times> 'w" where
  "handle_apply os payload s d w =
     (case decode_apply_request payload of
        None \<Rightarrow> reject_malformed os ''apply request could not be decoded'' s d w
      | Some request \<Rightarrow>
          (case device_apply (apply_of_message request) d of
             (outcome, d1) \<Rightarrow>
               let response = apply_response request outcome
               in (case session_send os (message_frame MessageType_ApplyResponse
                        (encode_apply_response response)) s w of
                     (_, s1, w1) \<Rightarrow>
                       (if ap_accepted response
                        then tally (\<lambda>a. a\<lparr>wa_applies_applied := wa_applies_applied a + 1\<rparr>) s1
                        else count_rejection s1, d1, w1))))"

definition revoke_of_message :: "RevokeRequestMessage \<Rightarrow> RevokeRequest" where
  "revoke_of_message m =
     \<lparr>rr_attempt = rq_attempt m, rr_envelope = rq_envelope m,
      rr_envelope_generation = rq_envelope_generation m, rr_fingerprint = empty_fingerprint,
      rr_epoch = rq_epoch m, rr_boot = rq_boot m, rr_reason = rq_reason m, rr_issued_ns = 0\<rparr>"

definition revoke_response :: "RevokeRequestMessage \<Rightarrow> DispatchOutcome \<Rightarrow> RevokeResponseMessage" where
  "revoke_response m out =
     \<lparr>rp_attempt = rq_attempt m, rp_removed = (do_status out = DispatchStatus_Completed),
      rp_reason = do_reason out, rp_epoch = do_epoch out, rp_boot = do_boot out,
      rp_detail = detail_or_ok (do_detail out)\<rparr>"

definition handle_revoke ::
  "'w SocketOs \<Rightarrow> bytes \<Rightarrow> WorkerSession \<Rightarrow> SyntheticDevice \<Rightarrow> 'w \<Rightarrow> WorkerSession \<times> SyntheticDevice \<times> 'w" where
  "handle_revoke os payload s d w =
     (case decode_revoke_request payload of
        None \<Rightarrow> reject_malformed os ''revoke request could not be decoded'' s d w
      | Some request \<Rightarrow>
          (case device_revoke (revoke_of_message request) d of
             (outcome, d1) \<Rightarrow>
               let response = revoke_response request outcome
               in (case session_send os (message_frame MessageType_RevokeResponse
                        (encode_revoke_response response)) s w of
                     (_, s1, w1) \<Rightarrow>
                       (if rp_removed response
                        then tally (\<lambda>a. a\<lparr>wa_revokes_applied := wa_revokes_applied a + 1\<rparr>) s1
                        else count_rejection s1, d1, w1))))"

definition verify_of_message :: "VerifyRequestMessage \<Rightarrow> ApplyRequest" where
  "verify_of_message m =
     \<lparr>ar_attempt = vq_attempt m, ar_envelope = vq_envelope m,
      ar_envelope_generation = vq_envelope_generation m, ar_fingerprint = empty_fingerprint,
      ar_rate_ups = 0, ar_burst_tokens = 0, ar_refill = RefillSemantics_Unknown,
      ar_epoch = vq_epoch m, ar_boot = vq_boot m, ar_issued_ns = 0\<rparr>"

text \<open>The status of the readback is not part of the answer.\<close>

definition verify_response :: "VerifyRequestMessage \<Rightarrow> VerificationOutcome \<Rightarrow> VerifyResponseMessage" where
  "verify_response m out =
     \<lparr>vp_attempt = vq_attempt m, vp_present = vo_observed_present out,
      vp_observed_rate_ups = vo_observed_rate_ups out,
      vp_observed_burst_tokens = vo_observed_burst_tokens out, vp_epoch = vo_epoch out,
      vp_boot = vo_boot out, vp_reason = vo_reason out, vp_detail = detail_or_ok (vo_detail out)\<rparr>"

definition handle_verify ::
  "'w SocketOs \<Rightarrow> bytes \<Rightarrow> WorkerSession \<Rightarrow> SyntheticDevice \<Rightarrow> 'w \<Rightarrow> WorkerSession \<times> SyntheticDevice \<times> 'w" where
  "handle_verify os payload s d w =
     (case decode_verify_request payload of
        None \<Rightarrow> reject_malformed os ''verify request could not be decoded'' s d w
      | Some request \<Rightarrow>
          (case device_read_back (verify_of_message request) d of
             (outcome, d1) \<Rightarrow>
               (case session_send os (message_frame MessageType_VerifyResponse
                        (encode_verify_response (verify_response request outcome))) s w of
                  (_, s1, w1) \<Rightarrow>
                    (tally (\<lambda>a. a\<lparr>wa_verifications := wa_verifications a + 1\<rparr>) s1, d1, w1))))"

definition heartbeat :: "WorkerSession \<Rightarrow> SyntheticDevice \<Rightarrow> AccountingResponseMessage" where
  "heartbeat s d =
     \<lparr>am_requests_served = 0, am_applies_applied = 0, am_revokes_applied = 0, am_verifications = 0,
      am_rejections = 0, am_malformed_frames = 0, am_fenced_stale_epoch = 0,
      am_fenced_stale_boot = 0, am_queue_rejections = 0, am_queue_capacity = 0,
      am_queue_high_water = 0, am_active_envelopes = 0, am_envelope_limit = 0,
      am_idle_noop_requests = 0, am_boot = wc_boot (ws_config s), am_epoch = dev_highest_epoch d\<rparr>"

definition handle_frame ::
  "'w SocketOs \<Rightarrow> Frame \<Rightarrow> WorkerSession \<Rightarrow> SyntheticDevice \<Rightarrow> 'w \<Rightarrow> WorkerSession \<times> SyntheticDevice \<times> 'w" where
  "handle_frame os frame s d w =
     (case fr_type frame of
        MessageType_Hello \<Rightarrow> handle_hello os (fr_payload frame) s d w
      | MessageType_ApplyRequest \<Rightarrow> handle_apply os (fr_payload frame) s d w
      | MessageType_RevokeRequest \<Rightarrow> handle_revoke os (fr_payload frame) s d w
      | MessageType_VerifyRequest \<Rightarrow> handle_verify os (fr_payload frame) s d w
      | MessageType_HeartbeatRequest \<Rightarrow>
          (case session_send os (message_frame MessageType_HeartbeatResponse
                   (encode_accounting_response (heartbeat s d))) s w of
             (_, s1, w1) \<Rightarrow>
               (tally (\<lambda>a. a\<lparr>wa_idle_noop_requests := wa_idle_noop_requests a + 1\<rparr>) s1, d, w1))
      | MessageType_AccountingRequest \<Rightarrow>
          (case session_send os (message_frame MessageType_AccountingResponse
                   (encode_accounting_response (wire_accounting s d))) s w of
             (_, s1, w1) \<Rightarrow> (s1, d, w1))
      | _ \<Rightarrow>
          (case session_send os (error_frame R_UnsupportedOperation
                   ''worker does not serve this message type'') s w of
             (_, s1, w1) \<Rightarrow> (count_rejection s1, d, w1)))"

section \<open>The worker threads\<close>

text \<open>What a thread does with the frame it took from the queue.\<close>

definition worker_round ::
  "'w SocketOs \<Rightarrow> PendingFrame \<Rightarrow> WorkerSession \<Rightarrow> SyntheticDevice \<Rightarrow> 'w \<Rightarrow> WorkerSession \<times> SyntheticDevice \<times> 'w" where
  "worker_round os pending s d w =
     (if ws_stopping s \<and> fr_type (pf_frame pending) \<noteq> MessageType_Hello then (count_rejection s, d, w)
      else (case handle_frame os (pf_frame pending) s d w of
          (s1, d1, w1) \<Rightarrow>
            (tally (\<lambda>a. a\<lparr>wa_requests_served := wa_requests_served a + 1\<rparr>) s1, d1, w1)))"

section \<open>The threads together\<close>

text \<open>
  The reader checks the stop flag, receives and queues, and when it leaves its loop
  \<^verbatim>\<open>run\<close> closes the queue; each thread holds at most one frame; another thread may
  request a stop at any time; when the queue is drained and every thread has come
  back, the session is stopped.
\<close>

datatype ReaderPhase = ReaderChecks | ReaderReceives | ReaderLeaves | ReaderDone

record 'w ServingSession =
  sv_session :: WorkerSession
  sv_reader :: ReaderPhase
  sv_hands :: "PendingFrame option list"
  sv_device :: SyntheticDevice
  sv_world :: 'w

definition serving_session :: "WorkerSessionConfig \<Rightarrow> Socket \<Rightarrow> SyntheticDevice \<Rightarrow> 'w \<Rightarrow> 'w ServingSession" where
  "serving_session c socket d w =
     \<lparr>sv_session = worker_session c socket, sv_reader = ReaderChecks,
      sv_hands = replicate (unat (wc_threads c)) None, sv_device = d, sv_world = w\<rparr>"

inductive session_step :: "'w SocketOs \<Rightarrow> 'w ServingSession \<Rightarrow> 'w ServingSession \<Rightarrow> bool" for os where
  checks: "sv_reader v = ReaderChecks \<Longrightarrow>
     session_step os v (v\<lparr>sv_reader := if ws_stopping (sv_session v) then ReaderLeaves else ReaderReceives\<rparr>)"
| receives: "sv_reader v = ReaderReceives \<Longrightarrow>
     reader_round os (sv_session v) (sv_device v) (sv_world v) = (again, s', w') \<Longrightarrow>
     session_step os v (v\<lparr>sv_session := s', sv_world := w',
       sv_reader := if again then ReaderChecks else ReaderLeaves\<rparr>)"
| closes_queue: "sv_reader v = ReaderLeaves \<Longrightarrow>
     session_step os v (v\<lparr>sv_reader := ReaderDone,
       sv_session := (sv_session v)\<lparr>ws_stopping := True, ws_queue_closed := True\<rparr>\<rparr>)"
| takes: "i < length (sv_hands v) \<Longrightarrow> sv_hands v ! i = None \<Longrightarrow> ws_queue (sv_session v) = p # rest \<Longrightarrow>
     session_step os v (v\<lparr>sv_hands := (sv_hands v)[i := Some p],
       sv_session := (sv_session v)\<lparr>ws_queue := rest\<rparr>\<rparr>)"
| serves: "i < length (sv_hands v) \<Longrightarrow> sv_hands v ! i = Some p \<Longrightarrow>
     worker_round os p (sv_session v) (sv_device v) (sv_world v) = (s', d', w') \<Longrightarrow>
     session_step os v (v\<lparr>sv_hands := (sv_hands v)[i := None], sv_session := s', sv_device := d',
       sv_world := w'\<rparr>)"
| stop_requested: "request_stop os reason (sv_session v) (sv_world v) = (s', w') \<Longrightarrow>
     session_step os v (v\<lparr>sv_session := s', sv_world := w'\<rparr>)"
| joined: "sv_reader v = ReaderDone \<Longrightarrow> ws_queue (sv_session v) = [] \<Longrightarrow> set (sv_hands v) \<subseteq> {None} \<Longrightarrow>
     socket_close os (ws_socket (sv_session v)) (sv_world v) = (k, w') \<Longrightarrow>
     session_step os v (v\<lparr>sv_session := (sv_session v)\<lparr>ws_socket := k, ws_stopped := True\<rparr>,
       sv_world := w'\<rparr>)"

section \<open>What serving leaves alone\<close>

text \<open>Everything but the reader leaves the queue alone, and nothing takes the stop flag back.\<close>

definition queue_frame :: "WorkerSession \<Rightarrow> WorkerSession \<Rightarrow> bool" where
  "queue_frame s s' \<longleftrightarrow>
     ws_config s' = ws_config s \<and> ws_queue s' = ws_queue s \<and> ws_queue_closed s' = ws_queue_closed s
     \<and> ws_stopped s' = ws_stopped s \<and> (ws_stopping s \<longrightarrow> ws_stopping s')
     \<and> wa_queue_high_water (ws_accounting s') = wa_queue_high_water (ws_accounting s)"

named_theorems queue_frames \<open>operations that leave the queue alone\<close>

lemma queue_frame_refl [queue_frames]: "queue_frame s s"
  by (simp add: queue_frame_def)

lemma queue_frame_trans: "queue_frame s t \<Longrightarrow> queue_frame t u \<Longrightarrow> queue_frame s u"
  by (simp add: queue_frame_def)

lemma request_stop_frame: "request_stop os reason s w = (s', w') \<Longrightarrow> queue_frame s s'"
  by (auto simp: request_stop_def queue_frame_def Let_def split: prod.splits)

lemma session_send_frame: "session_send os f s w = (b, s', w') \<Longrightarrow> queue_frame s s'"
  using request_stop_frame
  by (fastforce simp: session_send_def queue_frame_def split: prod.splits sum.splits)

lemma handle_frame_frame:
  "handle_frame os f s d w = (s', d', w') \<Longrightarrow> queue_frame s s'"
  unfolding handle_frame_def handle_hello_def handle_apply_def handle_revoke_def handle_verify_def
    reject_malformed_def count_rejection_def count_malformed_def
  by (auto simp: queue_frame_def tally_def Let_def dest!: session_send_frame
      split: MessageType.splits prod.splits option.splits if_splits bool.splits)

lemma worker_round_frame:
  "worker_round os p s d w = (s', d', w') \<Longrightarrow> queue_frame s s'"
  unfolding worker_round_def count_rejection_def
  by (auto simp: queue_frame_def tally_def dest!: handle_frame_frame split: prod.splits if_splits)

lemma worker_round_stopping:
  "worker_round os p s d w = (s', d', w') \<Longrightarrow> ws_stopping s \<Longrightarrow>
   fr_type (pf_frame p) \<noteq> MessageType_Hello \<Longrightarrow> s' = count_rejection s \<and> d' = d \<and> w' = w"
  by (simp add: worker_round_def)

text \<open>A round of the reader leaves the queue alone, or adds one frame to a queue with room.\<close>

definition queue_grows :: "WorkerSession \<Rightarrow> WorkerSession \<Rightarrow> bool" where
  "queue_grows s s' \<longleftrightarrow>
     \<not> ws_queue_closed s \<and> length (ws_queue s) < unat (wc_queue_capacity (ws_config s))
     \<and> ws_config s' = ws_config s \<and> (\<exists>p. ws_queue s' = ws_queue s @ [p])
     \<and> ws_queue_closed s' = ws_queue_closed s \<and> ws_stopped s' = ws_stopped s
     \<and> ws_stopping s' = ws_stopping s
     \<and> wa_queue_high_water (ws_accounting s')
       = max (wa_queue_high_water (ws_accounting s)) (of_nat (length (ws_queue s) + 1))"

lemma enqueue_cases:
  "enqueue p s = (b, s') \<Longrightarrow> if b then queue_grows s s' else s' = s"
  by (auto simp: enqueue_def queue_grows_def tally_def Let_def max_def not_less split: if_splits)

lemma queue_frame_trans_fields:
  "queue_frame t s' \<Longrightarrow> ws_config t = ws_config s \<Longrightarrow> ws_queue t = ws_queue s \<Longrightarrow>
   ws_queue_closed t = ws_queue_closed s \<Longrightarrow> ws_stopped t = ws_stopped s \<Longrightarrow>
   ws_stopping t = ws_stopping s \<Longrightarrow>
   wa_queue_high_water (ws_accounting t) = wa_queue_high_water (ws_accounting s) \<Longrightarrow> queue_frame s s'"
  by (simp add: queue_frame_def)

lemma reader_round_queue:
  assumes "reader_round os s d w = (again, s', w')"
  shows "queue_frame s s' \<or> queue_grows s s'"
proof (cases "recv_frame os (ws_socket s) w")
  case (fields r k w1)
  let ?s = "s\<lparr>ws_socket := k\<rparr>"
  show ?thesis
  proof (cases r)
    case (Inl e)
    then show ?thesis
      using assms fields
      by (cases e) (auto simp: reader_round_def queue_frame_def count_malformed_def tally_def Let_def
          split: if_splits)
  next
    case (Inr frame)
    show ?thesis
    proof (cases "fr_type frame = MessageType_ShutdownRequest")
      case True
      then show ?thesis
        using assms fields Inr
        by (auto simp: reader_round_def queue_frame_def tally_def Let_def dest!: session_send_frame
            split: prod.splits)
    next
      case False
      let ?n = "ws_sequence s + 1"
      obtain b s2 where q: "enqueue \<lparr>pf_frame = frame, pf_sequence = ?n\<rparr> (?s\<lparr>ws_sequence := ?n\<rparr>) = (b, s2)"
        by (metis prod.collapse)
      show ?thesis
        using assms fields Inr False q enqueue_cases [OF q]
        by (cases b)
           (auto simp: reader_round_def queue_frame_def queue_grows_def tally_def Let_def
             dest!: session_send_frame split: prod.splits)
    qed
  qed
qed

section \<open>Reachable sessions\<close>

definition serving_ok :: "'w ServingSession \<Rightarrow> bool" where
  "serving_ok v \<longleftrightarrow>
     (let s = sv_session v; high = unat (wa_queue_high_water (ws_accounting s))
      in length (ws_queue s) \<le> high \<and> high \<le> unat (wc_queue_capacity (ws_config s))
         \<and> (ws_queue_closed s \<longleftrightarrow> sv_reader v = ReaderDone)
         \<and> (sv_reader v = ReaderDone \<longrightarrow> ws_stopping s)
         \<and> (ws_stopped s \<longrightarrow> sv_reader v = ReaderDone \<and> ws_queue s = [] \<and> set (sv_hands v) \<subseteq> {None}))"

lemma queue_frame_ok:
  assumes "serving_ok v" "queue_frame (sv_session v) s'"
  shows "serving_ok (v\<lparr>sv_session := s'\<rparr>)"
  using assms by (auto simp: serving_ok_def queue_frame_def Let_def)

lemma queue_grows_ok:
  assumes "serving_ok v" "queue_grows (sv_session v) s'" "sv_reader v = ReaderReceives"
  shows "length (ws_queue s') \<le> unat (wa_queue_high_water (ws_accounting s'))
    \<and> unat (wa_queue_high_water (ws_accounting s')) \<le> unat (wc_queue_capacity (ws_config s'))"
proof -
  let ?n = "length (ws_queue (sv_session v)) + 1"
  have n: "?n \<le> unat (wc_queue_capacity (ws_config (sv_session v)))"
    using assms(2) by (simp add: queue_grows_def)
  have "unat (wc_queue_capacity (ws_config (sv_session v))) < 2 ^ 64"
    using unsigned_less [of "wc_queue_capacity (ws_config (sv_session v))", where 'a = nat] by simp
  from le_less_trans [OF n this] have u: "unat (of_nat ?n :: u64) = ?n"
    by (intro unat_of_nat_u64) simp
  show ?thesis
    using assms n u unfolding serving_ok_def queue_grows_def Let_def
    by (auto simp: max_def word_le_nat_alt)
qed

lemma session_step_ok:
  assumes "session_step os v v'" "serving_ok v"
  shows "serving_ok v'"
  using assms
proof (cases rule: session_step.cases)
  case (receives again s' w')
  have c: "queue_frame (sv_session v) s' \<or> queue_grows (sv_session v) s'"
    by (rule reader_round_queue [OF receives(3)])
  show ?thesis
  proof (cases "queue_frame (sv_session v) s'")
    case True
    then show ?thesis
      using receives assms(2) by (auto simp: serving_ok_def queue_frame_def Let_def)
  next
    case False
    then have g: "queue_grows (sv_session v) s'" using c by blast
    show ?thesis
      using queue_grows_ok [OF assms(2) g] g receives assms(2)
      by (auto simp: serving_ok_def queue_grows_def Let_def)
  qed
next
  case (serves i p s' d' w')
  then show ?thesis
    using assms(2) worker_round_frame [OF serves(4)]
    by (auto simp: serving_ok_def queue_frame_def Let_def dest: set_update_subset_insert [THEN subsetD])
next
  case (stop_requested reason s' w')
  then show ?thesis
    using queue_frame_ok [OF assms(2) request_stop_frame [OF stop_requested(2)]]
    by (simp add: serving_ok_def Let_def)
qed (auto simp: serving_ok_def Let_def dest: set_update_subset_insert [THEN subsetD])

lemma serving_reachable_ok:
  assumes "(session_step os)\<^sup>*\<^sup>* (serving_session c socket d w) v"
  shows "serving_ok v"
  using assms
proof (induction rule: rtranclp_induct)
  case base
  then show ?case by (simp add: serving_ok_def serving_session_def worker_session_def)
qed (rule session_step_ok)

lemma session_step_stopping:
  assumes "session_step os v v'" "ws_stopping (sv_session v)"
  shows "ws_stopping (sv_session v')
    \<and> (sv_device v' = sv_device v
       \<or> (\<exists>i < length (sv_hands v). \<exists>p. sv_hands v ! i = Some p \<and> fr_type (pf_frame p) = MessageType_Hello))"
  using assms
proof (cases rule: session_step.cases)
  case (receives again s' w')
  then show ?thesis
    using reader_round_queue [OF receives(3)] assms(2) by (auto simp: queue_frame_def queue_grows_def)
next
  case (serves i p s' d' w')
  then show ?thesis
    using assms(2) worker_round_frame [OF serves(4)] worker_round_stopping [OF serves(4)]
    by (auto simp: queue_frame_def)
next
  case (stop_requested reason s' w')
  then show ?thesis
    using request_stop_frame [OF stop_requested(2)] assms(2) by (simp add: queue_frame_def)
qed auto

lemma session_step_config:
  assumes "session_step os v v'"
  shows "ws_config (sv_session v') = ws_config (sv_session v)"
  using assms
proof (cases rule: session_step.cases)
  case (receives again s' w')
  then show ?thesis
    using reader_round_queue [OF receives(3)] by (auto simp: queue_frame_def queue_grows_def)
next
  case (serves i p s' d' w')
  then show ?thesis using worker_round_frame [OF serves(4)] by (simp add: queue_frame_def)
next
  case (stop_requested reason s' w')
  then show ?thesis using request_stop_frame [OF stop_requested(2)] by (simp add: queue_frame_def)
qed simp_all

lemma serving_reachable_config:
  "(session_step os)\<^sup>*\<^sup>* (serving_session c socket d w) v \<Longrightarrow> ws_config (sv_session v) = c"
  by (induction rule: rtranclp_induct)
     (simp_all add: session_step_config serving_session_def worker_session_def)

section \<open>Properties\<close>


definition example_worker_config :: WorkerSessionConfig where
  "example_worker_config =
     \<lparr>wc_backend = StrongId 5, wc_backend_generation = StrongId 1, wc_boot = StrongId 3,
      wc_starting_epoch = StrongId 1, wc_threads = 2, wc_queue_capacity = 64, wc_label = ''worker'',
      wc_build = ''build'', wc_device = example_device_config, wc_verbose = False\<rparr>"


end
