(* ===== verification/Remote_Worker.thy ===== *)
theory Remote_Worker
  imports Remote_Backend Worker_Session
begin

text \<open>
  A coordinator and a worker together: the remote backend of the coordinator talks over
  a stream to a session of the worker, which serves its device.  The world behind the
  coordinator's socket is the worker process, which takes its turn when the coordinator
  waits for an answer.  Through the whole path (message, frame, stream, queue, device
  and back) the remote backend honours the contract of a fencing backend, as long as
  the device does not refuse readbacks; a refused readback is reported as a confirmed
  absence.
\<close>

section \<open>The worker behind the socket\<close>

record WorkerSide =
  wk_session :: WorkerSession
  wk_device :: SyntheticDevice
  wk_pipe :: Pipe

text \<open>The largest frame; one call of either side moves at most that much.\<close>

definition frame_chunk :: nat where
  "frame_chunk = kWireHeaderSize + kWireMaxPayloadBytes + kWireCrcSize"

abbreviation worker_os :: "Pipe SocketOs" where
  "worker_os \<equiv> pipe_os frame_chunk"

text \<open>The reader receives a frame and a thread takes the first frame of the queue and serves it.\<close>

definition worker_turn :: "WorkerSide \<Rightarrow> WorkerSide" where
  "worker_turn W =
     (if ws_stopping (wk_session W) then W
      else (case reader_round worker_os (wk_session W) (wk_device W) (wk_pipe W) of
          (again, s1, p1) \<Rightarrow>
            (case ws_queue s1 of
               [] \<Rightarrow> W\<lparr>wk_session := s1, wk_pipe := p1\<rparr>
             | q # qs \<Rightarrow>
                 (case worker_round worker_os q (s1\<lparr>ws_queue := qs\<rparr>) (wk_device W) p1 of
                    (s2, d2, p2) \<Rightarrow> \<lparr>wk_session = s2, wk_device = d2, wk_pipe = p2\<rparr>))))"

text \<open>The worker takes its turn when the coordinator waits and a request has arrived.\<close>

definition worker_woken :: "WorkerSide \<Rightarrow> WorkerSide" where
  "worker_woken W = (if pp_out (wk_pipe W) = [] \<and> pp_in (wk_pipe W) \<noteq> [] then worker_turn W else W)"

definition link_os :: "WorkerSide SocketOs" where
  "link_os =
     \<lparr>os_socket = (\<lambda>W. (Some 1, W)), os_connect = (\<lambda>h p W. (True, W)), os_bind = (\<lambda>h p W. (False, W)),
      os_listen = (\<lambda>h W. (False, W)), os_getsockname = (\<lambda>h W. (None, W)), os_accept = (\<lambda>h W. (None, W)),
      os_send = (\<lambda>h data W. (Some (min frame_chunk (length data)),
        W\<lparr>wk_pipe := (wk_pipe W)\<lparr>pp_in := pp_in (wk_pipe W) @ take frame_chunk data\<rparr>\<rparr>)),
      os_recv = (\<lambda>h n W.
        let W1 = worker_woken W
        in (Some (take n (pp_out (wk_pipe W1))),
            W1\<lparr>wk_pipe := (wk_pipe W1)\<lparr>pp_out := drop n (pp_out (wk_pipe W1))\<rparr>\<rparr>)),
      os_shutdown = (\<lambda>h W. W), os_close = (\<lambda>h W. W), os_error = (\<lambda>W. ''socket error 0'')\<rparr>"

section \<open>Frames over the two ends\<close>

lemma frame_chunk_bound: "frame_sendable f \<Longrightarrow> length (encode_frame f) \<le> frame_chunk"
  by (simp add: length_encode_frame frame_chunk_def frame_sendable_def kWireHeaderSize_def kWireCrcSize_def)

definition sent :: "Frame \<Rightarrow> Socket \<Rightarrow> Socket" where
  "sent f k = k\<lparr>sk_bytes_sent := sk_bytes_sent k + of_nat (length (encode_frame f)),
                sk_frames_sent := sk_frames_sent k + 1\<rparr>"

lemma sent_handle [simp]: "sk_handle (sent f k) = sk_handle k"
  by (simp add: sent_def)

lemma valid_one [simp]: "sk_handle k = 1 \<Longrightarrow> socket_valid k"
  by (simp add: socket_valid_def kInvalidSocketHandle_def)

lemma worker_sends:
  assumes "frame_sendable f" "sk_handle k = 1"
  shows "send_frame worker_os f k p = (Inr (), sent f k, p\<lparr>pp_out := pp_out p @ encode_frame f\<rparr>)"
proof -
  have n: "encode_frame f \<noteq> []" using length_encode_frame [OF assms(1)] by auto
  have l: "length (encode_frame f) \<le> frame_chunk" by (rule frame_chunk_bound [OF assms(1)])
  then have "send_loop worker_os (encode_frame f) k p
      = (Inr (), k\<lparr>sk_bytes_sent := sk_bytes_sent k + of_nat (length (encode_frame f))\<rparr>,
         p\<lparr>pp_out := pp_out p @ encode_frame f\<rparr>)"
    using n by (subst send_loop.simps) (subst send_loop.simps, simp add: pipe_os_def min_absorb2)
  then show ?thesis using n assms(2) by (simp add: send_frame_def send_raw_def sent_def Let_def)
qed

lemma coordinator_sends:
  assumes "frame_sendable f" "sk_handle k = 1"
  shows "send_frame link_os f k W
    = (Inr (), sent f k, W\<lparr>wk_pipe := (wk_pipe W)\<lparr>pp_in := pp_in (wk_pipe W) @ encode_frame f\<rparr>\<rparr>)"
proof -
  have n: "encode_frame f \<noteq> []" using length_encode_frame [OF assms(1)] by auto
  have l: "length (encode_frame f) \<le> frame_chunk" by (rule frame_chunk_bound [OF assms(1)])
  then have "send_loop link_os (encode_frame f) k W
      = (Inr (), k\<lparr>sk_bytes_sent := sk_bytes_sent k + of_nat (length (encode_frame f))\<rparr>,
         W\<lparr>wk_pipe := (wk_pipe W)\<lparr>pp_in := pp_in (wk_pipe W) @ encode_frame f\<rparr>\<rparr>)"
    using n by (subst send_loop.simps) (subst send_loop.simps, simp add: link_os_def min_absorb2)
  then show ?thesis using n assms(2) by (simp add: send_frame_def send_raw_def sent_def Let_def)
qed

lemma worker_recv_exact:
  assumes "pp_in p = xs @ ys" "length xs = n" "0 < n" "n \<le> frame_chunk" "sk_handle k = 1"
  shows "recv_exact worker_os n k p
    = (Inr xs, k\<lparr>sk_bytes_received := sk_bytes_received k + of_nat n\<rparr>, p\<lparr>pp_in := ys\<rparr>)"
proof -
  have "xs \<noteq> []" using assms by auto
  then have "recv_loop worker_os n [] k p
    = (Inr xs, k\<lparr>sk_bytes_received := sk_bytes_received k + of_nat n\<rparr>, p\<lparr>pp_in := ys\<rparr>)"
    using assms
    by (subst recv_loop.simps) (subst recv_loop.simps, simp add: pipe_os_def min_absorb2)
  then show ?thesis using assms(5) by (simp add: recv_exact_def)
qed

lemma link_recv_exact:
  assumes "pp_out (wk_pipe (worker_woken W)) = xs @ ys" "length xs = n" "0 < n" "sk_handle k = 1"
  shows "recv_exact link_os n k W
    = (Inr xs, k\<lparr>sk_bytes_received := sk_bytes_received k + of_nat n\<rparr>,
       (worker_woken W)\<lparr>wk_pipe := (wk_pipe (worker_woken W))\<lparr>pp_out := ys\<rparr>\<rparr>)"
proof -
  have "xs \<noteq> []" using assms by auto
  then have "recv_loop link_os n [] k W
    = (Inr xs, k\<lparr>sk_bytes_received := sk_bytes_received k + of_nat n\<rparr>,
       (worker_woken W)\<lparr>wk_pipe := (wk_pipe (worker_woken W))\<lparr>pp_out := ys\<rparr>\<rparr>)"
    using assms by (subst recv_loop.simps) (subst recv_loop.simps, simp add: link_os_def Let_def)
  then show ?thesis using assms(4) by (simp add: recv_exact_def)
qed

definition received :: "Frame \<Rightarrow> Socket \<Rightarrow> Socket" where
  "received f k =
     k\<lparr>sk_bytes_received := sk_bytes_received k + 16 + of_nat (length (fr_payload f) + 4),
       sk_frames_received := sk_frames_received k + 1\<rparr>"

lemma received_handle [simp]: "sk_handle (received f k) = sk_handle k"
  by (simp add: received_def)

lemma worker_receives:
  assumes f: "frame_sendable f" and p: "pp_in p = encode_frame f @ rest" and k: "sk_handle k = 1"
  shows "recv_frame worker_os k p = (Inr f, received f k, p\<lparr>pp_in := rest\<rparr>)"
proof -
  let ?body = "fr_payload f @ put_u32 (crc32c (frame_head f @ fr_payload f))"
  have le: "length (fr_payload f) + 4 \<le> frame_chunk"
    using f by (simp add: frame_sendable_def frame_chunk_def kWireHeaderSize_def kWireCrcSize_def)
  have 1: "recv_exact worker_os kWireHeaderSize k p
    = (Inr (frame_head f), k\<lparr>sk_bytes_received := sk_bytes_received k + of_nat 16\<rparr>,
       p\<lparr>pp_in := ?body @ rest\<rparr>)"
    unfolding kWireHeaderSize_def using p k
    by (intro worker_recv_exact) (simp_all add: encode_frame_sendable [OF f] frame_chunk_def
        kWireHeaderSize_def kWireMaxPayloadBytes_def)
  have 2: "recv_exact worker_os (length (fr_payload f) + kWireCrcSize)
      (k\<lparr>sk_bytes_received := sk_bytes_received k + of_nat 16\<rparr>) (p\<lparr>pp_in := ?body @ rest\<rparr>)
    = (Inr ?body, (k\<lparr>sk_bytes_received := sk_bytes_received k + of_nat 16\<rparr>)
         \<lparr>sk_bytes_received := sk_bytes_received (k\<lparr>sk_bytes_received := sk_bytes_received k + of_nat 16\<rparr>)
            + of_nat (length (fr_payload f) + 4)\<rparr>, (p\<lparr>pp_in := ?body @ rest\<rparr>)\<lparr>pp_in := rest\<rparr>)"
    unfolding kWireCrcSize_def using k le by (intro worker_recv_exact) simp_all
  show ?thesis using recv_frame_of_parts [OF f 1 2] by (simp add: received_def)
qed

lemma coordinator_receives:
  assumes f: "frame_sendable f" and W: "pp_out (wk_pipe (worker_woken W)) = encode_frame f"
    and k: "sk_handle k = 1"
  shows "recv_frame link_os k W
    = (Inr f, received f k, (worker_woken W)\<lparr>wk_pipe := (wk_pipe (worker_woken W))\<lparr>pp_out := []\<rparr>\<rparr>)"
proof -
  let ?W = "worker_woken W"
  let ?body = "fr_payload f @ put_u32 (crc32c (frame_head f @ fr_payload f))"
  let ?W1 = "?W\<lparr>wk_pipe := (wk_pipe ?W)\<lparr>pp_out := ?body\<rparr>\<rparr>"
  let ?k = "k\<lparr>sk_bytes_received := sk_bytes_received k + of_nat 16\<rparr>"
  have 1: "recv_exact link_os kWireHeaderSize k W = (Inr (frame_head f), ?k, ?W1)"
    unfolding kWireHeaderSize_def using W k
    by (intro link_recv_exact) (simp_all add: encode_frame_sendable [OF f])
  have woken: "worker_woken ?W1 = ?W1" by (simp add: worker_woken_def put_u32_def)
  have 2: "recv_exact link_os (length (fr_payload f) + kWireCrcSize) ?k ?W1
    = (Inr ?body, ?k\<lparr>sk_bytes_received := sk_bytes_received ?k + of_nat (length (fr_payload f) + 4)\<rparr>,
       (worker_woken ?W1)\<lparr>wk_pipe := (wk_pipe (worker_woken ?W1))\<lparr>pp_out := []\<rparr>\<rparr>)"
    unfolding kWireCrcSize_def using k by (intro link_recv_exact) (simp_all add: woken)
  show ?thesis using recv_frame_of_parts [OF f 1 2] by (simp add: received_def woken)
qed

section \<open>A session between requests\<close>

definition session_idle :: "WorkerSession \<Rightarrow> bool" where
  "session_idle s \<longleftrightarrow>
     \<not> ws_stopping s \<and> \<not> ws_queue_closed s \<and> ws_queue s = [] \<and> sk_handle (ws_socket s) = 1
     \<and> 0 < unat (wc_queue_capacity (ws_config s))"

definition worker_idle :: "WorkerSide \<Rightarrow> bool" where
  "worker_idle W \<longleftrightarrow> session_idle (wk_session W) \<and> wk_pipe W = \<lparr>pp_out = [], pp_in = []\<rparr>"

text \<open>
  Serving \<open>f\<close> on the device sends exactly one reply; if \<open>go\<close>, the session goes on and waits
  for the next request.
\<close>

definition answers ::
  "WorkerSessionConfig \<Rightarrow> Frame \<Rightarrow> SyntheticDevice \<Rightarrow> Frame \<Rightarrow> SyntheticDevice \<Rightarrow> bool \<Rightarrow> bool" where
  "answers c f d reply d' go \<longleftrightarrow>
     (\<forall>s p. session_idle s \<and> ws_config s = c \<longrightarrow>
        (\<exists>s'. handle_frame worker_os f s d p = (s', d', p\<lparr>pp_out := pp_out p @ encode_frame reply\<rparr>)
              \<and> ws_config s' = c \<and> (go \<longrightarrow> session_idle s')))"

lemma session_idle_tally [simp]:
  "session_idle (tally g s) = session_idle s" "ws_config (tally g s) = ws_config s"
  by (simp_all add: tally_def session_idle_def)

lemma session_idle_counts [simp]:
  "session_idle (count_rejection s) = session_idle s" "ws_config (count_rejection s) = ws_config s"
  by (simp_all add: count_rejection_def)

lemma idle_session_sends:
  assumes "session_idle s" "frame_sendable f"
  shows "\<exists>s'. session_send worker_os f s p = (True, s', p\<lparr>pp_out := pp_out p @ encode_frame f\<rparr>)
    \<and> session_idle s' \<and> ws_config s' = ws_config s"
  using assms by (simp add: session_send_def worker_sends session_idle_def)

lemma worker_turn_answers:
  assumes W: "worker_idle W" and f: "frame_sendable f" "fr_type f \<noteq> MessageType_ShutdownRequest"
    and ans: "answers (ws_config (wk_session W)) f (wk_device W) reply d' go"
  shows "\<exists>s'. worker_turn (W\<lparr>wk_pipe := \<lparr>pp_out = [], pp_in = encode_frame f\<rparr>\<rparr>)
      = \<lparr>wk_session = s', wk_device = d', wk_pipe = \<lparr>pp_out = encode_frame reply, pp_in = []\<rparr>\<rparr>
    \<and> (go \<longrightarrow> session_idle s') \<and> ws_config s' = ws_config (wk_session W)"
proof -
  let ?s = "wk_session W"
  have idle: "session_idle ?s" using W by (simp add: worker_idle_def)
  let ?p = "\<lparr>pp_out = [], pp_in = encode_frame f\<rparr>"
  have r: "recv_frame worker_os (ws_socket ?s) ?p
      = (Inr f, received f (ws_socket ?s), ?p\<lparr>pp_in := []\<rparr>)"
    using idle f(1) by (intro worker_receives) (simp_all add: session_idle_def)
  obtain s1 q where q: "reader_round worker_os ?s (wk_device W) ?p = (True, s1, ?p\<lparr>pp_in := []\<rparr>)"
    "ws_queue s1 = [q]" "pf_frame q = f" "session_idle (s1\<lparr>ws_queue := []\<rparr>)"
    "ws_config s1 = ws_config ?s"
    using idle f(2) r by (simp add: reader_round_def enqueue_def tally_def session_idle_def Let_def)
  have "session_idle (s1\<lparr>ws_queue := []\<rparr>) \<and> ws_config (s1\<lparr>ws_queue := []\<rparr>) = ws_config ?s"
    using q(4,5) by simp
  from ans [unfolded answers_def, rule_format, OF this, of "?p\<lparr>pp_in := []\<rparr>"] obtain s2 where
    "handle_frame worker_os f (s1\<lparr>ws_queue := []\<rparr>) (wk_device W) (?p\<lparr>pp_in := []\<rparr>)
      = (s2, d', \<lparr>pp_out = encode_frame reply, pp_in = []\<rparr>)"
    "go \<longrightarrow> session_idle s2" "ws_config s2 = ws_config ?s"
    by auto
  moreover have "\<not> ws_stopping ?s" "\<not> ws_stopping s1"
    using idle q(4) by (simp_all add: session_idle_def)
  ultimately show ?thesis
    using q by (simp add: worker_turn_def worker_round_def)
qed

lemma link_exchange:
  assumes k: "sk_handle k = 1" and W: "worker_idle W"
    and f: "frame_sendable f" "fr_type f \<noteq> MessageType_ShutdownRequest"
    and ans: "answers (ws_config (wk_session W)) f (wk_device W) reply d' go"
    and reply: "frame_sendable reply"
  obtains k1 W1 k2 W' where "send_frame link_os f k W = (Inr (), k1, W1)"
    "recv_frame link_os k1 W1 = (Inr reply, k2, W')" "sk_handle k2 = 1" "go \<longrightarrow> worker_idle W'"
    "wk_device W' = d'" "ws_config (wk_session W') = ws_config (wk_session W)"
proof -
  let ?W = "W\<lparr>wk_pipe := \<lparr>pp_out = [], pp_in = encode_frame f\<rparr>\<rparr>"
  have pipe: "wk_pipe W = \<lparr>pp_out = [], pp_in = []\<rparr>" using W by (simp add: worker_idle_def)
  have s: "send_frame link_os f k W = (Inr (), sent f k, ?W)"
    using coordinator_sends [OF f(1) k, of W] pipe by simp
  have "encode_frame f \<noteq> []" using length_encode_frame [OF f(1)] by auto
  then have woken: "worker_woken ?W = worker_turn ?W" by (simp add: worker_woken_def)
  obtain s' where t: "worker_turn ?W
      = \<lparr>wk_session = s', wk_device = d', wk_pipe = \<lparr>pp_out = encode_frame reply, pp_in = []\<rparr>\<rparr>"
    "go \<longrightarrow> session_idle s'" "ws_config s' = ws_config (wk_session W)"
    using worker_turn_answers [OF W f ans] by blast
  have "recv_frame link_os (sent f k) ?W
      = (Inr reply, received reply (sent f k),
         \<lparr>wk_session = s', wk_device = d', wk_pipe = \<lparr>pp_out = [], pp_in = []\<rparr>\<rparr>)"
    using coordinator_receives [OF reply, of ?W "sent f k"] k t(1) woken by simp
  with s show thesis by (rule that) (simp_all add: k t(2,3) worker_idle_def)
qed

definition same_session :: "RemoteBackend \<Rightarrow> RemoteBackend \<Rightarrow> bool" where
  "same_session b b' \<longleftrightarrow>
     rb_live b' = rb_live b \<and> sk_handle (rb_socket b') = sk_handle (rb_socket b)
     \<and> rb_worker_boot b' = rb_worker_boot b \<and> rb_coordinator_boot b' = rb_coordinator_boot b
     \<and> rb_admitted_epoch b' = rb_admitted_epoch b \<and> rb_descriptor b' = rb_descriptor b"

lemma link_transact:
  assumes b: "rb_live b" "sk_handle (rb_socket b) = 1"
    and W: "worker_idle W" and f: "frame_sendable f" "fr_type f \<noteq> MessageType_ShutdownRequest"
    and ans: "\<And>c. answers c f (wk_device W) reply d' True"
    and reply: "frame_sendable reply" "fr_type reply = expected" "expected \<noteq> MessageType_ErrorResponse"
  shows "\<exists>b' W'. transact link_os f expected b W = (Inr reply, b', W') \<and> same_session b b'
    \<and> worker_idle W' \<and> wk_device W' = d' \<and> ws_config (wk_session W') = ws_config (wk_session W)"
  by (rule link_exchange [OF b(2) W f ans reply(1)])
     (use b reply(2,3) in \<open>simp add: transact_def same_session_def Let_def\<close>)

section \<open>What the device answers\<close>

lemma message_frame_sendable:
  assumes "MessageType_of_u16 (MessageType_to_u16 t) = t" "length payload \<le> kWireMaxPayloadBytes"
  shows "frame_sendable (message_frame t payload)" "frame_sendable (request_frame t payload)"
  using assms by (simp_all add: frame_sendable_def message_frame_def request_frame_def)

lemma message_types_back:
  "MessageType_of_u16 (MessageType_to_u16 MessageType_ApplyRequest) = MessageType_ApplyRequest"
  "MessageType_of_u16 (MessageType_to_u16 MessageType_ApplyResponse) = MessageType_ApplyResponse"
  "MessageType_of_u16 (MessageType_to_u16 MessageType_RevokeRequest) = MessageType_RevokeRequest"
  "MessageType_of_u16 (MessageType_to_u16 MessageType_RevokeResponse) = MessageType_RevokeResponse"
  "MessageType_of_u16 (MessageType_to_u16 MessageType_VerifyRequest) = MessageType_VerifyRequest"
  "MessageType_of_u16 (MessageType_to_u16 MessageType_VerifyResponse) = MessageType_VerifyResponse"
  "MessageType_of_u16 (MessageType_to_u16 MessageType_Hello) = MessageType_Hello"
  "MessageType_of_u16 (MessageType_to_u16 MessageType_HelloAck) = MessageType_HelloAck"
  by (simp_all add: MessageType_of_u16_def)

definition plain_refusal :: "SyntheticDevice \<Rightarrow> DispatchOutcome \<Rightarrow> SyntheticDevice \<Rightarrow> bool" where
  "plain_refusal d out d' \<longleftrightarrow>
     length (do_detail out) \<le> kWireMaxTextBytes \<and> do_boot out = dev_boot d
     \<and> do_epoch out = dev_highest_epoch d \<and> dev_boot d' = dev_boot d
     \<and> dev_highest_epoch d' = dev_highest_epoch d \<and> dev_admitted_boot d' = dev_admitted_boot d
     \<and> dev_config d' = dev_config d"

lemma refuse_apply_plain:
  assumes "refuse_apply st reason detail d d' = Some (out, d'')" "length detail \<le> kWireMaxTextBytes"
    "dev_boot d' = dev_boot d" "dev_highest_epoch d' = dev_highest_epoch d"
    "dev_admitted_boot d' = dev_admitted_boot d" "dev_config d' = dev_config d"
  shows "plain_refusal d out d''"
  using assms by (auto simp: refuse_apply_def plain_refusal_def)

lemma device_apply_refusal_plain:
  assumes "device_apply_refusal r d = Some (out, d')"
  shows "plain_refusal d out d'"
  using assms unfolding device_apply_refusal_def
  by (auto simp: counting_defs kWireMaxTextBytes_def elim!: refuse_apply_plain
      split: option.splits if_splits)

lemma device_apply_answer:
  assumes "device_apply r d = (out, d')"
  shows "length (do_detail out) \<le> kWireMaxTextBytes" "do_boot out = dev_boot d"
    "do_epoch out = dev_highest_epoch d" "dev_boot d' = dev_boot d"
    "dev_highest_epoch d' = dev_highest_epoch d" "dev_admitted_boot d' = dev_admitted_boot d"
    "dev_config d' = dev_config d"
  using assms
  by (auto simp: device_apply_def Let_def kWireMaxTextBytes_def plain_refusal_def
      dest!: device_apply_refusal_plain split: option.splits)

lemma device_revoke_answer:
  assumes "device_revoke q d = (out, d')"
  shows "length (do_detail out) \<le> kWireMaxTextBytes" "do_boot out = dev_boot d"
    "do_epoch out = dev_highest_epoch d" "dev_boot d' = dev_boot d"
    "dev_highest_epoch d' = dev_highest_epoch d" "dev_admitted_boot d' = dev_admitted_boot d"
    "dev_config d' = dev_config d"
  using assms
  by (auto simp: device_revoke_def counting_defs Let_def kWireMaxTextBytes_def split: option.splits)

lemma observe_entry_answer:
  assumes "observe_entry e out0 d = (out, d')" "length (vo_detail out0) \<le> kWireMaxTextBytes"
  shows "length (vo_detail out) \<le> kWireMaxTextBytes" "vo_boot out = vo_boot out0"
    "vo_epoch out = vo_epoch out0" "dev_boot d' = dev_boot d"
    "dev_highest_epoch d' = dev_highest_epoch d" "dev_admitted_boot d' = dev_admitted_boot d"
    "dev_config d' = dev_config d"
  using assms by (auto simp: observe_entry_def Let_def kWireMaxTextBytes_def split: if_splits)

lemma device_read_back_answer:
  assumes "device_read_back r d = (out, d')"
  shows "length (vo_detail out) \<le> kWireMaxTextBytes" "vo_boot out = dev_boot d"
    "vo_epoch out = dev_highest_epoch d" "dev_boot d' = dev_boot d"
    "dev_highest_epoch d' = dev_highest_epoch d" "dev_admitted_boot d' = dev_admitted_boot d"
    "dev_config d' = dev_config d"
  using assms
  by (auto simp: device_read_back_def Let_def kWireMaxTextBytes_def empty_verification_def
      dest: observe_entry_answer split: option.splits if_splits)

section \<open>The worker answers the requests\<close>

text \<open>An enumerator that is only a second name for a declared number is read back as that number.\<close>

lemma decode_apply_request_any:
  "decode_apply_request (encode_apply_request m)
   = Some (m\<lparr>aq_refill := RefillSemantics_of_u8 (RefillSemantics_to_u8 (aq_refill m))\<rparr>)"
  by (simp add: decode_apply_request_def encode_apply_request_def codec_simps)

lemma device_apply_cong:
  assumes "ar_envelope r = ar_envelope r'" "ar_envelope_generation r = ar_envelope_generation r'"
    "ar_rate_ups r = ar_rate_ups r'" "ar_burst_tokens r = ar_burst_tokens r'"
    "ar_epoch r = ar_epoch r'" "ar_boot r = ar_boot r'"
  shows "device_apply r d = device_apply r' d"
  unfolding device_apply_def device_apply_refusal_def assms ..

lemma device_revoke_cong:
  assumes "rr_envelope q = rr_envelope q'" "rr_epoch q = rr_epoch q'" "rr_boot q = rr_boot q'"
  shows "device_revoke q d = device_revoke q' d"
  unfolding device_revoke_def assms ..

lemma device_read_back_cong:
  assumes "ar_envelope r = ar_envelope r'" "ar_envelope_generation r = ar_envelope_generation r'"
    "ar_epoch r = ar_epoch r'" "ar_boot r = ar_boot r'"
  shows "device_read_back r d = device_read_back r' d"
  unfolding device_read_back_def assms ..

lemma device_apply_message:
  "device_apply (apply_of_message ((apply_message b r)\<lparr>aq_refill := x\<rparr>)) d
   = device_apply (r\<lparr>ar_boot := rb_coordinator_boot b\<rparr>) d"
  by (rule device_apply_cong) (simp_all add: apply_of_message_def apply_message_def)

lemma device_revoke_message:
  "device_revoke (revoke_of_message (revoke_message b q)) d
   = device_revoke (q\<lparr>rr_boot := rb_coordinator_boot b\<rparr>) d"
  by (rule device_revoke_cong) (simp_all add: revoke_of_message_def revoke_message_def)

lemma device_read_back_message:
  "device_read_back (verify_of_message (verify_message b r)) d
   = device_read_back (r\<lparr>ar_boot := rb_coordinator_boot b\<rparr>) d"
  by (rule device_read_back_cong) (simp_all add: verify_of_message_def verify_message_def)

lemma detail_or_ok_fits: "length detail \<le> kWireMaxTextBytes \<Longrightarrow> length (detail_or_ok detail) \<le> kWireMaxTextBytes"
  by (simp add: detail_or_ok_def kWireMaxTextBytes_def)

lemma answers_apply:
  assumes "device_apply (r\<lparr>ar_boot := rb_coordinator_boot b\<rparr>) d = (out, d')"
  shows "answers c (request_frame MessageType_ApplyRequest (encode_apply_request (apply_message b r))) d
    (message_frame MessageType_ApplyResponse (encode_apply_response (apply_response (apply_message b r) out))) d' True"
  unfolding answers_def
proof (intro allI impI)
  fix s p
  assume "session_idle s \<and> ws_config s = c"
  then have idle: "session_idle s" "ws_config s = c" by simp_all
  let ?m = "(apply_message b r)\<lparr>aq_refill := RefillSemantics_of_u8 (RefillSemantics_to_u8 (ar_refill r))\<rparr>"
  let ?f = "message_frame MessageType_ApplyResponse (encode_apply_response (apply_response (apply_message b r) out))"
  have m: "decode_apply_request (encode_apply_request (apply_message b r)) = Some ?m"
    by (simp add: decode_apply_request_any) (simp add: apply_message_def)
  have resp: "apply_response ?m out = apply_response (apply_message b r) out"
    by (simp add: apply_response_def)
  have "frame_sendable ?f"
    by (intro message_frame_sendable message_types_back apply_response_fits)
  from idle_session_sends [OF idle(1) this, of p] obtain s' where
    "session_send worker_os ?f s p = (True, s', p\<lparr>pp_out := pp_out p @ encode_frame ?f\<rparr>)"
    "session_idle s'" "ws_config s' = ws_config s" by blast
  then show "\<exists>s'. handle_frame worker_os
      (request_frame MessageType_ApplyRequest (encode_apply_request (apply_message b r))) s d p
      = (s', d', p\<lparr>pp_out := pp_out p @ encode_frame ?f\<rparr>)
        \<and> ws_config s' = c \<and> (True \<longrightarrow> session_idle s')"
    using assms idle(2)
    by (simp add: handle_frame_def handle_apply_def request_frame_def m resp device_apply_message Let_def)
qed

lemma answers_revoke:
  assumes "device_revoke (q\<lparr>rr_boot := rb_coordinator_boot b\<rparr>) d = (out, d')"
  shows "answers c (request_frame MessageType_RevokeRequest (encode_revoke_request (revoke_message b q))) d
    (message_frame MessageType_RevokeResponse (encode_revoke_response (revoke_response (revoke_message b q) out))) d' True"
  unfolding answers_def
proof (intro allI impI)
  fix s p
  assume "session_idle s \<and> ws_config s = c"
  then have idle: "session_idle s" "ws_config s = c" by simp_all
  let ?f = "message_frame MessageType_RevokeResponse (encode_revoke_response (revoke_response (revoke_message b q) out))"
  have "frame_sendable ?f"
    by (intro message_frame_sendable message_types_back revoke_response_fits)
  from idle_session_sends [OF idle(1) this, of p] obtain s' where
    "session_send worker_os ?f s p = (True, s', p\<lparr>pp_out := pp_out p @ encode_frame ?f\<rparr>)"
    "session_idle s'" "ws_config s' = ws_config s" by blast
  then show "\<exists>s'. handle_frame worker_os
      (request_frame MessageType_RevokeRequest (encode_revoke_request (revoke_message b q))) s d p
      = (s', d', p\<lparr>pp_out := pp_out p @ encode_frame ?f\<rparr>)
        \<and> ws_config s' = c \<and> (True \<longrightarrow> session_idle s')"
    using assms idle(2)
    by (simp add: handle_frame_def handle_revoke_def request_frame_def revoke_request_roundtrip
        device_revoke_message Let_def)
qed

lemma answers_verify:
  assumes "device_read_back (r\<lparr>ar_boot := rb_coordinator_boot b\<rparr>) d = (out, d')"
  shows "answers c (request_frame MessageType_VerifyRequest (encode_verify_request (verify_message b r))) d
    (message_frame MessageType_VerifyResponse (encode_verify_response (verify_response (verify_message b r) out))) d' True"
  unfolding answers_def
proof (intro allI impI)
  fix s p
  assume "session_idle s \<and> ws_config s = c"
  then have idle: "session_idle s" "ws_config s = c" by simp_all
  let ?f = "message_frame MessageType_VerifyResponse (encode_verify_response (verify_response (verify_message b r) out))"
  have "frame_sendable ?f"
    by (intro message_frame_sendable message_types_back verify_response_fits)
  from idle_session_sends [OF idle(1) this, of p] obtain s' where
    "session_send worker_os ?f s p = (True, s', p\<lparr>pp_out := pp_out p @ encode_frame ?f\<rparr>)"
    "session_idle s'" "ws_config s' = ws_config s" by blast
  then show "\<exists>s'. handle_frame worker_os
      (request_frame MessageType_VerifyRequest (encode_verify_request (verify_message b r))) s d p
      = (s', d', p\<lparr>pp_out := pp_out p @ encode_frame ?f\<rparr>)
        \<and> ws_config s' = c \<and> (True \<longrightarrow> session_idle s')"
    using assms idle(2)
    by (simp add: handle_frame_def handle_verify_def request_frame_def verify_request_roundtrip
        device_read_back_message)
qed

section \<open>The calls of the backend over the link\<close>

text \<open>
  What holds between two calls: the enforcement table is well formed, and while the
  session lives the worker waits for a request and has not admitted another epoch.
\<close>

definition link_ok :: "RemoteBackend \<times> WorkerSide \<Rightarrow> bool" where
  "link_ok = (\<lambda>(b, W).
     table_ok (dev_table (wk_device W))
     \<and> (rb_live b \<longrightarrow> sk_handle (rb_socket b) = 1 \<and> worker_idle W
          \<and> rb_worker_boot b = dev_boot (wk_device W)
          \<and> rb_admitted_epoch b = dev_highest_epoch (wk_device W)))"

text \<open>The device after a call, in a session that goes on.\<close>

definition link_after :: "RemoteBackend \<Rightarrow> SyntheticDevice \<Rightarrow> RemoteBackend \<Rightarrow> WorkerSide \<Rightarrow> bool" where
  "link_after b d' b' W' \<longleftrightarrow> same_session b b' \<and> worker_idle W' \<and> wk_device W' = d'"

definition relayed_dispatch :: "DispatchOutcome \<Rightarrow> DispatchOutcome" where
  "relayed_dispatch out =
     out\<lparr>do_status := (if do_status out = DispatchStatus_Completed then DispatchStatus_Completed
                        else DispatchStatus_Rejected),
         do_detail := detail_or_ok (do_detail out)\<rparr>"

lemma remote_apply_link:
  assumes "link_ok (b, W)" "rb_live b"
    and d: "device_apply (r\<lparr>ar_boot := rb_coordinator_boot b\<rparr>) (wk_device W) = (out, d')"
  shows "\<exists>b' W'. remote_apply link_os r (b, W) = (relayed_dispatch out, b', W') \<and> link_after b d' b' W'"
proof -
  note a = device_apply_answer [OF d]
  let ?m = "apply_message b r" and ?r = "apply_response (apply_message b r) out"
  let ?f = "request_frame MessageType_ApplyRequest (encode_apply_request ?m)"
  let ?reply = "message_frame MessageType_ApplyResponse (encode_apply_response ?r)"
  have ok: "sk_handle (rb_socket b) = 1" "worker_idle W" "rb_worker_boot b = dev_boot (wk_device W)"
    "rb_admitted_epoch b = dev_highest_epoch (wk_device W)"
    using assms(1,2) by (simp_all add: link_ok_def)
  obtain b' W' where t: "transact link_os ?f MessageType_ApplyResponse b W = (Inr ?reply, b', W')"
    "same_session b b'" "worker_idle W'" "wk_device W' = d'"
    using link_transact [OF assms(2) ok(1,2) _ _ answers_apply [OF d], of MessageType_ApplyResponse]
      message_frame_sendable [OF message_types_back(1) apply_request_fits]
      message_frame_sendable [OF message_types_back(2) apply_response_fits]
    by (auto simp: request_frame_def message_frame_def)
  have "apply_response_sendable ?r"
    using detail_or_ok_fits [OF a(1)] by (simp add: apply_response_sendable_def apply_response_def)
  then have dec: "decode_apply_response (encode_apply_response ?r) = Some ?r"
    by (rule apply_response_roundtrip)
  have ne: "encode_apply_request ?m \<noteq> []"
    by (simp add: encode_apply_request_def put_u64_def)
  have "judge_apply_response b r ?r = relayed_dispatch out"
    using a(2,3) ok(3,4) by (simp add: judge_apply_response_def apply_response_def relayed_dispatch_def)
  then show ?thesis
    using t assms(2) ne dec
    by (simp add: remote_apply_def link_after_def message_frame_def Let_def)
       (simp add: apply_response_def apply_message_def)
qed

lemma remote_revoke_link:
  assumes "link_ok (b, W)" "rb_live b"
    and d: "device_revoke (q\<lparr>rr_boot := rb_coordinator_boot b\<rparr>) (wk_device W) = (out, d')"
  shows "\<exists>b' W'. remote_revoke link_os q (b, W)
      = ((relayed_dispatch out)\<lparr>do_applied_rate_ups := 0, do_applied_burst_tokens := 0\<rparr>, b', W')
    \<and> link_after b d' b' W'"
proof -
  note a = device_revoke_answer [OF d]
  let ?m = "revoke_message b q" and ?r = "revoke_response (revoke_message b q) out"
  let ?f = "request_frame MessageType_RevokeRequest (encode_revoke_request ?m)"
  let ?reply = "message_frame MessageType_RevokeResponse (encode_revoke_response ?r)"
  have ok: "sk_handle (rb_socket b) = 1" "worker_idle W" "rb_worker_boot b = dev_boot (wk_device W)"
    "rb_admitted_epoch b = dev_highest_epoch (wk_device W)"
    using assms(1,2) by (simp_all add: link_ok_def)
  obtain b' W' where t: "transact link_os ?f MessageType_RevokeResponse b W = (Inr ?reply, b', W')"
    "same_session b b'" "worker_idle W'" "wk_device W' = d'"
    using link_transact [OF assms(2) ok(1,2) _ _ answers_revoke [OF d], of MessageType_RevokeResponse]
      message_frame_sendable [OF message_types_back(3) revoke_request_fits]
      message_frame_sendable [OF message_types_back(4) revoke_response_fits]
    by (auto simp: request_frame_def message_frame_def)
  have "revoke_response_sendable ?r"
    using detail_or_ok_fits [OF a(1)] by (simp add: revoke_response_sendable_def revoke_response_def)
  then have dec: "decode_revoke_response (encode_revoke_response ?r) = Some ?r"
    by (rule revoke_response_roundtrip)
  have ne: "encode_revoke_request ?m \<noteq> []"
    by (simp add: encode_revoke_request_def put_u64_def)
  have "judge_revoke_response b q ?r
      = (relayed_dispatch out)\<lparr>do_applied_rate_ups := 0, do_applied_burst_tokens := 0\<rparr>"
    using a(2,3) ok(3,4)
    by (simp add: judge_revoke_response_def revoke_response_def revoke_message_def relayed_dispatch_def
        dispatch_start_def empty_dispatch_def)
  then show ?thesis
    using t assms(2) ne dec
    by (simp add: remote_revoke_def link_after_def message_frame_def Let_def)
qed

text \<open>A readback is relayed without its status: whatever the device reported is confirmed.\<close>

definition relayed_readback :: "VerificationOutcome \<Rightarrow> VerificationOutcome" where
  "relayed_readback out =
     out\<lparr>vo_status := VerificationStatus_Confirmed, vo_detail := detail_or_ok (vo_detail out)\<rparr>"

lemma remote_verify_link:
  assumes "link_ok (b, W)" "rb_live b"
    and d: "device_read_back (r\<lparr>ar_boot := rb_coordinator_boot b\<rparr>) (wk_device W) = (out, d')"
  shows "\<exists>b' W'. remote_verify link_os r (b, W) = (relayed_readback out, b', W') \<and> link_after b d' b' W'"
proof -
  note a = device_read_back_answer [OF d]
  let ?m = "verify_message b r" and ?r = "verify_response (verify_message b r) out"
  let ?f = "request_frame MessageType_VerifyRequest (encode_verify_request ?m)"
  let ?reply = "message_frame MessageType_VerifyResponse (encode_verify_response ?r)"
  have ok: "sk_handle (rb_socket b) = 1" "worker_idle W" "rb_worker_boot b = dev_boot (wk_device W)"
    "rb_admitted_epoch b = dev_highest_epoch (wk_device W)"
    using assms(1,2) by (simp_all add: link_ok_def)
  obtain b' W' where t: "transact link_os ?f MessageType_VerifyResponse b W = (Inr ?reply, b', W')"
    "same_session b b'" "worker_idle W'" "wk_device W' = d'"
    using link_transact [OF assms(2) ok(1,2) _ _ answers_verify [OF d], of MessageType_VerifyResponse]
      message_frame_sendable [OF message_types_back(5) verify_request_fits]
      message_frame_sendable [OF message_types_back(6) verify_response_fits]
    by (auto simp: request_frame_def message_frame_def)
  have "verify_response_sendable ?r"
    using detail_or_ok_fits [OF a(1)] by (simp add: verify_response_sendable_def verify_response_def)
  then have dec: "decode_verify_response (encode_verify_response ?r) = Some ?r"
    by (rule verify_response_roundtrip)
  have ne: "encode_verify_request ?m \<noteq> []"
    by (simp add: encode_verify_request_def put_u64_def)
  have "judge_verify_response b r ?r = relayed_readback out"
    using a(2,3) ok(3,4)
    by (simp add: judge_verify_response_def verify_response_def verify_message_def relayed_readback_def
        verification_start_def empty_verification_def)
  then show ?thesis
    using t assms(2) ne dec
    by (simp add: remote_verify_def link_after_def message_frame_def Let_def)
qed

section \<open>The contract\<close>

definition link_holds :: "RemoteBackend \<times> WorkerSide \<Rightarrow> RateEnvelopeId \<Rightarrow> (Generation \<times> u64 \<times> u64) option" where
  "link_holds = (\<lambda>(b, W). device_holds (wk_device W))"

definition link_serves :: "RemoteBackend \<times> WorkerSide \<Rightarrow> FabricEpoch \<Rightarrow> WorkerBootId \<Rightarrow> bool" where
  "link_serves = (\<lambda>(b, W) epoch boot. rb_live b \<and> device_serves (wk_device W) epoch (rb_coordinator_boot b))"

text \<open>The device neither falsifies nor refuses the readback of the request.\<close>

definition link_honest :: "RemoteBackend \<times> WorkerSide \<Rightarrow> ApplyRequest \<Rightarrow> bool" where
  "link_honest = (\<lambda>(b, W) r.
     device_honest (wk_device W)
     \<and> \<not> sd_refuse_all_verifies (dev_config (wk_device W))
     \<and> sd_refuse_every_nth_verify (dev_config (wk_device W)) = 0
     \<and> device_serves (wk_device W) (ar_epoch r) (rb_coordinator_boot b))"

lemma honest_read_back:
  assumes "device_serves d (ar_epoch r) (ar_boot r)" "\<not> sd_refuse_all_verifies (dev_config d)"
    "sd_refuse_every_nth_verify (dev_config d) = 0"
  shows "vo_status (fst (device_read_back r d)) = VerificationStatus_Confirmed"
  using assms
  by (simp add: device_read_back_def device_serves_def incarnation_ok_def observe_entry_def Let_def)

lemma link_device:
  assumes "link_after b d' b' W'"
  shows "link_holds (b', W') = device_holds d'"
    "link_ok (b, W) \<Longrightarrow> rb_live b \<Longrightarrow> dev_boot d' = dev_boot (wk_device W)
      \<Longrightarrow> dev_highest_epoch d' = dev_highest_epoch (wk_device W) \<Longrightarrow> table_ok (dev_table d') \<Longrightarrow> link_ok (b', W')"
    "dev_highest_epoch d' = dev_highest_epoch (wk_device W)
      \<Longrightarrow> dev_admitted_boot d' = dev_admitted_boot (wk_device W) \<Longrightarrow> dev_config d' = dev_config (wk_device W)
      \<Longrightarrow> link_honest (b', W') = link_honest (b, W)"
  using assms
  by (auto simp: link_after_def link_holds_def link_ok_def link_honest_def same_session_def
      device_serves_def device_honest_def fun_eq_iff)

lemma dead_session:
  assumes "\<not> rb_live b"
  shows "snd (remote_apply os r (b, w)) = (b, w)" "snd (remote_revoke os q (b, w)) = (b, w)"
    "snd (remote_verify os r (b, w)) = (b, w)"
    "do_status (fst (remote_apply os r (b, w))) = DispatchStatus_Failed"
    "do_status (fst (remote_revoke os q (b, w))) = DispatchStatus_Failed"
    "vo_status (fst (remote_verify os r (b, w))) = VerificationStatus_Failed"
  using assms
  by (simp_all add: remote_apply_def remote_revoke_def remote_verify_def dispatch_failed_def
      verification_failed_def)

lemma relayed_completed [simp]:
  "do_status (relayed_dispatch out) = DispatchStatus_Completed \<longleftrightarrow> do_status out = DispatchStatus_Completed"
  by (simp add: relayed_dispatch_def)

lemma link_apply_laws:
  assumes "link_ok bW"
  shows "link_ok (snd (remote_apply link_os r bW))"
    "link_honest (snd (remote_apply link_os r bW)) = link_honest bW"
    "do_status (fst (remote_apply link_os r bW)) = DispatchStatus_Completed \<Longrightarrow>
       link_serves bW (ar_epoch r) (ar_boot r)
       \<and> link_holds (snd (remote_apply link_os r bW))
         = (link_holds bW)(ar_envelope r \<mapsto> (ar_envelope_generation r, ar_rate_ups r, ar_burst_tokens r))"
    "do_status (fst (remote_apply link_os r bW)) \<noteq> DispatchStatus_Completed \<Longrightarrow>
       link_holds (snd (remote_apply link_os r bW)) = link_holds bW"
proof -
  obtain b W where bW: "bW = (b, W)" by (cases bW)
  let ?r = "r\<lparr>ar_boot := rb_coordinator_boot b\<rparr>" and ?d = "wk_device W"
  have table: "table_ok (dev_table ?d)" using assms by (simp add: bW link_ok_def)
  have all: "link_ok (snd (remote_apply link_os r bW))
    \<and> link_honest (snd (remote_apply link_os r bW)) = link_honest bW
    \<and> (do_status (fst (remote_apply link_os r bW)) = DispatchStatus_Completed \<longrightarrow>
       link_serves bW (ar_epoch r) (ar_boot r)
       \<and> link_holds (snd (remote_apply link_os r bW))
         = (link_holds bW)(ar_envelope r \<mapsto> (ar_envelope_generation r, ar_rate_ups r, ar_burst_tokens r)))
    \<and> (do_status (fst (remote_apply link_os r bW)) \<noteq> DispatchStatus_Completed \<longrightarrow>
       link_holds (snd (remote_apply link_os r bW)) = link_holds bW)"
  proof (cases "rb_live b")
    case False
    then show ?thesis using assms by (simp add: bW dead_session)
  next
    case True
    obtain out d' where d: "device_apply ?r ?d = (out, d')" by (metis prod.collapse)
    obtain b' W' where r: "remote_apply link_os r (b, W) = (relayed_dispatch out, b', W')"
      "link_after b d' b' W'"
      using remote_apply_link [OF assms [unfolded bW] True d] by blast
    note a = device_apply_answer [OF d] and l = link_device [OF r(2)]
    have t: "table_ok (dev_table d')" using device_apply_table_ok [OF table, of ?r] d by simp
    have "(do_status out = DispatchStatus_Completed \<longrightarrow> device_serves ?d (ar_epoch r) (rb_coordinator_boot b)
        \<and> device_holds d' = (device_holds ?d)(ar_envelope r
            \<mapsto> (ar_envelope_generation r, ar_rate_ups r, ar_burst_tokens r)))
      \<and> (do_status out \<noteq> DispatchStatus_Completed \<longrightarrow> device_holds d' = device_holds ?d)"
      by (cases rule: device_apply_cases [of ?r ?d]) (auto simp: d dest: device_holds_put device_holds_same)
    then show ?thesis
      using l(1) l(2) [OF assms [unfolded bW] True a(4,5) t] l(3) [OF a(5-7)] True
      by (simp add: bW r(1) link_serves_def) (simp add: link_holds_def)
  qed
  show "link_ok (snd (remote_apply link_os r bW))"
    "link_honest (snd (remote_apply link_os r bW)) = link_honest bW"
    "do_status (fst (remote_apply link_os r bW)) = DispatchStatus_Completed \<Longrightarrow>
       link_serves bW (ar_epoch r) (ar_boot r)
       \<and> link_holds (snd (remote_apply link_os r bW))
         = (link_holds bW)(ar_envelope r \<mapsto> (ar_envelope_generation r, ar_rate_ups r, ar_burst_tokens r))"
    "do_status (fst (remote_apply link_os r bW)) \<noteq> DispatchStatus_Completed \<Longrightarrow>
       link_holds (snd (remote_apply link_os r bW)) = link_holds bW"
    using all by blast+
qed

lemma link_revoke_laws:
  assumes "link_ok bW"
  shows "link_ok (snd (remote_revoke link_os q bW))
    \<and> link_honest (snd (remote_revoke link_os q bW)) = link_honest bW
    \<and> (do_status (fst (remote_revoke link_os q bW)) = DispatchStatus_Completed \<longrightarrow>
       link_serves bW (rr_epoch q) (rr_boot q)
       \<and> link_holds (snd (remote_revoke link_os q bW)) = (link_holds bW)(rr_envelope q := None))
    \<and> (do_status (fst (remote_revoke link_os q bW)) \<noteq> DispatchStatus_Completed \<longrightarrow>
       link_holds (snd (remote_revoke link_os q bW)) = link_holds bW)"
proof -
  obtain b W where bW: "bW = (b, W)" by (cases bW)
  let ?q = "q\<lparr>rr_boot := rb_coordinator_boot b\<rparr>" and ?d = "wk_device W"
  have table: "table_ok (dev_table ?d)" using assms by (simp add: bW link_ok_def)
  show ?thesis
  proof (cases "rb_live b")
    case False
    then show ?thesis using assms by (simp add: bW dead_session)
  next
    case True
    obtain out d' where d: "device_revoke ?q ?d = (out, d')" by (metis prod.collapse)
    obtain b' W' where r: "remote_revoke link_os q (b, W)
        = ((relayed_dispatch out)\<lparr>do_applied_rate_ups := 0, do_applied_burst_tokens := 0\<rparr>, b', W')"
      "link_after b d' b' W'"
      using remote_revoke_link [OF assms [unfolded bW] True d] by blast
    note a = device_revoke_answer [OF d] and l = link_device [OF r(2)]
    note c = device_revoke_cases [of ?q ?d, unfolded d, simplified]
    have t: "table_ok (dev_table d')"
      using c(1,2) table by (cases "do_status out = DispatchStatus_Completed") (simp_all add: table_ok_erase)
    have "do_status out = DispatchStatus_Completed \<Longrightarrow> device_serves ?d (rr_epoch q) (rb_coordinator_boot b)
        \<and> device_holds d' = (device_holds ?d)(rr_envelope q := None)"
      "do_status out \<noteq> DispatchStatus_Completed \<Longrightarrow> device_holds d' = device_holds ?d"
      using c(1,2) device_holds_erase [OF table] by (auto dest: device_holds_same)
    then show ?thesis
      using l(1) l(2) [OF assms [unfolded bW] True a(4,5) t] l(3) [OF a(5-7)] True
      by (simp add: bW r(1) link_serves_def) (simp add: link_holds_def)
  qed
qed

lemma link_verify_laws:
  assumes "link_ok bW"
  shows "link_ok (snd (remote_verify link_os r bW))
    \<and> link_holds (snd (remote_verify link_os r bW)) = link_holds bW
    \<and> (link_honest bW r \<and> vo_status (fst (remote_verify link_os r bW)) = VerificationStatus_Confirmed \<longrightarrow>
        (if vo_observed_present (fst (remote_verify link_os r bW))
         then link_holds bW (ar_envelope r)
              = Some (ar_envelope_generation r, vo_observed_rate_ups (fst (remote_verify link_os r bW)),
                      vo_observed_burst_tokens (fst (remote_verify link_os r bW)))
         else \<forall>g rate burst. link_holds bW (ar_envelope r) = Some (g, rate, burst) \<longrightarrow>
                g \<noteq> ar_envelope_generation r))"
proof -
  obtain b W where bW: "bW = (b, W)" by (cases bW)
  let ?r = "r\<lparr>ar_boot := rb_coordinator_boot b\<rparr>" and ?d = "wk_device W"
  have table: "table_ok (dev_table ?d)" using assms by (simp add: bW link_ok_def)
  show ?thesis
  proof (cases "rb_live b")
    case False
    then show ?thesis using assms by (simp add: bW dead_session)
  next
    case True
    obtain out d' where d: "device_read_back ?r ?d = (out, d')" by (metis prod.collapse)
    obtain b' W' where v: "remote_verify link_os r (b, W) = (relayed_readback out, b', W')"
      "link_after b d' b' W'"
      using remote_verify_link [OF assms [unfolded bW] True d] by blast
    note a = device_read_back_answer [OF d] and l = link_device [OF v(2)]
    have t: "dev_table d' = dev_table ?d" using device_read_back_table [of ?r ?d] d by simp
    have "link_honest bW r \<Longrightarrow>
        if vo_observed_present out
        then device_holds ?d (ar_envelope r)
             = Some (ar_envelope_generation r, vo_observed_rate_ups out, vo_observed_burst_tokens out)
        else \<forall>g rate burst. device_holds ?d (ar_envelope r) = Some (g, rate, burst) \<longrightarrow>
               g \<noteq> ar_envelope_generation r"
      using device_read_back_confirmed [of ?d ?r] honest_read_back [of ?d ?r] d
      by (auto simp: bW link_honest_def split: if_splits)
    then show ?thesis
      using l(1) l(2) [OF assms [unfolded bW] True a(4,5)] t table device_holds_same [OF t]
      by (auto simp: bW v(1) relayed_readback_def link_holds_def split: if_splits)
  qed
qed

lemma fencing_remote: "fencing_backend (remote_ops link_os) link_holds link_serves link_honest link_ok"
  using link_apply_laws link_revoke_laws link_verify_laws
  by unfold_locales (simp_all add: remote_ops_def)

interpretation remote: fencing_backend "remote_ops link_os" link_holds link_serves link_honest link_ok
  by (rule fencing_remote)

section \<open>The handshake\<close>

lemma coordinator_hello_sendable: "hello_sendable (coordinator_hello epoch boot)"
  by (simp add: hello_sendable_def coordinator_hello_def empty_hello_def kProductName_def
      kVersionString_def kWireMaxTextBytes_def BackendKind_of_u8_def VerificationMode_of_u8_def)

lemma hello_reply_sendable:
  "length (wc_label c) \<le> kWireMaxTextBytes \<Longrightarrow> length (wc_build c) \<le> kWireMaxTextBytes \<Longrightarrow>
   hello_sendable (hello_reply c d)"
  by (simp add: hello_sendable_def hello_reply_def BackendKind_of_u8_def VerificationMode_of_u8_def)

definition hello_frame :: "FabricEpoch \<Rightarrow> WorkerBootId \<Rightarrow> Frame" where
  "hello_frame epoch boot =
     request_frame MessageType_Hello (encode_hello (coordinator_hello epoch boot))"

text \<open>What the worker answers to a hello: an acknowledgement, or the reason of the refusal.\<close>

definition hello_answer :: "WorkerSessionConfig \<Rightarrow> FabricEpoch \<Rightarrow> WorkerBootId \<Rightarrow> SyntheticDevice \<Rightarrow> Frame" where
  "hello_answer c epoch boot d =
     (case admit_incarnation epoch boot d of
        ((True, _), d1) \<Rightarrow> message_frame MessageType_HelloAck (encode_hello (hello_reply c d1))
      | ((False, reason), _) \<Rightarrow>
          error_frame reason
            (if reason = R_BackendFencedStaleEpoch
             then ''coordinator epoch is stale relative to the admitted epoch''
             else ''coordinator incarnation conflicts with the admitted boot id''))"

lemma hello_answer_sendable: "frame_sendable (hello_answer c epoch boot d)"
  by (auto simp: hello_answer_def error_frame_def MessageType_of_u16_def hello_fits error_fits
      intro!: message_frame_sendable message_types_back split: prod.splits bool.splits)

lemma answers_hello:
  "answers c (hello_frame epoch boot) d (hello_answer c epoch boot d)
     (snd (admit_incarnation epoch boot d)) (fst (fst (admit_incarnation epoch boot d)))"
  unfolding answers_def
proof (intro allI impI)
  fix s p
  assume idle: "session_idle s \<and> ws_config s = c"
  obtain adm reason d1 where a: "admit_incarnation epoch boot d = ((adm, reason), d1)"
    by (metis prod.collapse)
  have sends: "\<exists>s'. session_send worker_os (hello_answer c epoch boot d) (tally g s) p
      = (True, s', p\<lparr>pp_out := pp_out p @ encode_frame (hello_answer c epoch boot d)\<rparr>)
    \<and> session_idle s' \<and> ws_config s' = c" for g
    using idle_session_sends [OF _ hello_answer_sendable, of "tally g s"] idle by simp
  have hm: "hm_epoch (coordinator_hello epoch boot) = epoch" "hm_boot (coordinator_hello epoch boot) = boot"
    by (simp_all add: coordinator_hello_def)
  have t: "tally (\<lambda>a. a) s = s" by (simp add: tally_def)
  show "\<exists>s'. handle_frame worker_os (hello_frame epoch boot) s d p
      = (s', snd (admit_incarnation epoch boot d),
         p\<lparr>pp_out := pp_out p @ encode_frame (hello_answer c epoch boot d)\<rparr>)
    \<and> ws_config s' = c \<and> (fst (fst (admit_incarnation epoch boot d)) \<longrightarrow> session_idle s')"
  proof (cases adm)
    case True
    then show ?thesis
      using sends [of "\<lambda>a. a"] idle a
      by (simp add: hello_frame_def request_frame_def handle_frame_def handle_hello_def t hm
          hello_roundtrip coordinator_hello_sendable hello_answer_def)
         (auto split: prod.splits)
  next
    case False
    define g :: "WorkerSessionAccounting \<Rightarrow> WorkerSessionAccounting" where "g = (\<lambda>a. if reason = R_BackendFencedStaleEpoch
        then a\<lparr>wa_fenced_stale_epoch := wa_fenced_stale_epoch a + 1, wa_rejections := wa_rejections a + 1\<rparr>
        else a\<lparr>wa_fenced_stale_boot := wa_fenced_stale_boot a + 1, wa_rejections := wa_rejections a + 1\<rparr>)"
    obtain s' where s': "session_send worker_os (hello_answer c epoch boot d) (tally g s) p
      = (True, s', p\<lparr>pp_out := pp_out p @ encode_frame (hello_answer c epoch boot d)\<rparr>)" "ws_config s' = c"
      using sends [of g] by blast
    show ?thesis
      using s' False a
      by (simp add: hello_frame_def request_frame_def handle_frame_def handle_hello_def hm g_def
          hello_roundtrip coordinator_hello_sendable hello_answer_def Let_def)
  qed
qed

lemma link_connects:
  "loopback endpoint \<Longrightarrow>
   connect_to link_os endpoint empty_socket W = (Inr (), empty_socket\<lparr>sk_handle := 1\<rparr>, W)"
  by (simp add: connect_to_def link_os_def socket_close_def empty_socket_def)

lemma admitted_device:
  assumes "admit_incarnation epoch boot d = ((True, reason), d1)"
  shows "dev_highest_epoch d1 = epoch" "device_serves d1 epoch boot" "dev_boot d1 = dev_boot d"
    "table_ok (dev_table d) \<Longrightarrow> table_ok (dev_table d1)"
  using assms by (auto simp: admit_incarnation_def device_serves_def split: if_splits)

lemma refused_device:
  "admit_incarnation epoch boot d = ((False, reason), d1) \<Longrightarrow> dev_table d1 = dev_table d"
  by (auto simp: admit_incarnation_def split: if_splits)

section \<open>Properties\<close>


text \<open>A worker that waits for its first request, and a session of the coordinator's boot 7 with it.\<close>

definition example_worker :: "SyntheticDevice \<Rightarrow> WorkerSide" where
  "example_worker d =
     \<lparr>wk_session = worker_session example_worker_config (empty_socket\<lparr>sk_handle := 1\<rparr>), wk_device = d,
      wk_pipe = \<lparr>pp_out = [], pp_in = []\<rparr>\<rparr>"

definition example_endpoint :: Endpoint where
  "example_endpoint = \<lparr>ep_host = ''127.0.0.1'', ep_port = 7000\<rparr>"

definition example_session :: "SyntheticDevice \<Rightarrow> RemoteBackend" where
  "example_session d =
     session_of_ack example_endpoint (StrongId 7) (hello_reply example_worker_config d)
       (empty_socket\<lparr>sk_handle := 1\<rparr>)"

lemma example_worker_idle: "worker_idle (example_worker d)"
  by (simp add: worker_idle_def session_idle_def example_worker_def worker_session_def
      example_worker_config_def)

lemma example_link_ok:
  "table_ok (dev_table d) \<Longrightarrow> dev_boot d = StrongId 3 \<Longrightarrow> link_ok (example_session d, example_worker d)"
  by (simp add: link_ok_def example_worker_idle)
     (simp add: example_session_def session_of_ack_def hello_reply_def example_worker_def
      example_worker_config_def)




text \<open>
  C33: A readback that the device refuses is reported to the coordinator as a confirmed
  absence.  The answer of the worker does not carry the status of the readback, and the
  remote backend reports every answer as confirmed: when the device holds the
  envelope but refuses the readback, because it is told to or because it fences the
  request, the coordinator is told that nothing is enforced.
\<close>

theorem refused_readback_reads_as_absent:
  assumes "link_ok (b, W)" "rb_live b"
    and "device_holds (wk_device W) (ar_envelope r) = Some (ar_envelope_generation r, rate, burst)"
    and "sd_refuse_all_verifies (dev_config (wk_device W))
         \<or> \<not> device_serves (wk_device W) (ar_epoch r) (rb_coordinator_boot b)"
  shows "vo_status (fst (remote_verify link_os r (b, W))) = VerificationStatus_Confirmed
    \<and> \<not> vo_observed_present (fst (remote_verify link_os r (b, W)))
    \<and> link_holds (snd (remote_verify link_os r (b, W))) (ar_envelope r)
        = Some (ar_envelope_generation r, rate, burst)"
proof -
  let ?r = "r\<lparr>ar_boot := rb_coordinator_boot b\<rparr>" and ?d = "wk_device W"
  obtain out d' where d: "device_read_back ?r ?d = (out, d')" by (metis prod.collapse)
  obtain b' W' where v: "remote_verify link_os r (b, W) = (relayed_readback out, b', W')"
    using remote_verify_link [OF assms(1,2) d] by blast
  have "\<not> vo_observed_present (fst (device_read_back ?r ?d))"
    using assms(4) incarnation_ok_None [of "ar_epoch r" "dev_highest_epoch ?d" "rb_coordinator_boot b"
        "dev_admitted_boot ?d"]
    by (auto simp: device_read_back_def device_serves_def empty_verification_def Let_def
        split: option.splits)
  moreover have "link_holds (snd (remote_verify link_os r (b, W))) = link_holds (b, W)"
    using remote.verify_holds [OF assms(1), of r] by (simp add: remote_ops_def)
  ultimately show ?thesis
    using assms(3) d v by (simp add: relayed_readback_def link_holds_def)
qed

definition example_refusing_device :: SyntheticDevice where
  "example_refusing_device =
     (snd (device_apply example_apply_request
        (synthetic_device example_device_config (StrongId 3) (StrongId 1) (StrongId 7))))
       \<lparr>dev_config := example_device_config\<lparr>sd_refuse_all_verifies := True\<rparr>\<rparr>"

theorem refused_readback_reads_as_absent_witness:
  "vo_status (fst (remote_verify link_os example_apply_request
       (example_session example_refusing_device, example_worker example_refusing_device)))
     = VerificationStatus_Confirmed
   \<and> \<not> vo_observed_present (fst (remote_verify link_os example_apply_request
       (example_session example_refusing_device, example_worker example_refusing_device)))
   \<and> device_holds example_refusing_device (StrongId 9) = Some (StrongId 1, 400, 30)"
proof -
  let ?d = example_refusing_device
  have d: "dev_boot ?d = StrongId 3" "table_ok (dev_table ?d)"
    "device_holds ?d (StrongId 9) = Some (StrongId 1, 400, 30)"
    "sd_refuse_all_verifies (dev_config ?d)"
    by (simp_all add: example_refusing_device_def synthetic_device_def device_apply_def
        device_apply_refusal_def incarnation_ok_def example_apply_request_def example_device_config_def
        device_holds_def device_lookup_def account_def Let_def)
  have ok: "link_ok (example_session ?d, example_worker ?d)" by (rule example_link_ok [OF d(2,1)])
  have live: "rb_live (example_session ?d)" "wk_device (example_worker ?d) = ?d"
    by (simp_all add: example_session_def session_of_ack_def example_worker_def)
  have r: "ar_envelope example_apply_request = StrongId 9"
    "ar_envelope_generation example_apply_request = StrongId 1"
    by (simp_all add: example_apply_request_def)
  show ?thesis
    using refused_readback_reads_as_absent [OF ok live(1), of example_apply_request 400 30]
    by (simp add: live(2) r d)
qed

end
