(* ===== verification/Remote_Engine.thy ===== *)
theory Remote_Engine
  imports Engine_Liveness Remote_Worker
begin

text \<open>
  The engine with a worker process: an apply that the engine dispatches through the
  remote backend reaches the device of the worker and is read back over the wire.
\<close>

lemma ready_honest:
  "device_ready (r\<lparr>ar_boot := rb_coordinator_boot b\<rparr>) (wk_device W) \<Longrightarrow> link_honest (b, W) r"
  by (simp add: device_ready_def link_honest_def device_honest_def)


section \<open>A run with a worker\<close>

definition link_device_start :: SyntheticDevice where
  "link_device_start = synthetic_device example_device_config (StrongId 3) (StrongId 1) (StrongId 7)"

text \<open>The calls of the run do not look at what the backend does with a request.\<close>

definition link_ops ::
  "(ApplyRequest \<Rightarrow> RemoteBackend \<times> 'w \<Rightarrow> DispatchOutcome \<times> RemoteBackend \<times> 'w)
   \<Rightarrow> (RevokeRequest \<Rightarrow> RemoteBackend \<times> 'w \<Rightarrow> DispatchOutcome \<times> RemoteBackend \<times> 'w)
   \<Rightarrow> (ApplyRequest \<Rightarrow> RemoteBackend \<times> 'w \<Rightarrow> VerificationOutcome \<times> RemoteBackend \<times> 'w)
   \<Rightarrow> (RemoteBackend \<times> 'w \<Rightarrow> RemoteBackend \<times> 'w) \<Rightarrow> (RemoteBackend \<times> 'w) BackendOps" where
  "link_ops on_apply on_revoke on_verify on_shutdown =
     \<lparr>ops_describe = (\<lambda>(b, w). rb_descriptor b), ops_dispatch_apply = on_apply,
      ops_dispatch_revoke = on_revoke,
      ops_verify = on_verify, ops_session_boot = (\<lambda>(b, w). rb_worker_boot b),
      ops_session_epoch = (\<lambda>(b, w). rb_admitted_epoch b), ops_session_live = (\<lambda>(b, w). rb_live b),
      ops_shutdown = on_shutdown\<rparr>"

definition link_calls :: "(RemoteBackend \<times> 'w) BackendOps \<Rightarrow> 'w \<Rightarrow> (RemoteBackend \<times> 'w) Call list" where
  "link_calls ops w =
     [Authority (PutFlow example_flow), Authority (PutResource example_resource),
      Authority (PutGrant example_grant),
      Authority (PutPolicy (example_policy\<lparr>policy_refill := RefillSemantics_ContinuousTokenBucket\<rparr>)),
      Authority (PutBackend example_backend),
      BindBackend (Some (ops, (example_session link_device_start, w))) (StrongId 1),
      OpenEnvelope 20 run_request example_actor]"

definition link_opened :: "(RemoteBackend \<times> 'w) BackendOps \<Rightarrow> 'w \<Rightarrow> (RemoteBackend \<times> 'w) Engine" where
  "link_opened ops w =
     fold run_call (link_calls ops w) (rate_governor (example_config DurabilityMode_None) None None)"

definition link_checks :: "'b Engine \<Rightarrow> bool" where
  "link_checks e \<longleftrightarrow>
     (case apply_phase_one 20 (StrongId 1) example_actor e of
        (PhaseProceed d request, e1) \<Rightarrow>
          table_ok (eng_attempts e) \<and> length (eng_attempt_order e) < attempt_bound e
          \<and> ec_durability (eng_config e) = DurabilityMode_None
          \<and> device_ready (request\<lparr>ar_boot := StrongId 7\<rparr>) link_device_start
          \<and> ar_rate_ups request = 400
          \<and> (case find_envelope_locked (StrongId 1) e1 of None \<Rightarrow> False
             | Some env \<Rightarrow> authority_status_locked env 22 e1 = R_None)
      | _ \<Rightarrow> False)"

lemma link_checked: "link_checks (link_opened (link_ops on_apply on_revoke on_verify on_shutdown) w)"
  by code_simp

lemma remote_link_ops:
  "remote_ops os = link_ops (remote_apply os) (remote_revoke os) (remote_verify os) (remote_shutdown os)"
  by (simp add: remote_ops_def link_ops_def)

lemma link_opened_backend:
  "eng_backend (link_opened ops w) = Some (ops, (example_session link_device_start, w))"
  by (simp add: link_opened_def link_calls_def open_envelope_backend bind_backend_def Let_def)


end
