(* ===== verification/Durability_Findings.thy ===== *)
theory Durability_Findings
  imports Durability Engine_Authority
begin

text \<open>
  What a compaction that is triggered by a commit leaves in the log
  (\<^verbatim>\<open>RateGovernor::commit_records_locked\<close>, \<^verbatim>\<open>maybe_compact_locked\<close> of \<^verbatim>\<open>src/engine.cpp\<close>).
  The snapshot is taken from memory, and the callers change memory only after the commit
  has returned.
\<close>

section \<open>Compaction on a file system that answers\<close>

lemma write_one_fits:
  assumes "cf_ok f" "cf_io f = []" "length payload \<le> bound" "length payload \<le> 0xFFFFFFFF"
  shows "cf_ok (write_one bound t txn sq payload f) \<and> cf_io (write_one bound t txn sq payload f) = []"
proof -
  have "encode_journal_record \<lparr>jr_type = t, jr_sequence = sq, jr_txn_id = txn, jr_payload = payload\<rparr> bound \<noteq> []"
    using assms(3,4) by (simp add: encode_journal_record_def Let_def flip: length_0_conv)
  then show ?thesis using assms by (simp add: write_one_def Let_def)
qed

lemma write_snapshot_fits:
  assumes "cf_ok f" "cf_io f = []"
    and "list_all (\<lambda>r. length (jr_payload r) \<le> bound \<and> length (jr_payload r) \<le> 0xFFFFFFFF) rs"
  shows "cf_ok (write_snapshot bound sq rs f) \<and> cf_io (write_snapshot bound sq rs f) = []"
  using assms
proof (induction rs arbitrary: sq f)
  case (Cons r rs)
  then show ?case
    using write_one_fits [of f "jr_payload r" bound "jr_type r" 1 "sq + 1"] by simp
qed simp

lemma compaction_file_fits:
  assumes "24 \<le> bound"
    and "list_all (\<lambda>r. length (jr_payload r) \<le> bound \<and> length (jr_payload r) \<le> 0xFFFFFFFF) rs"
  shows "cf_ok (compaction_file bound rs []) \<and> cf_io (compaction_file bound rs []) = []"
  unfolding compaction_file_def Let_def
  using assms
  by (intro write_one_fits write_snapshot_fits conjunct1 [OF write_one_fits] conjunct2 [OF write_one_fits]
        conjunct1 [OF write_snapshot_fits] conjunct2 [OF write_snapshot_fits])
     (simp_all add: journal_banner_def commit_payload_def)

lemma compaction_reliable:
  assumes "reliable j" "\<not> jn_txn_open j" "list_all (\<lambda>r. payload_fits j (jr_payload r)) rs"
    and "journal_bound j \<le> kScanPayloadBound"
    and "list_all (\<lambda>r. jr_type r \<noteq> JT_TxnBegin \<and> jr_type r \<noteq> JT_TxnCommit) rs"
  obtains res j1 where "compact_with rs j = (res, j1)" "jres_ok res"
    "sc_committed (scan_bytes (jn_file j1)) = banner_record # snapshot_frames 1 rs"
proof -
  have io: "jn_io j = []" "jn_open j" "24 \<le> journal_bound j"
    using assms(1) by (simp_all add: reliable_def)
  have f: "cf_ok (compaction_file (journal_bound j) rs [])" "cf_io (compaction_file (journal_bound j) rs []) = []"
    using compaction_file_fits [OF io(3)] assms(3) by (simp_all add: payload_fits_def)
  obtain res j1 where c: "compact_with rs j = (res, j1)" "jres_ok res"
    "jn_file j1 = cf_bytes (compaction_file (journal_bound j) rs [])"
    using io assms(2) f
    by (simp add: compact_with_def next_io_def durable_barrier_def journal_success_def Let_def)
  have "sc_committed (scan_bytes (jn_file j1)) = banner_record # snapshot_frames 1 rs"
    using compaction_file_ok [OF f(1) assms(4,5)] scan_whole [of "journal_bound j" "compaction_items rs"]
    unfolding c(3) by (simp add: committed_of_def compaction_items_def)
  then show thesis by (rule that [OF c(1,2)])
qed

lemma snapshot_types:
  "list_all (\<lambda>r. jr_type r \<noteq> JT_TxnBegin \<and> jr_type r \<noteq> JT_TxnCommit) (build_snapshot_records_locked e)"
  by (auto simp: build_snapshot_records_locked_def snapshot_record_def list_all_iff)

lemma snapshot_frames_payloads:
  "(\<lambda>r. (jr_type r, jr_payload r)) ` set (snapshot_frames sq rs) = (\<lambda>r. (jr_type r, jr_payload r)) ` set rs"
  by (induction rs arbitrary: sq) simp_all

lemma snapshot_flows:
  assumes "(JT_FlowPut, payload) \<in> (\<lambda>r. (jr_type r, jr_payload r)) ` set (build_snapshot_records_locked e)"
  shows "\<exists>y \<in> snd ` set (eng_flows e). payload = encode_flow y"
  using assms by (auto simp: build_snapshot_records_locked_def snapshot_record_def) force

section \<open>A mutation that is acknowledged and forgotten\<close>

text \<open>
  C40: A flow that is acknowledged as durable can be missing from the durable log.  When the
  log of a strict engine grows over its bound with the commit of a new flow, and every
  file operation succeeds, the call reports success and the flow is in memory; but the
  compaction has replaced the log, transaction included, by a snapshot of the memory as
  it was before, and no record of the log holds the flow.
\<close>

theorem acknowledged_flow_lost_by_compaction:
  fixes e :: "'b Engine"
  assumes valid: "validate_flow x = R_None" "\<not> eng_shutting_down e"
    and new: "table_find (eng_flows e) (id_value (flow_id x)) = None"
      "length (eng_flows e) < unat (ec_max_flows (eng_config e))"
      "\<forall>y \<in> snd ` set (eng_flows e). encode_flow y \<noteq> encode_flow x"
    and strict: "ec_durability (eng_config e) = DurabilityMode_Strict" "\<not> eng_durability_degraded e"
      "eng_next_txn_id e \<noteq> 0"
    and log: "eng_journal e = Some j" "reliable j" "\<not> jn_txn_open j" "journal_bound j \<le> kScanPayloadBound"
      "payload_fits j (encode_flow x)"
      "list_all (\<lambda>r. payload_fits j (jr_payload r)) (build_snapshot_records_locked e)"
    and full: "jc_max_bytes (jn_config j) \<noteq> 0" "jc_max_bytes (jn_config j)
      < jn_size_bytes (snd (journal_transaction (eng_next_txn_id e) [(JT_FlowPut, encode_flow x)] j))"
  shows "\<exists>e1 j1. put_flow x e = (Inr (), e1) \<and> table_find (eng_flows e1) (id_value (flow_id x)) = Some x
    \<and> eng_journal e1 = Some j1
    \<and> (JT_FlowPut, encode_flow x) \<notin> (\<lambda>r. (jr_type r, jr_payload r)) ` set (sc_committed (scan_bytes (jn_file j1)))"
proof -
  let ?rs = "[(JT_FlowPut, encode_flow x)]"
  obtain res j1 where t: "journal_transaction (eng_next_txn_id e) ?rs j = (res, j1)" "jres_ok res"
    "reliable j1" "\<not> jn_txn_open j1" "jn_config j1 = jn_config j"
    by (rule transaction_reliable [OF log(2,3) strict(3), of ?rs]) (use log(5) in simp)
  define e0 where "e0 = count (\<lambda>c. c\<lparr>ct_journal_commits := ct_journal_commits c + 1\<rparr>)
      (e\<lparr>eng_next_txn_id := eng_next_txn_id e + 1, eng_journal := Some j1\<rparr>)"
  have snap: "build_snapshot_records_locked e0 = build_snapshot_records_locked e"
    by (simp add: e0_def count_def build_snapshot_records_locked_def)
  obtain res2 j2 where c: "compact_with (build_snapshot_records_locked e0) j1 = (res2, j2)" "jres_ok res2"
    "sc_committed (scan_bytes (jn_file j2)) = banner_record # snapshot_frames 1 (build_snapshot_records_locked e0)"
    by (rule compaction_reliable [OF t(3,4) _ _ snapshot_types])
       (use log(4,6) payload_fits_config [OF t(5)] t(5) snap in simp_all)
  have j1: "eng_journal e0 = Some j1" "jn_open j1" using t(3) by (simp_all add: e0_def count_def reliable_def)
  define e2 where "e2 = count (\<lambda>c. c\<lparr>ct_compactions := ct_compactions c + 1\<rparr>) (e0\<lparr>eng_journal := Some j2\<rparr>)"
  have over: "jc_max_bytes (jn_config j1) \<noteq> 0" "\<not> jn_size_bytes j1 \<le> jc_max_bytes (jn_config j1)"
    using full unfolding t(1,5) by simp_all
  have compacts: "maybe_compact_locked e0 = e2"
    unfolding maybe_compact_locked_def j1(1) option.case c(1) using j1(2) over c(2) by (simp add: e2_def)
  have commit: "commit_one_locked JT_FlowPut (encode_flow x) e = (Inr (), e2)"
    using strict log(1,2) t compacts
    by (simp add: commit_one_locked_def commit_records_locked_def reliable_def e0_def)
  have e2: "eng_journal e2 = Some j2" "eng_flows e2 = eng_flows e"
    by (simp_all add: e2_def e0_def count_def)
  have "(JT_FlowPut, encode_flow x) \<notin> (\<lambda>r. (jr_type r, jr_payload r)) ` set (sc_committed (scan_bytes (jn_file j2)))"
    unfolding c(3) snap list.set image_insert snapshot_frames_payloads
    using snapshot_flows [of "encode_flow x" e] new(3) by (force simp: banner_record_def)
  then show ?thesis
    using valid new commit e2
    by (simp add: put_flow_def push_event_locked_def count_def Let_def)
qed

lemma frame_size:
  assumes "length payload \<le> bound" "length payload \<le> 0xFFFFFFFF"
  shows "length (encode_journal_record \<lparr>jr_type = t, jr_sequence = sq, jr_txn_id = txn, jr_payload = payload\<rparr> bound)
    = 36 + length payload"
  using assms by (simp add: encode_journal_record_def Let_def)

lemma write_record_size:
  assumes "reliable j" "payload_fits j payload"
  shows "jn_size_bytes (snd (write_record t txn payload j)) = jn_size_bytes j + of_nat (36 + length payload)"
proof -
  have n: "encode_journal_record \<lparr>jr_type = t, jr_sequence = jn_last_sequence j + 1, jr_txn_id = txn,
      jr_payload = payload\<rparr> (journal_bound j) \<noteq> []"
    using assms frame_size [of payload "journal_bound j" t "jn_last_sequence j + 1" txn]
    by (auto simp: payload_fits_def)
  show ?thesis
    using assms n frame_size [of payload "journal_bound j" t "jn_last_sequence j + 1" txn]
    by (simp add: write_record_def reliable_def payload_fits_def write_all_def next_io_def journal_success_def Let_def)
qed

text \<open>The size of a log after a transaction of one record: three frames.\<close>

lemma transaction_size:
  assumes "reliable j" "\<not> jn_txn_open j" "txn \<noteq> 0" "payload_fits j (snd r)"
  shows "jn_size_bytes (snd (journal_transaction txn [r] j)) = jn_size_bytes j + of_nat (140 + length (snd r))"
proof -
  have fits: "payload_fits j (put_u64 txn)" "payload_fits j (commit_payload a b c)" for a b c
    using assms(1) by (simp_all add: payload_fits_def reliable_def commit_payload_def)
  obtain r1 j1 where w1: "write_record JT_TxnBegin txn (put_u64 txn) j = (r1, j1)" "jres_ok r1"
    "reliable j1" "jn_config j1 = jn_config j"
    by (rule write_record_reliable [OF assms(1) fits(1)])
  define j2 where "j2 = j1\<lparr>jn_txn_id := txn, jn_txn_open := True, jn_txn_record_count := 0, jn_txn_bytes := 0\<rparr>"
  have j2: "reliable j2" "jn_config j2 = jn_config j" "jn_txn_open j2" "jn_txn_id j2 = txn"
    using w1 by (simp_all add: j2_def reliable_def)
  obtain r2 j3 where w2: "write_record (fst r) txn (snd r) j2 = (r2, j3)" "jres_ok r2" "reliable j3"
    "jn_config j3 = jn_config j2" "jn_txn_open j3 = jn_txn_open j2" "jn_txn_id j3 = jn_txn_id j2"
    by (rule write_record_reliable [OF j2(1)]) (use assms(4) payload_fits_config [OF j2(2)] in simp)
  define j4 where "j4 = j3\<lparr>jn_txn_record_count := jn_txn_record_count j3 + 1,
      jn_txn_bytes := jn_txn_bytes j3 + of_nat (length (snd r))\<rparr>"
  have j4: "reliable j4" "jn_config j4 = jn_config j" "jn_txn_open j4" "jn_txn_id j4 = txn"
    using w2 j2 by (simp_all add: j4_def j2_def reliable_def)
  let ?payload = "commit_payload txn (jn_txn_record_count j4) (jn_txn_bytes j4)"
  obtain r3 j5 where w3: "write_record JT_TxnCommit txn ?payload j4 = (r3, j5)" "jres_ok r3" "reliable j5"
    "jn_config j5 = jn_config j4"
    by (rule write_record_reliable [OF j4(1)]) (use fits(2) payload_fits_config [OF j4(2)] in simp)
  have "jn_size_bytes j1 = jn_size_bytes j + of_nat (36 + 8)"
    using write_record_size [OF assms(1) fits(1), of JT_TxnBegin txn] w1(1) by simp
  moreover have "jn_size_bytes j3 = jn_size_bytes j2 + of_nat (36 + length (snd r))"
    using write_record_size [OF j2(1), of "snd r" "fst r" txn] w2(1) assms(4) payload_fits_config [OF j2(2)] by simp
  moreover have "jn_size_bytes j5 = jn_size_bytes j4 + of_nat (36 + 24)"
    using write_record_size [OF j4(1), of ?payload JT_TxnCommit txn] w3(1) fits(2) payload_fits_config [OF j4(2)]
    by (simp add: commit_payload_def)
  moreover have "jn_size_bytes (snd (journal_transaction txn [r] j)) = jn_size_bytes j5"
  proof -
    have "journal_begin txn j = (r1, j2)"
      using assms(1-3) w1 by (simp add: journal_begin_def j2_def reliable_def)
    moreover have "append_all [r] r1 j2 = (r2, j4)"
      using w1(2) w2 j2 by (simp add: journal_append_def reliable_def j4_def)
    moreover have "jn_size_bytes (snd (journal_commit j4)) = jn_size_bytes j5"
      using w3 j4 by (simp add: journal_commit_def reliable_def durable_barrier_def next_io_def)
    ultimately show ?thesis using w1(2) w2(2) by (simp add: journal_transaction_def)
  qed
  ultimately show ?thesis by (simp add: j2_def j4_def)
qed

definition example_full_journal :: Journal where
  "example_full_journal =
     journal_handle \<lparr>jc_path = ''log'', jc_max_bytes = 1, jc_max_payload_bytes = 1000,
        jc_fsync_on_commit = True\<rparr> [] []"

definition example_strict_engine :: "unit Engine" where
  "example_strict_engine =
     example_engine\<lparr>eng_config := example_config DurabilityMode_Strict, eng_journal := Some example_full_journal\<rparr>"

theorem acknowledged_flow_lost_by_compaction_witness:
  "\<exists>e1 j1. put_flow example_flow example_strict_engine = (Inr (), e1)
     \<and> table_find (eng_flows e1) 1 = Some example_flow \<and> eng_journal e1 = Some j1
     \<and> (JT_FlowPut, encode_flow example_flow)
         \<notin> (\<lambda>r. (jr_type r, jr_payload r)) ` set (sc_committed (scan_bytes (jn_file j1)))"
proof -
  have e: "eng_flows example_strict_engine = []" "eng_config example_strict_engine = example_config DurabilityMode_Strict"
    "\<not> eng_durability_degraded example_strict_engine" "eng_next_txn_id example_strict_engine = 1"
    "eng_journal example_strict_engine = Some example_full_journal" "\<not> eng_shutting_down example_strict_engine"
    by (simp_all add: example_strict_engine_def example_engine_def rate_governor_def)
  have flow: "validate_flow example_flow = R_None" "flow_id example_flow = StrongId 1"
    "length (encode_flow example_flow) \<le> 1000"
    by code_simp+
  have "list_all (\<lambda>r. length (jr_payload r) \<le> 1000) (build_snapshot_records_locked example_strict_engine)"
    by code_simp
  then have fits: "list_all (\<lambda>r. payload_fits example_full_journal (jr_payload r))
      (build_snapshot_records_locked example_strict_engine)"
    by (fastforce simp: list_all_iff payload_fits_def example_full_journal_def journal_handle_def)
  have log: "reliable example_full_journal" "\<not> jn_txn_open example_full_journal"
    "journal_bound example_full_journal = 1000" "jc_max_bytes (jn_config example_full_journal) = 1"
    by (simp_all add: example_full_journal_def journal_handle_def reliable_def)
  have size: "1 < jn_size_bytes (snd (journal_transaction 1 [(JT_FlowPut, encode_flow example_flow)] example_full_journal))"
    using transaction_size [OF log(1,2), of 1 "(JT_FlowPut, encode_flow example_flow)"] log(3) flow(3)
    by (simp add: payload_fits_def example_full_journal_def journal_handle_def word_less_nat_alt
        unat_of_nat_u64 del: of_nat_add)
  show ?thesis
    using acknowledged_flow_lost_by_compaction [of example_flow example_strict_engine example_full_journal]
      flow fits size log
    by (auto simp: e example_config_def payload_fits_def kScanPayloadBound_def)
qed

end
