(* ===== verification/Event_Delivery.thy ===== *)
theory Event_Delivery
  imports Engine_State
begin

text \<open>
  How audit events leave the engine (\<^verbatim>\<open>src/engine_lock.hpp\<close>): the emission context each
  thread has, the scoped lock that counts its nesting depth, and the delivery that is put
  off until the outermost lock is released.  The embedder's sink is a parameter, a
  function on the context of the thread and on a state of its own; a locale states what
  is asked of it, and it is interpreted on a sink that re-enters the engine for a query.
\<close>

section \<open>The emission context and the lock\<close>

record 'k EmissionContext =
  cx_depth :: int
  cx_sink :: "'k option"
  cx_pending :: "AuditEvent list"

definition empty_context :: "'k EmissionContext" where
  "empty_context = \<lparr>cx_depth = 0, cx_sink = None, cx_pending = []\<rparr>"

text \<open>What a thread sees: its emission context, and everything its callbacks touch.\<close>

type_synonym ('k, 's) thread = "'k EmissionContext \<times> 's"

type_synonym ('k, 's) sink_calls = "'k \<Rightarrow> AuditEvent \<Rightarrow> ('k, 's) thread \<Rightarrow> ('k, 's) thread"

definition flush_pending :: "('k, 's) sink_calls \<Rightarrow> ('k, 's) thread \<Rightarrow> ('k, 's) thread" where
  "flush_pending on_event t =
     (case t of (context, s) \<Rightarrow>
        if cx_pending context = [] then (context\<lparr>cx_sink := None\<rparr>, s)
        else let cleared = context\<lparr>cx_sink := None, cx_pending := []\<rparr>
             in (case cx_sink context of
                   None \<Rightarrow> (cleared, s)
                 | Some sink \<Rightarrow> fold (on_event sink) (cx_pending context) (cleared, s)))"

definition deliver_events ::
  "('k, 's) sink_calls \<Rightarrow> 'k option \<Rightarrow> AuditEvent list \<Rightarrow> ('k, 's) thread \<Rightarrow> ('k, 's) thread" where
  "deliver_events on_event sink events t =
     (case sink of
        None \<Rightarrow> t
      | Some k \<Rightarrow>
          if events = [] then t
          else (case t of (context, s) \<Rightarrow>
            if 0 < cx_depth context
            then (context\<lparr>cx_sink := Some k, cx_pending := cx_pending context @ events\<rparr>, s)
            else fold (on_event k) events t))"

definition scoped_lock :: "('k, 's) thread \<Rightarrow> ('k, 's) thread" where
  "scoped_lock t = (case t of (context, s) \<Rightarrow> (context\<lparr>cx_depth := cx_depth context + 1\<rparr>, s))"

definition scoped_unlock :: "('k, 's) sink_calls \<Rightarrow> ('k, 's) thread \<Rightarrow> ('k, 's) thread" where
  "scoped_unlock on_event t =
     (case t of (context, s) \<Rightarrow>
        let released = context\<lparr>cx_depth := cx_depth context - 1\<rparr>
        in if cx_depth released = 0 then flush_pending on_event (released, s) else (released, s))"

text \<open>What the operations of an engine do with the lock and with the events they pushed.\<close>

datatype LockOp = Lock | Unlock | Emit "AuditEvent list"

fun run_lock_op :: "('k, 's) sink_calls \<Rightarrow> 'k option \<Rightarrow> LockOp \<Rightarrow> ('k, 's) thread \<Rightarrow> ('k, 's) thread" where
  "run_lock_op on_event sink Lock t = scoped_lock t"
| "run_lock_op on_event sink Unlock t = scoped_unlock on_event t"
| "run_lock_op on_event sink (Emit events) t = deliver_events on_event sink events t"

definition run_lock_ops ::
  "('k, 's) sink_calls \<Rightarrow> 'k option \<Rightarrow> LockOp list \<Rightarrow> ('k, 's) thread \<Rightarrow> ('k, 's) thread" where
  "run_lock_ops on_event sink ops t = fold (run_lock_op on_event sink) ops t"

text \<open>How deep the lock is held after some steps, if every release has its lock, and what was emitted.\<close>

fun lock_depth :: "nat \<Rightarrow> LockOp list \<Rightarrow> nat option" where
  "lock_depth n [] = Some n"
| "lock_depth n (Lock # ops) = lock_depth (Suc n) ops"
| "lock_depth n (Unlock # ops) = (case n of 0 \<Rightarrow> None | Suc n' \<Rightarrow> lock_depth n' ops)"
| "lock_depth n (Emit events # ops) = lock_depth n ops"

fun emitted_by :: "LockOp list \<Rightarrow> AuditEvent list" where
  "emitted_by [] = []"
| "emitted_by (Emit events # ops) = events @ emitted_by ops"
| "emitted_by (_ # ops) = emitted_by ops"

section \<open>Sinks\<close>

text \<open>
  What the engine asks of a sink: called when the thread holds no lock and has nothing
  pending, it comes back with the context as it was.  Nothing is known of a call made
  under a lock.
\<close>

locale event_sink =
  fixes on_event :: "('k, 's) sink_calls"
    and sink :: 'k
    and note_event :: "AuditEvent \<Rightarrow> 's \<Rightarrow> 's"
  assumes called_idle: "on_event sink ev (empty_context, s) = (empty_context, note_event ev s)"
begin

lemma fold_idle:
  "fold (on_event sink) events (empty_context, s) = (empty_context, fold note_event events s)"
  by (induction events arbitrary: s) (simp_all add: called_idle)

text \<open>A context that holds the lock \<open>n\<close> times, with what waits for its release.\<close>

definition holding :: "nat \<Rightarrow> AuditEvent list \<Rightarrow> 'k EmissionContext" where
  "holding n waiting =
     \<lparr>cx_depth = int n, cx_sink = (if waiting = [] then None else Some sink), cx_pending = waiting\<rparr>"

lemma holding_idle: "holding 0 [] = empty_context"
  by (simp add: holding_def empty_context_def)

lemma lock_holding: "scoped_lock (holding n waiting, s) = (holding (Suc n) waiting, s)"
  by (simp add: scoped_lock_def holding_def)

lemma unlock_holding:
  "scoped_unlock on_event (holding (Suc n) waiting, s)
     = (if n = 0 then (empty_context, fold note_event waiting s) else (holding n waiting, s))"
  using fold_idle [of waiting s]
  by (cases "waiting = []") (simp_all add: scoped_unlock_def flush_pending_def holding_def empty_context_def)

lemma deliver_holding:
  "deliver_events on_event (Some sink) events (holding (Suc n) waiting, s)
     = (holding (Suc n) (waiting @ events), s)"
  by (simp add: deliver_events_def holding_def)

lemma deliver_idle:
  "deliver_events on_event (Some sink) events (empty_context, s)
     = (empty_context, fold note_event events s)"
  using fold_idle [of events s] by (simp add: deliver_events_def empty_context_def)

lemma run_delivers:
  assumes "lock_depth n ops = Some m" "n = 0 \<longrightarrow> waiting = []"
  shows "\<exists>delivered waiting'.
    run_lock_ops on_event (Some sink) ops (holding n waiting, s)
      = (holding m waiting', fold note_event delivered s)
    \<and> delivered @ waiting' = waiting @ emitted_by ops \<and> (m = 0 \<longrightarrow> waiting' = [])"
  using assms
proof (induction ops arbitrary: n waiting s)
  case Nil
  then show ?case
    by (simp add: run_lock_ops_def) (metis append_Nil fold_simps(1))
next
  case (Cons op ops)
  show ?case
  proof (cases op)
    case Lock
    then show ?thesis
      using Cons.IH [of "Suc n" waiting s] Cons.prems by (simp add: run_lock_ops_def lock_holding)
  next
    case (Emit events)
    show ?thesis
    proof (cases n)
      case 0
      then obtain del waiting' where
        "run_lock_ops on_event (Some sink) ops (empty_context, fold note_event events s)
          = (holding m waiting', fold note_event del (fold note_event events s))"
        "del @ waiting' = emitted_by ops" "m = 0 \<longrightarrow> waiting' = []"
        using Cons.IH [of 0 "[]" "fold note_event events s"] Cons.prems(1) Emit
        by (auto simp: holding_idle)
      then show ?thesis
        using 0 Emit Cons.prems(2)
        by (intro exI [of _ "events @ del"] exI [of _ waiting'])
           (simp add: run_lock_ops_def holding_idle deliver_idle)
    next
      case (Suc n')
      then show ?thesis
        using Cons.IH [of "Suc n'" "waiting @ events" s] Cons.prems(1) Emit
        by (simp add: run_lock_ops_def deliver_holding)
    qed
  next
    case Unlock
    then obtain n' where n: "n = Suc n'" "lock_depth n' ops = Some m"
      using Cons.prems(1) by (cases n) auto
    show ?thesis
    proof (cases "n' = 0")
      case True
      then obtain del waiting' where
        "run_lock_ops on_event (Some sink) ops (empty_context, fold note_event waiting s)
          = (holding m waiting', fold note_event del (fold note_event waiting s))"
        "del @ waiting' = emitted_by ops" "m = 0 \<longrightarrow> waiting' = []"
        using Cons.IH [of 0 "[]" "fold note_event waiting s"] n(2) by (auto simp: holding_idle)
      then show ?thesis
        using True n(1) Unlock
        by (intro exI [of _ "waiting @ del"] exI [of _ waiting'])
           (simp add: run_lock_ops_def unlock_holding)
    next
      case False
      then show ?thesis
        using Cons.IH [of n' waiting s] n Unlock by (simp add: run_lock_ops_def unlock_holding)
    qed
  qed
qed

end

text \<open>
  A sink that queries the engine when it is called: it takes the lock, releases it, and
  keeps the event.  What is delivered on that inner release does not matter: there is
  nothing to deliver.
\<close>

definition querying_sink :: "('k, AuditEvent list) sink_calls \<Rightarrow> ('k, AuditEvent list) sink_calls" where
  "querying_sink inner k ev t =
     (case scoped_unlock inner (scoped_lock t) of (context, seen) \<Rightarrow> (context, seen @ [ev]))"

interpretation querying: event_sink "querying_sink inner" sink "\<lambda>ev seen. seen @ [ev]" for inner sink
  by unfold_locales
     (simp add: querying_sink_def scoped_lock_def scoped_unlock_def flush_pending_def empty_context_def)

section \<open>Properties\<close>


definition example_event :: "u64 \<Rightarrow> AuditEvent" where
  "example_event n =
     \<lparr>ev_sequence = StrongId n, ev_epoch = StrongId 1, ev_boot = StrongId 1, ev_reason = R_None,
      ev_klass = classify R_None, ev_envelope = StrongId 1, ev_envelope_generation = StrongId 1,
      ev_attempt = StrongId 0\<rparr>"


end
