(* ===== verification/Worker_Process.thy ===== *)
theory Worker_Process
  imports Remote_Backend Worker_Session
begin

text \<open>
  The worker process (\<^verbatim>\<open>tools/rg_backend_worker.cpp\<close>) and the arguments of the tools
  (\<^verbatim>\<open>tools/cli_common.hpp\<close>): how the command line gives the configuration, the accept
  loop that reaps, bounds and starts sessions on one shared device, what a session
  thread does around its session, and how the process stops.  The threads interleave in
  a step relation.  The texts that are printed are not modelled.
\<close>

section \<open>Arguments\<close>

record Arguments =
  ag_flags :: "string \<rightharpoonup> string"
  ag_positional :: "string list"

definition is_flag :: "string \<Rightarrow> bool" where
  "is_flag token \<longleftrightarrow> take 2 token = ''--''"

fun parse_arguments :: "string list \<Rightarrow> Arguments \<Rightarrow> Arguments" where
  "parse_arguments [] a = a"
| "parse_arguments (token # rest) a =
     (if is_flag token then
        (case rest of
           [] \<Rightarrow> a\<lparr>ag_flags := (ag_flags a)(token \<mapsto> [])\<rparr>
         | value # rest' \<Rightarrow>
             if is_flag value then parse_arguments rest (a\<lparr>ag_flags := (ag_flags a)(token \<mapsto> [])\<rparr>)
             else parse_arguments rest' (a\<lparr>ag_flags := (ag_flags a)(token \<mapsto> value)\<rparr>))
      else parse_arguments rest (a\<lparr>ag_positional := ag_positional a @ [token]\<rparr>))"

definition command_arguments :: "string list \<Rightarrow> Arguments" where
  "command_arguments argv = parse_arguments argv \<lparr>ag_flags = Map.empty, ag_positional = []\<rparr>"

definition arg_has :: "Arguments \<Rightarrow> string \<Rightarrow> bool" where
  "arg_has a flag \<longleftrightarrow> ag_flags a flag \<noteq> None"

definition arg_get :: "Arguments \<Rightarrow> string \<Rightarrow> string \<Rightarrow> string" where
  "arg_get a flag fallback =
     (case ag_flags a flag of None \<Rightarrow> fallback | Some v \<Rightarrow> if v = [] then fallback else v)"

definition arg_get_u64 :: "Arguments \<Rightarrow> string \<Rightarrow> u64 \<Rightarrow> u64" where
  "arg_get_u64 a flag fallback =
     (let str = arg_get a flag []
      in if str = [] then fallback
         else (case parse_u64_strict str of None \<Rightarrow> fallback | Some v \<Rightarrow> v))"

section \<open>The configuration of the worker\<close>

definition derived_boot :: "u64 \<Rightarrow> u64 \<Rightarrow> u64" where
  "derived_boot process_id now = (let raw = mix64 process_id XOR mix64 now in if raw = 0 then 1 else raw)"

definition device_settings :: "Arguments \<Rightarrow> SyntheticDeviceConfig" where
  "device_settings args =
     \<lparr>sd_max_rate_ups = arg_get_u64 args ''--max-rate'' 0,
      sd_max_burst_tokens = arg_get_u64 args ''--max-burst'' 0,
      sd_envelope_limit = arg_get_u64 args ''--envelope-limit'' 4096,
      sd_fail_every_nth_apply = arg_get_u64 args ''--fail-every-nth-apply'' 0,
      sd_refuse_every_nth_verify = arg_get_u64 args ''--refuse-every-nth-verify'' 0,
      sd_underreport_every_nth_verify = arg_get_u64 args ''--underreport-every-nth-verify'' 0,
      sd_overreport_every_nth_verify = arg_get_u64 args ''--overreport-every-nth-verify'' 0,
      sd_refuse_all_applies = arg_has args ''--refuse-all-applies'',
      sd_refuse_all_verifies = arg_has args ''--refuse-all-verifies'',
      sd_apply_spins = arg_get_u64 args ''--apply-spins'' 0\<rparr>"

definition worker_settings :: "Arguments \<Rightarrow> u64 \<Rightarrow> u64 \<Rightarrow> WorkerSessionConfig" where
  "worker_settings args process_id now =
     (let threads = (ucast (arg_get_u64 args ''--threads'' 2) :: u32);
          capacity = arg_get_u64 args ''--queue'' 64
      in \<lparr>wc_backend = StrongId (arg_get_u64 args ''--backend-id'' 1),
          wc_backend_generation = StrongId (arg_get_u64 args ''--backend-gen'' 1),
          wc_boot = StrongId (arg_get_u64 args ''--boot'' (derived_boot process_id now)),
          wc_starting_epoch = StrongId (arg_get_u64 args ''--epoch'' 0),
          wc_threads = (if threads = 0 then 1 else threads),
          wc_queue_capacity = (if capacity = 0 then 1 else capacity),
          wc_label = ''rate-governor-synthetic-worker'',
          wc_build = kProductName @ '' '' @ kVersionString @ '' synthetic worker (no physical shaping)'',
          wc_device = device_settings args,
          wc_verbose = arg_has args ''--verbose''\<rparr>)"

section \<open>The process\<close>

text \<open>
  What a session thread has still to do: construct and register the session, run it and
  take it off the registry, add its counts, set the finished flag, look whether its
  session served a shutdown request that no other one did before, and then wake the
  accept loop.
\<close>

datatype ThreadPhase =
    ThreadStarts | ThreadRuns | ThreadCounts | ThreadFinishes | ThreadLooks | ThreadWakes | ThreadDone

record 'w SessionThread =
  th_id :: nat
  th_phase :: ThreadPhase
  th_serving :: "'w ServingSession"

text \<open>Where the main thread is; the reaping pass has its index.\<close>

datatype MainPhase = MainReaps nat | MainRefuses | MainAccepts | MainStops | MainJoins | MainExits

record 'w WorkerProcess =
  wp_config :: WorkerSessionConfig
  wp_endpoint :: Endpoint
  wp_listener :: Listener
  wp_max_sessions :: u64
  wp_device :: SyntheticDevice
  wp_world :: 'w
  wp_threads :: "'w SessionThread list"
  wp_next :: nat
  wp_live :: "nat list"
  wp_served :: u64
  wp_stop_listening :: bool
  wp_totals :: WorkerSessionAccounting
  wp_main :: MainPhase

text \<open>The accept loop on a bound listener, and the way to it from the command line.\<close>

definition listening_worker ::
  "WorkerSessionConfig \<Rightarrow> Endpoint \<Rightarrow> Listener \<Rightarrow> u64 \<Rightarrow> 'w \<Rightarrow> 'w WorkerProcess" where
  "listening_worker c endpoint l max_sessions w =
     \<lparr>wp_config = c, wp_endpoint = endpoint, wp_listener = l, wp_max_sessions = max_sessions,
      wp_device = worker_device c, wp_world = w, wp_threads = [], wp_next = 0, wp_live = [],
      wp_served = 0, wp_stop_listening = False,
      wp_totals = (ws_accounting (worker_session c empty_socket))\<lparr>wa_queue_capacity := 0\<rparr>,
      wp_main = MainReaps 0\<rparr>"

datatype 'w WorkerStart =
    WorkerExits nat
  | WorkerDials "'w ServingSession"
  | WorkerListens "'w WorkerProcess"

definition start_worker :: "'w SocketOs \<Rightarrow> string list \<Rightarrow> u64 \<Rightarrow> u64 \<Rightarrow> 'w \<Rightarrow> 'w WorkerStart \<times> 'w" where
  "start_worker os argv process_id now w =
     (let args = command_arguments argv;
          connect_text = arg_get args ''--connect'' [];
          listen_text = arg_get args ''--listen'' [];
          c = worker_settings args process_id now
      in if arg_has args ''--help'' \<or> (connect_text = []) = (listen_text = [])
         then (WorkerExits (if arg_has args ''--help'' then 0 else 2), w)
         else if connect_text \<noteq> [] then
           (case endpoint_parse connect_text of
              None \<Rightarrow> (WorkerExits 2, w)
            | Some endpoint \<Rightarrow>
                (case connect_to os endpoint empty_socket w of
                   (Inl _, _, w1) \<Rightarrow> (WorkerExits 3, w1)
                 | (Inr _, socket, w1) \<Rightarrow> (WorkerDials (serving_session c socket (worker_device c) w1), w1)))
         else
           (case endpoint_parse listen_text of
              None \<Rightarrow> (WorkerExits 2, w)
            | Some endpoint \<Rightarrow>
                (case bind_loopback os (ep_port endpoint) w of
                   (Inl _, w1) \<Rightarrow> (WorkerExits 3, w1)
                 | (Inr l, w1) \<Rightarrow>
                     (WorkerListens (listening_worker c endpoint l (arg_get_u64 args ''--max-sessions'' 8) w1),
                      w1))))"

section \<open>Session threads\<close>

definition th_finished :: "'w SessionThread \<Rightarrow> bool" where
  "th_finished t \<longleftrightarrow> th_phase t \<in> {ThreadLooks, ThreadWakes, ThreadDone}"

definition th_session :: "'w SessionThread \<Rightarrow> WorkerSession" where
  "th_session t = sv_session (th_serving t)"

definition add_totals :: "WorkerSessionAccounting \<Rightarrow> WorkerSessionAccounting \<Rightarrow> WorkerSessionAccounting" where
  "add_totals served a =
     a\<lparr>wa_requests_served := wa_requests_served a + wa_requests_served served,
       wa_applies_applied := wa_applies_applied a + wa_applies_applied served,
       wa_revokes_applied := wa_revokes_applied a + wa_revokes_applied served,
       wa_verifications := wa_verifications a + wa_verifications served,
       wa_rejections := wa_rejections a + wa_rejections served,
       wa_malformed_frames := wa_malformed_frames a + wa_malformed_frames served,
       wa_fenced_stale_epoch := wa_fenced_stale_epoch a + wa_fenced_stale_epoch served,
       wa_fenced_stale_boot := wa_fenced_stale_boot a + wa_fenced_stale_boot served,
       wa_queue_rejections := wa_queue_rejections a + wa_queue_rejections served,
       wa_idle_noop_requests := wa_idle_noop_requests a + wa_idle_noop_requests served,
       wa_queue_high_water := max (wa_queue_high_water a) (wa_queue_high_water served)\<rparr>"

text \<open>The throwaway connection goes to the endpoint of the command line.\<close>

definition wake_accept_loop :: "'w SocketOs \<Rightarrow> Endpoint \<Rightarrow> 'w \<Rightarrow> 'w" where
  "wake_accept_loop os endpoint w =
     (case connect_to os endpoint empty_socket w of (_, wake, w1) \<Rightarrow> snd (socket_close os wake w1))"

definition spawn_session :: "Socket \<Rightarrow> 'w WorkerProcess \<Rightarrow> 'w WorkerProcess" where
  "spawn_session socket P =
     P\<lparr>wp_threads := wp_threads P @
          [\<lparr>th_id = wp_next P, th_phase = ThreadStarts,
            th_serving = serving_session (wp_config P) socket (wp_device P) (wp_world P)\<rparr>],
       wp_next := Suc (wp_next P), wp_served := wp_served P + 1, wp_main := MainReaps 0\<rparr>"

text \<open>The request that every registered session stop, in the order of the registry.\<close>

definition stop_thread ::
  "'w SocketOs \<Rightarrow> nat \<Rightarrow> 'w SessionThread list \<times> 'w \<Rightarrow> 'w SessionThread list \<times> 'w" where
  "stop_thread os i st =
     (case st of (threads, w) \<Rightarrow>
        (case find (\<lambda>t. th_id t = i) threads of
           None \<Rightarrow> (threads, w)
         | Some t \<Rightarrow>
             (case request_stop os ''listener is stopping'' (th_session t) w of
                (s, w1) \<Rightarrow>
                  (map (\<lambda>u. if th_id u = i then u\<lparr>th_serving := (th_serving u)\<lparr>sv_session := s\<rparr>\<rparr> else u)
                     threads, w1))))"

definition stop_live :: "'w SocketOs \<Rightarrow> 'w WorkerProcess \<Rightarrow> 'w SessionThread list \<times> 'w" where
  "stop_live os P = fold (stop_thread os) (wp_live P) (wp_threads P, wp_world P)"

definition set_thread :: "nat \<Rightarrow> 'w SessionThread \<Rightarrow> 'w WorkerProcess \<Rightarrow> 'w WorkerProcess" where
  "set_thread i t P = P\<lparr>wp_threads := (wp_threads P)[i := t]\<rparr>"

section \<open>The threads together\<close>

inductive process_step :: "'w SocketOs \<Rightarrow> 'w WorkerProcess \<Rightarrow> 'w WorkerProcess \<Rightarrow> bool" for os where
  reaps: "wp_main P = MainReaps i \<Longrightarrow> i < length (wp_threads P) \<Longrightarrow> th_phase (wp_threads P ! i) = ThreadDone \<Longrightarrow>
     process_step os P (P\<lparr>wp_threads := take i (wp_threads P) @ drop (Suc i) (wp_threads P)\<rparr>)"
| keeps: "wp_main P = MainReaps i \<Longrightarrow> i < length (wp_threads P) \<Longrightarrow> \<not> th_finished (wp_threads P ! i) \<Longrightarrow>
     process_step os P (P\<lparr>wp_main := MainReaps (Suc i)\<rparr>)"
| bounds: "wp_main P = MainReaps i \<Longrightarrow> length (wp_threads P) \<le> i \<Longrightarrow>
     process_step os P (P\<lparr>wp_main := if unat (wp_max_sessions P) \<le> length (wp_threads P)
                                     then MainRefuses else MainAccepts\<rparr>)"
| refuses: "wp_main P = MainRefuses \<Longrightarrow> listener_accept os (wp_listener P) empty_socket (wp_world P) = (r, k, w1) \<Longrightarrow>
     process_step os P (P\<lparr>wp_world := snd (socket_close os k w1), wp_main := MainReaps 0\<rparr>)"
| accept_fails: "wp_main P = MainAccepts \<Longrightarrow>
     listener_accept os (wp_listener P) empty_socket (wp_world P) = (Inl err, k, w1) \<Longrightarrow>
     process_step os P (P\<lparr>wp_world := w1, wp_main := MainStops\<rparr>)"
| accept_woken: "wp_main P = MainAccepts \<Longrightarrow>
     listener_accept os (wp_listener P) empty_socket (wp_world P) = (Inr (), k, w1) \<Longrightarrow> wp_stop_listening P \<Longrightarrow>
     process_step os P (P\<lparr>wp_world := snd (socket_close os k w1), wp_main := MainStops\<rparr>)"
| accepts: "wp_main P = MainAccepts \<Longrightarrow>
     listener_accept os (wp_listener P) empty_socket (wp_world P) = (Inr (), k, w1) \<Longrightarrow> \<not> wp_stop_listening P \<Longrightarrow>
     process_step os P (spawn_session k (P\<lparr>wp_world := w1\<rparr>))"
| stops: "wp_main P = MainStops \<Longrightarrow> stop_live os P = (threads, w1) \<Longrightarrow>
     process_step os P (P\<lparr>wp_threads := threads, wp_world := w1, wp_main := MainJoins\<rparr>)"
| joins: "wp_main P = MainJoins \<Longrightarrow> \<forall>t \<in> set (wp_threads P). th_phase t = ThreadDone \<Longrightarrow>
     process_step os P (P\<lparr>wp_main := MainExits\<rparr>)"
| registers: "i < length (wp_threads P) \<Longrightarrow> wp_threads P ! i = t \<Longrightarrow> th_phase t = ThreadStarts \<Longrightarrow>
     process_step os P (set_thread i (t\<lparr>th_phase := ThreadRuns\<rparr>) (P\<lparr>wp_live := wp_live P @ [th_id t]\<rparr>))"
| serves: "i < length (wp_threads P) \<Longrightarrow> wp_threads P ! i = t \<Longrightarrow> th_phase t = ThreadRuns \<Longrightarrow>
     session_step os ((th_serving t)\<lparr>sv_device := wp_device P, sv_world := wp_world P\<rparr>) v \<Longrightarrow>
     process_step os P (set_thread i (t\<lparr>th_serving := v\<rparr>) (P\<lparr>wp_device := sv_device v, wp_world := sv_world v\<rparr>))"
| leaves: "i < length (wp_threads P) \<Longrightarrow> wp_threads P ! i = t \<Longrightarrow> th_phase t = ThreadRuns \<Longrightarrow>
     ws_stopped (th_session t) \<Longrightarrow>
     process_step os P (set_thread i (t\<lparr>th_phase := ThreadCounts\<rparr>) (P\<lparr>wp_live := removeAll (th_id t) (wp_live P)\<rparr>))"
| counts: "i < length (wp_threads P) \<Longrightarrow> wp_threads P ! i = t \<Longrightarrow> th_phase t = ThreadCounts \<Longrightarrow>
     process_step os P (set_thread i (t\<lparr>th_phase := ThreadFinishes\<rparr>)
       (P\<lparr>wp_totals := add_totals (ws_accounting (th_session t)) (wp_totals P)\<rparr>))"
| finishes: "i < length (wp_threads P) \<Longrightarrow> wp_threads P ! i = t \<Longrightarrow> th_phase t = ThreadFinishes \<Longrightarrow>
     process_step os P (set_thread i (t\<lparr>th_phase := ThreadLooks\<rparr>) P)"
| looks: "i < length (wp_threads P) \<Longrightarrow> wp_threads P ! i = t \<Longrightarrow> th_phase t = ThreadLooks \<Longrightarrow>
     process_step os P
       (set_thread i
         (t\<lparr>th_phase := if ws_shutdown_requested (th_session t) \<and> \<not> wp_stop_listening P then ThreadWakes
                       else ThreadDone\<rparr>)
         (P\<lparr>wp_stop_listening := wp_stop_listening P \<or> ws_shutdown_requested (th_session t)\<rparr>))"
| wakes: "i < length (wp_threads P) \<Longrightarrow> wp_threads P ! i = t \<Longrightarrow> th_phase t = ThreadWakes \<Longrightarrow>
     process_step os P (set_thread i (t\<lparr>th_phase := ThreadDone\<rparr>)
       (P\<lparr>wp_world := wake_accept_loop os (wp_endpoint P) (wp_world P)\<rparr>))"

section \<open>The shared device\<close>

text \<open>
  Every entry of the device was applied in its highest epoch.  Whatever a session does
  with the device keeps that, keeps the boot id and takes no epoch back.
\<close>

definition device_current :: "SyntheticDevice \<Rightarrow> bool" where
  "device_current d \<longleftrightarrow> table_all (\<lambda>e. se_epoch e = dev_highest_epoch d) (dev_table d)"

definition device_follows :: "SyntheticDevice \<Rightarrow> SyntheticDevice \<Rightarrow> bool" where
  "device_follows d d' \<longleftrightarrow>
     dev_boot d' = dev_boot d \<and> dev_highest_epoch d \<le> dev_highest_epoch d'
     \<and> (device_current d \<longrightarrow> device_current d')"

lemma device_follows_refl [simp]: "device_follows d d"
  by (simp add: device_follows_def)

lemma account_boot [simp]: "dev_boot (account f d) = dev_boot d" "dev_highest_epoch (account f d) = dev_highest_epoch d"
  by (simp_all add: account_def)

lemma admit_follows: "device_follows d (snd (admit_incarnation epoch boot d))"
  by (auto simp: admit_incarnation_def device_follows_def device_current_def table_all_def)

lemma apply_follows: "device_follows d (snd (device_apply r d))"
proof (cases "device_apply_refusal r (d\<lparr>dev_apply_calls := dev_apply_calls d + 1\<rparr>)")
  case None
  then show ?thesis
    by (auto simp: device_apply_def device_follows_def device_current_def Let_def)
next
  case (Some p)
  then show ?thesis
    by (auto simp: device_apply_def device_follows_def device_current_def device_apply_refusal_def
        refuse_apply_def counting_defs split: option.splits if_splits)
qed

lemma revoke_follows: "device_follows d (snd (device_revoke r d))"
  by (auto simp: device_revoke_def device_follows_def device_current_def counting_defs Let_def
      split: option.splits)

lemma read_back_follows: "device_follows d (snd (device_read_back r d))"
  by (auto simp: device_read_back_def observe_entry_def device_follows_def device_current_def Let_def
      split: option.splits)

lemma handle_frame_follows:
  assumes "handle_frame os f s d w = (s', d', w')"
  shows "device_follows d d'"
  using assms admit_follows [of d] apply_follows [of d] revoke_follows [of d] read_back_follows [of d]
  unfolding handle_frame_def handle_hello_def handle_apply_def handle_revoke_def handle_verify_def
    reject_malformed_def
  by (auto simp: Let_def split: MessageType.splits prod.splits option.splits if_splits bool.splits)
     (metis snd_conv)+

lemma session_step_follows:
  assumes "session_step os v v'"
  shows "device_follows (sv_device v) (sv_device v')"
  using assms
  by (cases rule: session_step.cases)
     (auto simp: worker_round_def dest!: handle_frame_follows split: if_splits prod.splits)

section \<open>Stopping the registered sessions\<close>

definition stopped_like :: "'w SessionThread \<Rightarrow> 'w SessionThread \<Rightarrow> bool" where
  "stopped_like t t' \<longleftrightarrow>
     th_id t' = th_id t \<and> th_phase t' = th_phase t \<and> queue_frame (th_session t) (th_session t')
     \<and> sv_reader (th_serving t') = sv_reader (th_serving t)
     \<and> sv_hands (th_serving t') = sv_hands (th_serving t)"

lemma stopped_like_refl: "stopped_like t t"
  by (simp add: stopped_like_def queue_frame_refl)

lemma stopped_like_trans: "stopped_like t u \<Longrightarrow> stopped_like u v \<Longrightarrow> stopped_like t v"
  by (auto simp: stopped_like_def intro: queue_frame_trans)

lemma request_stop_stops: "request_stop os reason s w = (s', w') \<Longrightarrow> ws_stopping s'"
  by (auto simp: request_stop_def Let_def split: prod.splits)

lemma find_thread:
  assumes "distinct (map th_id threads)" "u \<in> set threads" "th_id u = i"
  shows "find (\<lambda>t. th_id t = i) threads = Some u"
  using assms by (induction threads) auto

lemma stop_thread_like:
  assumes "distinct (map th_id threads)" "stop_thread os i (threads, w) = (threads', w')"
  shows "list_all2 stopped_like threads threads'
    \<and> (\<forall>t \<in> set threads'. th_id t = i \<longrightarrow> ws_stopping (th_session t))"
proof (cases "find (\<lambda>t. th_id t = i) threads")
  case None
  then have "threads' = threads" using assms(2) by (simp add: stop_thread_def)
  moreover have "\<forall>t \<in> set threads. th_id t \<noteq> i" using None by (simp add: find_None_iff)
  ultimately show ?thesis by (auto intro: list_all2_refl stopped_like_refl)
next
  case (Some t)
  obtain s w1 where r: "request_stop os ''listener is stopping'' (th_session t) w = (s, w1)"
    by (metis prod.collapse)
  let ?stop = "\<lambda>u :: 'a SessionThread.
    if th_id u = i then u\<lparr>th_serving := (th_serving u)\<lparr>sv_session := s\<rparr>\<rparr> else u"
  have threads': "threads' = map ?stop threads" using assms(2) Some r by (simp add: stop_thread_def)
  have like: "stopped_like u (?stop u)" if "u \<in> set threads" for u
  proof (cases "th_id u = i")
    case True
    then show ?thesis
      using find_thread [OF assms(1) that True] Some request_stop_frame [OF r]
      by (simp add: stopped_like_def th_session_def)
  qed (simp add: stopped_like_refl)
  have "ws_stopping (th_session (?stop u))" if "th_id (?stop u) = i" for u
    using that request_stop_stops [OF r] by (simp add: th_session_def split: if_splits)
  then have "\<forall>t \<in> set threads'. th_id t = i \<longrightarrow> ws_stopping (th_session t)"
    unfolding threads' set_map ball_simps by simp
  then show ?thesis using like by (simp add: threads' list_all2_map2 list_all2_same)
qed

lemma stopped_like_ids: "list_all2 stopped_like threads threads' \<Longrightarrow> map th_id threads' = map th_id threads"
  by (induction rule: list_all2_induct) (simp_all add: stopped_like_def)

lemma stopped_like_stopping:
  "list_all2 stopped_like threads threads' \<Longrightarrow> t' \<in> set threads' \<Longrightarrow>
   \<exists>t \<in> set threads. stopped_like t t'"
  by (metis in_set_conv_nth list_all2_conv_all_nth)

lemma stop_threads_like:
  assumes "distinct (map th_id threads)" "fold (stop_thread os) ids (threads, w) = (threads', w')"
  shows "list_all2 stopped_like threads threads'
    \<and> (\<forall>t \<in> set threads'. th_id t \<in> set ids \<longrightarrow> ws_stopping (th_session t))"
  using assms
proof (induction ids arbitrary: threads w)
  case Nil
  then show ?case by (auto intro: list_all2_refl stopped_like_refl)
next
  case (Cons i ids)
  obtain threads1 w1 where st: "stop_thread os i (threads, w) = (threads1, w1)" by (metis prod.collapse)
  note l1 = stop_thread_like [OF Cons.prems(1) st]
  have l2: "list_all2 stopped_like threads1 threads'
      \<and> (\<forall>t \<in> set threads'. th_id t \<in> set ids \<longrightarrow> ws_stopping (th_session t))"
    using Cons.IH [of threads1 w1] Cons.prems stopped_like_ids [of threads threads1] l1 st by simp
  have "ws_stopping (th_session t')" if "t' \<in> set threads'" "th_id t' = i" for t'
    using stopped_like_stopping [OF l2 [THEN conjunct1] that(1)] l1 that(2)
    by (auto simp: stopped_like_def queue_frame_def)
  moreover have "list_all2 stopped_like threads threads'"
    by (rule list_all2_trans [OF stopped_like_trans l1 [THEN conjunct1] l2 [THEN conjunct1]])
  ultimately show ?case using l2 by auto
qed

section \<open>Reachable processes\<close>

definition thread_ok :: "WorkerSessionConfig \<Rightarrow> 'w SessionThread \<Rightarrow> bool" where
  "thread_ok c t \<longleftrightarrow>
     ws_config (th_session t) = c \<and> serving_ok (th_serving t)
     \<and> (th_phase t \<noteq> ThreadStarts \<and> th_phase t \<noteq> ThreadRuns \<longrightarrow> ws_stopped (th_session t))"

definition threads_ok :: "'w WorkerProcess \<Rightarrow> bool" where
  "threads_ok P \<longleftrightarrow>
     (\<forall>t \<in> set (wp_threads P). thread_ok (wp_config P) t \<and> th_id t < wp_next P
        \<and> (th_phase t = ThreadRuns \<longrightarrow> th_id t \<in> set (wp_live P)))
     \<and> distinct (map th_id (wp_threads P))"

definition process_ok :: "'w WorkerProcess \<Rightarrow> bool" where
  "process_ok P \<longleftrightarrow>
     threads_ok P
     \<and> length (wp_threads P) \<le> unat (wp_max_sessions P)
     \<and> (wp_main P = MainAccepts \<longrightarrow> length (wp_threads P) < unat (wp_max_sessions P))
     \<and> dev_boot (wp_device P) = wc_boot (wp_config P)
     \<and> wc_starting_epoch (wp_config P) \<le> dev_highest_epoch (wp_device P)
     \<and> device_current (wp_device P)
     \<and> (wp_main P = MainExits \<longrightarrow> (\<forall>t \<in> set (wp_threads P). th_phase t = ThreadDone))"

lemma stopped_like_ok: "thread_ok c t \<Longrightarrow> stopped_like t t' \<Longrightarrow> thread_ok c t'"
  by (auto simp: thread_ok_def stopped_like_def serving_ok_def queue_frame_def th_session_def Let_def)

lemma set_thread_ids:
  "i < length threads \<Longrightarrow> th_id t = th_id (threads ! i) \<Longrightarrow> map th_id (threads[i := t]) = map th_id threads"
  by (metis list_update_id map_update nth_map)

text \<open>A step of one thread that keeps its identity.\<close>

lemma set_thread_ok:
  assumes "threads_ok P" "i < length (wp_threads P)" "th_id t = th_id (wp_threads P ! i)"
    and "thread_ok (wp_config P) t" "th_phase t = ThreadRuns \<longrightarrow> th_id t \<in> set (wp_live Q)"
    and "wp_threads Q = wp_threads P" "wp_config Q = wp_config P" "wp_next Q = wp_next P"
    and "\<And>u. u \<in> set (wp_threads P) \<Longrightarrow> th_id u \<noteq> th_id t \<Longrightarrow> th_id u \<in> set (wp_live P) \<Longrightarrow> th_id u \<in> set (wp_live Q)"
  shows "threads_ok (set_thread i t Q)"
proof -
  have new: "th_id u \<noteq> th_id t" if "j < length (wp_threads P)" "j \<noteq> i" "u = wp_threads P ! j" for u j
    using assms(1-3) that nth_eq_iff_index_eq [of "map th_id (wp_threads P)" i j]
    by (auto simp: threads_ok_def)
  have "thread_ok (wp_config P) u \<and> th_id u < wp_next P \<and> (th_phase u = ThreadRuns \<longrightarrow> th_id u \<in> set (wp_live Q))"
    if mem: "u \<in> set ((wp_threads P)[i := t])" for u
  proof -
    obtain j where j: "j < length (wp_threads P)" "u = (wp_threads P)[i := t] ! j"
      using mem by (auto simp: in_set_conv_nth)
    have old: "thread_ok (wp_config P) v \<and> th_id v < wp_next P \<and> (th_phase v = ThreadRuns \<longrightarrow> th_id v \<in> set (wp_live P))"
      if "v \<in> set (wp_threads P)" for v
      using assms(1) that by (simp add: threads_ok_def)
    show ?thesis
    proof (cases "j = i")
      case True
      then show ?thesis using j assms(2-5) old [of "wp_threads P ! i"] by simp
    next
      case False
      then have u: "u = wp_threads P ! j" "u \<in> set (wp_threads P)" using j by simp_all
      show ?thesis using old [OF u(2)] new [OF j(1) False u(1)] assms(9) [OF u(2)] by blast
    qed
  qed
  then show ?thesis
    using assms(1,6-8) set_thread_ids [OF assms(2,3)] by (simp add: threads_ok_def set_thread_def)
qed

lemma kept_threads_ok:
  assumes "threads_ok P" "set (wp_threads Q) \<subseteq> set (wp_threads P)" "distinct (map th_id (wp_threads Q))"
    and "wp_config Q = wp_config P" "wp_next Q = wp_next P" "wp_live Q = wp_live P"
  shows "threads_ok Q"
  using assms by (auto simp: threads_ok_def)

lemma process_step_fixed:
  "process_step os P P' \<Longrightarrow> wp_config P' = wp_config P \<and> wp_max_sessions P' = wp_max_sessions P"
  by (induction rule: process_step.induct) (simp_all add: set_thread_def spawn_session_def)

lemma stops_threads_ok:
  assumes "threads_ok P" "stop_live os P = (threads, w)"
  shows "threads_ok (P\<lparr>wp_threads := threads, wp_world := w, wp_main := MainJoins\<rparr>)
    \<and> length threads = length (wp_threads P)
    \<and> (\<forall>t \<in> set threads. th_phase t = ThreadRuns \<longrightarrow> ws_stopping (th_session t))"
proof -
  have l: "list_all2 stopped_like (wp_threads P) threads"
      "\<forall>t \<in> set threads. th_id t \<in> set (wp_live P) \<longrightarrow> ws_stopping (th_session t)"
    using stop_threads_like [of "wp_threads P" os "wp_live P" "wp_world P" threads w] assms
    by (auto simp: threads_ok_def stop_live_def)
  have "thread_ok (wp_config P) t' \<and> th_id t' < wp_next P \<and> (th_phase t' = ThreadRuns \<longrightarrow> th_id t' \<in> set (wp_live P))"
    if t': "t' \<in> set threads" for t'
  proof -
    obtain t where "t \<in> set (wp_threads P)" "stopped_like t t'"
      using stopped_like_stopping [OF l(1) t'] by blast
    then show ?thesis
      using assms(1) stopped_like_ok [of _ t t'] by (auto simp: threads_ok_def stopped_like_def)
  qed
  then show ?thesis
    using assms(1) l stopped_like_ids [OF l(1)] list_all2_lengthD [OF l(1)] by (auto simp: threads_ok_def)
qed

lemma serves_thread_ok:
  assumes "thread_ok c t" "th_phase t = ThreadRuns"
    and "session_step os ((th_serving t)\<lparr>sv_device := d, sv_world := w\<rparr>) v"
  shows "thread_ok c (t\<lparr>th_serving := v\<rparr>)"
proof -
  have "serving_ok ((th_serving t)\<lparr>sv_device := d, sv_world := w\<rparr>)"
    using assms(1) by (simp add: thread_ok_def serving_ok_def Let_def)
  then show ?thesis
    using assms session_step_ok [OF assms(3)] session_step_config [OF assms(3)]
    by (simp add: thread_ok_def th_session_def)
qed

lemma spawn_threads_ok:
  assumes "threads_ok P"
  shows "threads_ok (spawn_session k (P\<lparr>wp_world := w\<rparr>))"
  using assms
  by (auto simp: threads_ok_def spawn_session_def thread_ok_def th_session_def serving_ok_def
      serving_session_def worker_session_def Let_def)

lemma distinct_without:
  assumes "distinct (map f xs)" "i < length xs"
  shows "distinct (map f (take i xs @ drop (Suc i) xs))"
proof -
  have "distinct (map f (take i xs @ xs ! i # drop (Suc i) xs))"
    using assms id_take_nth_drop [OF assms(2)] by simp
  then show ?thesis by auto
qed

text \<open>A step of one thread to its next phase.\<close>

lemma set_phase_ok:
  assumes "threads_ok P" "i < length (wp_threads P)" "wp_threads P ! i = t"
    and "wp_threads Q = wp_threads P" "wp_config Q = wp_config P" "wp_next Q = wp_next P"
    and "set (wp_live P) - {th_id t} \<subseteq> set (wp_live Q)"
    and "ph = ThreadRuns \<longrightarrow> th_id t \<in> set (wp_live Q)"
    and "ph \<noteq> ThreadRuns \<longrightarrow> ph \<noteq> ThreadStarts \<longrightarrow> ws_stopped (th_session t)"
  shows "threads_ok (set_thread i (t\<lparr>th_phase := ph\<rparr>) Q)"
proof -
  have "thread_ok (wp_config P) t" using assms(1-3) nth_mem [OF assms(2)] by (simp add: threads_ok_def)
  then have "thread_ok (wp_config P) (t\<lparr>th_phase := ph\<rparr>)"
    using assms(9) by (auto simp: thread_ok_def th_session_def)
  then show ?thesis
    using assms(3-8) by (intro set_thread_ok [OF assms(1,2)]) auto
qed

lemma thread_stopped:
  "threads_ok P \<Longrightarrow> i < length (wp_threads P) \<Longrightarrow> wp_threads P ! i = t \<Longrightarrow> th_phase t \<noteq> ThreadStarts \<Longrightarrow>
   th_phase t \<noteq> ThreadRuns \<Longrightarrow> ws_stopped (th_session t)"
  using nth_mem [of i "wp_threads P"] by (auto simp: threads_ok_def thread_ok_def)

lemma process_step_threads:
  assumes "process_step os P P'" "threads_ok P"
  shows "threads_ok P'"
  using assms
proof (cases rule: process_step.cases)
  case (reaps i)
  have "distinct (map th_id (take i (wp_threads P) @ drop (Suc i) (wp_threads P)))"
    by (rule distinct_without) (use assms(2) reaps in \<open>simp_all add: threads_ok_def\<close>)
  then show ?thesis
    using reaps by (auto intro!: kept_threads_ok [OF assms(2)] dest: in_set_takeD in_set_dropD)
next
  case (stops threads w1)
  then show ?thesis using stops_threads_ok [OF assms(2) stops(3)] by blast
next
  case (accepts k w1)
  then show ?thesis using spawn_threads_ok [OF assms(2)] by simp
next
  case (serves i t v)
  show ?thesis
    unfolding serves(1)
    by (rule set_thread_ok [OF assms(2) serves(2)])
       (use serves assms(2) serves_thread_ok [OF _ serves(4,5)] in \<open>auto simp: threads_ok_def\<close>)
next
  case (registers i t)
  then show ?thesis by (auto intro!: set_phase_ok [OF assms(2)])
next
  case (leaves i t)
  then show ?thesis by (auto intro!: set_phase_ok [OF assms(2)])
next
  case (counts i t)
  then show ?thesis using thread_stopped [OF assms(2)] by (auto intro!: set_phase_ok [OF assms(2)])
next
  case (finishes i t)
  then show ?thesis using thread_stopped [OF assms(2)] by (auto intro!: set_phase_ok [OF assms(2)])
next
  case (looks i t)
  then show ?thesis using thread_stopped [OF assms(2)] by (auto intro!: set_phase_ok [OF assms(2)])
next
  case (wakes i t)
  then show ?thesis using thread_stopped [OF assms(2)] by (auto intro!: set_phase_ok [OF assms(2)])
qed (use assms(2) in \<open>auto simp: threads_ok_def\<close>)

lemma process_step_device:
  assumes "process_step os P P'"
  shows "device_follows (wp_device P) (wp_device P')"
  using assms
proof (cases rule: process_step.cases)
  case (serves i t v)
  then show ?thesis using session_step_follows [OF serves(5)] by (simp add: set_thread_def)
qed (simp_all add: set_thread_def spawn_session_def)

lemma process_step_bounds:
  assumes "process_step os P P'" "threads_ok P" "length (wp_threads P) \<le> unat (wp_max_sessions P)"
    and "wp_main P = MainAccepts \<longrightarrow> length (wp_threads P) < unat (wp_max_sessions P)"
  shows "length (wp_threads P') \<le> unat (wp_max_sessions P')
    \<and> (wp_main P' = MainAccepts \<longrightarrow> length (wp_threads P') < unat (wp_max_sessions P'))"
  using assms
proof (cases rule: process_step.cases)
  case (stops threads w1)
  then show ?thesis using stops_threads_ok [OF assms(2) stops(3)] assms(3) by simp
qed (auto simp: set_thread_def spawn_session_def)

lemma process_step_exits:
  assumes "process_step os P P'" "wp_main P' = MainExits"
    and "wp_main P = MainExits \<longrightarrow> (\<forall>t \<in> set (wp_threads P). th_phase t = ThreadDone)"
  shows "\<forall>t \<in> set (wp_threads P'). th_phase t = ThreadDone"
  using assms
proof (cases rule: process_step.cases)
qed (auto simp: set_thread_def spawn_session_def split: if_splits dest!: nth_mem)

lemma process_step_ok:
  assumes "process_step os P P'" "process_ok P"
  shows "process_ok P'"
proof -
  note p = assms(2) [unfolded process_ok_def]
  have "device_follows (wp_device P) (wp_device P')" by (rule process_step_device [OF assms(1)])
  then have "dev_boot (wp_device P') = wc_boot (wp_config P')"
      "wc_starting_epoch (wp_config P') \<le> dev_highest_epoch (wp_device P')" "device_current (wp_device P')"
    using p process_step_fixed [OF assms(1)] by (auto simp: device_follows_def)
  moreover have "threads_ok P'" using process_step_threads [OF assms(1)] p by blast
  moreover have "length (wp_threads P') \<le> unat (wp_max_sessions P')
      \<and> (wp_main P' = MainAccepts \<longrightarrow> length (wp_threads P') < unat (wp_max_sessions P'))"
    using process_step_bounds [OF assms(1)] p by blast
  ultimately show ?thesis using process_step_exits [OF assms(1)] p by (simp add: process_ok_def)
qed

lemma process_reachable:
  assumes "(process_step os)\<^sup>*\<^sup>* (listening_worker c endpoint l max_sessions w) P"
  shows "process_ok P \<and> wp_config P = c \<and> wp_max_sessions P = max_sessions"
  using assms
proof (induction rule: rtranclp_induct)
  case base
  then show ?case
    by (simp add: listening_worker_def process_ok_def threads_ok_def worker_device_def
        synthetic_device_def device_current_def table_all_def)
next
  case (step P P')
  then show ?case using process_step_ok process_step_fixed by metis
qed

lemma stops_step:
  assumes "process_step os P P'" "wp_main P = MainStops" "wp_main P' = MainJoins" "threads_ok P"
  shows "\<forall>t \<in> set (wp_threads P'). th_phase t = ThreadRuns \<longrightarrow> ws_stopping (th_session t)"
  using assms
proof (cases rule: process_step.cases)
  case (stops threads w1)
  then show ?thesis using stops_threads_ok [OF assms(4) stops(3)] by simp
qed (auto simp: set_thread_def spawn_session_def split: if_splits)

text \<open>The throwaway connection is not made when the command line names another host.\<close>

lemma wake_needs_loopback: "\<not> loopback endpoint \<Longrightarrow> wake_accept_loop os endpoint w = w"
  by (simp add: wake_accept_loop_def connect_to_def socket_close_def empty_socket_def)

text \<open>A worker that has admitted nobody serves a request that names no boot id.\<close>

lemma fresh_worker_serves_boot_zero:
  assumes "ar_epoch r = wc_starting_epoch c" "ar_boot r = StrongId 0"
    and "id_valid (ar_envelope r)" "id_valid (ar_envelope_generation r)"
    and "\<not> sd_refuse_all_applies (wc_device c)" "sd_fail_every_nth_apply (wc_device c) = 0"
    and "sd_max_rate_ups (wc_device c) = 0" "sd_max_burst_tokens (wc_device c) = 0"
  shows "do_status (fst (device_apply r (worker_device c))) = DispatchStatus_Completed"
  using assms
  by (simp add: device_apply_def device_apply_refusal_def worker_device_def synthetic_device_def
      incarnation_ok_def unat_eq_0 Let_def)

section \<open>Properties\<close>

text \<open>
  C13: The worker process keeps its bounds over every interleaving of its accept loop and
  its session threads.  It never has more sessions than allowed; all of them work on one
  device, whose boot id stays and whose admitted epoch never goes back, and every entry
  of which was applied in the admitted epoch; when the accept loop ends, every session
  that is registered is told to stop; and when the process exits, every session has
  stopped and served or refused all it had queued.
\<close>

theorem worker_process_safe:
  assumes "(process_step os)\<^sup>*\<^sup>* (listening_worker c endpoint l max_sessions w) P"
  shows "length (wp_threads P) \<le> unat max_sessions
    \<and> dev_boot (wp_device P) = wc_boot c
    \<and> wc_starting_epoch c \<le> dev_highest_epoch (wp_device P)
    \<and> table_all (\<lambda>e. se_epoch e = dev_highest_epoch (wp_device P)) (dev_table (wp_device P))
    \<and> (process_step os P P' \<longrightarrow> dev_highest_epoch (wp_device P) \<le> dev_highest_epoch (wp_device P'))
    \<and> (process_step os P P' \<and> wp_main P = MainStops \<and> wp_main P' = MainJoins \<longrightarrow>
         (\<forall>t \<in> set (wp_threads P'). th_phase t = ThreadRuns \<longrightarrow> ws_stopping (th_session t)))
    \<and> (wp_main P = MainExits \<longrightarrow>
         (\<forall>t \<in> set (wp_threads P). ws_stopped (th_session t) \<and> ws_queue (th_session t) = []))"
proof -
  have ok: "process_ok P" "wp_config P = c" "wp_max_sessions P = max_sessions"
    using process_reachable [OF assms] by simp_all
  have "ws_stopped (th_session t) \<and> ws_queue (th_session t) = []"
    if "t \<in> set (wp_threads P)" "th_phase t = ThreadDone" for t
    using ok(1) that by (auto simp: process_ok_def threads_ok_def thread_ok_def serving_ok_def
        th_session_def Let_def)
  then show ?thesis
    using ok process_step_device [of os P P'] stops_step [of os P P']
    by (simp add: process_ok_def device_follows_def device_current_def)
qed

text \<open>An operating system that accepts one connection and then fails to accept.\<close>

definition accept_once_os :: "nat SocketOs" where
  "accept_once_os =
     \<lparr>os_socket = (\<lambda>w. (Some 1, w)), os_connect = (\<lambda>_ _ w. (True, w)), os_bind = (\<lambda>_ _ w. (True, w)),
      os_listen = (\<lambda>_ w. (True, w)), os_getsockname = (\<lambda>_ w. (Some 9, w)),
      os_accept = (\<lambda>_ w. if w = 0 then (Some 2, Suc w) else (None, w)),
      os_send = (\<lambda>_ _ w. (None, w)), os_recv = (\<lambda>_ _ w. (None, w)), os_shutdown = (\<lambda>_ w. w),
      os_close = (\<lambda>_ w. w), os_error = (\<lambda>_. ''error'')\<rparr>"

definition example_listening_worker :: "nat WorkerProcess" where
  "example_listening_worker =
     listening_worker example_worker_config \<lparr>ep_host = ''127.0.0.1'', ep_port = 9\<rparr>
       \<lparr>ln_handle = 1, ln_port = 9\<rparr> 8 0"

theorem worker_process_safe_witness:
  "\<exists>P. process_step accept_once_os example_listening_worker P \<and> length (wp_threads P) \<le> 8
     \<and> StrongId 1 \<le> dev_highest_epoch (wp_device P)"
proof -
  let ?P = "example_listening_worker\<lparr>wp_main := MainAccepts\<rparr>"
  have step: "process_step accept_once_os example_listening_worker ?P"
    using process_step.bounds [of example_listening_worker 0 accept_once_os]
    by (simp add: example_listening_worker_def listening_worker_def)
  have "(process_step accept_once_os)\<^sup>*\<^sup>* example_listening_worker ?P"
    by (rule r_into_rtranclp) (rule step)
  then show ?thesis
    using step worker_process_safe [of accept_once_os example_worker_config
        "\<lparr>ep_host = ''127.0.0.1'', ep_port = 9\<rparr>" "\<lparr>ln_handle = 1, ln_port = 9\<rparr>" 8 0 ?P]
    by (auto simp: example_listening_worker_def example_worker_config_def intro!: exI [of _ ?P])
qed

text \<open>
  The stop pass misses a session whose thread has not registered yet.  When the
  listener accepts a connection and the next accept fails before the new thread has put
  its session on the registry, the accept loop ends, tells the registered sessions to
  stop, and waits for all threads; the new session then runs without having been told,
  and the process waits for its peer.
\<close>

theorem stop_misses_starting_session:
  assumes "listener_valid l" "os_accept os (ln_handle l) w = (Some client, w1)"
    and "os_accept os (ln_handle l) w1 = (None, w2)" "1 < unat max_sessions"
  shows "\<exists>P t. (process_step os)\<^sup>*\<^sup>* (listening_worker c endpoint l max_sessions w) P
    \<and> wp_main P = MainJoins \<and> t \<in> set (wp_threads P) \<and> th_phase t = ThreadRuns
    \<and> \<not> ws_stopping (th_session t) \<and> sk_handle (ws_socket (th_session t)) = client"
proof -
  define P where "P = listening_worker c endpoint l max_sessions w"
  define P1 where "P1 = P\<lparr>wp_main := MainAccepts\<rparr>"
  define P2 where "P2 = spawn_session (empty_socket\<lparr>sk_handle := client\<rparr>) (P1\<lparr>wp_world := w1\<rparr>)"
  define P3 where "P3 = P2\<lparr>wp_main := MainReaps 1\<rparr>"
  define P4 where "P4 = P3\<lparr>wp_main := MainAccepts\<rparr>"
  define P5 where "P5 = P4\<lparr>wp_world := w2, wp_main := MainStops\<rparr>"
  define P6 where "P6 = P5\<lparr>wp_main := MainJoins\<rparr>"
  define t where "t = wp_threads P6 ! 0"
  define P7 where "P7 = set_thread 0 (t\<lparr>th_phase := ThreadRuns\<rparr>) (P6\<lparr>wp_live := wp_live P6 @ [th_id t]\<rparr>)"
  note states = P_def P1_def P2_def P3_def P4_def P5_def P6_def listening_worker_def spawn_session_def
  note ok = assms(1) [unfolded listener_valid_def]
  have "process_step os P P1"
    using process_step.bounds [of P 0 os] assms(4) by (simp add: states)
  moreover have "process_step os P1 P2"
    using process_step.accepts [of P1 os "empty_socket\<lparr>sk_handle := client\<rparr>" w1] assms(2) ok
    by (simp add: states listener_accept_def listener_valid_def socket_close_def empty_socket_def)
  moreover have "process_step os P2 P3"
    using process_step.keeps [of P2 0 os] by (simp add: states th_finished_def)
  moreover have "process_step os P3 P4"
    using process_step.bounds [of P3 1 os] assms(4) by (simp add: states)
  moreover have "process_step os P4 P5"
    using process_step.accept_fails [of P4 os "os_error os w2" empty_socket w2] assms(3) ok
    by (simp add: states listener_accept_def listener_valid_def)
  moreover have "process_step os P5 P6"
    using process_step.stops [of P5 os "wp_threads P5" "wp_world P5"]
    by (simp add: states stop_live_def)
  moreover have "process_step os P6 P7"
    using process_step.registers [of 0 P6 t os] by (simp add: P7_def t_def) (simp add: states)
  ultimately have "(process_step os)\<^sup>*\<^sup>* P P7"
    by (meson converse_rtranclp_into_rtranclp rtranclp.rtrancl_refl)
  moreover have "wp_main P7 = MainJoins" "wp_threads P7 = [t\<lparr>th_phase := ThreadRuns\<rparr>]"
    "\<not> ws_stopping (th_session t)" "sk_handle (ws_socket (th_session t)) = client"
    by (simp_all add: P7_def t_def set_thread_def)
       (simp_all add: states th_session_def serving_session_def worker_session_def)
  ultimately show ?thesis
    by (auto simp: P_def th_session_def intro!: exI [of _ P7])
qed

theorem stop_misses_starting_session_witness:
  "\<exists>P t. (process_step accept_once_os)\<^sup>*\<^sup>* example_listening_worker P
     \<and> wp_main P = MainJoins \<and> t \<in> set (wp_threads P) \<and> \<not> ws_stopping (th_session t)"
proof -
  have "listener_valid \<lparr>ln_handle = 1, ln_port = 9\<rparr>"
    by (simp add: listener_valid_def kInvalidSocketHandle_def)
  then show ?thesis
    using stop_misses_starting_session [of "\<lparr>ln_handle = 1, ln_port = 9\<rparr>" accept_once_os 0 2 1 1 8
        example_worker_config "\<lparr>ep_host = ''127.0.0.1'', ep_port = 9\<rparr>"]
    by (auto simp: accept_once_os_def example_listening_worker_def)
qed

end
