(* ===== verification/Operator.thy ===== *)
theory Operator
  imports Recovery_Safety Remote_Engine Worker_Process
begin

text \<open>
  The operator tool (\<^verbatim>\<open>tools/rgctl.cpp\<close>) and the scenario it installs
  (\<^verbatim>\<open>tools/scenario.hpp\<close>): how a command opens or recovers the log, connects to a
  worker, drives the engine and chooses its exit code.  A command is a function of the
  arguments, of the files and the readings of the clock, and of the world behind the
  sockets; its result has the exit code, the views that are printed and the engine at
  the end.  The other texts that are printed are not modelled.
\<close>

section \<open>The scenario\<close>

record ScenarioIds =
  si_flow :: FlowId
  si_resource :: ResourceId
  si_grant :: GrantId
  si_reservation :: ReservationId
  si_policy :: PolicyId
  si_backend :: BackendId

definition scenario_ids :: ScenarioIds where
  "scenario_ids =
     \<lparr>si_flow = StrongId 1, si_resource = StrongId 1, si_grant = StrongId 1, si_reservation = StrongId 1,
      si_policy = StrongId 1, si_backend = StrongId 1\<rparr>"

record ScenarioOptions =
  so_ceiling_ups :: u64
  so_target_ups :: u64
  so_floor_ups :: u64
  so_burst_tokens :: u64
  so_epoch :: FabricEpoch
  so_boot :: WorkerBootId
  so_with_reservation :: bool
  so_reserve_below_grant :: bool

definition scenario_options :: ScenarioOptions where
  "scenario_options =
     \<lparr>so_ceiling_ups = 1000, so_target_ups = 600, so_floor_ups = 100, so_burst_tokens = 2000,
      so_epoch = StrongId 7, so_boot = StrongId 11, so_with_reservation = True,
      so_reserve_below_grant = True\<rparr>"

definition scenario_provenance :: "string \<Rightarrow> Provenance" where
  "scenario_provenance detail =
     \<lparr>prov_source = AuthoritySource_Configuration, prov_epoch = StrongId 0, prov_boot = StrongId 0,
      prov_sequence = 0, prov_detail = take kMaxProvenanceDetail detail\<rparr>"

definition open_window :: ValidityWindow where
  "open_window = \<lparr>not_before_ns = 0, invalid_after_ns = kNeverExpiresNs\<rparr>"

definition scenario_flow :: Flow where
  "scenario_flow =
     \<lparr>flow_id = si_flow scenario_ids, flow_generation = StrongId 1, flow_state = FlowState_Active,
      flow_provenance = scenario_provenance ''scenario flow''\<rparr>"

definition scenario_resource :: "ScenarioOptions \<Rightarrow> Resource" where
  "scenario_resource o1 =
     \<lparr>resource_id = si_resource scenario_ids, resource_generation = StrongId 1,
      resource_capacity_ups = so_ceiling_ups o1 * 4,
      resource_capacity_burst_tokens = so_burst_tokens o1 * 4,
      resource_state = ResourceState_Active,
      resource_provenance = scenario_provenance ''scenario resource''\<rparr>"

definition scenario_grant :: "ScenarioOptions \<Rightarrow> Grant" where
  "scenario_grant o1 =
     \<lparr>grant_id = si_grant scenario_ids, grant_flow = si_flow scenario_ids,
      grant_resource = si_resource scenario_ids, grant_generation = StrongId 1,
      grant_ceiling_ups = so_ceiling_ups o1, grant_burst_tokens = so_burst_tokens o1,
      grant_window = open_window, grant_state = GrantState_Active,
      grant_provenance = scenario_provenance ''scenario grant''\<rparr>"

definition scenario_reservation :: "ScenarioOptions \<Rightarrow> Reservation" where
  "scenario_reservation o1 =
     \<lparr>reservation_id = si_reservation scenario_ids, reservation_flow = si_flow scenario_ids,
      reservation_resource = si_resource scenario_ids, reservation_generation = StrongId 1,
      reservation_ceiling_ups =
        (if so_reserve_below_grant o1 then so_ceiling_ups o1 - 1 else so_ceiling_ups o1),
      reservation_burst_tokens = so_burst_tokens o1, reservation_window = open_window,
      reservation_state = ReservationState_Active,
      reservation_provenance = scenario_provenance ''scenario reservation''\<rparr>"

definition scenario_policy :: "ScenarioOptions \<Rightarrow> Policy" where
  "scenario_policy o1 =
     \<lparr>policy_id = si_policy scenario_ids, policy_generation = StrongId 1,
      policy_floor_ups = so_floor_ups o1, policy_target_ups = so_target_ups o1,
      policy_ceiling_ups = so_ceiling_ups o1, policy_burst_tokens = so_burst_tokens o1,
      policy_refill = RefillSemantics_ContinuousTokenBucket, policy_grace_ns = 0,
      policy_hysteresis = \<lparr>reduce_below_ups = so_floor_ups o1, recover_at_ups = so_target_ups o1,
                           cooldown_ns = 1000\<rparr>,
      policy_window = open_window, policy_state = PolicyState_Active,
      policy_provenance = scenario_provenance ''scenario policy''\<rparr>"

text \<open>The statuses of the ingests are ignored.\<close>

definition install_scenario :: "ScenarioOptions \<Rightarrow> 'b Engine \<Rightarrow> 'b Engine" where
  "install_scenario o1 e =
     (let e1 = snd (put_flow scenario_flow e);
          e2 = snd (put_resource (scenario_resource o1) e1);
          e3 = snd (put_grant (scenario_grant o1) e2);
          e4 = (if so_with_reservation o1 then snd (put_reservation (scenario_reservation o1) e3) else e3)
      in snd (put_policy (scenario_policy o1) e4))"

definition scenario_actor :: "ScenarioOptions \<Rightarrow> ActorContext" where
  "scenario_actor o1 = operator_context (so_epoch o1) (so_boot o1) ''scenario actor''"

definition scenario_request :: EnvelopeRequest where
  "scenario_request =
     \<lparr>req_flow = si_flow scenario_ids, req_flow_generation = StrongId 0,
      req_resource = si_resource scenario_ids, req_resource_generation = StrongId 0,
      req_grant = si_grant scenario_ids, req_grant_generation = StrongId 0,
      req_has_reservation = True, req_reservation = si_reservation scenario_ids,
      req_reservation_generation = StrongId 0, req_policy = si_policy scenario_ids,
      req_policy_generation = StrongId 0, req_backend = si_backend scenario_ids,
      req_backend_generation = StrongId 0, req_annotation = []\<rparr>"

section \<open>The engine over a log\<close>

text \<open>
  What a command finds around it: the files and the I/O of a recovery, the I/O of a log
  that is created, the process, and the readings of the steady clock after the engine
  stands, in the order in which they are taken.
\<close>

record OperatorEnv =
  ox_log :: RecoveryEnv
  ox_created :: "IoOutcome list"
  ox_process_id :: u64
  ox_started_ns :: TimestampNs
  ox_clock :: "nat \<Rightarrow> TimestampNs"
  ox_revalidated :: "u64 \<Rightarrow> TimestampNs \<times> TimestampNs \<times> TimestampNs"

definition default_journal_config :: JournalConfig where
  "default_journal_config =
     \<lparr>jc_path = [], jc_max_bytes = 64 * 1024 * 1024, jc_max_payload_bytes = 1024 * 1024,
      jc_fsync_on_commit = True\<rparr>"

definition default_engine_config :: EngineConfig where
  "default_engine_config =
     \<lparr>ec_initial_epoch = StrongId 1, ec_boot = StrongId 1, ec_advance_epoch_on_recovery = True,
      ec_durability = DurabilityMode_Strict, ec_max_envelopes = 4096, ec_max_flows = 4096,
      ec_max_grants = 4096, ec_max_reservations = 4096, ec_max_policies = 4096,
      ec_max_resources = 4096, ec_max_backends = 64, ec_max_attempts_per_envelope = 32,
      ec_max_audit_events = 4096, ec_max_attribute_bytes = 256, ec_attempt_deadline_ns = 0,
      ec_revalidate_interval_ns = 0, ec_journal = default_journal_config\<rparr>"

definition fresh_boot_id :: "OperatorEnv \<Rightarrow> u64" where
  "fresh_boot_id x =
     (let raw = mix64 (ox_process_id x) XOR mix64 (ox_started_ns x) in if raw = 0 then 1 else raw)"

datatype StartFailure =
    JournalNotGiven
  | RecoveryRefused Error
  | JournalAbsent
  | JournalNotOpened JournalResult
  | EndpointMalformed
  | WorkerUnreachable string

text \<open>The report is there exactly when the engine was recovered.\<close>

record 'b JournaledEngine =
  je_engine :: "'b Engine"
  je_recovery :: "RecoveryReport option"

definition open_or_recover ::
  "OperatorEnv \<Rightarrow> string \<Rightarrow> bool \<Rightarrow> StartFailure + 'b JournaledEngine" where
  "open_or_recover x path allow_create =
     (let config = default_engine_config\<lparr>ec_boot := StrongId (fresh_boot_id x),
                     ec_durability := DurabilityMode_Strict\<rparr>
      in if rx_files (ox_log x) path \<noteq> None then
           (case recover_engine (ox_log x) path config True of
              Inl err \<Rightarrow> Inl (RecoveryRefused err)
            | Inr (e, report) \<Rightarrow> Inr \<lparr>je_engine = e, je_recovery = Some report\<rparr>)
         else if \<not> allow_create then Inl JournalAbsent
         else (case journal_open (default_journal_config\<lparr>jc_path := path\<rparr>) True [] (ox_created x) of
             (res, None) \<Rightarrow> Inl (JournalNotOpened res)
           | (_, Some j) \<Rightarrow>
               Inr \<lparr>je_engine = rate_governor config None (Some j), je_recovery = None\<rparr>))"

section \<open>The coordinator\<close>

text \<open>The session with the worker, when there is one, is the backend of the engine.\<close>

record 'w CoordinatorSession =
  cs_engine :: "(RemoteBackend \<times> 'w) Engine"
  cs_recovery :: "RecoveryReport option"
  cs_connected :: bool
  cs_backend_id :: BackendId
  cs_backend_generation :: Generation
  cs_actor :: ActorContext

definition coordinator_session ::
  "(RemoteBackend \<times> 'w) Engine \<Rightarrow> RecoveryReport option \<Rightarrow> bool \<Rightarrow> BackendId \<Rightarrow> Generation
   \<Rightarrow> 'w CoordinatorSession" where
  "coordinator_session e report connected i g =
     \<lparr>cs_engine = e, cs_recovery = report, cs_connected = connected, cs_backend_id = i,
      cs_backend_generation = g,
      cs_actor = operator_context (eng_epoch e) (ec_boot (eng_config e)) ''rgctl coordinator''\<rparr>"

definition start_coordinator ::
  "'w SocketOs \<Rightarrow> OperatorEnv \<Rightarrow> Arguments \<Rightarrow> 'w \<Rightarrow> (StartFailure + 'w CoordinatorSession) \<times> 'w" where
  "start_coordinator os x args w =
     (let path = arg_get args ''--journal'' []; endpoint_text = arg_get args ''--endpoint'' []
      in if path = [] then (Inl JournalNotGiven, w)
         else (case open_or_recover x path True of
             Inl err \<Rightarrow> (Inl err, w)
           | Inr owned \<Rightarrow>
               let e = je_engine owned; report = je_recovery owned
               in if endpoint_text = []
                  then (Inr (coordinator_session e report False (StrongId 1) (StrongId 1)), w)
                  else (case endpoint_parse endpoint_text of
                      None \<Rightarrow> (Inl EndpointMalformed, w)
                    | Some endpoint \<Rightarrow>
                        (case remote_connect os endpoint (eng_epoch e) (ec_boot (eng_config e)) w of
                           (Inl err, w1) \<Rightarrow> (Inl (WorkerUnreachable err), w1)
                         | (Inr b, w1) \<Rightarrow>
                             (Inr (coordinator_session
                                (bind_backend (Some (remote_ops os, (b, w1))) (rb_admitted_epoch b) e) report
                                True (backend_id (rb_descriptor b)) (backend_generation (rb_descriptor b))),
                              w1)))))"

definition coordinator_options :: "Arguments \<Rightarrow> 'b Engine \<Rightarrow> ScenarioOptions" where
  "coordinator_options args e =
     (let ceiling = arg_get_u64 args ''--ceiling'' 1000
      in scenario_options\<lparr>so_ceiling_ups := ceiling, so_target_ups := ceiling * 6 div 10,
           so_floor_ups := ceiling div 10, so_burst_tokens := arg_get_u64 args ''--burst'' 2000,
           so_epoch := eng_epoch e, so_boot := ec_boot (eng_config e)\<rparr>)"

definition ensure_authority :: "Arguments \<Rightarrow> 'b Engine \<Rightarrow> 'b Engine" where
  "ensure_authority args e =
     (let e1 = install_scenario (coordinator_options args e) e
      in case eng_backend e1 of
           None \<Rightarrow> e1
         | Some (ops, b) \<Rightarrow> snd (put_backend (ops_describe ops b) e1))"

section \<open>The commands\<close>

record 'w CommandRun =
  cmd_exit :: int
  cmd_views :: "EnvelopeView list"
  cmd_engine :: "(RemoteBackend \<times> 'w) Engine option"
  cmd_world :: 'w

text \<open>A command that ends without an engine to show, and one that ends with it.\<close>

definition plain_exit :: "int \<Rightarrow> 'w \<Rightarrow> 'w CommandRun" where
  "plain_exit code w = \<lparr>cmd_exit = code, cmd_views = [], cmd_engine = None, cmd_world = w\<rparr>"

definition session_world :: "(RemoteBackend \<times> 'w) Engine \<Rightarrow> 'w \<Rightarrow> 'w" where
  "session_world e w = (case eng_backend e of None \<Rightarrow> w | Some (_, (b, w1)) \<Rightarrow> w1)"

definition engine_exit ::
  "int \<Rightarrow> EnvelopeView list \<Rightarrow> (RemoteBackend \<times> 'w) Engine \<Rightarrow> 'w \<Rightarrow> 'w CommandRun" where
  "engine_exit code views e w =
     \<lparr>cmd_exit = code, cmd_views = views, cmd_engine = Some e, cmd_world = session_world e w\<rparr>"

definition print_views :: "TimestampNs \<Rightarrow> 'b Engine \<Rightarrow> EnvelopeView list" where
  "print_views now e = list_envelopes now 64 e"

definition scan_of :: "OperatorEnv \<Rightarrow> string \<Rightarrow> JournalScanResult" where
  "scan_of x path =
     scan_journal_file (rx_files (ox_log x) path) (rx_measured (ox_log x)) (rx_rewound (ox_log x))
       (rx_got (ox_log x))"

definition replayed_engine :: "JournalScanResult \<Rightarrow> 'b Engine" where
  "replayed_engine scan = apply_snapshot_records (sc_committed scan)
     (rate_governor (default_engine_config\<lparr>ec_durability := DurabilityMode_None\<rparr>) None None)"

definition inspection_engine :: "JournalScanResult \<Rightarrow> 'b Engine" where
  "inspection_engine scan =
     (let e = replayed_engine scan;
          actor = operator_context (eng_epoch e) (ec_boot (eng_config e)) ''rgctl read-only inspection''
      in snd (snd (demote_for_recovery 0 actor e)))"

definition command_inspect :: "OperatorEnv \<Rightarrow> Arguments \<Rightarrow> 'w \<Rightarrow> 'w CommandRun" where
  "command_inspect x args w =
     (let path = arg_get args ''--journal'' []; scan = scan_of x path
      in if path = [] then plain_exit 2 w
         else if \<not> sc_ok scan then plain_exit 1 w
         else let e = inspection_engine scan in engine_exit 0 (print_views 0 e) e w)"

definition command_journal_scan :: "OperatorEnv \<Rightarrow> Arguments \<Rightarrow> 'w \<Rightarrow> 'w CommandRun" where
  "command_journal_scan x args w =
     (let path = arg_get args ''--journal'' []
      in if path = [] then plain_exit 2 w else plain_exit (if sc_ok (scan_of x path) then 0 else 1) w)"

text \<open>The accounting of the worker is fetched to be printed; the exchange uses the session.\<close>

definition report_accounting ::
  "'w SocketOs \<Rightarrow> (RemoteBackend \<times> 'w) Engine \<Rightarrow> (RemoteBackend \<times> 'w) Engine" where
  "report_accounting os e =
     (case eng_backend e of
        None \<Rightarrow> e
      | Some (ops, (b, w)) \<Rightarrow> e\<lparr>eng_backend := Some (ops, snd (fetch_accounting os b w))\<rparr>)"

definition command_apply :: "'w SocketOs \<Rightarrow> OperatorEnv \<Rightarrow> Arguments \<Rightarrow> 'w \<Rightarrow> 'w CommandRun" where
  "command_apply os x args w =
     (case start_coordinator os x args w of
        (Inl _, w1) \<Rightarrow> plain_exit 1 w1
      | (Inr session, w1) \<Rightarrow>
          let e = ensure_authority args (cs_engine session); actor = cs_actor session
          in (case open_envelope (ox_clock x 0) scenario_request actor e of
              (Inl _, e1) \<Rightarrow> engine_exit 1 [] e1 w1
            | (Inr opened, e1) \<Rightarrow>
                let requested = arg_get_u64 args ''--envelope'' 0;
                    target = (if requested \<noteq> 0 then StrongId requested else opened)
                in (case apply_envelope (ox_clock x 1) (ox_clock x 2) (ox_clock x 3) target actor e1 of
                    (Inl _, e2) \<Rightarrow> engine_exit 1 (print_views (ox_clock x 4) e2) e2 w1
                  | (Inr applied, e2) \<Rightarrow>
                      engine_exit (if ad_verified applied then 0 else 1) (print_views (ox_clock x 4) e2)
                        (report_accounting os e2) w1)))"

definition command_recover :: "'w SocketOs \<Rightarrow> OperatorEnv \<Rightarrow> Arguments \<Rightarrow> 'w \<Rightarrow> 'w CommandRun" where
  "command_recover os x args w =
     (case start_coordinator os x args w of
        (Inl _, w1) \<Rightarrow> plain_exit 1 w1
      | (Inr session, w1) \<Rightarrow>
          engine_exit 0 (print_views (ox_clock x 0) (cs_engine session)) (cs_engine session) w1)"

definition command_revalidate :: "'w SocketOs \<Rightarrow> OperatorEnv \<Rightarrow> Arguments \<Rightarrow> 'w \<Rightarrow> 'w CommandRun" where
  "command_revalidate os x args w =
     (case start_coordinator os x args w of
        (Inl _, w1) \<Rightarrow> plain_exit 1 w1
      | (Inr session, w1) \<Rightarrow>
          if \<not> cs_connected session then engine_exit 1 [] (cs_engine session) w1
          else (case revalidate_all (ox_clock x 0) (ox_revalidated x) (cs_actor session) (cs_engine session) of
              (_, e) \<Rightarrow> engine_exit 0 (print_views (ox_clock x 1) e) e w1))"

definition command_revoke :: "'w SocketOs \<Rightarrow> OperatorEnv \<Rightarrow> Arguments \<Rightarrow> 'w \<Rightarrow> 'w CommandRun" where
  "command_revoke os x args w =
     (case start_coordinator os x args w of
        (Inl _, w1) \<Rightarrow> plain_exit 1 w1
      | (Inr session, w1) \<Rightarrow>
          if \<not> cs_connected session then engine_exit 1 [] (cs_engine session) w1
          else (case revoke (ox_clock x 0) (ox_clock x 1) (ox_clock x 2)
                       (StrongId (arg_get_u64 args ''--envelope'' 1)) R_EnvelopeRevokedByOperator
                       (cs_actor session) (cs_engine session) of
              (Inl _, e) \<Rightarrow> engine_exit 1 [] e w1
            | (Inr revoked, e) \<Rightarrow>
                engine_exit (if rd_verified revoked then 0 else 1) (print_views (ox_clock x 3) e) e w1))"

section \<open>The offline commands\<close>

definition default_device_config :: SyntheticDeviceConfig where
  "default_device_config =
     \<lparr>sd_max_rate_ups = 0, sd_max_burst_tokens = 0, sd_envelope_limit = 4096, sd_fail_every_nth_apply = 0,
      sd_refuse_every_nth_verify = 0, sd_underreport_every_nth_verify = 0,
      sd_overreport_every_nth_verify = 0, sd_refuse_all_applies = False, sd_refuse_all_verifies = False,
      sd_apply_spins = 0\<rparr>"

definition offline_config :: EngineConfig where
  "offline_config = default_engine_config\<lparr>ec_durability := DurabilityMode_None, ec_boot := StrongId 1\<rparr>"

definition offline_backend :: "string \<Rightarrow> SyntheticBackend" where
  "offline_backend label =
     synthetic_backend (StrongId 1) (StrongId 1) default_device_config (ec_boot offline_config)
       (ec_initial_epoch offline_config) label"

definition offline_options :: "'b Engine \<Rightarrow> ScenarioOptions" where
  "offline_options e = scenario_options\<lparr>so_epoch := eng_epoch e, so_boot := ec_boot (eng_config e)\<rparr>"

text \<open>An engine over the in-process device with the scenario and the descriptor installed.\<close>

definition offline_engine :: "string \<Rightarrow> string \<Rightarrow> (ScenarioOptions \<Rightarrow> ScenarioOptions) \<Rightarrow> SyntheticBackend Engine" where
  "offline_engine label detail adjust =
     (let backend = offline_backend label;
          e = rate_governor offline_config (Some (synthetic_ops, backend)) None;
          e1 = install_scenario (adjust (offline_options e)) e
      in snd (put_backend ((ops_describe synthetic_ops backend)
           \<lparr>backend_provenance := scenario_provenance detail\<rparr>) e1))"

definition selfcheck_arithmetic :: "bool list" where
  "selfcheck_arithmetic =
     [mul_div 1000000000 3 1000000000 = Some 3, mul_div kU64Max 2 1 = None, checked_add kU64Max 1 = None]"

definition selfcheck_split :: TokenBucket where
  "selfcheck_split =
     fold (\<lambda>i b. snd (refill_bucket b (of_nat (i + 1) * 1000000))) [0..<1000]
       (snd (try_consume (configure_bucket empty_bucket 10 1 0) 10))"

definition selfcheck_buckets :: "bool list" where
  "selfcheck_buckets =
     (let b0 = snd (try_consume (configure_bucket empty_bucket 1000 1000 0) 1000);
          b1 = snd (refill_bucket b0 500000000);
          b2 = snd (refill_bucket b1 1000000000)
      in [bk_tokens b1 = 500 \<and> bk_tokens b2 = 1000, bk_tokens selfcheck_split = 1])"

definition selfcheck_frame :: bool where
  "selfcheck_frame =
     (let probe = \<lparr>fr_type = MessageType_HelloAck, fr_flags = 0, fr_payload = [1, 2, 3]\<rparr>
      in case decode_frame (encode_frame probe) of
           Inl _ \<Rightarrow> False
         | Inr decoded \<Rightarrow> fr_payload decoded = fr_payload probe)"

text \<open>The checks on the engine; they end early, with \<^const>\<open>None\<close>, when no envelope is opened.\<close>

definition selfcheck_engine :: "(bool list \<times> EnvelopeView list) option" where
  "selfcheck_engine =
     (let e = offline_engine ''selfcheck'' ''selfcheck backend'' (\<lambda>o1. o1);
          actor = scenario_actor (offline_options e);
          installed = (st_grants (storage_stats e) = 1)
      in case open_envelope 0 scenario_request actor e of
           (Inl _, _) \<Rightarrow> None
         | (Inr i, e1) \<Rightarrow>
             (case apply_envelope 0 0 0 i actor e1 of (applied, e2) \<Rightarrow>
                let view = inspect 0 i e2
                in Some ([installed, True,
                          (case applied of Inl _ \<Rightarrow> False | Inr r \<Rightarrow> ad_verified r),
                          (case view of Inl _ \<Rightarrow> False | Inr v \<Rightarrow> view_legally_enforceable_now v)],
                         (case view of Inl _ \<Rightarrow> [] | Inr v \<Rightarrow> [v]))))"

definition command_selfcheck :: "'w \<Rightarrow> 'w CommandRun" where
  "command_selfcheck w =
     (case selfcheck_engine of
        None \<Rightarrow> plain_exit 1 w
      | Some (checks, views) \<Rightarrow>
          (plain_exit (if list_all id (selfcheck_arithmetic @ selfcheck_buckets @ checks @ [selfcheck_frame])
                       then 0 else 1) w)\<lparr>cmd_views := views\<rparr>)"

definition demo_options :: "Arguments \<Rightarrow> ScenarioOptions \<Rightarrow> ScenarioOptions" where
  "demo_options args o1 =
     (let ceiling = arg_get_u64 args ''--ceiling'' 1000
      in o1\<lparr>so_ceiling_ups := ceiling, so_target_ups := ceiling * 6 div 10, so_floor_ups := ceiling div 10\<rparr>)"

text \<open>The views of the walkthrough: after the apply, and after the recall of the grant.\<close>

definition command_demo :: "Arguments \<Rightarrow> 'w \<Rightarrow> 'w CommandRun" where
  "command_demo args w =
     (let e = offline_engine ''demo synthetic device'' ''demo backend descriptor'' (demo_options args);
          actor = scenario_actor (offline_options e)
      in case open_envelope 0 scenario_request actor e of
           (Inl _, _) \<Rightarrow> plain_exit 1 w
         | (Inr i, e1) \<Rightarrow>
             let e2 = snd (apply_envelope 0 0 0 i actor e1);
                 e3 = snd (consume_burst 1000 i 100 e2);
                 e4 = snd (tick 1000 e3);
                 e5 = snd (apply_envelope 1000 1000 1000 i actor e4);
                 e6 = snd (change_grant_state (si_grant scenario_ids) (StrongId 1) GrantState_Recalled
                        R_EnvelopeRevokedByGrantRecall actor e5);
                 e7 = snd (tick 1000 e6);
                 shown = (\<lambda>now s. case inspect now i s of Inl _ \<Rightarrow> [] | Inr v \<Rightarrow> [v])
             in (plain_exit 0 w)\<lparr>cmd_views := shown 0 e2 @ shown 1000 e7\<rparr>)"

definition run_command :: "'w SocketOs \<Rightarrow> OperatorEnv \<Rightarrow> string list \<Rightarrow> 'w \<Rightarrow> 'w CommandRun" where
  "run_command os x argv w =
     (let args = command_arguments argv;
          command = (case ag_positional args of [] \<Rightarrow> [] | c # _ \<Rightarrow> c)
      in if command = [] \<or> arg_has args ''--help'' then plain_exit (if command = [] then 2 else 0) w
         else if command = ''version'' then plain_exit 0 w
         else if command = ''selfcheck'' then command_selfcheck w
         else if command = ''demo'' then command_demo args w
         else if command = ''inspect'' then command_inspect x args w
         else if command = ''apply'' then command_apply os x args w
         else if command = ''recover'' then command_recover os x args w
         else if command = ''revalidate'' then command_revalidate os x args w
         else if command = ''revoke'' then command_revoke os x args w
         else if command = ''journal-scan'' then command_journal_scan x args w
         else plain_exit 2 w)"

section \<open>What is shown of a log\<close>

definition shows_no_effect :: "EnvelopeView \<Rightarrow> bool" where
  "shows_no_effect v \<longleftrightarrow>
     \<not> view_legally_enforceable_now v \<and> \<not> view_effect_verified v
     \<and> view_state v \<noteq> EnvelopeState_Applied \<and> view_state v \<noteq> EnvelopeState_Dispatching
     \<and> (view_applied_rate_ups v \<noteq> 0 \<or> view_applied_burst_tokens v \<noteq> 0 \<longrightarrow> view_requires_revalidation v)"

lemma withdrawn_shows_no_effect: "withdrawn env \<Longrightarrow> shows_no_effect (make_view_locked env now e)"
  by (auto simp: withdrawn_def shows_no_effect_def make_view_locked_def claims_effect_def Let_def)

text \<open>An engine whose envelopes are all withdrawn shows no effect.\<close>

lemma views_of_withdrawn:
  assumes "keyed envelope_key (eng_envelopes e)"
    and "\<And>k env. table_find (eng_envelopes e) k = Some env \<Longrightarrow> withdrawn env"
  shows "list_all shows_no_effect (print_views now e)"
proof -
  have "withdrawn env" if "(k, env) \<in> set (eng_envelopes e)" for k env
    using assms(2) table_entry_find [OF keyed_ok [OF assms(1)] that] .
  then show ?thesis
    by (auto simp: list_all_iff print_views_def list_envelopes_def intro!: withdrawn_shows_no_effect
          dest!: in_set_takeD)
qed

lemma view_keys:
  assumes "keyed envelope_key (eng_envelopes e)"
  shows "map (\<lambda>v. id_value (view_id v)) (print_views now e)
     = map fst (take (min 64 (unat (ec_max_envelopes (eng_config e)))) (eng_envelopes e))"
  using assms
  by (auto simp: print_views_def list_envelopes_def make_view_locked_def Let_def keyed_def
        dest!: in_set_takeD)

lemma well_keyed_snapshot:
  "well_keyed (apply_snapshot_records rs (rate_governor config None journal))"
  unfolding apply_snapshot_records_def
  by (rule fold_invariant) (simp_all add: well_keyed_replay, simp add: well_keyed_def constructed_tables)

lemma commit_many_volatile:
  "ec_durability (eng_config e) \<noteq> DurabilityMode_Strict \<Longrightarrow> commit_many_locked rs e = (Inr (), e)"
  by (induction rs e rule: commit_many_locked.induct)
     (subst commit_many_locked.simps, simp add: commit_records_locked_def)

lemma table_keys_find:
  assumes "table_ok m"
  shows "k \<in> set (map fst m) \<longleftrightarrow> table_find m k \<noteq> None"
proof
  assume "k \<in> set (map fst m)"
  then obtain v where "(k, v) \<in> set m" by auto
  then show "table_find m k \<noteq> None" using table_entry_find [OF assms] by simp
next
  assume "table_find m k \<noteq> None"
  then obtain v where "(k, v) \<in> set m" using table_find_entry by (metis not_None_eq)
  then show "k \<in> set (map fst m)" by force
qed

lemma same_keys:
  assumes "table_ok m" "table_ok m1" "\<And>k. table_find m1 k = None \<longleftrightarrow> table_find m k = None"
  shows "map fst m1 = map fst m"
proof (rule strict_sorted_equal)
  show "set (map fst m1) = set (map fst m)"
    using assms(3) by (simp only: set_eq_iff table_keys_find [OF assms(1)] table_keys_find [OF assms(2)]) simp
qed (use assms(1,2) in \<open>simp_all add: table_ok_def\<close>)

lemma replayed_frame:
  fixes e :: "'b Engine"
  assumes "e = replayed_engine scan"
  shows "id_valid (eng_epoch e)" "ec_boot (eng_config e) = StrongId 1"
    "ec_durability (eng_config e) = DurabilityMode_None" "ec_max_envelopes (eng_config e) = 4096"
    "\<not> eng_backend_bound e" "well_keyed e"
proof -
  let ?c = "default_engine_config\<lparr>ec_durability := DurabilityMode_None\<rparr>"
  have "eng_epoch (rate_governor ?c None None :: 'b Engine) \<le> eng_epoch e"
    unfolding assms replayed_engine_def by (rule apply_snapshot_frame(2))
  then show "id_valid (eng_epoch e)"
    by (auto simp: constructed_frame default_engine_config_def id_valid_def less_eq_StrongId_def)
  have "eng_config e = normalize_config ?c"
    by (simp add: assms replayed_engine_def replays_durable rate_governor_def Let_def)
  then show "ec_boot (eng_config e) = StrongId 1" "ec_durability (eng_config e) = DurabilityMode_None"
    "ec_max_envelopes (eng_config e) = 4096"
    by (simp_all add: normalize_config_def default_engine_config_def Let_def id_valid_def)
  show "\<not> eng_backend_bound e" "well_keyed e"
    by (simp_all add: assms replayed_engine_def apply_snapshot_frame constructed_frame well_keyed_snapshot)
qed

lemma inspection_demotes:
  fixes e :: "'b Engine"
  assumes "e = replayed_engine scan"
  obtains actor counts where "demote_for_recovery 0 actor e = (Inr (), counts, inspection_engine scan)"
proof -
  define actor where "actor = operator_context (eng_epoch e) (ec_boot (eng_config e)) ''rgctl read-only inspection''"
  note f = replayed_frame [OF assms]
  have "check_actor_locked actor e = None"
    using f(1,2)
    by (simp add: actor_def check_actor_locked_def operator_context_def has_incarnation_def authoritative_def id_valid_def)
  then have "refuse_actor actor e = (None :: (Status \<times> 'b Engine) option)" by (simp add: refuse_actor_def)
  with f(3) have "\<exists>counts e1. demote_for_recovery 0 actor e = (Inr (), counts, e1)"
    by (simp add: demote_for_recovery_def commit_many_volatile Let_def)
  then obtain counts e1 where d: "demote_for_recovery 0 actor e = (Inr (), counts, e1)" by blast
  moreover have "e1 = inspection_engine scan"
    by (simp add: inspection_engine_def assms [symmetric] actor_def [symmetric] d)
  ultimately show thesis using that by blast
qed

lemma demotion_keeps_config:
  assumes "demote_for_recovery now actor e = (Inr u, counts, e1)"
  shows "eng_config e1 = eng_config e"
  using assms
  by (auto simp: demote_for_recovery_def refuse_actor_def fail_def Let_def put_updates_durable
        only_durability_fields [OF commit_many_frame] split: option.splits prod.splits sum.splits if_splits)

lemma inspection_withdraws:
  fixes scan :: JournalScanResult
  defines "e \<equiv> inspection_engine scan :: 'b Engine"
  shows "nothing_claimed e" "keyed envelope_key (eng_envelopes e)"
    "map fst (eng_envelopes e) = map fst (eng_envelopes (replayed_engine scan :: 'b Engine))"
    "ec_max_envelopes (eng_config e) = 4096"
proof -
  define e0 where "e0 = (replayed_engine scan :: 'b Engine)"
  note f = replayed_frame [OF e0_def]
  obtain actor counts where d: "demote_for_recovery 0 actor e0 = (Inr (), counts, e)"
    unfolding e_def by (rule inspection_demotes [OF e0_def])
  note s = demote_for_recovery_success [OF d]
  show "nothing_claimed e" by (rule demoted_claims_nothing [OF f(6,5) d])
  have k0: "keyed envelope_key (eng_envelopes e0)" using f(6) by (simp add: well_keyed_def)
  then show k: "keyed envelope_key (eng_envelopes e)" by (simp add: s(1) keyed_put_all)
  show "map fst (eng_envelopes e) = map fst (eng_envelopes (replayed_engine scan :: 'b Engine))"
    unfolding e0_def [symmetric]
    by (rule same_keys [OF keyed_ok [OF k0] keyed_ok [OF k]]) (simp add: s(1) demoted_find(1) [OF f(6)])
  show "ec_max_envelopes (eng_config e) = 4096" using demotion_keeps_config [OF d] f(4) by simp
qed

lemma started_engine:
  "cs_engine (coordinator_session e report connected i g) = e"
  "eng_envelopes (bind_backend backend ep e) = eng_envelopes e"
  by (simp_all add: coordinator_session_def bind_backend_def Let_def)

lemma opened_withdrawn:
  assumes "open_or_recover x path allow_create = Inr owned"
  shows "keyed envelope_key (eng_envelopes (je_engine owned))
    \<and> (\<forall>k env. table_find (eng_envelopes (je_engine owned)) k = Some env \<longrightarrow> withdrawn env)"
proof (cases "rx_files (ox_log x) path")
  case None
  then have "eng_envelopes (je_engine owned) = []"
    using assms by (auto simp: open_or_recover_def Let_def constructed_tables split: if_splits option.splits prod.splits)
  then show ?thesis by simp
next
  case (Some bs)
  then obtain config report where r: "recover_engine (ox_log x) path config True = Inr (je_engine owned, report)"
    using assms by (auto simp: open_or_recover_def Let_def split: sum.splits prod.splits)
  then show ?thesis using recovery_withdraws [OF r] by (simp add: nothing_claimed_def)
qed

lemma started_withdrawn:
  fixes os :: "'w SocketOs"
  assumes "start_coordinator os x args w = (Inr session, w1)"
  shows "list_all shows_no_effect (print_views now (cs_engine session))"
proof -
  obtain owned :: "(RemoteBackend \<times> 'w) JournaledEngine" where o: "open_or_recover x (arg_get args ''--journal'' []) True = Inr owned"
    "eng_envelopes (cs_engine session) = eng_envelopes (je_engine owned)"
    using assms that unfolding start_coordinator_def Let_def
    by (auto simp: started_engine split: if_splits sum.splits option.splits prod.splits)
  note opened_withdrawn [OF o(1)]
  with views_of_withdrawn [of "cs_engine session" now] show ?thesis by (simp add: o(2))
qed


section \<open>Exit codes\<close>

lemma finish_apply_claims:
  assumes "finish_apply now i j request report e = (Inr c, e1)" "co_verified c"
  shows "engine_claims e1 (id_value i) = Some (ar_rate_ups request)"
proof -
  obtain e2 where r: "finish_apply_report now i j report e = (None, e2)"
    using assms finish_apply_report_answer by (fastforce simp: finish_apply_def split: prod.splits option.splits)
  then obtain v e3 where "finish_apply_verified now i j request v e3 = (Inr c, e1)"
    using assms(1) by (auto simp: finish_apply_def split: prod.splits)
  then show ?thesis using finish_apply_verified_answer assms(2) by (metis (full_types))
qed

lemma finish_revoke_revokes:
  assumes "finish_revoke now i j report e = (Inr c, e1)" "co_verified c"
  shows "\<exists>u. find_envelope_locked i e1 = Some u \<and> env_state u = EnvelopeState_Revoked \<and> env_applied_rate_ups u = 0"
proof -
  obtain probe e2 where r: "finish_revoke_report now i j report e = (Inr probe, e2)"
    using assms finish_revoke_report_answer(1) by (fastforce simp: finish_revoke_def split: prod.splits sum.splits)
  then obtain v before e3 where "finish_revoke_verified now i j v before e3 = (Inr c, e1)"
    using assms(1) by (auto simp: finish_revoke_def split: prod.splits)
  then show ?thesis using finish_revoke_verified_answer assms(2) by (metis (full_types))
qed

text \<open>An answer that is given before anything is dispatched is not a verified one.\<close>

lemma apply_phase_one_unverified:
  "apply_phase_one now i actor e = (PhaseReturn (Inr d), e1) \<Longrightarrow> \<not> ad_verified d"
  "apply_phase_one now i actor e \<noteq> (PhaseSessionLost (Inr d), e1)"
  unfolding apply_phase_one_def Let_def
  by (auto simp: refuse_intake_def refuse_actor_def reject_shutdown_def session_refusal_def deny_apply_def
        dispatch_planned_def fail_def empty_apply_dispatch_def Let_def
        split: option.splits prod.splits sum.splits if_splits)

lemma revoke_phase_one_unverified:
  "revoke_phase_one now i reason actor e = (PhaseReturn (Inr d), e1) \<Longrightarrow> \<not> rd_verified d"
  "revoke_phase_one now i reason actor e \<noteq> (PhaseSessionLost (Inr d), e1)"
  unfolding revoke_phase_one_def Let_def
  by (auto simp: refuse_intake_def refuse_actor_def reject_shutdown_def session_refusal_def
        dispatch_revocation_def fail_def empty_revoke_dispatch_def Let_def
        split: option.splits prod.splits sum.splits if_splits)

lemma apply_verified_claims:
  assumes "apply_envelope now received_at finished i actor e = (Inr d, e1)" "ad_verified d"
  shows "\<exists>rate. engine_claims e1 (id_value i) = Some rate"
    "\<exists>d1 request e2. apply_phase_one now i actor e = (PhaseProceed d1 request, e2)"
  using assms apply_phase_one_unverified [of now i actor e] finish_apply_claims
  by (fastforce simp: apply_envelope_def split: prod.splits PhaseOne.splits sum.splits)+

lemma revoke_verified_revokes:
  assumes "revoke now received_at finished i reason actor e = (Inr d, e1)" "rd_verified d"
  shows "\<exists>u. find_envelope_locked i e1 = Some u \<and> env_state u = EnvelopeState_Revoked \<and> env_applied_rate_ups u = 0"
  using assms revoke_phase_one_unverified [of now i reason actor e] finish_revoke_revokes
  by (fastforce simp: revoke_def split: prod.splits PhaseOne.splits sum.splits)

lemma opened_request:
  assumes "open_envelope now req actor e = (Inr i, e1)"
  shows "\<exists>env. find_envelope_locked i e1 = Some env \<and> env_backend env = req_backend req"
  using assms
  by (auto simp: open_envelope_def refuse_intake_def refuse_actor_def reject_shutdown_def fail_def Let_def
        find_envelope_locked_def opened_envelope_def split: option.splits prod.splits sum.splits if_splits)

lemma phase_one_matches:
  assumes "apply_phase_one now i actor e = (PhaseProceed d request, e1)" "find_envelope_locked i e = Some env"
  shows "descriptor_matches env e"
  using assms unfolding apply_phase_one_def Let_def
  by (auto simp: session_refusal_def split: option.splits prod.splits if_splits)

lemma put_backends:
  "eng_backend (snd (put_flow f e)) = eng_backend e" "eng_backend (snd (put_resource r e)) = eng_backend e"
  "eng_backend (snd (put_grant g e)) = eng_backend e" "eng_backend (snd (put_reservation v e)) = eng_backend e"
  "eng_backend (snd (put_policy p e)) = eng_backend e" "eng_backend (snd (put_backend d e)) = eng_backend e"
  unfolding put_flow_def put_resource_def put_grant_def put_reservation_def put_policy_def put_backend_def
  by (auto simp: reject_shutdown_def Let_def only_durability_fields(2) [OF commit_one_frame]
        split: prod.splits sum.splits)

lemma ensure_authority_backend: "eng_backend (ensure_authority args e) = eng_backend e"
  by (simp add: ensure_authority_def install_scenario_def Let_def put_backends split: option.splits prod.splits)

text \<open>
  A coordinator reports success only for an effect.  When \<^verbatim>\<open>rgctl apply\<close> ends with
  code 0 the engine claims a rate for the envelope, and when \<^verbatim>\<open>rgctl revoke\<close> does, the
  envelope is revoked and no rate is left.
\<close>

theorem apply_exit_zero_claims:
  assumes "cmd_exit (command_apply os x args w) = 0"
  shows "\<exists>e k rate. cmd_engine (command_apply os x args w) = Some e \<and> engine_claims e k = Some rate
     \<and> (let requested = arg_get_u64 args ''--envelope'' 0 in requested \<noteq> 0 \<longrightarrow> k = requested)"
proof -
  have acc: "engine_claims (report_accounting os e) = engine_claims e" for e
    by (auto simp: report_accounting_def engine_claims_def fun_eq_iff split: option.splits)
  show ?thesis
    using assms apply_verified_claims(1)
    by (fastforce simp: command_apply_def plain_exit_def engine_exit_def acc Let_def
          split: prod.splits sum.splits if_splits)
qed

theorem revoke_exit_zero_revokes:
  assumes "cmd_exit (command_revoke os x args w) = 0"
  shows "\<exists>e u. cmd_engine (command_revoke os x args w) = Some e
     \<and> find_envelope_locked (StrongId (arg_get_u64 args ''--envelope'' 1)) e = Some u
     \<and> env_state u = EnvelopeState_Revoked \<and> env_applied_rate_ups u = 0"
  using assms revoke_verified_revokes
  by (fastforce simp: command_revoke_def plain_exit_def engine_exit_def split: prod.splits sum.splits if_splits)

text \<open>
  The envelope that \<^verbatim>\<open>rgctl apply\<close> opens is bound to backend 1, whatever the worker it
  is connected to is.  With a worker of another identity, as its flag
  \<^verbatim>\<open>--backend-id\<close> allows, the apply of the envelope it has just opened can therefore
  never succeed, although the descriptor of the worker was installed.
\<close>

theorem apply_needs_backend_one:
  assumes "start_coordinator os x args w = (Inr session, w1)" "cs_connected session"
    and "cs_backend_id session \<noteq> StrongId 1" "arg_get_u64 args ''--envelope'' 0 = 0"
  shows "cmd_exit (command_apply os x args w) = 1"
proof -
  obtain b where b: "eng_backend (cs_engine session) = Some (remote_ops os, b)"
    "cs_backend_id session = backend_id (ops_describe (remote_ops os) b)"
    using assms(1,2) unfolding start_coordinator_def Let_def
    by (auto simp: coordinator_session_def bind_backend_def remote_ops_def Let_def
          split: if_splits sum.splits option.splits prod.splits)
  have "\<not> ad_verified d"
    if o: "open_envelope t0 scenario_request (cs_actor session) (ensure_authority args (cs_engine session)) = (Inr i, e1)"
      and a: "apply_envelope t1 t2 t3 i (cs_actor session) e1 = (Inr d, e2)" for t0 i e1 t1 t2 t3 d e2
  proof
    assume "ad_verified d"
    then obtain d1 request e3 where p: "apply_phase_one t1 i (cs_actor session) e1 = (PhaseProceed d1 request, e3)"
      using apply_verified_claims(2) [OF a] by blast
    obtain env where env: "find_envelope_locked i e1 = Some env" "env_backend env = StrongId 1"
      using opened_request [OF o] by (auto simp: scenario_request_def scenario_ids_def)
    have "eng_backend e1 = Some (remote_ops os, b)"
      using open_envelope_backend [of t0 scenario_request "cs_actor session"
          "ensure_authority args (cs_engine session)"] o b(1) by (simp add: ensure_authority_backend)
    with phase_one_matches [OF p env(1)] env(2) assms(3) b(2) show False by (simp add: descriptor_matches_def)
  qed
  then show ?thesis
    using assms(1,4) by (auto simp: command_apply_def engine_exit_def Let_def split: prod.splits sum.splits)
qed

end
