(* ===== verification/Spec2Isabelle.thy ===== *)
theory Spec2Isabelle
  imports Engine_Findings Recovery_Safety Remote_Engine Durability_Findings Event_Delivery Operator
begin

text \<open>
  A verification of Rate Governor, a control plane that decides which rate may be
  enforced for a flow, has a backend enforce it, and claims only what was read back.

  \<^bold>\<open>The program.\<close>  The engine (class \<^verbatim>\<open>RateGovernor\<close>) holds authorities (flows, resources,
  grants, reservations, policies, backends), each with a generation, and rate envelopes
  that bind to them.  A plan is derived from the authorities of an envelope; its rate is
  dispatched to a backend as an attempt, and the envelope counts as applied only after a
  readback.  Every change is committed to a journal first; a restarted coordinator scans
  the journal, replays it, takes back every claim and starts a new epoch.  A backend is
  an in-process device or a worker process behind a loopback socket; it fences requests
  of epochs and incarnations it has not admitted.

  \<^bold>\<open>Foundations.\<close>  \<^verbatim>\<open>RG_Prelude\<close> has the word types, the ordered association tables that
  stand for \<^verbatim>\<open>std::map\<close>, and the locale of their laws.  \<^verbatim>\<open>Checked_Math\<close>
  (\<^verbatim>\<open>checked_math.hpp\<close>), \<^verbatim>\<open>Ids\<close> (\<^verbatim>\<open>ids.hpp\<close>, \<^verbatim>\<open>ids.cpp\<close>), \<^verbatim>\<open>Reasons\<close> (\<^verbatim>\<open>reason.hpp\<close>, \<^verbatim>\<open>reason.cpp\<close>,
  \<^verbatim>\<open>error.hpp\<close>), \<^verbatim>\<open>Entities\<close> (\<^verbatim>\<open>clock.hpp\<close>, \<^verbatim>\<open>provenance.hpp\<close>, \<^verbatim>\<open>entities.hpp\<close>, \<^verbatim>\<open>entities.cpp\<close>),
  \<^verbatim>\<open>Bucket\<close> (\<^verbatim>\<open>bucket.hpp\<close>, \<^verbatim>\<open>bucket.cpp\<close>), \<^verbatim>\<open>Envelope\<close> (\<^verbatim>\<open>envelope.hpp\<close>), \<^verbatim>\<open>Plan\<close> (\<^verbatim>\<open>plan.hpp\<close>, \<^verbatim>\<open>plan.cpp\<close>)
  and \<^verbatim>\<open>Text_Forms\<close> (the \<^verbatim>\<open>to_string_view\<close> and \<^verbatim>\<open>describe\<close> texts) translate the headers and sources of
  these names: a struct is a record, an enum a datatype, an integer a word of its width.
  Shown are the exactness of the 128-bit arithmetic, of the refill and of any split of
  it, the invariant of the bucket, and that a plan is authorized exactly when every
  authority supports it, stays below every declared ceiling and burst, and publishes a
  fingerprint that is matched by exactly the authorities it was derived from.

  \<^bold>\<open>Durability.\<close>  \<^verbatim>\<open>Codec\<close> (\<^verbatim>\<open>codec.cpp\<close>), \<^verbatim>\<open>Crc\<close>, \<^verbatim>\<open>Record_Codec\<close> (\<^verbatim>\<open>record_codec.cpp\<close>) and \<^verbatim>\<open>Journal\<close>
  (\<^verbatim>\<open>journal.hpp\<close>, \<^verbatim>\<open>journal.cpp\<close>) model the bytes on disk.  The file system is a list of
  answers, one per operation, so that each write, barrier or rename can fail, a write
  also after a part of its bytes.  Shown are the equality of the table-driven checksum
  with the bitwise division, the round trips of the records, that a log cut anywhere
  scans to the transactions committed in it, and that transactions and compactions are
  atomic under every failure.  \<^verbatim>\<open>Durability\<close> has the progress of commits, and
  \<^verbatim>\<open>Durability_Findings\<close> shows that a commit which triggers a compaction loses what it
  committed.

  \<^bold>\<open>The engine.\<close>  \<^verbatim>\<open>Engine_State\<close> (\<^verbatim>\<open>engine.hpp\<close>, \<^verbatim>\<open>engine.cpp\<close>), \<^verbatim>\<open>Engine_Authority\<close>
  (\<^verbatim>\<open>engine_authority.cpp\<close>), \<^verbatim>\<open>Engine_Envelopes\<close>, \<^verbatim>\<open>Engine_Enforcement\<close> and \<^verbatim>\<open>Engine_Revoke\<close>
  (\<^verbatim>\<open>engine_lifecycle.cpp\<close>), \<^verbatim>\<open>Engine_Maintenance\<close> and \<^verbatim>\<open>Engine_View\<close> (\<^verbatim>\<open>engine_runtime.cpp\<close>) and
  \<^verbatim>\<open>Recovery\<close> (\<^verbatim>\<open>recovery.cpp\<close>) have one definition per operation and one per section that
  runs under the lock; the clock reading, the configuration and the answers of a backend
  are arguments.  An operation returns an error or a result, and the new engine.
  \<^verbatim>\<open>Engine_Frames\<close> says what one section can change.  \<^verbatim>\<open>Engine_Steps\<close> interleaves the
  sections of any number of operations in a step relation, with the invariant of its
  reachable states and an abstract protocol of claims.  \<^verbatim>\<open>Engine_Runs\<close>, \<^verbatim>\<open>Engine_Outcomes\<close>,
  \<^verbatim>\<open>Engine_Liveness\<close> and \<^verbatim>\<open>Recovery_Safety\<close> show that an envelope presented as enforceable
  stays within the limits of its current authorities, that every section is a step of
  the protocol, that at most one dispatch is in flight, what the answers verified and
  revoked mean, that a dispatched apply to a ready device takes effect, and that a
  recovered engine claims nothing.  \<^verbatim>\<open>Engine_Findings\<close> has a run in which the tick keeps a
  claim of a dead session.  \<^verbatim>\<open>Event_Delivery\<close> (\<^verbatim>\<open>engine_lock.hpp\<close>) shows that events reach the
  sink in order and outside the lock.

  \<^bold>\<open>Backends and the worker.\<close>  \<^verbatim>\<open>Backend\<close> (\<^verbatim>\<open>backend.hpp\<close>, \<^verbatim>\<open>backend.cpp\<close>, \<^verbatim>\<open>synthetic_device.hpp\<close>,
  \<^verbatim>\<open>synthetic_backend.cpp\<close>) has the devices and the locale \<open>fencing_backend\<close>, the contract the
  engine relies on, interpreted on the synthetic backend and, in \<^verbatim>\<open>Remote_Worker\<close>, on the
  remote one.  \<^verbatim>\<open>Wire\<close> (\<^verbatim>\<open>wire.hpp\<close>, \<^verbatim>\<open>wire.cpp\<close>) has the frames and messages, \<^verbatim>\<open>Ipc\<close> (\<^verbatim>\<open>ipc.hpp\<close>,
  \<^verbatim>\<open>ipc.cpp\<close>) the sockets, \<^verbatim>\<open>Worker_Session\<close> (\<^verbatim>\<open>worker_session.cpp\<close>) the reader, the bounded queue
  and the threads of one session, \<^verbatim>\<open>Worker_Process\<close> (\<^verbatim>\<open>tools/rg_backend_worker.cpp\<close>,
  \<^verbatim>\<open>tools/cli_common.hpp\<close>) the accept loop with its sessions, and \<^verbatim>\<open>Remote_Backend\<close>
  (\<^verbatim>\<open>remote_backend.cpp\<close>) the coordinator's side.  Shown are that decoders accept exactly what
  encoders produce, that damaged frames are refused, that a frame crosses any stream
  however it is cut, the bounds of the queue and of the sessions over all interleavings,
  that the handshake admits exactly the incarnations the device admits, that the whole
  path from message to device and back refines a call of the device, and that an apply
  of the engine over it takes effect in the worker.

  \<^bold>\<open>The operator tool.\<close>  \<^verbatim>\<open>Operator\<close> (\<^verbatim>\<open>tools/rgctl.cpp\<close>, \<^verbatim>\<open>tools/scenario.hpp\<close>) composes the parts:
  a command opens or recovers the log, connects to a worker, installs the scenario and
  drives the engine.  Shown are that inspecting or recovering a log presents none of it
  as an effect, that an exit code of 0 of an apply or a revoke means that the engine
  claims the rate or has revoked the envelope, and that an apply cannot succeed with a
  worker whose backend is not number 1.

  \<^bold>\<open>Code outside.\<close>  The socket calls of the operating system are the record \<open>SocketOs\<close>, an
  argument of everything that uses them; what is asked of a stream is the locale
  \<open>byte_stream\<close>, interpreted on a pipe that moves a bounded number of bytes a call, and on
  the world in which the worker answers.  The embedder's event sink is an argument, with
  the locale \<open>event_sink\<close>.  The process id, the clocks and the file answers are arguments.

  \<^bold>\<open>Bounds.\<close>  No definition has fuel: the loops are structural recursions or recursions with
  a measure (the bits of a word, the bytes left to send, to receive or to scan).  The
  blocking waits of the threads are the steps that are not yet enabled.  Identities and
  generations wrap where the code wraps; where a theorem needs a counter not to, the
  condition \<open>in_range\<close> of a call says so.

  \<^bold>\<open>Not modelled.\<close>  The messages of errors and events, the printed reports and traces, and
  the times only printed in them; \<^verbatim>\<open>std::hash\<close> of identities; \<^verbatim>\<open>SteadyClock\<close> and \<^verbatim>\<open>ManualClock\<close>,
  which give the clock readings.  The benchmark, the example consumer and the tests call
  the operations modelled here and print what they return.  A socket or a device call is one step of the thread that
  makes it; memory ordering below that is not modelled.
\<close>

end
